(* ===== verification/Prelude.thy ===== *)
theory Prelude
  imports Complex_Main "HOL-Library.Word"
begin

text \<open>
  Shared vocabulary of the development: Rust's machine integers as words with its checked,
  saturating and rounding-up operations, fallible results as sums, the rendering of integers
  used by the code's \<open>format!\<close> calls, and the integer square root of \<open>ruint\<close>.

  Machine arithmetic is that of the release profile (\<open>Cargo.toml\<close> sets no
  \<open>overflow-checks\<close>): \<open>+\<close>, \<open>-\<close>, \<open>*\<close> on fixed-width integers wrap around.
  \<open>usize\<close> counts and lengths are \<open>nat\<close>.
\<close>

unbundle bit_operations_syntax

type_synonym u8 = "8 word"
type_synonym u32 = "32 word"
type_synonym u64 = "64 word"
type_synonym u128 = "128 word"
type_synonym u256 = "256 word"
type_synonym u512 = "512 word"

named_theorems res_simps \<open>unfolding of the result combinators\<close>
named_theorems sat_simps \<open>saturating and checked word operations\<close>

section \<open>Results\<close>

text \<open>
  An \<open>anyhow::Error\<close> is classified by the downcasts the program performs on it. \<open>Panic\<close>
  is not an error value of the program: it is an abort of the task (a failed assertion of the
  standard library, a division by zero, an index out of range).
\<close>

datatype err =
    Bail string
  | ReadUnavailable string
  | ExchangeRejected string
  | HedgeBudgetUnavailable string
  | BandEntryRisk
  | Panic string

type_synonym 'a res = "err + 'a"

fun is_panic :: "err \<Rightarrow> bool" where
  "is_panic (Panic _) = True"
| "is_panic _ = False"

definition rbind :: "'a res \<Rightarrow> ('a \<Rightarrow> 'b res) \<Rightarrow> 'b res" where
  "rbind m k = (case m of Inl e \<Rightarrow> Inl e | Inr x \<Rightarrow> k x)"

definition ensure :: "bool \<Rightarrow> string \<Rightarrow> unit res" where
  "ensure b msg = (if b then Inr () else Inl (Bail msg))"

definition context_opt :: "'a option \<Rightarrow> string \<Rightarrow> 'a res" where
  "context_opt x msg = (case x of None \<Rightarrow> Inl (Bail msg) | Some v \<Rightarrow> Inr v)"

lemma rbind_simps [simp, res_simps]:
  "rbind (Inl e) k = Inl e" "rbind (Inr x) k = k x"
  by (simp_all add: rbind_def)

lemma rbind_eq_Inr [simp]:
  "rbind m k = Inr y \<longleftrightarrow> (\<exists>x. m = Inr x \<and> k x = Inr y)"
  by (cases m) auto

lemma ensure_eq [simp, res_simps]:
  "ensure b msg = Inr u \<longleftrightarrow> b" "ensure True msg = Inr ()" "ensure False msg = Inl (Bail msg)"
  by (auto simp: ensure_def)

lemma ensure_Inl: "ensure b msg = Inl e \<longleftrightarrow> \<not> b \<and> e = Bail msg"
  by (auto simp: ensure_def)

lemma context_opt_eq [simp, res_simps]:
  "context_opt x msg = Inr v \<longleftrightarrow> x = Some v"
  "context_opt (Some w) msg = Inr w"
  "context_opt None msg = Inl (Bail msg)"
  by (auto simp: context_opt_def split: option.splits)

text \<open>\<open>Result::context\<close>: the outermost message of an error is replaced; an abort stays one.\<close>

definition with_context :: "'a res \<Rightarrow> string \<Rightarrow> 'a res" where
  "with_context r msg = (case r of Inl (Bail _) \<Rightarrow> Inl (Bail msg) | _ \<Rightarrow> r)"

lemma with_context_Inr [simp]: "with_context r msg = Inr x \<longleftrightarrow> r = Inr x"
  by (auto simp: with_context_def split: sum.splits err.splits)

section \<open>Machine integers\<close>

definition sat_sub :: "'a::len word \<Rightarrow> 'a word \<Rightarrow> 'a word" where
  "sat_sub a b = (if a \<le> b then 0 else a - b)"

definition sat_add :: "'a::len word \<Rightarrow> 'a word \<Rightarrow> 'a word" where
  "sat_add a b = (if unat a + unat b < 2 ^ LENGTH('a) then a + b else - 1)"

definition sat_mul :: "'a::len word \<Rightarrow> 'a word \<Rightarrow> 'a word" where
  "sat_mul a b = (if unat a * unat b < 2 ^ LENGTH('a) then a * b else - 1)"

definition checked_add :: "'a::len word \<Rightarrow> 'a word \<Rightarrow> 'a word option" where
  "checked_add a b = (if unat a + unat b < 2 ^ LENGTH('a) then Some (a + b) else None)"

definition checked_sub :: "'a::len word \<Rightarrow> 'a word \<Rightarrow> 'a word option" where
  "checked_sub a b = (if b \<le> a then Some (a - b) else None)"

definition checked_mul :: "'a::len word \<Rightarrow> 'a word \<Rightarrow> 'a word option" where
  "checked_mul a b = (if unat a * unat b < 2 ^ LENGTH('a) then Some (a * b) else None)"

definition wmax :: "'a::len word \<Rightarrow> 'a word \<Rightarrow> 'a word" where
  "wmax a b = (if a \<le> b then b else a)"

definition wmin :: "'a::len word \<Rightarrow> 'a word \<Rightarrow> 'a word" where
  "wmin a b = (if a \<le> b then a else b)"

text \<open>\<open>u64::div_ceil\<close>; the divisor is a nonzero literal at every use.\<close>

definition div_ceil :: "'a::len word \<Rightarrow> 'a word \<Rightarrow> 'a word" where
  "div_ceil a b = (if a mod b = 0 then a div b else a div b + 1)"

text \<open>Division of an unsigned integer: Rust panics on a zero divisor.\<close>

definition udiv :: "'a::len word \<Rightarrow> 'a word \<Rightarrow> 'a word res" where
  "udiv a b = (if b = 0 then Inl (Panic ''attempt to divide by zero'') else Inr (a div b))"

text \<open>Evaluation works on the integers: natural numbers compute in unary.\<close>

lemma unat_uint_less:
  "unat a + unat b < 2 ^ LENGTH('a) \<longleftrightarrow> uint (a::'a::len word) + uint b < 2 ^ LENGTH('a)"
  "unat a * unat b < 2 ^ LENGTH('a) \<longleftrightarrow> uint a * uint b < 2 ^ LENGTH('a)"
proof -
  have *: "int (unat w) = uint w" for w :: "'a word" by simp
  show "unat a + unat b < 2 ^ LENGTH('a) \<longleftrightarrow> uint a + uint b < 2 ^ LENGTH('a)"
    unfolding * [symmetric] of_nat_less_iff [symmetric, where 'a = int] by simp
  show "unat a * unat b < 2 ^ LENGTH('a) \<longleftrightarrow> uint a * uint b < 2 ^ LENGTH('a)"
    unfolding * [symmetric] of_nat_less_iff [symmetric, where 'a = int] by simp
qed

lemma sat_add_code [code]:
  "sat_add (a::'a::len word) b = (if uint a + uint b < 2 ^ LENGTH('a) then a + b else - 1)"
  by (simp add: sat_add_def unat_uint_less)

lemma sat_mul_code [code]:
  "sat_mul (a::'a::len word) b = (if uint a * uint b < 2 ^ LENGTH('a) then a * b else - 1)"
  by (simp add: sat_mul_def unat_uint_less)

lemma checked_add_code [code]:
  "checked_add (a::'a::len word) b = (if uint a + uint b < 2 ^ LENGTH('a) then Some (a + b) else None)"
  by (simp add: checked_add_def unat_uint_less)

lemma checked_mul_code [code]:
  "checked_mul (a::'a::len word) b = (if uint a * uint b < 2 ^ LENGTH('a) then Some (a * b) else None)"
  by (simp add: checked_mul_def unat_uint_less)

lemma unat_sat_sub [sat_simps]: "unat (sat_sub a b) = unat a - unat b"
  by (auto simp: sat_sub_def word_le_nat_alt unat_sub_if')

lemma checked_add_Some [sat_simps]: "checked_add a b = Some c \<Longrightarrow> unat c = unat a + unat b"
  by (auto simp: checked_add_def unat_word_ariths split: if_splits)

lemma checked_mul_Some [sat_simps]: "checked_mul a b = Some c \<Longrightarrow> unat c = unat a * unat b"
  by (auto simp: checked_mul_def unat_word_ariths split: if_splits)

lemma checked_sub_Some [sat_simps]: "checked_sub a b = Some c \<Longrightarrow> unat a = unat c + unat b"
  by (auto simp: checked_sub_def word_le_nat_alt unat_sub_if' split: if_splits)

lemma unat_wmax [sat_simps]: "unat (wmax a b) = max (unat a) (unat b)"
  by (auto simp: wmax_def word_le_nat_alt)

lemma unat_wmin [sat_simps]: "unat (wmin a b) = min (unat a) (unat b)"
  by (auto simp: wmin_def word_le_nat_alt)

lemma unat_udiv [sat_simps]: "udiv a b = Inr c \<Longrightarrow> unat c = unat a div unat b"
  by (auto simp: udiv_def unat_div split: if_splits)

section \<open>Rendering\<close>

definition digit_char :: "int \<Rightarrow> char" where
  "digit_char d = char_of (48 + nat d)"

fun show_int :: "int \<Rightarrow> string" where
  "show_int n = (if n < 10 then [digit_char n] else show_int (n div 10) @ [digit_char (n mod 10)])"

declare show_int.simps [simp del]

text \<open>Decimal rendering of an unsigned integer and of a count.\<close>

definition show_word :: "'a::len word \<Rightarrow> string" where
  "show_word w = show_int (uint w)"

definition show_nat :: "nat \<Rightarrow> string" where
  "show_nat n = show_int (int n)"

definition starts_with :: "string \<Rightarrow> string \<Rightarrow> bool" where
  "starts_with p s = (take (length p) s = p)"

lemma starts_with_append [simp]: "starts_with p (p @ s)"
  by (simp add: starts_with_def)

text \<open>\<open>str::contains\<close>\<close>

fun contains :: "string \<Rightarrow> string \<Rightarrow> bool" where
  "contains p [] = (p = [])"
| "contains p (c # s) = (starts_with p (c # s) \<or> contains p s)"

text \<open>ASCII case folding, as \<open>eq_ignore_ascii_case\<close> and \<open>to_ascii_lowercase\<close> do it.\<close>

definition ascii_lower_char :: "char \<Rightarrow> char" where
  "ascii_lower_char c =
     (let n = of_char c :: nat in if 65 \<le> n \<and> n \<le> 90 then char_of (n + 32) else c)"

definition ascii_lower :: "string \<Rightarrow> string" where
  "ascii_lower s = map ascii_lower_char s"

definition eq_ignore_case :: "string \<Rightarrow> string \<Rightarrow> bool" where
  "eq_ignore_case a b = (ascii_lower a = ascii_lower b)"

lemma eq_ignore_case_refl [simp]: "eq_ignore_case a a"
  by (simp add: eq_ignore_case_def)

lemma eq_ignore_case_sym: "eq_ignore_case a b = eq_ignore_case b a"
  by (auto simp: eq_ignore_case_def)

lemma eq_ignore_case_trans: "eq_ignore_case a b \<Longrightarrow> eq_ignore_case b c \<Longrightarrow> eq_ignore_case a c"
  by (auto simp: eq_ignore_case_def)

section \<open>Integer square root, binary logarithm, powers of two\<close>

function isqrt :: "int \<Rightarrow> int" where
  "isqrt n = (if n \<le> 0 then 0
     else let r = 2 * isqrt (n div 4) in if (r + 1) * (r + 1) \<le> n then r + 1 else r)"
  by pat_completeness auto
termination
  by (relation "measure nat") auto

declare isqrt.simps [simp del]

lemma isqrt_nonneg [simp]: "0 \<le> isqrt n"
  by (induction n rule: isqrt.induct) (subst isqrt.simps, auto simp: Let_def)

lemma isqrt_bounds: "0 \<le> n \<Longrightarrow> isqrt n * isqrt n \<le> n \<and> n < (isqrt n + 1) * (isqrt n + 1)"
proof (induction n rule: isqrt.induct)
  case (1 n)
  show ?case
  proof (cases "n \<le> 0")
    case True
    with 1 show ?thesis by (simp add: isqrt.simps)
  next
    case False
    define s where "s = isqrt (n div 4)"
    from 1 False have s: "s * s \<le> n div 4" "n div 4 < (s + 1) * (s + 1)"
      by (auto simp: s_def)
    have "4 * (n div 4) \<le> n" "n < 4 * (n div 4) + 4" by presburger+
    moreover from s(2) have "n div 4 + 1 \<le> (s + 1) * (s + 1)" by simp
    ultimately have "(2 * s) * (2 * s) \<le> n" "n < (2 * s + 2) * (2 * s + 2)"
      using s(1) by (simp_all add: algebra_simps)
    moreover have "isqrt n = (if (2 * s + 1) * (2 * s + 1) \<le> n then 2 * s + 1 else 2 * s)"
      using False by (simp add: isqrt.simps [of n] s_def Let_def)
    ultimately show ?thesis by (auto simp: algebra_simps)
  qed
qed

lemma square_le_cancel: "0 \<le> b \<Longrightarrow> a * a < (b + 1) * (b + 1) \<Longrightarrow> (a::int) \<le> b"
  by (rule ccontr) (metis add_nonneg_nonneg leD linorder_not_le mult_mono' zero_le_one zless_imp_add1_zle)

lemma isqrt_unique:
  assumes "0 \<le> r" "r * r \<le> n" "n < (r + 1) * (r + 1)" shows "isqrt n = r"
proof -
  have "0 \<le> n" using assms(2) by (meson order_trans zero_le_square)
  note b = isqrt_bounds [OF this]
  from b assms(3) have "isqrt n * isqrt n < (r + 1) * (r + 1)" by linarith
  moreover from b assms(2) have "r * r < (isqrt n + 1) * (isqrt n + 1)" by linarith
  ultimately show ?thesis
    using square_le_cancel [OF assms(1)] square_le_cancel [OF isqrt_nonneg] by (metis antisym)
qed

lemma isqrt_mono: assumes "0 \<le> a" "a \<le> b" shows "isqrt a \<le> isqrt b"
proof -
  have "isqrt a * isqrt a < (isqrt b + 1) * (isqrt b + 1)"
    using isqrt_bounds [of a] isqrt_bounds [of b] assms by linarith
  then show ?thesis by (rule square_le_cancel [OF isqrt_nonneg])
qed

lemma isqrt_square [simp]: "0 \<le> n \<Longrightarrow> isqrt (n * n) = n"
  by (rule isqrt_unique) (simp_all add: algebra_simps)

function ilog2 :: "int \<Rightarrow> int" where
  "ilog2 n = (if n < 2 then 0 else 1 + ilog2 (n div 2))"
  by pat_completeness auto
termination
  by (relation "measure nat") auto

declare ilog2.simps [simp del]

lemma ilog2_nonneg [simp]: "0 \<le> ilog2 n"
  by (induction n rule: ilog2.induct) (subst ilog2.simps, auto)

lemma ilog2_bounds: "0 < n \<Longrightarrow> 2 ^ nat (ilog2 n) \<le> n \<and> n < 2 ^ (nat (ilog2 n) + 1)"
proof (induction n rule: ilog2.induct)
  case (1 n)
  show ?case
  proof (cases "n < 2")
    case True
    with 1 show ?thesis by (auto simp: ilog2.simps)
  next
    case False
    then have "0 < n div 2" by auto
    with 1 False have ih: "2 ^ nat (ilog2 (n div 2)) \<le> n div 2"
        "n div 2 < 2 ^ (nat (ilog2 (n div 2)) + 1)"
      by auto
    have "2 * (n div 2) \<le> n" "n < 2 * (n div 2) + 2" by auto
    with ih have "2 * 2 ^ nat (ilog2 (n div 2)) \<le> n" "n < 2 * (2 * 2 ^ nat (ilog2 (n div 2)))"
      by simp_all
    then show ?thesis using False by (simp add: ilog2.simps [of n] nat_add_distrib)
  qed
qed

function ipow2 :: "int \<Rightarrow> int" where
  "ipow2 k = (if k \<le> 0 then 1
     else let h = ipow2 (k div 2) in if k mod 2 = 0 then h * h else 2 * (h * h))"
  by pat_completeness auto
termination
  by (relation "measure nat") auto

declare ipow2.simps [simp del]

lemma ipow2_eq: "ipow2 k = 2 ^ nat k"
proof (induction k rule: ipow2.induct)
  case (1 k)
  show ?case
  proof (cases "k \<le> 0")
    case True
    then show ?thesis by (simp add: ipow2.simps)
  next
    case False
    with 1 have h: "ipow2 (k div 2) = 2 ^ nat (k div 2)" by simp
    have "(2::int) ^ nat (k div 2) * 2 ^ nat (k div 2) = 2 ^ nat (2 * (k div 2))"
    proof -
      have "nat (2 * (k div 2)) = nat (k div 2) + nat (k div 2)" using False by linarith
      then show ?thesis by (simp only: power_add)
    qed
    moreover have "nat k = (if k mod 2 = 0 then nat (2 * (k div 2)) else Suc (nat (2 * (k div 2))))"
    proof -
      have "k = 2 * (k div 2) + k mod 2" "k mod 2 = 0 \<or> k mod 2 = 1" by presburger+
      then consider "k mod 2 = 0" "k = 2 * (k div 2)" | "k mod 2 = 1" "k = 2 * (k div 2) + 1" by linarith
      then show ?thesis
      proof cases
        case 1
        then show ?thesis by simp
      next
        case 2
        have "nat k = nat (2 * (k div 2) + 1)" by (rule arg_cong [OF 2(2)])
        also have "\<dots> = Suc (nat (2 * (k div 2)))" using False by linarith
        finally show ?thesis using 2(1) by simp
      qed
    qed
    moreover have "ipow2 k = (if k mod 2 = 0 then ipow2 (k div 2) * ipow2 (k div 2)
        else 2 * (ipow2 (k div 2) * ipow2 (k div 2)))"
      using False by (simp only: ipow2.simps [of k] Let_def if_False)
    ultimately show ?thesis unfolding h by (cases "k mod 2 = 0") simp_all
  qed
qed

end
