(* ===== verification/F64.thy ===== *)
theory F64
  imports Prelude
begin

text \<open>
  Rust's \<open>f64\<close>: IEEE 754 binary64 with round-to-nearest-even, over exact rationals. A value is
  NaN (one class: no code of the program inspects payloads), an infinity, the negative zero, or
  \<open>Fin q\<close>. Arithmetic computes the exact rational and rounds once (\<open>rnd\<close>), so results are bit
  for bit those of the hardware; comparisons are the unordered ones of IEEE. \<open>sqrt\<close> is correctly
  rounded, as Rust guarantees. The functions whose precision Rust leaves unspecified (\<open>ln\<close>,
  \<open>ln_1p\<close>, \<open>powi\<close>, \<open>log10\<close>) are a parameter of the definitions that use them (\<open>libm\<close>).
\<close>

datatype f64 = NaN | Infinite (inf_neg: bool) | NegZero | Fin rat

record libm =
  ln_fn :: "f64 \<Rightarrow> f64"
  ln_1p_fn :: "f64 \<Rightarrow> f64"
  powi_fn :: "f64 \<Rightarrow> int \<Rightarrow> f64"

section \<open>Rounding\<close>

definition pow2 :: "int \<Rightarrow> rat" where
  "pow2 k = 2 powi k"

lemma pow2_code [code]: "pow2 k = (if 0 \<le> k then of_int (ipow2 k) else 1 / of_int (ipow2 (- k)))"
  by (simp add: pow2_def power_int_def ipow2_eq inverse_eq_divide power_one_over)

definition rlog2 :: "rat \<Rightarrow> int" where
  "rlog2 q =
     (case quotient_of q of (n, d) \<Rightarrow>
        let e = ilog2 n - ilog2 d in if pow2 e \<le> q then e else e - 1)"

definition rne :: "rat \<Rightarrow> int" where
  "rne q =
     (let f = \<lfloor>q\<rfloor>; r = q - of_int f
      in if r < 1 / 2 then f else if r > 1 / 2 then f + 1 else if even f then f else f + 1)"

text \<open>Exponent of the unit in the last place: 53-bit significands, gradual underflow.\<close>

definition qexp :: "rat \<Rightarrow> int" where
  "qexp q = max (rlog2 \<bar>q\<bar> - 52) (- 1074)"

definition round_to :: "int \<Rightarrow> rat \<Rightarrow> rat" where
  "round_to k q = of_int (rne (q / pow2 k)) * pow2 k"

definition rndv :: "rat \<Rightarrow> rat" where
  "rndv q = (if q = 0 then 0 else round_to (qexp q) q)"

text \<open>The first argument is the sign of an exact or underflowed zero.\<close>

definition pack :: "bool \<Rightarrow> rat \<Rightarrow> f64" where
  "pack s v =
     (if v = 0 then (if s then NegZero else Fin 0)
      else if \<bar>v\<bar> \<ge> pow2 1024 then Infinite (v < 0) else Fin v)"

definition rnd :: "bool \<Rightarrow> rat \<Rightarrow> f64" where
  "rnd s q = pack s (rndv q)"

text \<open>A decimal literal of the source, and the integer-to-float casts.\<close>

definition lit :: "rat \<Rightarrow> f64" where
  "lit q = rnd False q"

definition f_of_nat :: "nat \<Rightarrow> f64" where
  "f_of_nat n = lit (of_nat n)"

definition f_of_int :: "int \<Rightarrow> f64" where
  "f_of_int i = lit (of_int i)"

definition f_of_word :: "'a::len word \<Rightarrow> f64" where
  "f_of_word w = lit (of_int (uint w))"

section \<open>Classification and order\<close>

fun fval :: "f64 \<Rightarrow> rat" where
  "fval (Fin q) = q"
| "fval _ = 0"

fun is_nan :: "f64 \<Rightarrow> bool" where
  "is_nan NaN = True"
| "is_nan _ = False"

fun is_finite :: "f64 \<Rightarrow> bool" where
  "is_finite (Fin _) = True"
| "is_finite NegZero = True"
| "is_finite _ = False"

fun fneg :: "f64 \<Rightarrow> bool" where
  "fneg NaN = False"
| "fneg (Infinite s) = s"
| "fneg NegZero = True"
| "fneg (Fin q) = (q < 0)"

text \<open>Position on the extended line; NaN is excluded by every comparison.\<close>

fun frank :: "f64 \<Rightarrow> int" where
  "frank (Infinite s) = (if s then - 1 else 1)"
| "frank _ = 0"

section \<open>Arithmetic\<close>

fun f_neg :: "f64 \<Rightarrow> f64" where
  "f_neg NaN = NaN"
| "f_neg (Infinite s) = Infinite (\<not> s)"
| "f_neg NegZero = Fin 0"
| "f_neg (Fin q) = (if q = 0 then NegZero else Fin (- q))"

fun f_abs :: "f64 \<Rightarrow> f64" where
  "f_abs NaN = NaN"
| "f_abs (Infinite s) = Infinite False"
| "f_abs NegZero = Fin 0"
| "f_abs (Fin q) = Fin \<bar>q\<bar>"

definition f_add :: "f64 \<Rightarrow> f64 \<Rightarrow> f64" where
  "f_add a b =
     (if is_nan a \<or> is_nan b then NaN
      else if \<not> is_finite a then (if \<not> is_finite b \<and> fneg a \<noteq> fneg b then NaN else a)
      else if \<not> is_finite b then b
      else rnd (a = NegZero \<and> b = NegZero) (fval a + fval b))"

definition f_mul :: "f64 \<Rightarrow> f64 \<Rightarrow> f64" where
  "f_mul a b =
     (let s = (fneg a \<noteq> fneg b)
      in if is_nan a \<or> is_nan b then NaN
         else if \<not> is_finite a \<or> \<not> is_finite b
           then (if is_finite a \<and> fval a = 0 \<or> is_finite b \<and> fval b = 0 then NaN else Infinite s)
         else rnd s (fval a * fval b))"

definition f_div :: "f64 \<Rightarrow> f64 \<Rightarrow> f64" where
  "f_div a b =
     (let s = (fneg a \<noteq> fneg b)
      in if is_nan a \<or> is_nan b then NaN
         else if \<not> is_finite a then (if is_finite b then Infinite s else NaN)
         else if \<not> is_finite b then (if s then NegZero else Fin 0)
         else if fval b = 0 then (if fval a = 0 then NaN else Infinite s)
         else rnd s (fval a / fval b))"

text \<open>
  Correctly rounded square root: the candidate significand is the integer square root at the
  result's exponent, and the exact square of the midpoint decides the rounding.
\<close>

definition sqrt_v :: "rat \<Rightarrow> rat" where
  "sqrt_v q =
     (let k = max (rlog2 q div 2 - 52) (- 1074);
          x = q / (pow2 k * pow2 k);
          m = isqrt \<lfloor>x\<rfloor>;
          h = (of_int m + 1 / 2) * (of_int m + 1 / 2)
      in of_int (if x < h then m else if x > h then m + 1 else if even m then m else m + 1) * pow2 k)"

definition f_sqrt :: "f64 \<Rightarrow> f64" where
  "f_sqrt a =
     (case a of NaN \<Rightarrow> NaN | NegZero \<Rightarrow> NegZero | Infinite s \<Rightarrow> (if s then NaN else Infinite False)
      | Fin q \<Rightarrow> if q < 0 then NaN else if q = 0 then Fin 0 else pack False (sqrt_v q))"

instantiation f64 :: "{zero, one, plus, minus, uminus, times, inverse, abs, ord}"
begin

definition zero_f64 :: f64 where "0 = Fin 0"
definition one_f64 :: f64 where "1 = Fin 1"
definition plus_f64 :: "f64 \<Rightarrow> f64 \<Rightarrow> f64" where "a + b = f_add a b"
definition uminus_f64 :: "f64 \<Rightarrow> f64" where "- a = f_neg a"
definition minus_f64 :: "f64 \<Rightarrow> f64 \<Rightarrow> f64" where "a - b = f_add a (f_neg b)"
definition times_f64 :: "f64 \<Rightarrow> f64 \<Rightarrow> f64" where "a * b = f_mul a b"
definition divide_f64 :: "f64 \<Rightarrow> f64 \<Rightarrow> f64" where "a div b = f_div a b"
definition inverse_f64 :: "f64 \<Rightarrow> f64" where "inverse a = f_div (Fin 1) a"
definition abs_f64 :: "f64 \<Rightarrow> f64" where "\<bar>a\<bar> = f_abs a"
definition less_f64 :: "f64 \<Rightarrow> f64 \<Rightarrow> bool" where
  "a < b \<longleftrightarrow> \<not> is_nan a \<and> \<not> is_nan b \<and> (frank a < frank b \<or> frank a = frank b \<and> fval a < fval b)"
definition less_eq_f64 :: "f64 \<Rightarrow> f64 \<Rightarrow> bool" where
  "a \<le> b \<longleftrightarrow> \<not> is_nan a \<and> \<not> is_nan b \<and> (frank a < frank b \<or> frank a = frank b \<and> fval a \<le> fval b)"

instance ..

end

text \<open>
  \<open>==\<close> on floats identifies the two zeros and is false on NaN; HOL equality does neither.
\<close>

definition f_eq :: "f64 \<Rightarrow> f64 \<Rightarrow> bool" where
  "f_eq a b \<longleftrightarrow> a \<le> b \<and> b \<le> a"

text \<open>
  \<open>f64::max\<close> and \<open>f64::min\<close> return the other argument when one is NaN. Where the arguments
  compare equal, Rust may return either; the model returns the first.
\<close>

definition f_max :: "f64 \<Rightarrow> f64 \<Rightarrow> f64" where
  "f_max a b = (if is_nan a then b else if a < b then b else a)"

definition f_min :: "f64 \<Rightarrow> f64 \<Rightarrow> f64" where
  "f_min a b = (if is_nan a then b else if b < a then b else a)"

text \<open>\<open>f64::clamp\<close> asserts \<open>min <= max\<close>.\<close>

definition f_clamp :: "f64 \<Rightarrow> f64 \<Rightarrow> f64 \<Rightarrow> f64 res" where
  "f_clamp x lo hi =
     (if \<not> lo \<le> hi then Inl (Panic ''min > max, or either was NaN'')
      else Inr (if x < lo then lo else if hi < x then hi else x))"

text \<open>\<open>iter().sum::<f64>()\<close> folds from the left, starting at \<open>-0.0\<close>.\<close>

definition f_sum :: "f64 list \<Rightarrow> f64" where
  "f_sum xs = foldl (+) NegZero xs"

fun f_floor :: "f64 \<Rightarrow> f64" where
  "f_floor (Fin q) = Fin (of_int \<lfloor>q\<rfloor>)"
| "f_floor a = a"

fun f_ceil :: "f64 \<Rightarrow> f64" where
  "f_ceil (Fin q) = (if q < 0 \<and> \<lceil>q\<rceil> = 0 then NegZero else Fin (of_int \<lceil>q\<rceil>))"
| "f_ceil a = a"

text \<open>\<open>as i32\<close>: truncation towards zero, saturating, NaN to zero.\<close>

fun f_to_i32 :: "f64 \<Rightarrow> int" where
  "f_to_i32 NaN = 0"
| "f_to_i32 NegZero = 0"
| "f_to_i32 (Infinite s) = (if s then - (2 ^ 31) else 2 ^ 31 - 1)"
| "f_to_i32 (Fin q) = max (- (2 ^ 31)) (min (2 ^ 31 - 1) (if q < 0 then \<lceil>q\<rceil> else \<lfloor>q\<rfloor>))"

text \<open>The values of the type proper: those \<open>rnd\<close> produces.\<close>

definition representable :: "rat \<Rightarrow> bool" where
  "representable v \<longleftrightarrow> \<bar>v\<bar> < pow2 1024 \<and> rndv v = v"

fun f64_ok :: "f64 \<Rightarrow> bool" where
  "f64_ok (Fin q) = representable q"
| "f64_ok _ = True"

end
