(* ===== verification/F64_Facts.thy ===== *)
theory F64_Facts
  imports F64
begin

text \<open>
  Facts about the binary64 model: the rounding function is monotone, odd, idempotent and exact
  on representable values; every operation returns a representable value; comparison is a
  strict partial order that excludes NaN; addition and multiplication respect signs and order.
\<close>

named_theorems f64_order \<open>order facts on binary64 values\<close>

declare pow2_def [simp]

section \<open>Logarithm and nearest integer\<close>

lemma powi_pos [simp]: "(0::rat) < 2 powi k"
  by (simp add: zero_less_power_int)

lemma powi_add_rat: "(2::rat) powi (a + b) = 2 powi a * 2 powi b"
  by (simp add: power_int_add)

lemma powi_diff_rat: "(2::rat) powi (a - b) = 2 powi a / 2 powi b"
  by (simp add: power_int_diff)

lemma powi_le_iff: "(2::rat) powi a \<le> 2 powi b \<longleftrightarrow> a \<le> b"
  by (metis linorder_not_le one_less_numeral_iff power_int_increasing power_int_strict_increasing
      order_less_imp_le semiring_norm(76) leD)

lemma powi_less_iff: "(2::rat) powi a < 2 powi b \<longleftrightarrow> a < b"
  by (metis linorder_not_le powi_le_iff)

lemma powi_int_multiple: "k \<le> j \<Longrightarrow> \<exists>n::int. (2::rat) powi j = of_int n * 2 powi k"
proof -
  assume "k \<le> j"
  then have "(2::rat) powi j = 2 powi (j - k) * 2 powi k"
    by (simp add: powi_add_rat [symmetric])
  moreover have "(2::rat) powi (j - k) = of_int (2 ^ nat (j - k))"
    using \<open>k \<le> j\<close> by (simp add: power_int_def)
  ultimately show ?thesis by metis
qed

lemma rlog2_bounds:
  assumes "0 < q"
  shows "2 powi rlog2 q \<le> q" "q < 2 powi (rlog2 q + 1)"
proof -
  obtain n d where nd: "quotient_of q = (n, d)" by (cases "quotient_of q")
  then have q: "q = of_int n / of_int d" and d: "0 < d"
    by (auto simp: quotient_of_div quotient_of_denom_pos)
  with assms have n: "0 < n" by (simp add: zero_less_divide_iff)
  define a b where "a = nat (ilog2 n)" and "b = nat (ilog2 d)"
  have na: "2 ^ a \<le> n" "n < 2 ^ (a + 1)" and db: "2 ^ b \<le> d" "d < 2 ^ (b + 1)"
    using ilog2_bounds [of n] ilog2_bounds [of d] n d by (auto simp: a_def b_def)
  have "(2::rat) ^ a \<le> of_int n" "(of_int n :: rat) < 2 ^ (a + 1)"
    "(2::rat) ^ b \<le> of_int d" "(of_int d :: rat) < 2 ^ (b + 1)"
    using na db by (metis of_int_le_iff of_int_less_iff of_int_numeral of_int_power)+
  note R = this
  have dpos: "(0::rat) < of_int d" using d by simp
  have up: "q < 2 powi (int a - int b + 1)"
  proof -
    have "q \<le> of_int n / 2 ^ b" unfolding q
      using R(3) n dpos by (intro divide_left_mono mult_pos_pos) auto
    also have "\<dots> < 2 ^ (a + 1) / 2 ^ b" using R(2) by (simp add: divide_strict_right_mono)
    also have "\<dots> = 2 powi (int a - int b + 1)"
      by (simp add: power_int_add power_int_diff)
    finally show ?thesis .
  qed
  have low: "2 powi (int a - int b - 1) < q"
  proof -
    have "2 powi (int a - int b - 1) = (2::rat) ^ a / 2 ^ (b + 1)"
      by (simp add: power_int_diff)
    also have "\<dots> \<le> of_int n / 2 ^ (b + 1)" using R(1) by (simp add: divide_right_mono)
    also have "\<dots> < q" unfolding q using R(4) n dpos
      by (intro divide_strict_left_mono) auto
    finally show ?thesis .
  qed
  have e: "rlog2 q = (if 2 powi (int a - int b) \<le> q then int a - int b else int a - int b - 1)"
    by (simp add: rlog2_def nd a_def b_def Let_def)
  show "2 powi rlog2 q \<le> q" using e low by auto
  show "q < 2 powi (rlog2 q + 1)" using e up by auto
qed

lemma rlog2_less: "0 < q \<Longrightarrow> q < 2 powi j \<Longrightarrow> rlog2 q < j"
  using rlog2_bounds(1) [of q] by (metis le_less_trans powi_less_iff)

lemma rlog2_mono: "0 < q \<Longrightarrow> q \<le> r \<Longrightarrow> rlog2 q \<le> rlog2 r"
proof -
  assume "0 < q" "q \<le> r"
  then have "q < 2 powi (rlog2 r + 1)" using rlog2_bounds(2) [of r] by simp
  then show ?thesis using rlog2_less [OF \<open>0 < q\<close>] by force
qed

lemma rne_near: "\<bar>of_int (rne x) - x\<bar> \<le> 1 / 2"
  unfolding rne_def Let_def
  using floor_correct [of x] by (auto simp: abs_le_iff split: if_splits)

lemma rne_of_int [simp]: "rne (of_int n) = n"
  by (simp add: rne_def)

lemma rne_0 [simp]: "rne 0 = 0"
  using rne_of_int [of 0] by simp

lemma rne_mono: "x \<le> y \<Longrightarrow> rne x \<le> rne y"
proof -
  assume xy: "x \<le> y"
  then have "\<lfloor>x\<rfloor> \<le> \<lfloor>y\<rfloor>" by (rule floor_mono)
  then consider "\<lfloor>x\<rfloor> = \<lfloor>y\<rfloor>" | "\<lfloor>x\<rfloor> + 1 \<le> \<lfloor>y\<rfloor>" by linarith
  then show ?thesis
  proof cases
    case 1
    then show ?thesis using xy by (auto simp: rne_def Let_def)
  next
    case 2
    then show ?thesis by (auto simp: rne_def Let_def)
  qed
qed

lemma rne_minus: "rne (- x) = - rne x"
proof (cases "x \<in> \<int>")
  case True
  then obtain n where "x = of_int n" by (auto elim: Ints_cases)
  then show ?thesis by (metis of_int_minus rne_of_int)
next
  case False
  then have "\<lfloor>- x\<rfloor> = - \<lfloor>x\<rfloor> - 1"
    by (simp add: floor_minus ceiling_altdef)
       (metis Ints_of_int)
  then show ?thesis by (auto simp: rne_def Let_def)
qed

section \<open>Rounding\<close>

lemma round_to_mono: "x \<le> y \<Longrightarrow> round_to k x \<le> round_to k y"
  by (simp add: round_to_def rne_mono divide_right_mono)

lemma round_to_minus: "round_to k (- x) = - round_to k x"
  by (simp add: round_to_def rne_minus)

lemma round_to_exact: "round_to k (of_int n * 2 powi k) = of_int n * 2 powi k"
  by (simp add: round_to_def)

lemma round_to_near: "\<bar>round_to k x - x\<bar> \<le> 2 powi k / 2"
proof -
  have "round_to k x - x = (of_int (rne (x / 2 powi k)) - x / 2 powi k) * 2 powi k"
    by (simp add: round_to_def algebra_simps)
  then have "\<bar>round_to k x - x\<bar> = \<bar>of_int (rne (x / 2 powi k)) - x / 2 powi k\<bar> * 2 powi k"
    by (simp add: abs_mult)
  also have "\<dots> \<le> 1 / 2 * 2 powi k"
    by (intro mult_right_mono rne_near) simp
  finally show ?thesis by simp
qed

lemma qexp_minus [simp]: "qexp (- x) = qexp x"
  by (simp add: qexp_def)

lemma rndv_minus: "rndv (- q) = - rndv q"
  by (simp add: rndv_def round_to_minus)

lemma rndv_0 [simp]: "rndv 0 = 0"
  by (simp add: rndv_def)

lemma rndv_nonneg: "0 \<le> q \<Longrightarrow> 0 \<le> rndv q"
proof -
  assume "0 \<le> q"
  then have "round_to k 0 \<le> round_to k q" for k by (rule round_to_mono)
  then have "0 \<le> round_to (qexp q) q" by (metis round_to_def rne_0 div_0 of_int_0 mult_zero_left)
  then show ?thesis by (simp add: rndv_def)
qed

lemma rndv_mono_pos:
  assumes "0 < x" "x \<le> y" shows "rndv x \<le> rndv y"
proof (cases "qexp x = qexp y")
  case True
  with assms show ?thesis by (simp add: rndv_def round_to_mono)
next
  case False
  define e where "e = rlog2 y"
  have "rlog2 x \<le> e" using assms by (simp add: e_def rlog2_mono)
  with False assms have ky: "qexp y = e - 52" and kx: "qexp x < e - 52" and lt: "rlog2 x < e"
    by (auto simp: qexp_def e_def max_def split: if_splits)
  have "x < 2 powi (rlog2 x + 1)" using assms by (intro rlog2_bounds) simp
  also have "(2::rat) powi (rlog2 x + 1) \<le> 2 powi e" using lt by (simp add: powi_le_iff)
  finally have xe: "x \<le> 2 powi e" by simp
  have ey: "2 powi e \<le> y" using assms by (auto simp: e_def intro: rlog2_bounds)
  obtain n where n: "(2::rat) powi e = of_int n * 2 powi qexp x"
    using powi_int_multiple [of "qexp x" e] kx by auto
  obtain m where m: "(2::rat) powi e = of_int m * 2 powi qexp y"
    using powi_int_multiple [of "qexp y" e] ky by auto
  have "rndv x \<le> 2 powi e"
    using round_to_mono [OF xe, of "qexp x"] assms by (simp add: rndv_def n round_to_exact)
  also have "2 powi e \<le> rndv y"
    using round_to_mono [OF ey, of "qexp y"] assms by (simp add: rndv_def m round_to_exact)
  finally show ?thesis .
qed

lemma rndv_mono: "x \<le> y \<Longrightarrow> rndv x \<le> rndv y"
proof -
  assume xy: "x \<le> y"
  consider "0 < x" | "x \<le> 0" "0 \<le> y" | "y < 0" by linarith
  then show ?thesis
  proof cases
    case 1
    then show ?thesis using xy by (rule rndv_mono_pos)
  next
    case 2
    then show ?thesis using rndv_nonneg [of y] rndv_nonneg [of "- x"] by (simp add: rndv_minus)
  next
    case 3
    then show ?thesis using rndv_mono_pos [of "- y" "- x"] xy by (simp add: rndv_minus)
  qed
qed

text \<open>Every multiple of a power of two with a 53-bit significand is a fixed point.\<close>

lemma rndv_exact_pos:
  assumes "0 < m" "m \<le> 2 ^ 53" "- 1074 \<le> j"
  shows "rndv (of_int m * 2 powi j) = of_int m * 2 powi j"
proof -
  define v :: rat where "v = of_int m * 2 powi j"
  have vpos: "0 < v" using assms by (simp add: v_def)
  have vle: "v \<le> 2 powi (j + 53)"
  proof -
    have "(of_int m :: rat) \<le> of_int (2 ^ 53)" using assms(2) by (simp only: of_int_le_iff)
    then have "v \<le> of_int (2 ^ 53) * 2 powi j" unfolding v_def by (intro mult_right_mono) auto
    also have "\<dots> = 2 powi (j + 53)" by (simp add: powi_add_rat)
    finally show ?thesis .
  qed
  have "\<exists>n::int. v = of_int n * 2 powi qexp v"
  proof (cases "qexp v \<le> j")
    case True
    from powi_int_multiple [OF this] obtain n where "(2::rat) powi j = of_int n * 2 powi qexp v" ..
    then have "v = of_int (m * n) * 2 powi qexp v" by (simp add: v_def)
    then show ?thesis by blast
  next
    case False
    then have q: "qexp v = rlog2 v - 52" "j < rlog2 v - 52"
      using assms vpos by (auto simp: qexp_def max_def split: if_splits)
    have "2 powi rlog2 v \<le> v" using vpos by (rule rlog2_bounds)
    with vle have "rlog2 v \<le> j + 53" by (metis order_trans powi_le_iff)
    with q(2) have "rlog2 v = j + 53" by linarith
    with \<open>2 powi rlog2 v \<le> v\<close> vle have "v = 2 powi (j + 53)" by simp
    then show ?thesis
      using powi_int_multiple [of "qexp v" "j + 53"] q \<open>rlog2 v = j + 53\<close> by auto
  qed
  then obtain n where n: "v = of_int n * 2 powi qexp v" ..
  have "rndv v = round_to (qexp v) v" using vpos by (simp add: rndv_def)
  also have "\<dots> = v" by (subst (2) n, subst round_to_exact) (rule n [symmetric])
  finally show ?thesis by (simp add: v_def)
qed

lemma rndv_exact:
  assumes "\<bar>m\<bar> \<le> 2 ^ 53" "- 1074 \<le> j"
  shows "rndv (of_int m * 2 powi j) = of_int m * 2 powi j"
proof -
  consider "0 < m" | "m = 0" | "0 < - m" by linarith
  then show ?thesis
  proof cases
    case 1
    then show ?thesis using assms by (intro rndv_exact_pos) auto
  next
    case 2
    then show ?thesis by simp
  next
    case 3
    then have "rndv (- (of_int (- m) * 2 powi j)) = - (of_int (- m) * 2 powi j)"
      using assms unfolding rndv_minus by (subst rndv_exact_pos) auto
    then show ?thesis by simp
  qed
qed

lemma rndv_form: "\<exists>m j. rndv q = of_int m * 2 powi j \<and> \<bar>m\<bar> \<le> 2 ^ 53 \<and> - 1074 \<le> j"
proof (cases "q = 0")
  case True
  then show ?thesis by (intro exI [of _ 0] exI [of _ "0::int"]) simp
next
  case False
  define k where "k = qexp q"
  define x where "x = q / 2 powi k"
  have "\<bar>q\<bar> < 2 powi (rlog2 \<bar>q\<bar> + 1)" using False by (intro rlog2_bounds) simp
  also have "(2::rat) powi (rlog2 \<bar>q\<bar> + 1) \<le> 2 powi (k + 53)"
    by (simp add: powi_le_iff k_def qexp_def)
  finally have "\<bar>x\<bar> < 2 powi 53"
    by (simp add: x_def powi_add_rat pos_divide_less_eq mult.commute)
  then have "x \<le> of_int (2 ^ 53)" "of_int (- (2 ^ 53)) \<le> x" by auto
  then have "rne x \<le> 2 ^ 53" "- (2 ^ 53) \<le> rne x"
    using rne_mono [of x "of_int (2 ^ 53)"] rne_mono [of "of_int (- (2 ^ 53))" x]
    unfolding rne_of_int by auto
  then have "\<bar>rne x\<bar> \<le> 2 ^ 53" by simp
  moreover have "rndv q = of_int (rne x) * 2 powi k"
    using False by (simp add: rndv_def round_to_def x_def k_def)
  moreover have "- 1074 \<le> k" by (simp add: k_def qexp_def)
  ultimately show ?thesis by blast
qed

lemma rndv_idem [simp]: "rndv (rndv q) = rndv q"
  using rndv_form [of q] rndv_exact by auto


text \<open>
  A code equation with a short cut for dyadic rationals of at most 53 bits, which are exact; it
  keeps the evaluation of concrete runs cheap.
\<close>

lemma rndv_round_to: "rndv q = round_to (qexp q) q"
  by (simp add: rndv_def round_to_def)

lemma rndv_code [code]:
  "rndv q =
     (case quotient_of q of (n, d) \<Rightarrow>
        if \<bar>n\<bar> \<le> 9007199254740992 \<and> ilog2 d \<le> 1074 \<and> d = ipow2 (ilog2 d) then q
        else round_to (qexp q) q)"
proof -
  obtain n d where nd: "quotient_of q = (n, d)" by (cases "quotient_of q")
  then have q: "q = of_int n / of_int d" by (rule quotient_of_div)
  show ?thesis
  proof (cases "\<bar>n\<bar> \<le> 9007199254740992 \<and> ilog2 d \<le> 1074 \<and> d = ipow2 (ilog2 d)")
    case True
    define k where "k = ilog2 d"
    have k: "0 \<le> k" "k \<le> 1074" "d = ipow2 k" using True by (simp_all only: k_def ilog2_nonneg)
    have "(2::rat) powi k = of_int d" using k(1) unfolding k(3) ipow2_eq by (simp add: power_int_def)
    then have "q = of_int n * 2 powi (- k)" unfolding q power_int_minus by (simp add: divide_simps)
    moreover have "\<bar>n\<bar> \<le> 2 ^ 53" "- 1074 \<le> - k" using True k(2) by simp_all
    ultimately have "rndv q = q" using rndv_exact [of n "- k"] by (simp only:)
    then show ?thesis unfolding nd split by (simp only: if_P [OF True])
  next
    case False
    then show ?thesis unfolding nd split rndv_round_to by (simp only: False if_False)
  qed
qed

section \<open>Packing and representability\<close>

lemma pack_code [code]:
  "pack s v =
     (if v = 0 then (if s then NegZero else Fin 0)
      else if \<bar>v\<bar> \<le> 9007199254740992 then Fin v
      else if \<bar>v\<bar> \<ge> pow2 1024 then Infinite (v < 0) else Fin v)"
proof -
  have "(9007199254740992::rat) < 2 ^ 1024" by simp
  then have "\<bar>v\<bar> \<le> 9007199254740992 \<Longrightarrow> \<not> pow2 1024 \<le> \<bar>v\<bar>" by (simp add: pow2_def)
  then show ?thesis by (auto simp: pack_def)
qed

lemma representable_rndv: "\<bar>rndv q\<bar> < 2 ^ 1024 \<Longrightarrow> representable (rndv q)"
  by (simp add: representable_def)

lemma representable_0 [simp]: "representable 0"
  by (simp add: representable_def)

lemma representable_int: "\<bar>n\<bar> \<le> 2 ^ 53 \<Longrightarrow> representable (of_int n)"
proof -
  assume n: "\<bar>n\<bar> \<le> 2 ^ 53"
  then have "\<bar>of_int n :: rat\<bar> \<le> of_int (2 ^ 53)" by (metis of_int_abs of_int_le_iff)
  also have "\<dots> < (2::rat) ^ 1024" by simp
  finally show ?thesis using rndv_exact [OF n, of 0] by (simp add: representable_def)
qed

lemma representable_1 [simp]: "representable 1"
  using representable_int [of 1] by simp

lemma rnd_ok [simp, intro]: "f64_ok (rnd s q)"
  by (auto simp: rnd_def pack_def representable_def)

lemma lit_ok [simp, intro]: "f64_ok (lit q)"
  by (simp add: lit_def)

lemma rnd_representable: "representable q \<Longrightarrow> q \<noteq> 0 \<Longrightarrow> rnd s q = Fin q"
  by (simp add: rnd_def pack_def representable_def)

lemma lit_representable: "representable q \<Longrightarrow> lit q = Fin q"
  by (auto simp: lit_def rnd_def pack_def representable_def)

lemma lit_0 [simp]: "lit 0 = Fin 0" and lit_1 [simp]: "lit 1 = Fin 1"
  by (simp_all add: lit_representable)

lemma rnd_not_nan [simp]: "\<not> is_nan (rnd s q)" "\<not> is_nan (lit q)"
  by (auto simp: lit_def rnd_def pack_def)

lemma f_add_ok: "f64_ok a \<Longrightarrow> f64_ok b \<Longrightarrow> f64_ok (a + b)"
  by (cases a; cases b) (auto simp: plus_f64_def f_add_def)

lemma f_mul_ok: "f64_ok (a * b)"
  by (auto simp: times_f64_def f_mul_def Let_def)

lemma f_div_ok: "f64_ok (a / b)"
  by (auto simp: divide_f64_def f_div_def Let_def)

section \<open>Comparison\<close>

lemmas f64_cmp_defs = less_f64_def less_eq_f64_def

lemma f_less_irrefl [simp]: "\<not> (x::f64) < x"
  by (simp add: less_f64_def)

lemma f_less_trans [f64_order]: "(x::f64) < y \<Longrightarrow> y < z \<Longrightarrow> x < z"
  by (auto simp: less_f64_def)

lemma f_le_trans [f64_order]: "(x::f64) \<le> y \<Longrightarrow> y \<le> z \<Longrightarrow> x \<le> z"
  by (auto simp: less_eq_f64_def)

lemma f_le_less_trans [f64_order]: "(x::f64) \<le> y \<Longrightarrow> y < z \<Longrightarrow> x < z"
  by (auto simp: f64_cmp_defs)

lemma f_less_le_trans [f64_order]: "(x::f64) < y \<Longrightarrow> y \<le> z \<Longrightarrow> x < z"
  by (auto simp: f64_cmp_defs)

lemma f_less_imp_le [f64_order]: "(x::f64) < y \<Longrightarrow> x \<le> y"
  by (auto simp: f64_cmp_defs)

lemma f_le_refl_iff: "(x::f64) \<le> x \<longleftrightarrow> \<not> is_nan x"
  by (auto simp: less_eq_f64_def)

lemma f_le_refl [f64_order]: "\<not> is_nan x \<Longrightarrow> (x::f64) \<le> x"
  by (auto simp: less_eq_f64_def)

lemma f_not_less: "\<not> is_nan x \<Longrightarrow> \<not> is_nan y \<Longrightarrow> \<not> (x::f64) < y \<longleftrightarrow> y \<le> x"
  by (auto simp: f64_cmp_defs)

lemma f_not_le: "\<not> is_nan x \<Longrightarrow> \<not> is_nan y \<Longrightarrow> \<not> (x::f64) \<le> y \<longleftrightarrow> y < x"
  by (auto simp: f64_cmp_defs)

lemma f_less_nan [simp]: "\<not> NaN < x" "\<not> x < NaN" "\<not> NaN \<le> x" "\<not> x \<le> NaN"
  by (auto simp: f64_cmp_defs)

lemma f_less_Fin [simp]: "Fin p < Fin q \<longleftrightarrow> p < q" "Fin p \<le> Fin q \<longleftrightarrow> p \<le> q"
  by (auto simp: f64_cmp_defs)

lemma f_less_not_nan: "(x::f64) < y \<Longrightarrow> \<not> is_nan x \<and> \<not> is_nan y" "(x::f64) \<le> y \<Longrightarrow> \<not> is_nan x \<and> \<not> is_nan y"
  by (auto simp: f64_cmp_defs)

lemma is_finite_not_nan [simp]: "is_finite x \<Longrightarrow> \<not> is_nan x"
  by (cases x) auto

lemma f_max_ge: "\<not> is_nan x \<Longrightarrow> x \<le> f_max x y" "\<not> is_nan y \<Longrightarrow> y \<le> f_max x y"
  by (auto simp: f_max_def f64_cmp_defs)

lemma f_max_cases: "f_max x y = x \<or> f_max x y = y"
  by (simp add: f_max_def)

lemma f_min_cases: "f_min x y = x \<or> f_min x y = y"
  by (simp add: f_min_def)

lemma f_min_le: "\<not> is_nan x \<Longrightarrow> f_min x y \<le> x" "\<not> is_nan y \<Longrightarrow> f_min x y \<le> y"
  by (auto simp: f_min_def f64_cmp_defs)

lemma f_max_nan [simp]: "is_nan (f_max x y) \<longleftrightarrow> is_nan x \<and> is_nan y"
  by (cases y) (auto simp: f_max_def f64_cmp_defs)

lemma f_min_nan [simp]: "is_nan (f_min x y) \<longleftrightarrow> is_nan x \<and> is_nan y"
  by (cases y) (auto simp: f_min_def f64_cmp_defs)

section \<open>Monotonicity of rounding and of the operations\<close>

lemma rnd_le_iff_vals: "rndv x \<le> rndv y \<Longrightarrow> rnd s x \<le> rnd t y"
  by (auto simp: rnd_def pack_def less_eq_f64_def)

lemma rnd_mono: "x \<le> y \<Longrightarrow> rnd s x \<le> rnd t y"
  by (intro rnd_le_iff_vals rndv_mono)

lemma lit_mono: "x \<le> y \<Longrightarrow> lit x \<le> lit y"
  by (simp add: lit_def rnd_mono)

lemma Fin_le_rnd: "representable x \<Longrightarrow> x \<le> y \<Longrightarrow> Fin x \<le> rnd t y"
  using rnd_mono [of x y False t] by (simp flip: lit_def add: lit_representable)

lemma rnd_le_Fin: "representable y \<Longrightarrow> x \<le> y \<Longrightarrow> rnd t x \<le> Fin y"
  using rnd_mono [of x y t False] by (simp flip: lit_def add: lit_representable)

lemma f_add_finite:
  "is_finite a \<Longrightarrow> is_finite b \<Longrightarrow> a + b = rnd (a = NegZero \<and> b = NegZero) (fval a + fval b)"
  by (simp add: plus_f64_def f_add_def)

lemma f_nonneg_fval: "0 \<le> b \<Longrightarrow> is_finite b \<Longrightarrow> 0 \<le> fval b"
  by (cases b) (auto simp: zero_f64_def f64_cmp_defs)

lemma f_le_add:
  assumes "f64_ok a" "0 \<le> b" "\<not> is_nan a" "\<not> is_nan (a + b)" shows "a \<le> a + b"
proof (cases "is_finite a \<and> is_finite b")
  case True
  then have s: "a + b = rnd (a = NegZero \<and> b = NegZero) (fval a + fval b)"
    and b: "0 \<le> fval b"
    using assms(2) by (simp_all add: f_add_finite f_nonneg_fval)
  from True assms(1) b have "Fin (fval a) \<le> a + b"
    unfolding s by (intro Fin_le_rnd) (cases a; simp)+
  then show ?thesis using True by (cases a) (auto simp: f64_cmp_defs)
next
  case False
  with assms show ?thesis
    by (cases a; cases b) (auto simp: plus_f64_def f_add_def zero_f64_def f64_cmp_defs split: if_splits)
qed

lemma f_nonneg_add: "0 \<le> a \<Longrightarrow> 0 \<le> b \<Longrightarrow> (0::f64) \<le> a + b"
  using Fin_le_rnd [of 0 "fval a + fval b" False] Fin_le_rnd [of 0 "fval a + fval b" True]
  by (cases a; cases b)
     (auto simp: plus_f64_def f_add_def zero_f64_def f64_cmp_defs split: if_splits)

lemma f_nonneg_mul: "0 \<le> a \<Longrightarrow> 0 \<le> b \<Longrightarrow> a * b \<noteq> NaN \<Longrightarrow> (0::f64) \<le> a * b"
  using Fin_le_rnd [of 0 "fval a * fval b" False] Fin_le_rnd [of 0 "fval a * fval b" True]
  by (cases a; cases b)
     (auto simp: times_f64_def f_mul_def Let_def zero_f64_def f64_cmp_defs split: if_splits)

end
