(* ===== verification/Json.thy ===== *)
theory Json
  imports F64
begin

text \<open>
  \<open>serde_json::Value\<close> (with the \<open>preserve_order\<close> feature: an object is its entries in
  insertion order) and the accessors the program uses: \<open>v["k"]\<close>, \<open>v.get("k")\<close>, the
  \<open>as_*\<close> conversions, insertion, removal, and number parsing.
\<close>

datatype jnum = PosInt u64 | NegInt int | Float f64

datatype json =
    JNull
  | JBool bool
  | JNum jnum
  | JStr string
  | JArr "json list"
  | JObj "(string \<times> json) list"

fun jfind :: "json \<Rightarrow> string \<Rightarrow> json option" where
  "jfind (JObj kvs) k = map_of kvs k"
| "jfind _ k = None"

text \<open>\<open>v["k"]\<close> reads \<open>Null\<close> where there is no such entry.\<close>

definition jget :: "json \<Rightarrow> string \<Rightarrow> json" where
  "jget v k = (case jfind v k of None \<Rightarrow> JNull | Some x \<Rightarrow> x)"

fun jget_path :: "json \<Rightarrow> string list \<Rightarrow> json" where
  "jget_path v [] = v"
| "jget_path v (k # ks) = jget_path (jget v k) ks"

fun jidx :: "json \<Rightarrow> nat \<Rightarrow> json" where
  "jidx (JArr xs) i = (if i < length xs then xs ! i else JNull)"
| "jidx _ i = JNull"

fun as_str :: "json \<Rightarrow> string option" where
  "as_str (JStr s) = Some s"
| "as_str _ = None"

fun as_u64 :: "json \<Rightarrow> u64 option" where
  "as_u64 (JNum (PosInt n)) = Some n"
| "as_u64 _ = None"

fun as_f64 :: "json \<Rightarrow> f64 option" where
  "as_f64 (JNum (PosInt n)) = Some (f_of_word n)"
| "as_f64 (JNum (NegInt i)) = Some (f_of_int i)"
| "as_f64 (JNum (Float x)) = Some x"
| "as_f64 _ = None"

fun as_array :: "json \<Rightarrow> json list option" where
  "as_array (JArr xs) = Some xs"
| "as_array _ = None"

fun is_null :: "json \<Rightarrow> bool" where
  "is_null JNull = True"
| "is_null _ = False"

fun is_object :: "json \<Rightarrow> bool" where
  "is_object (JObj _) = True"
| "is_object _ = False"

fun assoc_put :: "'k \<Rightarrow> 'v \<Rightarrow> ('k \<times> 'v) list \<Rightarrow> ('k \<times> 'v) list" where
  "assoc_put k v [] = [(k, v)]"
| "assoc_put k v ((k', v') # r) = (if k = k' then (k, v) # r else (k', v') # assoc_put k v r)"

text \<open>\<open>v["k"] = x\<close>: replaces or appends in an object, makes an object of \<open>Null\<close>, panics otherwise.\<close>

fun jset :: "json \<Rightarrow> string \<Rightarrow> json \<Rightarrow> json res" where
  "jset (JObj kvs) k x = Inr (JObj (assoc_put k x kvs))"
| "jset JNull k x = Inr (JObj [(k, x)])"
| "jset _ k x = Inl (Panic ''cannot access key in JSON value'')"

section \<open>Numbers in strings: the grammar of \<open>str::parse::<f64>\<close>\<close>

definition digit_val :: "char \<Rightarrow> int option" where
  "digit_val c = (let n = of_char c :: int in if 48 \<le> n \<and> n \<le> 57 then Some (n - 48) else None)"

fun take_digits :: "string \<Rightarrow> int list \<times> string" where
  "take_digits [] = ([], [])"
| "take_digits (c # cs) =
     (case digit_val c of None \<Rightarrow> ([], c # cs)
      | Some d \<Rightarrow> (case take_digits cs of (ds, r) \<Rightarrow> (d # ds, r)))"

definition digits_val :: "int list \<Rightarrow> int" where
  "digits_val ds = foldl (\<lambda>a d. 10 * a + d) 0 ds"

definition take_sign :: "string \<Rightarrow> bool \<times> string" where
  "take_sign s = (case s of [] \<Rightarrow> (False, s)
     | c # r \<Rightarrow> if c = CHR ''-'' then (True, r) else if c = CHR ''+'' then (False, r) else (False, s))"

definition parse_exp :: "string \<Rightarrow> int option" where
  "parse_exp s = (case s of [] \<Rightarrow> Some 0
     | c # r \<Rightarrow>
       if c = CHR ''e'' \<or> c = CHR ''E''
       then (case take_sign r of (neg, r') \<Rightarrow> case take_digits r' of (ds, rest) \<Rightarrow>
              if ds = [] \<or> rest \<noteq> [] then None
              else Some (if neg then - digits_val ds else digits_val ds))
       else None)"

definition parse_f64 :: "string \<Rightarrow> f64 option" where
  "parse_f64 s0 =
     (case take_sign s0 of (neg, s) \<Rightarrow>
      let l = ascii_lower s in
      if l = ''inf'' \<or> l = ''infinity'' then Some (Infinite neg)
      else if l = ''nan'' then Some NaN
      else case take_digits s of (ip, r1) \<Rightarrow>
        let (fp, r2) = (case r1 of [] \<Rightarrow> ([], r1)
                        | c # r \<Rightarrow> if c = CHR ''.'' then take_digits r else ([], r1))
        in if ip = [] \<and> fp = [] then None
           else case parse_exp r2 of None \<Rightarrow> None
             | Some e \<Rightarrow>
                 let q = of_int (digits_val (ip @ fp)) * 10 powi (e - int (length fp))
                 in Some (rnd neg (if neg then - q else q)))"

text \<open>\<open>hyperliquid::num\<close>: a number or a numeric string; anything not finite is rejected.\<close>

definition num :: "json \<Rightarrow> f64 res" where
  "num v =
     rbind (case as_str v of
              Some s \<Rightarrow> context_opt (parse_f64 s) ''invalid float literal''
            | None \<Rightarrow> context_opt (as_f64 v) ''expected number'')
       (\<lambda>n. rbind (ensure (is_finite n) ''non-finite exchange number'') (\<lambda>_. Inr n))"

lemma num_finite: "num v = Inr n \<Longrightarrow> is_finite n"
  by (auto simp: num_def)

text \<open>\<open>hyperliquid::position_size\<close>: the signed size of the first position in the coin.\<close>

fun find_position :: "json list \<Rightarrow> string \<Rightarrow> f64 res" where
  "find_position [] coin = Inr (Fin 0)"
| "find_position (p # ps) coin =
     (if jget (jget p ''position'') ''coin'' = JStr coin then num (jget (jget p ''position'') ''szi'')
      else find_position ps coin)"

definition position_size :: "json \<Rightarrow> string \<Rightarrow> f64 res" where
  "position_size account coin =
     rbind (context_opt (as_array (jget account ''assetPositions'')) ''missing assetPositions'')
       (\<lambda>ps. find_position ps coin)"

lemma position_size_finite: "position_size account coin = Inr x \<Longrightarrow> is_finite x"
proof -
  have "find_position ps coin = Inr x \<Longrightarrow> is_finite x" for ps
    by (induction ps) (auto dest: num_finite split: if_splits)
  then show "position_size account coin = Inr x \<Longrightarrow> is_finite x"
    by (auto simp: position_size_def)
qed

lemma map_of_assoc_put [simp]: "map_of (assoc_put k v xs) = (map_of xs)(k \<mapsto> v)"
  by (induction k v xs rule: assoc_put.induct) auto

lemma jfind_jset: "jset v k x = Inr w \<Longrightarrow> jfind w = (jfind v)(k \<mapsto> x)"
  by (cases "(v, k, x)" rule: jset.cases) auto

lemma jget_jset: "jset v k x = Inr w \<Longrightarrow> jget w k' = (if k' = k then x else jget v k')"
  by (auto simp: jget_def dest!: jfind_jset)

end
