(* ===== verification/Config.thy ===== *)
theory Config
  imports F64_Facts Json
begin

text \<open>
  The configuration records of \<open>src/config.rs\<close>, with the profiles of \<open>src/strategy/eth\<close>
  nested in the strategy section, the registered chains and pools of
  \<open>src/liquidity/chains\<close>, and the validation that every start-up runs. Field names carry a
  prefix per record. Address and URL syntax is that of \<open>alloy\<close> and \<open>reqwest\<close>: the two
  parsers are fields of \<open>ext\<close>.
\<close>

datatype mode = Paper | Live

record layer_config =
  lc_name :: string
  lc_weight :: f64
  lc_half_width :: f64

record band_config =
  bc_lower_width :: f64
  bc_upper_width :: f64
  bc_net_lower_usd :: f64
  bc_net_upper_usd :: f64
  bc_minimum_holding_hours :: u64
  bc_roll_delay_seconds :: u64
  bc_episode_drawdown :: f64
  bc_pause_drawdown :: f64
  bc_reentry_loss_budget :: f64

record persistent_config =
  pc_band :: "band_config option"
  pc_drop_24h :: f64
  pc_drop_72h :: f64
  pc_max_hourly_vol :: f64
  pc_hedge_interval_hours :: u64

record strategy_config =
  sc_eth_persistent :: "persistent_config option"
  sc_total_capital :: f64
  sc_lp_budget :: f64
  sc_hedge_collateral :: f64
  sc_reserve :: f64
  sc_inside_hedge_ratio :: f64
  sc_hedge_deadband_usd :: f64
  sc_max_drawdown :: f64
  sc_max_basis_bps :: f64
  sc_max_data_age_seconds :: u64
  sc_fast_drop_1h :: f64
  sc_vol_short_hours :: nat
  sc_vol_long_hours :: nat
  sc_vol_pause_ratio :: f64
  sc_vol_resume_ratio :: f64
  sc_ema_fast_hours :: nat
  sc_ema_slow_hours :: nat
  sc_resume_healthy_hours :: u32
  sc_cooldown_hours :: u64
  sc_recovery_fraction :: f64
  sc_recovery_step_hours :: u64
  sc_breakout_buffer :: f64
  sc_breakout_confirm_bars :: u32
  sc_decision_bar_seconds :: u64
  sc_hedge_release_buffer :: f64
  sc_layers :: "layer_config list"

record hyperliquid_config =
  hc_http_url :: string
  hc_ws_url :: string
  hc_mainnet :: bool
  hc_coins :: "string list"
  hc_hedge_coin :: string
  hc_private_key_env :: string
  hc_account :: "string option"
  hc_vault :: "string option"
  hc_leverage :: u32
  hc_cross_margin :: bool
  hc_maker_wait_seconds :: u64
  hc_emergency_slippage_bps :: u32

record liquidity_config =
  lq_kind :: string
  lq_chain_id :: u64
  lq_rpc_url :: string
  lq_archive_rpc_url :: "string option"
  lq_rpc_min_interval_ms :: u64
  lq_ws_url :: string
  lq_owner :: "string option"
  lq_nonce_refresh_seconds :: u64
  lq_pending_warn_seconds :: u64
  lq_pool :: string
  lq_factory :: string
  lq_position_manager :: string
  lq_swap_router :: string
  lq_base_token :: string
  lq_quote_token :: string
  lq_base_decimals :: u8
  lq_quote_decimals :: u8
  lq_fee :: u32
  lq_private_key_env :: string
  lq_confirmations :: u64
  lq_slippage_bps :: u32
  lq_deadline_seconds :: u64
  lq_max_gas_native :: f64
  lq_gas_fee_buffer_bps :: u32
  lq_gas_limit_buffer_bps :: u32
  lq_max_quote_age_seconds :: u64

record runtime_config =
  rt_read_retry_seconds :: u64
  rt_observation_timeout_seconds :: u64

definition runtime_config_default :: runtime_config where
  "runtime_config_default = \<lparr>rt_read_retry_seconds = 5, rt_observation_timeout_seconds = 45\<rparr>"

record storage_config =
  so_event_segment_bytes :: u64
  so_event_retained_segments :: nat
  so_terminal_orders_keep :: nat
  so_order_archive_max_bytes :: u64
  so_min_free_bytes :: u64

definition storage_config_default :: storage_config where
  "storage_config_default =
     \<lparr>so_event_segment_bytes = 16 * 1024 * 1024, so_event_retained_segments = 32,
      so_terminal_orders_keep = 1000, so_order_archive_max_bytes = 256 * 1024 * 1024,
      so_min_free_bytes = 256 * 1024 * 1024\<rparr>"

record websocket_config =
  wc_heartbeat_seconds :: u64
  wc_heartbeat_timeout_seconds :: u64
  wc_idle_timeout_seconds :: u64
  wc_connect_timeout_seconds :: u64
  wc_write_timeout_seconds :: u64
  wc_reconnect_initial_ms :: u64
  wc_reconnect_max_seconds :: u64

definition websocket_config_default :: websocket_config where
  "websocket_config_default =
     \<lparr>wc_heartbeat_seconds = 20, wc_heartbeat_timeout_seconds = 60, wc_idle_timeout_seconds = 300,
      wc_connect_timeout_seconds = 15, wc_write_timeout_seconds = 10,
      wc_reconnect_initial_ms = 1000, wc_reconnect_max_seconds = 30\<rparr>"

record monitoring_config =
  mc_hyperliquid_interval_seconds :: u64
  mc_robinhood_interval_seconds :: u64
  mc_hyperliquid_refresh_seconds :: u64
  mc_robinhood_refresh_seconds :: u64
  mc_volume_refresh_seconds :: u64
  mc_volume_window_seconds :: u64
  mc_backfill_blocks :: u64
  mc_refresh_timeout_seconds :: u64

definition monitoring_config_default :: monitoring_config where
  "monitoring_config_default =
     \<lparr>mc_hyperliquid_interval_seconds = 60, mc_robinhood_interval_seconds = 60,
      mc_hyperliquid_refresh_seconds = 30, mc_robinhood_refresh_seconds = 15,
      mc_volume_refresh_seconds = 60, mc_volume_window_seconds = 300,
      mc_backfill_blocks = 6000, mc_refresh_timeout_seconds = 45\<rparr>"

record logging_config =
  lo_directory :: string
  lo_retained_files :: nat
  lo_level :: string

definition logging_config_default :: logging_config where
  "logging_config_default =
     \<lparr>lo_directory = ''data/logs'', lo_retained_files = 14, lo_level = ''info''\<rparr>"

record config =
  cf_mode :: mode
  cf_state_dir :: string
  cf_poll_seconds :: u64
  cf_hyperliquid :: hyperliquid_config
  cf_liquidity :: liquidity_config
  cf_strategy :: strategy_config
  cf_websocket :: websocket_config
  cf_monitoring :: monitoring_config
  cf_logging :: logging_config
  cf_runtime :: runtime_config
  cf_storage :: storage_config

section \<open>Registered chains and pools\<close>

record chain =
  ch_id :: u64
  ch_name :: string
  ch_factory :: string
  ch_position_manager :: string
  ch_swap_router :: string
  ch_quoter_v2 :: "string option"

record pool =
  po_chain :: chain
  po_id :: string
  po_address :: string
  po_base_token :: string
  po_quote_token :: string
  po_base_symbol :: string
  po_quote_symbol :: string
  po_hedge_coin :: string
  po_base_decimals :: u8
  po_quote_decimals :: u8
  po_fee :: u32
  po_tick_spacing :: int

definition base_chain :: chain where
  "base_chain =
     \<lparr>ch_id = 8453, ch_name = ''Base'',
      ch_factory = ''0x33128a8fC17869897dcE68Ed026d694621f6FDfD'',
      ch_position_manager = ''0x03a520b32C04BF3bEEf7BEb72E919cf822Ed34f1'',
      ch_swap_router = ''0x2626664c2603336E57B271c5C0b26F421741e481'',
      ch_quoter_v2 = Some ''0x3d4e44Eb1374240CE5F1B871ab261CD16335B76a''\<rparr>"

definition robinhood_chain :: chain where
  "robinhood_chain =
     \<lparr>ch_id = 4663, ch_name = ''Robinhood'',
      ch_factory = ''0x1f7d7550b1b028f7571e69a784071f0205fd2efa'',
      ch_position_manager = ''0x73991a25c818bf1f1128deaab1492d45638de0d3'',
      ch_swap_router = ''0xcaf681a66d020601342297493863e78c959e5cb2'',
      ch_quoter_v2 = None\<rparr>"

definition weth_usdc_pool :: pool where
  "weth_usdc_pool =
     \<lparr>po_chain = base_chain, po_id = ''base/weth-usdc-3000'',
      po_address = ''0x6c561B446416E1A00E8E93E221854d6eA4171372'',
      po_base_token = ''0x4200000000000000000000000000000000000006'',
      po_quote_token = ''0x833589fCD6eDb6E08f4c7C32D4f71b54bdA02913'',
      po_base_symbol = ''WETH'', po_quote_symbol = ''USDC'', po_hedge_coin = ''ETH'',
      po_base_decimals = 18, po_quote_decimals = 6, po_fee = 3000, po_tick_spacing = 60\<rparr>"

definition weth_usdg_pool :: pool where
  "weth_usdg_pool =
     \<lparr>po_chain = robinhood_chain, po_id = ''robinhood/weth-usdg-100'',
      po_address = ''0x52e65B17fB6E5BA00Ed806f37Afcd2DaA50271Ca'',
      po_base_token = ''0x0Bd7D308f8E1639FAb988df18A8011f41EAcAD73'',
      po_quote_token = ''0x5fc5360d0400a0fd4f2af552add042d716f1d168'',
      po_base_symbol = ''WETH'', po_quote_symbol = ''USDG'', po_hedge_coin = ''ETH'',
      po_base_decimals = 18, po_quote_decimals = 6, po_fee = 100, po_tick_spacing = 1\<rparr>"

definition find_chain :: "u64 \<Rightarrow> chain option" where
  "find_chain i =
     (if i = 4663 then Some robinhood_chain else if i = 8453 then Some base_chain else None)"

definition find_pool :: "liquidity_config \<Rightarrow> pool option" where
  "find_pool c =
     find (\<lambda>p. ch_id (po_chain p) = lq_chain_id c \<and> eq_ignore_case (po_address p) (lq_pool c))
       [weth_usdg_pool, weth_usdc_pool]"

definition validate_pool :: "liquidity_config \<Rightarrow> unit res" where
  "validate_pool c =
     (case find_pool c of
        None \<Rightarrow> Inr ()
      | Some p \<Rightarrow>
          rbind (ensure (list_all (\<lambda>(actual, expected). eq_ignore_case actual expected)
              [(lq_factory c, ch_factory (po_chain p)),
               (lq_position_manager c, ch_position_manager (po_chain p)),
               (lq_swap_router c, ch_swap_router (po_chain p)),
               (lq_base_token c, po_base_token p),
               (lq_quote_token c, po_quote_token p)])
              (''registered pool contract mismatch: '' @ po_id p))
          (\<lambda>_. ensure (lq_fee c = po_fee p \<and> lq_base_decimals c = po_base_decimals p
                \<and> lq_quote_decimals c = po_quote_decimals p)
              (''registered pool fee/decimals mismatch: '' @ po_id p)))"

definition monitor_file :: "liquidity_config \<Rightarrow> string" where
  "monitor_file c =
     (if lq_chain_id c = ch_id robinhood_chain then ''monitor_robinhood.json''
      else ''monitor_liquidity.json'')"

definition quoter :: "liquidity_config \<Rightarrow> string option" where
  "quoter c = Option.bind (find_chain (lq_chain_id c)) ch_quoter_v2"

end
