(* ===== verification/Config_Validate.thy ===== *)
theory Config_Validate
  imports Config
begin

text \<open>
  \<open>Config::validate\<close> with the two strategy profiles' own checks, in the order of the code:
  the first failing check is the error. The facts that the other components rely on are derived
  once, in \<open>validated\<close>, from a successful validation.
\<close>

record ext =
  parse_address :: "string \<Rightarrow> bool"
  parse_url :: "string \<Rightarrow> (string \<times> bool) option" \<comment> \<open>scheme, and whether there is a host\<close>

fun all_res :: "unit res list \<Rightarrow> unit res" where
  "all_res [] = Inr ()"
| "all_res (r # rs) = (case r of Inl e \<Rightarrow> Inl e | Inr _ \<Rightarrow> all_res rs)"

lemma all_res_Inr [simp]: "all_res rs = Inr () \<longleftrightarrow> (\<forall>r \<in> set rs. r = Inr ())"
  by (induction rs) (auto split: sum.splits)

definition pos_finite :: "f64 \<Rightarrow> bool" where
  "pos_finite v \<longleftrightarrow> is_finite v \<and> 0 < v"

definition validate_url :: "ext \<Rightarrow> string \<Rightarrow> string list \<Rightarrow> unit res" where
  "validate_url x url schemes =
     rbind (context_opt (parse_url x url) ''invalid endpoint URL'')
       (\<lambda>(scheme, host). ensure (scheme \<in> set schemes \<and> host) ''unsupported endpoint protocol'')"

definition check_address :: "ext \<Rightarrow> string \<Rightarrow> string \<Rightarrow> unit res" where
  "check_address x msg a = ensure (parse_address x a) msg"

definition band_validate :: "band_config \<Rightarrow> config \<Rightarrow> unit res" where
  "band_validate b c =
     (let s = cf_strategy c in
      all_res [
        ensure (lq_chain_id (cf_liquidity c) = ch_id robinhood_chain
          \<and> eq_ignore_case (lq_pool (cf_liquidity c)) ''0x52e65B17fB6E5BA00Ed806f37Afcd2DaA50271Ca'')
          ''ETH band profile is limited to the reviewed Robinhood pool'',
        ensure (\<forall>v \<in> set [bc_lower_width b, bc_upper_width b].
            is_finite v \<and> lit 0.001 < v \<and> v \<le> lit 0.08)
          ''band boundaries must be within 8% of entry quote'',
        ensure (is_finite (bc_net_lower_usd b) \<and> is_finite (bc_net_upper_usd b)
          \<and> bc_net_lower_usd b \<le> 0 \<and> 0 < bc_net_upper_usd b)
          ''invalid net exposure band'',
        ensure (1 \<le> bc_minimum_holding_hours b \<and> bc_minimum_holding_hours b \<le> 720
          \<and> 1 \<le> bc_roll_delay_seconds b \<and> bc_roll_delay_seconds b \<le> 300)
          ''invalid band holding/roll time'',
        ensure (\<forall>v \<in> set [bc_episode_drawdown b, bc_pause_drawdown b, bc_reentry_loss_budget b].
            is_finite v \<and> 0 < v \<and> v < sc_max_drawdown s)
          ''invalid band drawdown thresholds'',
        ensure (f_eq (sc_total_capital s) (lit 200) \<and> f_eq (sc_lp_budget s) (lit 120)
          \<and> f_eq (sc_hedge_collateral s) (lit 60) \<and> f_eq (sc_reserve s) (lit 20)
          \<and> length (sc_layers s) = 1 \<and> lc_half_width (sc_layers s ! 0) \<le> lit 0.08)
          ''reviewed band profile requires 200 = 120 LP + 60 hedge + 20 reserve and one bounded layer''])"

definition persistent_validate :: "persistent_config \<Rightarrow> config \<Rightarrow> unit res" where
  "persistent_validate p c =
     (let s = cf_strategy c in
      all_res [
        ensure (hc_hedge_coin (cf_hyperliquid c) = ''ETH'' \<and> lq_kind (cf_liquidity c) = ''uniswap_v3'')
          ''persistent profile only supports EVM ETH Uniswap v3'',
        ensure (hc_cross_margin (cf_hyperliquid c))
          ''persistent ETH requires dedicated cross margin; unattended isolated margin is not modeled'',
        ensure (sc_max_drawdown s \<le> lit 0.05)
          ''persistent ETH drawdown cap cannot exceed 5%'',
        ensure (length (sc_layers s) = 1 \<and> lit 0.35 \<le> sc_inside_hedge_ratio s)
          ''persistent ETH requires one LP layer and at least 35% inventory hedge'',
        ensure ((\<forall>v \<in> set [pc_drop_24h p, pc_drop_72h p, pc_max_hourly_vol p].
              is_finite v \<and> 0 < v \<and> v < 1)
          \<and> pc_drop_24h p \<le> pc_drop_72h p
          \<and> 1 \<le> pc_hedge_interval_hours p \<and> pc_hedge_interval_hours p \<le> 24
          \<and> 1 \<le> sc_cooldown_hours s \<and> sc_cooldown_hours s \<le> 168)
          ''invalid persistent ETH risk parameters'',
        (case pc_band p of None \<Rightarrow> Inr () | Some b \<Rightarrow> band_validate b c)])"

definition validate_transport :: "ext \<Rightarrow> config \<Rightarrow> unit res list" where
  "validate_transport x c =
     (let l = cf_liquidity c; h = cf_hyperliquid c; r = cf_runtime c; so = cf_storage c in
      [ensure (1 \<le> lq_gas_fee_buffer_bps l \<and> lq_gas_fee_buffer_bps l \<le> 40000
         \<and> 1 \<le> lq_gas_limit_buffer_bps l \<and> lq_gas_limit_buffer_bps l \<le> 10000)
         ''gas fee buffer must be 1..=40000 bps; gas limit buffer must be 1..=10000 bps'',
       ensure (0 < rt_read_retry_seconds r \<and> rt_read_retry_seconds r \<le> 300
         \<and> 0 < rt_observation_timeout_seconds r
         \<and> rt_observation_timeout_seconds r \<le> sc_max_data_age_seconds (cf_strategy c)
         \<and> 0 < lq_max_quote_age_seconds l)
         ''invalid observation/retry limits'',
       ensure (1024 \<le> so_event_segment_bytes so \<and> 0 < so_event_retained_segments so
         \<and> 0 < so_terminal_orders_keep so \<and> 1024 \<le> so_order_archive_max_bytes so)
         ''invalid storage retention limits'',
       validate_url x (hc_http_url h) [''https'', ''http''],
       validate_url x (hc_ws_url h) [''wss'', ''ws''],
       validate_url x (lq_rpc_url l) [''https'', ''http'', ''wss'', ''ws''],
       ensure (1 \<le> lq_rpc_min_interval_ms l \<and> lq_rpc_min_interval_ms l \<le> 5000)
         ''rpc_min_interval_ms must be 1..=5000'',
       validate_url x (lq_ws_url l) [''wss'', ''ws''],
       (case lq_archive_rpc_url l of None \<Rightarrow> Inr ()
        | Some u \<Rightarrow> validate_url x u [''http'', ''https'', ''ws'', ''wss''])])"

definition validate_lifecycle :: "ext \<Rightarrow> config \<Rightarrow> unit res list" where
  "validate_lifecycle x c =
     (let w = cf_websocket c; m = cf_monitoring c; l = cf_liquidity c; h = cf_hyperliquid c in
      [ensure (0 < wc_heartbeat_seconds w
         \<and> wc_heartbeat_seconds w < wc_heartbeat_timeout_seconds w
         \<and> wc_heartbeat_seconds w < wc_idle_timeout_seconds w
         \<and> 0 < wc_connect_timeout_seconds w \<and> 0 < wc_write_timeout_seconds w
         \<and> 0 < wc_reconnect_initial_ms w
         \<and> wc_reconnect_initial_ms w \<le> sat_mul (wc_reconnect_max_seconds w) 1000)
         ''invalid websocket lifecycle settings'',
       ensure (0 < mc_hyperliquid_interval_seconds m \<and> 0 < mc_robinhood_interval_seconds m
         \<and> 0 < mc_hyperliquid_refresh_seconds m \<and> 0 < mc_robinhood_refresh_seconds m
         \<and> 0 < mc_refresh_timeout_seconds m
         \<and> 0 < lq_nonce_refresh_seconds l \<and> 0 < lq_pending_warn_seconds l
         \<and> 0 < lo_retained_files (cf_logging c))
         ''invalid monitoring/lifecycle settings'']
      @ map (check_address x ''invalid account address'')
          (List.map_filter (\<lambda>a. a) [hc_account h, hc_vault h, lq_owner l]))"

definition validate_strategy :: "config \<Rightarrow> unit res list" where
  "validate_strategy c =
     (let s = cf_strategy c in
      map (\<lambda>v. ensure (is_finite v \<and> 0 < v) ''positive finite budget/limit required'')
        [sc_total_capital s, sc_lp_budget s, sc_hedge_collateral s, sc_hedge_deadband_usd s,
         sc_max_basis_bps s, lq_max_gas_native (cf_liquidity c)]
      @ [ensure (is_finite (sc_reserve s) \<and> 0 \<le> sc_reserve s) ''invalid reserve'',
         ensure (sc_lp_budget s + sc_hedge_collateral s + sc_reserve s
             \<le> sc_total_capital s + lit (1 / 10 ^ 6))
           ''budgets exceed total capital'']
      @ map (\<lambda>v. ensure (is_finite v \<and> 0 < v \<and> v \<le> 1) ''invalid fractional limit'')
        [sc_max_drawdown s, sc_fast_drop_1h s, sc_recovery_fraction s]
      @ [ensure (0 \<le> sc_inside_hedge_ratio s \<and> sc_inside_hedge_ratio s \<le> 1)
           ''invalid hedge ratio'',
         ensure (2 \<le> sc_vol_short_hours s \<and> sc_vol_short_hours s < sc_vol_long_hours s
           \<and> sc_vol_long_hours s < 4000)
           ''invalid volatility windows'',
         ensure (1 < sc_ema_fast_hours s \<and> sc_ema_fast_hours s < sc_ema_slow_hours s
           \<and> sc_ema_slow_hours s < 4000)
           ''invalid EMA windows'',
         ensure (0 < sc_vol_resume_ratio s \<and> sc_vol_resume_ratio s < sc_vol_pause_ratio s
           \<and> is_finite (sc_vol_pause_ratio s))
           ''invalid volatility hysteresis'',
         ensure (is_finite (sc_breakout_buffer s) \<and> 0 \<le> sc_breakout_buffer s
           \<and> sc_breakout_buffer s < lit 0.2)
           ''invalid breakout buffer'',
         ensure (is_finite (sc_hedge_release_buffer s) \<and> 0 \<le> sc_hedge_release_buffer s
           \<and> sc_hedge_release_buffer s < lit 0.2)
           ''invalid hedge release'',
         ensure (0 < sc_resume_healthy_hours s \<and> 0 < sc_recovery_step_hours s
           \<and> 0 < sc_breakout_confirm_bars s \<and> 0 < sc_decision_bar_seconds s)
           ''zero confirmation period'',
         ensure (0 < cf_poll_seconds c \<and> cf_poll_seconds c < sc_max_data_age_seconds s)
           ''invalid poll/stale interval''])"

definition validate_layers :: "config \<Rightarrow> unit res list" where
  "validate_layers c =
     (let s = cf_strategy c in
      [ensure (sc_layers s \<noteq> []
         \<and> list_all (\<lambda>l. is_finite (lc_weight l) \<and> 0 < lc_weight l
              \<and> is_finite (lc_half_width l) \<and> lit 0.001 < lc_half_width l
              \<and> (lc_half_width l < 1
                  \<or> (sc_eth_persistent s \<noteq> None \<and> lc_half_width l \<le> lit 9))) (sc_layers s))
         ''invalid layers'',
       ensure (\<bar>f_sum (map lc_weight (sc_layers s)) - 1\<bar> < lit (1 / 10 ^ 8))
         ''layer weights must sum to one'',
       ensure (distinct (map lc_name (sc_layers s))) ''duplicate layer name'',
       ensure (0 < hc_leverage (cf_hyperliquid c) \<and> hc_leverage (cf_hyperliquid c) \<le> 3)
         ''strategy leverage capped at 3x'',
       (case sc_eth_persistent s of None \<Rightarrow> Inr () | Some p \<Rightarrow> persistent_validate p c)])"

definition validate_venues :: "ext \<Rightarrow> config \<Rightarrow> unit res list" where
  "validate_venues x c =
     (let l = cf_liquidity c; h = cf_hyperliquid c in
      [ensure (0 < hc_maker_wait_seconds h) ''maker wait must be positive'',
       ensure (0 < hc_emergency_slippage_bps h \<and> hc_emergency_slippage_bps h \<le> 100
         \<and> 0 < lq_slippage_bps l \<and> lq_slippage_bps l \<le> 100)
         ''slippage must be in 1..100 bps'',
       ensure (lq_kind l = ''uniswap_v3'') ''unsupported liquidity adapter'',
       ensure (0 < lq_confirmations l \<and> 30 \<le> lq_deadline_seconds l)
         ''invalid chain finality/deadline'']
      @ map (check_address x ''invalid contract address'')
          [lq_pool l, lq_factory l, lq_position_manager l, lq_swap_router l,
           lq_base_token l, lq_quote_token l]
      @ [ensure (ascii_lower (lq_base_token l) \<noteq> ascii_lower (lq_quote_token l))
           ''same pool tokens'',
         ensure (lq_base_decimals l \<le> 24 \<and> lq_quote_decimals l \<le> 24 \<and> lq_fee l < 1000000)
           ''invalid token configuration'',
         (if cf_mode c = Live
          then ensure (hc_account h \<noteq> None) ''live requires Hyperliquid account owner address''
          else Inr ()),
         validate_pool l,
         (case find_pool l of None \<Rightarrow> Inr ()
          | Some p \<Rightarrow> ensure (hc_hedge_coin h = po_hedge_coin p)
                       ''pool base asset must match Hyperliquid hedge coin'')])"

definition config_validate :: "ext \<Rightarrow> config \<Rightarrow> unit res" where
  "config_validate x c =
     all_res (validate_transport x c @ validate_lifecycle x c @ validate_strategy c
       @ validate_layers c @ validate_venues x c)"

lemma config_validate_parts:
  assumes "config_validate x c = Inr ()"
  shows "\<forall>r \<in> set (validate_transport x c). r = Inr ()"
    "\<forall>r \<in> set (validate_lifecycle x c). r = Inr ()"
    "\<forall>r \<in> set (validate_strategy c). r = Inr ()"
    "\<forall>r \<in> set (validate_layers c). r = Inr ()"
    "\<forall>r \<in> set (validate_venues x c). r = Inr ()"
  using assms unfolding config_validate_def all_res_Inr set_append by blast+

text \<open>What a successful validation gives the strategy and its callers.\<close>

definition strategy_sane :: "strategy_config \<Rightarrow> bool" where
  "strategy_sane s \<longleftrightarrow>
     pos_finite (sc_total_capital s) \<and> pos_finite (sc_lp_budget s)
     \<and> pos_finite (sc_hedge_collateral s) \<and> pos_finite (sc_hedge_deadband_usd s)
     \<and> pos_finite (sc_max_drawdown s) \<and> sc_max_drawdown s \<le> 1
     \<and> pos_finite (sc_recovery_fraction s) \<and> sc_recovery_fraction s \<le> 1
     \<and> 0 \<le> sc_inside_hedge_ratio s \<and> sc_inside_hedge_ratio s \<le> 1
     \<and> 2 \<le> sc_vol_short_hours s \<and> sc_vol_short_hours s < sc_vol_long_hours s
     \<and> 1 < sc_ema_fast_hours s \<and> sc_ema_fast_hours s < sc_ema_slow_hours s
     \<and> 0 < sc_resume_healthy_hours s \<and> 0 < sc_decision_bar_seconds s
     \<and> 0 < sc_breakout_confirm_bars s
     \<and> sc_layers s \<noteq> [] \<and> distinct (map lc_name (sc_layers s))"

lemma validated_strategy_sane:
  assumes "config_validate x c = Inr ()" shows "strategy_sane (cf_strategy c)"
proof -
  note S = config_validate_parts(3) [OF assms, unfolded validate_strategy_def Let_def set_append
      set_map list.set ball_Un image_insert image_empty ball_simps ensure_eq]
  note L = config_validate_parts(4) [OF assms, unfolded validate_layers_def Let_def
      list.set ball_simps ensure_eq]
  show ?thesis
    unfolding strategy_sane_def pos_finite_def by (intro conjI; (insert S, blast | insert L, blast))
qed

lemma validated_slippage:
  "config_validate x c = Inr () \<Longrightarrow>
     0 < lq_slippage_bps (cf_liquidity c) \<and> lq_slippage_bps (cf_liquidity c) \<le> 100"
  using config_validate_parts(5) [of x c] by (auto simp: validate_venues_def Let_def)

lemma validated_gas:
  "config_validate x c = Inr () \<Longrightarrow>
     1 \<le> lq_gas_fee_buffer_bps (cf_liquidity c) \<and> lq_gas_fee_buffer_bps (cf_liquidity c) \<le> 40000"
  using config_validate_parts(1) [of x c] by (auto simp: validate_transport_def Let_def)

end
