(* ===== verification/Domain.thy ===== *)
theory Domain
  imports Config_Validate
begin

text \<open>
  The platform-neutral data of \<open>src/domain.rs\<close> (candles, pool snapshots, LP positions, the
  portfolio and its accounting, market frames, decisions), the concentrated-liquidity formulas
  of \<open>src/math.rs\<close>, and the freshness check of \<open>src/runtime.rs\<close>. Times are milliseconds in
  \<open>u64\<close>; prices and amounts are binary64.
\<close>

record candle =
  ca_open_ms :: u64
  ca_close_ms :: u64
  ca_open :: f64
  ca_high :: f64
  ca_low :: f64
  ca_close :: f64

record pool_snapshot =
  ps_block :: u64
  ps_block_hash :: string
  ps_time_ms :: u64
  ps_price :: f64
  ps_tick :: int
  ps_tick_spacing :: int
  ps_liquidity :: string
  ps_sqrt_price_x96 :: string
  ps_base_is_token0 :: bool

record lp_position =
  lp_layer :: string
  lp_token_id :: "string option"
  lp_lower :: f64
  lp_upper :: f64
  lp_liquidity :: f64
  lp_raw_liquidity :: string
  lp_unclaimed_base :: f64
  lp_unclaimed_quote :: f64
  lp_base :: f64
  lp_quote :: f64

record portfolio =
  pf_positions :: "lp_position list"
  pf_wallet_base :: f64
  pf_wallet_quote :: f64
  pf_short_base :: f64
  pf_hedge_equity :: f64
  pf_reserve :: f64

definition pf_base :: "portfolio \<Rightarrow> f64" where
  "pf_base pf = pf_wallet_base pf + f_sum (map lp_base (pf_positions pf))"

definition pf_equity :: "portfolio \<Rightarrow> f64 \<Rightarrow> f64" where
  "pf_equity pf p =
     pf_base pf * p + pf_wallet_quote pf + f_sum (map lp_quote (pf_positions pf))
       + pf_hedge_equity pf + pf_reserve pf"

record market_frame =
  mf_now_ms :: u64
  mf_pool :: pool_snapshot
  mf_hedge_price :: f64
  mf_hedge_time_ms :: u64
  mf_candles :: "candle list"
  mf_portfolio :: portfolio

datatype lp_intent = Hold | ExitToQuote | Deploy f64 | Recenter "string list"

record decision =
  d_state :: string
  d_reasons :: "string list"
  d_lp :: lp_intent
  d_target_short_base :: f64
  d_emergency :: bool

definition push_reason :: "string \<Rightarrow> decision \<Rightarrow> decision" where
  "push_reason r d = d\<lparr>d_reasons := d_reasons d @ [r]\<rparr>"

section \<open>Freshness of observations\<close>

definition fresh :: "u64 \<Rightarrow> u64 \<Rightarrow> u64 \<Rightarrow> unit res" where
  "fresh source_ms now_ms max_age_seconds =
     (if source_ms = 0 \<or> source_ms > sat_add now_ms 5000
         \<or> sat_sub now_ms source_ms > sat_mul max_age_seconds 1000
      then Inl (ReadUnavailable ''observation expired or timestamp invalid; refresh before acting'')
      else Inr ())"

lemma unat_m1: "unat (- 1 :: u64) = 2 ^ 64 - 1"
  by (simp add: unsigned_minus_1_eq_mask mask_eq_exp_minus_1)

lemma fresh_age:
  assumes "fresh src now age = Inr ()" shows "unat now \<le> unat src + unat age * 1000"
proof -
  have "sat_sub now src \<le> sat_mul age 1000"
    using assms by (auto simp: fresh_def split: if_splits)
  then have "unat now - unat src \<le> unat (sat_mul age 1000)"
    by (simp add: word_le_nat_alt sat_simps)
  moreover have "unat (sat_mul age 1000) \<le> unat age * 1000"
    by (auto simp: sat_mul_def unat_word_ariths unat_m1)
  ultimately show ?thesis by linarith
qed

section \<open>Concentrated-liquidity formulas\<close>

definition amounts :: "f64 \<Rightarrow> f64 \<Rightarrow> f64 \<Rightarrow> f64 \<Rightarrow> (f64 \<times> f64) res" where
  "amounts liquidity lower upper price =
     rbind (f_clamp price lower upper) (\<lambda>x.
       let p = f_sqrt x
       in Inr (liquidity * (1 / p - 1 / f_sqrt upper), liquidity * (p - f_sqrt lower)))"

definition liquidity_for_value :: "f64 \<Rightarrow> f64 \<Rightarrow> f64 \<Rightarrow> f64 \<Rightarrow> f64 res" where
  "liquidity_for_value value lower upper price =
     rbind (ensure ((\<forall>x \<in> set [value, lower, upper, price]. is_finite x \<and> 0 < x) \<and> lower < upper)
       ''invalid liquidity inputs'')
     (\<lambda>_. rbind (amounts 1 lower upper price)
       (\<lambda>(b, q). Inr (value / (b * price + q))))"

definition range_of :: "f64 \<Rightarrow> f64 \<Rightarrow> f64 \<times> f64" where
  "range_of price width = (price / (1 + width), price * (1 + width))"

definition i32_wrap :: "int \<Rightarrow> int" where
  "i32_wrap i = (i + 2 ^ 31) mod 2 ^ 32 - 2 ^ 31"

definition price_to_tick :: "libm \<Rightarrow> f64 \<Rightarrow> u8 \<Rightarrow> u8 \<Rightarrow> bool \<Rightarrow> f64 res" where
  "price_to_tick m price bd qd base0 =
     rbind (ensure (is_finite price \<and> 0 < price) ''invalid price'') (\<lambda>_.
       let raw = price * powi_fn m (lit 10) (uint qd - uint bd)
       in Inr ((if base0 then ln_fn m raw else - ln_fn m raw) / ln_fn m (lit 1.0001)))"

definition tick_to_price :: "libm \<Rightarrow> int \<Rightarrow> u8 \<Rightarrow> u8 \<Rightarrow> bool \<Rightarrow> f64" where
  "tick_to_price m tick bd qd base0 =
     (let raw = powi_fn m (lit 1.0001) tick
      in (if base0 then raw else 1 / raw) * powi_fn m (lit 10) (uint bd - uint qd))"

definition aligned_ticks ::
    "libm \<Rightarrow> f64 \<Rightarrow> f64 \<Rightarrow> int \<Rightarrow> u8 \<Rightarrow> u8 \<Rightarrow> bool \<Rightarrow> (int \<times> int) res" where
  "aligned_ticks m lower upper spacing bd qd base0 =
     rbind (ensure (0 < spacing \<and> lower < upper) ''invalid tick range'') (\<lambda>_.
     rbind (price_to_tick m lower bd qd base0) (\<lambda>a.
     rbind (price_to_tick m upper bd qd base0) (\<lambda>b.
       let lo = i32_wrap (f_to_i32 (f_floor (f_min a b / f_of_int spacing)) * spacing);
           hi = i32_wrap (f_to_i32 (f_ceil (f_max a b / f_of_int spacing)) * spacing)
       in rbind (ensure (- 887272 \<le> lo \<and> hi \<le> 887272 \<and> lo < hi)
            ''ticks outside Uniswap bounds'') (\<lambda>_. Inr (lo, hi)))))"

lemma aligned_ticks_bounds:
  "aligned_ticks m lower upper spacing bd qd base0 = Inr (lo, hi) \<Longrightarrow>
     - 887272 \<le> lo \<and> lo < hi \<and> hi \<le> 887272"
  by (auto simp: aligned_ticks_def Let_def)

lemma f_clamp_range: "f_clamp x lo hi = Inr y \<Longrightarrow> \<not> is_nan x \<Longrightarrow> lo \<le> y \<and> y \<le> hi"
  by (auto simp: f_clamp_def f64_cmp_defs split: if_splits)

lemma liquidity_for_value_no_panic: "liquidity_for_value v lo hi p \<noteq> Inl (Panic e)"
  by (auto simp: liquidity_for_value_def ensure_def rbind_def amounts_def f_clamp_def Let_def
      f64_cmp_defs split: sum.splits if_splits prod.splits)

end
