(* ===== verification/Indicators.thy ===== *)
theory Indicators
  imports Domain
begin

text \<open>
  Hourly indicators (\<open>src/strategy/indicators.rs\<close>): the checks on the completed candles, the
  two volatilities, the exponential averages and the trend flags. \<open>calculate\<close> is an error
  exactly where the code bails out, and a \<open>Panic\<close> where its indexing would panic.
\<close>

record metrics =
  me_return_1h :: f64
  me_vol_ratio :: f64
  me_recent_vol :: f64
  me_baseline_vol :: f64
  me_downtrend :: bool
  me_no_new_low :: bool
  me_ema_fast :: f64
  me_last_close :: f64
  me_last_close_ms :: u64

definition hour_ms :: u64 where
  "hour_ms = 3600000"

fun ema_loop :: "f64 \<Rightarrow> f64 list \<Rightarrow> f64 \<Rightarrow> f64 \<Rightarrow> f64 \<times> f64" where
  "ema_loop a [] v prev = (v, prev)"
| "ema_loop a (x # xs) v prev = ema_loop a xs (a * x + (1 - a) * v) v"

definition ema :: "f64 list \<Rightarrow> nat \<Rightarrow> (f64 \<times> f64) res" where
  "ema xs period =
     (case xs of [] \<Rightarrow> Inl (Panic ''index out of bounds'')
      | x # r \<Rightarrow> let a = lit 2 / (f_of_nat period + 1) in Inr (ema_loop a r x x))"

definition stddev :: "libm \<Rightarrow> f64 list \<Rightarrow> f64" where
  "stddev m xs =
     (let mean = f_sum xs / f_of_nat (length xs)
      in f_sqrt (f_sum (map (\<lambda>x. powi_fn m (x - mean) 2) xs) / f_of_nat (length xs)))"

definition candle_ok :: "candle \<Rightarrow> bool" where
  "candle_ok r \<longleftrightarrow>
     (\<forall>x \<in> set [ca_open r, ca_high r, ca_low r, ca_close r]. is_finite x \<and> 0 < x)
     \<and> f_max (ca_open r) (ca_close r) \<le> ca_high r
     \<and> ca_low r \<le> f_min (ca_open r) (ca_close r)
     \<and> ca_low r \<le> ca_high r"

definition candle_hourly :: "candle \<Rightarrow> bool" where
  "candle_hourly r \<longleftrightarrow> checked_sub (ca_close_ms r) (ca_open_ms r) = Some 3599999"

fun check_rows :: "candle list \<Rightarrow> unit res" where
  "check_rows [] = Inr ()"
| "check_rows (r # rs) =
     (if \<not> candle_ok r then Inl (Bail ''invalid candle'')
      else if \<not> candle_hourly r then Inl (Bail ''not hourly candles'')
      else check_rows rs)"

text \<open>Adjacent pairs, as \<open>windows(2)\<close>.\<close>

fun pairs :: "'a list \<Rightarrow> ('a \<times> 'a) list" where
  "pairs (x # y # r) = (x, y) # pairs (y # r)"
| "pairs _ = []"

definition contiguous :: "candle list \<Rightarrow> bool" where
  "contiguous rows \<longleftrightarrow> (\<forall>(a, b) \<in> set (pairs rows). ca_open_ms b = ca_open_ms a + 3600000)"

definition need_rows :: "strategy_config \<Rightarrow> nat" where
  "need_rows c = max (sc_vol_long_hours c + sc_vol_short_hours c + 1) (sc_ema_slow_hours c * 3)"

definition last_n :: "nat \<Rightarrow> 'a list \<Rightarrow> 'a list" where
  "last_n n xs = drop (length xs - n) xs"

definition completed :: "u64 \<Rightarrow> candle list \<Rightarrow> candle list" where
  "completed now candles = filter (\<lambda>x. ca_close_ms x < now) candles"

definition select_rows :: "candle list \<Rightarrow> strategy_config \<Rightarrow> u64 \<Rightarrow> candle list res" where
  "select_rows candles c now =
     (let rows = completed now candles; need = need_rows c
      in rbind (ensure (need \<le> length rows)
             (''need '' @ show_nat need @ '' completed hourly candles''))
         (\<lambda>_. let rows = last_n need rows
              in rbind (check_rows rows)
              (\<lambda>_. rbind (ensure (contiguous rows) ''hourly gap/duplicate/out-of-order'')
              (\<lambda>_. case rows of [] \<Rightarrow> Inl (Panic ''called Option::unwrap() on a None value'')
                   | _ \<Rightarrow> rbind (ensure (sat_sub now (ca_close_ms (last rows)) \<le> 3660000)
                        ''stale candle history'') (\<lambda>_. Inr rows)))))"

text \<open>The lookback window of \<open>no_new_low\<close>.\<close>

definition lookback_of :: "strategy_config \<Rightarrow> nat \<Rightarrow> nat" where
  "lookback_of c n = max (min (unat (sc_resume_healthy_hours c)) (n - 1)) 2"

definition measure_rows :: "libm \<Rightarrow> candle list \<Rightarrow> strategy_config \<Rightarrow> metrics res" where
  "measure_rows m rows c =
     (let closes = map ca_close rows;
          returns = map (\<lambda>(a, b). ln_fn m (b / a)) (pairs closes);
          n = length returns;
          split = n - sc_vol_short_hours c;
          lr = last rows;
          lookback = lookback_of c (length rows)
      in if n < sc_vol_short_hours c \<or> split < sc_vol_long_hours c
            \<or> length rows < 1 + lookback \<or> length closes < 2
         then Inl (Panic ''attempt to subtract with overflow'')
         else
           let baseline = stddev m (take (sc_vol_long_hours c)
                            (drop (split - sc_vol_long_hours c) returns));
               recent = stddev m (drop split returns);
               vol_ratio = recent / f_max baseline (lit (1 / 10 ^ 6))
           in rbind (ema closes (sc_ema_fast_hours c)) (\<lambda>(fast, fp).
              rbind (ema closes (sc_ema_slow_hours c)) (\<lambda>(slow, sp).
                let lows = map ca_low (take lookback (drop (length rows - 1 - lookback) rows));
                    prev_low = foldl f_min (Infinite False) lows
                in Inr \<lparr>
                  me_return_1h = ca_close lr / (closes ! (length closes - 2)) - 1,
                  me_vol_ratio = vol_ratio,
                  me_recent_vol = recent,
                  me_baseline_vol = baseline,
                  me_downtrend = (ca_close lr < fast \<and> fast < slow \<and> fast < fp \<and> slow < sp),
                  me_no_new_low = (prev_low \<le> ca_low lr),
                  me_ema_fast = fast,
                  me_last_close = ca_close lr,
                  me_last_close_ms = ca_close_ms lr \<rparr>)))"

definition calculate :: "libm \<Rightarrow> candle list \<Rightarrow> strategy_config \<Rightarrow> u64 \<Rightarrow> metrics res" where
  "calculate m candles c now =
     rbind (select_rows candles c now) (\<lambda>rows. measure_rows m rows c)"

section \<open>Facts\<close>

lemma length_pairs [simp]: "length (pairs xs) = length xs - 1"
  by (induction xs rule: pairs.induct) auto

lemma length_last_n: "n \<le> length xs \<Longrightarrow> length (last_n n xs) = n"
  by (simp add: last_n_def)

lemma set_last_n: "set (last_n n xs) \<subseteq> set xs"
  by (simp add: last_n_def set_drop_subset)

lemma check_rows_Inr: "check_rows rs = Inr () \<longleftrightarrow> (\<forall>r \<in> set rs. candle_ok r \<and> candle_hourly r)"
  by (induction rs) auto

lemma check_rows_no_panic: "check_rows rs \<noteq> Inl (Panic e)"
  by (induction rs) auto

text \<open>What a successful row selection guarantees: the right number of complete, contiguous hours.\<close>

lemma select_rows_eq:
  "select_rows candles c now = Inr rows \<longleftrightarrow>
     need_rows c \<le> length (completed now candles)
     \<and> rows = last_n (need_rows c) (completed now candles)
     \<and> check_rows rows = Inr () \<and> contiguous rows \<and> rows \<noteq> []
     \<and> sat_sub now (ca_close_ms (last rows)) \<le> 3660000"
  by (auto simp: select_rows_def Let_def simp del: check_rows.simps split: list.splits)

lemma select_rows_Inr:
  assumes "select_rows candles c now = Inr rows"
  shows "length rows = need_rows c" "set rows \<subseteq> set (completed now candles)"
    "\<forall>r \<in> set rows. candle_ok r \<and> candle_hourly r" "contiguous rows" "rows \<noteq> []"
    "sat_sub now (ca_close_ms (last rows)) \<le> 3660000"
  using assms set_last_n [of "need_rows c" "completed now candles"]
    length_last_n [of "need_rows c" "completed now candles"]
  unfolding select_rows_eq check_rows_Inr by blast+

lemma ema_total: "xs \<noteq> [] \<Longrightarrow> \<exists>r. ema xs n = Inr r"
  by (cases xs) (auto simp: ema_def Let_def)

lemma measure_rows_total:
  assumes "length rows = need_rows c" "2 \<le> sc_vol_short_hours c" "0 < sc_vol_long_hours c"
  shows "\<exists>m. measure_rows lib rows c = Inr m"
proof -
  have n: "sc_vol_long_hours c + sc_vol_short_hours c + 1 \<le> length rows"
    using assms(1) by (simp add: need_rows_def)
  then have ne: "map ca_close rows \<noteq> []" using assms(2) by auto
  obtain f s where "ema (map ca_close rows) (sc_ema_fast_hours c) = Inr f"
    "ema (map ca_close rows) (sc_ema_slow_hours c) = Inr s"
    using ema_total [OF ne] by metis
  moreover have "1 + lookback_of c (length rows) \<le> length rows"
    using n assms by (auto simp: lookback_of_def)
  ultimately show ?thesis
    using n assms(2) by (cases f; cases s) (auto simp: measure_rows_def Let_def)
qed

lemma calculate_total_on_rows:
  assumes "strategy_sane c" "select_rows candles c now = Inr rows"
  shows "\<exists>m. calculate lib candles c now = Inr m"
  using measure_rows_total [OF select_rows_Inr(1) [OF assms(2)], of lib] assms
  by (auto simp: calculate_def strategy_sane_def)

lemma select_rows_no_panic:
  assumes "strategy_sane c" shows "select_rows candles c now \<noteq> Inl (Panic e)"
proof
  assume H: "select_rows candles c now = Inl (Panic e)"
  have "0 < need_rows c" by (simp add: need_rows_def)
  with H show False
    by (auto simp: select_rows_def Let_def rbind_def ensure_def length_last_n check_rows_no_panic
        split: sum.splits if_splits list.splits)
       (metis length_0_conv length_last_n less_nat_zero_code)+
qed

lemma calculate_no_panic:
  assumes "strategy_sane c" shows "calculate lib candles c now \<noteq> Inl (Panic e)"
proof (cases "select_rows candles c now")
  case (Inl e')
  then show ?thesis using select_rows_no_panic [OF assms] by (auto simp: calculate_def)
next
  case (Inr rows)
  then show ?thesis
    using calculate_total_on_rows [OF assms Inr, of lib] by (metis Inr_Inl_False)
qed

text \<open>The reported last close belongs to a completed candle of the input.\<close>

lemma calculate_last_close:
  assumes "calculate lib candles c now = Inr m"
  shows "\<exists>r \<in> set (completed now candles). ca_close_ms r = me_last_close_ms m
     \<and> ca_close r = me_last_close m \<and> is_finite (me_last_close m) \<and> 0 < me_last_close m"
proof -
  obtain rows where rows: "select_rows candles c now = Inr rows" "measure_rows lib rows c = Inr m"
    using assms by (auto simp: calculate_def)
  note F = select_rows_Inr [OF rows(1)]
  have l: "last rows \<in> set rows" using F(5) by simp
  moreover have "me_last_close_ms m = ca_close_ms (last rows)" "me_last_close m = ca_close (last rows)"
    using rows(2) by (auto simp: measure_rows_def Let_def split: if_splits)
  ultimately show ?thesis using F(2,3) by (auto simp: candle_ok_def intro!: bexI [of _ "last rows"])
qed

end
