(* ===== verification/Strategy_State.thy ===== *)
theory Strategy_State
  imports Indicators
begin

text \<open>
  The persisted state of the strategy (\<open>src/strategy/mod.rs\<close>, \<open>progress.rs\<close>, and the states
  of the two Ethereum profiles in \<open>src/strategy/eth\<close>), and the recovery-progress operations of
  \<open>progress.rs\<close>. The per-layer table is a finite map from layer names; \<open>i8\<close> sides are the
  integers -1, 0, 1.
\<close>

datatype phase = Warmup | Active | Paused | Recovering | Halted

datatype entry_history = Initial | Established | LegacyUnknown

fun phase_name :: "phase \<Rightarrow> string" where
  "phase_name Warmup = ''Warmup''"
| "phase_name Active = ''Active''"
| "phase_name Paused = ''Paused''"
| "phase_name Recovering = ''Recovering''"
| "phase_name Halted = ''Halted''"

record layer_state =
  ls_protected :: bool
  ls_outside_side :: int
  ls_outside_count :: u32

definition layer_state_default :: layer_state where
  "layer_state_default = \<lparr>ls_protected = False, ls_outside_side = 0, ls_outside_count = 0\<rparr>"

record reset =
  rs_time_ms :: u64
  rs_previous_hours :: u32
  rs_reason :: string

record report =
  rp_observed_ms :: u64
  rp_completed_hour_ms :: u64
  rp_recent_hours :: nat
  rp_baseline_hours :: nat
  rp_recent_vol_pct :: f64
  rp_baseline_vol_pct :: f64
  rp_baseline_used_vol_pct :: f64
  rp_vol_ratio :: f64
  rp_pause_ratio :: f64
  rp_resume_ratio :: f64
  rp_healthy_hours :: u32
  rp_required_hours :: u32
  rp_cooldown_remaining_seconds :: u64
  rp_blockers :: "string list"
  rp_counter_event :: string

record progress =
  pr_observed_ms :: u64
  pr_anchor :: "candle option"
  pr_pending_revalidation :: bool
  pr_last_reset :: "reset option"
  pr_report :: "report option"

definition progress_default :: progress where
  "progress_default = \<lparr>pr_observed_ms = 0, pr_anchor = None, pr_pending_revalidation = False,
     pr_last_reset = None, pr_report = None\<rparr>"

record band_state =
  bs_account_origin_equity :: "f64 option"
  bs_risk_equity :: f64
  bs_entered_ms :: u64
  bs_episode_peak :: f64
  bs_entry_drawdown :: f64
  bs_net_exposure_usd :: f64
  bs_pause_threshold :: f64

definition band_state_default :: band_state where
  "band_state_default = \<lparr>bs_account_origin_equity = None, bs_risk_equity = 0, bs_entered_ms = 0,
     bs_episode_peak = 0, bs_entry_drawdown = 0, bs_net_exposure_usd = 0, bs_pause_threshold = 0\<rparr>"

record eth_report =
  er_observed_ms :: u64
  er_completed_hour_ms :: u64
  er_return_1h :: f64
  er_return_24h :: f64
  er_return_72h :: f64
  er_vol_6h :: f64
  er_pause_vol :: f64
  er_healthy_hours :: u32
  er_required_hours :: u32
  er_cooldown_remaining_seconds :: u64

record persistent_state =
  es_band :: "band_state option"
  es_last_observed_ms :: u64
  es_last_hedge_check_ms :: u64
  es_pending_hedge_target :: "f64 option"
  es_reentry_not_before_ms :: u64
  es_pause_anchor_ms :: u64
  es_report :: "eth_report option"

definition persistent_state_default :: persistent_state where
  "persistent_state_default = \<lparr>es_band = None, es_last_observed_ms = 0, es_last_hedge_check_ms = 0,
     es_pending_hedge_target = None, es_reentry_not_before_ms = 0, es_pause_anchor_ms = 0,
     es_report = None\<rparr>"

record strategy =
  st_eth_persistent :: "persistent_state option"
  st_entry_history :: entry_history
  st_phase :: phase
  st_peak_equity :: f64
  st_pause_since :: u64
  st_last_hour :: u64
  st_healthy_hours :: u32
  st_fraction :: f64
  st_last_scale :: u64
  st_last_decision_bar :: u64
  st_layers :: "string \<rightharpoonup> layer_state"
  st_recovery_progress :: progress

definition strategy_default :: strategy where
  "strategy_default = \<lparr>st_eth_persistent = None, st_entry_history = Initial, st_phase = Warmup,
     st_peak_equity = 0, st_pause_since = 0, st_last_hour = 0, st_healthy_hours = 0,
     st_fraction = 0, st_last_scale = 0, st_last_decision_bar = 0, st_layers = Map.empty,
     st_recovery_progress = progress_default\<rparr>"

definition observe_lp :: "bool \<Rightarrow> strategy \<Rightarrow> strategy" where
  "observe_lp has_positions s = (if has_positions then s\<lparr>st_entry_history := Established\<rparr> else s)"

definition has_lp :: "market_frame \<Rightarrow> bool" where
  "has_lp f = (pf_positions (mf_portfolio f) \<noteq> [])"

definition clear_streaks :: "(string \<rightharpoonup> layer_state) \<Rightarrow> (string \<rightharpoonup> layer_state)" where
  "clear_streaks ls = (\<lambda>k. map_option (\<lambda>l. l\<lparr>ls_outside_count := 0, ls_outside_side := 0\<rparr>) (ls k))"

definition layer_of :: "(string \<rightharpoonup> layer_state) \<Rightarrow> string \<Rightarrow> layer_state" where
  "layer_of ls k = (case ls k of None \<Rightarrow> layer_state_default | Some l \<Rightarrow> l)"

section \<open>Recovery progress\<close>

definition recheck_grace_ms :: u64 where
  "recheck_grace_ms = 300000"

definition blockers :: "strategy_config \<Rightarrow> market_frame \<Rightarrow> metrics \<Rightarrow> string list \<Rightarrow> string list" where
  "blockers c f m risk =
     risk
     @ (if sc_vol_resume_ratio c \<le> me_vol_ratio m then [''resume_volatility_high''] else [])
     @ (if \<not> me_no_new_low m then [''new_hourly_low''] else [])
     @ (if ps_price (mf_pool f) < me_ema_fast m then [''below_fast_ema''] else [])"

definition freeze_recovery_progress :: "strategy \<Rightarrow> strategy" where
  "freeze_recovery_progress s =
     s\<lparr>st_recovery_progress := (st_recovery_progress s)\<lparr>pr_pending_revalidation := True\<rparr>\<rparr>"

definition reset_healthy_progress :: "u64 \<Rightarrow> string \<Rightarrow> strategy \<Rightarrow> strategy" where
  "reset_healthy_progress now reason s =
     (let prev = st_healthy_hours s;
          p = st_recovery_progress s;
          record_it = (0 < prev \<or>
            (case pr_last_reset p of None \<Rightarrow> True | Some r \<Rightarrow> rs_reason r \<noteq> reason));
          p' = (if record_it
                then p\<lparr>pr_last_reset := Some \<lparr>rs_time_ms = now, rs_previous_hours = prev,
                        rs_reason = reason\<rparr>\<rparr>
                else p)
      in s\<lparr>st_healthy_hours := 0, st_recovery_progress := p'\<rparr>)"

definition same_bar :: "candle \<Rightarrow> candle \<Rightarrow> bool" where
  "same_bar a b \<longleftrightarrow>
     ca_open_ms a = ca_open_ms b \<and> ca_close_ms a = ca_close_ms b
     \<and> f_eq (ca_open a) (ca_open b) \<and> f_eq (ca_high a) (ca_high b)
     \<and> f_eq (ca_low a) (ca_low b) \<and> f_eq (ca_close a) (ca_close b)"

definition recheck_reason ::
    "strategy \<Rightarrow> market_frame \<Rightarrow> metrics \<Rightarrow> string list \<Rightarrow> string option" where
  "recheck_reason s f m bl =
     (let p = st_recovery_progress s; now = mf_now_ms f in
      if pr_observed_ms p = 0 \<or> pr_anchor p = None then Some ''legacy_without_observation''
      else if now < pr_observed_ms p then Some ''observation_clock_reversed''
      else if now - pr_observed_ms p > recheck_grace_ms then Some ''observation_gap_over_grace''
      else if me_last_close_ms m < st_last_hour s \<or> me_last_close_ms m - st_last_hour s > hour_ms
        then Some ''hourly_gap''
      else if \<not> (case pr_anchor p of None \<Rightarrow> False
          | Some a \<Rightarrow> ca_close_ms a = st_last_hour s \<and> list_ex (same_bar a) (mf_candles f))
        then Some ''completed_candle_changed''
      else if bl \<noteq> [] then Some ''resume_conditions_failed''
      else None)"

definition recheck_progress ::
    "market_frame \<Rightarrow> metrics \<Rightarrow> string list \<Rightarrow> strategy \<times> decision \<Rightarrow> (strategy \<times> decision) \<times> string" where
  "recheck_progress f m bl sd =
     (case sd of (s, d) \<Rightarrow>
      if \<not> pr_pending_revalidation (st_recovery_progress s) then ((s, d), ''unchanged'')
      else
        let s = s\<lparr>st_recovery_progress :=
                   (st_recovery_progress s)\<lparr>pr_pending_revalidation := False\<rparr>\<rparr>
        in if st_healthy_hours s = 0 then ((s, d), ''rechecked_empty'')
           else case recheck_reason s f m bl of
             Some reason \<Rightarrow>
               ((reset_healthy_progress (mf_now_ms f) reason s,
                 push_reason (''recovery_progress_reset: '' @ reason) d), ''reset_after_recheck'')
           | None \<Rightarrow>
               ((s, push_reason (''recovery_progress_retained: healthy_hours=''
                      @ show_word (st_healthy_hours s) @ '', observation_gap_seconds=''
                      @ show_word (div_ceil (mf_now_ms f
                          - pr_observed_ms (st_recovery_progress s)) 1000)) d),
                ''retained_after_recheck''))"

definition report_progress ::
    "strategy_config \<Rightarrow> market_frame \<Rightarrow> metrics \<Rightarrow> string list \<Rightarrow> string \<Rightarrow> strategy \<Rightarrow> strategy" where
  "report_progress c f m bl event s =
     s\<lparr>st_recovery_progress := (st_recovery_progress s)\<lparr>
        pr_observed_ms := mf_now_ms f,
        pr_anchor := find (\<lambda>b. ca_close_ms b = me_last_close_ms m) (mf_candles f),
        pr_report := Some \<lparr>
          rp_observed_ms = mf_now_ms f,
          rp_completed_hour_ms = me_last_close_ms m,
          rp_recent_hours = sc_vol_short_hours c,
          rp_baseline_hours = sc_vol_long_hours c,
          rp_recent_vol_pct = me_recent_vol m * lit 100,
          rp_baseline_vol_pct = me_baseline_vol m * lit 100,
          rp_baseline_used_vol_pct = f_max (me_baseline_vol m) (lit (1 / 10 ^ 6)) * lit 100,
          rp_vol_ratio = me_vol_ratio m,
          rp_pause_ratio = sc_vol_pause_ratio c,
          rp_resume_ratio = sc_vol_resume_ratio c,
          rp_healthy_hours = st_healthy_hours s,
          rp_required_hours = sc_resume_healthy_hours c,
          rp_cooldown_remaining_seconds =
            div_ceil (sat_sub (sc_cooldown_hours c * hour_ms)
              (sat_sub (mf_now_ms f) (st_pause_since s))) 1000,
          rp_blockers = bl,
          rp_counter_event = event\<rparr>\<rparr>\<rparr>"

section \<open>Facts\<close>

text \<open>The progress operations touch only the health counter and the progress record.\<close>

named_theorems progress_frame \<open>fields the progress operations leave alone\<close>

lemma reset_frame [progress_frame, simp]:
  "st_phase (reset_healthy_progress n r s) = st_phase s"
  "st_entry_history (reset_healthy_progress n r s) = st_entry_history s"
  "st_peak_equity (reset_healthy_progress n r s) = st_peak_equity s"
  "st_pause_since (reset_healthy_progress n r s) = st_pause_since s"
  "st_last_hour (reset_healthy_progress n r s) = st_last_hour s"
  "st_fraction (reset_healthy_progress n r s) = st_fraction s"
  "st_last_scale (reset_healthy_progress n r s) = st_last_scale s"
  "st_layers (reset_healthy_progress n r s) = st_layers s"
  "st_last_decision_bar (reset_healthy_progress n r s) = st_last_decision_bar s"
  "st_eth_persistent (reset_healthy_progress n r s) = st_eth_persistent s"
  "st_healthy_hours (reset_healthy_progress n r s) = 0"
  by (simp_all add: reset_healthy_progress_def Let_def)

lemma freeze_frame [progress_frame, simp]:
  "st_phase (freeze_recovery_progress s) = st_phase s"
  "st_entry_history (freeze_recovery_progress s) = st_entry_history s"
  "st_peak_equity (freeze_recovery_progress s) = st_peak_equity s"
  "st_pause_since (freeze_recovery_progress s) = st_pause_since s"
  "st_healthy_hours (freeze_recovery_progress s) = st_healthy_hours s"
  "st_fraction (freeze_recovery_progress s) = st_fraction s"
  "st_layers (freeze_recovery_progress s) = st_layers s"
  by (simp_all add: freeze_recovery_progress_def)

lemma report_frame [progress_frame, simp]:
  "st_phase (report_progress c f m bl ev s) = st_phase s"
  "st_entry_history (report_progress c f m bl ev s) = st_entry_history s"
  "st_peak_equity (report_progress c f m bl ev s) = st_peak_equity s"
  "st_pause_since (report_progress c f m bl ev s) = st_pause_since s"
  "st_last_hour (report_progress c f m bl ev s) = st_last_hour s"
  "st_healthy_hours (report_progress c f m bl ev s) = st_healthy_hours s"
  "st_fraction (report_progress c f m bl ev s) = st_fraction s"
  "st_last_scale (report_progress c f m bl ev s) = st_last_scale s"
  "st_layers (report_progress c f m bl ev s) = st_layers s"
  "st_last_decision_bar (report_progress c f m bl ev s) = st_last_decision_bar s"
  by (simp_all add: report_progress_def)

lemma recheck_frame [progress_frame]:
  assumes "recheck_progress f m bl (s, d) = ((s', d'), ev)"
  shows "st_phase s' = st_phase s" "st_entry_history s' = st_entry_history s"
    "st_peak_equity s' = st_peak_equity s" "st_pause_since s' = st_pause_since s"
    "st_last_hour s' = st_last_hour s" "st_fraction s' = st_fraction s"
    "st_last_scale s' = st_last_scale s" "st_layers s' = st_layers s"
    "st_last_decision_bar s' = st_last_decision_bar s"
    "st_healthy_hours s' = st_healthy_hours s \<or> st_healthy_hours s' = 0"
    "d_lp d' = d_lp d" "d_target_short_base d' = d_target_short_base d"
    "d_emergency d' = d_emergency d"
  using assms
  by (auto simp: recheck_progress_def Let_def push_reason_def split: if_splits option.splits)

text \<open>
  Retained progress is justified: the last observation is recent, the clock did not run
  backwards, the anchor candle is still in the history, and nothing blocks recovery.
\<close>

lemma recheck_retained:
  assumes "recheck_progress f m bl (s, d) = ((s', d'), ev)"
    and "pr_pending_revalidation (st_recovery_progress s)" and "st_healthy_hours s' \<noteq> 0"
  shows "pr_observed_ms (st_recovery_progress s) \<noteq> 0"
    "pr_observed_ms (st_recovery_progress s) \<le> mf_now_ms f"
    "mf_now_ms f - pr_observed_ms (st_recovery_progress s) \<le> recheck_grace_ms"
    "\<exists>a b. pr_anchor (st_recovery_progress s) = Some a \<and> b \<in> set (mf_candles f) \<and> same_bar a b"
    "bl = []" "st_healthy_hours s' = st_healthy_hours s"
  using assms
  by (auto simp: recheck_progress_def recheck_reason_def Let_def list_ex_iff
      split: if_splits option.splits)

end
