(* ===== verification/Risk_Machine.thy ===== *)
theory Risk_Machine
  imports Strategy_State
begin

text \<open>
  The contract every strategy of the program keeps towards its runner, as a locale: a step takes
  a market frame and the persisted state and returns the new state with a decision. A halt is
  absorbing and never deploys, the record that an LP was once established is never forgotten, and
  the equity peak never falls. The runner's view, a run over a sequence of frames, is derived
  once here and holds for each strategy that interprets the locale.
\<close>

type_synonym strategy_step = "market_frame \<Rightarrow> strategy \<Rightarrow> (strategy \<times> decision) res"

text \<open>Consecutive evaluations, as the runner's loop makes them; a panic ends the run.\<close>

fun run_frames :: "strategy_step \<Rightarrow> market_frame list \<Rightarrow> strategy \<Rightarrow> (strategy \<times> decision list) res" where
  "run_frames step [] s = Inr (s, [])"
| "run_frames step (f # fs) s =
     rbind (step f s) (\<lambda>(s1, d). rbind (run_frames step fs s1) (\<lambda>(s2, ds). Inr (s2, d # ds)))"

definition no_deploy :: "decision \<Rightarrow> bool" where
  "no_deploy d \<longleftrightarrow> d_lp d = ExitToQuote \<or> d_lp d = Hold"

lemma run_frames_append:
  "run_frames step (fs @ gs) s =
     rbind (run_frames step fs s) (\<lambda>(s1, ds). rbind (run_frames step gs s1) (\<lambda>(s2, es). Inr (s2, ds @ es)))"
  by (induction fs arbitrary: s) (auto simp: rbind_def split: sum.splits prod.splits)

lemma run_invariant:
  assumes "run_frames step fs s = Inr (s', ds)" "P s"
    and "\<And>f s s' d. step f s = Inr (s', d) \<Longrightarrow> P s \<Longrightarrow> P s'"
  shows "P s'"
  using assms(1,2) by (induction fs arbitrary: s ds) (auto intro: assms(3))

locale risk_machine =
  fixes step :: strategy_step
  assumes halted_stays: "step f s = Inr (s', d) \<Longrightarrow> st_phase s = Halted \<Longrightarrow> st_phase s' = Halted"
    and halted_no_deploy: "step f s = Inr (s', d) \<Longrightarrow> st_phase s' = Halted \<Longrightarrow> no_deploy d"
    and history_sticky:
      "step f s = Inr (s', d) \<Longrightarrow> st_entry_history s = Established \<Longrightarrow> st_entry_history s' = Established"
    and peak_step:
      "step f s = Inr (s', d) \<Longrightarrow> \<not> is_nan (st_peak_equity s) \<Longrightarrow> st_peak_equity s \<le> st_peak_equity s'"
begin

lemma halted_run:
  assumes "run_frames step fs s = Inr (s', ds)" "st_phase s = Halted"
  shows "st_phase s' = Halted \<and> (\<forall>d \<in> set ds. no_deploy d)"
  using assms
proof (induction fs arbitrary: s ds)
  case Nil
  then show ?case by simp
next
  case (Cons f fs)
  then obtain s1 d es where 1: "step f s = Inr (s1, d)" "run_frames step fs s1 = Inr (s', es)"
    "ds = d # es" by auto
  have "st_phase s1 = Halted" using halted_stays [OF 1(1)] Cons.prems(2) .
  with Cons.IH [OF 1(2)] halted_no_deploy [OF 1(1)] show ?case by (auto simp: 1(3))
qed

lemma history_run:
  assumes "run_frames step fs s = Inr (s', ds)" "st_entry_history s = Established"
  shows "st_entry_history s' = Established"
  using assms
  by (induction fs arbitrary: s ds) (auto dest: history_sticky)

lemma peak_run:
  assumes "run_frames step fs s = Inr (s', ds)" "\<not> is_nan (st_peak_equity s)"
  shows "st_peak_equity s \<le> st_peak_equity s'"
  using assms
proof (induction fs arbitrary: s ds)
  case Nil
  then show ?case by (simp add: f_le_refl)
next
  case (Cons f fs)
  then obtain s1 d es where 1: "step f s = Inr (s1, d)" "run_frames step fs s1 = Inr (s', es)"
    by auto
  have le: "st_peak_equity s \<le> st_peak_equity s1" by (rule peak_step [OF 1(1) Cons.prems(2)])
  then show ?case using Cons.IH [OF 1(2)] f_less_not_nan(2) [OF le] by (auto intro: f_le_trans)
qed

text \<open>Once halted, whatever frames came before and whatever frames follow, nothing is deployed.\<close>

lemma halted_prefix:
  assumes "run_frames step (fs @ gs) s = Inr (s', ds)" "run_frames step fs s = Inr (s1, es)"
    and "st_phase s1 = Halted"
  shows "st_phase s' = Halted \<and> (\<forall>d \<in> set (drop (length es) ds). no_deploy d)"
proof -
  from assms(1,2) obtain hs where "run_frames step gs s1 = Inr (s', hs)" "ds = es @ hs"
    by (auto simp: run_frames_append)
  then show ?thesis using halted_run [OF _ assms(3)] by auto
qed

end

text \<open>
  A strategy with a drawdown limit: \<open>tripped\<close> says that a usable frame shows an equity at or
  below the limit for the state.
\<close>

locale drawdown_machine = risk_machine step for step :: strategy_step +
  fixes tripped :: "market_frame \<Rightarrow> strategy \<Rightarrow> bool"
  assumes trip_halts: "step f s = Inr (s', d) \<Longrightarrow> tripped f s \<Longrightarrow> st_phase s' = Halted \<and> d_lp d = ExitToQuote"
begin

lemma trip_run:
  assumes "run_frames step (fs @ f # gs) s = Inr (s', ds)" "run_frames step fs s = Inr (s1, es)"
    and "tripped f s1"
  shows "st_phase s' = Halted \<and> (\<forall>d \<in> set (drop (length es) ds). no_deploy d)"
proof -
  from assms(1,2) obtain s2 d hs where 1: "step f s1 = Inr (s2, d)"
    "run_frames step gs s2 = Inr (s', hs)" "ds = es @ d # hs"
    by (auto simp: run_frames_append)
  from trip_halts [OF 1(1) assms(3)] have "st_phase s2 = Halted" by simp
  with halted_run [OF 1(2)] halted_no_deploy [OF 1(1)] show ?thesis by (auto simp: 1(3))
qed

end

end
