(* ===== verification/Strategy.thy ===== *)
theory Strategy
  imports Strategy_State
begin

text \<open>
  The shared strategy state machine, \<open>Strategy::evaluate_inner\<close> of \<open>src/strategy/mod.rs\<close>:
  entry of a frame, the data gate, the drawdown gate, the market-risk gate, the hourly health
  counter, the phase transitions and the range step. Each stage is a definition over the state
  and the decision under construction; \<open>evaluate_inner\<close> composes them in the code's order and
  returns early where the code does. \<open>Inl\<close> is a panic only: errors of the indicators are
  handled inside.
\<close>

definition hold_decision :: "strategy \<Rightarrow> market_frame \<Rightarrow> decision" where
  "hold_decision s f =
     \<lparr>d_state = phase_name (st_phase s), d_reasons = [], d_lp = Hold,
      d_target_short_base = pf_short_base (mf_portfolio f), d_emergency = False\<rparr>"

definition enter_frame :: "market_frame \<Rightarrow> strategy \<Rightarrow> strategy" where
  "enter_frame f s0 =
     (let s = observe_lp (has_lp f) s0
      in if st_phase s = Warmup \<and> st_entry_history s \<noteq> Initial \<and> \<not> has_lp f
         then s\<lparr>st_phase := Paused, st_pause_since := mf_now_ms f\<rparr> else s)"

definition frame_stale :: "strategy_config \<Rightarrow> market_frame \<Rightarrow> bool" where
  "frame_stale c f \<longleftrightarrow>
     sat_sub (mf_now_ms f) (ps_time_ms (mf_pool f)) > sc_max_data_age_seconds c * 1000
     \<or> sat_sub (mf_now_ms f) (mf_hedge_time_ms f) > sc_max_data_age_seconds c * 1000"

definition frame_valid :: "market_frame \<Rightarrow> bool" where
  "frame_valid f \<longleftrightarrow>
     (let p = ps_price (mf_pool f); pf = mf_portfolio f in
      (\<forall>x \<in> set [p, mf_hedge_price f, pf_equity pf p, pf_base pf, pf_short_base pf]. is_finite x)
      \<and> 0 < p \<and> 0 < mf_hedge_price f)"

definition data_exit :: "bool \<Rightarrow> market_frame \<Rightarrow> strategy \<Rightarrow> decision \<Rightarrow> strategy \<times> decision" where
  "data_exit continuity f s d =
     (let s' = (if continuity then freeze_recovery_progress s
                else (if st_phase s \<noteq> Halted
                      then s\<lparr>st_phase := Paused, st_pause_since := mf_now_ms f\<rparr>
                      else s)\<lparr>st_healthy_hours := 0\<rparr>)
      in (s', push_reason ''stale_or_invalid_data: no transactions using uncertain prices''
                (d\<lparr>d_state := phase_name (st_phase s')\<rparr>)))"

definition drawdown_step ::
    "strategy_config \<Rightarrow> market_frame \<Rightarrow> strategy \<Rightarrow> decision \<Rightarrow> strategy \<times> decision" where
  "drawdown_step c f s d =
     (let equity = pf_equity (mf_portfolio f) (ps_price (mf_pool f));
          s = s\<lparr>st_peak_equity := f_max (f_max (st_peak_equity s) equity) (sc_total_capital c)\<rparr>
      in if equity < st_peak_equity s * (1 - sc_max_drawdown c)
         then (s\<lparr>st_phase := Halted\<rparr>, push_reason ''portfolio_drawdown_limit'' d)
         else (s, d))"

text \<open>Leave every LP and hold the hedge against the whole base inventory.\<close>

definition exit_decision :: "market_frame \<Rightarrow> decision \<Rightarrow> decision" where
  "exit_decision f d =
     d\<lparr>d_lp := ExitToQuote, d_target_short_base := pf_base (mf_portfolio f), d_emergency := True\<rparr>"

definition indicator_exit ::
    "bool \<Rightarrow> market_frame \<Rightarrow> string \<Rightarrow> strategy \<Rightarrow> decision \<Rightarrow> strategy \<times> decision" where
  "indicator_exit continuity f e s d =
     ((if continuity then freeze_recovery_progress s else s),
      (push_reason (''indicator_warmup_or_gap: '' @ e) d)\<lparr>
        d_target_short_base := pf_base (mf_portfolio f), d_emergency := has_lp f\<rparr>)"

record market_risk =
  mr_fast :: bool
  mr_shock :: bool
  mr_down :: bool
  mr_basis :: bool

definition market_risk_of :: "strategy_config \<Rightarrow> market_frame \<Rightarrow> metrics \<Rightarrow> market_risk" where
  "market_risk_of c f m =
     (let p = ps_price (mf_pool f);
          basis = \<bar>p / mf_hedge_price f - 1\<bar> * lit 10000
      in \<lparr>mr_fast = (me_return_1h m < - sc_fast_drop_1h c
            \<or> p / me_last_close m - 1 < - sc_fast_drop_1h c),
          mr_shock = (sc_vol_pause_ratio c < me_vol_ratio m),
          mr_down = me_downtrend m,
          mr_basis = (sc_max_basis_bps c < basis)\<rparr>)"

definition unsafe_market :: "market_risk \<Rightarrow> bool" where
  "unsafe_market r \<longleftrightarrow> mr_fast r \<or> mr_shock r \<or> mr_down r \<or> mr_basis r"

definition risk_reasons :: "market_risk \<Rightarrow> string list" where
  "risk_reasons r =
     (if mr_fast r then [''fast_drop''] else [])
     @ (if mr_shock r then [''volatility_spike''] else [])
     @ (if mr_down r then [''persistent_downtrend''] else [])
     @ (if mr_basis r then [''pool_perp_basis_limit''] else [])"

definition risk_step ::
    "bool \<Rightarrow> market_frame \<Rightarrow> string list \<Rightarrow> strategy \<Rightarrow> strategy" where
  "risk_step continuity f bl s =
     (let s = (if st_phase s \<noteq> Paused then s\<lparr>st_pause_since := mf_now_ms f\<rparr> else s);
          s = s\<lparr>st_phase := Paused\<rparr>;
          s = (if continuity
               then reset_healthy_progress (mf_now_ms f)
                      (case bl of [] \<Rightarrow> ''hour_not_healthy'' | r # _ \<Rightarrow> r)
                      (s\<lparr>st_recovery_progress :=
                          (st_recovery_progress s)\<lparr>pr_pending_revalidation := False\<rparr>\<rparr>)
               else s\<lparr>st_healthy_hours := 0\<rparr>)
      in s\<lparr>st_fraction := 0, st_layers := clear_streaks (st_layers s)\<rparr>)"

text \<open>The health counter moves once per newly completed hour.\<close>

definition hour_step ::
    "bool \<Rightarrow> bool \<Rightarrow> bool \<Rightarrow> market_frame \<Rightarrow> metrics \<Rightarrow> strategy \<times> string \<Rightarrow> strategy \<times> string" where
  "hour_step continuity unsafe healthy f m se =
     (case se of (s, ev) \<Rightarrow>
      if \<not> me_last_close_ms m > st_last_hour s then (s, ev)
      else
        let zero = (\<lambda>r s. if continuity then reset_healthy_progress (mf_now_ms f) r s
                          else s\<lparr>st_healthy_hours := 0\<rparr>);
            s = (if st_last_hour s > 0 \<and> me_last_close_ms m - st_last_hour s > hour_ms
                 then zero ''hourly_gap'' s else s);
            s = s\<lparr>st_last_hour := me_last_close_ms m\<rparr>
        in if healthy
           then (s\<lparr>st_healthy_hours := sat_add (st_healthy_hours s) 1\<rparr>, ''hour_counted'')
           else ((if continuity \<and> \<not> unsafe
                  then reset_healthy_progress (mf_now_ms f) ''hour_not_healthy'' s
                  else s\<lparr>st_healthy_hours := 0\<rparr>), ev))"

text \<open>Phase transitions; the flag says the wait branch returned early.\<close>

definition resume_allowed ::
    "strategy_config \<Rightarrow> bool \<Rightarrow> bool \<Rightarrow> bool \<Rightarrow> market_frame \<Rightarrow> strategy \<Rightarrow> bool" where
  "resume_allowed c continuity unsafe healthy f s \<longleftrightarrow>
     \<not> unsafe \<and> (\<not> continuity \<or> healthy)
     \<and> sc_resume_healthy_hours c \<le> st_healthy_hours s
     \<and> sc_cooldown_hours c * hour_ms \<le> sat_sub (mf_now_ms f) (st_pause_since s)"

definition wait_reason :: "strategy_config \<Rightarrow> market_frame \<Rightarrow> strategy \<Rightarrow> string" where
  "wait_reason c f s =
     (let remaining = sat_sub (sc_cooldown_hours c * hour_ms)
                        (sat_sub (mf_now_ms f) (st_pause_since s))
      in ''resume_wait: cooldown_remaining_seconds='' @ show_word (div_ceil remaining 1000)
         @ '', healthy_hours='' @ show_word (st_healthy_hours s)
         @ ''/'' @ show_word (sc_resume_healthy_hours c))"

definition phase_step ::
    "strategy_config \<Rightarrow> bool \<Rightarrow> bool \<Rightarrow> bool \<Rightarrow> market_frame \<Rightarrow> strategy \<Rightarrow> decision
      \<Rightarrow> bool \<times> strategy \<times> decision" where
  "phase_step c continuity unsafe healthy f s d =
     (if st_phase s = Paused then
        (if st_entry_history s = Initial \<and> \<not> unsafe then
           (False, s\<lparr>st_phase := Active, st_fraction := 1\<rparr>,
            push_reason ''initial_entry: cooldown and healthy-hour waiting waived''
              (d\<lparr>d_lp := Deploy 1\<rparr>))
         else if resume_allowed c continuity unsafe healthy f s then
           (False, s\<lparr>st_phase := Recovering, st_fraction := sc_recovery_fraction c,
                     st_last_scale := mf_now_ms f\<rparr>,
            d\<lparr>d_lp := Deploy (sc_recovery_fraction c)\<rparr>)
         else
           (True, s, (exit_decision f (push_reason (wait_reason c f s) d))\<lparr>d_state := ''Paused''\<rparr>))
      else if st_phase s = Warmup then
        (False, s\<lparr>st_phase := Active, st_fraction := 1\<rparr>,
         if \<not> has_lp f
         then push_reason ''initial_entry: current-market checks passed'' (d\<lparr>d_lp := Deploy 1\<rparr>)
         else d)
      else if st_phase s = Recovering \<and> (\<not> continuity \<or> healthy)
          \<and> sc_resume_healthy_hours c \<le> st_healthy_hours s
          \<and> sc_recovery_step_hours c * hour_ms \<le> sat_sub (mf_now_ms f) (st_last_scale s) then
        (let fr = f_min (st_fraction s + sc_recovery_fraction c) 1 in
         (False, s\<lparr>st_fraction := fr, st_last_scale := mf_now_ms f,
                   st_phase := (if 1 \<le> fr then Active else st_phase s)\<rparr>,
          d\<lparr>d_lp := Deploy fr\<rparr>))
      else (False, s, d))"

text \<open>One observation bar per bucket; a missed bar clears the breakout streaks.\<close>

definition bar_step :: "u64 \<Rightarrow> strategy \<Rightarrow> strategy \<times> bool" where
  "bar_step bucket s =
     (if bucket > st_last_decision_bar s
      then ((if st_last_decision_bar s > 0 \<and> bucket > st_last_decision_bar s + 1
             then s\<lparr>st_layers := clear_streaks (st_layers s)\<rparr> else s)
            \<lparr>st_last_decision_bar := bucket\<rparr>, True)
      else (s, False))"

definition breakout_side :: "strategy_config \<Rightarrow> f64 \<Rightarrow> lp_position \<Rightarrow> int" where
  "breakout_side c p pos =
     (if p < lp_lower pos * (1 - sc_breakout_buffer c) then - 1
      else if p > lp_upper pos * (1 + sc_breakout_buffer c) then 1 else 0)"

definition streak_step :: "strategy_config \<Rightarrow> int \<Rightarrow> layer_state \<Rightarrow> layer_state \<times> bool" where
  "streak_step c side l =
     (let count = (if side = 0 then 0
                   else if side = ls_outside_side l then ls_outside_count l + 1 else 1);
          confirmed = (sc_breakout_confirm_bars c \<le> count)
      in (l\<lparr>ls_outside_count := (if confirmed then 0 else count), ls_outside_side := side\<rparr>, confirmed))"

record range_acc =
  ra_layers :: "string \<rightharpoonup> layer_state"
  ra_target :: f64
  ra_emergency :: bool
  ra_resets :: "string list"

definition range_pos ::
    "strategy_config \<Rightarrow> f64 \<Rightarrow> bool \<Rightarrow> range_acc \<Rightarrow> lp_position \<Rightarrow> range_acc" where
  "range_pos c p new_bar a pos =
     (let l = layer_of (ra_layers a) (lp_layer pos);
          l = (if p < lp_lower pos then l\<lparr>ls_protected := True\<rparr> else l);
          l = (if p > lp_lower pos * (1 + sc_hedge_release_buffer c)
               then l\<lparr>ls_protected := False\<rparr> else l);
          weight = (if ls_protected l then 1 else sc_inside_hedge_ratio c);
          (l', confirmed) = (if new_bar then streak_step c (breakout_side c p pos) l else (l, False))
      in \<lparr>ra_layers = (ra_layers a)(lp_layer pos \<mapsto> l'),
          ra_target = ra_target a + lp_base pos * weight,
          ra_emergency = (ra_emergency a \<or> ls_protected l),
          ra_resets = ra_resets a @ (if confirmed then [lp_layer pos] else [])\<rparr>)"

definition range_start :: "market_frame \<Rightarrow> strategy \<Rightarrow> decision \<Rightarrow> range_acc" where
  "range_start f s d =
     \<lparr>ra_layers = st_layers s, ra_target = pf_wallet_base (mf_portfolio f),
      ra_emergency = d_emergency d, ra_resets = []\<rparr>"

definition range_step ::
    "strategy_config \<Rightarrow> market_frame \<Rightarrow> strategy \<Rightarrow> decision \<Rightarrow> (strategy \<times> decision) res" where
  "range_step c f s d =
     rbind (udiv (mf_now_ms f) (sc_decision_bar_seconds c * 1000)) (\<lambda>bucket.
       let (s, new_bar) = bar_step bucket s;
           a = foldl (range_pos c (ps_price (mf_pool f)) new_bar) (range_start f s d)
                 (pf_positions (mf_portfolio f));
           s = s\<lparr>st_layers := ra_layers a\<rparr>
       in Inr (s, d\<lparr>d_emergency := ra_emergency a,
                    d_lp := (if d_lp d = Hold \<and> ra_resets a \<noteq> []
                             then Recenter (ra_resets a) else d_lp d),
                    d_target_short_base := f_max (ra_target a) 0,
                    d_state := phase_name (st_phase s)\<rparr>))"

text \<open>From the indicators to the health counter and its report.\<close>

definition health_stage ::
    "strategy_config \<Rightarrow> market_frame \<Rightarrow> bool \<Rightarrow> metrics \<Rightarrow> string list \<Rightarrow> bool
      \<Rightarrow> strategy \<Rightarrow> decision \<Rightarrow> strategy \<times> decision" where
  "health_stage c f continuity m bl unsafe s d =
     (let ((s, d), ev) = (if continuity \<and> \<not> unsafe then recheck_progress f m bl (s, d)
                          else ((s, d), ''unchanged''));
          (s, ev) = (if unsafe
                     then (risk_step continuity f bl s, if continuity then ''reset_market_risk'' else ev)
                     else (s, ev));
          (s, ev) = hour_step continuity unsafe (bl = []) f m (s, ev)
      in (if continuity
          then report_progress c f m bl (if ev = ''unchanged'' then ''waiting_next_hour'' else ev) s
          else s, d))"

definition market_stage ::
    "strategy_config \<Rightarrow> market_frame \<Rightarrow> bool \<Rightarrow> metrics \<Rightarrow> strategy \<Rightarrow> decision
      \<Rightarrow> bool \<times> strategy \<times> decision" where
  "market_stage c f continuity m s d =
     (let r = market_risk_of c f m;
          d = d\<lparr>d_reasons := d_reasons d @ risk_reasons r\<rparr>;
          unsafe = unsafe_market r;
          bl = blockers c f m (d_reasons d);
          (s, d) = health_stage c f continuity m bl unsafe s d
      in phase_step c continuity unsafe (bl = []) f s d)"

definition evaluate_inner ::
    "libm \<Rightarrow> strategy_config \<Rightarrow> market_frame \<Rightarrow> bool \<Rightarrow> strategy \<Rightarrow> (strategy \<times> decision) res" where
  "evaluate_inner lib c f continuity s0 =
     (let s = enter_frame f s0; d = hold_decision s f
      in if frame_stale c f \<or> \<not> frame_valid f then Inr (data_exit continuity f s d)
         else
           let (s, d) = drawdown_step c f s d
           in if st_phase s = Halted
              then Inr (s, (exit_decision f d)\<lparr>d_state := ''Halted''\<rparr>)
              else case calculate lib (mf_candles f) c (mf_now_ms f) of
                Inl e \<Rightarrow>
                  (case e of Bail msg \<Rightarrow> Inr (indicator_exit continuity f msg s d) | _ \<Rightarrow> Inl e)
              | Inr m \<Rightarrow>
                  (case market_stage c f continuity m s d of (returned, s, d) \<Rightarrow>
                     if returned then Inr (s, d) else range_step c f s d))"

definition evaluate :: "libm \<Rightarrow> strategy_config \<Rightarrow> market_frame \<Rightarrow> strategy \<Rightarrow> (strategy \<times> decision) res" where
  "evaluate lib c f s = evaluate_inner lib c f False s"

end
