(* ===== verification/Eth_Profile.thy ===== *)
theory Eth_Profile
  imports Risk_Machine Strategy
begin

text \<open>
  The persistent Ethereum profile (\<open>src/strategy/eth/mod.rs\<close>): the hourly feature, the guard
  thresholds, and the plain state machine of \<open>evaluate_feature\<close>; the band profile
  (\<open>src/strategy/eth/band.rs\<close>) is in the second half, because \<open>evaluate_feature\<close> dispatches to
  it. The code borrows \<open>s.eth_persistent\<close> mutably as \<open>st\<close>; here \<open>eth_state\<close> reads it and
  \<open>upd_eth\<close> writes it back (inserting the default, as \<open>get_or_insert_with\<close> does).
\<close>

record feature =
  fe_time :: u64
  fe_close :: f64
  fe_r1 :: f64
  fe_r6 :: f64
  fe_r24 :: f64
  fe_r72 :: f64
  fe_vol6 :: f64

record guard =
  gu_drop1 :: f64
  gu_drop24 :: f64
  gu_drop72 :: f64
  gu_vol :: f64

definition guard_of :: "persistent_config \<Rightarrow> strategy_config \<Rightarrow> guard" where
  "guard_of pc c = \<lparr>gu_drop1 = sc_fast_drop_1h c, gu_drop24 = pc_drop_24h pc,
     gu_drop72 = pc_drop_72h pc, gu_vol = pc_max_hourly_vol pc\<rparr>"

definition guard_danger :: "guard \<Rightarrow> feature \<Rightarrow> f64 \<Rightarrow> string option" where
  "guard_danger g x p =
     (if fe_r1 x < - gu_drop1 g \<or> p / fe_close x - 1 < - gu_drop1 g then Some ''fast_drop''
      else if fe_r24 x < - gu_drop24 g \<or> fe_r72 x < - gu_drop72 g then Some ''downtrend''
      else if gu_vol g < fe_vol6 x then Some ''volatility''
      else None)"

definition guard_recovered :: "guard \<Rightarrow> feature \<Rightarrow> f64 \<Rightarrow> bool" where
  "guard_recovered g x p \<longleftrightarrow>
     guard_danger g x p = None \<and> - lit 0.01 \<le> fe_r6 x \<and> - lit 0.005 \<le> fe_r1 x
     \<and> fe_vol6 x < gu_vol g * lit 0.8"

definition feature_at :: "libm \<Rightarrow> candle list \<Rightarrow> nat \<Rightarrow> feature" where
  "feature_at m a i =
     (let ret = (\<lambda>n. ca_close (a ! i) / ca_close (a ! (i - n)) - 1);
          r = map (\<lambda>j. ln_fn m (ca_close (a ! j) / ca_close (a ! (j - 1)))) [i - 5 ..< i + 1];
          mean = f_sum r / lit 6
      in \<lparr>fe_time = ca_close_ms (a ! i), fe_close = ca_close (a ! i),
          fe_r1 = ret 1, fe_r6 = ret 6, fe_r24 = ret 24, fe_r72 = ret 72,
          fe_vol6 = f_sqrt (f_sum (map (\<lambda>x. powi_fn m (x - mean) 2) r) / lit 6)\<rparr>)"

definition features :: "libm \<Rightarrow> candle list \<Rightarrow> feature list" where
  "features m a = map (feature_at m a) [72 ..< length a]"

definition hourly_ok :: "candle \<Rightarrow> bool" where
  "hourly_ok x \<longleftrightarrow>
     (\<forall>v \<in> set [ca_open x, ca_close x, ca_low x, ca_high x]. is_finite v \<and> 0 < v)
     \<and> f_max (ca_open x) (ca_close x) \<le> ca_high x
     \<and> ca_low x \<le> f_min (ca_open x) (ca_close x)
     \<and> checked_sub (ca_close_ms x) (ca_open_ms x) = Some (hour_ms - 1)"

definition latest_feature :: "libm \<Rightarrow> candle list \<Rightarrow> u64 \<Rightarrow> feature res" where
  "latest_feature m candles now =
     (let a = completed now candles in
      rbind (ensure (73 \<le> length a) ''need 73 completed hourly candles'') (\<lambda>_.
      let a = last_n 73 a in
      rbind (ensure (\<forall>x \<in> set a. hourly_ok x) ''invalid hourly candle'') (\<lambda>_.
      rbind (ensure (contiguous a) ''hourly gap/duplicate/out-of-order'') (\<lambda>_.
      rbind (ensure (sat_sub now (ca_close_ms (a ! 72)) \<le> hour_ms + 60000) ''stale candle history'') (\<lambda>_.
      case features m a of [] \<Rightarrow> Inl (Panic ''removal index (is 0) should be < len (is 0)'')
      | x # _ \<Rightarrow> Inr x)))))"

section \<open>The persisted profile state\<close>

definition eth_state :: "strategy \<Rightarrow> persistent_state" where
  "eth_state s = (case st_eth_persistent s of None \<Rightarrow> persistent_state_default | Some e \<Rightarrow> e)"

definition upd_eth :: "(persistent_state \<Rightarrow> persistent_state) \<Rightarrow> strategy \<Rightarrow> strategy" where
  "upd_eth g s = s\<lparr>st_eth_persistent := Some (g (eth_state s))\<rparr>"

definition band_of :: "persistent_state \<Rightarrow> band_state" where
  "band_of e = (case es_band e of None \<Rightarrow> band_state_default | Some b \<Rightarrow> b)"

definition upd_band :: "(band_state \<Rightarrow> band_state) \<Rightarrow> strategy \<Rightarrow> strategy" where
  "upd_band g = upd_eth (\<lambda>e. e\<lparr>es_band := Some (g (band_of e))\<rparr>)"

lemma upd_band_code [code]:
  "upd_band g s =
     (let e = eth_state s; b = g (band_of e) in s\<lparr>st_eth_persistent := Some (e\<lparr>es_band := Some b\<rparr>)\<rparr>)"
  by (simp add: upd_band_def upd_eth_def Let_def)

definition band_config_of :: "strategy_config \<Rightarrow> band_config option" where
  "band_config_of c = Option.bind (sc_eth_persistent c) pc_band"

section \<open>Stages shared by the two profiles\<close>

text \<open>
  A pause that the profile did not start itself (the runner's own cooldown) restarts the clock;
  the band profile also forgets its entry time.
\<close>

definition eth_pause_sync :: "bool \<Rightarrow> strategy_config \<Rightarrow> strategy \<Rightarrow> strategy" where
  "eth_pause_sync band c s =
     (if st_phase s = Paused \<and> es_pause_anchor_ms (eth_state s) \<noteq> st_pause_since s
      then (upd_eth (\<lambda>e. e\<lparr>
              es_pause_anchor_ms := st_pause_since s,
              es_reentry_not_before_ms := st_pause_since s + sc_cooldown_hours c * hour_ms,
              es_pending_hedge_target := None,
              es_band := (if band then map_option (\<lambda>b. b\<lparr>bs_entered_ms := 0\<rparr>) (es_band e)
                          else es_band e)\<rparr>) s)
            \<lparr>st_healthy_hours := 0\<rparr>
      else upd_eth id s)"

definition eth_observe :: "strategy_config \<Rightarrow> market_frame \<Rightarrow> strategy \<Rightarrow> strategy" where
  "eth_observe c f s =
     (let seen = es_last_observed_ms (eth_state s); now = mf_now_ms f;
          s = (if seen > now \<or> seen > 0 \<and> now - seen > sc_max_data_age_seconds c * 1000
               then s\<lparr>st_healthy_hours := 0, st_layers := Map.empty\<rparr> else s)
      in upd_eth (\<lambda>e. e\<lparr>es_last_observed_ms := now\<rparr>) s)"

definition eth_peak :: "strategy_config \<Rightarrow> f64 \<Rightarrow> strategy \<Rightarrow> strategy" where
  "eth_peak c eq s = s\<lparr>st_peak_equity := f_max (f_max (st_peak_equity s) eq) (sc_total_capital c)\<rparr>"

definition eth_danger :: "strategy_config \<Rightarrow> guard \<Rightarrow> market_frame \<Rightarrow> feature \<Rightarrow> string option" where
  "eth_danger c g f x =
     (let p = ps_price (mf_pool f) in
      case guard_danger g x p of Some r \<Rightarrow> Some r
      | None \<Rightarrow> if sc_max_basis_bps c < \<bar>p / mf_hedge_price f - 1\<bar> * lit 10000
                then Some ''pool_perp_basis_limit'' else None)"

definition eth_hour :: "guard \<Rightarrow> feature \<Rightarrow> f64 \<Rightarrow> string option \<Rightarrow> strategy \<Rightarrow> strategy" where
  "eth_hour g x p danger s =
     (let s = (if fe_time x > st_last_hour s
               then (let s = (if st_last_hour s > 0 \<and> fe_time x - st_last_hour s \<noteq> hour_ms
                              then s\<lparr>st_healthy_hours := 0\<rparr> else s)
                     in s\<lparr>st_last_hour := fe_time x,
                          st_healthy_hours := (if guard_recovered g x p
                            then sat_add (st_healthy_hours s) 1 else 0)\<rparr>)
               else s)
      in if danger \<noteq> None then s\<lparr>st_healthy_hours := 0\<rparr> else s)"

definition outside_pos ::
    "u32 \<Rightarrow> (lp_position \<Rightarrow> int) \<Rightarrow> (string \<rightharpoonup> layer_state) \<times> bool \<Rightarrow> lp_position
      \<Rightarrow> (string \<rightharpoonup> layer_state) \<times> bool" where
  "outside_pos confirm side acc pos =
     (case acc of (ls, out) \<Rightarrow>
      let dir = side pos; l = layer_of ls (lp_layer pos);
          n = (if dir = 0 then 0
               else if dir = ls_outside_side l then sat_add (ls_outside_count l) 1 else 1)
      in (ls(lp_layer pos \<mapsto> l\<lparr>ls_outside_count := n, ls_outside_side := dir\<rparr>), out \<or> confirm \<le> n))"

definition eth_bar ::
    "strategy_config \<Rightarrow> (lp_position \<Rightarrow> int) \<Rightarrow> market_frame \<Rightarrow> u64 \<Rightarrow> strategy \<Rightarrow> strategy \<times> bool" where
  "eth_bar c side f bucket s =
     (let s = (if st_last_decision_bar s > 0 \<and> bucket > st_last_decision_bar s + 1
               then s\<lparr>st_layers := Map.empty\<rparr> else s);
          (ls, out) = foldl (outside_pos (sc_breakout_confirm_bars c) side)
                        (st_layers s, False) (pf_positions (mf_portfolio f))
      in (s\<lparr>st_last_decision_bar := bucket, st_layers := ls\<rparr>, out))"

definition eth_report_of ::
    "strategy_config \<Rightarrow> guard \<Rightarrow> market_frame \<Rightarrow> feature \<Rightarrow> u64 \<Rightarrow> strategy \<Rightarrow> strategy" where
  "eth_report_of c g f x remaining s =
     upd_eth (\<lambda>e. e\<lparr>es_report := Some \<lparr>er_observed_ms = mf_now_ms f,
        er_completed_hour_ms = fe_time x, er_return_1h = fe_r1 x, er_return_24h = fe_r24 x,
        er_return_72h = fe_r72 x, er_vol_6h = fe_vol6 x, er_pause_vol = gu_vol g,
        er_healthy_hours = st_healthy_hours s, er_required_hours = sc_resume_healthy_hours c,
        er_cooldown_remaining_seconds = remaining\<rparr>\<rparr>) s"

definition eth_wait :: "strategy_config \<Rightarrow> market_frame \<Rightarrow> u64 \<Rightarrow> strategy \<Rightarrow> string" where
  "eth_wait c f deadline s =
     ''resume_wait: cooldown_remaining_seconds='' @ show_word (sat_sub deadline (mf_now_ms f) div 1000)
     @ '', healthy_hours='' @ show_word (st_healthy_hours s)
     @ ''/'' @ show_word (sc_resume_healthy_hours c)"

text \<open>Start a pause now, with the profile's own clock.\<close>

definition eth_start_pause :: "market_frame \<Rightarrow> u64 \<Rightarrow> strategy \<Rightarrow> strategy" where
  "eth_start_pause f delay s =
     upd_eth (\<lambda>e. e\<lparr>es_pause_anchor_ms := mf_now_ms f,
                     es_reentry_not_before_ms := mf_now_ms f + delay\<rparr>)
       (s\<lparr>st_pause_since := mf_now_ms f\<rparr>)"

section \<open>The plain profile\<close>

definition plain_outside ::
    "strategy_config \<Rightarrow> market_frame \<Rightarrow> strategy \<Rightarrow> (strategy \<times> bool) res" where
  "plain_outside c f s =
     (if \<not> has_lp f then Inr (s, False)
      else rbind (udiv (mf_now_ms f) (sc_decision_bar_seconds c)) (\<lambda>q.
        if \<not> q div 1000 > st_last_decision_bar s then Inr (s, False)
        else rbind (udiv (mf_now_ms f) (sc_decision_bar_seconds c * 1000)) (\<lambda>bucket.
          Inr (eth_bar c (breakout_side c (ps_price (mf_pool f))) f bucket s))))"

definition plain_exit ::
    "strategy_config \<Rightarrow> market_frame \<Rightarrow> string option \<Rightarrow> bool \<Rightarrow> strategy \<Rightarrow> decision \<Rightarrow> strategy \<times> decision" where
  "plain_exit c f danger outside s d =
     (let s = (if st_phase s \<noteq> Halted
               then (if st_phase s \<noteq> Paused \<or> has_lp f
                     then eth_start_pause f (if outside \<and> danger = None
                            then sc_decision_bar_seconds c * 1000
                            else sc_cooldown_hours c * hour_ms) s
                     else s)\<lparr>st_phase := Paused\<rparr>
               else s);
          s = (if \<not> outside \<or> danger \<noteq> None then s\<lparr>st_healthy_hours := 0\<rparr> else s);
          s = upd_eth (\<lambda>e. e\<lparr>es_pending_hedge_target := None\<rparr>)
                (s\<lparr>st_fraction := 0, st_layers := Map.empty\<rparr>)
      in (s, push_reason (if st_phase s = Halted then ''portfolio_drawdown_limit''
                          else case danger of Some r \<Rightarrow> r | None \<Rightarrow> ''range_recenter'')
               (exit_decision f d)))"

text \<open>A warm-up without LP that cannot prove it is the first entry waits out the cooldown.\<close>

definition eth_legacy_pause :: "strategy_config \<Rightarrow> market_frame \<Rightarrow> strategy \<Rightarrow> strategy" where
  "eth_legacy_pause c f s =
     (if st_phase s = Warmup \<and> st_entry_history s \<noteq> Initial
      then (eth_start_pause f (sc_cooldown_hours c * hour_ms) s)\<lparr>st_phase := Paused\<rparr>
      else s)"

definition plain_entry ::
    "strategy_config \<Rightarrow> market_frame \<Rightarrow> strategy \<Rightarrow> decision \<Rightarrow> (strategy \<times> decision) res" where
  "plain_entry c f s d =
     (let s = eth_legacy_pause c f s;
          deadline = (if es_reentry_not_before_ms (eth_state s) > 0
                      then es_reentry_not_before_ms (eth_state s)
                      else st_pause_since s + sc_cooldown_hours c * hour_ms)
      in if st_entry_history s = Initial
            \<or> deadline \<le> mf_now_ms f \<and> sc_resume_healthy_hours c \<le> st_healthy_hours s
         then rbind (udiv (mf_now_ms f) (sc_decision_bar_seconds c * 1000)) (\<lambda>bucket.
           Inr (upd_eth (\<lambda>e. e\<lparr>es_last_hedge_check_ms := mf_now_ms f, es_pending_hedge_target := None\<rparr>)
                  (s\<lparr>st_phase := Active, st_fraction := 1, st_last_decision_bar := bucket\<rparr>),
                d\<lparr>d_lp := Deploy 1\<rparr>))
         else Inr (s\<lparr>st_phase := Paused\<rparr>,
                   push_reason (eth_wait c f deadline s) (exit_decision f d)))"

definition plain_hold ::
    "persistent_config \<Rightarrow> strategy_config \<Rightarrow> market_frame \<Rightarrow> strategy \<Rightarrow> decision \<Rightarrow> strategy \<times> decision" where
  "plain_hold pc c f s d =
     (let pf = mf_portfolio f; p = ps_price (mf_pool f);
          s = s\<lparr>st_phase := Active\<rparr>;
          s = (if pc_hedge_interval_hours pc * hour_ms
                    \<le> sat_sub (mf_now_ms f) (es_last_hedge_check_ms (eth_state s))
               then upd_eth (\<lambda>e. e\<lparr>es_last_hedge_check_ms := mf_now_ms f,
                      es_pending_hedge_target := Some (pf_base pf * sc_inside_hedge_ratio c)\<rparr>) s
               else s)
      in case es_pending_hedge_target (eth_state s) of
           None \<Rightarrow> (s, d)
         | Some t \<Rightarrow>
             if sc_hedge_deadband_usd c \<le> \<bar>t - pf_short_base pf\<bar> * p
             then (s, d\<lparr>d_target_short_base := t\<rparr>)
             else (upd_eth (\<lambda>e. e\<lparr>es_pending_hedge_target := None\<rparr>) s, d))"

text \<open>The common prefix: pause synchronisation, observation gap, peak, halt test, health counter.\<close>

definition plain_prefix ::
    "persistent_config \<Rightarrow> strategy_config \<Rightarrow> market_frame \<Rightarrow> feature \<Rightarrow> f64 \<Rightarrow> strategy \<Rightarrow> strategy" where
  "plain_prefix pc c f x eq s =
     (let s = eth_peak c eq (eth_observe c f (eth_pause_sync False c (observe_lp (has_lp f) s)));
          s = (if eq \<le> st_peak_equity s * (1 - sc_max_drawdown c) then s\<lparr>st_phase := Halted\<rparr> else s);
          g = guard_of pc c
      in eth_hour g x (ps_price (mf_pool f)) (eth_danger c g f x) s)"

definition plain_branch ::
    "persistent_config \<Rightarrow> strategy_config \<Rightarrow> market_frame \<Rightarrow> string option \<Rightarrow> bool \<Rightarrow> strategy \<Rightarrow> decision
      \<Rightarrow> (strategy \<times> decision) res" where
  "plain_branch pc c f danger outside s d =
     (if st_phase s = Halted \<or> danger \<noteq> None \<or> outside
      then Inr (plain_exit c f danger outside s d)
      else if \<not> has_lp f then plain_entry c f s d
      else Inr (plain_hold pc c f s d))"

definition plain_evaluate ::
    "persistent_config \<Rightarrow> strategy_config \<Rightarrow> market_frame \<Rightarrow> feature \<Rightarrow> f64 \<Rightarrow> strategy \<Rightarrow> decision
      \<Rightarrow> (strategy \<times> decision) res" where
  "plain_evaluate pc c f x eq s d =
     (let s = plain_prefix pc c f x eq s; g = guard_of pc c; danger = eth_danger c g f x in
      rbind (plain_outside c f s) (\<lambda>(s, outside).
      rbind (plain_branch pc c f danger outside s d) (\<lambda>(s, d).
      let s = eth_report_of c g f x
                (sat_sub (es_reentry_not_before_ms (eth_state s)) (mf_now_ms f) div 1000) s
      in Inr (s, d\<lparr>d_state := phase_name (st_phase s)\<rparr>))))"

section \<open>The band profile\<close>

definition band_widths :: "band_config \<Rightarrow> feature \<Rightarrow> f64 \<times> f64" where
  "band_widths b x =
     (let n = f_min (bc_lower_width b) (bc_upper_width b);
          w = f_max (bc_lower_width b) (bc_upper_width b)
      in if 0 < fe_r24 x then (n, w) else (w, n))"

definition band_target :: "band_config \<Rightarrow> portfolio \<Rightarrow> f64 \<Rightarrow> f64 res" where
  "band_target b pf price =
     (let net = (pf_base pf - pf_short_base pf) * price;
          target = (if bc_net_upper_usd b < net
                    then f_max (pf_base pf - bc_net_upper_usd b / price) 0
                    else if net < bc_net_lower_usd b
                    then f_max (pf_base pf - bc_net_lower_usd b / price) 0
                    else pf_short_base pf)
      in rbind (f_clamp (pf_hedge_equity pf) 0 (lit 60)) (\<lambda>h.
         Inr (f_min target (h * lit 2.55 / price))))"

text \<open>The account's origin is recorded once; risk equity is the capital plus the change since.\<close>

definition managed_equity :: "strategy_config \<Rightarrow> f64 \<Rightarrow> strategy \<Rightarrow> strategy \<times> f64" where
  "managed_equity c raw s =
     (let b = band_of (eth_state s);
          origin = (case bs_account_origin_equity b of None \<Rightarrow> raw | Some o1 \<Rightarrow> o1);
          risk = sc_total_capital c + raw - origin
      in (upd_band (\<lambda>b. b\<lparr>bs_account_origin_equity := Some origin, bs_risk_equity := risk\<rparr>) s, risk))"

definition band_pause_threshold :: "band_config \<Rightarrow> band_state \<Rightarrow> f64" where
  "band_pause_threshold b bs =
     f_min (f_max (bc_pause_drawdown b) (bs_entry_drawdown bs + bc_reentry_loss_budget b)) (lit 0.0475)"

definition band_side :: "f64 \<Rightarrow> lp_position \<Rightarrow> int" where
  "band_side p pos = (if p < lp_lower pos then - 1 else if p > lp_upper pos then 1 else 0)"

text \<open>Episode bookkeeping: first sight of the LP, episode peak, pause threshold.\<close>

definition band_episode ::
    "band_config \<Rightarrow> market_frame \<Rightarrow> f64 \<Rightarrow> f64 \<Rightarrow> band_state \<Rightarrow> band_state" where
  "band_episode b f eq dd bs =
     (let bs = bs\<lparr>bs_net_exposure_usd :=
                 (pf_base (mf_portfolio f) - pf_short_base (mf_portfolio f)) * ps_price (mf_pool f)\<rparr>;
          bs = (if has_lp f \<and> bs_entered_ms bs = 0
                then (let bs = bs\<lparr>bs_entered_ms := mf_now_ms f\<rparr>
                      in if f_eq (bs_episode_peak bs) 0
                         then bs\<lparr>bs_episode_peak := eq, bs_entry_drawdown := dd\<rparr> else bs)
                else bs);
          bs = bs\<lparr>bs_episode_peak := f_max (bs_episode_peak bs) eq\<rparr>
      in bs\<lparr>bs_pause_threshold := band_pause_threshold b bs\<rparr>)"

definition band_exit ::
    "strategy_config \<Rightarrow> market_frame \<Rightarrow> string option \<Rightarrow> bool \<Rightarrow> strategy \<Rightarrow> decision \<Rightarrow> strategy \<times> decision" where
  "band_exit c f danger global s d =
     (let s = (if st_phase s \<noteq> Halted
               then (if st_phase s \<noteq> Paused \<or> has_lp f
                     then eth_start_pause f (sc_cooldown_hours c * hour_ms) s else s)\<lparr>st_phase := Paused\<rparr>
               else s);
          s = upd_eth (\<lambda>e. e\<lparr>es_pending_hedge_target := None\<rparr>)
                (s\<lparr>st_healthy_hours := 0, st_fraction := 0, st_layers := Map.empty\<rparr>)
      in (s, push_reason (if st_phase s = Halted then ''portfolio_drawdown_limit''
                          else case danger of Some r \<Rightarrow> r
                          | None \<Rightarrow> if global then ''global_drawdown_pause'' else ''early_drawdown_pause'')
               (exit_decision f d)))"

text \<open>Start a new episode: the entry time is set when the LP is first seen.\<close>

definition band_new_episode :: "market_frame \<Rightarrow> f64 \<Rightarrow> f64 \<Rightarrow> strategy \<Rightarrow> strategy" where
  "band_new_episode f eq dd s =
     upd_eth (\<lambda>e. e\<lparr>es_pending_hedge_target := None, es_last_hedge_check_ms := mf_now_ms f\<rparr>)
       (upd_band (\<lambda>b. b\<lparr>bs_entered_ms := 0, bs_episode_peak := eq, bs_entry_drawdown := dd\<rparr>) s)"

definition band_hedge ::
    "persistent_config \<Rightarrow> band_config \<Rightarrow> strategy_config \<Rightarrow> market_frame \<Rightarrow> strategy \<Rightarrow> decision
      \<Rightarrow> (strategy \<times> decision) res" where
  "band_hedge pc b c f s d =
     (if pc_hedge_interval_hours pc * hour_ms
            \<le> sat_sub (mf_now_ms f) (es_last_hedge_check_ms (eth_state s))
         \<or> es_pending_hedge_target (eth_state s) \<noteq> None
      then
        let pf = mf_portfolio f; p = ps_price (mf_pool f);
            s = (if es_pending_hedge_target (eth_state s) = None
                 then upd_eth (\<lambda>e. e\<lparr>es_last_hedge_check_ms := mf_now_ms f\<rparr>) s else s)
        in rbind (band_target b pf p) (\<lambda>t.
             if sc_hedge_deadband_usd c \<le> \<bar>t - pf_short_base pf\<bar> * p
             then Inr (upd_eth (\<lambda>e. e\<lparr>es_pending_hedge_target := Some t\<rparr>) s, d\<lparr>d_target_short_base := t\<rparr>)
             else Inr (upd_eth (\<lambda>e. e\<lparr>es_pending_hedge_target := None\<rparr>) s, d))
      else Inr (s, d))"

definition band_hold ::
    "persistent_config \<Rightarrow> band_config \<Rightarrow> strategy_config \<Rightarrow> market_frame \<Rightarrow> bool \<Rightarrow> f64 \<Rightarrow> f64
      \<Rightarrow> strategy \<Rightarrow> decision \<Rightarrow> (strategy \<times> decision) res" where
  "band_hold pc b c f outside eq dd s d =
     (let s = s\<lparr>st_phase := Active\<rparr> in
      if outside \<and> bc_minimum_holding_hours b * hour_ms
            \<le> sat_sub (mf_now_ms f) (bs_entered_ms (band_of (eth_state s)))
      then Inr (band_new_episode f eq dd (s\<lparr>st_layers := Map.empty\<rparr>),
                push_reason ''range_recenter''
                  (d\<lparr>d_lp := Recenter (map lp_layer (pf_positions (mf_portfolio f)))\<rparr>))
      else band_hedge pc b c f s d)"

definition band_entry ::
    "band_config \<Rightarrow> guard \<Rightarrow> strategy_config \<Rightarrow> market_frame \<Rightarrow> feature \<Rightarrow> u64 \<Rightarrow> f64 \<Rightarrow> f64
      \<Rightarrow> strategy \<Rightarrow> decision \<Rightarrow> strategy \<times> decision" where
  "band_entry b g c f x bucket eq dd s d =
     (let s = eth_legacy_pause c f s in
      if st_entry_history s = Initial
         \<or> es_reentry_not_before_ms (eth_state s) \<le> mf_now_ms f
           \<and> sc_resume_healthy_hours c \<le> st_healthy_hours s
           \<and> guard_recovered g x (ps_price (mf_pool f))
      then (upd_eth (\<lambda>e. e\<lparr>es_reentry_not_before_ms := 0\<rparr>)
              (band_new_episode f eq dd
                (s\<lparr>st_phase := Active, st_fraction := 1, st_last_decision_bar := bucket\<rparr>)),
            d\<lparr>d_lp := Deploy 1\<rparr>)
      else (s\<lparr>st_phase := Paused\<rparr>,
            push_reason (eth_wait c f (es_reentry_not_before_ms (eth_state s)) s) (exit_decision f d)))"

definition band_prefix ::
    "persistent_config \<Rightarrow> band_config \<Rightarrow> strategy_config \<Rightarrow> market_frame \<Rightarrow> feature \<Rightarrow> f64 \<Rightarrow> strategy
      \<Rightarrow> strategy \<times> f64" where
  "band_prefix pc b c f x eq s =
     (let s = eth_peak c eq (eth_observe c f (eth_pause_sync True c (observe_lp (has_lp f) s)));
          dd = 1 - eq / st_peak_equity s;
          s = (if sc_max_drawdown c \<le> dd then s\<lparr>st_phase := Halted\<rparr> else s);
          g = guard_of pc c;
          s = eth_hour g x (ps_price (mf_pool f)) (eth_danger c g f x) s
      in (upd_band (band_episode b f eq dd) s, dd))"

definition band_branch ::
    "persistent_config \<Rightarrow> band_config \<Rightarrow> strategy_config \<Rightarrow> market_frame \<Rightarrow> feature \<Rightarrow> u64 \<Rightarrow> f64 \<Rightarrow> f64
      \<Rightarrow> bool \<Rightarrow> bool \<Rightarrow> bool \<Rightarrow> strategy \<Rightarrow> decision \<Rightarrow> (strategy \<times> decision) res" where
  "band_branch pc b c f x bucket eq dd soft global outside s d =
     (let danger = eth_danger c (guard_of pc c) f x in
      if st_phase s = Halted \<or> danger \<noteq> None \<or> soft \<or> global
      then Inr (band_exit c f danger global s d)
      else if has_lp f then band_hold pc b c f outside eq dd s d
      else Inr (band_entry b (guard_of pc c) c f x bucket eq dd s d))"

definition band_bar :: "strategy_config \<Rightarrow> market_frame \<Rightarrow> u64 \<Rightarrow> strategy \<Rightarrow> strategy \<times> bool" where
  "band_bar c f bucket s =
     (if has_lp f \<and> bucket > st_last_decision_bar s
      then eth_bar c (band_side (ps_price (mf_pool f))) f bucket s else (s, False))"

definition band_finish ::
    "persistent_config \<Rightarrow> strategy_config \<Rightarrow> market_frame \<Rightarrow> feature \<Rightarrow> strategy \<times> decision
      \<Rightarrow> (strategy \<times> decision) res" where
  "band_finish pc c f x sd =
     (case sd of (s, d) \<Rightarrow>
      let s = eth_report_of c (guard_of pc c) f x (if st_phase s = Paused
                then sat_sub (es_reentry_not_before_ms (eth_state s)) (mf_now_ms f) div 1000
                else 0) s
      in Inr (s, d\<lparr>d_state := phase_name (st_phase s)\<rparr>))"

text \<open>The episode's own drawdown limit and the account-wide pause limit.\<close>

definition band_soft :: "band_config \<Rightarrow> market_frame \<Rightarrow> f64 \<Rightarrow> strategy \<Rightarrow> bool" where
  "band_soft b f eq s \<longleftrightarrow>
     has_lp f \<and> bc_episode_drawdown b \<le> 1 - eq / bs_episode_peak (band_of (eth_state s))"

definition band_global :: "market_frame \<Rightarrow> f64 \<Rightarrow> strategy \<Rightarrow> bool" where
  "band_global f dd s \<longleftrightarrow> has_lp f \<and> bs_pause_threshold (band_of (eth_state s)) \<le> dd"

text \<open>The rest of the evaluation, once the observation bucket is computed.\<close>

definition band_after ::
    "persistent_config \<Rightarrow> band_config \<Rightarrow> strategy_config \<Rightarrow> market_frame \<Rightarrow> feature \<Rightarrow> f64 \<Rightarrow> f64
      \<Rightarrow> bool \<Rightarrow> bool \<Rightarrow> strategy \<Rightarrow> decision \<Rightarrow> u64 \<Rightarrow> (strategy \<times> decision) res" where
  "band_after pc b c f x eq dd soft global s d bucket =
     (case band_bar c f bucket s of (s, outside) \<Rightarrow>
        rbind (band_branch pc b c f x bucket eq dd soft global outside s d) (band_finish pc c f x))"

definition band_evaluate ::
    "persistent_config \<Rightarrow> band_config \<Rightarrow> strategy_config \<Rightarrow> market_frame \<Rightarrow> feature \<Rightarrow> strategy \<Rightarrow> decision
      \<Rightarrow> (strategy \<times> decision) res" where
  "band_evaluate pc b c f x s0 d =
     (case managed_equity c (pf_equity (mf_portfolio f) (ps_price (mf_pool f))) s0 of (s, eq) \<Rightarrow>
        case band_prefix pc b c f x eq s of (s, dd) \<Rightarrow>
          rbind (udiv (mf_now_ms f) (sc_decision_bar_seconds c * 1000))
            (band_after pc b c f x eq dd (band_soft b f eq s) (band_global f dd s) s d))"

text \<open>Re-check between chained transactions of an entry.\<close>

definition entry_equity_safe :: "strategy_config \<Rightarrow> strategy \<Rightarrow> f64 \<Rightarrow> bool" where
  "entry_equity_safe c s raw =
     (case band_config_of c of None \<Rightarrow> True
      | Some b \<Rightarrow>
        (case Option.bind (st_eth_persistent s) es_band of None \<Rightarrow> False
         | Some bs \<Rightarrow>
           (case bs_account_origin_equity bs of None \<Rightarrow> False
            | Some origin \<Rightarrow>
              let eq = sc_total_capital c + raw - origin; trip = band_pause_threshold b bs
              in is_finite raw \<and> st_phase s \<noteq> Halted
                 \<and> st_peak_equity s * (1 - sc_max_drawdown c) < eq
                 \<and> st_peak_equity s * (1 - trip) < eq
                 \<and> bs_episode_peak bs * (1 - bc_episode_drawdown b) < eq)))"

section \<open>Entry points\<close>

definition feature_usable :: "strategy_config \<Rightarrow> market_frame \<Rightarrow> feature \<Rightarrow> bool" where
  "feature_usable c f x \<longleftrightarrow>
     (let p = ps_price (mf_pool f); pf = mf_portfolio f; now = mf_now_ms f in
      (\<forall>v \<in> set [p, mf_hedge_price f, pf_equity pf p, pf_base pf, pf_short_base pf,
                 fe_close x, fe_r1 x, fe_r6 x, fe_r24 x, fe_r72 x, fe_vol6 x]. is_finite v)
      \<and> \<not> p \<le> 0 \<and> \<not> mf_hedge_price f \<le> 0 \<and> \<not> fe_close x \<le> 0
      \<and> ps_time_ms (mf_pool f) \<le> now \<and> mf_hedge_time_ms f \<le> now \<and> fe_time x < now
      \<and> sat_sub now (fe_time x) \<le> hour_ms + 60000
      \<and> sat_sub now (ps_time_ms (mf_pool f)) \<le> sc_max_data_age_seconds c * 1000
      \<and> sat_sub now (mf_hedge_time_ms f) \<le> sc_max_data_age_seconds c * 1000)"

definition evaluate_feature ::
    "strategy_config \<Rightarrow> market_frame \<Rightarrow> feature \<Rightarrow> strategy \<Rightarrow> (strategy \<times> decision) res" where
  "evaluate_feature c f x s =
     (case sc_eth_persistent c of None \<Rightarrow> Inl (Panic ''explicit ETH profile'')
      | Some pc \<Rightarrow>
        let d = hold_decision s f in
        if \<not> feature_usable c f x
        then Inr (s\<lparr>st_healthy_hours := 0\<rparr>,
                  push_reason ''stale_or_invalid_data: persistent observation unavailable'' d)
        else case pc_band pc of
          Some b \<Rightarrow> band_evaluate pc b c f x s d
        | None \<Rightarrow> plain_evaluate pc c f x (pf_equity (mf_portfolio f) (ps_price (mf_pool f))) s d)"

definition account_usable :: "strategy_config \<Rightarrow> market_frame \<Rightarrow> bool" where
  "account_usable c f \<longleftrightarrow>
     (let p = ps_price (mf_pool f); now = mf_now_ms f in
      (\<forall>v \<in> set [p, mf_hedge_price f, pf_equity (mf_portfolio f) p]. is_finite v)
      \<and> 0 < p \<and> 0 < mf_hedge_price f
      \<and> ps_time_ms (mf_pool f) \<le> now \<and> mf_hedge_time_ms f \<le> now
      \<and> now - ps_time_ms (mf_pool f) \<le> sc_max_data_age_seconds c * 1000
      \<and> now - mf_hedge_time_ms f \<le> sc_max_data_age_seconds c * 1000)"

definition profile_equity :: "strategy_config \<Rightarrow> f64 \<Rightarrow> strategy \<Rightarrow> strategy \<times> f64" where
  "profile_equity c raw s = (if band_config_of c \<noteq> None then managed_equity c raw s else (s, raw))"

definition history_exit :: "string \<Rightarrow> strategy_config \<Rightarrow> market_frame \<Rightarrow> strategy \<Rightarrow> strategy \<times> decision" where
  "history_exit e c f s0 =
     (let s = s0\<lparr>st_healthy_hours := 0\<rparr>;
          d = push_reason (''stale_or_invalid_data: persistent hourly history: '' @ e) (hold_decision s f)
      in if \<not> account_usable c f then (s, d)
         else
           let (s, eq) = profile_equity c (pf_equity (mf_portfolio f) (ps_price (mf_pool f))) s;
               s = eth_peak c eq s
           in if st_phase s = Halted \<or> eq \<le> st_peak_equity s * (1 - sc_max_drawdown c)
              then (s\<lparr>st_phase := Halted\<rparr>,
                    (exit_decision f d)\<lparr>d_state := ''Halted'', d_reasons := [''portfolio_drawdown_limit'']\<rparr>)
              else (s, d))"

definition eth_evaluate :: "libm \<Rightarrow> strategy_config \<Rightarrow> market_frame \<Rightarrow> strategy \<Rightarrow> (strategy \<times> decision) res" where
  "eth_evaluate lib c f s =
     (case latest_feature lib (mf_candles f) (mf_now_ms f) of
        Inr x \<Rightarrow> evaluate_feature c f x s
      | Inl (Bail e) \<Rightarrow> Inr (history_exit e c f s)
      | Inl e \<Rightarrow> Inl e)"

definition evaluate_with_continuity ::
    "libm \<Rightarrow> strategy_config \<Rightarrow> market_frame \<Rightarrow> strategy \<Rightarrow> (strategy \<times> decision) res" where
  "evaluate_with_continuity lib c f s =
     (if sc_eth_persistent c \<noteq> None then eth_evaluate lib c f s
      else evaluate_inner lib c f True s)"

end
