(* ===== verification/Strategy_Facts.thy ===== *)
theory Strategy_Facts
  imports Strategy
begin

text \<open>
  Correctness of the shared strategy: an elimination rule that lists the five ways an evaluation
  can end, frame lemmas for every stage, and the properties built on them.
\<close>

named_theorems stage_frame \<open>what the stages leave alone\<close>

lemma evaluate_innerE:
  assumes "evaluate_inner lib c f k s0 = Inr (s', d')"
  obtains (data) "frame_stale c f \<or> \<not> frame_valid f"
      "(s', d') = data_exit k f (enter_frame f s0) (hold_decision (enter_frame f s0) f)"
  | (halt) s d where "\<not> frame_stale c f" "frame_valid f"
      "drawdown_step c f (enter_frame f s0) (hold_decision (enter_frame f s0) f) = (s, d)"
      "st_phase s = Halted" "s' = s" "d' = (exit_decision f d)\<lparr>d_state := ''Halted''\<rparr>"
  | (gap) s d e where "\<not> frame_stale c f" "frame_valid f"
      "drawdown_step c f (enter_frame f s0) (hold_decision (enter_frame f s0) f) = (s, d)"
      "st_phase s \<noteq> Halted" "calculate lib (mf_candles f) c (mf_now_ms f) = Inl (Bail e)"
      "(s', d') = indicator_exit k f e s d"
  | (wait) s d m where "\<not> frame_stale c f" "frame_valid f"
      "drawdown_step c f (enter_frame f s0) (hold_decision (enter_frame f s0) f) = (s, d)"
      "st_phase s \<noteq> Halted" "calculate lib (mf_candles f) c (mf_now_ms f) = Inr m"
      "market_stage c f k m s d = (True, s', d')"
  | (range) s d m s1 d1 where "\<not> frame_stale c f" "frame_valid f"
      "drawdown_step c f (enter_frame f s0) (hold_decision (enter_frame f s0) f) = (s, d)"
      "st_phase s \<noteq> Halted" "calculate lib (mf_candles f) c (mf_now_ms f) = Inr m"
      "market_stage c f k m s d = (False, s1, d1)" "range_step c f s1 d1 = Inr (s', d')"
proof -
  define sd where "sd = drawdown_step c f (enter_frame f s0) (hold_decision (enter_frame f s0) f)"
  obtain s d where sd': "sd = (s, d)" by (cases sd)
  show thesis
  proof (cases "frame_stale c f \<or> \<not> frame_valid f")
    case True
    then show thesis using assms by (intro data) (auto simp: evaluate_inner_def Let_def)
  next
    case False
    note F = False
    show thesis
    proof (cases "st_phase s = Halted")
      case True
      then show thesis using assms F sd'
        by (intro halt) (auto simp: evaluate_inner_def Let_def sd_def)
    next
      case False
      then show thesis using assms F sd'
        by (cases "calculate lib (mf_candles f) c (mf_now_ms f)")
           (auto simp: evaluate_inner_def Let_def sd_def split: err.splits prod.splits if_splits
            intro: gap wait range)
    qed
  qed
qed

section \<open>Frame lemmas of the stages\<close>

lemma enter_frame_simps [stage_frame, simp]:
  "st_peak_equity (enter_frame f s) = st_peak_equity s"
  "st_healthy_hours (enter_frame f s) = st_healthy_hours s"
  "st_last_hour (enter_frame f s) = st_last_hour s"
  "st_fraction (enter_frame f s) = st_fraction s"
  "st_last_scale (enter_frame f s) = st_last_scale s"
  "st_layers (enter_frame f s) = st_layers s"
  "st_entry_history (enter_frame f s) = (if has_lp f then Established else st_entry_history s)"
  "st_phase (enter_frame f s) =
     (if st_phase s = Warmup \<and> st_entry_history s \<noteq> Initial \<and> \<not> has_lp f then Paused else st_phase s)"
  by (auto simp: enter_frame_def observe_lp_def Let_def)

lemma hold_decision_simps [stage_frame, simp]:
  "d_lp (hold_decision s f) = Hold"
  "d_target_short_base (hold_decision s f) = pf_short_base (mf_portfolio f)"
  "d_reasons (hold_decision s f) = []"
  by (simp_all add: hold_decision_def)

lemma push_reason_simps [stage_frame, simp]:
  "d_lp (push_reason r d) = d_lp d" "d_emergency (push_reason r d) = d_emergency d"
  "d_target_short_base (push_reason r d) = d_target_short_base d"
  "d_state (push_reason r d) = d_state d"
  "d_reasons (push_reason r d) = d_reasons d @ [r]"
  by (simp_all add: push_reason_def)

lemma exit_decision_simps [stage_frame, simp]:
  "d_lp (exit_decision f d) = ExitToQuote" "d_emergency (exit_decision f d)"
  "d_target_short_base (exit_decision f d) = pf_base (mf_portfolio f)"
  by (simp_all add: exit_decision_def)

lemma drawdown_step_frame:
  assumes "drawdown_step c f s d = (s', d')"
  shows "st_entry_history s' = st_entry_history s" "d_lp d' = d_lp d"
    "st_phase s' = (if pf_equity (mf_portfolio f) (ps_price (mf_pool f))
        < st_peak_equity s' * (1 - sc_max_drawdown c) then Halted else st_phase s)"
    "st_peak_equity s' = f_max (f_max (st_peak_equity s)
        (pf_equity (mf_portfolio f) (ps_price (mf_pool f)))) (sc_total_capital c)"
    "st_pause_since s' = st_pause_since s" "st_healthy_hours s' = st_healthy_hours s"
    "st_fraction s' = st_fraction s" "st_last_hour s' = st_last_hour s"
  using assms by (auto simp: drawdown_step_def Let_def split: if_splits)

lemma risk_step_simps [stage_frame, simp]:
  "st_entry_history (risk_step k f bl s) = st_entry_history s"
  "st_peak_equity (risk_step k f bl s) = st_peak_equity s"
  "st_phase (risk_step k f bl s) = Paused"
  "st_healthy_hours (risk_step k f bl s) = 0"
  "st_fraction (risk_step k f bl s) = 0"
  "st_last_scale (risk_step k f bl s) = st_last_scale s"
  "st_last_hour (risk_step k f bl s) = st_last_hour s"
  "st_pause_since (risk_step k f bl s) =
     (if st_phase s \<noteq> Paused then mf_now_ms f else st_pause_since s)"
  by (simp_all add: risk_step_def Let_def)

lemma hour_step_frame:
  assumes "hour_step k u h f m (s, ev) = (s', ev')"
  shows "st_entry_history s' = st_entry_history s" "st_peak_equity s' = st_peak_equity s"
    "st_phase s' = st_phase s" "st_pause_since s' = st_pause_since s"
    "st_fraction s' = st_fraction s" "st_last_scale s' = st_last_scale s"
    "st_layers s' = st_layers s"
    "st_healthy_hours s' = st_healthy_hours s \<or> st_healthy_hours s' = 0
     \<or> h \<and> me_last_close_ms m > st_last_hour s
        \<and> (st_healthy_hours s' = sat_add (st_healthy_hours s) 1 \<or> st_healthy_hours s' = sat_add 0 1)"
  using assms by (auto simp: hour_step_def Let_def split: if_splits)

lemma health_stage_frame:
  assumes "health_stage c f k m bl u s d = (s', d')"
  shows "st_entry_history s' = st_entry_history s" "st_peak_equity s' = st_peak_equity s"
    "st_phase s' = (if u then Paused else st_phase s)"
    "st_pause_since s' = (if u \<and> st_phase s \<noteq> Paused then mf_now_ms f else st_pause_since s)"
    "st_fraction s' = (if u then 0 else st_fraction s)" "st_last_scale s' = st_last_scale s"
    "d_lp d' = d_lp d"
    "st_healthy_hours s' = st_healthy_hours s \<or> st_healthy_hours s' = 0
     \<or> bl = [] \<and> (st_healthy_hours s' = sat_add (st_healthy_hours s) 1 \<or> st_healthy_hours s' = sat_add 0 1)"
proof -
  obtain s1 d1 e1 where R: "(if k \<and> \<not> u then recheck_progress f m bl (s, d)
      else ((s, d), ''unchanged'')) = ((s1, d1), e1)" by (metis surj_pair)
  obtain s2 e2 where X: "(if u then (risk_step k f bl s1, if k then ''reset_market_risk'' else e1)
      else (s1, e1)) = (s2, e2)" by (metis surj_pair)
  obtain s3 e3 where H: "hour_step k u (bl = []) f m (s2, e2) = (s3, e3)" by (metis surj_pair)
  have out: "d' = d1" "s' = (if k then report_progress c f m bl
      (if e3 = ''unchanged'' then ''waiting_next_hour'' else e3) s3 else s3)"
    using assms unfolding health_stage_def R X H Let_def by (auto simp: R X H)
  have r: "st_entry_history s1 = st_entry_history s" "st_peak_equity s1 = st_peak_equity s"
    "st_phase s1 = st_phase s" "st_pause_since s1 = st_pause_since s"
    "st_fraction s1 = st_fraction s" "st_last_scale s1 = st_last_scale s" "d_lp d1 = d_lp d"
    "st_healthy_hours s1 = st_healthy_hours s \<or> st_healthy_hours s1 = 0"
    using R recheck_frame [of f m bl s d s1 d1 e1] by (auto split: if_splits)
  have s2: "s2 = (if u then risk_step k f bl s1 else s1)" using X by (auto split: if_splits)
  note h = hour_step_frame [OF H]
  show "st_entry_history s' = st_entry_history s" "st_peak_equity s' = st_peak_equity s"
    "st_phase s' = (if u then Paused else st_phase s)"
    "st_pause_since s' = (if u \<and> st_phase s \<noteq> Paused then mf_now_ms f else st_pause_since s)"
    "st_fraction s' = (if u then 0 else st_fraction s)" "st_last_scale s' = st_last_scale s"
    "d_lp d' = d_lp d"
    using r s2 h out by auto
  show "st_healthy_hours s' = st_healthy_hours s \<or> st_healthy_hours s' = 0
     \<or> bl = [] \<and> (st_healthy_hours s' = sat_add (st_healthy_hours s) 1 \<or> st_healthy_hours s' = sat_add 0 1)"
    using r s2 h(8) out by (auto split: if_splits)
qed

lemma phase_step_frame:
  assumes "phase_step c k u h f s d = (ret, s', d')"
  shows "st_entry_history s' = st_entry_history s" "st_peak_equity s' = st_peak_equity s"
    "st_phase s' = Halted \<longleftrightarrow> st_phase s = Halted"
    "ret \<Longrightarrow> s' = s \<and> st_phase s = Paused \<and> d_lp d' = ExitToQuote \<and> d_emergency d'
       \<and> d_target_short_base d' = pf_base (mf_portfolio f)"
    "\<not> ret \<Longrightarrow> d_lp d' = d_lp d \<or> d_lp d' = Deploy (st_fraction s')"
  using assms unfolding phase_step_def Let_def
  by (auto simp del: not_None_eq split: if_splits)


section \<open>The market stage and the range step\<close>

lemma risk_reasons_Nil [simp]: "risk_reasons r = [] \<longleftrightarrow> \<not> unsafe_market r"
  by (auto simp: risk_reasons_def unsafe_market_def)

lemma blockers_Nil: "blockers c f m rs = [] \<Longrightarrow> rs = []"
  by (auto simp: blockers_def)

text \<open>What a market stage can return, in terms of the risk and of the counters it leaves.\<close>

lemma market_stage_cases:
  assumes "market_stage c f k m s d = (ret, s', d')" "d_reasons d = []"
  obtains u h s1 d1 where
    "u = unsafe_market (market_risk_of c f m)" "h \<longrightarrow> \<not> u"
    "health_stage c f k m (blockers c f m (risk_reasons (market_risk_of c f m))) u s
       (d\<lparr>d_reasons := risk_reasons (market_risk_of c f m)\<rparr>) = (s1, d1)"
    "h \<longleftrightarrow> blockers c f m (risk_reasons (market_risk_of c f m)) = []"
    "phase_step c k u h f s1 d1 = (ret, s', d')"
    "d_lp d1 = d_lp d" "st_phase s1 = (if u then Paused else st_phase s)"
    "st_entry_history s1 = st_entry_history s" "st_peak_equity s1 = st_peak_equity s"
    "st_fraction s1 = (if u then 0 else st_fraction s)"
    "st_pause_since s1 = (if u \<and> st_phase s \<noteq> Paused then mf_now_ms f else st_pause_since s)"
proof -
  let ?r = "market_risk_of c f m"
  let ?bl = "blockers c f m (risk_reasons ?r)"
  obtain s1 d1 where H: "health_stage c f k m ?bl (unsafe_market ?r) s
      (d\<lparr>d_reasons := risk_reasons ?r\<rparr>) = (s1, d1)" by (cases "health_stage c f k m ?bl
      (unsafe_market ?r) s (d\<lparr>d_reasons := risk_reasons ?r\<rparr>)")
  note F = health_stage_frame [OF H]
  have P: "phase_step c k (unsafe_market ?r) (?bl = []) f s1 d1 = (ret, s', d')"
    using assms H by (simp add: market_stage_def Let_def)
  show thesis
    by (rule that [OF refl _ H refl P])
       (use F in \<open>auto dest: blockers_Nil\<close>)
qed

lemma bar_step_frame:
  "bar_step b s = (s', nb) \<Longrightarrow> st_phase s' = st_phase s \<and> st_fraction s' = st_fraction s
     \<and> st_entry_history s' = st_entry_history s \<and> st_peak_equity s' = st_peak_equity s
     \<and> st_healthy_hours s' = st_healthy_hours s \<and> st_pause_since s' = st_pause_since s"
  by (auto simp: bar_step_def split: if_splits)

lemma range_stepE:
  assumes "range_step c f s d = Inr (s', d')"
  obtains bucket s1 nb a where
    "udiv (mf_now_ms f) (sc_decision_bar_seconds c * 1000) = Inr bucket"
    "bar_step bucket s = (s1, nb)"
    "a = foldl (range_pos c (ps_price (mf_pool f)) nb) (range_start f s1 d)
           (pf_positions (mf_portfolio f))"
    "s' = s1\<lparr>st_layers := ra_layers a\<rparr>"
    "d' = d\<lparr>d_emergency := ra_emergency a,
            d_lp := (if d_lp d = Hold \<and> ra_resets a \<noteq> [] then Recenter (ra_resets a) else d_lp d),
            d_target_short_base := f_max (ra_target a) 0, d_state := phase_name (st_phase s1)\<rparr>"
proof -
  from assms obtain bucket where B: "udiv (mf_now_ms f) (sc_decision_bar_seconds c * 1000) = Inr bucket"
    unfolding range_step_def rbind_eq_Inr by blast
  obtain s1 nb where S: "bar_step bucket s = (s1, nb)" by (cases "bar_step bucket s")
  note E = assms [unfolded range_step_def B S rbind_simps Let_def split sum.inject prod.inject]
  show thesis
    by (rule that [OF B S refl E [THEN conjunct1, symmetric]]) (use E in simp)
qed

lemma range_step_frame:
  assumes "range_step c f s d = Inr (s', d')"
  shows "st_phase s' = st_phase s" "st_fraction s' = st_fraction s"
    "st_entry_history s' = st_entry_history s" "st_peak_equity s' = st_peak_equity s"
    "st_healthy_hours s' = st_healthy_hours s" "st_pause_since s' = st_pause_since s"
    "d_lp d \<noteq> Hold \<Longrightarrow> d_lp d' = d_lp d"
    "d_lp d = Hold \<Longrightarrow> d_lp d' = Hold \<or> (\<exists>ls. d_lp d' = Recenter ls)"
    "d_state d' = phase_name (st_phase s')" "\<exists>t. d_target_short_base d' = f_max t 0"
proof -
  obtain b s1 nb a where U: "udiv (mf_now_ms f) (sc_decision_bar_seconds c * 1000) = Inr b"
    and R: "bar_step b s = (s1, nb)"
    and A: "a = foldl (range_pos c (ps_price (mf_pool f)) nb) (range_start f s1 d)
           (pf_positions (mf_portfolio f))"
    and R2: "s' = s1\<lparr>st_layers := ra_layers a\<rparr>"
    and R3: "d' = d\<lparr>d_emergency := ra_emergency a,
            d_lp := (if d_lp d = Hold \<and> ra_resets a \<noteq> [] then Recenter (ra_resets a) else d_lp d),
            d_target_short_base := f_max (ra_target a) 0, d_state := phase_name (st_phase s1)\<rparr>"
    by (rule range_stepE [OF assms])
  note R' = bar_step_frame [OF R]
  show "st_phase s' = st_phase s" "st_fraction s' = st_fraction s"
    "st_entry_history s' = st_entry_history s" "st_peak_equity s' = st_peak_equity s"
    "st_healthy_hours s' = st_healthy_hours s" "st_pause_since s' = st_pause_since s"
    "d_lp d \<noteq> Hold \<Longrightarrow> d_lp d' = d_lp d"
    "d_lp d = Hold \<Longrightarrow> d_lp d' = Hold \<or> (\<exists>ls. d_lp d' = Recenter ls)"
    "d_state d' = phase_name (st_phase s')" "\<exists>t. d_target_short_base d' = f_max t 0"
    using R' by (auto simp: R2 R3)
qed

lemma market_stage_frame:
  assumes "market_stage c f k m s d = (ret, s', d')" "d_reasons d = []" "d_lp d = Hold"
  shows "st_entry_history s' = st_entry_history s" "st_peak_equity s' = st_peak_equity s"
    "st_phase s \<noteq> Halted \<Longrightarrow> st_phase s' \<noteq> Halted"
    "ret \<Longrightarrow> d_lp d' = ExitToQuote \<and> d_emergency d' \<and> st_phase s' = Paused
       \<and> d_target_short_base d' = pf_base (mf_portfolio f)"
    "\<not> ret \<Longrightarrow> d_lp d' = Hold \<or> d_lp d' = Deploy (st_fraction s')"
proof -
  obtain u h s1 d1 where M: "phase_step c k u h f s1 d1 = (ret, s', d')"
    "d_lp d1 = d_lp d" "st_phase s1 = (if u then Paused else st_phase s)"
    "st_entry_history s1 = st_entry_history s" "st_peak_equity s1 = st_peak_equity s"
    using market_stage_cases [OF assms(1,2)] by metis
  note P = phase_step_frame [OF M(1)]
  show "st_entry_history s' = st_entry_history s" "st_peak_equity s' = st_peak_equity s"
    "st_phase s \<noteq> Halted \<Longrightarrow> st_phase s' \<noteq> Halted"
    "ret \<Longrightarrow> d_lp d' = ExitToQuote \<and> d_emergency d' \<and> st_phase s' = Paused
       \<and> d_target_short_base d' = pf_base (mf_portfolio f)"
    "\<not> ret \<Longrightarrow> d_lp d' = Hold \<or> d_lp d' = Deploy (st_fraction s')"
    using P M(2-5) assms(3) by (auto split: if_splits)
qed

end
