(* ===== verification/Strategy_Props.thy ===== *)
theory Strategy_Props
  imports Strategy_Facts Risk_Machine
begin

text \<open>
  What the shared strategy promises its runner: the two risk contracts of \<open>Risk_Machine\<close>,
  interpreted on \<open>evaluate_inner\<close> for both entry points of the code, and the guards of every
  deployment, resumption and recentering. The last section holds concrete frames.
\<close>

section \<open>Effect of an evaluation on the risk fields\<close>

lemma data_exit_frame:
  assumes "(s', d') = data_exit k f s d"
  shows "st_entry_history s' = st_entry_history s" "st_peak_equity s' = st_peak_equity s"
    "st_fraction s' = st_fraction s" "st_layers s' = st_layers s" "d_lp d' = d_lp d"
    "d_target_short_base d' = d_target_short_base d"
    "st_phase s' = Halted \<longleftrightarrow> st_phase s = Halted"
    "k \<Longrightarrow> st_phase s' = st_phase s \<and> st_healthy_hours s' = st_healthy_hours s
       \<and> st_pause_since s' = st_pause_since s"
    "\<not> k \<Longrightarrow> st_phase s \<noteq> Halted \<Longrightarrow> st_phase s' = Paused \<and> st_healthy_hours s' = 0
       \<and> st_pause_since s' = mf_now_ms f"
  using assms by (auto simp: data_exit_def Let_def split: if_splits)

lemma indicator_exit_frame:
  assumes "(s', d') = indicator_exit k f e s d"
  shows "st_entry_history s' = st_entry_history s" "st_peak_equity s' = st_peak_equity s"
    "st_fraction s' = st_fraction s" "d_lp d' = d_lp d" "st_phase s' = st_phase s"
    "d_target_short_base d' = pf_base (mf_portfolio f)"
  using assms by (auto simp: indicator_exit_def split: if_splits)

lemma drawdown_step_reasons:
  "drawdown_step c f s d = (s', d') \<Longrightarrow> st_phase s' \<noteq> Halted \<Longrightarrow> d' = d"
  by (auto simp: drawdown_step_def Let_def split: if_splits)

text \<open>The peak after a frame that passed the data gate.\<close>

definition new_peak :: "strategy_config \<Rightarrow> market_frame \<Rightarrow> strategy \<Rightarrow> f64" where
  "new_peak c f s =
     f_max (f_max (st_peak_equity s) (pf_equity (mf_portfolio f) (ps_price (mf_pool f))))
       (sc_total_capital c)"

definition usable :: "strategy_config \<Rightarrow> market_frame \<Rightarrow> bool" where
  "usable c f \<longleftrightarrow> \<not> frame_stale c f \<and> frame_valid f"

definition drawdown_hit :: "strategy_config \<Rightarrow> market_frame \<Rightarrow> strategy \<Rightarrow> bool" where
  "drawdown_hit c f s \<longleftrightarrow>
     pf_equity (mf_portfolio f) (ps_price (mf_pool f)) < new_peak c f s * (1 - sc_max_drawdown c)"

lemma drawdown_entered:
  assumes "drawdown_step c f (enter_frame f s0) (hold_decision (enter_frame f s0) f) = (s, d)"
  shows "st_entry_history s = (if has_lp f then Established else st_entry_history s0)"
    "st_peak_equity s = new_peak c f s0" "d_lp d = Hold" "st_fraction s = st_fraction s0"
    "st_phase s = (if drawdown_hit c f s0 then Halted else st_phase (enter_frame f s0))"
    "st_phase s \<noteq> Halted \<Longrightarrow> d_reasons d = []"
    "st_pause_since s = st_pause_since (enter_frame f s0)"
    "st_healthy_hours s = st_healthy_hours s0"
  using drawdown_step_frame [OF assms] drawdown_step_reasons [OF assms]
  by (auto simp: new_peak_def drawdown_hit_def simp del: not_None_eq)

lemma market_entered:
  assumes "drawdown_step c f (enter_frame f s0) (hold_decision (enter_frame f s0) f) = (s, d)"
    and "st_phase s \<noteq> Halted" and "market_stage c f k m s d = (ret, s1, d1)"
  shows "st_entry_history s1 = (if has_lp f then Established else st_entry_history s0)"
    "st_peak_equity s1 = new_peak c f s0" "st_phase s1 \<noteq> Halted"
    "ret \<Longrightarrow> d_lp d1 = ExitToQuote \<and> d_emergency d1 \<and> st_phase s1 = Paused
       \<and> d_target_short_base d1 = pf_base (mf_portfolio f)"
    "\<not> ret \<Longrightarrow> d_lp d1 = Hold \<or> d_lp d1 = Deploy (st_fraction s1)"
  using market_stage_frame [OF assms(3)] drawdown_entered [OF assms(1)] assms(2) by auto

lemma eval_history:
  assumes "evaluate_inner lib c f k s0 = Inr (s', d')"
  shows "st_entry_history s' = (if has_lp f then Established else st_entry_history s0)"
  using assms
proof (cases rule: evaluate_innerE)
  case data
  then show ?thesis using data_exit_frame(1) by fastforce
next
  case (halt s d)
  then show ?thesis using drawdown_entered(1) by metis
next
  case (gap s d e)
  then show ?thesis using drawdown_entered(1) indicator_exit_frame(1) by metis
next
  case (wait s d m)
  then show ?thesis using market_entered(1) by metis
next
  case (range s d m s1 d1)
  then show ?thesis using market_entered(1) range_step_frame(3) by metis
qed

lemma eval_peak:
  assumes "evaluate_inner lib c f k s0 = Inr (s', d')"
  shows "st_peak_equity s' = (if usable c f then new_peak c f s0 else st_peak_equity s0)"
  using assms
proof (cases rule: evaluate_innerE)
  case data
  then show ?thesis using data_exit_frame(2) by (fastforce simp: usable_def)
next
  case (halt s d)
  then show ?thesis using drawdown_entered(2) by (metis usable_def)
next
  case (gap s d e)
  then show ?thesis using drawdown_entered(2) indicator_exit_frame(2) by (metis usable_def)
next
  case (wait s d m)
  then show ?thesis using market_entered(2) by (metis usable_def)
next
  case (range s d m s1 d1)
  then show ?thesis using market_entered(2) range_step_frame(4) by (metis usable_def)
qed

lemma enter_halted: "st_phase (enter_frame f s) = Halted \<longleftrightarrow> st_phase s = Halted"
  by simp

text \<open>
  A halt is exactly an earlier halt or a drawdown on a usable frame; while halted, usable frames
  order an exit with a full hedge, and unusable frames order nothing.
\<close>

lemma eval_halted:
  assumes "evaluate_inner lib c f k s0 = Inr (s', d')"
  shows "st_phase s' = Halted \<longleftrightarrow> st_phase s0 = Halted \<or> usable c f \<and> drawdown_hit c f s0"
    "st_phase s' = Halted \<Longrightarrow> usable c f \<Longrightarrow> d_lp d' = ExitToQuote \<and> d_emergency d'
       \<and> d_target_short_base d' = pf_base (mf_portfolio f)"
    "\<not> usable c f \<Longrightarrow> d_lp d' = Hold \<and> d_target_short_base d' = pf_short_base (mf_portfolio f)"
proof -
  from assms have *: "(st_phase s' = Halted \<longleftrightarrow> st_phase s0 = Halted \<or> usable c f \<and> drawdown_hit c f s0)
    \<and> (st_phase s' = Halted \<longrightarrow> usable c f \<longrightarrow> d_lp d' = ExitToQuote \<and> d_emergency d'
       \<and> d_target_short_base d' = pf_base (mf_portfolio f))
    \<and> (\<not> usable c f \<longrightarrow> d_lp d' = Hold \<and> d_target_short_base d' = pf_short_base (mf_portfolio f))"
  proof (cases rule: evaluate_innerE)
    case data
    note D = data_exit_frame [OF data(2)]
    show ?thesis using D data(1) by (auto simp: usable_def enter_halted simp del: enter_frame_simps)
  next
    case (halt s d)
    then show ?thesis using drawdown_entered [OF halt(3)]
      by (auto simp: usable_def enter_halted simp del: enter_frame_simps split: if_splits)
  next
    case (gap s d e)
    then show ?thesis using drawdown_entered [OF gap(3)] indicator_exit_frame [OF gap(6)]
      by (auto simp: usable_def enter_halted simp del: enter_frame_simps split: if_splits)
  next
    case (wait s d m)
    then show ?thesis
      using drawdown_entered [OF wait(3)] market_entered(3) [OF wait(3,4,6)]
      by (auto simp: usable_def enter_halted simp del: enter_frame_simps split: if_splits)
  next
    case (range s d m s1 d1)
    then show ?thesis
      using drawdown_entered [OF range(3)] market_entered(3) [OF range(3,4,6)]
        range_step_frame(1) [OF range(7)]
      by (auto simp: usable_def enter_halted simp del: enter_frame_simps split: if_splits)
  qed
  then show "st_phase s' = Halted \<longleftrightarrow> st_phase s0 = Halted \<or> usable c f \<and> drawdown_hit c f s0"
    "st_phase s' = Halted \<Longrightarrow> usable c f \<Longrightarrow> d_lp d' = ExitToQuote \<and> d_emergency d'
       \<and> d_target_short_base d' = pf_base (mf_portfolio f)"
    "\<not> usable c f \<Longrightarrow> d_lp d' = Hold \<and> d_target_short_base d' = pf_short_base (mf_portfolio f)"
    by blast+
qed

lemma peak_monotone: "\<not> is_nan (st_peak_equity s) \<Longrightarrow> st_peak_equity s \<le> new_peak c f s"
  unfolding new_peak_def by (meson f_le_trans f_max_ge f_max_nan)

interpretation strat: drawdown_machine
  "\<lambda>f. evaluate_inner lib c f k" "\<lambda>f s. usable c f \<and> drawdown_hit c f s"
  for lib c k
proof
  fix f s s' d assume E: "evaluate_inner lib c f k s = Inr (s', d)"
  note H = eval_halted [OF E]
  show "st_phase s' = Halted" if "st_phase s = Halted" using H(1) that by simp
  show "no_deploy d" if "st_phase s' = Halted" using H(2,3) that by (auto simp: no_deploy_def)
  show "st_entry_history s' = Established" if "st_entry_history s = Established"
    using eval_history [OF E] that by simp
  show "st_peak_equity s \<le> st_peak_equity s'" if "\<not> is_nan (st_peak_equity s)"
    using eval_peak [OF E] that by (simp add: peak_monotone f_le_refl)
  show "st_phase s' = Halted \<and> d_lp d = ExitToQuote" if "usable c f \<and> drawdown_hit c f s"
    using H(1,2) that by simp
qed


section \<open>Deployments\<close>

lemma f_add_commute: "(a::f64) + b = b + a"
  by (cases a; cases b) (auto simp: plus_f64_def f_add_def add.commute)

text \<open>The case of an evaluation that reached the market stage and did not wait.\<close>

lemma eval_deployE:
  assumes "evaluate_inner lib c f k s0 = Inr (s', d')" "d_lp d' = Deploy x \<or> d_lp d' = Recenter ls"
  obtains s d m s1 d1 where "usable c f" "\<not> drawdown_hit c f s0"
    "drawdown_step c f (enter_frame f s0) (hold_decision (enter_frame f s0) f) = (s, d)"
    "st_phase s \<noteq> Halted" "d_reasons d = []" "d_lp d = Hold"
    "calculate lib (mf_candles f) c (mf_now_ms f) = Inr m"
    "market_stage c f k m s d = (False, s1, d1)" "range_step c f s1 d1 = Inr (s', d')"
  using assms(1)
proof (cases rule: evaluate_innerE)
  case data
  then show ?thesis using data_exit_frame(5) assms(2) by fastforce
next
  case (halt s d)
  then show ?thesis using assms(2) by simp
next
  case (gap s d e)
  then show ?thesis
    using drawdown_entered(3) [OF gap(3)] indicator_exit_frame(4) [OF gap(6)] assms(2) by auto
next
  case (wait s d m)
  then show ?thesis using market_entered(4) [OF wait(3,4,6)] assms(2) by auto
next
  case (range s d m s1 d1)
  show ?thesis
    by (rule that [OF _ _ range(3,4) _ _ range(5,6,7)])
       (use range drawdown_entered [OF range(3)] in \<open>auto simp: usable_def split: if_splits\<close>)
qed

lemma resume_allowed_safe [simp]: "\<not> resume_allowed c k True h f s"
  by (simp add: resume_allowed_def)

lemma phase_step_deploy:
  assumes "phase_step c k u h f s d = (False, s', d')" "d_lp d' = Deploy x" "d_lp d = Hold"
    and "u \<Longrightarrow> st_phase s = Paused"
  shows "\<not> u" "x = st_fraction s'" "st_phase s' = Active \<or> st_phase s' = Recovering"
    "x = 1 \<or> x = sc_recovery_fraction c \<or> x = f_min (st_fraction s + sc_recovery_fraction c) 1"
    "st_phase s = Paused \<Longrightarrow> st_entry_history s \<noteq> Initial \<Longrightarrow>
       resume_allowed c k u h f s \<and> x = sc_recovery_fraction c \<and> st_phase s' = Recovering
       \<and> st_healthy_hours s' = st_healthy_hours s"
  using assms unfolding phase_step_def Let_def
  by (auto simp del: not_None_eq split: if_splits)

text \<open>Everything the deployment path establishes, in one fact for the properties below.\<close>

lemma deploy_path:
  assumes "evaluate_inner lib c f k s = Inr (s', d)" "d_lp d = Deploy x"
  obtains m h s2 s3 where "usable c f" "\<not> drawdown_hit c f s"
    "calculate lib (mf_candles f) c (mf_now_ms f) = Inr m" "\<not> unsafe_market (market_risk_of c f m)"
    "st_phase s3 = st_phase (enter_frame f s)" "st_fraction s3 = st_fraction s"
    "st_pause_since s3 = st_pause_since (enter_frame f s)"
    "st_entry_history s3 = (if has_lp f then Established else st_entry_history s)"
    "h \<longleftrightarrow> blockers c f m (risk_reasons (market_risk_of c f m)) = []"
    "x = st_fraction s'" "st_phase s' = Active \<or> st_phase s' = Recovering"
    "x = 1 \<or> x = sc_recovery_fraction c \<or> x = f_min (st_fraction s + sc_recovery_fraction c) 1"
    "st_phase s3 = Paused \<Longrightarrow> st_entry_history s3 \<noteq> Initial \<Longrightarrow>
       resume_allowed c k False h f s3 \<and> x = sc_recovery_fraction c \<and> st_phase s' = Recovering
       \<and> st_healthy_hours s' = st_healthy_hours s3"
proof -
  have dx: "d_lp d = Deploy x \<or> d_lp d = Recenter []" using assms(2) by simp
  obtain s2 d2 m s1 d1 where E: "usable c f" "\<not> drawdown_hit c f s"
    "drawdown_step c f (enter_frame f s) (hold_decision (enter_frame f s) f) = (s2, d2)"
    "st_phase s2 \<noteq> Halted" "d_reasons d2 = []" "d_lp d2 = Hold"
    "calculate lib (mf_candles f) c (mf_now_ms f) = Inr m"
    "market_stage c f k m s2 d2 = (False, s1, d1)" "range_step c f s1 d1 = Inr (s', d)"
    by (rule eval_deployE [OF assms(1) dx])
  have lp: "d_lp d1 = Deploy x"
    using range_step_frame(7,8) [OF E(9)] market_stage_frame(5) [OF E(8,5,6)] assms(2) by auto
  obtain u h s3 d3 where M0: "u = unsafe_market (market_risk_of c f m)" "h \<longrightarrow> \<not> u"
    "health_stage c f k m (blockers c f m (risk_reasons (market_risk_of c f m))) u s2
       (d2\<lparr>d_reasons := risk_reasons (market_risk_of c f m)\<rparr>) = (s3, d3)"
    "h \<longleftrightarrow> blockers c f m (risk_reasons (market_risk_of c f m)) = []"
    "phase_step c k u h f s3 d3 = (False, s1, d1)"
    "d_lp d3 = d_lp d2" "st_phase s3 = (if u then Paused else st_phase s2)"
    "st_entry_history s3 = st_entry_history s2" "st_peak_equity s3 = st_peak_equity s2"
    "st_fraction s3 = (if u then 0 else st_fraction s2)"
    "st_pause_since s3 = (if u \<and> st_phase s2 \<noteq> Paused then mf_now_ms f else st_pause_since s2)"
    by (rule market_stage_cases [OF E(8,5)])
  note M = M0(5,6,7,1,4,8,10,11)
  have "d_lp d3 = Hold" "u \<Longrightarrow> st_phase s3 = Paused" using M(2,3) E(6) by simp_all
  note P = phase_step_deploy [OF M(1) lp this]
  note D = drawdown_entered [OF E(3)]
  note R = range_step_frame [OF E(9)]
  have u: "\<not> u" by (rule P(1))
  have safe: "\<not> unsafe_market (market_risk_of c f m)" using u M(4) by simp
  have s3: "st_phase s3 = st_phase (enter_frame f s)" "st_fraction s3 = st_fraction s"
    "st_pause_since s3 = st_pause_since (enter_frame f s)"
    "st_entry_history s3 = (if has_lp f then Established else st_entry_history s)"
    using u M(3,6,7,8) D(1,4,5,7) E(2) by (simp_all del: enter_frame_simps)
  have x: "x = st_fraction s'" "st_phase s' = Active \<or> st_phase s' = Recovering"
    using P(2,3) R(1,2) by simp_all
  have three: "x = 1 \<or> x = sc_recovery_fraction c \<or> x = f_min (st_fraction s + sc_recovery_fraction c) 1"
    using P(4) s3(2) by simp
  have "st_phase s3 = Paused \<Longrightarrow> st_entry_history s3 \<noteq> Initial \<Longrightarrow>
       resume_allowed c k False h f s3 \<and> x = sc_recovery_fraction c \<and> st_phase s' = Recovering
       \<and> st_healthy_hours s' = st_healthy_hours s3"
    using P(5) u R(1,5) by simp
  from that [OF E(1,2,7) safe s3 M(5) x three this] show thesis .
qed

lemma deploy_guarded_fraction:
  "evaluate_inner lib c f k s = Inr (s', d) \<Longrightarrow> d_lp d = Deploy x \<Longrightarrow> x = st_fraction s'"
  by (rule deploy_path) auto

text \<open>
  C25: the strategy deploys capital only on fresh, finite, positive prices, with the portfolio
  above its drawdown limit, complete hourly indicators, and none of the four market alarms; the
  amount is the fraction it records, and it is then active or recovering.
\<close>

theorem deploy_guarded:
  assumes "evaluate_inner lib c f k s = Inr (s', d)" "d_lp d = Deploy x"
  shows "usable c f \<and> \<not> drawdown_hit c f s \<and> x = st_fraction s'
    \<and> (st_phase s' = Active \<or> st_phase s' = Recovering)
    \<and> (\<exists>m. calculate lib (mf_candles f) c (mf_now_ms f) = Inr m
         \<and> \<not> unsafe_market (market_risk_of c f m))"
  by (rule deploy_path [OF assms]) blast

text \<open>
  C26: leaving a pause after an LP was once established needs the full cooldown since the pause
  began and the required number of consecutive healthy hours, and re-enters with the recovery
  fraction only. With continuity the current hour must itself be free of every blocker.
\<close>

theorem resume_guarded:
  assumes "evaluate_inner lib c f k s = Inr (s', d)" "d_lp d = Deploy x"
    and "st_phase s = Paused" "st_entry_history s \<noteq> Initial"
  shows "x = sc_recovery_fraction c \<and> st_phase s' = Recovering
    \<and> sc_resume_healthy_hours c \<le> st_healthy_hours s'
    \<and> sc_cooldown_hours c * hour_ms \<le> sat_sub (mf_now_ms f) (st_pause_since s)"
  by (rule deploy_path [OF assms(1,2)])
     (use assms(3,4) in \<open>auto simp: resume_allowed_def enter_frame_def observe_lp_def split: if_splits\<close>)

section \<open>The deployed fraction\<close>

definition fraction_ok :: "f64 \<Rightarrow> bool" where
  "fraction_ok x \<longleftrightarrow> 0 \<le> x \<and> x \<le> 1"

lemma fraction_ok_consts [simp]: "fraction_ok 0" "fraction_ok 1"
  by (simp_all add: fraction_ok_def zero_f64_def one_f64_def)

lemma recovery_fraction_ok:
  "strategy_sane c \<Longrightarrow> fraction_ok (sc_recovery_fraction c)"
  by (auto simp: strategy_sane_def fraction_ok_def pos_finite_def intro: f_less_imp_le)

lemma fraction_sum_ok:
  assumes "fraction_ok a" "fraction_ok b" shows "fraction_ok (f_min (a + b) 1)"
proof -
  have "0 \<le> a + b" using assms by (simp add: fraction_ok_def f_nonneg_add)
  then show ?thesis using f_min_le(2) [of 1 "a + b"]
    by (auto simp: fraction_ok_def f_min_def one_f64_def zero_f64_def)
qed

lemma phase_step_fraction:
  assumes "phase_step c k u h f s d = (ret, s', d')" "strategy_sane c" "fraction_ok (st_fraction s)"
  shows "fraction_ok (st_fraction s')"
  using assms recovery_fraction_ok [OF assms(2)] unfolding phase_step_def Let_def
  by (auto simp: fraction_sum_ok split: if_splits)

lemma market_stage_fraction:
  assumes "market_stage c f k m s d = (ret, s', d')" "d_reasons d = []" "strategy_sane c"
    "fraction_ok (st_fraction s)"
  shows "fraction_ok (st_fraction s')"
proof -
  obtain u h s1 d1 where M: "phase_step c k u h f s1 d1 = (ret, s', d')"
    "st_fraction s1 = (if u then 0 else st_fraction s)"
    using market_stage_cases [OF assms(1,2)] by metis
  show ?thesis by (rule phase_step_fraction [OF M(1) assms(3)]) (use M(2) assms(4) in simp)
qed

text \<open>
  Under a validated configuration the recorded fraction stays between zero and one, so no
  decision ever deploys more than the LP budget.
\<close>

theorem fraction_invariant:
  assumes "evaluate_inner lib c f k s = Inr (s', d)" "strategy_sane c" "fraction_ok (st_fraction s)"
  shows "fraction_ok (st_fraction s') \<and> (\<forall>x. d_lp d = Deploy x \<longrightarrow> fraction_ok x)"
proof -
  have F: "fraction_ok (st_fraction s')"
    using assms(1)
  proof (cases rule: evaluate_innerE)
    case data
    then show ?thesis using data_exit_frame(3) assms(3) by fastforce
  next
    case (halt s1 d1)
    then show ?thesis using drawdown_entered(4) assms(3) by metis
  next
    case (gap s1 d1 e)
    then show ?thesis using drawdown_entered(4) indicator_exit_frame(3) assms(3) by metis
  next
    case (wait s1 d1 m)
    show ?thesis
      by (rule market_stage_fraction [OF wait(6) _ assms(2)])
         (use drawdown_entered [OF wait(3)] wait(4) assms(3) in auto)
  next
    case (range s1 d1 m s2 d2)
    have "fraction_ok (st_fraction s2)"
      by (rule market_stage_fraction [OF range(6) _ assms(2)])
         (use drawdown_entered [OF range(3)] range(4) assms(3) in auto)
    then show ?thesis using range_step_frame(2) [OF range(7)] by simp
  qed
  then show ?thesis using deploy_guarded_fraction [OF assms(1)] by auto
qed


section \<open>Totality\<close>

lemma select_rows_Inl: "select_rows candles c now = Inl e \<Longrightarrow> (\<exists>m. e = Bail m) \<or> (\<exists>m. e = Panic m)"
proof -
  have "check_rows rs = Inl e' \<Longrightarrow> \<exists>m. e' = Bail m" for rs e'
    by (induction rs) (auto split: if_splits)
  then show "select_rows candles c now = Inl e \<Longrightarrow> ?thesis"
    by (fastforce simp: select_rows_def Let_def rbind_def ensure_def split: sum.splits if_splits list.splits)
qed

lemma calculate_Inl:
  assumes "strategy_sane c" "calculate lib candles c now = Inl e"
  shows "\<exists>m. e = Bail m"
proof (cases "select_rows candles c now")
  case (Inl e')
  then show ?thesis using select_rows_Inl [OF Inl] select_rows_no_panic [OF assms(1)] assms(2)
    by (auto simp: calculate_def)
next
  case (Inr rows)
  then show ?thesis
    using calculate_total_on_rows [OF assms(1) Inr, of lib] assms(2) by (metis Inr_Inl_False)
qed

text \<open>
  Under a validated configuration whose bar length in milliseconds does not wrap to zero, every
  frame gets a decision: no index of the indicator windows and no division can panic.
\<close>

theorem evaluate_total:
  assumes "strategy_sane c" "sc_decision_bar_seconds c * 1000 \<noteq> 0"
  shows "\<exists>s' d. evaluate_inner lib c f k s = Inr (s', d)"
proof -
  have "range_step c f s1 d1 \<noteq> Inl e" for s1 d1 e
    using assms(2) by (simp add: range_step_def udiv_def split_def Let_def)
  moreover have "calculate lib (mf_candles f) c (mf_now_ms f) = Inl e \<Longrightarrow> \<exists>m. e = Bail m" for e
    by (rule calculate_Inl [OF assms(1)])
  ultimately have "evaluate_inner lib c f k s \<noteq> Inl e" for e
    by (auto simp: evaluate_inner_def Let_def split: prod.splits sum.splits err.splits)
  then show ?thesis by (cases "evaluate_inner lib c f k s") auto
qed

lemma bar_wrap_panics:
  "range_step c f s d = Inl (Panic ''attempt to divide by zero'')"
  if "sc_decision_bar_seconds c = 2 ^ 61"
  using that by (simp add: range_step_def udiv_def)

section \<open>Range surveillance\<close>

lemma range_fold_resets:
  assumes "l \<in> set (ra_resets (foldl (range_pos c p nb) a ps))" "0 < sc_breakout_confirm_bars c"
  shows "l \<in> set (ra_resets a) \<or> nb \<and> (\<exists>pos \<in> set ps. lp_layer pos = l \<and> breakout_side c p pos \<noteq> 0)"
  using assms(1)
proof (induction ps arbitrary: a)
  case Nil
  then show ?case by simp
next
  case (Cons pos ps)
  from Cons.IH [OF Cons.prems [simplified]] consider
    "l \<in> set (ra_resets (range_pos c p nb a pos))"
    | "nb" "\<exists>q \<in> set ps. lp_layer q = l \<and> breakout_side c p q \<noteq> 0" by auto
  then show ?case
  proof cases
    case 1
    then show ?thesis using assms(2)
      by (auto simp: range_pos_def streak_step_def Let_def split: if_splits prod.splits)
  next
    case 2
    then show ?thesis by auto
  qed
qed

text \<open>
  A range is recentered only at the start of a new observation bar, only for a layer the
  portfolio holds, and only when the price is beyond that layer's range by the breakout buffer.
\<close>

theorem recenter_outside:
  assumes "evaluate_inner lib c f k s = Inr (s', d)" "d_lp d = Recenter ls" "strategy_sane c"
  shows "ls \<noteq> [] \<and> (\<forall>l \<in> set ls. \<exists>pos \<in> set (pf_positions (mf_portfolio f)).
     lp_layer pos = l \<and> breakout_side c (ps_price (mf_pool f)) pos \<noteq> 0)"
proof -
  have dx: "d_lp d = Deploy 0 \<or> d_lp d = Recenter ls" using assms(2) by simp
  obtain s2 d2 m s1 d1 where E: "usable c f" "\<not> drawdown_hit c f s"
    "drawdown_step c f (enter_frame f s) (hold_decision (enter_frame f s) f) = (s2, d2)"
    "st_phase s2 \<noteq> Halted" "d_reasons d2 = []" "d_lp d2 = Hold"
    "calculate lib (mf_candles f) c (mf_now_ms f) = Inr m"
    "market_stage c f k m s2 d2 = (False, s1, d1)" "range_step c f s1 d1 = Inr (s', d)"
    by (rule eval_deployE [OF assms(1) dx])
  obtain b s3 nb a where U: "udiv (mf_now_ms f) (sc_decision_bar_seconds c * 1000) = Inr b"
    and R: "bar_step b s1 = (s3, nb)"
    and A: "a = foldl (range_pos c (ps_price (mf_pool f)) nb) (range_start f s3 d1)
           (pf_positions (mf_portfolio f))"
    and S: "s' = s3\<lparr>st_layers := ra_layers a\<rparr>"
    and D: "d = d1\<lparr>d_emergency := ra_emergency a,
            d_lp := (if d_lp d1 = Hold \<and> ra_resets a \<noteq> [] then Recenter (ra_resets a) else d_lp d1),
            d_target_short_base := f_max (ra_target a) 0, d_state := phase_name (st_phase s3)\<rparr>"
    by (rule range_stepE [OF E(9)])
  have "d_lp d1 = Hold \<or> d_lp d1 = Deploy (st_fraction s1)"
    using market_stage_frame(5) [OF E(8,5,6)] by simp
  then have L: "ls = ra_resets a" "ra_resets a \<noteq> []"
    using assms(2) unfolding D by (auto split: if_splits)
  have "0 < sc_breakout_confirm_bars c" using assms(3) by (simp add: strategy_sane_def)
  from range_fold_resets [OF _ this, of _ "ps_price (mf_pool f)" nb "range_start f s3 d1"]
  show ?thesis using L unfolding A by (auto simp: range_start_def)
qed

text \<open>
  The protection flag of a layer is a hysteresis: it is set below the range, released above the
  lower bound by the release buffer, and kept in between. A protected layer is hedged in full.
\<close>

definition protect_next :: "strategy_config \<Rightarrow> f64 \<Rightarrow> lp_position \<Rightarrow> bool \<Rightarrow> bool" where
  "protect_next c p pos old \<longleftrightarrow>
     (if p > lp_lower pos * (1 + sc_hedge_release_buffer c) then False
      else p < lp_lower pos \<or> old)"

lemma range_pos_effect:
  "ls_protected (layer_of (ra_layers (range_pos c p nb a pos)) (lp_layer pos))
     = protect_next c p pos (ls_protected (layer_of (ra_layers a) (lp_layer pos)))"
  "l \<noteq> lp_layer pos \<Longrightarrow> ra_layers (range_pos c p nb a pos) l = ra_layers a l"
  "ra_target (range_pos c p nb a pos) = ra_target a + lp_base pos
     * (if protect_next c p pos (ls_protected (layer_of (ra_layers a) (lp_layer pos))) then 1
        else sc_inside_hedge_ratio c)"
  "ra_emergency (range_pos c p nb a pos) = (ra_emergency a
     \<or> protect_next c p pos (ls_protected (layer_of (ra_layers a) (lp_layer pos))))"
  by (auto simp: range_pos_def protect_next_def layer_of_def streak_step_def Let_def split: prod.splits)

definition hedge_weight :: "strategy_config \<Rightarrow> f64 \<Rightarrow> (string \<rightharpoonup> layer_state) \<Rightarrow> lp_position \<Rightarrow> f64" where
  "hedge_weight c p ls pos =
     (if protect_next c p pos (ls_protected (layer_of ls (lp_layer pos))) then 1
      else sc_inside_hedge_ratio c)"

lemma range_fold_target:
  assumes "distinct (map lp_layer ps)"
  shows "ra_target (foldl (range_pos c p nb) a ps)
     = foldl (\<lambda>t pos. t + lp_base pos * hedge_weight c p (ra_layers a) pos) (ra_target a) ps
   \<and> (\<forall>pos \<in> set ps. ls_protected (layer_of (ra_layers (foldl (range_pos c p nb) a ps)) (lp_layer pos))
        = protect_next c p pos (ls_protected (layer_of (ra_layers a) (lp_layer pos))))
   \<and> (\<forall>l. l \<notin> lp_layer ` set ps \<longrightarrow> ra_layers (foldl (range_pos c p nb) a ps) l = ra_layers a l)"
  using assms
proof (induction ps arbitrary: a)
  case Nil
  then show ?case by simp
next
  case (Cons pos ps)
  let ?a = "range_pos c p nb a pos"
  have d: "distinct (map lp_layer ps)" "lp_layer pos \<notin> lp_layer ` set ps" using Cons.prems by auto
  have same: "layer_of (ra_layers ?a) (lp_layer q) = layer_of (ra_layers a) (lp_layer q)" if "q \<in> set ps" for q
  proof -
    have "lp_layer q \<noteq> lp_layer pos" using that d(2) by (metis imageI)
    then show ?thesis by (simp add: layer_of_def range_pos_effect(2))
  qed
  have "foldl (\<lambda>t q. t + lp_base q * hedge_weight c p (ra_layers ?a) q) t ps
      = foldl (\<lambda>t q. t + lp_base q * hedge_weight c p (ra_layers a) q) t ps" for t
    by (rule foldl_cong) (simp_all add: hedge_weight_def same)
  then have t: "foldl (\<lambda>t q. t + lp_base q * hedge_weight c p (ra_layers ?a) q) (ra_target ?a) ps
      = foldl (\<lambda>t q. t + lp_base q * hedge_weight c p (ra_layers a) q) (ra_target a) (pos # ps)"
    by (simp add: range_pos_effect(3) hedge_weight_def)
  have l: "layer_of (ra_layers (foldl (range_pos c p nb) ?a ps)) (lp_layer pos) = layer_of (ra_layers ?a) (lp_layer pos)"
    using Cons.IH [OF d(1), of ?a] d(2) by (auto simp: layer_of_def)
  show ?case using Cons.IH [OF d(1), of ?a] t l range_pos_effect(2) [of _ pos c p nb a]
    by (auto simp: same range_pos_effect(1))
qed

text \<open>
  With one position per layer, the hedge target of a range evaluation is the wallet's base
  plus, for every position, its base in full when the layer is protected and its inside ratio
  otherwise, never below zero; and each layer's protection follows the hysteresis above.
\<close>

theorem range_hedge_target:
  assumes "range_step c f s d = Inr (s', d')" "distinct (map lp_layer (pf_positions (mf_portfolio f)))"
  shows "d_target_short_base d' = f_max (foldl (\<lambda>t pos. t + lp_base pos
          * hedge_weight c (ps_price (mf_pool f)) (st_layers s) pos)
        (pf_wallet_base (mf_portfolio f)) (pf_positions (mf_portfolio f))) 0
    \<and> (\<forall>pos \<in> set (pf_positions (mf_portfolio f)).
        ls_protected (layer_of (st_layers s') (lp_layer pos))
        = protect_next c (ps_price (mf_pool f)) pos (ls_protected (layer_of (st_layers s) (lp_layer pos))))"
proof -
  obtain b s3 nb a where U: "udiv (mf_now_ms f) (sc_decision_bar_seconds c * 1000) = Inr b"
    and R: "bar_step b s = (s3, nb)"
    and A: "a = foldl (range_pos c (ps_price (mf_pool f)) nb) (range_start f s3 d)
           (pf_positions (mf_portfolio f))"
    and S: "s' = s3\<lparr>st_layers := ra_layers a\<rparr>"
    and D: "d' = d\<lparr>d_emergency := ra_emergency a,
            d_lp := (if d_lp d = Hold \<and> ra_resets a \<noteq> [] then Recenter (ra_resets a) else d_lp d),
            d_target_short_base := f_max (ra_target a) 0, d_state := phase_name (st_phase s3)\<rparr>"
    by (rule range_stepE [OF assms(1)])
  have p: "ls_protected (layer_of (st_layers s3) l) = ls_protected (layer_of (st_layers s) l)" for l
    using R by (auto simp: bar_step_def clear_streaks_def layer_of_def layer_state_default_def
        split: if_splits option.splits)
  have h: "hedge_weight c q (st_layers s3) pos = hedge_weight c q (st_layers s) pos" for q pos
    by (simp add: hedge_weight_def p)
  show ?thesis
    using range_fold_target [OF assms(2), of c "ps_price (mf_pool f)" nb "range_start f s3 d"]
    unfolding A [symmetric] by (simp add: S D range_start_def h p)
qed


section \<open>Progress across observation gaps\<close>

definition gap_evidence :: "market_frame \<Rightarrow> progress \<Rightarrow> bool" where
  "gap_evidence f p \<longleftrightarrow>
     pr_observed_ms p \<noteq> 0 \<and> pr_observed_ms p \<le> mf_now_ms f
     \<and> mf_now_ms f - pr_observed_ms p \<le> recheck_grace_ms
     \<and> (\<exists>a b. pr_anchor p = Some a \<and> b \<in> set (mf_candles f) \<and> same_bar a b)"

lemma health_gap:
  assumes "health_stage c f True m bl u s d = (s', d')"
    and "pr_pending_revalidation (st_recovery_progress s)" "1 < st_healthy_hours s'"
  shows "gap_evidence f (st_recovery_progress s) \<and> bl = [] \<and> \<not> u"
proof -
  obtain s1 d1 e1 where R: "(if True \<and> \<not> u then recheck_progress f m bl (s, d)
      else ((s, d), ''unchanged'')) = ((s1, d1), e1)" by (metis surj_pair)
  obtain s2 e2 where X: "(if u then (risk_step True f bl s1, if True then ''reset_market_risk'' else e1)
      else (s1, e1)) = (s2, e2)" by (metis surj_pair)
  obtain s3 e3 where H: "hour_step True u (bl = []) f m (s2, e2) = (s3, e3)" by (metis surj_pair)
  have s': "st_healthy_hours s' = st_healthy_hours s3"
    using assms(1) R X H by (auto simp: health_stage_def)
  have "st_healthy_hours s2 \<noteq> 0"
  proof
    assume "st_healthy_hours s2 = 0"
    then have "st_healthy_hours s3 = 0 \<or> st_healthy_hours s3 = sat_add 0 1"
      using hour_step_frame(8) [OF H] by auto
    then show False using assms(3) s' by (auto simp: sat_add_def)
  qed
  then have u: "\<not> u" and "st_healthy_hours s1 \<noteq> 0" using X by (auto split: if_splits)
  with R recheck_retained [OF _ assms(2), of f m bl d s1 d1 e1] show ?thesis
    by (auto simp: gap_evidence_def)
qed

lemma enter_progress: "st_recovery_progress (enter_frame f s) = st_recovery_progress s"
  by (simp add: enter_frame_def observe_lp_def Let_def)

lemma drawdown_progress:
  "drawdown_step c f s d = (s', d') \<Longrightarrow> st_recovery_progress s' = st_recovery_progress s"
  by (auto simp: drawdown_step_def Let_def split: if_splits)

lemma phase_step_hours: "phase_step c k u h f s d = (ret, s', d') \<Longrightarrow> st_healthy_hours s' = st_healthy_hours s"
  by (auto simp: phase_step_def Let_def split: if_splits)

lemma market_gap:
  assumes "market_stage c f True m s d = (ret, s', d')" "d_reasons d = []"
    and "pr_pending_revalidation (st_recovery_progress s)" "1 < st_healthy_hours s'"
  shows "gap_evidence f (st_recovery_progress s)
    \<and> blockers c f m (risk_reasons (market_risk_of c f m)) = []"
proof -
  obtain u h s1 d1 where M:
    "health_stage c f True m (blockers c f m (risk_reasons (market_risk_of c f m))) u s
       (d\<lparr>d_reasons := risk_reasons (market_risk_of c f m)\<rparr>) = (s1, d1)"
    "phase_step c True u h f s1 d1 = (ret, s', d')"
    using market_stage_cases [OF assms(1,2)] by metis
  show ?thesis
    using health_gap [OF M(1) assms(3)] phase_step_hours [OF M(2)] assms(4) by auto
qed

text \<open>
  With continuity, an unusable frame freezes the recovery progress: no order is placed, the
  hedge target is the current short, and neither the healthy hours nor the fraction change.
  When observations resume on a usable frame, more than one healthy hour survives only with
  evidence: the last observation is at most five minutes old, its anchor candle is still in the
  history, and nothing blocks recovery.
\<close>

theorem gap_progress:
  assumes "evaluate_inner lib c f True s = Inr (s', d)"
  shows "(\<not> usable c f \<longrightarrow> d_lp d = Hold \<and> d_target_short_base d = pf_short_base (mf_portfolio f)
      \<and> st_healthy_hours s' = st_healthy_hours s \<and> st_fraction s' = st_fraction s
      \<and> pr_pending_revalidation (st_recovery_progress s'))
    \<and> (usable c f \<and> st_phase s' \<noteq> Halted \<and> pr_pending_revalidation (st_recovery_progress s)
      \<and> calculate lib (mf_candles f) c (mf_now_ms f) = Inr m \<and> 1 < st_healthy_hours s'
      \<longrightarrow> gap_evidence f (st_recovery_progress s)
        \<and> blockers c f m (risk_reasons (market_risk_of c f m)) = [])"
  using assms
proof (cases rule: evaluate_innerE)
  case data
  then show ?thesis
    using data_exit_frame [OF data(2)] eval_halted(3) [OF assms]
    by (auto simp: usable_def data_exit_def freeze_recovery_progress_def)
next
  case (halt s1 d1)
  then show ?thesis by (auto simp: usable_def)
next
  case (gap s1 d1 e)
  then show ?thesis by (auto simp: usable_def)
next
  case (wait s1 d1 m1)
  have "st_recovery_progress s1 = st_recovery_progress s"
    using drawdown_progress [OF wait(3)] by (simp add: enter_progress)
  then show ?thesis using market_gap [OF wait(6)] drawdown_entered(6) [OF wait(3)] wait(1,2,4,5)
    by (auto simp: usable_def)
next
  case (range s1 d1 m1 s2 d2)
  have "st_recovery_progress s1 = st_recovery_progress s"
    using drawdown_progress [OF range(3)] by (simp add: enter_progress)
  then show ?thesis using market_gap [OF range(6)] drawdown_entered(6) [OF range(3)] range(1,2,4,5)
      range_step_frame(5) [OF range(7)]
    by (auto simp: usable_def)
qed

section \<open>Runs\<close>

text \<open>
  C17: over any sequence of evaluations, a usable frame whose equity is below the drawdown limit
  halts the strategy for good: from that frame on no decision deploys or recenters.
\<close>

theorem drawdown_run:
  assumes "run_frames (\<lambda>f. evaluate_inner lib c f k) (fs @ f # gs) s = Inr (s', ds)"
    and "run_frames (\<lambda>f. evaluate_inner lib c f k) fs s = Inr (s1, es)"
    and "usable c f" "drawdown_hit c f s1"
  shows "st_phase s' = Halted \<and> (\<forall>d \<in> set (drop (length es) ds). no_deploy d)"
  by (rule strat.trip_run [OF assms(1,2)]) (use assms(3,4) in simp)

text \<open>
  Over any sequence of evaluations the equity peak never falls, and the record that an LP was
  once established is never lost.
\<close>

theorem run_monotone:
  assumes "run_frames (\<lambda>f. evaluate_inner lib c f k) fs s = Inr (s', ds)"
  shows "(\<not> is_nan (st_peak_equity s) \<longrightarrow> st_peak_equity s \<le> st_peak_equity s')
    \<and> (st_entry_history s = Established \<longrightarrow> st_entry_history s' = Established)"
  using strat.peak_run [OF assms] strat.history_run [OF assms] by blast

end
