(* ===== verification/Eth_Facts.thy ===== *)
theory Eth_Facts
  imports Eth_Profile Strategy_Props
begin

text \<open>
  Correctness of the persistent Ethereum profiles: both are drawdown machines in the sense of
  \<open>Risk_Machine\<close>, their deployments are guarded, the recorded account origin survives, and the
  band's hedge stays inside its collateral.
\<close>

section \<open>Frames of the stages\<close>

named_theorems eth_frame \<open>what the stages of the profiles leave alone\<close>

lemma upd_eth_frame [eth_frame, simp]:
  "st_phase (upd_eth g s) = st_phase s" "st_entry_history (upd_eth g s) = st_entry_history s"
  "st_peak_equity (upd_eth g s) = st_peak_equity s" "st_fraction (upd_eth g s) = st_fraction s"
  "st_healthy_hours (upd_eth g s) = st_healthy_hours s" "st_pause_since (upd_eth g s) = st_pause_since s"
  "st_last_decision_bar (upd_eth g s) = st_last_decision_bar s" "st_layers (upd_eth g s) = st_layers s"
  "st_last_hour (upd_eth g s) = st_last_hour s"
  "eth_state (upd_eth g s) = g (eth_state s)"
  by (simp_all add: upd_eth_def eth_state_def)

lemma eth_state_updates [eth_frame, simp]:
  "eth_state (s\<lparr>st_phase := a\<rparr>) = eth_state s" "eth_state (s\<lparr>st_peak_equity := b\<rparr>) = eth_state s"
  "eth_state (s\<lparr>st_healthy_hours := n\<rparr>) = eth_state s" "eth_state (s\<lparr>st_fraction := b\<rparr>) = eth_state s"
  "eth_state (s\<lparr>st_layers := l\<rparr>) = eth_state s" "eth_state (s\<lparr>st_pause_since := t\<rparr>) = eth_state s"
  "eth_state (s\<lparr>st_last_decision_bar := t\<rparr>) = eth_state s" "eth_state (s\<lparr>st_last_hour := t\<rparr>) = eth_state s"
  "eth_state (s\<lparr>st_entry_history := h\<rparr>) = eth_state s"
  by (simp_all add: eth_state_def)

lemma upd_band_frame [eth_frame, simp]:
  "st_phase (upd_band g s) = st_phase s" "st_entry_history (upd_band g s) = st_entry_history s"
  "st_peak_equity (upd_band g s) = st_peak_equity s" "st_fraction (upd_band g s) = st_fraction s"
  "st_healthy_hours (upd_band g s) = st_healthy_hours s" "st_pause_since (upd_band g s) = st_pause_since s"
  "st_last_decision_bar (upd_band g s) = st_last_decision_bar s"
  "band_of (eth_state (upd_band g s)) = g (band_of (eth_state s))"
  "es_reentry_not_before_ms (eth_state (upd_band g s)) = es_reentry_not_before_ms (eth_state s)"
  "es_pending_hedge_target (eth_state (upd_band g s)) = es_pending_hedge_target (eth_state s)"
  by (simp_all add: upd_band_def band_of_def)

lemma observe_lp_frame [eth_frame, simp]:
  "st_phase (observe_lp b s) = st_phase s" "st_peak_equity (observe_lp b s) = st_peak_equity s"
  "st_entry_history (observe_lp b s) = (if b then Established else st_entry_history s)"
  "eth_state (observe_lp b s) = eth_state s" "st_pause_since (observe_lp b s) = st_pause_since s"
  by (simp_all add: observe_lp_def)

lemma eth_prefix_frames [eth_frame, simp]:
  "st_phase (eth_pause_sync k c s) = st_phase s"
  "st_entry_history (eth_pause_sync k c s) = st_entry_history s"
  "st_peak_equity (eth_pause_sync k c s) = st_peak_equity s"
  "st_phase (eth_observe c f s) = st_phase s"
  "st_entry_history (eth_observe c f s) = st_entry_history s"
  "st_peak_equity (eth_observe c f s) = st_peak_equity s"
  "st_phase (eth_peak c q s) = st_phase s"
  "st_entry_history (eth_peak c q s) = st_entry_history s"
  "st_phase (eth_hour g x p dg s) = st_phase s"
  "st_entry_history (eth_hour g x p dg s) = st_entry_history s"
  "st_peak_equity (eth_hour g x p dg s) = st_peak_equity s"
  "st_phase (eth_report_of c g f x r s) = st_phase s"
  "st_entry_history (eth_report_of c g f x r s) = st_entry_history s"
  "st_peak_equity (eth_report_of c g f x r s) = st_peak_equity s"
  "st_phase (eth_start_pause f t s) = st_phase s"
  "st_entry_history (eth_start_pause f t s) = st_entry_history s"
  "st_peak_equity (eth_start_pause f t s) = st_peak_equity s"
  by (simp_all add: eth_pause_sync_def eth_observe_def eth_peak_def eth_hour_def eth_report_of_def
      eth_start_pause_def Let_def)

lemma eth_bar_frame:
  "eth_bar c side f b s = (s', out) \<Longrightarrow> st_phase s' = st_phase s
     \<and> st_entry_history s' = st_entry_history s \<and> st_peak_equity s' = st_peak_equity s
     \<and> st_healthy_hours s' = st_healthy_hours s \<and> eth_state s' = eth_state s
     \<and> st_pause_since s' = st_pause_since s"
  by (auto simp: eth_bar_def Let_def split: prod.splits if_splits)

text \<open>The drawdown test of the prefixes: equal counts as hit here.\<close>

definition peak_with :: "strategy_config \<Rightarrow> f64 \<Rightarrow> strategy \<Rightarrow> f64" where
  "peak_with c eq s = f_max (f_max (st_peak_equity s) eq) (sc_total_capital c)"

lemma peak_with_ge: "\<not> is_nan (st_peak_equity s) \<Longrightarrow> st_peak_equity s \<le> peak_with c eq s"
  unfolding peak_with_def by (meson f_le_trans f_max_ge f_max_nan)

lemma plain_prefix_frame:
  "st_entry_history (plain_prefix pc c f x eq s) = (if has_lp f then Established else st_entry_history s)"
  "st_peak_equity (plain_prefix pc c f x eq s) = peak_with c eq s"
  "st_phase (plain_prefix pc c f x eq s) =
     (if eq \<le> peak_with c eq s * (1 - sc_max_drawdown c) then Halted else st_phase s)"
  by (simp_all add: plain_prefix_def Let_def peak_with_def eth_peak_def)

lemma band_prefix_frame:
  assumes "band_prefix pc b c f x eq s = (s', dd)"
  shows "st_entry_history s' = (if has_lp f then Established else st_entry_history s)"
    "st_peak_equity s' = peak_with c eq s" "dd = 1 - eq / peak_with c eq s"
    "st_phase s' = (if sc_max_drawdown c \<le> 1 - eq / peak_with c eq s then Halted else st_phase s)"
  using assms by (auto simp: band_prefix_def Let_def peak_with_def eth_peak_def)

section \<open>The plain profile\<close>

lemma plain_exit_frame:
  assumes "plain_exit c f dg out s d = (s', d')"
  shows "st_entry_history s' = st_entry_history s" "st_peak_equity s' = st_peak_equity s"
    "st_phase s' = (if st_phase s = Halted then Halted else Paused)"
    "d_lp d' = ExitToQuote" "d_emergency d'" "d_target_short_base d' = pf_base (mf_portfolio f)"
  using assms by (auto simp: plain_exit_def Let_def)

lemma eth_legacy_frame [simp]:
  "st_entry_history (eth_legacy_pause c f s) = st_entry_history s"
  "st_peak_equity (eth_legacy_pause c f s) = st_peak_equity s"
  "st_healthy_hours (eth_legacy_pause c f s) = st_healthy_hours s"
  "st_phase (eth_legacy_pause c f s) =
     (if st_phase s = Warmup \<and> st_entry_history s \<noteq> Initial then Paused else st_phase s)"
  by (simp_all add: eth_legacy_pause_def eth_start_pause_def)

lemma plain_entry_frame:
  assumes "plain_entry c f s d = Inr (s', d')"
  shows "st_entry_history s' = st_entry_history s" "st_peak_equity s' = st_peak_equity s"
    "st_phase s' = Active \<and> d_lp d' = Deploy 1
       \<or> st_phase s' = Paused \<and> d_lp d' = ExitToQuote \<and> d_target_short_base d' = pf_base (mf_portfolio f)"
    "d_lp d' = Deploy a \<Longrightarrow> st_entry_history s = Initial \<or> sc_resume_healthy_hours c \<le> st_healthy_hours s"
  using assms by (auto simp: plain_entry_def Let_def split: if_splits)

lemma plain_hold_frame:
  assumes "plain_hold pc c f s d = (s', d')"
  shows "st_entry_history s' = st_entry_history s" "st_peak_equity s' = st_peak_equity s"
    "st_phase s' = Active" "d_lp d' = d_lp d"
  using assms by (auto simp: plain_hold_def Let_def split: option.splits if_splits)

lemma plain_outside_frame:
  assumes "plain_outside c f s = Inr (s', out)"
  shows "st_phase s' = st_phase s" "st_entry_history s' = st_entry_history s"
    "st_peak_equity s' = st_peak_equity s" "st_healthy_hours s' = st_healthy_hours s"
    "eth_state s' = eth_state s" "st_pause_since s' = st_pause_since s" "out \<Longrightarrow> has_lp f"
  using assms by (auto simp: plain_outside_def dest: eth_bar_frame split: if_splits)

lemma plain_evaluateE:
  assumes "plain_evaluate pc c f x eq s d = Inr (s', d')"
  obtains s1 out s2 d2 r where
    "plain_outside c f (plain_prefix pc c f x eq s) = Inr (s1, out)"
    "plain_branch pc c f (eth_danger c (guard_of pc c) f x) out s1 d = Inr (s2, d2)"
    "s' = eth_report_of c (guard_of pc c) f x r s2" "d' = d2\<lparr>d_state := phase_name (st_phase s')\<rparr>"
  using assms by (auto simp: plain_evaluate_def Let_def)

lemma plain_branch_frame:
  assumes "plain_branch pc c f dg out s d = Inr (s', d')" "d_lp d = Hold"
  shows "st_entry_history s' = st_entry_history s" "st_peak_equity s' = st_peak_equity s"
    "st_phase s' = Halted \<longleftrightarrow> st_phase s = Halted"
    "st_phase s' = Halted \<Longrightarrow> d_lp d' = ExitToQuote \<and> d_emergency d'
       \<and> d_target_short_base d' = pf_base (mf_portfolio f)"
    "d_lp d' = Deploy a \<Longrightarrow> st_phase s \<noteq> Halted \<and> dg = None \<and> \<not> out \<and> \<not> has_lp f
       \<and> plain_entry c f s d = Inr (s', d')"
proof -
  consider (exit) "st_phase s = Halted \<or> dg \<noteq> None \<or> out" "plain_exit c f dg out s d = (s', d')"
    | (entry) "\<not> (st_phase s = Halted \<or> dg \<noteq> None \<or> out)" "\<not> has_lp f" "plain_entry c f s d = Inr (s', d')"
    | (hold) "\<not> (st_phase s = Halted \<or> dg \<noteq> None \<or> out)" "has_lp f" "plain_hold pc c f s d = (s', d')"
    using assms(1) by (auto simp: plain_branch_def split: if_splits)
  note C = this
  show "st_entry_history s' = st_entry_history s" "st_peak_equity s' = st_peak_equity s"
    using C plain_exit_frame(1,2) plain_entry_frame(1,2) plain_hold_frame(1,2) by metis+
  show "st_phase s' = Halted \<longleftrightarrow> st_phase s = Halted"
    using C plain_exit_frame(3) plain_entry_frame(3) plain_hold_frame(3) by (metis phase.distinct)
  then show "st_phase s' = Halted \<Longrightarrow> d_lp d' = ExitToQuote \<and> d_emergency d'
       \<and> d_target_short_base d' = pf_base (mf_portfolio f)"
    using C plain_exit_frame(4-6) by metis
  show "d_lp d' = Deploy a \<Longrightarrow> st_phase s \<noteq> Halted \<and> dg = None \<and> \<not> out \<and> \<not> has_lp f
       \<and> plain_entry c f s d = Inr (s', d')"
    using C plain_exit_frame(4) plain_hold_frame(4) assms(2) by (metis lp_intent.distinct)
qed

lemma plain_evaluate_frame:
  assumes "plain_evaluate pc c f x eq s d = Inr (s', d')" "d_lp d = Hold"
  shows "st_entry_history s' = (if has_lp f then Established else st_entry_history s)"
    "st_peak_equity s' = peak_with c eq s"
    "st_phase s' = Halted \<longleftrightarrow>
       st_phase s = Halted \<or> eq \<le> peak_with c eq s * (1 - sc_max_drawdown c)"
    "st_phase s' = Halted \<Longrightarrow> d_lp d' = ExitToQuote \<and> d_emergency d'
       \<and> d_target_short_base d' = pf_base (mf_portfolio f)"
    "d_lp d' = Deploy a \<Longrightarrow> st_phase s' = Active \<and> a = 1 \<and> \<not> has_lp f
       \<and> eth_danger c (guard_of pc c) f x = None \<and> \<not> eq \<le> peak_with c eq s * (1 - sc_max_drawdown c)"
proof -
  obtain s1 out s2 d2 r where E:
    "plain_outside c f (plain_prefix pc c f x eq s) = Inr (s1, out)"
    "plain_branch pc c f (eth_danger c (guard_of pc c) f x) out s1 d = Inr (s2, d2)"
    "s' = eth_report_of c (guard_of pc c) f x r s2" "d' = d2\<lparr>d_state := phase_name (st_phase s')\<rparr>"
    by (rule plain_evaluateE [OF assms(1)])
  note O = plain_outside_frame [OF E(1)] and B = plain_branch_frame [OF E(2) assms(2)]
  note P = plain_prefix_frame [of pc c f x eq s]
  show "st_entry_history s' = (if has_lp f then Established else st_entry_history s)"
    "st_peak_equity s' = peak_with c eq s"
    using E(3) O B P by simp_all
  show "st_phase s' = Halted \<longleftrightarrow>
       st_phase s = Halted \<or> eq \<le> peak_with c eq s * (1 - sc_max_drawdown c)"
    using E(3) O(1) B(3) P(3) by simp
  show "st_phase s' = Halted \<Longrightarrow> d_lp d' = ExitToQuote \<and> d_emergency d'
       \<and> d_target_short_base d' = pf_base (mf_portfolio f)"
    using E(3,4) B(4) by simp
  show "d_lp d' = Deploy a \<Longrightarrow> st_phase s' = Active \<and> a = 1 \<and> \<not> has_lp f
       \<and> eth_danger c (guard_of pc c) f x = None \<and> \<not> eq \<le> peak_with c eq s * (1 - sc_max_drawdown c)"
  proof -
    assume "d_lp d' = Deploy a"
    then have D: "d_lp d2 = Deploy a" using E(4) by simp
    from B(5) [OF D] plain_entry_frame(3) show ?thesis using D E(3) O(1) P(3)
      by (fastforce split: if_splits)
  qed
qed


section \<open>The band profile\<close>

text \<open>The equity recorded when the account was first observed.\<close>

definition origin_of :: "strategy \<Rightarrow> f64 option" where
  "origin_of s = bs_account_origin_equity (band_of (eth_state s))"

lemma origin_upd_band [simp]:
  "(\<And>b. bs_account_origin_equity (g b) = bs_account_origin_equity b) \<Longrightarrow> origin_of (upd_band g s) = origin_of s"
  by (simp add: origin_of_def)

lemma origin_upd_eth [simp]:
  "(\<And>e. es_band (g e) = es_band e) \<Longrightarrow> origin_of (upd_eth g s) = origin_of s"
  by (simp add: origin_of_def band_of_def)

lemma origin_updates [simp]:
  "origin_of (s\<lparr>st_phase := a\<rparr>) = origin_of s" "origin_of (s\<lparr>st_peak_equity := b\<rparr>) = origin_of s"
  "origin_of (s\<lparr>st_healthy_hours := n\<rparr>) = origin_of s" "origin_of (s\<lparr>st_fraction := b\<rparr>) = origin_of s"
  "origin_of (s\<lparr>st_layers := l\<rparr>) = origin_of s" "origin_of (s\<lparr>st_pause_since := t\<rparr>) = origin_of s"
  "origin_of (s\<lparr>st_last_decision_bar := t\<rparr>) = origin_of s" "origin_of (s\<lparr>st_last_hour := t\<rparr>) = origin_of s"
  "origin_of (observe_lp k s) = origin_of s"
  by (simp_all add: origin_of_def)

lemma origin_stages [simp]:
  "origin_of (eth_pause_sync k c s) = origin_of s" "origin_of (eth_observe c f s) = origin_of s"
  "origin_of (eth_peak c q s) = origin_of s" "origin_of (eth_hour g x p dg s) = origin_of s"
  "origin_of (eth_report_of c g f x r s) = origin_of s" "origin_of (eth_start_pause f t s) = origin_of s"
  "origin_of (eth_legacy_pause c f s) = origin_of s"
  "origin_of (band_new_episode f eq dd s) = origin_of s"
proof -
  have "bs_account_origin_equity (band_of (e\<lparr>es_band := map_option (\<lambda>b. b\<lparr>bs_entered_ms := 0\<rparr>) (es_band e)\<rparr>))
      = bs_account_origin_equity (band_of e)" for e
    by (simp add: band_of_def split: option.splits)
  then show "origin_of (eth_pause_sync k c s) = origin_of s"
    by (auto simp: eth_pause_sync_def origin_of_def band_of_def split: option.splits)
qed (simp_all add: eth_observe_def eth_peak_def eth_hour_def eth_report_of_def eth_start_pause_def
    eth_legacy_pause_def band_new_episode_def Let_def)

lemma origin_bar: "eth_bar c side f b s = (s', out) \<Longrightarrow> origin_of s' = origin_of s"
  by (drule eth_bar_frame) (simp add: origin_of_def)

lemma managed_equity_frame:
  assumes "managed_equity c raw s = (s', eq)"
  shows "st_phase s' = st_phase s" "st_entry_history s' = st_entry_history s"
    "st_peak_equity s' = st_peak_equity s"
    "origin_of s' = Some (case origin_of s of None \<Rightarrow> raw | Some q \<Rightarrow> q)"
    "eq = sc_total_capital c + raw - (case origin_of s of None \<Rightarrow> raw | Some q \<Rightarrow> q)"
  using assms by (auto simp: managed_equity_def Let_def origin_of_def)

lemma band_episode_origin [simp]:
  "bs_account_origin_equity (band_episode b f eq dd bs) = bs_account_origin_equity bs"
  by (simp add: band_episode_def Let_def)

lemma band_prefix_origin: "band_prefix pc b c f x eq s = (s', dd) \<Longrightarrow> origin_of s' = origin_of s"
  by (auto simp: band_prefix_def Let_def)

lemma band_exit_frame:
  assumes "band_exit c f dg gl s d = (s', d')"
  shows "st_entry_history s' = st_entry_history s" "st_peak_equity s' = st_peak_equity s"
    "st_phase s' = (if st_phase s = Halted then Halted else Paused)"
    "d_lp d' = ExitToQuote" "d_emergency d'" "d_target_short_base d' = pf_base (mf_portfolio f)"
    "origin_of s' = origin_of s"
  using assms by (auto simp: band_exit_def Let_def)

lemma band_new_episode_frame [simp]:
  "st_phase (band_new_episode f eq dd s) = st_phase s"
  "st_entry_history (band_new_episode f eq dd s) = st_entry_history s"
  "st_peak_equity (band_new_episode f eq dd s) = st_peak_equity s"
  by (simp_all add: band_new_episode_def)

lemma band_hedge_frame:
  assumes "band_hedge pc b c f s d = Inr (s', d')"
  shows "st_entry_history s' = st_entry_history s" "st_peak_equity s' = st_peak_equity s"
    "st_phase s' = st_phase s" "d_lp d' = d_lp d" "origin_of s' = origin_of s"
    "d_target_short_base d' = d_target_short_base d
     \<or> band_target b (mf_portfolio f) (ps_price (mf_pool f)) = Inr (d_target_short_base d')
       \<and> sc_hedge_deadband_usd c
         \<le> \<bar>d_target_short_base d' - pf_short_base (mf_portfolio f)\<bar> * ps_price (mf_pool f)"
  using assms by (auto simp: band_hedge_def Let_def split: if_splits)

lemma band_hold_frame:
  assumes "band_hold pc b c f out eq dd s d = Inr (s', d')" "d_lp d = Hold"
  shows "st_entry_history s' = st_entry_history s" "st_peak_equity s' = st_peak_equity s"
    "st_phase s' = Active" "\<And>a. d_lp d' \<noteq> Deploy a" "origin_of s' = origin_of s"
    "d_lp d' \<noteq> Hold \<Longrightarrow> out \<and> bc_minimum_holding_hours b * hour_ms
       \<le> sat_sub (mf_now_ms f) (bs_entered_ms (band_of (eth_state s)))"
  using assms band_hedge_frame [of pc b c f "s\<lparr>st_phase := Active\<rparr>" d s' d']
  by (auto simp: band_hold_def Let_def split: if_splits)

lemma band_entry_frame:
  assumes "band_entry b g c f x bu eq dd s d = (s', d')"
  shows "st_entry_history s' = st_entry_history s" "st_peak_equity s' = st_peak_equity s"
    "st_phase s' = Active \<and> d_lp d' = Deploy 1
       \<or> st_phase s' = Paused \<and> d_lp d' = ExitToQuote \<and> d_target_short_base d' = pf_base (mf_portfolio f)"
    "origin_of s' = origin_of s"
  using assms by (auto simp: band_entry_def Let_def split: if_splits)

lemma band_bar_frame:
  "band_bar c f b s = (s', out) \<Longrightarrow> st_phase s' = st_phase s
     \<and> st_entry_history s' = st_entry_history s \<and> st_peak_equity s' = st_peak_equity s
     \<and> eth_state s' = eth_state s \<and> origin_of s' = origin_of s"
  by (auto simp: band_bar_def dest: eth_bar_frame origin_bar split: if_splits)

lemma band_branch_frame:
  assumes "band_branch pc b c f x bu eq dd soft gl out s d = Inr (s', d')" "d_lp d = Hold"
  shows "st_entry_history s' = st_entry_history s" "st_peak_equity s' = st_peak_equity s"
    "origin_of s' = origin_of s" "st_phase s' = Halted \<longleftrightarrow> st_phase s = Halted"
    "st_phase s' = Halted \<Longrightarrow> d_lp d' = ExitToQuote \<and> d_emergency d'
       \<and> d_target_short_base d' = pf_base (mf_portfolio f)"
    "d_lp d' = Deploy a \<Longrightarrow> st_phase s \<noteq> Halted \<and> eth_danger c (guard_of pc c) f x = None
       \<and> \<not> soft \<and> \<not> gl \<and> \<not> has_lp f \<and> band_entry b (guard_of pc c) c f x bu eq dd s d = (s', d')"
    "d_lp d' = Recenter ls \<Longrightarrow> out \<and> bc_minimum_holding_hours b * hour_ms
       \<le> sat_sub (mf_now_ms f) (bs_entered_ms (band_of (eth_state s)))"
proof -
  let ?dg = "eth_danger c (guard_of pc c) f x"
  consider (exit) "st_phase s = Halted \<or> ?dg \<noteq> None \<or> soft \<or> gl" "band_exit c f ?dg gl s d = (s', d')"
    | (hold) "\<not> (st_phase s = Halted \<or> ?dg \<noteq> None \<or> soft \<or> gl)" "has_lp f"
        "band_hold pc b c f out eq dd s d = Inr (s', d')"
    | (entry) "\<not> (st_phase s = Halted \<or> ?dg \<noteq> None \<or> soft \<or> gl)" "\<not> has_lp f"
        "band_entry b (guard_of pc c) c f x bu eq dd s d = (s', d')"
    using assms(1) by (auto simp: band_branch_def Let_def split: if_splits)
  note C = this
  show "st_entry_history s' = st_entry_history s" "st_peak_equity s' = st_peak_equity s"
    "origin_of s' = origin_of s"
    using C band_exit_frame(1,2,7) band_entry_frame(1,2,4) band_hold_frame(1,2,5) [OF _ assms(2)]
    by metis+
  show "st_phase s' = Halted \<longleftrightarrow> st_phase s = Halted"
    using C band_exit_frame(3) band_entry_frame(3) band_hold_frame(3) [OF _ assms(2)]
    by (metis phase.distinct)
  then show "st_phase s' = Halted \<Longrightarrow> d_lp d' = ExitToQuote \<and> d_emergency d'
       \<and> d_target_short_base d' = pf_base (mf_portfolio f)"
    using C band_exit_frame(4-6) by metis
  show "d_lp d' = Deploy a \<Longrightarrow> st_phase s \<noteq> Halted \<and> ?dg = None
       \<and> \<not> soft \<and> \<not> gl \<and> \<not> has_lp f \<and> band_entry b (guard_of pc c) c f x bu eq dd s d = (s', d')"
    using C band_exit_frame(4) band_hold_frame(4) [OF _ assms(2)] by (metis lp_intent.distinct)
  show "d_lp d' = Recenter ls \<Longrightarrow> out \<and> bc_minimum_holding_hours b * hour_ms
       \<le> sat_sub (mf_now_ms f) (bs_entered_ms (band_of (eth_state s)))"
    using C band_exit_frame(4) band_hold_frame(6) [OF _ assms(2)] band_entry_frame(3)
    by (metis lp_intent.distinct)
qed

lemma band_evaluateE:
  assumes "band_evaluate pc b c f x s d = Inr (s', d')"
  obtains s1 eq s2 dd bucket s3 out soft gl s4 d4 r where
    "managed_equity c (pf_equity (mf_portfolio f) (ps_price (mf_pool f))) s = (s1, eq)"
    "band_prefix pc b c f x eq s1 = (s2, dd)" "band_bar c f bucket s2 = (s3, out)"
    "soft = band_soft b f eq s2"
    "gl = band_global f dd s2"
    "band_branch pc b c f x bucket eq dd soft gl out s3 d = Inr (s4, d4)"
    "s' = eth_report_of c (guard_of pc c) f x r s4" "d' = d4\<lparr>d_state := phase_name (st_phase s')\<rparr>"
proof -
  obtain s1 eq where M: "managed_equity c (pf_equity (mf_portfolio f) (ps_price (mf_pool f))) s = (s1, eq)"
    by fastforce
  obtain s2 dd where P: "band_prefix pc b c f x eq s1 = (s2, dd)" by fastforce
  obtain bucket where U: "udiv (mf_now_ms f) (sc_decision_bar_seconds c * 1000) = Inr bucket"
    using assms by (auto simp: band_evaluate_def M P Let_def)
  obtain s3 out where B: "band_bar c f bucket s2 = (s3, out)" by fastforce
  show thesis
    using assms by (auto simp: band_evaluate_def band_after_def band_finish_def M P U B Let_def intro: that [OF M P B refl refl])
qed

text \<open>Drawdown of the band profile, on the account's managed equity.\<close>

definition band_hit :: "strategy_config \<Rightarrow> market_frame \<Rightarrow> strategy \<Rightarrow> bool" where
  "band_hit c f s \<longleftrightarrow>
     (let (s1, eq) = managed_equity c (pf_equity (mf_portfolio f) (ps_price (mf_pool f))) s
      in sc_max_drawdown c \<le> 1 - eq / peak_with c eq s)"

lemma band_evaluate_frame:
  assumes "band_evaluate pc b c f x s d = Inr (s', d')" "d_lp d = Hold"
  shows "st_entry_history s' = (if has_lp f then Established else st_entry_history s)"
    "\<exists>eq. st_peak_equity s' = peak_with c eq s"
    "st_phase s' = Halted \<longleftrightarrow> st_phase s = Halted \<or> band_hit c f s"
    "st_phase s' = Halted \<Longrightarrow> d_lp d' = ExitToQuote \<and> d_emergency d'
       \<and> d_target_short_base d' = pf_base (mf_portfolio f)"
    "d_lp d' = Deploy a \<Longrightarrow> st_phase s' = Active \<and> a = 1 \<and> \<not> has_lp f
       \<and> eth_danger c (guard_of pc c) f x = None \<and> \<not> band_hit c f s"
    "origin_of s' = Some (case origin_of s of
       None \<Rightarrow> pf_equity (mf_portfolio f) (ps_price (mf_pool f)) | Some q \<Rightarrow> q)"
proof -
  obtain s1 eq s2 dd bu s3 out soft gl s4 d4 r where E:
    "managed_equity c (pf_equity (mf_portfolio f) (ps_price (mf_pool f))) s = (s1, eq)"
    "band_prefix pc b c f x eq s1 = (s2, dd)" "band_bar c f bu s2 = (s3, out)"
    "soft = band_soft b f eq s2"
    "gl = band_global f dd s2"
    "band_branch pc b c f x bu eq dd soft gl out s3 d = Inr (s4, d4)"
    "s' = eth_report_of c (guard_of pc c) f x r s4" "d' = d4\<lparr>d_state := phase_name (st_phase s')\<rparr>"
    by (rule band_evaluateE [OF assms(1)])
  note M = managed_equity_frame [OF E(1)] and P = band_prefix_frame [OF E(2)]
  note B = band_bar_frame [OF E(3)] and R = band_branch_frame [OF E(6) assms(2)]
  have pk: "peak_with c q s1 = peak_with c q s" for q by (simp add: peak_with_def M(3))
  have hit: "band_hit c f s \<longleftrightarrow> sc_max_drawdown c \<le> dd"
    by (simp add: band_hit_def E(1) P(3) pk)
  have ph: "st_phase s3 = Halted \<longleftrightarrow> st_phase s = Halted \<or> band_hit c f s"
    using B P(4) M(1) by (auto simp: hit P(3))
  show "st_entry_history s' = (if has_lp f then Established else st_entry_history s)"
    using E(7) R(1) B P(1) M(2) by simp
  show "\<exists>eq. st_peak_equity s' = peak_with c eq s" using E(7) R(2) B P(2) pk by auto
  show H: "st_phase s' = Halted \<longleftrightarrow> st_phase s = Halted \<or> band_hit c f s"
    using E(7) R(4) ph by simp
  show "st_phase s' = Halted \<Longrightarrow> d_lp d' = ExitToQuote \<and> d_emergency d'
       \<and> d_target_short_base d' = pf_base (mf_portfolio f)"
    using E(7,8) R(5) by simp
  show "origin_of s' = Some (case origin_of s of
       None \<Rightarrow> pf_equity (mf_portfolio f) (ps_price (mf_pool f)) | Some q \<Rightarrow> q)"
    using E(7) R(3) B band_prefix_origin [OF E(2)] M(4) by simp
  show "d_lp d' = Deploy a \<Longrightarrow> st_phase s' = Active \<and> a = 1 \<and> \<not> has_lp f
       \<and> eth_danger c (guard_of pc c) f x = None \<and> \<not> band_hit c f s"
  proof -
    assume "d_lp d' = Deploy a"
    then have D: "d_lp d4 = Deploy a" using E(8) by simp
    note R6 = R(6) [OF D]
    with band_entry_frame(3) have "st_phase s4 = Active \<and> a = 1" using D by fastforce
    then show ?thesis using R6 ph E(7) by simp
  qed
qed

section \<open>The entry points\<close>

lemma history_exit_frame:
  assumes "history_exit e c f s = (s', d')"
  shows "st_entry_history s' = st_entry_history s"
    "st_peak_equity s' = st_peak_equity s \<or> (\<exists>eq. st_peak_equity s' = peak_with c eq s)"
    "st_phase s = Halted \<Longrightarrow> st_phase s' = Halted"
    "no_deploy d'"
    "origin_of s' = origin_of s \<or> band_config_of c \<noteq> None \<and> origin_of s' = Some (case origin_of s of
       None \<Rightarrow> pf_equity (mf_portfolio f) (ps_price (mf_pool f)) | Some q \<Rightarrow> q)"
proof -
  let ?raw = "pf_equity (mf_portfolio f) (ps_price (mf_pool f))"
  obtain s1 eq where M: "profile_equity c ?raw (s\<lparr>st_healthy_hours := 0\<rparr>) = (s1, eq)" by fastforce
  have m: "st_phase s1 = st_phase s" "st_entry_history s1 = st_entry_history s"
    "st_peak_equity s1 = st_peak_equity s"
    "origin_of s1 = origin_of s \<or> band_config_of c \<noteq> None
      \<and> origin_of s1 = Some (case origin_of s of None \<Rightarrow> ?raw | Some q \<Rightarrow> q)"
    using M managed_equity_frame [of c ?raw "s\<lparr>st_healthy_hours := 0\<rparr>" s1 eq]
    by (auto simp: profile_equity_def simp del: not_None_eq split: if_splits)
  have pk: "peak_with c eq s1 = peak_with c eq s" by (simp add: peak_with_def m)
  consider (no) "s' = s\<lparr>st_healthy_hours := 0\<rparr>" "d_lp d' = Hold"
    | (out) "s' = (eth_peak c eq s1)\<lparr>st_phase := Halted\<rparr>" "d_lp d' = ExitToQuote"
    | (stay) "s' = eth_peak c eq s1" "d_lp d' = Hold"
    using assms by (auto simp: history_exit_def M Let_def split: if_splits)
  note C = this
  show "st_entry_history s' = st_entry_history s" using C m by cases simp_all
  show "st_peak_equity s' = st_peak_equity s \<or> (\<exists>eq. st_peak_equity s' = peak_with c eq s)"
    using C by cases (auto simp: eth_peak_def pk simp flip: peak_with_def)
  show "st_phase s = Halted \<Longrightarrow> st_phase s' = Halted" using C m by cases simp_all
  show "no_deploy d'" using C by cases (simp_all add: no_deploy_def)
  show "origin_of s' = origin_of s \<or> band_config_of c \<noteq> None \<and> origin_of s' = Some (case origin_of s of
       None \<Rightarrow> pf_equity (mf_portfolio f) (ps_price (mf_pool f)) | Some q \<Rightarrow> q)"
    using C m(4) by cases simp_all
qed

text \<open>A usable frame that shows a drawdown, for either profile.\<close>

definition eth_tripped :: "libm \<Rightarrow> strategy_config \<Rightarrow> market_frame \<Rightarrow> strategy \<Rightarrow> bool" where
  "eth_tripped lib c f s \<longleftrightarrow>
     (case latest_feature lib (mf_candles f) (mf_now_ms f) of
        Inr x \<Rightarrow> feature_usable c f x
          \<and> (if band_config_of c \<noteq> None then band_hit c f s
             else (let eq = pf_equity (mf_portfolio f) (ps_price (mf_pool f))
                   in eq \<le> peak_with c eq s * (1 - sc_max_drawdown c)))
      | Inl _ \<Rightarrow> account_usable c f
          \<and> (let eq = snd (profile_equity c (pf_equity (mf_portfolio f) (ps_price (mf_pool f))) s)
             in eq \<le> peak_with c eq s * (1 - sc_max_drawdown c)))"

text \<open>The three ways an evaluation with a profile can end.\<close>

lemma eth_evaluateE:
  assumes "eth_evaluate lib c f s = Inr (s', d')"
  obtains (history) e where "latest_feature lib (mf_candles f) (mf_now_ms f) = Inl (Bail e)"
      "history_exit e c f s = (s', d')"
  | (unusable) x where "latest_feature lib (mf_candles f) (mf_now_ms f) = Inr x" "\<not> feature_usable c f x"
      "s' = s\<lparr>st_healthy_hours := 0\<rparr>"
      "d' = push_reason ''stale_or_invalid_data: persistent observation unavailable'' (hold_decision s f)"
  | (band) x pc b where "latest_feature lib (mf_candles f) (mf_now_ms f) = Inr x" "feature_usable c f x"
      "sc_eth_persistent c = Some pc" "pc_band pc = Some b"
      "band_evaluate pc b c f x s (hold_decision s f) = Inr (s', d')"
  | (plain) x pc where "latest_feature lib (mf_candles f) (mf_now_ms f) = Inr x" "feature_usable c f x"
      "sc_eth_persistent c = Some pc" "pc_band pc = None"
      "plain_evaluate pc c f x (pf_equity (mf_portfolio f) (ps_price (mf_pool f))) s (hold_decision s f)
         = Inr (s', d')"
proof (cases "latest_feature lib (mf_candles f) (mf_now_ms f)")
  case (Inl e)
  then show thesis using assms history by (cases e) (auto simp: eth_evaluate_def)
next
  case (Inr x)
  then have E: "evaluate_feature c f x s = Inr (s', d')" using assms by (simp add: eth_evaluate_def)
  show thesis
  proof (cases "feature_usable c f x")
    case False
    then show thesis using E by (intro unusable [OF Inr])
      (auto simp: evaluate_feature_def Let_def split: option.splits)
  next
    case True
    then show thesis using E
      by (auto simp: evaluate_feature_def Let_def split: option.splits intro: band [OF Inr] plain [OF Inr])
  qed
qed

interpretation eth: drawdown_machine "eth_evaluate lib c" "eth_tripped lib c" for lib c
proof
  fix f s s' d assume E: "eth_evaluate lib c f s = Inr (s', d)"
  have h: "d_lp (hold_decision s f) = Hold" by simp
  show "st_phase s' = Halted" if "st_phase s = Halted"
    using E
    by (cases rule: eth_evaluateE)
       (use that history_exit_frame(3) band_evaluate_frame(3) [OF _ h] plain_evaluate_frame(3) [OF _ h]
        in auto)
  show "no_deploy d" if "st_phase s' = Halted"
    using E
    by (cases rule: eth_evaluateE)
       (use that history_exit_frame(4) band_evaluate_frame(4) [OF _ h] plain_evaluate_frame(4) [OF _ h]
        in \<open>auto simp: no_deploy_def\<close>)
  show "st_entry_history s' = Established" if "st_entry_history s = Established"
    using E
    by (cases rule: eth_evaluateE)
       (use that history_exit_frame(1) band_evaluate_frame(1) [OF _ h] plain_evaluate_frame(1) [OF _ h]
        in auto)
  show "st_peak_equity s \<le> st_peak_equity s'" if nn: "\<not> is_nan (st_peak_equity s)"
    using E
  proof (cases rule: eth_evaluateE)
    case (history e)
    then show ?thesis using history_exit_frame(2) [OF history(2)] peak_with_ge [OF nn] nn
      by (auto simp: f_le_refl)
  next
    case (unusable x)
    then show ?thesis using nn by (simp add: f_le_refl)
  next
    case (band x pc b)
    then show ?thesis using band_evaluate_frame(2) [OF band(5) h] peak_with_ge [OF nn] by auto
  next
    case (plain x pc)
    then show ?thesis using plain_evaluate_frame(2) [OF plain(5) h] peak_with_ge [OF nn] by simp
  qed
  show "st_phase s' = Halted \<and> d_lp d = ExitToQuote" if t: "eth_tripped lib c f s"
    using E
  proof (cases rule: eth_evaluateE)
    case (history e)
    let ?raw = "pf_equity (mf_portfolio f) (ps_price (mf_pool f))"
    obtain s1 eq where M: "profile_equity c ?raw (s\<lparr>st_healthy_hours := 0\<rparr>) = (s1, eq)" by fastforce
    have pk: "peak_with c eq s1 = peak_with c eq s" and eq: "snd (profile_equity c ?raw s) = eq"
      using M by (auto simp: profile_equity_def peak_with_def managed_equity_def Let_def simp del: not_None_eq
          split: if_splits)
    from t history(1) have T: "account_usable c f" "eq \<le> peak_with c eq s * (1 - sc_max_drawdown c)"
      by (simp_all add: eth_tripped_def Let_def eq)
    then have "eq \<le> st_peak_equity (eth_peak c eq s1) * (1 - sc_max_drawdown c)"
      by (simp add: eth_peak_def pk flip: peak_with_def)
    then show ?thesis using history(2) T(1) by (auto simp: history_exit_def M Let_def)
  next
    case (unusable x)
    then show ?thesis using t by (simp add: eth_tripped_def)
  next
    case (band x pc b)
    have "band_hit c f s" using t band(1,3,4) by (simp add: eth_tripped_def band_config_of_def)
    then show ?thesis using band_evaluate_frame(3,4) [OF band(5) h] by simp
  next
    case (plain x pc)
    have "pf_equity (mf_portfolio f) (ps_price (mf_pool f))
        \<le> peak_with c (pf_equity (mf_portfolio f) (ps_price (mf_pool f))) s * (1 - sc_max_drawdown c)"
      using t plain(1,3,4) by (simp add: eth_tripped_def band_config_of_def Let_def)
    then show ?thesis using plain_evaluate_frame(3,4) [OF plain(5) h] by simp
  qed
qed


section \<open>Properties of the profiles\<close>

lemma plain_deploy_hours:
  assumes "plain_evaluate pc c f x eq s d = Inr (s', d')" "d_lp d = Hold" "d_lp d' = Deploy a"
    "st_entry_history s' \<noteq> Initial"
  shows "sc_resume_healthy_hours c \<le> st_healthy_hours s'"
proof -
  obtain s1 out s2 d2 r where E:
    "plain_outside c f (plain_prefix pc c f x eq s) = Inr (s1, out)"
    "plain_branch pc c f (eth_danger c (guard_of pc c) f x) out s1 d = Inr (s2, d2)"
    "s' = eth_report_of c (guard_of pc c) f x r s2" "d' = d2\<lparr>d_state := phase_name (st_phase s')\<rparr>"
    by (rule plain_evaluateE [OF assms(1)])
  from E(4) assms(3) have "d_lp d2 = Deploy a" by simp
  with plain_branch_frame(5) [OF E(2) assms(2)] have P: "plain_entry c f s1 d = Inr (s2, d2)" "d_lp d2 = Deploy a"
    by auto
  then have "st_healthy_hours s2 = st_healthy_hours s1"
    by (auto simp: plain_entry_def Let_def split: if_splits)
  then show ?thesis
    using plain_entry_frame(4,1) [OF P(1)] P(2) assms(4) by (auto simp: E(3) eth_report_of_def)
qed

lemma band_deploy_hours:
  assumes "band_evaluate pc b c f x s d = Inr (s', d')" "d_lp d = Hold" "d_lp d' = Deploy a"
    "st_entry_history s' \<noteq> Initial"
  shows "sc_resume_healthy_hours c \<le> st_healthy_hours s'"
proof -
  obtain s1 eq s2 dd bu s3 out soft gl s4 d4 r where E:
    "managed_equity c (pf_equity (mf_portfolio f) (ps_price (mf_pool f))) s = (s1, eq)"
    "band_prefix pc b c f x eq s1 = (s2, dd)" "band_bar c f bu s2 = (s3, out)"
    "soft = band_soft b f eq s2"
    "gl = band_global f dd s2"
    "band_branch pc b c f x bu eq dd soft gl out s3 d = Inr (s4, d4)"
    "s' = eth_report_of c (guard_of pc c) f x r s4" "d' = d4\<lparr>d_state := phase_name (st_phase s')\<rparr>"
    by (rule band_evaluateE [OF assms(1)])
  from E(8) assms(3) have D: "d_lp d4 = Deploy a" by simp
  from band_branch_frame(6) [OF E(6) assms(2) D]
  have "band_entry b (guard_of pc c) c f x bu eq dd s3 d = (s4, d4)" by simp
  then show ?thesis using D assms(4)
    by (auto simp: band_entry_def band_new_episode_def E(7) eth_report_of_def Let_def split: if_splits)
qed

text \<open>
  C35: an Ethereum profile deploys only without an LP, in full, on usable observations free of the
  guard's dangers and of the basis limit, with no drawdown; once an LP was ever established, only
  after the required healthy hours.
\<close>

theorem eth_deploy_guarded:
  assumes "eth_evaluate lib c f s = Inr (s', d)" "d_lp d = Deploy a"
  shows "a = 1 \<and> st_phase s' = Active \<and> \<not> has_lp f \<and> \<not> eth_tripped lib c f s
    \<and> (\<exists>x pc. latest_feature lib (mf_candles f) (mf_now_ms f) = Inr x \<and> feature_usable c f x
         \<and> sc_eth_persistent c = Some pc \<and> eth_danger c (guard_of pc c) f x = None)
    \<and> (st_entry_history s' \<noteq> Initial \<longrightarrow> sc_resume_healthy_hours c \<le> st_healthy_hours s')"
proof -
  have h: "d_lp (hold_decision s f) = Hold" by simp
  from assms(1) show ?thesis
  proof (cases rule: eth_evaluateE)
    case (history e)
    then show ?thesis using history_exit_frame(4) assms(2) by (fastforce simp: no_deploy_def)
  next
    case (unusable x)
    then show ?thesis using assms(2) by simp
  next
    case (band x pc b)
    note F = band_evaluate_frame(5) [OF band(5) h assms(2)]
    have "\<not> eth_tripped lib c f s"
      using F by (simp add: eth_tripped_def band(1,3,4) band_config_of_def)
    then show ?thesis using F band band_deploy_hours [OF band(5) h assms(2)] by blast
  next
    case (plain x pc)
    note F = plain_evaluate_frame(5) [OF plain(5) h assms(2)]
    have "\<not> eth_tripped lib c f s"
      using F by (simp add: eth_tripped_def plain(1,3,4) band_config_of_def Let_def)
    then show ?thesis using F plain plain_deploy_hours [OF plain(5) h assms(2)] by blast
  qed
qed

text \<open>
  C21: over any sequence of evaluations, a drawdown seen on a usable observation, even one whose
  hourly history is broken, halts the profile for good: no later decision deploys or recenters.
\<close>

theorem eth_drawdown_run:
  assumes "run_frames (eth_evaluate lib c) (fs @ f # gs) s = Inr (s', ds)"
    and "run_frames (eth_evaluate lib c) fs s = Inr (s1, es)" "eth_tripped lib c f s1"
  shows "st_phase s' = Halted \<and> (\<forall>d \<in> set (drop (length es) ds). no_deploy d)"
  by (rule eth.trip_run [OF assms])

lemma eth_origin_step:
  assumes "eth_evaluate lib c f s = Inr (s', d)" "origin_of s = Some q"
  shows "origin_of s' = Some q"
proof -
  have h: "d_lp (hold_decision s f) = Hold" by simp
  from assms(1) show ?thesis
  proof (cases rule: eth_evaluateE)
    case (history e)
    then show ?thesis using history_exit_frame(5) [OF history(2)] assms(2) by auto
  next
    case (unusable x)
    then show ?thesis using assms(2) by simp
  next
    case (band x pc b)
    then show ?thesis using band_evaluate_frame(6) [OF band(5) h] assms(2) by simp
  next
    case (plain x pc)
    obtain s1 out s2 d2 r where E:
      "plain_outside c f (plain_prefix pc c f x (pf_equity (mf_portfolio f) (ps_price (mf_pool f))) s) = Inr (s1, out)"
      "plain_branch pc c f (eth_danger c (guard_of pc c) f x) out s1 (hold_decision s f) = Inr (s2, d2)"
      "s' = eth_report_of c (guard_of pc c) f x r s2" "d = d2\<lparr>d_state := phase_name (st_phase s')\<rparr>"
      by (rule plain_evaluateE [OF plain(5)])
    have "origin_of (plain_prefix pc c f x eq s) = origin_of s" for eq
      by (simp add: plain_prefix_def Let_def)
    moreover have "origin_of s1 = origin_of (plain_prefix pc c f x
        (pf_equity (mf_portfolio f) (ps_price (mf_pool f))) s)"
      using plain_outside_frame(5) [OF E(1)] by (simp add: origin_of_def)
    moreover have "origin_of s2 = origin_of s1"
      using E(2) by (auto simp: plain_branch_def plain_exit_def plain_entry_def plain_hold_def Let_def
          split: if_splits option.splits)
    ultimately show ?thesis using E(3) assms(2) by simp
  qed
qed

text \<open>
  The equity against which the band profile measures its loss is recorded once: no sequence
  of evaluations, halts, pauses or re-entries ever replaces it.
\<close>

theorem account_origin_kept:
  assumes "run_frames (eth_evaluate lib c) fs s = Inr (s', ds)" "origin_of s = Some q"
  shows "origin_of s' = Some q"
  using assms by (rule run_invariant) (rule eth_origin_step)

lemma band_sync_entered:
  "bs_entered_ms (band_of (eth_state (eth_pause_sync k c s))) = bs_entered_ms (band_of (eth_state s))
   \<or> bs_entered_ms (band_of (eth_state (eth_pause_sync k c s))) = 0"
  by (auto simp: eth_pause_sync_def band_of_def split: option.splits)

lemma band_of_updates [simp]:
  "es_band (g e) = es_band e \<Longrightarrow> band_of (g e) = band_of e"
  by (simp add: band_of_def)

lemma band_prefix_entered:
  assumes "band_prefix pc b c f x eq s = (s', dd)" "has_lp f"
  shows "bs_entered_ms (band_of (eth_state s')) = bs_entered_ms (band_of (eth_state s))
     \<and> bs_entered_ms (band_of (eth_state s)) \<noteq> 0
   \<or> bs_entered_ms (band_of (eth_state s')) = mf_now_ms f"
proof -
  have hour: "eth_state (eth_hour g x p dg t) = eth_state t" for g p dg t
    by (simp add: eth_hour_def Let_def)
  have obs: "band_of (eth_state (eth_observe c f t)) = band_of (eth_state t)" for t
    by (simp add: eth_observe_def Let_def band_of_def)
  have pk: "eth_state (eth_peak c q t) = eth_state t" for q t by (simp add: eth_peak_def)
  have ph: "eth_state (if P then t\<lparr>st_phase := Halted\<rparr> else t) = eth_state t" for P t by simp
  have ep: "bs_entered_ms (band_episode b f eq dd bs)
      = (if bs_entered_ms bs = 0 then mf_now_ms f else bs_entered_ms bs)" for dd bs
    using assms(2) by (simp add: band_episode_def Let_def)
  show ?thesis
    using assms(1) band_sync_entered [of True c "observe_lp (has_lp f) s"]
    by (auto simp: band_prefix_def Let_def hour obs pk ep ph split del: if_split split: if_split_asm)
qed

text \<open>
  The band profile recenters a range only when the LP has been held for the minimum holding
  time, counted from its first observation, and never while it has no record of that time.
\<close>

theorem band_recenter_holding:
  assumes "eth_evaluate lib c f s = Inr (s', d)" "d_lp d = Recenter ls" "band_config_of c = Some b"
    and "0 < bc_minimum_holding_hours b * hour_ms"
  shows "bs_entered_ms (band_of (eth_state s)) \<noteq> 0
    \<and> bc_minimum_holding_hours b * hour_ms \<le> sat_sub (mf_now_ms f) (bs_entered_ms (band_of (eth_state s)))"
proof -
  have h: "d_lp (hold_decision s f) = Hold" by simp
  from assms(1) show ?thesis
  proof (cases rule: eth_evaluateE)
    case (history e)
    then show ?thesis using history_exit_frame(4) assms(2) by (fastforce simp: no_deploy_def)
  next
    case (unusable x)
    then show ?thesis using assms(2) by simp
  next
    case (plain x pc)
    then show ?thesis using assms(3) by (simp add: band_config_of_def)
  next
    case (band x pc b')
    then have b: "b' = b" using assms(3) by (simp add: band_config_of_def)
    obtain s1 eq s2 dd bu s3 out soft gl s4 d4 r where E:
      "managed_equity c (pf_equity (mf_portfolio f) (ps_price (mf_pool f))) s = (s1, eq)"
      "band_prefix pc b' c f x eq s1 = (s2, dd)" "band_bar c f bu s2 = (s3, out)"
      "soft = band_soft b' f eq s2"
      "gl = band_global f dd s2"
      "band_branch pc b' c f x bu eq dd soft gl out s3 (hold_decision s f) = Inr (s4, d4)"
      "s' = eth_report_of c (guard_of pc c) f x r s4" "d = d4\<lparr>d_state := phase_name (st_phase s')\<rparr>"
      by (rule band_evaluateE [OF band(5)])
    have "d_lp d4 = Recenter ls" using E(8) assms(2) by simp
    note R = band_branch_frame(7) [OF E(6) h this]
    have lp: "has_lp f" using R E(3) by (auto simp: band_bar_def split: if_splits)
    have e3: "bs_entered_ms (band_of (eth_state s3)) = bs_entered_ms (band_of (eth_state s2))"
      using band_bar_frame [OF E(3)] by simp
    have e1: "bs_entered_ms (band_of (eth_state s1)) = bs_entered_ms (band_of (eth_state s))"
      using E(1) by (auto simp: managed_equity_def Let_def)
    have "sat_sub (mf_now_ms f) (mf_now_ms f) = 0" by (simp add: sat_sub_def)
    then have "bs_entered_ms (band_of (eth_state s3)) \<noteq> mf_now_ms f"
      using R assms(4) by (auto simp: b)
    then show ?thesis using band_prefix_entered [OF E(2) lp] R e1 e3 by (auto simp: b)
  qed
qed

text \<open>
  The hedge a band orders never exceeds the collateral rule: at most 2.55 times the hedge
  equity, clamped to 60 dollars, at the pool price; and an order is placed only when it moves the
  short by at least the dead band.
\<close>

theorem band_hedge_bounded:
  assumes "band_hedge pc b c f s d = Inr (s', d')"
    and "d_target_short_base d' \<noteq> d_target_short_base d"
    and "\<not> is_nan (pf_hedge_equity (mf_portfolio f))"
  shows "\<exists>h. 0 \<le> h \<and> h \<le> lit 60
    \<and> (\<not> is_nan (h * lit 2.55 / ps_price (mf_pool f)) \<longrightarrow>
         d_target_short_base d' \<le> h * lit 2.55 / ps_price (mf_pool f))
    \<and> sc_hedge_deadband_usd c
        \<le> \<bar>d_target_short_base d' - pf_short_base (mf_portfolio f)\<bar> * ps_price (mf_pool f)"
proof -
  from band_hedge_frame(6) [OF assms(1)] assms(2)
  have T: "band_target b (mf_portfolio f) (ps_price (mf_pool f)) = Inr (d_target_short_base d')"
    "sc_hedge_deadband_usd c
      \<le> \<bar>d_target_short_base d' - pf_short_base (mf_portfolio f)\<bar> * ps_price (mf_pool f)"
    by auto
  from T(1) obtain h t where H: "f_clamp (pf_hedge_equity (mf_portfolio f)) 0 (lit 60) = Inr h"
    "d_target_short_base d' = f_min t (h * lit 2.55 / ps_price (mf_pool f))"
    unfolding band_target_def Let_def rbind_eq_Inr sum.inject by metis
  show ?thesis
    by (rule exI [of _ h]) (use f_clamp_range [OF H(1) assms(3)] f_min_le(2) T(2) H(2) in auto)
qed

lemma latest_feature_no_panic: "latest_feature lib cs now \<noteq> Inl e \<or> (\<exists>m. e = Bail m)"
proof -
  have "features lib a \<noteq> []" if "length a = 73" for a using that by (simp add: features_def)
  then show ?thesis
    by (auto simp: latest_feature_def Let_def rbind_def ensure_def length_last_n
        split: sum.splits if_splits list.splits)
qed

lemma band_target_total: "\<exists>t. band_target b pf p = Inr t"
proof -
  have "(0::f64) \<le> lit 60" using lit_mono [of 0 60] by (simp add: zero_f64_def)
  then show ?thesis by (simp add: band_target_def f_clamp_def Let_def)
qed

lemma eval_feature_total:
  assumes "sc_eth_persistent c = Some pc"
    and "sc_decision_bar_seconds c \<noteq> 0" "sc_decision_bar_seconds c * 1000 \<noteq> 0"
  shows "\<exists>s' d. evaluate_feature c f x s = Inr (s', d)"
proof -
  have U: "udiv w (sc_decision_bar_seconds c) = Inr (w div sc_decision_bar_seconds c)"
    "udiv w (sc_decision_bar_seconds c * 1000) = Inr (w div (sc_decision_bar_seconds c * 1000))" for w
    using assms(2,3) by (simp_all add: udiv_def)
  have P: "\<exists>r. plain_branch pc c f dg out s1 d = Inr r" for dg out s1 d
    by (simp add: plain_branch_def plain_entry_def U Let_def)
  have "\<exists>r. plain_outside c f s1 = Inr r" for s1
    by (auto simp: plain_outside_def U)
  then have plain: "\<exists>r. plain_evaluate pc c f x eq s1 d = Inr r" for x eq s1 d
    using P by (fastforce simp: plain_evaluate_def Let_def)
  have H: "\<exists>r. band_hedge pc b c f s1 d = Inr r" for b s1 d
  proof -
    obtain t where "band_target b (mf_portfolio f) (ps_price (mf_pool f)) = Inr t"
      using band_target_total by blast
    then show ?thesis by (simp add: band_hedge_def Let_def)
  qed
  have B: "\<exists>r. band_branch pc b c f x bu eq dd so gl out s1 d = Inr r" for b x bu eq dd so gl out s1 d
    using H by (simp add: band_branch_def band_hold_def Let_def)
  have band: "\<exists>r. band_evaluate pc b c f x s1 d = Inr r" for b x s1 d
    using B by (fastforce simp: band_evaluate_def band_after_def band_finish_def U Let_def split_def)
  show ?thesis
    using plain band assms(1) by (auto simp: evaluate_feature_def Let_def split: option.splits)
qed

text \<open>
  C36: With a profile configured whose bar length in milliseconds does not wrap to zero in 64 bits, every
  frame gets a decision. The condition is needed: validation accepts multiples of 2 to the power 61 seconds, for
  which the profile divides by zero.
\<close>

theorem eth_evaluate_total:
  assumes "sc_eth_persistent c = Some pc"
    and "sc_decision_bar_seconds c * 1000 \<noteq> 0"
  shows "\<exists>s' d. eth_evaluate lib c f s = Inr (s', d)"
proof -
  have bar: "sc_decision_bar_seconds c \<noteq> 0" using assms(2) by auto
  have "\<exists>r. eth_evaluate lib c f s = Inr r"
    using eval_feature_total [OF assms(1) bar assms(2), of f _ s]
      latest_feature_no_panic [of lib "mf_candles f" "mf_now_ms f"]
    by (auto simp: eth_evaluate_def split: sum.splits err.splits)
  then show ?thesis by auto
qed

end
