(* ===== verification/Samples.thy ===== *)
theory Samples
  imports Strategy_Props
begin

text \<open>
  Concrete inputs on which the properties are instantiated: a validated strategy configuration,
  a day of flat hourly candles, and frames around them. All values are dyadic, so every float
  operation on them is exact.
\<close>

definition lib0 :: libm where
  "lib0 = \<lparr>ln_fn = (\<lambda>_. 0), ln_1p_fn = (\<lambda>_. 0), powi_fn = (\<lambda>_ _. 0)\<rparr>"

definition cfg0 :: strategy_config where
  "cfg0 = \<lparr>sc_eth_persistent = None, sc_total_capital = Fin 1000, sc_lp_budget = Fin 600,
     sc_hedge_collateral = Fin 250, sc_reserve = Fin 100, sc_inside_hedge_ratio = Fin (1/2),
     sc_hedge_deadband_usd = Fin 5, sc_max_drawdown = Fin (1/16), sc_max_basis_bps = Fin 100,
     sc_max_data_age_seconds = 60, sc_fast_drop_1h = Fin (1/64), sc_vol_short_hours = 2,
     sc_vol_long_hours = 3, sc_vol_pause_ratio = Fin 2, sc_vol_resume_ratio = Fin 1,
     sc_ema_fast_hours = 3, sc_ema_slow_hours = 7, sc_resume_healthy_hours = 2,
     sc_cooldown_hours = 6, sc_recovery_fraction = Fin (1/4), sc_recovery_step_hours = 4,
     sc_breakout_buffer = Fin (1/128), sc_breakout_confirm_bars = 2, sc_decision_bar_seconds = 900,
     sc_hedge_release_buffer = Fin (1/256),
     sc_layers = [\<lparr>lc_name = ''core'', lc_weight = 1, lc_half_width = Fin (1/16)\<rparr>]\<rparr>"

definition candles0 :: "nat \<Rightarrow> candle list" where
  "candles0 n = map (\<lambda>i. \<lparr>ca_open_ms = of_nat i * 3600000, ca_close_ms = of_nat i * 3600000 + 3599999,
     ca_open = Fin 1, ca_high = Fin 1, ca_low = Fin 1, ca_close = Fin 1\<rparr>) [0..<n]"

definition pool0 :: "u64 \<Rightarrow> f64 \<Rightarrow> pool_snapshot" where
  "pool0 t p = \<lparr>ps_block = 1, ps_block_hash = [], ps_time_ms = t, ps_price = p, ps_tick = 0,
     ps_tick_spacing = 1, ps_liquidity = [], ps_sqrt_price_x96 = [], ps_base_is_token0 = True\<rparr>"

definition flat0 :: "f64 \<Rightarrow> portfolio" where
  "flat0 cash = \<lparr>pf_positions = [], pf_wallet_base = 0, pf_wallet_quote = cash, pf_short_base = 0,
     pf_hedge_equity = Fin 250, pf_reserve = Fin 100\<rparr>"

definition frame0 :: "portfolio \<Rightarrow> market_frame" where
  "frame0 pf = \<lparr>mf_now_ms = 75600000, mf_pool = pool0 75600000 (Fin 1), mf_hedge_price = Fin 1,
     mf_hedge_time_ms = 75600000, mf_candles = candles0 21, mf_portfolio = pf\<rparr>"

definition metrics0 :: metrics where
  "metrics0 = \<lparr>me_return_1h = 0, me_vol_ratio = 0, me_recent_vol = 0, me_baseline_vol = 0,
     me_downtrend = False, me_no_new_low = True, me_ema_fast = Fin 1, me_last_close = Fin 1,
     me_last_close_ms = 75599999\<rparr>"

lemma cfg0_sane: "strategy_sane cfg0"
  by code_simp

section \<open>Indicators of the flat day\<close>

lemma ema_flat:
  assumes "a * x + (1 - a) * x = x" shows "ema_loop a (replicate n x) x x = (x, x)"
  by (induction n) (simp_all add: assms)

lemma ema_flat0:
  "ema (replicate 21 (Fin 1)) 3 = Inr (Fin 1, Fin 1)" "ema (replicate 21 (Fin 1)) 7 = Inr (Fin 1, Fin 1)"
proof -
  have 1: "lit 2 / (f_of_nat 3 + 1) = Fin (1/2)" "lit 2 / (f_of_nat 7 + 1) = Fin (1/4)"
    by code_simp+
  have 2: "Fin (1/2) * Fin 1 + (1 - Fin (1/2)) * Fin 1 = Fin 1"
    "Fin (1/4) * Fin 1 + (1 - Fin (1/4)) * Fin 1 = Fin 1"
    by code_simp+
  have r: "replicate 21 (Fin 1) = Fin 1 # replicate 20 (Fin 1)" by (simp add: eval_nat_numeral)
  show "ema (replicate 21 (Fin 1)) 3 = Inr (Fin 1, Fin 1)" "ema (replicate 21 (Fin 1)) 7 = Inr (Fin 1, Fin 1)"
    unfolding ema_def r list.case Let_def 1 by (simp_all only: ema_flat [OF 2(1)] ema_flat [OF 2(2)])
qed

lemma select0: "select_rows (candles0 21) cfg0 75600000 = Inr (candles0 21)"
  by code_simp

lemma rows0:
  "length (candles0 21) = 21" "map ca_close (candles0 21) = replicate 21 (Fin 1)"
  "ca_close (last (candles0 21)) = Fin 1" "ca_low (last (candles0 21)) = Fin 1"
  "ca_close_ms (last (candles0 21)) = 75599999"
  by code_simp+

lemma returns0:
  "map (\<lambda>(a, b). ln_fn lib0 (b / a)) (pairs (replicate 21 (Fin 1))) = replicate 20 (Fin 0)"
  by code_simp

lemma measure0: "measure_rows lib0 (candles0 21) cfg0 = Inr metrics0"
proof -
  have c: "sc_vol_short_hours cfg0 = 2" "sc_vol_long_hours cfg0 = 3" "sc_ema_fast_hours cfg0 = 3"
    "sc_ema_slow_hours cfg0 = 7" "lookback_of cfg0 21 = 2"
    by (simp_all add: cfg0_def lookback_of_def)
  have s: "stddev lib0 (replicate 3 (Fin 0)) = 0" "stddev lib0 (replicate 2 (Fin 0)) = 0"
    "0 / f_max 0 (lit (1 / 1000000)) = 0"
    by code_simp+
  have o: "Fin 1 / Fin 1 - 1 = 0"
    "foldl f_min (Infinite False) (map ca_low (take 2 (drop 18 (candles0 21)))) \<le> Fin 1"
    "\<not> (Fin 1 < Fin 1)"
    by code_simp+
  show ?thesis
    unfolding measure_rows_def Let_def rows0 returns0 c length_replicate
    by (simp add: s o ema_flat0 metrics0_def)
qed

lemma calculate0: "calculate lib0 (candles0 21) cfg0 75600000 = Inr metrics0"
  by (simp add: calculate_def select0 measure0)

section \<open>Evaluations of the flat day\<close>

text \<open>The rest of an evaluation once the indicators are known.\<close>

definition with_metrics ::
    "strategy_config \<Rightarrow> market_frame \<Rightarrow> bool \<Rightarrow> metrics \<Rightarrow> strategy \<Rightarrow> (strategy \<times> decision) res" where
  "with_metrics c f k m s0 =
     (case drawdown_step c f (enter_frame f s0) (hold_decision (enter_frame f s0) f) of (s, d) \<Rightarrow>
        if st_phase s = Halted then Inr (s, (exit_decision f d)\<lparr>d_state := ''Halted''\<rparr>)
        else case market_stage c f k m s d of (returned, s, d) \<Rightarrow>
          if returned then Inr (s, d) else range_step c f s d)"

lemma evaluate_with_metrics:
  assumes "usable c f" "calculate lib (mf_candles f) c (mf_now_ms f) = Inr m"
  shows "evaluate_inner lib c f k s = with_metrics c f k m s"
  using assms by (simp add: evaluate_inner_def with_metrics_def usable_def Let_def split: prod.splits)

lemma evaluate0:
  "usable cfg0 (frame0 pf) \<Longrightarrow> evaluate_inner lib0 cfg0 (frame0 pf) k s = with_metrics cfg0 (frame0 pf) k metrics0 s"
  by (rule evaluate_with_metrics) (simp_all add: frame0_def calculate0)

definition paused0 :: strategy where
  "paused0 = strategy_default\<lparr>st_entry_history := Established, st_phase := Paused,
     st_healthy_hours := 3, st_last_hour := 75599999\<rparr>"

definition position0 :: lp_position where
  "position0 = \<lparr>lp_layer = ''core'', lp_token_id = Some ''1'', lp_lower = Fin 2, lp_upper = Fin 4,
     lp_liquidity = Fin 1, lp_raw_liquidity = ''1'', lp_unclaimed_base = 0, lp_unclaimed_quote = 0,
     lp_base = Fin 300, lp_quote = 0\<rparr>"

definition active0 :: strategy where
  "active0 = strategy_default\<lparr>st_entry_history := Established, st_phase := Active, st_fraction := 1,
     st_layers := [''core'' \<mapsto> \<lparr>ls_protected = False, ls_outside_side = -1, ls_outside_count = 1\<rparr>]\<rparr>"

definition gapped0 :: strategy where
  "gapped0 = paused0\<lparr>st_recovery_progress := progress_default\<lparr>pr_observed_ms := 75500000,
     pr_pending_revalidation := True,
     pr_anchor := Some (candles0 21 ! 20)\<rparr>\<rparr>"

lemma usable0:
  "usable cfg0 (frame0 (flat0 (Fin 650)))" "usable cfg0 (frame0 (flat0 (Fin 550)))"
  "usable cfg0 (frame0 ((flat0 (Fin 650))\<lparr>pf_positions := [position0]\<rparr>))"
  by code_simp+

lemma deploy0:
  "\<exists>s d. evaluate_inner lib0 cfg0 (frame0 (flat0 (Fin 650))) True strategy_default = Inr (s, d)
     \<and> d_lp d = Deploy 1"
proof -
  have "case with_metrics cfg0 (frame0 (flat0 (Fin 650))) True metrics0 strategy_default of
      Inl e \<Rightarrow> False | Inr (s, d) \<Rightarrow> d_lp d = Deploy 1" by code_simp
  then show ?thesis unfolding evaluate0 [OF usable0(1)] by (auto split: sum.splits prod.splits)
qed

lemma resume0:
  "\<exists>s d. evaluate_inner lib0 cfg0 (frame0 (flat0 (Fin 650))) True gapped0 = Inr (s, d)
     \<and> d_lp d = Deploy (Fin (1/4)) \<and> st_healthy_hours s = 3 \<and> st_phase s \<noteq> Halted"
proof -
  have "case with_metrics cfg0 (frame0 (flat0 (Fin 650))) True metrics0 gapped0 of
      Inl e \<Rightarrow> False | Inr (s, d) \<Rightarrow> d_lp d = Deploy (Fin (1/4)) \<and> st_healthy_hours s = 3 \<and> st_phase s \<noteq> Halted" by code_simp
  then show ?thesis unfolding evaluate0 [OF usable0(1)] by (auto split: sum.splits prod.splits)
qed

lemma recenter0:
  "\<exists>s d. evaluate_inner lib0 cfg0 (frame0 ((flat0 (Fin 650))\<lparr>pf_positions := [position0]\<rparr>)) False active0
     = Inr (s, d) \<and> d_lp d = Recenter [''core'']"
proof -
  have "case with_metrics cfg0 (frame0 ((flat0 (Fin 650))\<lparr>pf_positions := [position0]\<rparr>)) False metrics0 active0 of
      Inl e \<Rightarrow> False | Inr (s, d) \<Rightarrow> d_lp d = Recenter [''core'']" by code_simp
  then show ?thesis unfolding evaluate0 [OF usable0(3)] by (auto split: sum.splits prod.splits)
qed

lemma drawdown0: "drawdown_hit cfg0 (frame0 (flat0 (Fin 550))) strategy_default"
  by code_simp


section \<open>The strategy's properties on these inputs\<close>

abbreviation "flat_frame \<equiv> frame0 (flat0 (Fin 650))"
abbreviation "loss_frame \<equiv> frame0 (flat0 (Fin 550))"
abbreviation "range_frame \<equiv> frame0 ((flat0 (Fin 650))\<lparr>pf_positions := [position0]\<rparr>)"

theorem deploy_guarded_witness:
  "\<exists>s d. evaluate_inner lib0 cfg0 flat_frame True strategy_default = Inr (s, d)
     \<and> d_lp d = Deploy 1 \<and> st_fraction s = 1 \<and> \<not> drawdown_hit cfg0 flat_frame strategy_default"
proof -
  obtain s d where E: "evaluate_inner lib0 cfg0 flat_frame True strategy_default = Inr (s, d)"
    "d_lp d = Deploy 1" using deploy0 by blast
  show ?thesis using deploy_guarded [OF E] E by auto
qed

theorem resume_guarded_witness:
  "\<exists>s d. evaluate_inner lib0 cfg0 flat_frame True gapped0 = Inr (s, d)
     \<and> st_phase s = Recovering \<and> sc_resume_healthy_hours cfg0 \<le> st_healthy_hours s"
proof -
  obtain s d where E: "evaluate_inner lib0 cfg0 flat_frame True gapped0 = Inr (s, d)"
    "d_lp d = Deploy (Fin (1/4))" using resume0 by blast
  have "st_phase gapped0 = Paused" "st_entry_history gapped0 \<noteq> Initial"
    by (simp_all add: gapped0_def paused0_def)
  then show ?thesis using resume_guarded [OF E] E by blast
qed

theorem fraction_invariant_witness:
  "\<exists>s d. evaluate_inner lib0 cfg0 flat_frame True strategy_default = Inr (s, d)
     \<and> d_lp d = Deploy 1 \<and> fraction_ok (st_fraction s)"
proof -
  obtain s d where E: "evaluate_inner lib0 cfg0 flat_frame True strategy_default = Inr (s, d)"
    "d_lp d = Deploy 1" using deploy0 by blast
  have "fraction_ok (st_fraction strategy_default)" by (simp add: strategy_default_def)
  then show ?thesis using fraction_invariant [OF E(1) cfg0_sane] E by auto
qed

theorem evaluate_total_witness:
  "\<exists>s d. evaluate_inner lib0 cfg0 flat_frame False strategy_default = Inr (s, d)"
  by (rule evaluate_total [OF cfg0_sane]) (simp add: cfg0_def)

theorem recenter_outside_witness:
  "breakout_side cfg0 (ps_price (mf_pool range_frame)) position0 \<noteq> 0"
proof -
  obtain s d where E: "evaluate_inner lib0 cfg0 range_frame False active0 = Inr (s, d)"
    "d_lp d = Recenter [''core'']" using recenter0 by blast
  show ?thesis using recenter_outside [OF E cfg0_sane] by (simp add: frame0_def)
qed

lemma range0:
  "\<exists>s d. range_step cfg0 range_frame active0 (hold_decision active0 range_frame) = Inr (s, d)"
  by (simp add: range_step_def udiv_def cfg0_def split_def Let_def)

theorem range_hedge_target_witness:
  "\<exists>s d. range_step cfg0 range_frame active0 (hold_decision active0 range_frame) = Inr (s, d)
     \<and> ls_protected (layer_of (st_layers s) ''core'')
     \<and> d_target_short_base d = Fin 300"
proof -
  obtain s d where E: "range_step cfg0 range_frame active0 (hold_decision active0 range_frame) = Inr (s, d)"
    using range0 by blast
  have D: "distinct (map lp_layer (pf_positions (mf_portfolio range_frame)))" by code_simp
  have P: "pf_positions (mf_portfolio range_frame) = [position0]" "lp_layer position0 = ''core''"
    by (simp_all add: frame0_def position0_def)
  have "protect_next cfg0 (ps_price (mf_pool range_frame)) position0
      (ls_protected (layer_of (st_layers active0) ''core''))"
    "f_max (foldl (\<lambda>t pos. t + lp_base pos
          * hedge_weight cfg0 (ps_price (mf_pool range_frame)) (st_layers active0) pos)
        (pf_wallet_base (mf_portfolio range_frame)) [position0]) 0 = Fin 300"
    by code_simp+
  then show ?thesis using range_hedge_target [OF E D] E unfolding P by (auto simp: P)
qed

theorem gap_progress_witness:
  "gap_evidence flat_frame (st_recovery_progress gapped0)"
proof -
  obtain s d where E: "evaluate_inner lib0 cfg0 flat_frame True gapped0 = Inr (s, d)"
    "st_healthy_hours s = 3" "st_phase s \<noteq> Halted" using resume0 by blast
  have "calculate lib0 (mf_candles flat_frame) cfg0 (mf_now_ms flat_frame) = Inr metrics0"
    by (simp add: frame0_def calculate0)
  moreover have "pr_pending_revalidation (st_recovery_progress gapped0)" by (simp add: gapped0_def)
  moreover have "1 < st_healthy_hours s" by (simp add: E(2))
  ultimately show ?thesis using gap_progress [OF E(1)] usable0(1) E(3) by blast
qed

lemma loss0:
  "\<exists>s ds. run_frames (\<lambda>f. evaluate_inner lib0 cfg0 f True) ([] @ loss_frame # [loss_frame]) strategy_default = Inr (s, ds)"
proof -
  have "\<exists>s' d. evaluate_inner lib0 cfg0 loss_frame True s = Inr (s', d)" for s
    by (rule evaluate_total [OF cfg0_sane]) (simp add: cfg0_def)
  then show ?thesis by (simp add: rbind_def split: sum.splits prod.splits) (metis Inr_Inl_False)
qed

theorem drawdown_run_witness:
  "\<exists>s ds. run_frames (\<lambda>f. evaluate_inner lib0 cfg0 f True) ([] @ loss_frame # [loss_frame]) strategy_default = Inr (s, ds)
     \<and> st_phase s = Halted \<and> (\<forall>d \<in> set ds. no_deploy d)"
proof -
  obtain s ds where E:
    "run_frames (\<lambda>f. evaluate_inner lib0 cfg0 f True) ([] @ loss_frame # [loss_frame]) strategy_default = Inr (s, ds)"
    using loss0 by blast
  show ?thesis using drawdown_run [OF E _ usable0(2) drawdown0, of "[]"] E by auto
qed

theorem run_monotone_witness:
  "\<exists>s ds. run_frames (\<lambda>f. evaluate_inner lib0 cfg0 f True) ([] @ loss_frame # [loss_frame]) strategy_default = Inr (s, ds)
     \<and> 0 \<le> st_peak_equity s"
proof -
  obtain s ds where E:
    "run_frames (\<lambda>f. evaluate_inner lib0 cfg0 f True) ([] @ loss_frame # [loss_frame]) strategy_default = Inr (s, ds)"
    using loss0 by blast
  show ?thesis using run_monotone [OF E] E
    by (auto simp: strategy_default_def zero_f64_def)
qed

end
