(* ===== verification/Eth_Samples.thy ===== *)
theory Eth_Samples
  imports Eth_Facts Samples
begin

text \<open>Concrete inputs of the Ethereum profiles and the instances of their properties.\<close>

definition band0 :: band_config where
  "band0 = \<lparr>bc_lower_width = Fin (1/32), bc_upper_width = Fin (1/16), bc_net_lower_usd = 0,
     bc_net_upper_usd = Fin 50, bc_minimum_holding_hours = 2, bc_roll_delay_seconds = 60,
     bc_episode_drawdown = Fin (1/64), bc_pause_drawdown = Fin (1/64),
     bc_reentry_loss_budget = Fin (1/128)\<rparr>"

definition plain0 :: persistent_config where
  "plain0 = \<lparr>pc_band = None, pc_drop_24h = Fin (1/16), pc_drop_72h = Fin (1/8),
     pc_max_hourly_vol = Fin (1/64), pc_hedge_interval_hours = 4\<rparr>"

definition eth_cfg :: "band_config option \<Rightarrow> strategy_config" where
  "eth_cfg b = cfg0\<lparr>sc_eth_persistent := Some (plain0\<lparr>pc_band := b\<rparr>)\<rparr>"

definition eth_frame :: "portfolio \<Rightarrow> market_frame" where
  "eth_frame pf = \<lparr>mf_now_ms = 262800000, mf_pool = pool0 262800000 (Fin 1), mf_hedge_price = Fin 1,
     mf_hedge_time_ms = 262800000, mf_candles = candles0 73, mf_portfolio = pf\<rparr>"

definition feature0 :: feature where
  "feature0 = \<lparr>fe_time = 262799999, fe_close = Fin 1, fe_r1 = 0, fe_r6 = 0, fe_r24 = 0, fe_r72 = 0,
     fe_vol6 = 0\<rparr>"

lemma feature_flat: "latest_feature lib0 (candles0 73) 262800000 = Inr feature0"
  by code_simp

definition band_active :: strategy where
  "band_active = strategy_default\<lparr>st_entry_history := Established, st_phase := Active,
     st_layers := [''core'' \<mapsto> \<lparr>ls_protected = False, ls_outside_side = -1, ls_outside_count = 1\<rparr>],
     st_eth_persistent := Some (persistent_state_default\<lparr>es_band := Some (band_state_default\<lparr>
        bs_account_origin_equity := Some (Fin 1300), bs_risk_equity := Fin 1000, bs_entered_ms := 3600000,
        bs_episode_peak := Fin 1000\<rparr>)\<rparr>)\<rparr>"

abbreviation "eth_flat \<equiv> eth_frame (flat0 (Fin 650))"
abbreviation "eth_loss \<equiv> eth_frame (flat0 (Fin 550))"
abbreviation "eth_held \<equiv> eth_frame ((flat0 (Fin 650))\<lparr>pf_positions := [position0]\<rparr>)"

lemma eth_evaluate_flat: "eth_evaluate lib0 c (eth_frame pf) s = evaluate_feature c (eth_frame pf) feature0 s"
  by (simp add: eth_evaluate_def eth_frame_def feature_flat)

lemma eth_cfg_simps:
  "sc_eth_persistent (eth_cfg b) = Some (plain0\<lparr>pc_band := b\<rparr>)" "sc_decision_bar_seconds (eth_cfg b) = 900"
  by (simp_all add: eth_cfg_def cfg0_def)

lemma eth_deploy0:
  "\<exists>s d. eth_evaluate lib0 (eth_cfg None) eth_flat strategy_default = Inr (s, d) \<and> d_lp d = Deploy 1"
proof -
  have "case evaluate_feature (eth_cfg None) eth_flat feature0 strategy_default of
      Inl e \<Rightarrow> False | Inr (s, d) \<Rightarrow> d_lp d = Deploy 1" by code_simp
  then show ?thesis unfolding eth_evaluate_flat by (auto split: sum.splits prod.splits)
qed

lemma eth_recenter0:
  "\<exists>s d. eth_evaluate lib0 (eth_cfg (Some band0)) eth_held band_active = Inr (s, d)
     \<and> d_lp d = Recenter [''core'']"
proof -
  have raw: "pf_equity (mf_portfolio eth_held) (ps_price (mf_pool eth_held)) = Fin 1300"
    "sc_total_capital (eth_cfg (Some band0)) + Fin 1300 - Fin 1300 = Fin 1000"
    "feature_usable (eth_cfg (Some band0)) eth_held feature0"
    by code_simp+
  have m: "managed_equity (eth_cfg (Some band0)) (Fin 1300) band_active = (band_active, Fin 1000)"
    by (simp add: managed_equity_def Let_def raw(2) band_active_def eth_state_def band_of_def upd_band_def upd_eth_def
        persistent_state_default_def strategy_default_def band_state_default_def)
  have "case case band_prefix (plain0\<lparr>pc_band := Some band0\<rparr>) band0 (eth_cfg (Some band0)) eth_held feature0 (Fin 1000) band_active
      of (s, dd) \<Rightarrow> rbind (udiv (mf_now_ms eth_held) (sc_decision_bar_seconds (eth_cfg (Some band0)) * 1000))
        (band_after (plain0\<lparr>pc_band := Some band0\<rparr>) band0 (eth_cfg (Some band0)) eth_held feature0 (Fin 1000) dd
          (band_soft band0 eth_held (Fin 1000) s) (band_global eth_held dd s) s (hold_decision band_active eth_held)) of
      Inl e \<Rightarrow> False | Inr (s, d) \<Rightarrow> d_lp d = Recenter [''core'']" by code_simp
  then have "case evaluate_feature (eth_cfg (Some band0)) eth_held feature0 band_active of
      Inl e \<Rightarrow> False | Inr (s, d) \<Rightarrow> d_lp d = Recenter [''core'']"
    by (simp add: evaluate_feature_def eth_cfg_simps raw band_evaluate_def m)
  then show ?thesis unfolding eth_evaluate_flat by (auto split: sum.splits prod.splits)
qed

lemma eth_hedge0:
  "\<exists>s d. band_hedge plain0 band0 (eth_cfg (Some band0)) eth_held band_active (hold_decision band_active eth_held)
     = Inr (s, d) \<and> d_target_short_base d \<noteq> d_target_short_base (hold_decision band_active eth_held)"
proof -
  have "case band_hedge plain0 band0 (eth_cfg (Some band0)) eth_held band_active (hold_decision band_active eth_held) of
      Inl e \<Rightarrow> False | Inr (s, d) \<Rightarrow> d_target_short_base d \<noteq> 0" by code_simp
  moreover have "d_target_short_base (hold_decision band_active eth_held) = 0" by code_simp
  ultimately show ?thesis by (auto split: sum.splits prod.splits)
qed

lemma eth_tripped0: "eth_tripped lib0 (eth_cfg None) eth_loss strategy_default"
proof -
  have "feature_usable (eth_cfg None) eth_loss feature0"
    "pf_equity (mf_portfolio eth_loss) (ps_price (mf_pool eth_loss))
      \<le> peak_with (eth_cfg None) (pf_equity (mf_portfolio eth_loss) (ps_price (mf_pool eth_loss))) strategy_default
         * (1 - sc_max_drawdown (eth_cfg None))" "band_config_of (eth_cfg None) = None"
    by code_simp+
  then show ?thesis by (simp add: eth_tripped_def eth_frame_def feature_flat Let_def)
qed

theorem eth_deploy_guarded_witness:
  "\<exists>s d. eth_evaluate lib0 (eth_cfg None) eth_flat strategy_default = Inr (s, d) \<and> st_phase s = Active
     \<and> \<not> eth_tripped lib0 (eth_cfg None) eth_flat strategy_default"
proof -
  obtain s d where E: "eth_evaluate lib0 (eth_cfg None) eth_flat strategy_default = Inr (s, d)"
    "d_lp d = Deploy 1" using eth_deploy0 by blast
  show ?thesis using eth_deploy_guarded [OF E] E by blast
qed

theorem eth_evaluate_total_witness:
  "\<exists>s d. eth_evaluate lib0 (eth_cfg None) eth_flat strategy_default = Inr (s, d)"
  by (rule eth_evaluate_total [OF eth_cfg_simps(1)]) (simp_all add: eth_cfg_simps)

lemma eth_run0:
  "\<exists>s ds. run_frames (eth_evaluate lib0 (eth_cfg b)) [f, g] s0 = Inr (s, ds)"
proof -
  have U: "udiv w 900 = Inr (w div 900)" "udiv w (900 * 1000) = Inr (w div 900000)" for w :: u64
    by (simp_all add: udiv_def)
  have T: "\<exists>s' d. eth_evaluate lib0 (eth_cfg b) h s = Inr (s', d)" for h s
  proof (cases "latest_feature lib0 (mf_candles h) (mf_now_ms h)")
    case (Inl e)
    then show ?thesis using latest_feature_no_panic [of lib0 "mf_candles h" "mf_now_ms h" e]
      by (cases "history_exit (case e of Bail m \<Rightarrow> m) (eth_cfg b) h s") (auto simp: eth_evaluate_def)
  next
    case (Inr x)
    then show ?thesis by (simp add: eth_evaluate_def eval_feature_total [OF eth_cfg_simps(1)] eth_cfg_simps)
  qed
  then show ?thesis by (simp add: rbind_def split: sum.splits prod.splits) (metis Inr_Inl_False)
qed

theorem eth_drawdown_run_witness:
  "\<exists>s ds. run_frames (eth_evaluate lib0 (eth_cfg None)) ([] @ eth_loss # [eth_flat]) strategy_default = Inr (s, ds)
     \<and> st_phase s = Halted \<and> (\<forall>d \<in> set ds. no_deploy d)"
proof -
  obtain s ds where E: "run_frames (eth_evaluate lib0 (eth_cfg None)) ([] @ eth_loss # [eth_flat]) strategy_default
      = Inr (s, ds)" using eth_run0 by fastforce
  show ?thesis using eth_drawdown_run [OF E _ eth_tripped0, of "[]"] E by auto
qed

theorem account_origin_kept_witness:
  "\<exists>s ds. run_frames (eth_evaluate lib0 (eth_cfg (Some band0))) [eth_held, eth_loss] band_active = Inr (s, ds)
     \<and> origin_of s = Some (Fin 1300)"
proof -
  obtain s ds where E: "run_frames (eth_evaluate lib0 (eth_cfg (Some band0))) [eth_held, eth_loss] band_active
      = Inr (s, ds)" using eth_run0 by fastforce
  have "origin_of band_active = Some (Fin 1300)"
    by (simp add: origin_of_def band_active_def eth_state_def band_of_def)
  from account_origin_kept [OF E this] E show ?thesis by blast
qed

theorem band_recenter_holding_witness:
  "bc_minimum_holding_hours band0 * hour_ms
     \<le> sat_sub (mf_now_ms eth_held) (bs_entered_ms (band_of (eth_state band_active)))"
proof -
  obtain s d where E: "eth_evaluate lib0 (eth_cfg (Some band0)) eth_held band_active = Inr (s, d)"
    "d_lp d = Recenter [''core'']" using eth_recenter0 by blast
  show ?thesis
    using band_recenter_holding [OF E, of band0]
    by (simp add: band_config_of_def eth_cfg_simps band0_def hour_ms_def)
qed

theorem band_hedge_bounded_witness:
  "\<exists>s d. band_hedge plain0 band0 (eth_cfg (Some band0)) eth_held band_active (hold_decision band_active eth_held)
     = Inr (s, d) \<and> sc_hedge_deadband_usd (eth_cfg (Some band0))
        \<le> \<bar>d_target_short_base d - pf_short_base (mf_portfolio eth_held)\<bar> * ps_price (mf_pool eth_held)"
proof -
  obtain s d where E: "band_hedge plain0 band0 (eth_cfg (Some band0)) eth_held band_active
      (hold_decision band_active eth_held) = Inr (s, d)"
    "d_target_short_base d \<noteq> d_target_short_base (hold_decision band_active eth_held)"
    using eth_hedge0 by blast
  have "\<not> is_nan (pf_hedge_equity (mf_portfolio eth_held))" by (simp add: eth_frame_def flat0_def)
  from band_hedge_bounded [OF E this] E show ?thesis by blast
qed

end
