(* ===== verification/V3_Math.thy ===== *)
theory V3_Math
  imports Domain
begin

text \<open>
  Exact Uniswap V3 arithmetic (\<open>src/liquidity/uniswap_v3/slippage.rs\<close>): TickMath, price bounds,
  liquidity and amounts with 512-bit intermediates, and the minimum amounts sent with a mint or a
  burn. \<open>U256\<close> and \<open>U512\<close> are 256- and 512-bit words with \<open>alloy\<close>'s semantics: \<open>+ - *\<close> wrap,
  division by zero panics, \<open>root(2)\<close> is the integer square root.
\<close>

section \<open>Ticks\<close>

definition min_tick :: int where "min_tick = - 887272"
definition max_tick :: int where "max_tick = 887272"

definition tick_factors :: "u256 list" where
  "tick_factors =
     [0xfffcb933bd6fad37aa2d162d1a594001, 0xfff97272373d413259a46990580e213a,
      0xfff2e50f5f656932ef12357cf3c7fdcc, 0xffe5caca7e10e4e61c3624eaa0941cd0,
      0xffcb9843d60f6159c9db58835c926644, 0xff973b41fa98c081472e6896dfb254c0,
      0xff2ea16466c96a3843ec78b326b52861, 0xfe5dee046a99a2a811c461f1969c3053,
      0xfcbe86c7900a88aedcffc83b479aa3a4, 0xf987a7253ac413176f2b074cf7815e54,
      0xf3392b0822b70005940c7a398e4b70f3, 0xe7159475a2c29b7443b29c7fa6e889d9,
      0xd097f3bdfd2022b8845ad8f792aa5825, 0xa9f746462d870fdf8a65dc1f90e061e5,
      0x70d869a156d2a1b890bb3df62baf32f7, 0x31be135f97d08fd981231505542fcfa6,
      0x9aa508b5b7a84e1c677de54f3e99bc9, 0x5d6af8dedb81196699c329225ee604,
      0x2216e584f5fa1ea926041bedfe98, 0x48a170391f7dc42444e8fa2]"

fun tick_loop :: "u32 \<Rightarrow> nat \<Rightarrow> u256 list \<Rightarrow> u256 \<Rightarrow> u256" where
  "tick_loop m i [] r = r"
| "tick_loop m i (f # fs) r = tick_loop m (Suc i) fs (if bit m i then drop_bit 128 (r * f) else r)"

definition sqrt_at_tick :: "int \<Rightarrow> u256 res" where
  "sqrt_at_tick t =
     rbind (ensure (min_tick \<le> t \<and> t \<le> max_tick) ''invalid V3 tick'') (\<lambda>_.
     let r = tick_loop (word_of_int \<bar>t\<bar>) 0 tick_factors (push_bit 128 1) in
     rbind (if t > 0 then udiv (- 1) r else Inr r) (\<lambda>r.
       Inr (drop_bit 32 r + of_bool (r AND 0xffffffff \<noteq> 0))))"

section \<open>Wide division\<close>

definition widen :: "u256 \<Rightarrow> u512" where
  "widen x = ucast x"

definition narrow :: "u512 \<Rightarrow> u256 res" where
  "narrow n = rbind (ensure (n \<le> widen (- 1)) ''V3 amount overflow'') (\<lambda>_. Inr (ucast n))"

definition divide :: "u512 \<Rightarrow> u512 \<Rightarrow> bool \<Rightarrow> u256 res" where
  "divide n d round_up =
     rbind (ensure (0 < d) ''invalid V3 denominator'')
       (\<lambda>_. narrow (n div d + of_bool (round_up \<and> n mod d \<noteq> 0)))"

definition q96 :: u512 where
  "q96 = push_bit 96 1"

definition root2 :: "u512 \<Rightarrow> u512" where
  "root2 n = word_of_int (isqrt (uint n))"

section \<open>Price bounds\<close>

definition price_at :: "u256 \<Rightarrow> u32 \<Rightarrow> u256 res" where
  "price_at sq factor = narrow (root2 (widen sq * widen sq * ucast factor div 10000))"

definition price_bounds :: "u256 \<Rightarrow> u32 \<Rightarrow> (u256 \<times> u256) res" where
  "price_bounds sq bps =
     rbind (sqrt_at_tick min_tick) (\<lambda>mn.
     rbind (sqrt_at_tick max_tick) (\<lambda>mx.
     rbind (ensure (mn \<le> sq \<and> sq < mx \<and> bps < 10000) ''invalid V3 price/slippage'') (\<lambda>_.
     rbind (price_at sq (10000 - bps)) (\<lambda>lo.
     rbind (price_at sq (10000 + bps)) (\<lambda>hi.
       Inr (wmax lo (mn + 1), wmin hi (mx - 1)))))))"

definition check_price_move :: "u256 \<Rightarrow> u256 \<Rightarrow> u32 \<Rightarrow> unit res" where
  "check_price_move before after bps =
     rbind (price_bounds before bps) (\<lambda>(lo, hi).
       ensure (lo \<le> after \<and> after \<le> hi)
         ''LP price moved beyond configured slippage during approvals; no LP transaction sent'')"

section \<open>Ranges\<close>

record vrange =
  rg_lower :: u256
  rg_upper :: u256

definition range_new :: "int \<Rightarrow> int \<Rightarrow> vrange res" where
  "range_new lt ut =
     rbind (ensure (lt < ut) ''invalid V3 range'') (\<lambda>_.
     rbind (sqrt_at_tick lt) (\<lambda>l.
     rbind (sqrt_at_tick ut) (\<lambda>u. Inr \<lparr>rg_lower = l, rg_upper = u\<rparr>)))"

definition range_contains :: "vrange \<Rightarrow> u256 \<Rightarrow> bool" where
  "range_contains r sq \<longleftrightarrow> rg_lower r < sq \<and> sq < rg_upper r"

definition liq0 :: "u256 \<Rightarrow> u256 \<Rightarrow> u256 \<Rightarrow> u256 res" where
  "liq0 amount0 a b = divide (widen amount0 * (widen a * widen b div q96)) (widen (b - a)) False"

definition liq1 :: "u256 \<Rightarrow> u256 \<Rightarrow> u256 \<Rightarrow> u256 res" where
  "liq1 amount1 a b = divide (widen amount1 * q96) (widen (b - a)) False"

definition u128_max :: u256 where
  "u128_max = 0xffffffffffffffffffffffffffffffff"

definition range_liquidity :: "vrange \<Rightarrow> u256 \<Rightarrow> u256 \<Rightarrow> u256 \<Rightarrow> u256 res" where
  "range_liquidity r sq amount0 amount1 =
     rbind (if sq \<le> rg_lower r then liq0 amount0 (rg_lower r) (rg_upper r)
            else if rg_upper r \<le> sq then liq1 amount1 (rg_lower r) (rg_upper r)
            else rbind (liq0 amount0 sq (rg_upper r)) (\<lambda>x.
                 rbind (liq1 amount1 (rg_lower r) sq) (\<lambda>y. Inr (wmin x y))))
       (\<lambda>l. rbind (ensure (l \<le> u128_max) ''V3 liquidity exceeds uint128'') (\<lambda>_. Inr l))"

text \<open>\<open>Ord::clamp\<close> asserts that the bounds are ordered.\<close>

definition wclamp :: "u256 \<Rightarrow> u256 \<Rightarrow> u256 \<Rightarrow> u256 res" where
  "wclamp x lo hi =
     (if \<not> lo \<le> hi then Inl (Panic ''assertion failed: min <= max'')
      else Inr (if x < lo then lo else if hi < x then hi else x))"

definition range_amounts :: "vrange \<Rightarrow> u256 \<Rightarrow> u256 \<Rightarrow> bool \<Rightarrow> (u256 \<times> u256) res" where
  "range_amounts r sq l round_up =
     rbind (ensure (l \<le> u128_max) ''V3 liquidity exceeds uint128'') (\<lambda>_.
     rbind (wclamp sq (rg_lower r) (rg_upper r)) (\<lambda>p.
     rbind (divide (widen l * q96 * widen (rg_upper r - p)) (widen (rg_upper r) * widen p) round_up) (\<lambda>a0.
     rbind (divide (widen l * widen (p - rg_lower r)) q96 round_up) (\<lambda>a1.
       Inr (a0, a1)))))"

definition range_minimums :: "vrange \<Rightarrow> u256 \<Rightarrow> u256 \<Rightarrow> u32 \<Rightarrow> bool \<Rightarrow> (u256 \<times> u256) res" where
  "range_minimums r sq l bps round_up =
     rbind (price_bounds sq bps) (\<lambda>(lo, hi).
     rbind (range_amounts r hi l round_up) (\<lambda>ah.
     rbind (range_amounts r lo l round_up) (\<lambda>al. Inr (fst ah, snd al))))"

definition mint_minimums :: "vrange \<Rightarrow> u256 \<Rightarrow> u256 \<Rightarrow> u256 \<Rightarrow> u32 \<Rightarrow> (u256 \<times> u256) res" where
  "mint_minimums r sq amount0 amount1 bps =
     rbind (ensure (range_contains r sq) ''LP entry price is outside planned ticks'') (\<lambda>_.
     rbind (range_liquidity r sq amount0 amount1) (\<lambda>l.
     rbind (ensure (0 < l) ''zero V3 entry liquidity'') (\<lambda>_.
     rbind (range_minimums r sq l bps True) (\<lambda>mins.
     rbind (ensure (0 < fst mins \<or> 0 < snd mins) ''LP range too narrow for configured slippage'') (\<lambda>_.
     rbind (ensure (fst mins \<le> amount0 \<and> snd mins \<le> amount1) ''invalid LP minimum amounts'') (\<lambda>_.
       Inr mins))))))"

definition burn_minimums :: "vrange \<Rightarrow> u256 \<Rightarrow> u256 \<Rightarrow> u32 \<Rightarrow> (u256 \<times> u256) res" where
  "burn_minimums r sq l bps = range_minimums r sq l bps False"

section \<open>The tick loop\<close>

lemma factor_bound: "f \<in> set tick_factors \<Longrightarrow> uint f < 2 ^ 128"
  by (auto simp: tick_factors_def)

text \<open>Applying every factor is a lower bound for applying some of them.\<close>

definition full_loop :: "int list \<Rightarrow> int \<Rightarrow> int" where
  "full_loop fs r = foldl (\<lambda>r f. r * f div 2 ^ 128) r fs"

lemma uint_drop_bit: "uint (drop_bit n w) = uint (w :: 'a::len word) div 2 ^ n"
proof -
  have "int (unat (drop_bit n w)) = int (unat w div 2 ^ n)"
    by (subst unat_drop_bit_eq) (simp only: drop_bit_eq_div)
  then show ?thesis by (simp only: int_nat_eq uint_nat of_nat_div of_nat_power of_nat_numeral)
qed

lemma uint_scale:
  assumes "uint r \<le> 2 ^ 128" "uint f < 2 ^ 128"
  shows "uint (drop_bit 128 (r * f) :: u256) = uint r * uint f div 2 ^ 128"
proof -
  have "uint r * uint f \<le> 2 ^ 128 * (2 ^ 128 - 1)"
    using assms by (intro mult_mono) auto
  then have "uint r * uint f < 2 ^ LENGTH(256)" by simp
  then have "uint (r * f) = uint r * uint f" using uint_mult_lem by blast
  then show ?thesis unfolding uint_drop_bit by (simp only:)
qed

lemma tick_loop_bounds:
  assumes "0 \<le> r'" "r' \<le> uint r" "uint r \<le> 2 ^ 128" "\<forall>f \<in> set fs. uint f < 2 ^ 128"
  shows "full_loop (map uint fs) r' \<le> uint (tick_loop m i fs r) \<and> uint (tick_loop m i fs r) \<le> 2 ^ 128"
  using assms
proof (induction fs arbitrary: r r' i)
  case Nil
  then show ?case by (simp add: full_loop_def)
next
  case (Cons f fs)
  let ?r = "if bit m i then drop_bit 128 (r * f) else r"
  have f: "uint f < 2 ^ 128" "0 \<le> uint f" using Cons.prems by auto
  have 1: "r' * uint f div 2 ^ 128 \<le> r'"
  proof -
    have "r' * uint f \<le> r' * 2 ^ 128" using f Cons.prems(1) by (intro mult_left_mono) auto
    then have "r' * uint f div 2 ^ 128 \<le> r' * 2 ^ 128 div 2 ^ 128" by (rule zdiv_mono1) simp
    then show ?thesis by simp
  qed
  have 2: "uint r * uint f div 2 ^ 128 \<le> uint r"
  proof -
    have "uint r * uint f \<le> uint r * 2 ^ 128" using f by (intro mult_left_mono) auto
    then have "uint r * uint f div 2 ^ 128 \<le> uint r * 2 ^ 128 div 2 ^ 128" by (rule zdiv_mono1) simp
    then show ?thesis by simp
  qed
  have "r' * uint f \<le> uint r * uint f" using Cons.prems(2) f(2) by (rule mult_right_mono)
  then have 3: "r' * uint f div 2 ^ 128 \<le> uint r * uint f div 2 ^ 128" by (rule zdiv_mono1) simp
  have "r' * uint f div 2 ^ 128 \<le> uint ?r" "uint ?r \<le> 2 ^ 128"
    using 1 2 3 Cons.prems(2,3) uint_scale [OF Cons.prems(3) f(1)] by auto
  moreover have "0 \<le> r' * uint f div 2 ^ 128"
    using Cons.prems(1) f(2) by (simp add: pos_imp_zdiv_nonneg_iff)
  ultimately show ?case
    using Cons.IH [of "r' * uint f div 2 ^ 128" ?r "Suc i"] Cons.prems(4) by (simp add: full_loop_def)
qed

lemma full_loop_value: "2 ^ 52 \<le> full_loop (map uint tick_factors) (2 ^ 128)"
  by code_simp

lemma tick_ratio:
  "2 ^ 52 \<le> uint (tick_loop m 0 tick_factors (push_bit 128 1))"
  "uint (tick_loop m 0 tick_factors (push_bit 128 1)) \<le> 2 ^ 128"
proof -
  have "uint (push_bit 128 1 :: u256) = 2 ^ 128" by simp
  then show "2 ^ 52 \<le> uint (tick_loop m 0 tick_factors (push_bit 128 1))"
    "uint (tick_loop m 0 tick_factors (push_bit 128 1)) \<le> 2 ^ 128"
    using tick_loop_bounds [of "2 ^ 128" "push_bit 128 1" tick_factors m 0] full_loop_value factor_bound
    by auto
qed

end
