(* ===== verification/V3_Exec.thy ===== *)
theory V3_Exec
  imports V3_Math Config Json
begin

text \<open>
  The arithmetic the executor does around V3 transactions
  (\<open>src/liquidity/uniswap_v3/dust.rs\<close>, \<open>mint.rs\<close>, \<open>quote.rs\<close>, the fee accounting and the unit
  conversions of \<open>mod.rs\<close>, and the tick encoding of \<open>src/evm/rpc.rs\<close>). Contract answers are
  arguments. The text form of \<open>U256\<close> and the decimal library are parameters.
\<close>

section \<open>Text of integers\<close>

record u256_text =
  ut_parse :: "string \<Rightarrow> u256 res"
  ut_show :: "u256 \<Rightarrow> string"

definition parse_sqrt :: "u256_text \<Rightarrow> string \<Rightarrow> u256 res" where
  "parse_sqrt tx raw = with_context (ut_parse tx raw) ''invalid pool sqrtPriceX96''"

section \<open>Dust\<close>

record base_dust =
  bd_raw_base :: string
  bd_raw_quote_ceiling :: string
  bd_base_decimals :: u8
  bd_quote_decimals :: u8
  bd_sqrt_price_x96 :: string
  bd_base_is_token0 :: bool
  bd_block :: u64
  bd_block_hash :: string
  bd_time_ms :: u64

definition quote_atoms :: u512 where "quote_atoms = 2"

definition base_limit :: "u8 \<Rightarrow> u256" where
  "base_limit decimals = 10 ^ unat decimals div 100000000"

definition dust_ratio :: "u512 \<Rightarrow> u512 \<Rightarrow> bool \<Rightarrow> (u512 \<times> u512) res" where
  "dust_ratio raw sq base0 =
     rbind (context_opt (checked_mul sq sq) ''dust price overflow'') (\<lambda>squared.
       let q192 = push_bit 192 1 in
       if base0
       then rbind (context_opt (checked_mul raw squared) ''dust amount overflow'') (\<lambda>n. Inr (n, q192))
       else rbind (context_opt (checked_mul raw q192) ''dust amount overflow'') (\<lambda>n. Inr (n, squared)))"

definition within_limit :: "u256 \<Rightarrow> u8 \<Rightarrow> u256 \<Rightarrow> bool \<Rightarrow> u256 option res" where
  "within_limit raw decimals sq base0 =
     rbind (ensure (decimals \<le> 36) ''unsupported dust token decimals'') (\<lambda>_.
     if raw = 0 \<or> base_limit decimals < raw then Inr None
     else
       rbind (sqrt_at_tick min_tick) (\<lambda>lo. rbind (sqrt_at_tick max_tick) (\<lambda>hi.
       rbind (ensure (lo \<le> sq \<and> sq < hi) ''invalid dust pool price'') (\<lambda>_.
       rbind (dust_ratio (widen raw) (widen sq) base0) (\<lambda>(n, d).
       rbind (ensure (d \<noteq> 0) ''invalid dust price'') (\<lambda>_.
         let ceiling = n div d + of_bool (n mod d \<noteq> 0)
         in Inr (if ceiling \<le> quote_atoms then Some (ucast ceiling) else None)))))))"

definition dust_assess ::
    "u256_text \<Rightarrow> liquidity_config \<Rightarrow> pool_snapshot \<Rightarrow> u256 \<Rightarrow> base_dust option res" where
  "dust_assess tx cfg snap balance =
     rbind (parse_sqrt tx (ps_sqrt_price_x96 snap)) (\<lambda>sq.
     rbind (within_limit balance (lq_base_decimals cfg) sq (ps_base_is_token0 snap)) (\<lambda>r.
       Inr (map_option (\<lambda>ceiling.
         \<lparr>bd_raw_base = ut_show tx balance, bd_raw_quote_ceiling = ut_show tx ceiling,
          bd_base_decimals = lq_base_decimals cfg, bd_quote_decimals = lq_quote_decimals cfg,
          bd_sqrt_price_x96 = ps_sqrt_price_x96 snap, bd_base_is_token0 = ps_base_is_token0 snap,
          bd_block = ps_block snap, bd_block_hash = ps_block_hash snap, bd_time_ms = ps_time_ms snap\<rparr>) r)))"

definition dust_validate :: "u256_text \<Rightarrow> base_dust \<Rightarrow> u256 \<Rightarrow> unit res" where
  "dust_validate tx d balance =
     rbind (ut_parse tx (bd_raw_base d)) (\<lambda>b.
     rbind (ensure (b = balance) ''dust proof balance changed'') (\<lambda>_.
     rbind (parse_sqrt tx (bd_sqrt_price_x96 d)) (\<lambda>sq.
     rbind (within_limit balance (bd_base_decimals d) sq (bd_base_is_token0 d)) (\<lambda>r.
     rbind (context_opt r ''base remainder exceeds exit dust limit'') (\<lambda>ceiling.
       ensure (ut_show tx ceiling = bd_raw_quote_ceiling d) ''dust valuation proof mismatch'')))))"

section \<open>Mint amounts\<close>

text \<open>\<open>U256::from\<close> of a wide integer panics when it does not fit.\<close>

definition fit256 :: "u512 \<Rightarrow> u256 res" where
  "fit256 n = (if n \<le> widen (- 1) then Inr (ucast n) else Inl (Panic ''Value is too large for Uint<256>''))"

definition scale_amount :: "u256 \<Rightarrow> u256 \<Rightarrow> u256 \<Rightarrow> u256 res" where
  "scale_amount x available wanted = rbind (udiv (widen x * widen available) (widen wanted)) fit256"

definition fit_balances :: "u256 \<Rightarrow> u256 \<Rightarrow> u256 \<Rightarrow> u256 \<Rightarrow> (u256 \<times> u256) res" where
  "fit_balances base quote available_base available_quote =
     rbind (ensure (0 < base \<and> 0 < quote) ''mint requires two positive token amounts'') (\<lambda>_.
     rbind (if available_base < base
            then rbind (scale_amount quote available_base base) (\<lambda>q. Inr (available_base, q))
            else Inr (base, quote)) (\<lambda>(base, quote).
     rbind (if available_quote < quote
            then rbind (scale_amount base available_quote quote) (\<lambda>b. Inr (b, available_quote))
            else Inr (base, quote)) (\<lambda>(base, quote).
     rbind (ensure (0 < base \<and> 0 < quote) ''insufficient token balances for mint'') (\<lambda>_.
       Inr (base, quote)))))"

definition range_amounts_f64 ::
    "libm \<Rightarrow> liquidity_config \<Rightarrow> pool_snapshot \<Rightarrow> f64 \<Rightarrow> int \<Rightarrow> int \<Rightarrow> (f64 \<times> f64) res" where
  "range_amounts_f64 m c s value tlo thi =
     (let a = tick_to_price m tlo (lq_base_decimals c) (lq_quote_decimals c) (ps_base_is_token0 s);
          b = tick_to_price m thi (lq_base_decimals c) (lq_quote_decimals c) (ps_base_is_token0 s)
      in rbind (liquidity_for_value value (f_min a b) (f_max a b) (ps_price s)) (\<lambda>l.
           amounts l (f_min a b) (f_max a b) (ps_price s)))"

definition aligned_amounts ::
    "libm \<Rightarrow> liquidity_config \<Rightarrow> pool_snapshot \<Rightarrow> f64 \<Rightarrow> f64 \<Rightarrow> (f64 \<times> f64) res" where
  "aligned_amounts m c s value width =
     (let (lo, hi) = range_of (ps_price s) width
      in rbind (aligned_ticks m lo hi (ps_tick_spacing s) (lq_base_decimals c) (lq_quote_decimals c)
             (ps_base_is_token0 s)) (\<lambda>(tlo, thi). range_amounts_f64 m c s value tlo thi))"

definition width_ok :: "f64 \<Rightarrow> bool" where
  "width_ok w \<longleftrightarrow> is_finite w \<and> lit 0.001 < w \<and> w \<le> lit 0.08"

definition bounded_ticks ::
    "libm \<Rightarrow> liquidity_config \<Rightarrow> pool_snapshot \<Rightarrow> f64 \<times> f64 \<Rightarrow> (int \<times> int) res" where
  "bounded_ticks m c s widths =
     rbind (ensure (0 < ps_tick_spacing s \<and> width_ok (fst widths) \<and> width_ok (snd widths))
       ''invalid bounded LP widths'') (\<lambda>_.
       let lo = ps_price s * (1 - fst widths); hi = ps_price s * (1 + snd widths);
           bd = lq_base_decimals c; qd = lq_quote_decimals c; base0 = ps_base_is_token0 s
       in rbind (price_to_tick m lo bd qd base0) (\<lambda>a.
          rbind (price_to_tick m hi bd qd base0) (\<lambda>b.
            let step = f_of_int (ps_tick_spacing s);
                tlo = f_to_i32 (f_ceil (f_min a b / step) * step);
                thi = f_to_i32 (f_floor (f_max a b / step) * step);
                low = tick_to_price m tlo bd qd base0; high = tick_to_price m thi bd qd base0
            in rbind (ensure (tlo < thi \<and> lo \<le> f_min low high \<and> f_max low high \<le> hi
                   \<and> f_min low high < ps_price s \<and> ps_price s < f_max low high)
                 ''tick spacing cannot fit bounded LP range'') (\<lambda>_. Inr (tlo, thi)))))"

definition bounded_amounts ::
    "libm \<Rightarrow> liquidity_config \<Rightarrow> pool_snapshot \<Rightarrow> f64 \<Rightarrow> f64 \<times> f64 \<Rightarrow> (f64 \<times> f64) res" where
  "bounded_amounts m c s value widths =
     rbind (bounded_ticks m c s widths) (\<lambda>(tlo, thi). range_amounts_f64 m c s value tlo thi)"

section \<open>Units\<close>

definition units :: "libm \<Rightarrow> u256 \<Rightarrow> u8 \<Rightarrow> f64" where
  "units m raw decimals = f_of_word raw / powi_fn m (lit 10) (uint decimals)"

text \<open>
  \<open>dec\<close> is the decimal library: the amount times a power of ten, truncated, as text; nothing when
  the amount or the product is out of its range.
\<close>

definition raw_units :: "u256_text \<Rightarrow> (f64 \<Rightarrow> u8 \<Rightarrow> string option) \<Rightarrow> f64 \<Rightarrow> u8 \<Rightarrow> u256 res" where
  "raw_units tx dec amount decimals =
     rbind (ensure (is_finite amount \<and> 0 \<le> amount) ''invalid token amount'') (\<lambda>_.
     rbind (ensure (decimals \<le> 24) ''unsupported token decimals'') (\<lambda>_.
     rbind (context_opt (dec amount decimals) ''token amount overflow'') (ut_parse tx)))"

definition bounded_amount ::
    "u256_text \<Rightarrow> (f64 \<Rightarrow> u8 \<Rightarrow> string option) \<Rightarrow> f64 \<Rightarrow> u8 \<Rightarrow> u256 \<Rightarrow> u256 res" where
  "bounded_amount tx dec amount decimals balance =
     rbind (raw_units tx dec amount decimals) (\<lambda>requested.
     if requested \<le> balance then Inr requested
     else rbind (ensure (requested - balance \<le> balance div 1000000000000 + 2) ''insufficient token balance'')
       (\<lambda>_. Inr balance))"

section \<open>Swap minimum\<close>

text \<open>\<open>quoted\<close> is the answer of the chain's quoter, where it has one.\<close>

definition minimum_swap_output ::
    "u256_text \<Rightarrow> (f64 \<Rightarrow> u8 \<Rightarrow> string option) \<Rightarrow> liquidity_config \<Rightarrow> u256 res option \<Rightarrow> f64 \<Rightarrow> u8
      \<Rightarrow> u256 res" where
  "minimum_swap_output tx dec cfg answers legacy_expected output_decimals =
     (case answers of
        Some answer \<Rightarrow>
          rbind answer (\<lambda>quoted.
          rbind (context_opt (checked_mul quoted (ucast (10000 - lq_slippage_bps cfg)))
            ''quoted output overflow'') (\<lambda>x. Inr (x div 10000)))
      | None \<Rightarrow>
          raw_units tx dec (legacy_expected * (1 - f_of_word (lq_slippage_bps cfg) / lit 10000))
            output_decimals)"

definition quote_exact_input ::
    "u256 \<Rightarrow> u256 \<Rightarrow> u256 \<Rightarrow> u256 \<Rightarrow> u256 \<Rightarrow> bool \<Rightarrow> u256 list res \<Rightarrow> u256 res" where
  "quote_exact_input base quote token_in token_out input has_quoter answer =
     rbind (ensure (0 < input \<and> (token_in = base \<and> token_out = quote \<or> token_in = quote \<and> token_out = base))
       ''invalid pool quote request'') (\<lambda>_.
     rbind (ensure has_quoter ''no QuoterV2 configured for chain'') (\<lambda>_.
     rbind answer (\<lambda>values.
     rbind (ensure (length values = 4 \<and> 0 < values ! 0) ''invalid QuoterV2 response'') (\<lambda>_.
       Inr (values ! 0)))))"

section \<open>Fees owed to a position\<close>

definition signed_tick :: "u256 \<Rightarrow> int" where
  "signed_tick w = (let v = uint (w AND 0xffffff) in if bit v 23 then v - 0x1000000 else v)"

definition tick_word :: "int \<Rightarrow> u256" where
  "tick_word t = (if t < 0 then (- 1) - word_of_int (- t - 1) else word_of_int t)"

text \<open>
  One token: the fee growth inside the range is the global growth less what grew below and above
  it, all modulo \<open>2^256\<close>.
\<close>

definition growth_inside :: "int \<Rightarrow> int \<Rightarrow> int \<Rightarrow> u256 \<Rightarrow> u256 \<Rightarrow> u256 \<Rightarrow> u256" where
  "growth_inside tick lower upper global out_lower out_upper =
     (let below = (if lower \<le> tick then out_lower else global - out_lower);
          above = (if tick < upper then out_upper else global - out_upper)
      in global - below - above)"

definition unclaimed_one ::
    "u256 list \<Rightarrow> int \<Rightarrow> u256 list \<Rightarrow> u256 list \<Rightarrow> u256 \<Rightarrow> nat \<Rightarrow> u256 res" where
  "unclaimed_one position tick lower upper global i =
     (let inside = growth_inside tick (signed_tick (position ! 5)) (signed_tick (position ! 6)) global
            (lower ! (2 + i)) (upper ! (2 + i));
          delta = inside - position ! (8 + i);
          earned = drop_bit 128 (widen delta * widen (position ! 7))
      in rbind (ensure (earned \<le> widen (- 1)) ''fee amount overflow'') (\<lambda>_.
           context_opt (checked_add (ucast earned) (position ! (10 + i))) ''fee overflow''))"

definition unclaimed ::
    "u256 list \<Rightarrow> int \<Rightarrow> u256 list \<Rightarrow> u256 list \<Rightarrow> u256 res \<Rightarrow> u256 res \<Rightarrow> (u256 \<times> u256) res" where
  "unclaimed position tick lower upper global0 global1 =
     rbind (ensure (4 \<le> length lower \<and> 4 \<le> length upper) ''tick ABI mismatch'') (\<lambda>_.
     rbind global0 (\<lambda>g0. rbind (unclaimed_one position tick lower upper g0 0) (\<lambda>f0.
     rbind global1 (\<lambda>g1. rbind (unclaimed_one position tick lower upper g1 1) (\<lambda>f1.
       Inr (f0, f1))))))"

end
