(* ===== verification/V3_Facts.thy ===== *)
theory V3_Facts
  imports V3_Math
begin

text \<open>
  Correctness of the V3 arithmetic. The word operations are first read as integer operations
  without overflow; the theorems about prices, liquidity and minimum amounts then follow from
  integer division.
\<close>

named_theorems uint_simps \<open>words of this theory as integers\<close>

section \<open>Words as integers\<close>

lemma uint_bound256: "uint (x :: u256) < 2 ^ 256" and uint_bound512: "uint (y :: u512) < 2 ^ 512"
  and uint_bound32: "uint (z :: u32) < 2 ^ 32"
  using uint_lt2p [of x] uint_lt2p [of y] uint_lt2p [of z] by simp_all

lemma uint_widen [uint_simps, simp]: "uint (widen x) = uint x"
  unfolding widen_def by (simp add: unsigned_ucast_eq take_bit_int_eq_self_iff) (use uint_bound256 [of x] in simp)

lemma uint_ucast_32 [uint_simps, simp]: "uint (ucast (x :: u32) :: u512) = uint x"
  by (simp add: unsigned_ucast_eq take_bit_int_eq_self_iff) (use uint_bound32 [of x] in simp)

lemma uint_q96 [uint_simps, simp]: "uint q96 = 2 ^ 96"
  by (simp add: q96_def)

lemma uint_mult_512: "uint a * uint b < 2 ^ 512 \<Longrightarrow> uint (a * b :: u512) = uint a * uint b"
  using uint_mult_lem [of a b] by simp

lemma uint_of_small: "0 \<le> v \<Longrightarrow> v < 2 ^ 256 \<Longrightarrow> uint (word_of_int v :: u256) = v"
  by (simp add: unsigned_of_int take_bit_int_eq_self_iff)

lemma mult_less_pow:
  assumes "0 \<le> a" "a < 2 ^ m" "0 \<le> b" "b < 2 ^ n" shows "a * b < (2::int) ^ (m + n)"
proof (cases "b = 0")
  case False
  then have "a * b < 2 ^ m * b" using assms by simp
  also have "\<dots> \<le> 2 ^ m * 2 ^ n" using assms by simp
  finally show ?thesis by (simp add: power_add)
qed simp

lemma uint_sub_le: "b \<le> a \<Longrightarrow> uint (a - b :: u256) = uint a - uint b"
  by (simp add: word_le_def uint_sub_lem [symmetric])

text \<open>Integer division rounding down or up.\<close>

definition idiv :: "int \<Rightarrow> int \<Rightarrow> bool \<Rightarrow> int" where
  "idiv n d up = n div d + of_bool (up \<and> n mod d \<noteq> 0)"

lemma idiv_down: "idiv n d False = n div d"
  by (simp add: idiv_def)

lemma idiv_le_iff_up: "0 < d \<Longrightarrow> idiv n d True \<le> k \<longleftrightarrow> n \<le> k * d"
proof -
  assume d: "0 < d"
  have n: "n = n div d * d + n mod d" and m: "0 \<le> n mod d" "n mod d < d" using d by simp_all
  show ?thesis
  proof
    assume k: "idiv n d True \<le> k"
    show "n \<le> k * d"
    proof (cases "n mod d = 0")
      case True
      then have "n div d * d \<le> k * d" using k d by (simp add: idiv_def)
      then show ?thesis using n True by simp
    next
      case False
      then have "(n div d + 1) * d \<le> k * d" using k d by (intro mult_right_mono) (simp_all add: idiv_def)
      then have "n div d * d + d \<le> k * d" by (simp add: algebra_simps)
      then show ?thesis using n m by linarith
    qed
  next
    assume k: "n \<le> k * d"
    show "idiv n d True \<le> k"
    proof (cases "n mod d = 0")
      case True
      then have "n div d * d \<le> k * d" using n k by simp
      then show ?thesis using d True by (simp add: idiv_def)
    next
      case False
      then have "n div d * d < k * d" using n k m by linarith
      then have "n div d < k" using d by simp
      then show ?thesis using False by (simp add: idiv_def)
    qed
  qed
qed

lemma le_idiv_iff_down: "0 < d \<Longrightarrow> k \<le> idiv n d False \<longleftrightarrow> k * d \<le> n"
proof -
  assume d: "0 < d"
  have n: "n = n div d * d + n mod d" and m: "0 \<le> n mod d" using d by simp_all
  have "k * d \<le> n" if "k \<le> n div d"
  proof -
    have "k * d \<le> n div d * d" using that d by simp
    then show ?thesis using n m by linarith
  qed
  moreover have "k \<le> n div d" if "k * d \<le> n"
    using zdiv_mono1 [OF that d] d by simp
  ultimately show ?thesis by (auto simp: idiv_down)
qed


lemma idiv_mono: assumes "0 < d" "m \<le> n" shows "idiv m d up \<le> idiv n d up"
proof (cases up)
  case True
  have "n \<le> idiv n d True * d" using idiv_le_iff_up [OF assms(1)] by blast
  then show ?thesis using idiv_le_iff_up [OF assms(1), of m] assms(2) True by simp
next
  case False
  then show ?thesis using assms by (simp add: idiv_down zdiv_mono1)
qed

lemma idiv_nonneg: "0 < d \<Longrightarrow> 0 \<le> n \<Longrightarrow> 0 \<le> idiv n d up"
  by (simp add: idiv_def pos_imp_zdiv_nonneg_iff)

lemma idiv_le_self: "0 < d \<Longrightarrow> 0 \<le> n \<Longrightarrow> idiv n d up \<le> n"
proof -
  assume d: "0 < d" and n: "0 \<le> n"
  have "n * 1 \<le> n * d" using d n by (intro mult_left_mono) auto
  then have "idiv n d True \<le> n" using idiv_le_iff_up [OF d, of n n] by simp
  moreover have "idiv n d False \<le> idiv n d True" by (simp add: idiv_def)
  ultimately show "idiv n d up \<le> n" by (cases up) auto
qed

lemma uint_max256: "uint (widen (- 1)) = 2 ^ 256 - 1"
  by (simp add: unsigned_minus_1_eq_mask mask_eq_exp_minus_1)

lemma narrow_Inr: "narrow n = Inr r \<Longrightarrow> uint r = uint n"
  unfolding narrow_def word_le_def uint_max256
  by (auto simp: unsigned_ucast_eq take_bit_int_eq_self_iff)

lemma narrow_total: "uint n < 2 ^ 256 \<Longrightarrow> \<exists>r. narrow n = Inr r \<and> uint r = uint n"
  unfolding narrow_def word_le_def uint_max256
  by (auto simp: unsigned_ucast_eq take_bit_int_eq_self_iff)

lemma divide_word:
  assumes d: "0 < uint d"
  shows "\<exists>w. divide n d up = narrow w \<and> uint w = idiv (uint n) (uint d) up"
proof -
  have m: "n mod d = 0 \<longleftrightarrow> uint n mod uint d = 0"
    by (metis uint_mod_distrib uint_0_iff)
  have 1: "0 < d" using d by (simp add: word_less_def)
  have "idiv (uint n) (uint d) up \<le> uint n" using d by (intro idiv_le_self) auto
  then have lt: "idiv (uint n) (uint d) up < 2 ^ LENGTH(512)" using uint_bound512 [of n] by simp
  have "uint (n div d + of_bool (up \<and> n mod d \<noteq> 0)) = idiv (uint n) (uint d) up"
  proof (cases "up \<and> n mod d \<noteq> 0")
    case True
    then have e: "idiv (uint n) (uint d) up = uint (n div d) + uint (1 :: u512)"
      using m by (simp add: idiv_def uint_div_distrib)
    then have "uint (n div d + 1) = uint (n div d) + uint (1 :: u512)"
      using lt uint_add_lem [of "n div d" "1 :: u512"] by (simp only:)
    then show ?thesis using True e by simp
  next
    case False
    then show ?thesis using m by (auto simp: idiv_def uint_div_distrib)
  qed
  then show ?thesis using 1 by (intro exI conjI) (simp_all add: divide_def)
qed

lemma divide_Inr:
  assumes "divide n d up = Inr r"
  shows "0 < uint d" "uint r = idiv (uint n) (uint d) up"
proof -
  from assms show d: "0 < uint d" by (auto simp: divide_def word_less_def)
  obtain w where "divide n d up = narrow w" "uint w = idiv (uint n) (uint d) up"
    using divide_word [OF d] by blast
  with assms narrow_Inr show "uint r = idiv (uint n) (uint d) up" by metis
qed

lemma divide_total:
  assumes "0 < uint d" "idiv (uint n) (uint d) up < 2 ^ 256"
  shows "\<exists>r. divide n d up = Inr r \<and> uint r = idiv (uint n) (uint d) up"
  using divide_word [OF assms(1), of n up] narrow_total assms(2) by metis

section \<open>Prices\<close>

lemma sqrt_at_tick_pos:
  assumes "sqrt_at_tick t = Inr s"
  shows "0 < uint s" "uint s \<le> 2 ^ 173" "min_tick \<le> t" "t \<le> max_tick"
proof -
  define q where "q = tick_loop (word_of_int \<bar>t\<bar>) 0 tick_factors (push_bit 128 1)"
  have q: "2 ^ 52 \<le> uint q" "uint q \<le> 2 ^ 128" using tick_ratio by (simp_all add: q_def)
  obtain r where r: "(if t > 0 then udiv (- 1) q else Inr q) = Inr r"
    and s: "s = drop_bit 32 r + of_bool (r AND 0xffffffff \<noteq> 0)"
    and t: "min_tick \<le> t" "t \<le> max_tick"
    using assms unfolding sqrt_at_tick_def Let_def q_def [symmetric] rbind_eq_Inr ensure_eq sum.inject
    by blast
  show "min_tick \<le> t" "t \<le> max_tick" by (fact t)+
  have m1: "uint (- 1 :: u256) = 2 ^ 256 - 1" using uint_max256 by simp
  have rb: "0 < uint r \<and> uint r \<le> 2 ^ 204"
  proof (cases "t > 0")
    case True
    then have "r = (- 1) div q" using r q(1) by (auto simp: udiv_def split: if_splits)
    then have e: "uint r = (2 ^ 256 - 1) div uint q" by (simp only: uint_div_distrib m1)
    have "(2 ^ 256 - 1) div uint q \<le> (2 ^ 256 - 1) div 2 ^ 52" using q by (intro zdiv_mono2) auto
    moreover have "(2 ^ 256 - 1) div 2 ^ 128 \<le> (2 ^ 256 - 1) div uint q" using q by (intro zdiv_mono2) auto
    ultimately show ?thesis unfolding e by simp
  next
    case False
    then show ?thesis using r q by auto
  qed
  have d: "uint (drop_bit 32 r) = uint r div 2 ^ 32" by (rule uint_drop_bit)
  have d2: "uint r div 2 ^ 32 \<le> 2 ^ 204 div 2 ^ 32" using rb by (intro zdiv_mono1) auto
  then have "uint (drop_bit 32 r) + uint (of_bool (r AND 0xffffffff \<noteq> 0) :: u256) < 2 ^ LENGTH(256)"
    unfolding d by simp
  then have u: "uint s = uint r div 2 ^ 32 + of_bool (r AND 0xffffffff \<noteq> 0)"
    unfolding s using uint_add_lem [of "drop_bit 32 r" "of_bool (r AND 0xffffffff \<noteq> 0)"] d by simp
  show "uint s \<le> 2 ^ 173" unfolding u using d2 by simp
  show "0 < uint s"
  proof (cases "uint r < 2 ^ 32")
    case True
    have "(0xffffffff :: u256) = mask 32" by (simp add: mask_eq_exp_minus_1)
    then have "r AND 0xffffffff = take_bit 32 r" by (simp add: take_bit_eq_mask)
    moreover have "uint (take_bit 32 r) = uint r"
      using True by (simp add: unsigned_take_bit_eq take_bit_int_eq_self_iff)
    ultimately have "r AND 0xffffffff \<noteq> 0" using rb by (metis uint_0_iff order_less_irrefl)
    then show ?thesis unfolding u using rb by (simp add: pos_imp_zdiv_nonneg_iff add_nonneg_pos)
  next
    case False
    then have "1 \<le> uint r div 2 ^ 32" using zdiv_mono1 [of "2 ^ 32" "uint r" "2 ^ 32"] by simp
    then show ?thesis unfolding u by simp
  qed
qed


lemma extreme_prices:
  "sqrt_at_tick min_tick = Inr 4295128739"
  "sqrt_at_tick max_tick = Inr 1461446703485210103287273052203988822378723970342"
  by code_simp+

lemma price_at_eq:
  assumes "uint sq \<le> 2 ^ 160" "uint f \<le> 2 ^ 15"
  shows "\<exists>r. price_at sq f = Inr r \<and> uint r = isqrt (uint sq * uint sq * uint f div 10000)"
proof -
  let ?n = "uint sq * uint sq * uint f"
  have s2: "uint sq * uint sq \<le> 2 ^ 160 * 2 ^ 160" using assms(1) by (intro mult_mono) auto
  then have n: "?n \<le> 2 ^ 320 * 2 ^ 15" using assms(2) by (intro mult_mono) auto
  have "uint (widen sq) * uint (widen sq) < 2 ^ 512" using s2 by simp
  note m1 = uint_mult_512 [OF this]
  have m2: "uint (widen sq * widen sq * ucast f) = ?n"
  proof -
    have "uint (widen sq * widen sq) * uint (ucast f :: u512) < 2 ^ 512" using n by (simp add: m1)
    from uint_mult_512 [OF this] show ?thesis by (simp add: m1)
  qed
  have d: "uint (widen sq * widen sq * ucast f div 10000) = ?n div 10000"
    by (simp add: uint_div_distrib m2)
  have d0: "0 \<le> ?n div 10000" by (simp add: pos_imp_zdiv_nonneg_iff)
  have dn: "?n div 10000 \<le> ?n" using idiv_le_self [of 10000 ?n False] by (simp add: idiv_down)
  define r where "r = isqrt (?n div 10000)"
  have "r * r \<le> ?n div 10000" using isqrt_bounds [OF d0] by (simp add: r_def)
  then have "r * r < 2 ^ 256 * 2 ^ 256" using dn n by simp
  moreover have "0 \<le> r" by (simp add: r_def)
  ultimately have r: "0 \<le> r" "r < 2 ^ 256"
    by (auto intro: power2_less_imp_less simp: power2_eq_square)
  have "uint (root2 (widen sq * widen sq * ucast f div 10000)) = r"
    using r by (simp add: root2_def d r_def [symmetric] unsigned_of_int take_bit_int_eq_self_iff)
  with narrow_total r show ?thesis by (simp add: price_at_def r_def) metis
qed

lemma isqrt_floor:
  assumes "0 \<le> n" "0 < d" "isqrt (n div d) = r"
  shows "r * r * d \<le> n" "n < (r + 1) * (r + 1) * d"
proof -
  have "0 \<le> n div d" using assms by (simp add: pos_imp_zdiv_nonneg_iff)
  note b = isqrt_bounds [OF this, unfolded assms(3)]
  have "r * r * d \<le> n div d * d" using b assms(2) by simp
  also have "\<dots> \<le> n" using le_idiv_iff_down [OF assms(2), of "n div d" n] by (simp add: idiv_down)
  finally show "r * r * d \<le> n" .
  show "n < (r + 1) * (r + 1) * d"
    using le_idiv_iff_down [OF assms(2), of "(r + 1) * (r + 1)" n] b by (simp add: idiv_down not_le [symmetric])
qed

text \<open>The bounds as integers.\<close>

lemma price_bounds_Inr:
  assumes "price_bounds sq bps = Inr (lo, hi)"
  shows "4295128739 \<le> uint sq" "uint sq < 1461446703485210103287273052203988822378723970342"
    "uint bps < 10000"
    "uint lo = max (isqrt (uint sq * uint sq * (10000 - uint bps) div 10000)) 4295128740"
    "uint hi = min (isqrt (uint sq * uint sq * (10000 + uint bps) div 10000))
       1461446703485210103287273052203988822378723970341"
proof -
  from assms obtain l h where
    B: "4295128739 \<le> sq" "sq < 1461446703485210103287273052203988822378723970342" "bps < 10000"
    "price_at sq (10000 - bps) = Inr l" "price_at sq (10000 + bps) = Inr h"
    "lo = wmax l (4295128739 + 1)" "hi = wmin h (1461446703485210103287273052203988822378723970342 - 1)"
    by (auto simp: price_bounds_def extreme_prices)
  show b: "4295128739 \<le> uint sq" "uint sq < 1461446703485210103287273052203988822378723970342"
    "uint bps < 10000"
    using B(1-3) by (simp_all add: word_le_def word_less_def)
  have f: "uint (10000 - bps) = 10000 - uint bps" "uint (10000 + bps) = 10000 + uint bps"
    using b(3) uint_sub_lem [of bps 10000] uint_add_lem [of 10000 bps] by simp_all
  have s: "uint sq \<le> 2 ^ 160" using b(2) by simp
  have two15: "(2 :: int) ^ 15 = 32768" by simp
  have fb1: "uint (10000 - bps) \<le> 2 ^ 15" unfolding f two15 using uint_ge_0 [of bps] by linarith
  have fb2: "uint (10000 + bps) \<le> 2 ^ 15" unfolding f using b(3) by simp
  have l: "uint l = isqrt (uint sq * uint sq * (10000 - uint bps) div 10000)"
    using price_at_eq [OF s fb1] B(4) f(1) by auto
  have h: "uint h = isqrt (uint sq * uint sq * (10000 + uint bps) div 10000)"
    using price_at_eq [OF s fb2] B(5) f(2) by auto
  show "uint lo = max (isqrt (uint sq * uint sq * (10000 - uint bps) div 10000)) 4295128740"
    unfolding l [symmetric] B(6) by (auto simp: wmax_def word_le_def)
  show "uint hi = min (isqrt (uint sq * uint sq * (10000 + uint bps) div 10000))
       1461446703485210103287273052203988822378723970341"
    unfolding h [symmetric] B(7) by (auto simp: wmin_def word_le_def)
qed

lemma price_bounds_order:
  assumes "price_bounds sq bps = Inr (lo, hi)"
  shows "uint sq \<le> uint hi" "4295128739 < uint sq \<Longrightarrow> uint lo \<le> uint sq"
    "0 < uint lo" "uint hi < 2 ^ 160"
proof -
  note B = price_bounds_Inr [OF assms]
  let ?s = "uint sq"
  have up: "isqrt (?s * ?s) \<le> isqrt (?s * ?s * (10000 + uint bps) div 10000)"
  proof (rule isqrt_mono)
    have "?s * ?s * 10000 \<le> ?s * ?s * (10000 + uint bps)" by (intro mult_left_mono) auto
    from zdiv_mono1 [OF this, of 10000] show "?s * ?s \<le> ?s * ?s * (10000 + uint bps) div 10000" by simp
  qed simp
  have down: "isqrt (?s * ?s * (10000 - uint bps) div 10000) \<le> isqrt (?s * ?s)"
  proof (rule isqrt_mono)
    show "0 \<le> ?s * ?s * (10000 - uint bps) div 10000" using B(3) by (simp add: pos_imp_zdiv_nonneg_iff)
    have "?s * ?s * (10000 - uint bps) \<le> ?s * ?s * 10000" by (intro mult_left_mono) auto
    from zdiv_mono1 [OF this, of 10000] show "?s * ?s * (10000 - uint bps) div 10000 \<le> ?s * ?s" by simp
  qed
  show "uint sq \<le> uint hi" using up B(2) by (simp add: B(5))
  show "4295128739 < uint sq \<Longrightarrow> uint lo \<le> uint sq" using down by (simp add: B(4))
  show "0 < uint lo" by (simp add: B(4))
  show "uint hi < 2 ^ 160" by (simp add: B(5))
qed

end
