(* ===== verification/V3_Ticks.thy ===== *)
theory V3_Ticks
  imports V3_Facts
begin

text \<open>
  TickMath is strictly increasing: the loop over the bits of a tick is compared with the loop of
  the next tick. The two agree above the lowest zero bit; below it one of them has multiplied by
  every factor and the other by the next factor only, and the table keeps these apart by far more
  than the rounding of the remaining steps.
\<close>

section \<open>The loop on integers\<close>

fun int_loop :: "nat \<Rightarrow> int list \<Rightarrow> int \<Rightarrow> int" where
  "int_loop n [] r = r"
| "int_loop n (f # fs) r = int_loop (n div 2) fs (if odd n then r * f div 2 ^ 128 else r)"

lemma tick_loop_int:
  assumes "uint r \<le> 2 ^ 128" "\<forall>f \<in> set fs. uint f < 2 ^ 128"
  shows "uint (tick_loop m i fs r) = int_loop (unat m div 2 ^ i) (map uint fs) (uint r)"
  using assms
proof (induction fs arbitrary: r i)
  case (Cons f fs)
  have f: "uint f < 2 ^ 128" using Cons.prems by simp
  have b: "bit m i = odd (unat m div 2 ^ i)"
  proof -
    have "bit (unat m) i = bit m i" by (simp add: bit_unsigned_iff)
    then show ?thesis by (simp add: bit_iff_odd)
  qed
  have "uint r * uint f \<le> 2 ^ 128 * 2 ^ 128" using Cons.prems(1) f by (intro mult_mono) auto
  from zdiv_mono1 [OF this, of "2 ^ 128"] have "uint r * uint f div 2 ^ 128 \<le> 2 ^ 128" by simp
  then show ?case
    using Cons.IH [of "if bit m i then drop_bit 128 (r * f) else r" "Suc i"] Cons.prems
      uint_scale [OF Cons.prems(1) f]
    by (auto simp: b div_mult2_eq [symmetric] mult.commute)
qed simp

lemma int_loop_zero: "int_loop 0 fs r = r"
  by (induction fs arbitrary: r) auto

lemma scale_nonneg: "0 \<le> r \<Longrightarrow> 0 \<le> f \<Longrightarrow> 0 \<le> r * f div (2 ^ 128 :: int)"
  by (simp add: pos_imp_zdiv_nonneg_iff)

lemma div_bounds: "0 < q \<Longrightarrow> n < (n div q + 1) * q \<and> n div q * q \<le> (n :: int)"
proof -
  assume q: "0 < q"
  have "n div q * q + n mod q = n" by (rule div_mult_mod_eq)
  moreover have "n mod q < q" "0 \<le> n mod q" using q by simp_all
  ultimately show ?thesis unfolding distrib_right mult_1 by linarith
qed

text \<open>A relative gap of one part in \<open>20002\<close> survives the common steps, each losing at most one.\<close>

lemma gap_step:
  fixes r r' f :: int
  assumes "20002 * (r - r' + c) \<ge> r'" "0 \<le> f" "f < 2 ^ 128" "0 \<le> c"
  shows "20002 * (r * f div 2 ^ 128 - r' * f div 2 ^ 128 + (c + 1)) \<ge> r' * f div 2 ^ 128"
proof -
  let ?q = "2 ^ 128 :: int"
  let ?a = "r * f div ?q" and ?b = "r' * f div ?q"
  have a: "r * f < (?a + 1) * ?q" and b: "?b * ?q \<le> r' * f"
    using div_bounds [of ?q "r * f"] div_bounds [of ?q "r' * f"] by (blast intro: zero_less_power zero_less_numeral)+
  have cf: "c * f \<le> c * ?q" using assms(3,4) by (intro mult_left_mono) auto
  have "20003 * (?b * ?q) \<le> 20003 * (r' * f)" using b by (rule mult_left_mono) simp
  also have "\<dots> \<le> 20002 * ((r + c) * f)"
  proof -
    have "20003 * r' \<le> 20002 * (r + c)" using assms(1) by simp
    from mult_right_mono [OF this assms(2)] show ?thesis by (simp only: mult.assoc)
  qed
  also have "\<dots> \<le> 20002 * ((?a + 1) * ?q + c * ?q)"
  proof -
    have "(r + c) * f = r * f + c * f" by (simp add: distrib_right)
    then have "(r + c) * f \<le> (?a + 1) * ?q + c * ?q" using a cf by linarith
    then show ?thesis by (rule mult_left_mono) simp
  qed
  finally have "(20003 * ?b) * ?q \<le> (20002 * (?a + 1 + c)) * ?q" by (simp only: algebra_simps)
  then have "20003 * ?b \<le> 20002 * (?a + 1 + c)" by (rule mult_right_le_imp_le) simp
  then show ?thesis by simp
qed

lemma gap_loop:
  assumes "20002 * (r - r' + c) \<ge> r'" "0 \<le> c" "\<forall>f \<in> set fs. 0 \<le> f \<and> f < 2 ^ 128"
  shows "20002 * (int_loop n fs r - int_loop n fs r' + (c + int (length fs))) \<ge> int_loop n fs r'"
  using assms
proof (induction fs arbitrary: n r r' c)
  case (Cons f fs)
  let ?s = "\<lambda>x. if odd n then x * f div 2 ^ 128 else x"
  have f: "0 \<le> f" "f < 2 ^ 128" using Cons.prems(3) by auto
  have "20002 * (?s r - ?s r' + (c + 1)) \<ge> ?s r'"
    using gap_step [OF Cons.prems(1) f Cons.prems(2)] Cons.prems(1) by auto
  from Cons.IH [OF this, of "n div 2"] Cons.prems(2,3)
  show ?case by (simp add: add.assoc add.commute)
qed simp

text \<open>The table: after all factors below a position, the product exceeds the factor there.\<close>

fun spread :: "int \<Rightarrow> int list \<Rightarrow> bool" where
  "spread ones [] = True"
| "spread ones (f # fs) = (f \<le> 20002 * (ones - f) \<and> spread (ones * f div 2 ^ 128) fs)"

lemma table_spread: "spread (2 ^ 128) (map uint tick_factors)"
  by code_simp

lemma next_gap:
  assumes "spread ones fs" "\<forall>f \<in> set fs. 0 \<le> f \<and> f < 2 ^ 128" "Suc n < 2 ^ length fs"
  shows "20002 * (int_loop n fs ones - int_loop (Suc n) fs (2 ^ 128) + int (length fs))
    \<ge> int_loop (Suc n) fs (2 ^ 128)"
  using assms
proof (induction fs arbitrary: ones n)
  case (Cons f fs)
  show ?case
  proof (cases "even n")
    case True
    then have "Suc n div 2 = n div 2" by simp
    moreover have "20002 * (ones - f + 0) \<ge> f" using Cons.prems(1) by simp
    from gap_loop [OF this, of fs "n div 2"] Cons.prems(2)
    have "20002 * (int_loop (n div 2) fs ones - int_loop (n div 2) fs f + int (length fs))
      \<ge> int_loop (n div 2) fs f" by simp
    ultimately show ?thesis using True by simp
  next
    case False
    then have e: "Suc n div 2 = Suc (n div 2)" by presburger
    have "Suc n div 2 * 2 = Suc n" using False by presburger
    then have "Suc n div 2 < 2 ^ length fs" using Cons.prems(3) by simp
    then have "Suc (n div 2) < 2 ^ length fs" using e by simp
    with Cons.IH [of "ones * f div 2 ^ 128" "n div 2"] Cons.prems(1,2) False e show ?thesis by simp
  qed
qed simp

section \<open>Prices of neighbouring ticks\<close>

definition tick_ratio_int :: "nat \<Rightarrow> int" where
  "tick_ratio_int n = int_loop n (map uint tick_factors) (2 ^ 128)"

lemma table_ok: "\<forall>f \<in> set (map uint tick_factors). 0 \<le> f \<and> f < 2 ^ 128" "length tick_factors = 20"
  using factor_bound by (auto simp: tick_factors_def)

lemma next_ratio:
  assumes "n < 887272"
  shows "2 ^ 34 \<le> tick_ratio_int n - tick_ratio_int (Suc n)"
    "tick_ratio_int (Suc n) \<le> 20002 * (tick_ratio_int n - tick_ratio_int (Suc n) + 20)"
proof -
  let ?w = "word_of_nat (Suc n) :: u32"
  have w: "unat ?w = Suc n" using assms by (simp add: unsigned_of_nat take_bit_nat_eq_self_iff del: of_nat_Suc)
  have "uint (push_bit 128 1 :: u256) = 2 ^ 128" by simp
  then have "uint (tick_loop ?w 0 tick_factors (push_bit 128 1)) = tick_ratio_int (Suc n)"
    using tick_loop_int [of "push_bit 128 1" tick_factors ?w 0] factor_bound
    by (simp add: tick_ratio_int_def w del: of_nat_Suc)
  then have lo: "2 ^ 52 \<le> tick_ratio_int (Suc n)" using tick_ratio(1) [of ?w] by simp
  show g: "tick_ratio_int (Suc n) \<le> 20002 * (tick_ratio_int n - tick_ratio_int (Suc n) + 20)"
    using next_gap [OF table_spread table_ok(1), of n] assms
    by (simp add: tick_ratio_int_def table_ok(2))
  show "2 ^ 34 \<le> tick_ratio_int n - tick_ratio_int (Suc n)" using g lo by simp
qed

lemma ratio_antimono:
  assumes "m < n" "n \<le> 887272" shows "tick_ratio_int n < tick_ratio_int m"
  using assms
proof (induction n)
  case (Suc n)
  then show ?case using next_ratio(1) [of n] by (cases "m = n") auto
qed simp


definition raw_price :: "int \<Rightarrow> int" where
  "raw_price t = (if t > 0 then (2 ^ 256 - 1) div tick_ratio_int (nat t) else tick_ratio_int (nat (- t)))"

lemma ratio_bounds:
  assumes "n \<le> 887272" shows "2 ^ 52 \<le> tick_ratio_int n" "tick_ratio_int n \<le> 2 ^ 128"
    "\<And>w :: u32. unat w = n \<Longrightarrow> uint (tick_loop w 0 tick_factors (push_bit 128 1)) = tick_ratio_int n"
proof -
  have p: "uint (push_bit 128 1 :: u256) = 2 ^ 128" by simp
  show e: "uint (tick_loop w 0 tick_factors (push_bit 128 1)) = tick_ratio_int n" if "unat w = n" for w :: u32
    using tick_loop_int [of "push_bit 128 1" tick_factors w 0] factor_bound that
    by (simp add: tick_ratio_int_def)
  have w: "unat (word_of_nat n :: u32) = n" using assms by (simp add: unsigned_of_nat take_bit_nat_eq_self_iff)
  show "2 ^ 52 \<le> tick_ratio_int n" "tick_ratio_int n \<le> 2 ^ 128"
    using tick_ratio [of "word_of_nat n"] e [OF w] by simp_all
qed

lemma round_up_word:
  assumes "uint r \<le> 2 ^ 204"
  shows "uint (drop_bit 32 r + of_bool (r AND 0xffffffff \<noteq> 0) :: u256) = idiv (uint r) (2 ^ 32) True"
proof -
  have "(0xffffffff :: u256) = mask 32" by (simp add: mask_eq_exp_minus_1)
  then have "r AND 0xffffffff = take_bit 32 r" by (simp add: take_bit_eq_mask)
  moreover have "uint (take_bit 32 r) = uint r mod 2 ^ 32"
    by (simp only: unsigned_take_bit_eq) (simp only: take_bit_eq_mod)
  ultimately have m: "r AND 0xffffffff \<noteq> 0 \<longleftrightarrow> uint r mod 2 ^ 32 \<noteq> 0"
    by (metis uint_0_iff)
  have d: "uint (drop_bit 32 r) = uint r div 2 ^ 32" by (rule uint_drop_bit)
  have "uint r div 2 ^ 32 \<le> 2 ^ 204 div 2 ^ 32" using assms by (intro zdiv_mono1) auto
  then have "uint (drop_bit 32 r) + uint (of_bool (r AND 0xffffffff \<noteq> 0) :: u256) < 2 ^ LENGTH(256)"
    unfolding d by simp
  then show ?thesis
    using uint_add_lem [of "drop_bit 32 r" "of_bool (r AND 0xffffffff \<noteq> 0)"] m by (simp add: idiv_def d)
qed

lemma sqrt_at_tick_int:
  assumes "min_tick \<le> t" "t \<le> max_tick"
  shows "\<exists>s. sqrt_at_tick t = Inr s \<and> uint s = idiv (raw_price t) (2 ^ 32) True"
proof -
  define w :: u32 where "w = word_of_int \<bar>t\<bar>"
  define q where "q = tick_loop w 0 tick_factors (push_bit 128 1)"
  have t: "nat \<bar>t\<bar> \<le> 887272" using assms by (simp add: min_tick_def max_tick_def)
  have "unat w = nat \<bar>t\<bar>"
    using t by (simp add: w_def unsigned_of_int take_bit_int_eq_self)
  then have q: "uint q = tick_ratio_int (nat \<bar>t\<bar>)" "2 ^ 52 \<le> uint q" "uint q \<le> 2 ^ 128"
    using ratio_bounds [OF t] by (simp_all add: q_def)
  then have q0: "q \<noteq> 0" by auto
  define r where "r = (if t > 0 then (- 1) div q else q)"
  have "uint (- 1 :: u256) = 2 ^ 256 - 1" using uint_max256 by simp
  then have r: "uint r = raw_price t"
    using q(1) by (auto simp: r_def raw_price_def uint_div_distrib)
  have "(2 ^ 256 - 1) div uint q \<le> (2 ^ 256 - 1) div 2 ^ 52" using q by (intro zdiv_mono2) auto
  then have b: "uint r \<le> 2 ^ 204"
    using q by (auto simp: r_def uint_div_distrib \<open>uint (- 1) = _\<close>)
  have "sqrt_at_tick t = Inr (drop_bit 32 r + of_bool (r AND 0xffffffff \<noteq> 0))"
    by (simp only: sqrt_at_tick_def Let_def w_def [symmetric] q_def [symmetric])
      (simp add: assms q0 r_def udiv_def)
  then show ?thesis using round_up_word [OF b] r by simp
qed

lemma raw_price_step:
  assumes "min_tick \<le> t" "t < max_tick"
  shows "raw_price t + 2 ^ 32 \<le> raw_price (t + 1)"
proof (cases "t < 0")
  case True
  define n where "n = nat (- (t + 1))"
  have "nat (- t) = Suc n" "n < 887272" using True assms by (simp_all add: n_def min_tick_def)
  then show ?thesis
    using next_ratio(1) [of n] True by (simp add: raw_price_def n_def)
next
  case False
  define n where "n = nat t"
  define r r' where "r = tick_ratio_int n" and "r' = tick_ratio_int (Suc n)"
  let ?M = "2 ^ 256 - 1 :: int"
  have n: "n < 887272" "t = int n" using assms False by (auto simp: n_def max_tick_def)
  have g: "2 ^ 34 \<le> r - r'" and b: "0 < r" "r \<le> 2 ^ 128" "0 < r'" "r' \<le> 2 ^ 128"
    using next_ratio(1) [OF n(1)] ratio_bounds(1,2) [of n] ratio_bounds(1,2) [of "Suc n"] n(1)
    by (simp_all add: r_def r'_def)
  define a where "a = ?M div r"
  have am: "?M div 2 ^ 128 \<le> a" unfolding a_def using b by (intro zdiv_mono2) auto
  then have a: "2 ^ 127 \<le> a" by simp
  have "2 ^ 127 * 2 ^ 34 \<le> a * (r - r')" using a g by (intro mult_mono) auto
  moreover have "2 ^ 33 * r' \<le> 2 ^ 33 * 2 ^ 128" using b by simp
  moreover have "a * r \<le> ?M" using div_bounds [OF b(1), of ?M] by (simp add: a_def)
  ultimately have "(a + 2 ^ 33) * r' \<le> ?M" by (simp add: algebra_simps)
  then have "a + 2 ^ 33 \<le> ?M div r'"
    using le_idiv_iff_down [OF b(3), of "a + 2 ^ 33" ?M] by (simp add: idiv_down)
  moreover have "raw_price t \<le> a + 1"
  proof (cases "t = 0")
    case True
    have "raw_price t = 2 ^ 128" unfolding True raw_price_def tick_ratio_int_def by (simp add: int_loop_zero)
    moreover have "2 ^ 128 - 1 \<le> a" using am by simp
    ultimately show ?thesis by linarith
  next
    case False
    then show ?thesis using n by (simp add: raw_price_def a_def r_def)
  qed
  ultimately show ?thesis using n by (simp add: raw_price_def r'_def nat_add_distrib)
qed

lemma raw_price_less:
  assumes "min_tick \<le> t" "t < u" "u \<le> max_tick" shows "raw_price t + 2 ^ 32 \<le> raw_price u"
proof -
  have "t + int n < max_tick \<Longrightarrow> raw_price t + 2 ^ 32 \<le> raw_price (t + int (Suc n))" for n
  proof (induction n)
    case 0
    then show ?case using raw_price_step assms(1) by simp
  next
    case (Suc n)
    then show ?case using raw_price_step [of "t + int (Suc n)"] assms(1) by (simp add: add.assoc)
  qed
  from this [of "nat (u - t - 1)"] show ?thesis using assms(2,3) by simp
qed

lemma idiv_up_less:
  assumes "0 < d" "x + d \<le> y" shows "idiv x d True < idiv y d True"
proof -
  have "y \<le> idiv y d True * d" using idiv_le_iff_up [OF assms(1)] by blast
  then have "x \<le> (idiv y d True - 1) * d" using assms(2) by (simp add: algebra_simps)
  then have "idiv x d True \<le> idiv y d True - 1" using idiv_le_iff_up [OF assms(1)] by blast
  then show ?thesis by simp
qed

lemma tick_price_less:
  assumes "sqrt_at_tick t = Inr a" "sqrt_at_tick u = Inr b" "t < u" shows "uint a < uint b"
proof -
  note t = sqrt_at_tick_pos(3,4) [OF assms(1)] and u = sqrt_at_tick_pos(3,4) [OF assms(2)]
  have "uint a = idiv (raw_price t) (2 ^ 32) True" "uint b = idiv (raw_price u) (2 ^ 32) True"
    using sqrt_at_tick_int [OF t] sqrt_at_tick_int [OF u] assms(1,2) by auto
  then show ?thesis using idiv_up_less [of "2 ^ 32"] raw_price_less [OF t(1) assms(3) u(2)] by simp
qed

section \<open>Well-formed ranges\<close>

definition range_ok :: "vrange \<Rightarrow> bool" where
  "range_ok r \<longleftrightarrow> 4295128739 \<le> uint (rg_lower r) \<and> uint (rg_lower r) < uint (rg_upper r)
     \<and> uint (rg_upper r) \<le> 1461446703485210103287273052203988822378723970342"

lemma tick_price_bounds:
  assumes "sqrt_at_tick t = Inr a"
  shows "4295128739 \<le> uint a" "uint a \<le> 1461446703485210103287273052203988822378723970342"
  using tick_price_less [OF extreme_prices(1) assms] tick_price_less [OF assms extreme_prices(2)]
    sqrt_at_tick_pos(3,4) [OF assms] extreme_prices assms
  by (cases "t = min_tick"; cases "t = max_tick"; simp)+

lemma range_new_ok:
  assumes "range_new lt ut = Inr r" shows "range_ok r"
  using assms tick_price_less tick_price_bounds by (auto simp: range_new_def range_ok_def)

text \<open>
  C34: tick prices are defined for exactly the ticks of V3 and strictly increasing over all of
  them, so a range between two ordered ticks always has ordered prices, between the lowest and the
  highest price of V3.
\<close>

theorem tick_price_monotone:
  "((\<exists>a. sqrt_at_tick t = Inr a) \<longleftrightarrow> min_tick \<le> t \<and> t \<le> max_tick)
   \<and> (sqrt_at_tick t = Inr a \<longrightarrow> sqrt_at_tick u = Inr b \<longrightarrow> (a < b \<longleftrightarrow> t < u))
   \<and> (range_new lt ut = Inr r \<longrightarrow> rg_lower r < rg_upper r)"
proof (intro conjI impI)
  show "(\<exists>a. sqrt_at_tick t = Inr a) \<longleftrightarrow> min_tick \<le> t \<and> t \<le> max_tick"
    using sqrt_at_tick_int sqrt_at_tick_pos(3,4) by blast
  show "a < b \<longleftrightarrow> t < u" if a: "sqrt_at_tick t = Inr a" and b: "sqrt_at_tick u = Inr b"
    using tick_price_less [OF a b] tick_price_less [OF b a] a b
    by (cases t u rule: linorder_cases) (auto simp: word_less_def)
  show "rg_lower r < rg_upper r" if "range_new lt ut = Inr r"
    using range_new_ok [OF that] by (simp add: range_ok_def word_less_def)
qed

theorem tick_price_monotone_witness:
  "(4295128739 :: u256) < 79228162514264337593543950336 \<and> min_tick < 0"
proof -
  have 0: "sqrt_at_tick 0 = Inr 79228162514264337593543950336" by code_simp
  show ?thesis
    using tick_price_monotone [of min_tick 4295128739 0 79228162514264337593543950336] extreme_prices(1) 0
    by (simp add: min_tick_def)
qed

end
