(* ===== verification/V3_Props.thy ===== *)
theory V3_Props
  imports V3_Ticks
begin

text \<open>
  What the exact arithmetic promises to the transactions built on it: the amounts of a position as
  integers, the width of the price bounds, and the minimum amounts of a mint and of a burn, which
  hold at every price inside the bounds.
\<close>

section \<open>Amounts as integers\<close>

definition clamp_price :: "vrange \<Rightarrow> u256 \<Rightarrow> int" where
  "clamp_price r sq = max (uint (rg_lower r)) (min (uint sq) (uint (rg_upper r)))"

definition amount0_at :: "vrange \<Rightarrow> u256 \<Rightarrow> u256 \<Rightarrow> bool \<Rightarrow> int" where
  "amount0_at r sq l up =
     idiv (uint l * 2 ^ 96 * (uint (rg_upper r) - clamp_price r sq)) (uint (rg_upper r) * clamp_price r sq) up"

definition amount1_at :: "vrange \<Rightarrow> u256 \<Rightarrow> u256 \<Rightarrow> bool \<Rightarrow> int" where
  "amount1_at r sq l up = idiv (uint l * (clamp_price r sq - uint (rg_lower r))) (2 ^ 96) up"

lemma range_ok_bounds:
  assumes "range_ok r"
  shows "0 < uint (rg_lower r)" "uint (rg_lower r) < uint (rg_upper r)" "uint (rg_upper r) < 2 ^ 160"
  using assms by (simp_all add: range_ok_def)

lemma clamp_price_bounds:
  assumes "range_ok r"
  shows "uint (rg_lower r) \<le> clamp_price r sq" "clamp_price r sq \<le> uint (rg_upper r)"
  using range_ok_bounds [OF assms] by (auto simp: clamp_price_def)

lemma wclamp_range:
  assumes "range_ok r"
  shows "\<exists>p. wclamp sq (rg_lower r) (rg_upper r) = Inr p \<and> uint p = clamp_price r sq"
  using range_ok_bounds [OF assms]
  by (auto simp: wclamp_def clamp_price_def word_le_def word_less_def)

lemma range_amounts_spec:
  assumes "range_ok r" "l \<le> u128_max"
  shows "\<exists>a0 a1. range_amounts r sq l up = Inr (a0, a1)
    \<and> uint a0 = amount0_at r sq l up \<and> uint a1 = amount1_at r sq l up"
proof -
  obtain p where p: "wclamp sq (rg_lower r) (rg_upper r) = Inr p" "uint p = clamp_price r sq"
    using wclamp_range [OF assms(1)] by blast
  note b = range_ok_bounds [OF assms(1)] and c = clamp_price_bounds [OF assms(1), of sq]
  let ?U = "uint (rg_upper r)" and ?L = "uint (rg_lower r)" and ?P = "clamp_price r sq"
  have l: "uint l < 2 ^ 128" using assms(2) by (simp add: u128_max_def word_le_def)
  have up: "uint (rg_upper r - p) = ?U - ?P" "uint (p - rg_lower r) = ?P - ?L"
    using p(2) c by (simp_all add: uint_sub_le word_le_def)
  have n1: "uint l * 2 ^ 96 < 2 ^ 224" using l by simp
  have d1: "0 \<le> ?U - ?P" "?U - ?P < 2 ^ 160" "0 \<le> ?P - ?L" "?P - ?L < 2 ^ 160" using b c by linarith+
  have n2: "uint l * 2 ^ 96 * (?U - ?P) < 2 ^ 384"
    using mult_less_pow [OF _ n1 d1(1,2)] by simp
  have n3: "uint l * (?P - ?L) < 2 ^ 288" using mult_less_pow [OF _ l d1(3,4)] by simp
  have P: "0 < ?P" "?P < 2 ^ 160" using b c by linarith+
  have n4: "?U * ?P < 2 ^ 320" using mult_less_pow [OF _ b(3) _ P(2)] b P by simp
  have m1: "uint (widen l * q96) = uint l * 2 ^ 96" using n1 by (subst uint_mult_512) simp_all
  have m2: "uint (widen l * q96 * widen (rg_upper r - p)) = uint l * 2 ^ 96 * (?U - ?P)"
    using n2 m1 up by (subst uint_mult_512) simp_all
  have m3: "uint (widen (rg_upper r) * widen p) = ?U * ?P"
    using n4 p(2) by (subst uint_mult_512) simp_all
  have m4: "uint (widen l * widen (p - rg_lower r)) = uint l * (?P - ?L)"
    using n3 up by (subst uint_mult_512) simp_all
  have UP: "0 < ?U * ?P" using b P by simp
  have "uint l * 2 ^ 96 * (?U - ?P) \<le> uint l * 2 ^ 96 * (?U * ?P)"
  proof (rule mult_left_mono)
    have "?U * 1 \<le> ?U * ?P" using P b by (intro mult_left_mono) linarith+
    then show "?U - ?P \<le> ?U * ?P" using P by linarith
  qed simp
  then have "idiv (uint l * 2 ^ 96 * (?U - ?P)) (?U * ?P) True \<le> uint l * 2 ^ 96"
    using idiv_le_iff_up [OF UP] by simp
  moreover have "idiv (uint l * 2 ^ 96 * (?U - ?P)) (?U * ?P) up
      \<le> idiv (uint l * 2 ^ 96 * (?U - ?P)) (?U * ?P) True" by (simp add: idiv_def)
  ultimately have q0: "amount0_at r sq l up < 2 ^ 256"
    unfolding amount0_at_def using n1 by simp
  have "idiv (uint l * (?P - ?L)) (2 ^ 96) up \<le> idiv (uint l * (?P - ?L)) (2 ^ 96) True"
    by (simp add: idiv_def)
  moreover have "idiv (uint l * (?P - ?L)) (2 ^ 96) True \<le> 2 ^ 192"
    using n3 by (subst idiv_le_iff_up) simp_all
  ultimately have q1: "amount1_at r sq l up < 2 ^ 256"
    unfolding amount1_at_def by simp
  have m3': "0 < uint (widen (rg_upper r) * widen p)" using m3 UP by simp
  obtain a0 where a0: "divide (widen l * q96 * widen (rg_upper r - p)) (widen (rg_upper r) * widen p) up = Inr a0"
    "uint a0 = amount0_at r sq l up"
    using divide_total [OF m3', of "widen l * q96 * widen (rg_upper r - p)" up] q0
    unfolding m2 m3 amount0_at_def by blast
  have q: "0 < uint q96" by simp
  obtain a1 where a1: "divide (widen l * widen (p - rg_lower r)) q96 up = Inr a1"
    "uint a1 = amount1_at r sq l up"
    using divide_total [OF q, of "widen l * widen (p - rg_lower r)" up] q1
    unfolding m4 amount1_at_def uint_q96 by blast
  show ?thesis using a0 a1 p assms(2) by (simp add: range_amounts_def)
qed

lemma range_amounts_liq: "range_amounts r sq l up = Inr x \<Longrightarrow> l \<le> u128_max"
  by (auto simp: range_amounts_def)

lemma range_amounts_Inr:
  assumes "range_ok r" "range_amounts r sq l up = Inr (a0, a1)"
  shows "uint a0 = amount0_at r sq l up" "uint a1 = amount1_at r sq l up"
  using range_amounts_spec [OF assms(1) range_amounts_liq [OF assms(2)], of sq up] assms(2) by auto

text \<open>Evaluation through the integers.\<close>

lemma divide_eval:
  assumes "0 < uint d" "idiv (uint n) (uint d) up = uint r" shows "divide n d up = Inr r"
proof -
  have "uint r < 2 ^ 256" using uint_bound256 [of r] .
  then obtain x where "divide n d up = Inr x" "uint x = uint r"
    using divide_total [OF assms(1), of n up] assms(2) by auto
  then show ?thesis by (simp add: word_uint_eq_iff)
qed

lemma range_amounts_eval:
  assumes "range_ok r" "l \<le> u128_max" "amount0_at r sq l up = uint a0" "amount1_at r sq l up = uint a1"
  shows "range_amounts r sq l up = Inr (a0, a1)"
  using range_amounts_spec [OF assms(1,2), of sq up] assms(3,4) by (auto simp: word_uint_eq_iff)

section \<open>Monotonicity in the price\<close>

lemma idiv_ratio_mono:
  assumes "0 < d" "0 < e" "m * e \<le> n * d" shows "idiv m d up \<le> idiv n e up"
proof (cases up)
  case True
  have "n \<le> idiv n e True * e" using idiv_le_iff_up [OF assms(2)] by blast
  then have "n * d \<le> idiv n e True * e * d" using assms(1) by simp
  then have "m * e \<le> idiv n e True * d * e" using assms(3) by (simp add: ac_simps)
  then have "m \<le> idiv n e True * d" using assms(2) by simp
  then show ?thesis using idiv_le_iff_up [OF assms(1)] True by simp
next
  case False
  have "idiv m d False * d \<le> m" using le_idiv_iff_down [OF assms(1)] by blast
  then have "idiv m d False * d * e \<le> m * e" using assms(2) by simp
  then have "idiv m d False * e * d \<le> n * d" using assms(3) by (simp add: ac_simps)
  then have "idiv m d False * e \<le> n" using assms(1) by simp
  then show ?thesis using le_idiv_iff_down [OF assms(2)] False by simp
qed

lemma amount0_antimono:
  assumes "range_ok r" "uint p \<le> uint q" shows "amount0_at r q l up \<le> amount0_at r p l up"
proof -
  note b = range_ok_bounds [OF assms(1)]
    and cp = clamp_price_bounds [OF assms(1), of p] and cq = clamp_price_bounds [OF assms(1), of q]
  let ?U = "uint (rg_upper r)" and ?P = "clamp_price r p" and ?Q = "clamp_price r q"
  have PQ: "?P \<le> ?Q" using assms(2) by (auto simp: clamp_price_def)
  have "(?U - ?Q) * ?P \<le> (?U - ?P) * ?Q"
  proof -
    have "?U * ?P \<le> ?U * ?Q" using PQ b by (intro mult_left_mono) auto
    then show ?thesis by (simp add: algebra_simps)
  qed
  then have "uint l * 2 ^ 96 * ?U * ((?U - ?Q) * ?P) \<le> uint l * 2 ^ 96 * ?U * ((?U - ?P) * ?Q)"
    by (intro mult_left_mono) auto
  moreover have "0 < ?P" "0 < ?Q" "0 < ?U" using b cp cq by linarith+
  ultimately show ?thesis
    unfolding amount0_at_def by (intro idiv_ratio_mono) (simp_all add: ac_simps)
qed

lemma amount1_mono:
  assumes "range_ok r" "uint p \<le> uint q" shows "amount1_at r p l up \<le> amount1_at r q l up"
  using assms unfolding amount1_at_def
  by (intro idiv_mono mult_left_mono) (auto simp: clamp_price_def)

section \<open>The price bounds\<close>

text \<open>
  The price bounds stay within the slippage: the upper bound squared is at most the price
  squared times one plus the slippage, the lower bound is the largest integer whose square is not
  above the price squared times one minus the slippage, or V3's lowest usable price; the current
  price lies between the bounds unless it is V3's lowest price.
\<close>

theorem price_bounds_tight:
  assumes "price_bounds sq bps = Inr (lo, hi)"
  shows "uint hi * uint hi * 10000 \<le> uint sq * uint sq * (10000 + uint bps)
    \<and> uint sq * uint sq * (10000 - uint bps) < (uint lo + 1) * (uint lo + 1) * 10000
    \<and> (uint lo * uint lo * 10000 \<le> uint sq * uint sq * (10000 - uint bps) \<or> uint lo = 4295128740)
    \<and> sq \<le> hi \<and> (4295128739 < sq \<longrightarrow> lo \<le> sq)"
proof -
  note B = price_bounds_Inr [OF assms] and O = price_bounds_order [OF assms]
  let ?s = "uint sq * uint sq"
  let ?l = "isqrt (?s * (10000 - uint bps) div 10000)" and ?h = "isqrt (?s * (10000 + uint bps) div 10000)"
  have nl: "0 \<le> ?s * (10000 - uint bps)" using B(3) by simp
  note fl = isqrt_floor [OF nl _ refl, of 10000] and fh = isqrt_floor [of "?s * (10000 + uint bps)" 10000, OF _ _ refl]
  have "uint hi * uint hi \<le> ?h * ?h" using B(5) O(1) by (intro mult_mono) auto
  then have 1: "uint hi * uint hi * 10000 \<le> ?s * (10000 + uint bps)" using fh(1) by simp
  have l0: "0 \<le> ?l" by simp
  have "?l \<le> uint lo" using B(4) by simp
  then have "(?l + 1) * (?l + 1) \<le> (uint lo + 1) * (uint lo + 1)" using l0 by (intro mult_mono) auto
  then have 2: "?s * (10000 - uint bps) < (uint lo + 1) * (uint lo + 1) * 10000" using fl(2) by simp
  have 3: "uint lo * uint lo * 10000 \<le> ?s * (10000 - uint bps) \<or> uint lo = 4295128740"
    using fl(1) B(4) by (cases "?l \<le> 4295128740") auto
  show ?thesis using 1 2 3 O(1,2) by (simp add: word_le_def word_less_def)
qed

text \<open>
  C22: the minimum amounts of a mint and of a burn are guarantees for every price within the
  slippage: at any such price the amounts of the position exist and are at least the minimums, so
  the transaction is refused only when the price has left its bounds.
\<close>

theorem minimums_hold:
  assumes "range_new lt ut = Inr r" "range_minimums r sq l bps up = Inr (m0, m1)"
    and "price_bounds sq bps = Inr (lo, hi)" "lo \<le> p" "p \<le> hi"
  shows "\<exists>a0 a1. range_amounts r p l up = Inr (a0, a1) \<and> m0 \<le> a0 \<and> m1 \<le> a1"
proof -
  note r = range_new_ok [OF assms(1)]
  obtain h1 l0 where h: "range_amounts r hi l up = Inr (m0, h1)" and l: "range_amounts r lo l up = Inr (l0, m1)"
    using assms(2,3) by (auto simp: range_minimums_def)
  obtain a0 a1 where a: "range_amounts r p l up = Inr (a0, a1)"
    "uint a0 = amount0_at r p l up" "uint a1 = amount1_at r p l up"
    using range_amounts_spec [OF r range_amounts_liq [OF h]] by blast
  have "uint m0 \<le> uint a0"
    using amount0_antimono [OF r, of p hi l up] assms(5) range_amounts_Inr(1) [OF r h] a(2)
    by (simp add: word_le_def)
  moreover have "uint m1 \<le> uint a1"
    using amount1_mono [OF r, of lo p l up] assms(4) range_amounts_Inr(2) [OF r l] a(3)
    by (simp add: word_le_def)
  ultimately show ?thesis using a(1) by (auto simp: word_le_def)
qed

section \<open>Minting\<close>

text \<open>The liquidity of two amounts never needs more than these amounts.\<close>

lemma liq0_bound:
  assumes "liq0 amount0 a b = Inr x" "uint a < uint b" "uint b < 2 ^ 160"
  shows "uint x * 2 ^ 96 * (uint b - uint a) \<le> uint amount0 * (uint a * uint b)"
proof -
  have n: "uint a * uint b < 2 ^ 320"
    using mult_less_pow [of "uint a" 160 "uint b" 160] assms(2,3) by simp
  have i: "uint (widen a * widen b div q96) = uint a * uint b div 2 ^ 96"
    using n by (simp add: uint_div_distrib uint_mult_512)
  have "uint a * uint b < 2 ^ 224 * 2 ^ 96" using n by simp
  then have "uint a * uint b div 2 ^ 96 < 2 ^ 224"
    using le_idiv_iff_down [of "2 ^ 96" "2 ^ 224" "uint a * uint b"] by (simp add: idiv_down not_le [symmetric])
  then have n2: "uint amount0 * (uint a * uint b div 2 ^ 96) < 2 ^ 480"
    using mult_less_pow [OF _ uint_bound256 [of amount0], of "uint a * uint b div 2 ^ 96" 224]
    by (simp add: pos_imp_zdiv_nonneg_iff)
  have m: "uint (widen amount0 * (widen a * widen b div q96)) = uint amount0 * (uint a * uint b div 2 ^ 96)"
    using n2 i by (subst uint_mult_512) simp_all
  have d: "uint (widen (b - a)) = uint b - uint a"
    using assms(2) by (simp add: uint_sub_le word_le_def)
  have "uint x = idiv (uint amount0 * (uint a * uint b div 2 ^ 96)) (uint b - uint a) False"
    using divide_Inr(2) [OF assms(1) [unfolded liq0_def]] unfolding m d .
  then have "uint x * (uint b - uint a) \<le> uint amount0 * (uint a * uint b div 2 ^ 96)"
    using le_idiv_iff_down [of "uint b - uint a" "uint x" "uint amount0 * (uint a * uint b div 2 ^ 96)"] assms(2)
    by simp
  then have "uint x * (uint b - uint a) * 2 ^ 96 \<le> uint amount0 * (uint a * uint b div 2 ^ 96) * 2 ^ 96"
    by (rule mult_right_mono) simp
  also have "\<dots> \<le> uint amount0 * (uint a * uint b)"
    using div_bounds [of "2 ^ 96" "uint a * uint b"] by (simp add: mult.assoc mult_left_mono)
  finally show ?thesis by (simp add: ac_simps)
qed

lemma liq1_bound:
  assumes "liq1 amount1 a b = Inr y" "uint a < uint b"
  shows "uint y * (uint b - uint a) \<le> uint amount1 * 2 ^ 96"
proof -
  have "uint amount1 * 2 ^ 96 < 2 ^ 352"
    using uint_bound256 [of amount1] by simp
  then have m: "uint (widen amount1 * q96) = uint amount1 * 2 ^ 96" by (subst uint_mult_512) simp_all
  have d: "uint (widen (b - a)) = uint b - uint a"
    using assms(2) by (simp add: uint_sub_le word_le_def)
  have "uint y = idiv (uint amount1 * 2 ^ 96) (uint b - uint a) False"
    using divide_Inr(2) [OF assms(1) [unfolded liq1_def]] unfolding m d .
  then show ?thesis
    using le_idiv_iff_down [of "uint b - uint a" "uint y" "uint amount1 * 2 ^ 96"] assms(2) by simp
qed

lemma liquidity_within:
  assumes "range_ok r" "range_contains r sq" "range_liquidity r sq amount0 amount1 = Inr l"
  shows "amount0_at r sq l up \<le> uint amount0" "amount1_at r sq l up \<le> uint amount1"
proof -
  note b = range_ok_bounds [OF assms(1)]
  have c: "uint (rg_lower r) < uint sq" "uint sq < uint (rg_upper r)"
    using assms(2) by (simp_all add: range_contains_def word_less_def)
  then have P: "clamp_price r sq = uint sq" by (simp add: clamp_price_def)
  obtain x y where xy: "liq0 amount0 sq (rg_upper r) = Inr x" "liq1 amount1 (rg_lower r) sq = Inr y" "l = wmin x y"
    using assms(2,3) by (auto simp: range_liquidity_def range_contains_def not_le [symmetric])
  then have l: "uint l \<le> uint x" "uint l \<le> uint y" by (auto simp: wmin_def word_le_def)
  have "uint l * 2 ^ 96 * (uint (rg_upper r) - uint sq) \<le> uint x * 2 ^ 96 * (uint (rg_upper r) - uint sq)"
    using l c by (intro mult_right_mono) auto
  also have "\<dots> \<le> uint amount0 * (uint sq * uint (rg_upper r))" using liq0_bound [OF xy(1) c(2) b(3)] .
  finally have 0: "uint l * 2 ^ 96 * (uint (rg_upper r) - uint sq) \<le> uint amount0 * (uint (rg_upper r) * uint sq)"
    by (simp only: mult.commute)
  have "uint l * (uint sq - uint (rg_lower r)) \<le> uint y * (uint sq - uint (rg_lower r))"
    using l c by (intro mult_right_mono) auto
  also have "\<dots> \<le> uint amount1 * 2 ^ 96" using liq1_bound [OF xy(2) c(1)] .
  finally have 1: "uint l * (uint sq - uint (rg_lower r)) \<le> uint amount1 * 2 ^ 96" .
  have up: "idiv m d up \<le> idiv m d True" for m d by (simp add: idiv_def)
  have "0 < uint (rg_upper r) * uint sq" using b c by simp
  then have "idiv (uint l * 2 ^ 96 * (uint (rg_upper r) - uint sq)) (uint (rg_upper r) * uint sq) True \<le> uint amount0"
    using 0 idiv_le_iff_up by blast
  then show "amount0_at r sq l up \<le> uint amount0"
    unfolding amount0_at_def P using up order_trans by blast
  have "idiv (uint l * (uint sq - uint (rg_lower r))) (2 ^ 96) True \<le> uint amount1"
    using 1 by (subst idiv_le_iff_up) auto
  then show "amount1_at r sq l up \<le> uint amount1"
    unfolding amount1_at_def P using up order_trans by blast
qed

text \<open>The errors of the steps before the last check.\<close>

lemma rbind_Inl: "rbind m f = Inl e \<longleftrightarrow> m = Inl e \<or> (\<exists>a. m = Inr a \<and> f a = Inl e)"
  by (auto simp: rbind_def split: sum.splits)

definition v3_errors :: "err set" where
  "v3_errors = {Bail ''V3 amount overflow'', Bail ''invalid V3 denominator'', Bail ''invalid V3 tick'',
     Bail ''invalid V3 price/slippage'', Bail ''V3 liquidity exceeds uint128'',
     Panic ''assertion failed: min <= max''}"

lemma divide_errors: "divide n d up = Inl e \<Longrightarrow> e \<in> v3_errors"
  by (auto simp: divide_def narrow_def rbind_Inl ensure_Inl v3_errors_def)

lemma price_bounds_errors: "price_bounds sq bps = Inl e \<Longrightarrow> e \<in> v3_errors"
  by (auto simp: price_bounds_def price_at_def narrow_def extreme_prices rbind_Inl ensure_Inl v3_errors_def)

lemma range_amounts_errors: "range_amounts r sq l up = Inl e \<Longrightarrow> e \<in> v3_errors"
  by (auto simp: range_amounts_def rbind_Inl ensure_Inl dest: divide_errors)
    (auto simp: v3_errors_def wclamp_def split: if_splits)

lemma range_liquidity_errors: "range_liquidity r sq x y = Inl e \<Longrightarrow> e \<in> v3_errors"
  by (auto simp: range_liquidity_def rbind_Inl ensure_Inl liq0_def liq1_def dest: divide_errors split: if_splits)
    (auto simp: v3_errors_def)

lemma range_minimums_errors: "range_minimums r sq l bps up = Inl e \<Longrightarrow> e \<in> v3_errors"
  by (auto simp: range_minimums_def rbind_Inl dest: range_amounts_errors price_bounds_errors)

text \<open>
  For a range between two ticks, the last check of the minimum amounts of a mint never fires:
  the minimums are at most the planned amounts, and at least one of them is positive.
\<close>

theorem mint_minimums_within:
  assumes "range_new lt ut = Inr r"
  shows "mint_minimums r sq amount0 amount1 bps \<noteq> Inl (Bail ''invalid LP minimum amounts'')
    \<and> (mint_minimums r sq amount0 amount1 bps = Inr (m0, m1)
        \<longrightarrow> m0 \<le> amount0 \<and> m1 \<le> amount1 \<and> (0 < m0 \<or> 0 < m1))"
proof -
  note r = range_new_ok [OF assms]
  have K: "fst mins \<le> amount0 \<and> snd mins \<le> amount1"
    if c: "range_contains r sq" and l: "range_liquidity r sq amount0 amount1 = Inr l"
      and m: "range_minimums r sq l bps True = Inr mins" for l mins
  proof -
    obtain lo hi n0 n1 where p: "price_bounds sq bps = Inr (lo, hi)"
      and h: "range_amounts r hi l True = Inr (fst mins, n1)" "range_amounts r lo l True = Inr (n0, snd mins)"
      using m by (auto simp: range_minimums_def)
    have "4295128739 < uint sq" using r c by (simp add: range_ok_def range_contains_def word_less_def)
    then have o: "uint sq \<le> uint hi" "uint lo \<le> uint sq" using price_bounds_order [OF p] by auto
    have "amount0_at r hi l True \<le> amount0_at r sq l True" "amount1_at r lo l True \<le> amount1_at r sq l True"
      using amount0_antimono [OF r o(1)] amount1_mono [OF r o(2)] by auto
    then have "uint (fst mins) \<le> uint amount0" "uint (snd mins) \<le> uint amount1"
      using range_amounts_Inr(1) [OF r h(1)] range_amounts_Inr(2) [OF r h(2)] liquidity_within [OF r c l, of True]
      by linarith+
    then show ?thesis by (simp add: word_le_def)
  qed
  have "Bail ''invalid LP minimum amounts'' \<notin> v3_errors" by (simp add: v3_errors_def)
  then show ?thesis
    using K range_liquidity_errors range_minimums_errors
    by (fastforce simp: mint_minimums_def rbind_Inl ensure_Inl)
qed

end
