(* ===== verification/V3_Exec_Facts.thy ===== *)
theory V3_Exec_Facts
  imports V3_Exec V3_Props
begin

text \<open>
  What the executor's arithmetic guarantees: the dust limit and its proof object, the fitting of a
  mint to the balances, the encoding of ticks and the fees owed to a position.
\<close>

section \<open>Dust\<close>

definition dust_num :: "u256 \<Rightarrow> u256 \<Rightarrow> bool \<Rightarrow> int" where
  "dust_num raw sq base0 = (if base0 then uint raw * (uint sq * uint sq) else uint raw * 2 ^ 192)"

definition dust_den :: "u256 \<Rightarrow> bool \<Rightarrow> int" where
  "dust_den sq base0 = (if base0 then 2 ^ 192 else uint sq * uint sq)"

lemma checked_mul_uint: "checked_mul a b = Some c \<Longrightarrow> uint c = uint (a :: u512) * uint b"
  using checked_mul_Some [of a b c] by (metis int_nat_eq of_nat_mult uint_nat)

lemma dust_ratio_uint:
  assumes "dust_ratio (widen raw) (widen sq) base0 = Inr (n, d)"
  shows "uint n = dust_num raw sq base0" "uint d = dust_den sq base0"
  using assms checked_mul_uint
  by (auto simp: dust_ratio_def dust_num_def dust_den_def Let_def split: if_splits dest!: checked_mul_uint)

lemma base_limit_uint:
  assumes "decimals \<le> 36" shows "uint (base_limit decimals) = 10 ^ unat decimals div 100000000"
proof -
  have d: "unat decimals \<le> 36" using assms by (simp add: word_le_nat_alt)
  have w: "(10 :: u256) ^ n = word_of_int (10 ^ n)" for n
    by (induction n) (simp_all add: wi_hom_mult)
  have "(10 :: int) ^ unat decimals \<le> 10 ^ 36" by (rule power_increasing [OF d]) simp
  then have "uint ((10 :: u256) ^ unat decimals) = 10 ^ unat decimals"
    unfolding w by (intro uint_of_small) simp_all
  then show ?thesis by (simp add: base_limit_def uint_div_distrib)
qed

text \<open>
  What counts as dust is worth next to nothing: a positive amount of at most one part in a hundred million of a base
  token whose exact value at the pool's price, rounded up, is the ceiling recorded, at most two
  units of the quote token. A price outside V3's prices never yields dust, and no input panics.
\<close>

theorem dust_limit:
  "(within_limit raw decimals sq base0 = Inr (Some c) \<longrightarrow>
      0 < uint raw \<and> uint raw \<le> 10 ^ unat decimals div 100000000
      \<and> uint c \<le> 2 \<and> dust_num raw sq base0 \<le> uint c * dust_den sq base0
      \<and> (uint c - 1) * dust_den sq base0 < dust_num raw sq base0
      \<and> 4295128739 \<le> sq \<and> sq < 1461446703485210103287273052203988822378723970342)
   \<and> within_limit raw decimals sq base0 \<noteq> Inl (Panic msg)"
proof (intro conjI impI)
  assume "within_limit raw decimals sq base0 = Inr (Some c)"
  then obtain n d where W: "decimals \<le> 36" "raw \<noteq> 0" "raw \<le> base_limit decimals"
    "4295128739 \<le> sq" "sq < 1461446703485210103287273052203988822378723970342"
    "dust_ratio (widen raw) (widen sq) base0 = Inr (n, d)" "d \<noteq> 0"
    "n div d + of_bool (n mod d \<noteq> 0) \<le> 2" "c = ucast (n div d + of_bool (n mod d \<noteq> 0))"
    by (auto simp: within_limit_def extreme_prices quote_atoms_def Let_def not_less split: if_splits prod.splits)
  note nd = dust_ratio_uint [OF W(6)]
  have d: "0 < uint d" using W(7) by (metis uint_0_iff uint_ge_0 order_le_less)
  obtain w where w: "divide n d True = narrow w" "uint w = idiv (uint n) (uint d) True"
    using divide_word [OF d] by blast
  have e: "uint (n div d + of_bool (n mod d \<noteq> 0)) = idiv (uint n) (uint d) True"
  proof -
    have "d \<noteq> 0 \<Longrightarrow> divide n d True = narrow (n div d + of_bool (n mod d \<noteq> 0))"
      by (simp add: divide_def word_neq_0_conv)
    have "n mod d = 0 \<longleftrightarrow> uint n mod uint d = 0" by (metis uint_mod_distrib uint_0_iff)
    moreover have "uint n div uint d + 1 < 2 ^ LENGTH(512)" if "n mod d \<noteq> 0"
    proof -
      have "idiv (uint n) (uint d) True \<le> uint n" using d by (intro idiv_le_self) auto
      then show ?thesis using that calculation uint_bound512 [of n] by (simp add: idiv_def)
    qed
    then have "uint (n div d + 1) = uint n div uint d + 1" if "n mod d \<noteq> 0"
      using that uint_add_lem [of "n div d" "1 :: u512"] by (simp add: uint_div_distrib)
    ultimately show ?thesis by (auto simp: idiv_def uint_div_distrib)
  qed
  have c2: "idiv (uint n) (uint d) True \<le> 2" using W(8) e by (simp add: word_le_def)
  have "0 \<le> idiv (uint n) (uint d) True" using d by (intro idiv_nonneg) auto
  then have c: "uint c = idiv (uint n) (uint d) True"
    unfolding W(9) using c2 e by (simp add: unsigned_ucast_eq take_bit_int_eq_self_iff)
  show "0 < uint raw" using W(2) by (metis uint_0_iff uint_ge_0 order_le_less)
  show "uint raw \<le> 10 ^ unat decimals div 100000000"
    using W(3) base_limit_uint [OF W(1)] by (simp add: word_le_def)
  show "uint c \<le> 2" using c c2 by simp
  show "dust_num raw sq base0 \<le> uint c * dust_den sq base0"
    using idiv_le_iff_up [OF d, of "uint n" "uint c"] c nd by simp
  show "(uint c - 1) * dust_den sq base0 < dust_num raw sq base0"
    using idiv_le_iff_up [OF d, of "uint n" "uint c - 1"] c nd by simp
  show "4295128739 \<le> sq" "sq < 1461446703485210103287273052203988822378723970342" by (fact W)+
next
  show "within_limit raw decimals sq base0 \<noteq> Inl (Panic msg)"
    by (auto simp: within_limit_def extreme_prices dust_ratio_def rbind_Inl ensure_Inl context_opt_def Let_def
        split: if_splits prod.splits option.splits)
qed

text \<open>
  C38: a dust proof made from an observation is accepted for exactly the balance it was made for,
  whenever the text form of integers is faithful; any other balance is refused.
\<close>

theorem dust_roundtrip:
  assumes "dust_assess tx cfg snap balance = Inr (Some d)" "\<And>x. ut_parse tx (ut_show tx x) = Inr x"
  shows "dust_validate tx d b = (if b = balance then Inr () else Inl (Bail ''dust proof balance changed''))"
proof -
  obtain sq c where *: "parse_sqrt tx (ps_sqrt_price_x96 snap) = Inr sq"
    "within_limit balance (lq_base_decimals cfg) sq (ps_base_is_token0 snap) = Inr (Some c)"
    "d = \<lparr>bd_raw_base = ut_show tx balance, bd_raw_quote_ceiling = ut_show tx c,
          bd_base_decimals = lq_base_decimals cfg, bd_quote_decimals = lq_quote_decimals cfg,
          bd_sqrt_price_x96 = ps_sqrt_price_x96 snap, bd_base_is_token0 = ps_base_is_token0 snap,
          bd_block = ps_block snap, bd_block_hash = ps_block_hash snap, bd_time_ms = ps_time_ms snap\<rparr>"
    using assms(1) by (auto simp: dust_assess_def)
  then show ?thesis using assms(2) by (auto simp: dust_validate_def ensure_def)
qed

section \<open>Balances\<close>

lemma scale_amount_Inr:
  assumes "0 < wanted" "available \<le> wanted"
  shows "\<exists>y. scale_amount x available wanted = Inr y \<and> uint y = uint x * uint available div uint wanted"
proof -
  have d: "0 < uint wanted" using assms(1) by (simp add: word_less_def)
  have a: "uint available \<le> uint wanted" using assms(2) by (simp add: word_le_def)
  have n: "uint x * uint available < 2 ^ 512"
    using mult_less_pow [OF _ uint_bound256 _ uint_bound256, of x available] by simp
  then have q: "uint (widen x * widen available div widen wanted) = uint x * uint available div uint wanted"
    by (simp add: uint_div_distrib uint_mult_512)
  have "uint x * uint available div uint wanted \<le> uint x * uint wanted div uint wanted"
    using a d by (intro zdiv_mono1 mult_left_mono) auto
  then have le: "uint x * uint available div uint wanted \<le> uint x" using d by simp
  have "0 \<le> uint x * uint available div uint wanted" using d by (simp add: pos_imp_zdiv_nonneg_iff)
  then have "uint (ucast (widen x * widen available div widen wanted) :: u256)
      = uint x * uint available div uint wanted"
    using le uint_bound256 [of x] by (simp add: unsigned_ucast_eq take_bit_int_eq_self_iff q)
  moreover have "widen wanted \<noteq> 0" using d uint_widen [of wanted] by (metis uint_0_iff order_less_irrefl)
  moreover have "widen x * widen available div widen wanted \<le> widen (- 1)"
    using le uint_bound256 [of x] unfolding word_le_def q uint_max256 by simp
  ultimately show ?thesis by (simp add: scale_amount_def udiv_def fit256_def)
qed

text \<open>
  Fitting a mint to the wallet never plans more than the wallet holds nor more than was asked,
  keeps both amounts positive, changes nothing when the wallet suffices, and cannot panic.
\<close>

theorem fit_balances_within:
  "(fit_balances base quote ab aq = Inr (b, q) \<longrightarrow>
      0 < b \<and> 0 < q \<and> b \<le> ab \<and> q \<le> aq \<and> b \<le> base \<and> q \<le> quote
      \<and> (base \<le> ab \<and> quote \<le> aq \<longrightarrow> b = base \<and> q = quote))
   \<and> fit_balances base quote ab aq \<noteq> Inl (Panic msg)"
proof (cases "0 < base \<and> 0 < quote")
  case pos: True
  have scaled: "\<exists>y. scale_amount x a w = Inr y \<and> y \<le> x" if "a < w" for x a w :: u256
  proof -
    have w: "0 < w" "a \<le> w" using that by (auto simp: word_less_def word_le_def intro: order_le_less_trans [OF uint_ge_0])
    obtain y where y: "scale_amount x a w = Inr y" "uint y = uint x * uint a div uint w"
      using scale_amount_Inr [OF w] by blast
    have "uint x * uint a div uint w \<le> uint x * uint w div uint w"
      using w(2) by (intro zdiv_mono1 mult_left_mono) (use w in \<open>auto simp: word_le_def word_less_def\<close>)
    then show ?thesis using y w(1) by (auto simp: word_le_def word_less_def)
  qed
  define b1q1 where "b1q1 = (if ab < base then rbind (scale_amount quote ab base) (\<lambda>q. Inr (ab, q)) else Inr (base, quote))"
  obtain b1 q1 where 1: "b1q1 = Inr (b1, q1)" "b1 \<le> ab" "b1 \<le> base" "q1 \<le> quote"
    "base \<le> ab \<longrightarrow> b1 = base \<and> q1 = quote"
  proof (cases "ab < base")
    case True
    obtain y where "scale_amount quote ab base = Inr y" "y \<le> quote" using scaled [OF True] by blast
    then show ?thesis using that [of ab y] True not_le [THEN iffD2, OF True] by (auto simp: b1q1_def less_imp_le)
  next
    case False
    then show ?thesis using that [of base quote] not_less [THEN iffD1, OF False] by (simp add: b1q1_def)
  qed
  obtain b2 q2 where 2: "(if aq < q1 then rbind (scale_amount b1 aq q1) (\<lambda>b. Inr (b, aq)) else Inr (b1, q1)) = Inr (b2, q2)"
    "b2 \<le> b1" "q2 \<le> aq" "q2 \<le> q1" "q1 \<le> aq \<longrightarrow> b2 = b1 \<and> q2 = q1"
  proof (cases "aq < q1")
    case True
    obtain y where "scale_amount b1 aq q1 = Inr y" "y \<le> b1" using scaled [OF True] by blast
    then show ?thesis using that [of y aq] True not_le [THEN iffD2, OF True] by (auto simp: less_imp_le)
  next
    case False
    then show ?thesis using that [of b1 q1] not_less [THEN iffD1, OF False] by simp
  qed
  have e: "fit_balances base quote ab aq
    = rbind (ensure (0 < b2 \<and> 0 < q2) ''insufficient token balances for mint'') (\<lambda>_. Inr (b2, q2))"
    using pos 1(1) 2(1) by (simp add: fit_balances_def b1q1_def [symmetric])
  have o: "b2 \<le> ab" "b2 \<le> base" "q2 \<le> quote" using 1(2-4) 2(2,4) by (meson order_trans)+
  have k: "base \<le> ab \<and> quote \<le> aq \<longrightarrow> b2 = base \<and> q2 = quote" using 1(5) 2(5) by blast
  show ?thesis
  proof (cases "0 < b2 \<and> 0 < q2")
    case True
    then show ?thesis unfolding e using o k 2(3) by auto
  next
    case False
    then show ?thesis unfolding e ensure_def by auto
  qed
next
  case False
  then show ?thesis by (auto simp: fit_balances_def rbind_Inl ensure_Inl)
qed

text \<open>A requested amount is never raised, and exceeds the balance by a rounding at most.\<close>

lemma bounded_amount_le:
  assumes "bounded_amount tx dec amount decimals balance = Inr x"
  shows "x \<le> balance" "\<exists>r. raw_units tx dec amount decimals = Inr r \<and> x \<le> r \<and> r - x \<le> balance div 1000000000000 + 2"
  using assms by (auto simp: bounded_amount_def split: if_splits)

section \<open>Ticks on the wire\<close>

text \<open>
  A tick survives the encoding as a contract argument and the decoding of a contract answer:
  every 24-bit tick, negative or not, is read back as it was written.
\<close>

theorem tick_word_roundtrip:
  assumes "- (2 ^ 23) \<le> t" "t < 2 ^ 23"
  shows "signed_tick (tick_word t) = t"
proof -
  have m: "(0xffffff :: u256) = mask 24" by (simp add: mask_eq_exp_minus_1)
  have w: "tick_word t = word_of_int t"
    by (simp add: tick_word_def)
  have "uint (tick_word t AND 0xffffff) = take_bit 24 t"
    unfolding w m take_bit_eq_mask [symmetric] unsigned_take_bit_eq unsigned_of_int by simp
  moreover have "take_bit 24 t = (if t < 0 then t + 2 ^ 24 else t)"
  proof (cases "t < 0")
    case True
    have "t mod 2 ^ 24 = (t + 2 ^ 24) mod 2 ^ 24" by simp
    also have "\<dots> = t + 2 ^ 24" using True assms(1) by (intro mod_pos_pos_trivial) simp_all
    finally show ?thesis using True by (simp add: take_bit_eq_mod)
  qed (use assms in \<open>simp add: take_bit_int_eq_self\<close>)
  moreover have "bit (t + 2 ^ 24) 23" if "t < 0"
  proof -
    have "(t + 2 ^ 24) div 2 ^ 23 = 1"
      using that assms(1) by (intro int_div_pos_eq [of _ _ _ "t + 2 ^ 23"]) simp_all
    then show ?thesis by (simp only: bit_iff_odd) simp
  qed
  moreover have "\<not> bit t 23" if "\<not> t < 0"
    using that assms(2) by (simp add: bit_iff_odd div_pos_pos_trivial)
  ultimately show ?thesis by (auto simp: signed_tick_def Let_def)
qed

section \<open>Fee growth\<close>

text \<open>
  C37: The fees owed to a position follow the pool's fee growth exactly while the tick is inside
  the range: growth of the global accumulator, wrapping or not, adds the same growth inside the
  range when the tick is inside it, and nothing when the tick is outside.
\<close>

theorem fee_growth_inside:
  assumes "lower < upper"
  shows "growth_inside tick lower upper (global + delta) ol ou
    = growth_inside tick lower upper global ol ou + (if lower \<le> tick \<and> tick < upper then delta else 0)"
  using assms by (auto simp: growth_inside_def Let_def algebra_simps)

end
