(* ===== verification/V3_Samples.thy ===== *)
theory V3_Samples
  imports V3_Exec_Facts
begin

text \<open>The theorems about V3 arithmetic applied to concrete ranges, prices and balances.\<close>

section \<open>Witnesses\<close>

text \<open>A range of 600 ticks on either side of the price one, with one percent of slippage.\<close>

definition sample_range :: vrange where
  "sample_range = \<lparr>rg_lower = 76886731765546235930195592750, rg_upper = 81640896826356156310682304526\<rparr>"

lemma sample_ok: "range_ok \<lparr>rg_lower = 76886731765546235930195592750, rg_upper = 81640896826356156310682304526\<rparr>"
  by (simp add: range_ok_def)

lemma sample_range_new: "range_new (- 600) 600 = Inr sample_range"
  by code_simp

lemma sample_price:
  "price_at 79228162514264337593543950336 10100 = Inr 79623317895830914510639640423"
  "price_at 79228162514264337593543950336 9900 = Inr 78831026366734652303669917531"
  by code_simp+

lemma sample_bounds:
  "price_bounds 79228162514264337593543950336 100
    = Inr (78831026366734652303669917531, 79623317895830914510639640423)"
  by (simp add: price_bounds_def extreme_prices sample_price wmax_def wmin_def)

lemma sample_amounts:
  "range_amounts sample_range 78831026366734652303669917531 1000000 True = Inr (34591, 24541)"
  "range_amounts sample_range 79623317895830914510639640423 1000000 True = Inr (24591, 34541)"
  by (simp_all add: range_amounts_eval sample_ok amount0_at_def amount1_at_def clamp_price_def
      idiv_def sample_range_def u128_max_def)

lemma sample_amounts_mint:
  "range_amounts sample_range 78831026366734652303669917531 33837499 True = Inr (1170468, 830388)"
  "range_amounts sample_range 79623317895830914510639640423 33837499 True = Inr (832071, 1168767)"
  by (simp_all add: range_amounts_eval sample_ok amount0_at_def amount1_at_def clamp_price_def
      idiv_def sample_range_def u128_max_def)

lemma sample_minimums:
  "range_minimums sample_range 79228162514264337593543950336 1000000 100 True = Inr (24591, 24541)"
  "range_minimums sample_range 79228162514264337593543950336 33837499 100 True = Inr (832071, 830388)"
  by (simp_all add: range_minimums_def sample_bounds sample_amounts sample_amounts_mint)

lemma sample_mint:
  "mint_minimums sample_range 79228162514264337593543950336 1000000 1000000 100 = Inr (832071, 830388)"
proof -
  have "range_liquidity sample_range 79228162514264337593543950336 1000000 1000000 = Inr 33837499"
  proof -
    have "liq0 1000000 79228162514264337593543950336 81640896826356156310682304526 = Inr 33837499"
      unfolding liq0_def
      by (rule divide_eval) (simp_all add: uint_sub_le uint_mult_512 uint_div_distrib idiv_def)
    moreover have "liq1 1000000 76886731765546235930195592750 79228162514264337593543950336 = Inr 33837499"
      unfolding liq1_def
      by (rule divide_eval) (simp_all add: uint_sub_le uint_mult_512 uint_div_distrib idiv_def)
    ultimately show ?thesis
      by (simp add: range_liquidity_def sample_range_def wmin_def u128_max_def)
  qed
  moreover have "range_contains sample_range 79228162514264337593543950336"
    by (simp add: range_contains_def sample_range_def)
  ultimately show ?thesis by (simp add: mint_minimums_def sample_minimums)
qed

theorem price_bounds_tight_witness:
  "(79623317895830914510639640423 :: int) * 79623317895830914510639640423 * 10000
    \<le> 79228162514264337593543950336 * 79228162514264337593543950336 * 10100"
  using price_bounds_tight [OF sample_bounds] by simp

theorem minimums_hold_witness:
  "\<exists>a0 a1. range_amounts sample_range 79000000000000000000000000000 1000000 True = Inr (a0, a1)
    \<and> 24591 \<le> a0 \<and> 24541 \<le> a1"
  by (rule minimums_hold [OF sample_range_new sample_minimums(1) sample_bounds]) simp_all

theorem mint_minimums_within_witness:
  "(832071 :: u256) \<le> 1000000 \<and> (830388 :: u256) \<le> 1000000"
  using mint_minimums_within [OF sample_range_new, of 79228162514264337593543950336 1000000 1000000 100 832071 830388]
    sample_mint by blast

section \<open>Balances, dust and ticks\<close>

text \<open>Decimal text, read back digit by digit.\<close>

definition read_decimal :: "string \<Rightarrow> u256 res" where
  "read_decimal s = Inr (word_of_int (foldl (\<lambda>n c. n * 10 + (of_char c - 48)) 0 s))"

definition decimal_text :: u256_text where
  "decimal_text = \<lparr>ut_parse = read_decimal, ut_show = show_word\<rparr>"

lemma foldl_show_int:
  "0 \<le> n \<Longrightarrow> foldl (\<lambda>n c. n * 10 + (of_char c - 48 :: int)) 0 (show_int n) = n"
proof (induction n rule: show_int.induct)
  case (1 n)
  have d: "of_char (digit_char k) - 48 = k" if "0 \<le> k" "k < 10" for k :: int
    using that unfolding digit_char_def of_nat_of_char [where 'a = int, symmetric] of_char_of by simp
  show ?case
  proof (cases "n < 10")
    case True
    then show ?thesis using 1(2) d by (subst show_int.simps) simp
  next
    case False
    then have "0 \<le> n div 10" using 1(2) by (simp add: pos_imp_zdiv_nonneg_iff)
    then show ?thesis using False 1 d [of "n mod 10"] by (subst show_int.simps) simp
  qed
qed

lemma decimal_faithful: "ut_parse decimal_text (ut_show decimal_text x) = Inr x"
  by (simp add: decimal_text_def read_decimal_def show_word_def foldl_show_int)

lemma dust_sample: "within_limit 2 18 79228162514264337593543950336 True = Inr (Some 2)"
proof -
  have "checked_mul (2 :: u512) 6277101735386680763835789423207666416102355444464034512896
      = Some 12554203470773361527671578846415332832204710888928069025792"
    "checked_mul (79228162514264337593543950336 :: u512) 79228162514264337593543950336
      = Some 6277101735386680763835789423207666416102355444464034512896" by code_simp+
  then show "within_limit 2 18 79228162514264337593543950336 True = Inr (Some 2)"
    by (simp add: within_limit_def extreme_prices base_limit_def dust_ratio_def quote_atoms_def widen_def)
qed

theorem dust_limit_witness: "dust_num 2 79228162514264337593543950336 True \<le> 2 * dust_den 79228162514264337593543950336 True"
  using dust_sample dust_limit [of 2 18 79228162514264337593543950336 True 2 "[]"] by simp

definition sample_liquidity :: liquidity_config where
  "sample_liquidity = \<lparr>lq_kind = ''uniswap_v3'', lq_chain_id = 8453, lq_rpc_url = ''https://rpc'',
     lq_archive_rpc_url = None, lq_rpc_min_interval_ms = 250, lq_ws_url = ''wss://rpc'', lq_owner = None,
     lq_nonce_refresh_seconds = 30, lq_pending_warn_seconds = 120, lq_pool = ''0x1'', lq_factory = ''0x2'',
     lq_position_manager = ''0x3'', lq_swap_router = ''0x4'', lq_base_token = ''0x5'',
     lq_quote_token = ''0x6'', lq_base_decimals = 18, lq_quote_decimals = 6, lq_fee = 3000,
     lq_private_key_env = ''KEY'', lq_confirmations = 2, lq_slippage_bps = 100,
     lq_deadline_seconds = 60, lq_max_gas_native = 0, lq_gas_fee_buffer_bps = 2500,
     lq_gas_limit_buffer_bps = 2500, lq_max_quote_age_seconds = 10\<rparr>"

theorem dust_roundtrip_witness:
  "dust_validate decimal_text \<lparr>bd_raw_base = ''2'', bd_raw_quote_ceiling = ''2'', bd_base_decimals = 18,
     bd_quote_decimals = 6, bd_sqrt_price_x96 = ''79228162514264337593543950336'',
     bd_base_is_token0 = True, bd_block = 7, bd_block_hash = ''h'', bd_time_ms = 9\<rparr> 3
   = Inl (Bail ''dust proof balance changed'')"
  (is "dust_validate _ ?d _ = _")
proof -
  let ?s = "\<lparr>ps_block = 7, ps_block_hash = ''h'', ps_time_ms = 9, ps_price = 1, ps_tick = 0,
    ps_tick_spacing = 1, ps_liquidity = ''0'', ps_sqrt_price_x96 = ''79228162514264337593543950336'',
    ps_base_is_token0 = True\<rparr>"
  have p: "parse_sqrt decimal_text ''79228162514264337593543950336'' = Inr 79228162514264337593543950336"
    by code_simp
  have t: "ut_show decimal_text 2 = ''2''" by code_simp
  have "dust_assess decimal_text sample_liquidity ?s 2 = Inr (Some ?d)"
    by (simp add: dust_assess_def sample_liquidity_def p t dust_sample)
  from dust_roundtrip [OF this decimal_faithful, of 3] show ?thesis by simp
qed

theorem fit_balances_within_witness: "(50 :: u256) \<le> 50 \<and> (100 :: u256) \<le> 1000"
proof -
  have "fit_balances 100 200 50 1000 = Inr (50, 100)" by code_simp
  with fit_balances_within [of 100 200 50 1000 50 100 "[]"] show ?thesis by blast
qed

theorem tick_word_roundtrip_witness: "signed_tick (tick_word (- 200)) = - 200"
  by (rule tick_word_roundtrip) simp_all

theorem fee_growth_inside_witness:
  "growth_inside 5 0 10 (- 1 + 3) 1 1 = growth_inside 5 0 10 (- 1) 1 1 + 3"
  using fee_growth_inside [of 0 10 5 "- 1" 3 1 1] by simp

end
