(* ===== verification/State_Docs.thy ===== *)
theory State_Docs
  imports Strategy_State
begin

text \<open>
  The documents besides orders and nonces that outlive the process: the simulated ledger
  (\<open>src/engine/paper.rs\<close>), the checkpoint of a cycle (\<open>src/recovery.rs\<close>) and the permit for one
  re-entry (\<open>src/engine/entry_rearm.rs\<close>).
\<close>

record paper_order =
  po_target :: f64
  po_buy :: bool
  po_price :: f64
  po_submitted :: u64
  po_emergency :: bool

record paper =
  pp_portfolio :: portfolio
  pp_last_hedge_price :: f64
  pp_pending :: "paper_order option"
  pp_hedge_fees :: f64
  pp_swap_costs :: f64
  pp_funding_pnl :: f64
  pp_last_funding_ms :: u64

record checkpoint =
  cp_schema :: u32
  cp_saved_ms :: u64
  cp_mode :: mode
  cp_strategy :: strategy
  cp_paper :: "paper option"

datatype permit_status = Armed | Consumed | Canceled

record permit =
  pm_schema :: u32
  pm_id :: string
  pm_binding :: string
  pm_requested_ms :: u64
  pm_status :: permit_status
  pm_updated_ms :: u64

end
