(* ===== verification/Store.thy ===== *)
theory Store
  imports State_Docs "HOL-Library.List_Lexorder" "HOL-Library.Char_ord" "HOL-Library.Product_Lexorder"
begin

text \<open>
  The durable state directory (\<open>src/store.rs\<close>): named documents replaced atomically, the rotating
  event log, the immutable order archive, the slot of the one pending operation and the exchange
  nonce. A store operation is a function from the store to a result and the store it leaves, also
  when it fails. The host is a parameter: its clock, its identifiers, its free space and the
  outcome of each file operation, which may fail before or after its effect.
\<close>

section \<open>Documents\<close>

record nonce_state =
  ns_chain_id :: u64
  ns_owner :: string
  ns_latest :: u64
  ns_pending :: u64
  ns_next_floor :: u64
  ns_checked_ms :: u64
  ns_inflight :: "json option"

record order =
  or_cloid :: string
  or_oid :: "u64 option"
  or_user :: string
  or_managed_hedge :: bool
  or_submitted_ms :: u64
  or_observed_ms :: u64
  or_wire :: json
  or_status :: string
  or_terminal :: bool
  or_exchange :: json

text \<open>A \<open>BTreeMap\<close> is its entries in the order of the keys.\<close>

type_synonym orders = "(string \<times> order) list"

text \<open>
  A document holds one value. \<open>Doc_broken\<close> is a text that does not read back, which the rendering of a
  value with numbers may be.
\<close>

datatype doc =
    Doc_json json
  | Doc_u64 u64
  | Doc_nonce nonce_state
  | Doc_orders orders
  | Doc_f64 f64
  | Doc_text string
  | Doc_ids "(string \<times> string) list"
  | Doc_strategy strategy
  | Doc_paper paper
  | Doc_checkpoint checkpoint
  | Doc_permit permit
  | Doc_broken

text \<open>The text \<open>null\<close> counts as no document.\<close>

fun is_null_doc :: "doc \<Rightarrow> bool" where
  "is_null_doc (Doc_json JNull) = True"
| "is_null_doc _ = False"

lemma is_null_doc_iff [simp]: "is_null_doc d \<longleftrightarrow> d = Doc_json JNull"
  by (cases d rule: is_null_doc.cases) auto

section \<open>The store and its host\<close>

text \<open>
  \<open>sv_tick\<close> counts the effects of the run and indexes the answers of the environment; \<open>sv_sent\<close> is the
  observer's record of the signed requests handed to the exchange. No operation reads either.
\<close>

datatype io = Io_ok | Io_lost | Io_unsure

record host =
  ho_clock :: "nat \<Rightarrow> u64"
  ho_uuid :: "nat \<Rightarrow> string"
  ho_io :: "nat \<Rightarrow> io"
  ho_free :: "nat \<Rightarrow> u64 res"
  ho_doc_len :: "doc \<Rightarrow> u64"
  ho_event_len :: "u64 \<Rightarrow> string \<Rightarrow> json \<Rightarrow> u64"
  ho_hex :: "string \<Rightarrow> bool"
  ho_hash :: "string \<Rightarrow> string res"
  ho_reload :: "doc \<Rightarrow> doc"

record store =
  sv_writable :: bool
  sv_policy :: storage_config
  sv_files :: "(string \<times> doc) list"
  sv_log :: "(u64 \<times> string \<times> json) list"
  sv_active :: u64
  sv_segments :: "string list"
  sv_archive_bytes :: "u64 option"
  sv_tick :: nat
  sv_sent :: "json list"

type_synonym 'a st = "store \<Rightarrow> 'a res \<times> store"

definition sbind :: "'a st \<Rightarrow> ('a \<Rightarrow> 'b st) \<Rightarrow> 'b st" where
  "sbind m k s = (case m s of (Inl e, s') \<Rightarrow> (Inl e, s') | (Inr x, s') \<Rightarrow> k x s')"

definition slift :: "'a res \<Rightarrow> 'a st" where
  "slift r s = (r, s)"

definition sget :: "(store \<Rightarrow> 'a) \<Rightarrow> 'a st" where
  "sget f s = (Inr (f s), s)"

definition sread :: "(store \<Rightarrow> 'a res) \<Rightarrow> 'a st" where
  "sread f s = (f s, s)"

definition host_now :: "host \<Rightarrow> u64 st" where
  "host_now h s = (Inr (ho_clock h (sv_tick s)), s\<lparr>sv_tick := Suc (sv_tick s)\<rparr>)"

text \<open>One file operation: done, failed without effect, or failed after its effect.\<close>

definition do_io :: "host \<Rightarrow> string \<Rightarrow> (store \<Rightarrow> store) \<Rightarrow> unit st" where
  "do_io h msg f s =
     (let s' = s\<lparr>sv_tick := Suc (sv_tick s)\<rparr> in
      case ho_io h (sv_tick s) of
        Io_ok \<Rightarrow> (Inr (), f s')
      | Io_lost \<Rightarrow> (Inl (Bail msg), s')
      | Io_unsure \<Rightarrow> (Inl (Bail msg), f s'))"

text \<open>Opening for writing takes the process lock; a read-only view takes none and uses the default policy.\<close>

definition store_open :: "storage_config \<Rightarrow> bool \<Rightarrow> store \<Rightarrow> store res" where
  "store_open policy lock_free disk =
     rbind (ensure (0 < so_event_segment_bytes policy \<and> 0 < so_event_retained_segments policy
         \<and> 0 < so_terminal_orders_keep policy \<and> 0 < so_order_archive_max_bytes policy)
       ''invalid store policy'') (\<lambda>_.
     rbind (ensure lock_free ''state directory already in use'') (\<lambda>_.
       Inr (disk\<lparr>sv_writable := True, sv_policy := policy, sv_archive_bytes := None\<rparr>)))"

definition store_readonly :: "store \<Rightarrow> store" where
  "store_readonly disk =
     disk\<lparr>sv_writable := False, sv_policy := storage_config_default, sv_archive_bytes := None\<rparr>"

section \<open>Reading and writing\<close>

definition find_doc :: "string \<Rightarrow> store \<Rightarrow> doc option" where
  "find_doc name s =
     (case map_of (sv_files s) name of
        None \<Rightarrow> None
      | Some d \<Rightarrow> if is_null_doc d then None else Some d)"

definition read_json :: "string \<Rightarrow> store \<Rightarrow> json option res" where
  "read_json name s =
     (case find_doc name s of
        None \<Rightarrow> Inr None
      | Some (Doc_json v) \<Rightarrow> Inr (Some v)
      | Some _ \<Rightarrow> Inl (Bail ''invalid type''))"

definition read_u64 :: "string \<Rightarrow> store \<Rightarrow> u64 option res" where
  "read_u64 name s =
     (case find_doc name s of
        None \<Rightarrow> Inr None
      | Some (Doc_u64 n) \<Rightarrow> Inr (Some n)
      | Some _ \<Rightarrow> Inl (Bail ''invalid type''))"

definition read_nonce :: "string \<Rightarrow> store \<Rightarrow> nonce_state option res" where
  "read_nonce name s =
     (case find_doc name s of
        None \<Rightarrow> Inr None
      | Some (Doc_nonce n) \<Rightarrow> Inr (Some n)
      | Some _ \<Rightarrow> Inl (Bail ''invalid type''))"

definition read_orders :: "string \<Rightarrow> store \<Rightarrow> orders option res" where
  "read_orders name s =
     (case find_doc name s of
        None \<Rightarrow> Inr None
      | Some (Doc_orders m) \<Rightarrow> Inr (Some m)
      | Some _ \<Rightarrow> Inl (Bail ''invalid type''))"

definition read_f64 :: "string \<Rightarrow> store \<Rightarrow> f64 option res" where
  "read_f64 name s =
     (case find_doc name s of
        None \<Rightarrow> Inr None
      | Some (Doc_f64 x) \<Rightarrow> Inr (Some x)
      | Some _ \<Rightarrow> Inl (Bail ''invalid type''))"

definition read_text :: "string \<Rightarrow> store \<Rightarrow> string option res" where
  "read_text name s =
     (case find_doc name s of
        None \<Rightarrow> Inr None
      | Some (Doc_text x) \<Rightarrow> Inr (Some x)
      | Some _ \<Rightarrow> Inl (Bail ''invalid type''))"

definition read_ids :: "string \<Rightarrow> store \<Rightarrow> (string \<times> string) list option res" where
  "read_ids name s =
     (case find_doc name s of
        None \<Rightarrow> Inr None
      | Some (Doc_ids x) \<Rightarrow> Inr (Some x)
      | Some _ \<Rightarrow> Inl (Bail ''invalid type''))"

definition read_strategy :: "string \<Rightarrow> store \<Rightarrow> strategy option res" where
  "read_strategy name s =
     (case find_doc name s of
        None \<Rightarrow> Inr None
      | Some (Doc_strategy x) \<Rightarrow> Inr (Some x)
      | Some _ \<Rightarrow> Inl (Bail ''invalid type''))"

definition read_paper :: "string \<Rightarrow> store \<Rightarrow> paper option res" where
  "read_paper name s =
     (case find_doc name s of
        None \<Rightarrow> Inr None
      | Some (Doc_paper x) \<Rightarrow> Inr (Some x)
      | Some _ \<Rightarrow> Inl (Bail ''invalid type''))"

definition read_checkpoint :: "string \<Rightarrow> store \<Rightarrow> checkpoint option res" where
  "read_checkpoint name s =
     (case find_doc name s of
        None \<Rightarrow> Inr None
      | Some (Doc_checkpoint x) \<Rightarrow> Inr (Some x)
      | Some _ \<Rightarrow> Inl (Bail ''invalid type''))"

definition read_permit :: "string \<Rightarrow> store \<Rightarrow> permit option res" where
  "read_permit name s =
     (case find_doc name s of
        None \<Rightarrow> Inr None
      | Some (Doc_permit x) \<Rightarrow> Inr (Some x)
      | Some _ \<Rightarrow> Inl (Bail ''invalid type''))"

text \<open>Whether a file holds any document, as a read of an unspecified JSON value tells.\<close>

definition doc_present :: "string \<Rightarrow> store \<Rightarrow> bool res" where
  "doc_present name s =
     (case find_doc name s of None \<Rightarrow> Inr False | Some Doc_broken \<Rightarrow> Inl (Bail ''invalid document'') | Some _ \<Rightarrow> Inr True)"

definition put_doc :: "string \<Rightarrow> doc \<Rightarrow> store \<Rightarrow> store" where
  "put_doc name d s = s\<lparr>sv_files := assoc_put name d (sv_files s)\<rparr>"

definition store_write :: "host \<Rightarrow> string \<Rightarrow> doc \<Rightarrow> unit st" where
  "store_write h name d =
     sbind (sread (\<lambda>s. ensure (sv_writable s) ''read-only store cannot mutate state'')) (\<lambda>_.
     do_io h ''state write failed'' (put_doc name d))"

text \<open>
  A value with numbers is written as the text the JSON library renders; \<open>ho_reload\<close> is what that text
  reads back as.
\<close>

definition store_save :: "host \<Rightarrow> string \<Rightarrow> doc \<Rightarrow> unit st" where
  "store_save h name d = store_write h name (ho_reload h d)"

text \<open>Read, change and write back one document; a failing change writes nothing.\<close>

definition store_update ::
    "host \<Rightarrow> (string \<Rightarrow> store \<Rightarrow> 'a option res) \<Rightarrow> ('a \<Rightarrow> doc) \<Rightarrow> 'a \<Rightarrow> string \<Rightarrow> ('a \<Rightarrow> 'a st) \<Rightarrow> unit st" where
  "store_update h rd doc_of dflt name change =
     sbind (sread (rd name)) (\<lambda>v.
     sbind (change (case v of None \<Rightarrow> dflt | Some x \<Rightarrow> x)) (\<lambda>x.
     store_write h name (doc_of x)))"

section \<open>Events\<close>

text \<open>\<open>{:020}\<close>\<close>

definition pad20 :: "u64 \<Rightarrow> string" where
  "pad20 n = (let t = show_word n in replicate (20 - length t) (CHR ''0'') @ t)"

definition segment_name :: "u64 \<Rightarrow> string \<Rightarrow> string" where
  "segment_name now uuid = ''events-'' @ pad20 now @ ''-'' @ uuid @ ''.jsonl''"

definition prune_segments :: "host \<Rightarrow> unit st" where
  "prune_segments h =
     sbind (sget (\<lambda>s. length (sv_segments s) - so_event_retained_segments (sv_policy s))) (\<lambda>remove.
     if remove = 0 then slift (Inr ())
     else do_io h ''event prune failed'' (\<lambda>s. s\<lparr>sv_segments := drop remove (sort (sv_segments s))\<rparr>))"

definition rotate_events :: "host \<Rightarrow> u64 \<Rightarrow> unit st" where
  "rotate_events h extra =
     sbind (sget (\<lambda>s. (sv_active s, so_event_segment_bytes (sv_policy s), ho_uuid h (sv_tick s)))) (\<lambda>(size, limit, uuid).
     sbind (if 0 < size \<and> limit < sat_add size extra
            then sbind (host_now h) (\<lambda>now.
                 do_io h ''event rotation failed''
                   (\<lambda>s. s\<lparr>sv_segments := sv_segments s @ [segment_name now uuid], sv_active := 0\<rparr>))
            else slift (Inr ())) (\<lambda>_.
     prune_segments h))"

definition append_event :: "u64 \<Rightarrow> string \<Rightarrow> json \<Rightarrow> u64 \<Rightarrow> store \<Rightarrow> store" where
  "append_event now kind v len s = s\<lparr>sv_log := sv_log s @ [(now, kind, v)], sv_active := sv_active s + len\<rparr>"

definition store_event :: "host \<Rightarrow> string \<Rightarrow> json \<Rightarrow> unit st" where
  "store_event h kind v =
     sbind (sread (\<lambda>s. ensure (sv_writable s) ''read-only store cannot append events'')) (\<lambda>_.
     sbind (host_now h) (\<lambda>now.
     let len = ho_event_len h now kind v in
     sbind (sread (\<lambda>s. ensure (len \<le> so_event_segment_bytes (sv_policy s)) ''event exceeds segment capacity'')) (\<lambda>_.
     sbind (rotate_events h len) (\<lambda>_.
     do_io h ''event append failed'' (append_event now kind v len)))))"

section \<open>The order archive\<close>

definition archive_name :: "host \<Rightarrow> string \<Rightarrow> string res" where
  "archive_name h i =
     rbind (ensure (length i = 34 \<and> starts_with ''0x'' i \<and> ho_hex h (drop 2 i)) ''invalid archived client ID'')
       (\<lambda>_. Inr (''order_archive/'' @ ascii_lower i @ ''.json''))"

definition archived_order :: "host \<Rightarrow> string \<Rightarrow> store \<Rightarrow> json option res" where
  "archived_order h i s = rbind (archive_name h i) (\<lambda>name. read_json name s)"

text \<open>Equality of JSON values: the order of an object's entries does not matter.\<close>

fun jnum_eq :: "jnum \<Rightarrow> jnum \<Rightarrow> bool" where
  "jnum_eq (PosInt a) (PosInt b) = (a = b)"
| "jnum_eq (NegInt a) (NegInt b) = (a = b)"
| "jnum_eq (Float a) (Float b) = f_eq a b"
| "jnum_eq _ _ = False"

fun json_eq :: "json \<Rightarrow> json \<Rightarrow> bool" where
  "json_eq JNull JNull = True"
| "json_eq (JBool a) (JBool b) = (a = b)"
| "json_eq (JNum a) (JNum b) = jnum_eq a b"
| "json_eq (JStr a) (JStr b) = (a = b)"
| "json_eq (JArr xs) (JArr ys) = list_all2 json_eq xs ys"
| "json_eq (JObj kvs) (JObj kws) =
     (length kvs = length kws
      \<and> (\<forall>p \<in> set kvs. case map_of kws (fst p) of None \<Rightarrow> False | Some w \<Rightarrow> json_eq (snd p) w))"
| "json_eq _ _ = False"

definition archive_scan :: "host \<Rightarrow> store \<Rightarrow> u64" where
  "archive_scan h s =
     foldl (\<lambda>a p. if starts_with ''order_archive/'' (fst p) then sat_add a (ho_doc_len h (snd p)) else a) 0
       (sv_files s)"

definition archive_new :: "host \<Rightarrow> string \<Rightarrow> json \<Rightarrow> unit st" where
  "archive_new h name v =
     sbind (do_io h ''archive directory failed'' id) (\<lambda>_.
     sbind (sget (\<lambda>s. (case sv_archive_bytes s of Some b \<Rightarrow> b | None \<Rightarrow> archive_scan h s))) (\<lambda>bytes.
     let added = ho_doc_len h (Doc_json v) in
     sbind (sread (\<lambda>s. ensure (sat_add bytes added \<le> so_order_archive_max_bytes (sv_policy s))
       ''order archive capacity reached; preserve history and provision/migrate storage before resuming'')) (\<lambda>_.
     sbind (\<lambda>s. (Inr (), s\<lparr>sv_archive_bytes := None\<rparr>)) (\<lambda>_.
     sbind (store_write h name (Doc_json v)) (\<lambda>_.
     sbind (do_io h ''archive sync failed'' id) (\<lambda>_.
     \<lambda>s. (Inr (), s\<lparr>sv_archive_bytes := Some (bytes + added)\<rparr>)))))))"

definition archive_order :: "host \<Rightarrow> string \<Rightarrow> json \<Rightarrow> unit st" where
  "archive_order h i v =
     sbind (sread (\<lambda>s. ensure (sv_writable s) ''read-only store cannot archive orders'')) (\<lambda>_.
     sbind (slift (archive_name h i)) (\<lambda>name.
     sbind (sread (read_json name)) (\<lambda>old.
     case old of
       Some w \<Rightarrow> slift (ensure (json_eq w v) ''archived order differs; stop before pruning active ledger'')
     | None \<Rightarrow> archive_new h name v)))"

section \<open>The pending operation and the exchange nonce\<close>

definition store_pending :: "store \<Rightarrow> json option res" where
  "store_pending s = read_json ''pending.json'' s"

definition begin_event :: "json \<Rightarrow> json" where
  "begin_event v =
     JObj [(''venue'', jget v ''venue''), (''hash'', jget v ''hash''), (''nonce'', jget v ''nonce''),
       (''operation'', jget v ''operation''), (''action'', jget_path v [''request'', ''action''])]"

definition store_begin :: "host \<Rightarrow> json \<Rightarrow> unit st" where
  "store_begin h v =
     sbind (sread (\<lambda>s. ho_free h (sv_tick s))) (\<lambda>free.
     sbind (sread (\<lambda>s. ensure (so_min_free_bytes (sv_policy s) \<le> free)
       ''state disk reserve reached; no new operation can be prepared'')) (\<lambda>_.
     sbind (sread store_pending) (\<lambda>p.
     sbind (slift (ensure (p = None) ''unresolved operation: run reconcile before any new mutation'')) (\<lambda>_.
     sbind (store_write h ''pending.json'' (Doc_json v)) (\<lambda>_.
     store_event h ''operation_begin'' (begin_event v))))))"

definition store_finish :: "host \<Rightarrow> json \<Rightarrow> unit st" where
  "store_finish h v =
     sbind (store_event h ''operation_result'' v) (\<lambda>_. store_write h ''pending.json'' (Doc_json JNull))"

definition next_nonce :: "host \<Rightarrow> u64 st" where
  "next_nonce h =
     sbind (sread (read_u64 ''nonce.json'')) (\<lambda>last.
     sbind (host_now h) (\<lambda>now.
     let n = wmax now ((case last of None \<Rightarrow> 0 | Some x \<Rightarrow> x) + 1) in
     sbind (store_write h ''nonce.json'' (Doc_u64 n)) (\<lambda>_. slift (Inr n))))"

section \<open>Redaction\<close>

text \<open>Removal from an order-preserving map moves the last entry into the gap.\<close>

fun swap_remove :: "string \<Rightarrow> (string \<times> 'v) list \<Rightarrow> (string \<times> 'v) list" where
  "swap_remove k [] = []"
| "swap_remove k ((k', v) # r) =
     (if k = k' then (if r = [] then [] else last r # butlast r) else (k', v) # swap_remove k r)"

fun redact_signatures :: "json \<Rightarrow> json" where
  "redact_signatures (JObj kvs) =
     JObj (swap_remove ''signature'' (swap_remove ''raw_transaction'' (map (\<lambda>(k, v). (k, redact_signatures v)) kvs)))"
| "redact_signatures (JArr xs) = JArr (map redact_signatures xs)"
| "redact_signatures v = v"

end
