(* ===== verification/Hl_Journal.thy ===== *)
theory Hl_Journal
  imports Store
begin

text \<open>
  The ledger of exchange orders (\<open>src/hyperliquid/journal.rs\<close>): every order is recorded before it is
  sent, updated by acknowledgements and observations, and moved to the archive once it is terminal.
\<close>

section \<open>The ledger\<close>

fun ob_put :: "string \<Rightarrow> order \<Rightarrow> orders \<Rightarrow> orders" where
  "ob_put k v [] = [(k, v)]"
| "ob_put k v ((k', v') # r) =
     (if k = k' then (k, v) # r else if k < k' then (k, v) # (k', v') # r else (k', v') # ob_put k v r)"

definition ob_remove :: "string \<Rightarrow> orders \<Rightarrow> orders" where
  "ob_remove k m = filter (\<lambda>p. fst p \<noteq> k) m"

definition opt_json :: "json option \<Rightarrow> json" where
  "opt_json v = (case v of None \<Rightarrow> JNull | Some x \<Rightarrow> x)"

definition is_order_action :: "json \<Rightarrow> bool" where
  "is_order_action action \<longleftrightarrow> jget action ''type'' = JStr ''order''"

definition wires_of :: "json \<Rightarrow> string \<Rightarrow> json list res" where
  "wires_of action msg = context_opt (as_array (jget action ''orders'')) msg"

definition order_json :: "order \<Rightarrow> json" where
  "order_json o1 =
     JObj [(''cloid'', JStr (or_cloid o1)),
       (''oid'', (case or_oid o1 of None \<Rightarrow> JNull | Some n \<Rightarrow> JNum (PosInt n))),
       (''user'', JStr (or_user o1)), (''managed_hedge'', JBool (or_managed_hedge o1)),
       (''submitted_ms'', JNum (PosInt (or_submitted_ms o1))),
       (''observed_ms'', JNum (PosInt (or_observed_ms o1))), (''wire'', or_wire o1),
       (''status'', JStr (or_status o1)), (''terminal'', JBool (or_terminal o1)),
       (''exchange'', or_exchange o1)]"

definition update_orders :: "host \<Rightarrow> (orders \<Rightarrow> orders st) \<Rightarrow> unit st" where
  "update_orders h change = store_update h read_orders Doc_orders [] ''orders.json'' change"

definition ledger_of :: "store \<Rightarrow> orders res" where
  "ledger_of s = rbind (read_orders ''orders.json'' s) (\<lambda>m. Inr (case m of None \<Rightarrow> [] | Some x \<Rightarrow> x))"

section \<open>New identifiers\<close>

fun check_new_ids :: "host \<Rightarrow> store \<Rightarrow> orders \<Rightarrow> json list \<Rightarrow> string list \<Rightarrow> unit res" where
  "check_new_ids h s ledger [] seen = Inr ()"
| "check_new_ids h s ledger (w # ws) seen =
     rbind (context_opt (as_str (jget w ''c'')) ''client ID required'') (\<lambda>i.
     rbind (if ascii_lower i \<notin> set seen \<and> (\<forall>k \<in> set (map fst ledger). \<not> eq_ignore_case k i)
            then rbind (archived_order h i s) (\<lambda>a. Inr (a = None)) else Inr False) (\<lambda>fresh.
     rbind (ensure fresh ''client order ID already used; reject before preparing a new mutation'') (\<lambda>_.
     check_new_ids h s ledger ws (ascii_lower i # seen))))"

definition validate_new_ids :: "host \<Rightarrow> json \<Rightarrow> store \<Rightarrow> unit res" where
  "validate_new_ids h action s =
     (if \<not> is_order_action action then Inr ()
      else rbind (ledger_of s) (\<lambda>ledger.
           rbind (wires_of action ''order intents'') (\<lambda>ws. check_new_ids h s ledger ws [])))"

section \<open>Preparing\<close>

fun check_unarchived :: "host \<Rightarrow> store \<Rightarrow> json list \<Rightarrow> unit res" where
  "check_unarchived h s [] = Inr ()"
| "check_unarchived h s (w # ws) =
     rbind (context_opt (as_str (jget w ''c'')) ''cloid'') (\<lambda>i.
     rbind (archived_order h i s) (\<lambda>a.
     rbind (ensure (a = None) ''client order ID already archived; do not reuse or resubmit'') (\<lambda>_.
     check_unarchived h s ws)))"

definition new_order :: "string \<Rightarrow> string \<Rightarrow> bool \<Rightarrow> u64 \<Rightarrow> json \<Rightarrow> order" where
  "new_order i user hedge nonce w =
     \<lparr>or_cloid = i, or_oid = None, or_user = user, or_managed_hedge = hedge, or_submitted_ms = nonce,
      or_observed_ms = 0, or_wire = w, or_status = ''prepared'', or_terminal = False, or_exchange = JNull\<rparr>"

definition prepare_wire :: "json \<Rightarrow> json \<Rightarrow> string \<Rightarrow> u64 \<Rightarrow> json \<Rightarrow> orders \<Rightarrow> orders res" where
  "prepare_wire hedge pending user nonce w ledger =
     rbind (context_opt (as_str (jget w ''c'')) ''durable order requires a cloid'') (\<lambda>i.
     case map_of ledger i of
       Some old \<Rightarrow>
         if is_null (or_wire old) \<and> eq_ignore_case (or_user old) user
         then Inr (ob_put i (old\<lparr>or_wire := w, or_submitted_ms := nonce\<rparr>) ledger)
         else rbind (ensure (eq_ignore_case (or_user old) user \<and> json_eq (or_wire old) w
                \<and> or_submitted_ms old = nonce) ''client order ID already used; do not resubmit'')
              (\<lambda>_. Inr ledger)
     | None \<Rightarrow>
         Inr (ob_put i (new_order i user (jget hedge ''cloid'' = JStr i
             \<or> jget_path pending [''hedge_intent'', ''cloid''] = JStr i) nonce w) ledger))"

fun prepare_wires :: "json \<Rightarrow> json \<Rightarrow> string \<Rightarrow> u64 \<Rightarrow> json list \<Rightarrow> orders \<Rightarrow> orders res" where
  "prepare_wires hedge pending user nonce [] ledger = Inr ledger"
| "prepare_wires hedge pending user nonce (w # ws) ledger =
     rbind (prepare_wire hedge pending user nonce w ledger) (prepare_wires hedge pending user nonce ws)"

definition journal_prepare :: "host \<Rightarrow> json \<Rightarrow> string \<Rightarrow> u64 \<Rightarrow> unit st" where
  "journal_prepare h action user nonce =
     (if \<not> is_order_action action then slift (Inr ())
      else
        sbind (sread (read_json ''hedge_order.json'')) (\<lambda>hedge.
        sbind (sread store_pending) (\<lambda>pending.
        sbind (slift (wires_of action ''order intents missing'')) (\<lambda>ws.
        sbind (sread (\<lambda>s. check_unarchived h s ws)) (\<lambda>_.
        update_orders h (\<lambda>ledger. slift (prepare_wires (opt_json hedge) (opt_json pending) user nonce ws ledger)))))))"

definition legacy_order :: "string \<Rightarrow> string \<Rightarrow> order" where
  "legacy_order i user =
     \<lparr>or_cloid = i, or_oid = None, or_user = user, or_managed_hedge = True, or_submitted_ms = 0,
      or_observed_ms = 0, or_wire = JNull, or_status = ''legacy_unverified'', or_terminal = False,
      or_exchange = JNull\<rparr>"

definition import_legacy :: "host \<Rightarrow> string \<Rightarrow> unit st" where
  "import_legacy h user =
     sbind (sread (read_json ''hedge_order.json'')) (\<lambda>d.
     case d of
       None \<Rightarrow> slift (Inr ())
     | Some v \<Rightarrow>
         sbind (slift (context_opt (as_str (jget v ''cloid'')) ''invalid legacy hedge order'')) (\<lambda>i.
         update_orders h (\<lambda>ledger. slift (Inr
           (if map_of ledger i = None then ob_put i (legacy_order i user) ledger else ledger)))))"

section \<open>Acknowledgements\<close>

definition ack_outcome :: "json \<Rightarrow> json \<Rightarrow> (string \<times> bool \<times> u64 option) res" where
  "ack_outcome response ack =
     (if jget response ''status'' = JStr ''err'' \<or> jfind ack ''error'' \<noteq> None
      then Inr (''rejected'', True, None)
      else case as_u64 (jget_path ack [''resting'', ''oid'']) of
        Some oid \<Rightarrow> Inr (''open'', False, Some oid)
      | None \<Rightarrow>
          (case as_u64 (jget_path ack [''filled'', ''oid'']) of
             Some oid \<Rightarrow> Inr (''filled'', True, Some oid)
           | None \<Rightarrow> Inl (Bail ''unrecognized order acknowledgement; pending retained'')))"

text \<open>Indexing the acknowledgements panics when there are fewer of them than intents.\<close>

definition ack_at :: "json \<Rightarrow> json list option \<Rightarrow> nat \<Rightarrow> json res" where
  "ack_at response statuses i =
     (case statuses of
        None \<Rightarrow> Inr response
      | Some l \<Rightarrow> if i < length l then Inr (l ! i) else Inl (Panic ''index out of bounds''))"

fun ack_loop :: "host \<Rightarrow> json \<Rightarrow> json list option \<Rightarrow> nat \<Rightarrow> json list \<Rightarrow> orders \<Rightarrow> orders st" where
  "ack_loop h response statuses n [] ledger = slift (Inr ledger)"
| "ack_loop h response statuses n (w # ws) ledger =
     sbind (slift (context_opt (as_str (jget w ''c'')) ''client ID'')) (\<lambda>i.
     sbind (slift (context_opt (map_of ledger i) ''order intent not persisted'')) (\<lambda>old.
     sbind (slift (ack_at response statuses n)) (\<lambda>ack.
     sbind (slift (ack_outcome response ack)) (\<lambda>(status, terminal, oid).
     sbind (host_now h) (\<lambda>now.
     ack_loop h response statuses (Suc n) ws
       (ob_put i (old\<lparr>or_status := status, or_terminal := terminal, or_oid := oid,
         or_observed_ms := now, or_exchange := ack\<rparr>) ledger))))))"

definition journal_acknowledged :: "host \<Rightarrow> json \<Rightarrow> json \<Rightarrow> unit st" where
  "journal_acknowledged h action response =
     (if \<not> is_order_action action then slift (Inr ())
      else
        sbind (slift (wires_of action ''order intents'')) (\<lambda>ws.
        let statuses = as_array (jget_path response [''response'', ''data'', ''statuses'']) in
        sbind (slift (ensure (jget response ''status'' = JStr ''err''
            \<or> (case statuses of Some l \<Rightarrow> length l = length ws | None \<Rightarrow> False))
          ''order acknowledgement incomplete; pending retained'')) (\<lambda>_.
        update_orders h (ack_loop h response statuses 0 ws))))"

definition terminal_status :: "string \<Rightarrow> bool" where
  "terminal_status status \<longleftrightarrow> status \<in> set
     [''filled'', ''not_submitted'', ''canceled'', ''rejected'', ''marginCanceled'',
      ''vaultWithdrawalCanceled'', ''openInterestCapCanceled'', ''selfTradeCanceled'',
      ''reduceOnlyCanceled'', ''siblingFilledCanceled'', ''delistedCanceled'', ''liquidatedCanceled'',
      ''scheduledCancel'', ''tickRejected'', ''minTradeNtlRejected'', ''perpMarginRejected'',
      ''reduceOnlyRejected'', ''badAloPxRejected'', ''iocCancelRejected'', ''badTriggerPxRejected'',
      ''marketOrderNoLiquidityRejected'', ''positionIncreaseAtOpenInterestCapRejected'',
      ''positionFlipAtOpenInterestCapRejected'', ''tooAggressiveAtOpenInterestCapRejected'',
      ''openInterestIncreaseRejected'', ''insufficientSpotBalanceRejected'', ''oracleRejected'',
      ''perpMaxPositionRejected'']"

section \<open>Orders never sent\<close>

fun not_sent_loop :: "host \<Rightarrow> json list \<Rightarrow> orders \<Rightarrow> orders st" where
  "not_sent_loop h [] ledger = slift (Inr ledger)"
| "not_sent_loop h (w # ws) ledger =
     sbind (slift (context_opt (as_str (jget w ''c'')) ''cloid'')) (\<lambda>i.
     case map_of ledger i of
       None \<Rightarrow> not_sent_loop h ws ledger
     | Some o1 \<Rightarrow>
         sbind (slift (ensure (or_oid o1 = None \<and> or_status o1 \<in> {''prepared'', ''not_submitted''})
           ''pre-dispatch order has unexpected exchange evidence'')) (\<lambda>_.
         sbind (host_now h) (\<lambda>now.
         not_sent_loop h ws (ob_put i
           (o1\<lparr>or_status := ''not_submitted'', or_terminal := True, or_observed_ms := now\<rparr>) ledger))))"

definition journal_not_submitted :: "host \<Rightarrow> json \<Rightarrow> unit st" where
  "journal_not_submitted h action =
     sbind (if is_order_action action
            then update_orders h (\<lambda>ledger. sbind (slift (wires_of action ''order intents'')) (\<lambda>ws. not_sent_loop h ws ledger))
            else slift (Inr ())) (\<lambda>_.
     store_write h ''hedge_order.json'' (Doc_json JNull))"

section \<open>Observations\<close>

definition observed_order :: "string \<Rightarrow> json \<Rightarrow> order \<Rightarrow> order res" where
  "observed_order i response o1 =
     (let row = jget_path response [''order'', ''order''] in
      rbind (ensure (is_null (jget row ''cloid'')
          \<or> (case as_str (jget row ''cloid'') of Some v \<Rightarrow> eq_ignore_case v i | None \<Rightarrow> False))
        ''order cloid mismatch'') (\<lambda>_.
      rbind (context_opt (as_u64 (jget row ''oid'')) ''order oid missing'') (\<lambda>oid.
      rbind (ensure (case or_oid o1 of None \<Rightarrow> True | Some old \<Rightarrow> old = oid) ''order oid changed unexpectedly'') (\<lambda>_.
      rbind (context_opt (as_str (jget_path response [''order'', ''status''])) ''order status missing'') (\<lambda>status.
      rbind (ensure (\<not> or_terminal o1 \<or> or_status o1 = status) ''terminal order status cannot regress'') (\<lambda>_.
        Inr (o1\<lparr>or_oid := Some oid, or_status := status, or_terminal := terminal_status status\<rparr>)))))))"

definition observe_change :: "host \<Rightarrow> string \<Rightarrow> json \<Rightarrow> orders \<Rightarrow> orders st" where
  "observe_change h i response ledger =
     sbind (slift (context_opt (map_of ledger i) ''unknown local order'')) (\<lambda>o1.
     if jget response ''status'' = JStr ''order''
     then sbind (slift (observed_order i response o1)) (\<lambda>o2.
          sbind (host_now h) (\<lambda>now.
            slift (Inr (ob_put i (o2\<lparr>or_observed_ms := now, or_exchange := response\<rparr>) ledger))))
     else if or_oid o1 \<noteq> None \<or> or_terminal o1 then slift (Inr ledger)
     else sbind (host_now h) (\<lambda>now.
            slift (Inr (ob_put i (o1\<lparr>or_status := ''unknown'', or_terminal := False,
              or_observed_ms := now, or_exchange := response\<rparr>) ledger))))"

definition journal_observe :: "host \<Rightarrow> string \<Rightarrow> json \<Rightarrow> unit st" where
  "journal_observe h i response =
     sbind (update_orders h (observe_change h i response)) (\<lambda>_.
     sbind (store_event h ''order_reconciled'' (JObj [(''cloid'', JStr i), (''response'', response)])) (\<lambda>_.
     sbind (slift (ensure (jget response ''status'' = JStr ''order'')
       (''order '' @ i @ '' unknown; absence/expiry is not proof of no fill''))) (\<lambda>_.
     sbind (slift (context_opt (as_str (jget_path response [''order'', ''status''])) ''order status'')) (\<lambda>status.
     slift (ensure (status = ''open'' \<or> terminal_status status)
       (''unresolved order status '' @ status @ ''; no automatic replay''))))))"

text \<open>\<open>resolve\<close> reads the state of one order back from the exchange.\<close>

fun refresh_loop :: "string \<Rightarrow> (string \<Rightarrow> unit st) \<Rightarrow> order list \<Rightarrow> unit st" where
  "refresh_loop user resolve [] = slift (Inr ())"
| "refresh_loop user resolve (o1 # os) =
     sbind (slift (ensure (eq_ignore_case (or_user o1) user) ''order ledger belongs to another account'')) (\<lambda>_.
     sbind (if or_terminal o1 then slift (Inr ()) else resolve (or_cloid o1)) (\<lambda>_.
     refresh_loop user resolve os))"

definition journal_refresh :: "host \<Rightarrow> string res \<Rightarrow> (string \<Rightarrow> unit st) \<Rightarrow> unit st" where
  "journal_refresh h user resolve =
     sbind (slift user) (\<lambda>user.
     sbind (import_legacy h user) (\<lambda>_.
     sbind (sread ledger_of) (\<lambda>m. refresh_loop user resolve (map snd m))))"

section \<open>Open orders\<close>

fun open_ids :: "orders \<Rightarrow> string \<Rightarrow> json list \<Rightarrow> string list res" where
  "open_ids ledger coin [] = Inr []"
| "open_ids ledger coin (row # rows) =
     rbind (context_opt (as_u64 (jget row ''oid'')) ''open order oid'') (\<lambda>oid.
     rbind (context_opt (find (\<lambda>o1. or_oid o1 = Some oid) (map snd ledger))
       ''untracked exchange order; recorded but will not cancel/adopt automatically'') (\<lambda>o1.
     rbind (ensure (or_managed_hedge o1 \<and> jget row ''coin'' = JStr coin)
       ''non-strategy or inconsistent open order; startup blocked'') (\<lambda>_.
     if or_terminal o1
     then Inl (ReadUnavailable ''exchange open orders lag a confirmed terminal order; retry reconciliation'')
     else rbind (open_ids ledger coin rows) (\<lambda>is. Inr (or_cloid o1 # is)))))"

definition managed_open_orders :: "json \<Rightarrow> string \<Rightarrow> store \<Rightarrow> string list res" where
  "managed_open_orders open1 coin s =
     rbind (ledger_of s) (\<lambda>ledger.
     rbind (context_opt (as_array open1) ''open orders response'') (\<lambda>rows.
     rbind (open_ids ledger coin rows) (\<lambda>is.
     if \<forall>o1 \<in> set (map snd ledger). or_terminal o1 \<or> or_cloid o1 \<in> set is then Inr is
     else Inl (ReadUnavailable ''local unresolved order absent from exchange open orders; retry reconciliation without new orders''))))"

section \<open>Compaction\<close>

fun compact_loop :: "host \<Rightarrow> (u64 \<times> string) list \<Rightarrow> orders \<Rightarrow> orders st" where
  "compact_loop h [] ledger = slift (Inr ledger)"
| "compact_loop h ((t, i) # rest) ledger =
     sbind (slift (context_opt (map_of ledger i) ''terminal order disappeared'')) (\<lambda>o1.
     sbind (archive_order h i (order_json o1)) (\<lambda>_.
     compact_loop h rest (ob_remove i ledger)))"

definition compact_candidates :: "json \<Rightarrow> orders \<Rightarrow> (u64 \<times> string) list" where
  "compact_candidates pointer ledger =
     sort (map (\<lambda>o1. (or_observed_ms o1, or_cloid o1))
       (filter (\<lambda>o1. or_terminal o1 \<and> jget pointer ''cloid'' \<noteq> JStr (or_cloid o1)) (map snd ledger)))"

definition journal_compact :: "host \<Rightarrow> unit st" where
  "journal_compact h =
     sbind (sread (read_json ''hedge_order.json'')) (\<lambda>pointer.
     sbind (sread store_pending) (\<lambda>pending.
     if pending \<noteq> None then slift (Inr ())
     else
       sbind (sget (\<lambda>s. so_terminal_orders_keep (sv_policy s))) (\<lambda>keep.
       update_orders h (\<lambda>ledger.
         let terminal = compact_candidates (opt_json pointer) ledger in
         compact_loop h (take (length terminal - keep) terminal) ledger))))"

end
