(* ===== verification/Store_Facts.thy ===== *)
theory Store_Facts
  imports Store
begin

text \<open>
  Reasoning about store operations: a relation between the stores before and after that every step
  of an operation keeps is kept by the operation, whatever the host does and however it ends. The
  pending slot, the archive and the log are then treated by choosing the relation.
\<close>

section \<open>Running\<close>

lemma sbind_eq: "sbind m k s = (case m s of (Inl e, s') \<Rightarrow> (Inl e, s') | (Inr x, s') \<Rightarrow> k x s')"
  by (simp add: sbind_def)

lemma sbind_InrE:
  assumes "sbind m k s = (Inr y, s')"
  obtains x s1 where "m s = (Inr x, s1)" "k x s1 = (Inr y, s')"
  using assms by (auto simp: sbind_def split: prod.splits sum.splits)

lemma sbind_InrI: "m s = (Inr x, s1) \<Longrightarrow> k x s1 = (Inr y, s') \<Longrightarrow> sbind m k s = (Inr y, s')"
  by (simp add: sbind_def)

lemma sbind_cases:
  assumes "sbind m k s = (r, s')"
  obtains (err) e where "m s = (Inl e, s')" "r = Inl e"
  | (ok) x s1 where "m s = (Inr x, s1)" "k x s1 = (r, s')"
  using assms by (auto simp: sbind_def split: prod.splits sum.splits)

lemma st_simps [simp]:
  "slift r s = (r, s)" "sget f s = (Inr (f s), s)" "sread g s = (g s, s)"
  "host_now h s = (Inr (ho_clock h (sv_tick s)), s\<lparr>sv_tick := Suc (sv_tick s)\<rparr>)"
  by (simp_all add: slift_def sget_def sread_def host_now_def)

lemma sbind_pure [simp]:
  "sbind (slift (Inr x)) k = k x" "sbind (slift (Inl e)) k = slift (Inl e)" "sbind (sget f) k s = k (f s) s"
  by (auto simp: sbind_def fun_eq_iff)

lemma do_io_ok: "do_io h msg f s = (Inr u, s') \<Longrightarrow> s' = f (s\<lparr>sv_tick := Suc (sv_tick s)\<rparr>)"
  by (auto simp: do_io_def Let_def split: io.splits)

lemma do_io_cases:
  "do_io h msg f s = (r, s') \<Longrightarrow> s' = f (s\<lparr>sv_tick := Suc (sv_tick s)\<rparr>)
     \<or> r = Inl (Bail msg) \<and> s' = s\<lparr>sv_tick := Suc (sv_tick s)\<rparr>"
  by (auto simp: do_io_def Let_def split: io.splits)

lemma store_write_ok:
  "store_write h name d s = (Inr u, s') \<Longrightarrow> s' = put_doc name d (s\<lparr>sv_tick := Suc (sv_tick s)\<rparr>)"
  by (auto simp: store_write_def elim!: sbind_InrE dest: do_io_ok)

lemma store_write_cases:
  "store_write h name d s = (r, s') \<Longrightarrow> s' = put_doc name d (s\<lparr>sv_tick := Suc (sv_tick s)\<rparr>)
     \<or> (\<exists>e. r = Inl e) \<and> sv_files s' = sv_files s \<and> sv_log s' = sv_log s"
  by (auto simp: store_write_def elim!: sbind_cases dest!: do_io_cases)

section \<open>Documents\<close>

lemma find_put_doc [simp]:
  "find_doc n (put_doc name d s) = (if n = name then (if d = Doc_json JNull then None else Some d) else find_doc n s)"
  by (simp add: find_doc_def put_doc_def)

lemma find_doc_upd [simp]:
  "find_doc n (s\<lparr>sv_tick := t\<rparr>) = find_doc n s" "find_doc n (s\<lparr>sv_log := l\<rparr>) = find_doc n s"
  "find_doc n (s\<lparr>sv_active := a\<rparr>) = find_doc n s" "find_doc n (s\<lparr>sv_segments := g\<rparr>) = find_doc n s"
  "find_doc n (s\<lparr>sv_archive_bytes := b\<rparr>) = find_doc n s" "find_doc n (s\<lparr>sv_sent := q\<rparr>) = find_doc n s"
  by (simp_all add: find_doc_def)

lemma find_doc_files: "sv_files s' = sv_files s \<Longrightarrow> find_doc n s' = find_doc n s"
  by (simp add: find_doc_def)

lemma put_doc_frame [simp]:
  "sv_writable (put_doc n d s) = sv_writable s" "sv_policy (put_doc n d s) = sv_policy s"
  "sv_log (put_doc n d s) = sv_log s" "sv_active (put_doc n d s) = sv_active s"
  "sv_segments (put_doc n d s) = sv_segments s" "sv_tick (put_doc n d s) = sv_tick s"
  "sv_sent (put_doc n d s) = sv_sent s"
  by (simp_all add: put_doc_def)

lemma read_Some [simp]:
  "read_json n s = Inr (Some v) \<longleftrightarrow> find_doc n s = Some (Doc_json v)"
  "read_u64 n s = Inr (Some w) \<longleftrightarrow> find_doc n s = Some (Doc_u64 w)"
  "read_nonce n s = Inr (Some q) \<longleftrightarrow> find_doc n s = Some (Doc_nonce q)"
  "read_orders n s = Inr (Some m) \<longleftrightarrow> find_doc n s = Some (Doc_orders m)"
  by (auto simp: read_json_def read_u64_def read_nonce_def read_orders_def split: option.splits doc.splits)

lemma read_found [simp]:
  "find_doc n s = Some (Doc_json v) \<Longrightarrow> read_json n s = Inr (Some v)"
  "find_doc n s = Some (Doc_u64 w) \<Longrightarrow> read_u64 n s = Inr (Some w)"
  "find_doc n s = Some (Doc_nonce q) \<Longrightarrow> read_nonce n s = Inr (Some q)"
  "find_doc n s = Some (Doc_orders m) \<Longrightarrow> read_orders n s = Inr (Some m)"
  "find_doc n s = None \<Longrightarrow> read_json n s = Inr None" "find_doc n s = None \<Longrightarrow> read_u64 n s = Inr None"
  "find_doc n s = None \<Longrightarrow> read_nonce n s = Inr None" "find_doc n s = None \<Longrightarrow> read_orders n s = Inr None"
  by (simp_all add: read_json_def read_u64_def read_nonce_def read_orders_def)

lemma read_None [simp]:
  "read_json n s = Inr None \<longleftrightarrow> find_doc n s = None" "read_u64 n s = Inr None \<longleftrightarrow> find_doc n s = None"
  "read_nonce n s = Inr None \<longleftrightarrow> find_doc n s = None" "read_orders n s = Inr None \<longleftrightarrow> find_doc n s = None"
  by (auto simp: read_json_def read_u64_def read_nonce_def read_orders_def split: option.splits doc.splits)

lemma read_tick [simp]:
  "read_json n (s\<lparr>sv_tick := t\<rparr>) = read_json n s" "read_u64 n (s\<lparr>sv_tick := t\<rparr>) = read_u64 n s"
  "read_nonce n (s\<lparr>sv_tick := t\<rparr>) = read_nonce n s" "read_orders n (s\<lparr>sv_tick := t\<rparr>) = read_orders n s"
  "store_pending (s\<lparr>sv_tick := t\<rparr>) = store_pending s"
  by (simp_all add: read_json_def read_u64_def read_nonce_def read_orders_def store_pending_def)

section \<open>Relations kept by every step\<close>

definition keeps :: "(store \<Rightarrow> store \<Rightarrow> bool) \<Rightarrow> 'a st \<Rightarrow> bool" where
  "keeps R m \<longleftrightarrow> (\<forall>s r s'. m s = (r, s') \<longrightarrow> R s s')"

named_theorems keeps_intro \<open>a store operation keeps a relation\<close>

lemma keepsD: "keeps R m \<Longrightarrow> m s = (r, s') \<Longrightarrow> R s s'"
  by (simp add: keeps_def)

lemma store_write_sent: "store_write h name d s = (r, s') \<Longrightarrow> sv_sent s' = sv_sent s"
  by (auto simp: store_write_def elim!: sbind_cases dest!: do_io_cases)

lemma archive_new_files:
  assumes "archive_new h name v s = (r, s')"
  shows "sv_files s' = sv_files s \<or> sv_files s' = assoc_put name (Doc_json v) (sv_files s)"
  using assms unfolding archive_new_def
  by (auto elim!: sbind_cases simp: Let_def put_doc_def dest!: do_io_cases store_write_cases split: option.splits)

lemma archive_order_files:
  assumes "archive_order h i v s = (r, s')"
  shows "sv_files s' = sv_files s \<or> (\<exists>name. archive_name h i = Inr name \<and> find_doc name s = None
      \<and> sv_files s' = assoc_put name (Doc_json v) (sv_files s))"
proof (cases "sv_writable s")
  case w: True
  show ?thesis
  proof (cases "archive_name h i")
    case n: (Inr name)
    show ?thesis
    proof (cases "read_json name s")
      case o: (Inr old)
      show ?thesis
      proof (cases old)
        case None
        have "find_doc name s = None"
          using o None by (auto simp: read_json_def split: option.splits doc.splits)
        moreover have "archive_new h name v s = (r, s')"
          using assms w n o None by (simp add: archive_order_def sbind_eq)
        ultimately show ?thesis using archive_new_files n by blast
      qed (use assms w n o in \<open>simp add: archive_order_def sbind_eq\<close>)
    qed (use assms w n in \<open>simp add: archive_order_def sbind_eq\<close>)
  qed (use assms w in \<open>simp add: archive_order_def sbind_eq\<close>)
qed (use assms in \<open>simp add: archive_order_def sbind_eq\<close>)

lemma archive_new_ok:
  assumes "archive_new h name v s = (Inr u, s')" "v \<noteq> JNull"
  shows "find_doc name s' = Some (Doc_json v)"
  using assms unfolding archive_new_def
  by (auto elim!: sbind_InrE simp: Let_def dest!: do_io_ok store_write_ok)

lemma archive_order_ok:
  assumes "archive_order h i v s = (Inr u, s')" "v \<noteq> JNull"
  shows "find_doc (''order_archive/'' @ ascii_lower i @ ''.json'') s' \<noteq> None"
  using assms(1) unfolding archive_order_def
  by (auto simp: archive_name_def elim!: sbind_InrE dest!: archive_new_ok [OF _ assms(2)] split: option.splits)

text \<open>No archive operation sends anything.\<close>

lemma archive_order_sent:
  assumes "archive_order h i v s = (r, s')" shows "sv_sent s' = sv_sent s"
  using assms unfolding archive_order_def archive_new_def
  by (auto elim!: sbind_cases simp: Let_def dest!: do_io_cases store_write_sent split: option.splits)

text \<open>
  A preorder on stores that changes of the clock, the log, the segments and the archive's size
  respect is kept by everything but the writing of documents.
\<close>

locale store_steps =
  fixes R :: "store \<Rightarrow> store \<Rightarrow> bool"
  assumes quiet: "sv_files s' = sv_files s \<Longrightarrow> sv_sent s' = sv_sent s \<Longrightarrow> R s s'"
    and step_trans: "R s s1 \<Longrightarrow> R s1 s2 \<Longrightarrow> R s s2"
begin

lemma keeps_sbind: "keeps R m \<Longrightarrow> (\<And>x. keeps R (k x)) \<Longrightarrow> keeps R (sbind m k)"
  unfolding keeps_def by (blast elim: sbind_cases intro: step_trans)

lemma keeps_pure:
  "keeps R (slift r)" "keeps R (sget f)" "keeps R (sread g)" "keeps R (host_now h)" "keeps R (Pair r)"
  "keeps R (\<lambda>s. (q s, s\<lparr>sv_archive_bytes := b\<rparr>))" "keeps R (\<lambda>s. (q s, s\<lparr>sv_tick := t s\<rparr>))"
  by (auto simp: keeps_def intro: quiet)

lemma keeps_do_io:
  assumes "\<And>s. R s (f s)" shows "keeps R (do_io h msg f)"
proof -
  have "R s (f (s\<lparr>sv_tick := t\<rparr>))" for s t
    using step_trans [OF quiet assms [of "s\<lparr>sv_tick := t\<rparr>"]] by simp
  then show ?thesis by (auto simp: keeps_def do_io_def Let_def quiet split: io.splits)
qed

lemma keeps_files: "(\<And>s. sv_files (f s) = sv_files s \<and> sv_sent (f s) = sv_sent s) \<Longrightarrow> keeps R (do_io h msg f)"
  by (rule keeps_do_io) (simp add: quiet)

lemma keeps_write: "(\<And>s. R s (put_doc name d s)) \<Longrightarrow> keeps R (store_write h name d)"
  unfolding store_write_def by (intro keeps_sbind keeps_pure keeps_do_io)

lemma keeps_if: "keeps R a \<Longrightarrow> keeps R b \<Longrightarrow> keeps R (if c then a else b)"
  by simp

lemma keeps_event: "keeps R (store_event h kind v)"
  unfolding store_event_def rotate_events_def prune_segments_def Let_def split_def
  by (intro keeps_sbind keeps_pure keeps_files keeps_if) (simp_all add: append_event_def)

lemma keeps_archive:
  assumes "\<And>s name. archive_name h i = Inr name \<Longrightarrow> find_doc name s = None \<Longrightarrow> R s (put_doc name (Doc_json v) s)"
  shows "keeps R (archive_order h i v)"
  unfolding keeps_def
proof (intro allI impI)
  fix s r s' assume a: "archive_order h i v s = (r, s')"
  note sent = archive_order_sent [OF a]
  from archive_order_files [OF a] show "R s s'"
  proof
    assume "sv_files s' = sv_files s"
    then show ?thesis using sent by (rule quiet)
  next
    assume "\<exists>name. archive_name h i = Inr name \<and> find_doc name s = None
      \<and> sv_files s' = assoc_put name (Doc_json v) (sv_files s)"
    then obtain name where n: "archive_name h i = Inr name" "find_doc name s = None"
      "sv_files s' = sv_files (put_doc name (Doc_json v) s)" by (auto simp: put_doc_def)
    show ?thesis using step_trans [OF assms [OF n(1,2)] quiet [OF n(3)]] sent by simp
  qed
qed

lemma keeps_update:
  assumes "\<And>x. keeps R (change x)" "\<And>s x. R s (put_doc name (doc_of x) s)"
  shows "keeps R (store_update h rd doc_of dflt name change)"
  unfolding store_update_def by (intro keeps_sbind keeps_pure keeps_write assms)

end

text \<open>Relations that only look at the documents.\<close>

locale store_order =
  fixes R :: "store \<Rightarrow> store \<Rightarrow> bool"
  assumes files_only: "sv_files s' = sv_files s \<Longrightarrow> R s s'"
    and order_trans: "R s s1 \<Longrightarrow> R s1 s2 \<Longrightarrow> R s s2"

sublocale store_order \<subseteq> store_steps
  by unfold_locales (blast intro: files_only order_trans)+

end
