(* ===== verification/Nonce_Book.thy ===== *)
theory Nonce_Book
  imports Store_Facts
begin

text \<open>
  The contract of a nonce source: its state has a floor that no operation lowers, an operation that
  grants a nonce grants one at or above the floor, and an operation that uses a nonce up leaves a
  floor above it. Under this contract no nonce is granted again after it was used up.
\<close>

type_synonym ('op, 'r) stepper = "'op \<Rightarrow> store \<Rightarrow> 'r \<times> store"

fun run_ops :: "('op, 'r) stepper \<Rightarrow> 'op list \<Rightarrow> store \<Rightarrow> 'r list \<times> store" where
  "run_ops step [] s = ([], s)"
| "run_ops step (x # xs) s = (case step x s of (r, s1) \<Rightarrow> case run_ops step xs s1 of (rs, s2) \<Rightarrow> (r # rs, s2))"

lemma run_ops_append:
  "run_ops step (xs @ ys) s = (case run_ops step xs s of (rs, s1) \<Rightarrow> case run_ops step ys s1 of (qs, s2) \<Rightarrow> (rs @ qs, s2))"
  by (induction xs arbitrary: s) (auto split: prod.splits)

lemma run_ops_length: "run_ops step xs s = (rs, s') \<Longrightarrow> length rs = length xs"
  by (induction xs arbitrary: s rs) (auto split: prod.splits)

lemma run_ops_keeps:
  assumes "\<And>x s r s'. step x s = (r, s') \<Longrightarrow> R s s'" "\<And>s. R s s" "\<And>a b c. R a b \<Longrightarrow> R b c \<Longrightarrow> R a c"
  shows "run_ops step xs s = (rs, s') \<Longrightarrow> R s s'"
proof (induction xs arbitrary: s rs)
  case Nil
  then show ?case using assms(2) by simp
next
  case (Cons x xs)
  obtain r s1 rs1 where "step x s = (r, s1)" "run_ops step xs s1 = (rs1, s')"
    using Cons.prems by (auto split: prod.splits)
  then show ?case using Cons.IH assms(1,3) by blast
qed

text \<open>The part of the run before position \<open>i\<close>, the step there, and the rest.\<close>

lemma run_ops_at:
  assumes "run_ops step xs s = (rs, s')" "i < length xs"
  shows "\<exists>s1 s2. run_ops step (take i xs) s = (take i rs, s1) \<and> step (xs ! i) s1 = (rs ! i, s2)
    \<and> run_ops step (drop (Suc i) xs) s2 = (drop (Suc i) rs, s')"
  using assms
proof (induction xs arbitrary: s rs i)
  case (Cons x xs)
  obtain r s1 qs where st: "step x s = (r, s1)" "run_ops step xs s1 = (qs, s')" "rs = r # qs"
    using Cons.prems(1) by (auto split: prod.splits)
  show ?case
  proof (cases i)
    case 0
    then show ?thesis using st by simp
  next
    case (Suc j)
    with Cons.prems(2) have "j < length xs" by simp
    from Cons.IH [OF st(2) this] obtain a b where
      "run_ops step (take j xs) s1 = (take j qs, a)" "step (xs ! j) a = (qs ! j, b)"
      "run_ops step (drop (Suc j) xs) b = (drop (Suc j) qs, s')" by blast
    then show ?thesis using Suc st by (intro exI [of _ a] exI [of _ b]) simp
  qed
qed simp

text \<open>A condition on every state a run passes through.\<close>

fun along :: "(store \<Rightarrow> bool) \<Rightarrow> ('op, 'r) stepper \<Rightarrow> 'op list \<Rightarrow> store \<Rightarrow> bool" where
  "along P step [] s = P s"
| "along P step (x # xs) s = (P s \<and> along P step xs (snd (step x s)))"

lemma along_True [simp]: "along (\<lambda>_. True) step xs s"
  by (induction xs arbitrary: s) auto

lemma along_take: "along P step xs s \<Longrightarrow> along P step (take i xs) s"
proof (induction xs arbitrary: s i)
  case (Cons x xs)
  then show ?case by (cases i) auto
qed simp

lemma along_drop: "along P step xs s \<Longrightarrow> run_ops step (take i xs) s = (rs, s1) \<Longrightarrow> along P step (drop i xs) s1"
proof (induction xs arbitrary: s i rs)
  case (Cons x xs)
  then show ?case by (cases i) (auto split: prod.splits)
qed simp

lemma along_start: "along P step xs s \<Longrightarrow> P s"
  by (cases xs) auto

locale nonce_book =
  fixes step :: "('op, 'r) stepper"
    and floor_of :: "store \<Rightarrow> nat"
    and good :: "store \<Rightarrow> bool"
    and granted used :: "'op \<Rightarrow> 'r \<Rightarrow> nat option"
  assumes floor_kept: "good s \<Longrightarrow> step x s = (r, s') \<Longrightarrow> floor_of s \<le> floor_of s'"
    and grant: "good s \<Longrightarrow> step x s = (r, s') \<Longrightarrow> granted x r = Some n \<Longrightarrow> floor_of s \<le> n"
    and spend: "good s \<Longrightarrow> step x s = (r, s') \<Longrightarrow> used x r = Some n \<Longrightarrow> n < floor_of s'"
begin

lemma floor_run: "along good step xs s \<Longrightarrow> run_ops step xs s = (rs, s') \<Longrightarrow> floor_of s \<le> floor_of s'"
proof (induction xs arbitrary: s rs)
  case (Cons x xs)
  obtain r s1 qs where st: "step x s = (r, s1)" "run_ops step xs s1 = (qs, s')"
    using Cons.prems(2) by (auto split: prod.splits)
  have "floor_of s1 \<le> floor_of s'" using Cons.IH [OF _ st(2)] Cons.prems(1) st(1) by simp
  moreover have "floor_of s \<le> floor_of s1" using floor_kept [OF _ st(1)] Cons.prems(1) by simp
  ultimately show ?case by simp
qed simp

lemma used_then_granted:
  assumes "run_ops step xs s = (rs, s')" "along good step xs s" "i < j" "j < length xs"
    and "used (xs ! i) (rs ! i) = Some n" "granted (xs ! j) (rs ! j) = Some m"
  shows "n < m"
proof -
  obtain s1 s2 where a: "run_ops step (take j xs) s = (take j rs, s1)" "step (xs ! j) s1 = (rs ! j, s2)"
    using run_ops_at [OF assms(1,4)] by blast
  have i: "i < length (take j xs)" using assms(3,4) by simp
  obtain s3 s4 where b: "run_ops step (take i (take j xs)) s = (take i (take j rs), s3)"
    "step (xs ! i) s3 = (rs ! i, s4)"
    "run_ops step (drop (Suc i) (take j xs)) s4 = (drop (Suc i) (take j rs), s1)"
    using run_ops_at [OF a(1) i] assms(3) by auto
  have g1: "good s1" by (rule along_start [OF along_drop [OF assms(2) a(1)]])
  have gt: "along good step (take j xs) s" by (rule along_take [OF assms(2)])
  have ad: "along good step (drop i (take j xs)) s3" by (rule along_drop [OF gt b(1)])
  have "drop i (take j xs) = xs ! i # drop (Suc i) (take j xs)"
    using Cons_nth_drop_Suc [OF i] assms(3) by simp
  then have g3: "good s3" and g4: "along good step (drop (Suc i) (take j xs)) s4"
    using ad b(2) by simp_all
  have "n < floor_of s4" by (rule spend [OF g3 b(2) assms(5)])
  also have "floor_of s4 \<le> floor_of s1" by (rule floor_run [OF g4 b(3)])
  also have "floor_of s1 \<le> m" by (rule grant [OF g1 a(2) assms(6)])
  finally show ?thesis .
qed

end

end
