(* ===== verification/Store_Props.thy ===== *)
theory Store_Props
  imports Nonce_Book
begin

text \<open>
  The promises of the durable store over any sequence of its operations, whatever the host's clock
  and file system do: the pending operation stays until it is finished, archived orders never
  change, exchange nonces increase, and the log stays within its limits.
\<close>

section \<open>Sequences of operations\<close>

datatype store_op =
    Op_begin json
  | Op_finish json
  | Op_event string json
  | Op_archive string json
  | Op_nonce

fun store_step :: "host \<Rightarrow> store_op \<Rightarrow> store \<Rightarrow> u64 option res \<times> store" where
  "store_step h (Op_begin v) s = (case store_begin h v s of (r, s') \<Rightarrow> (map_sum id (\<lambda>_. None) r, s'))"
| "store_step h (Op_finish v) s = (case store_finish h v s of (r, s') \<Rightarrow> (map_sum id (\<lambda>_. None) r, s'))"
| "store_step h (Op_event k v) s = (case store_event h k v s of (r, s') \<Rightarrow> (map_sum id (\<lambda>_. None) r, s'))"
| "store_step h (Op_archive i v) s = (case archive_order h i v s of (r, s') \<Rightarrow> (map_sum id (\<lambda>_. None) r, s'))"
| "store_step h Op_nonce s = (case next_nonce h s of (r, s') \<Rightarrow> (map_sum id Some r, s'))"

section \<open>The pending slot\<close>

definition holds_doc :: "string \<Rightarrow> doc \<Rightarrow> store \<Rightarrow> store \<Rightarrow> bool" where
  "holds_doc name d s s' \<longleftrightarrow> (find_doc name s = Some d \<longrightarrow> find_doc name s' = Some d)"

interpretation held: store_order "holds_doc name d" for name d
  by unfold_locales (auto simp: holds_doc_def find_doc_def)

lemma holds_other: "n \<noteq> name \<Longrightarrow> holds_doc name d s (put_doc n x s)"
  by (simp add: holds_doc_def)

lemma archive_name_prefix: "archive_name h i = Inr name \<Longrightarrow> \<exists>x. name = ''order_archive/'' @ x"
  by (auto simp: archive_name_def)

lemma pending_archive: "keeps (holds_doc ''pending.json'' d) (archive_order h i v)"
  by (rule held.keeps_archive) (auto simp: holds_doc_def dest!: archive_name_prefix)

lemma pending_nonce: "keeps (holds_doc ''pending.json'' d) (next_nonce h)"
  unfolding next_nonce_def Let_def
  by (intro held.keeps_sbind held.keeps_pure held.keeps_write holds_other) simp

lemma store_pending_find: "store_pending s = Inr (Some w) \<longleftrightarrow> find_doc ''pending.json'' s = Some (Doc_json w)"
  by (simp add: store_pending_def)

lemma begin_blocked:
  assumes "store_begin h v s = (r, s')" "store_pending s = Inr (Some w)"
  shows "s' = s" "\<exists>e. r = Inl e"
  using assms unfolding store_begin_def by (auto simp: sbind_eq ensure_def split: sum.splits if_splits)

text \<open>
  C23: the one pending operation is never lost or overwritten: over any sequence of store operations
  other than finishing it, whatever fails, a recorded pending operation stays, and no other
  operation can begin.
\<close>

theorem pending_kept:
  assumes "run_ops (store_step h) xs s = (rs, s')" "\<forall>v. Op_finish v \<notin> set xs"
    and "store_pending s = Inr (Some w)"
  shows "store_pending s' = Inr (Some w)
    \<and> (\<forall>i < length xs. \<forall>v. xs ! i = Op_begin v \<longrightarrow> (\<exists>e. rs ! i = Inl e))"
  using assms
proof (induction xs arbitrary: s rs)
  case (Cons x xs)
  obtain r s1 qs where st: "store_step h x s = (r, s1)" "run_ops (store_step h) xs s1 = (qs, s')" "rs = r # qs"
    using Cons.prems(1) by (auto split: prod.splits)
  have p: "find_doc ''pending.json'' s = Some (Doc_json w)" using Cons.prems(3) store_pending_find by blast
  have "store_pending s1 = Inr (Some w) \<and> (\<forall>v. x = Op_begin v \<longrightarrow> (\<exists>e. r = Inl e))"
  proof (cases x)
    case (Op_begin v)
    obtain q where q: "store_begin h v s = (q, s1)" "r = map_sum id (\<lambda>_. None) q"
      using st(1) Op_begin by (auto split: prod.splits)
    from begin_blocked [OF q(1) Cons.prems(3)] show ?thesis using q(2) Op_begin Cons.prems(3) by auto
  next
    case (Op_event k v)
    then show ?thesis
      using keepsD [OF held.keeps_event [of "''pending.json''" "Doc_json w"]] st(1) p
      by (auto simp: holds_doc_def store_pending_find split: prod.splits)
  next
    case (Op_archive i v)
    then show ?thesis
      using keepsD [OF pending_archive] st(1) p
      by (auto simp: holds_doc_def store_pending_find split: prod.splits)
  next
    case Op_nonce
    then show ?thesis
      using keepsD [OF pending_nonce] st(1) p
      by (auto simp: holds_doc_def store_pending_find split: prod.splits)
  qed (use Cons.prems(2) in auto)
  with Cons.IH [OF st(2)] Cons.prems(2) st(3) show ?case by (auto simp: nth_Cons split: nat.splits)
qed simp

section \<open>The archive\<close>

lemma archive_kept: "keeps (holds_doc (''order_archive/'' @ x) d) (archive_order h i v)"
  by (rule held.keeps_archive) (auto simp: holds_doc_def)

lemma store_step_archive:
  "store_step h op s = (r, s') \<Longrightarrow> holds_doc (''order_archive/'' @ x) d s s'"
proof -
  have b: "keeps (holds_doc (''order_archive/'' @ x) d) (store_begin h v)"
    "keeps (holds_doc (''order_archive/'' @ x) d) (store_finish h v)"
    "keeps (holds_doc (''order_archive/'' @ x) d) (next_nonce h)" for v
    unfolding store_begin_def store_finish_def next_nonce_def Let_def
    by (intro held.keeps_sbind held.keeps_pure held.keeps_write held.keeps_event holds_other; simp)+
  show "store_step h op s = (r, s') \<Longrightarrow> holds_doc (''order_archive/'' @ x) d s s'"
    using keepsD [OF b(1)] keepsD [OF b(2)] keepsD [OF b(3)] keepsD [OF archive_kept] keepsD [OF held.keeps_event]
    by (cases op) (auto split: prod.splits)
qed

text \<open>
  C29: the order archive is immutable: over any sequence of store operations, whatever fails, an
  archived order stays archived with the same content, and archiving another value under its
  client identifier is refused.
\<close>

theorem archive_immutable:
  assumes "run_ops (store_step h) xs s = (rs, s')" "archived_order h i s = Inr (Some v)"
  shows "archived_order h i s' = Inr (Some v)
    \<and> (\<not> json_eq v w \<longrightarrow> (\<exists>e. archive_order h i w s' = (Inl e, s')))"
proof -
  obtain x where n: "archive_name h i = Inr (''order_archive/'' @ x)"
    and d: "find_doc (''order_archive/'' @ x) s = Some (Doc_json v)"
      proof -
    obtain name where a: "archive_name h i = Inr name" "find_doc name s = Some (Doc_json v)"
      using assms(2) by (auto simp: archived_order_def)
    then show ?thesis using that archive_name_prefix [OF a(1)] by auto
  qed
  have "holds_doc (''order_archive/'' @ x) (Doc_json v) s s'"
    by (rule run_ops_keeps [OF _ _ _ assms(1)]) (auto simp: holds_doc_def dest!: store_step_archive [unfolded holds_doc_def])
  then have d': "find_doc (''order_archive/'' @ x) s' = Some (Doc_json v)" using d by (simp add: holds_doc_def)
  show ?thesis using n d' by (auto simp: archived_order_def archive_order_def sbind_eq ensure_def)
qed

section \<open>Exchange nonces\<close>

definition nonce_floor :: "store \<Rightarrow> nat" where
  "nonce_floor s = (case find_doc ''nonce.json'' s of Some (Doc_u64 n) \<Rightarrow> Suc (unat n) | _ \<Rightarrow> 0)"

definition nonce_good :: "store \<Rightarrow> bool" where
  "nonce_good s \<longleftrightarrow> read_u64 ''nonce.json'' s \<noteq> Inr (Some (- 1))"

fun nonce_of :: "store_op \<Rightarrow> u64 option res \<Rightarrow> nat option" where
  "nonce_of Op_nonce (Inr (Some n)) = Some (unat n)"
| "nonce_of _ _ = None"

lemma next_nonce_step:
  assumes "next_nonce h s = (r, s')" "nonce_good s"
  shows "nonce_floor s \<le> nonce_floor s'" "r = Inr n \<Longrightarrow> nonce_floor s \<le> unat n \<and> nonce_floor s' = Suc (unat n)"
proof -
  have k: "nonce_floor s \<le> nonce_floor s' \<and> (r = Inr n \<longrightarrow> nonce_floor s \<le> unat n \<and> nonce_floor s' = Suc (unat n))"
  proof (cases "read_u64 ''nonce.json'' s")
    case (Inr last)
    define m where "m = wmax (ho_clock h (sv_tick s)) ((case last of None \<Rightarrow> 0 | Some x \<Rightarrow> x) + 1)"
    obtain q where w: "store_write h ''nonce.json'' (Doc_u64 m) (s\<lparr>sv_tick := Suc (sv_tick s)\<rparr>) = (q, s')"
      "r = (case q of Inl e \<Rightarrow> Inl e | Inr _ \<Rightarrow> Inr m)"
      using assms(1) Inr by (auto simp: next_nonce_def sbind_eq m_def Let_def split: prod.splits sum.splits)
    have f: "nonce_floor s \<le> unat m"
    proof (cases last)
      case None
      then show ?thesis using Inr by (simp add: nonce_floor_def)
    next
      case (Some x)
      then have x: "find_doc ''nonce.json'' s = Some (Doc_u64 x)"
        using Inr by simp
      then have "x \<noteq> - 1" using assms(2) by (auto simp: nonce_good_def read_u64_def)
      then have "unat (x + 1) = Suc (unat x)"
        using unatSuc [of x] by (metis add.commute add_eq_0_iff minus_minus)
      then show ?thesis using x Some by (simp add: nonce_floor_def m_def unat_wmax)
    qed
    from store_write_cases [OF w(1)] show ?thesis
    proof
      assume "s' = put_doc ''nonce.json'' (Doc_u64 m) (s\<lparr>sv_tick := Suc (sv_tick s), sv_tick := Suc (sv_tick (s\<lparr>sv_tick := Suc (sv_tick s)\<rparr>))\<rparr>)"
      then have "nonce_floor s' = Suc (unat m)" by (simp add: nonce_floor_def)
      then show ?thesis using f w(2) by (auto split: sum.splits)
    next
      assume "(\<exists>e. q = Inl e) \<and> sv_files s' = sv_files (s\<lparr>sv_tick := Suc (sv_tick s)\<rparr>)
        \<and> sv_log s' = sv_log (s\<lparr>sv_tick := Suc (sv_tick s)\<rparr>)"
      then show ?thesis using w(2) by (auto simp: nonce_floor_def find_doc_def)
    qed
  qed (use assms(1) in \<open>auto simp: next_nonce_def sbind_eq\<close>)
  then show "nonce_floor s \<le> nonce_floor s'" "r = Inr n \<Longrightarrow> nonce_floor s \<le> unat n \<and> nonce_floor s' = Suc (unat n)"
    by auto
qed

definition same_floor :: "store \<Rightarrow> store \<Rightarrow> bool" where
  "same_floor s s' \<longleftrightarrow> nonce_floor s = nonce_floor s'"

interpretation floor: store_order same_floor
  by unfold_locales (auto simp: same_floor_def nonce_floor_def find_doc_def)

lemma floor_other: "n \<noteq> ''nonce.json'' \<Longrightarrow> same_floor s (put_doc n x s)"
  by (simp add: same_floor_def nonce_floor_def)

lemma store_step_floor:
  assumes "store_step h op s = (r, s')" "op \<noteq> Op_nonce" shows "nonce_floor s = nonce_floor s'"
proof -
  have k: "keeps same_floor (store_begin h v)" "keeps same_floor (store_finish h v)"
    "keeps same_floor (archive_order h i v)" for v i
    unfolding store_begin_def store_finish_def
    by (intro floor.keeps_sbind floor.keeps_pure floor.keeps_write floor.keeps_event floor_other; simp)+
      (rule floor.keeps_archive, auto intro!: floor_other dest!: archive_name_prefix)
  show ?thesis
    using keepsD [OF k(1)] keepsD [OF k(2)] keepsD [OF k(3)] keepsD [OF floor.keeps_event] assms
    by (cases op) (auto simp: same_floor_def split: prod.splits)
qed

interpretation exchange: nonce_book "store_step h" nonce_floor nonce_good nonce_of nonce_of for h
proof
  fix s s' x r n assume g: "nonce_good s" and st: "store_step h x s = (r, s')"
  show "nonce_floor s \<le> nonce_floor s'"
    using next_nonce_step(1) [OF _ g] store_step_floor [OF st] st
    by (cases x) (auto split: prod.splits)
  assume "nonce_of x r = Some n"
  then obtain m where m: "x = Op_nonce" "r = Inr (Some m)" "n = unat m"
    by (cases "(x, r)" rule: nonce_of.cases) auto
  obtain q where q: "next_nonce h s = (q, s')" "r = map_sum id Some q"
    using st m(1) by (auto split: prod.splits)
  with m have "q = Inr m" by (cases q) auto
  from next_nonce_step(2) [OF q(1) g this] m show "nonce_floor s \<le> n" "n < nonce_floor s'" by auto
qed

text \<open>
  C27: exchange nonces strictly increase over any sequence of store operations, whatever the clock
  does and whichever writes fail, as long as the recorded nonce is not the largest 64-bit integer,
  after which the addition wraps to zero.
\<close>

theorem exchange_nonce_increases:
  assumes "run_ops (store_step h) xs s = (rs, s')" "along nonce_good (store_step h) xs s"
    and "i < j" "j < length xs" "nonce_of (xs ! i) (rs ! i) = Some n" "nonce_of (xs ! j) (rs ! j) = Some m"
  shows "n < m"
  by (rule exchange.used_then_granted [OF assms])

section \<open>The log\<close>

lemma prune_ok:
  assumes "prune_segments h s = (Inr u, s')"
  shows "length (sv_segments s') \<le> so_event_retained_segments (sv_policy s)" "sv_active s' = sv_active s"
    "sv_policy s' = sv_policy s" "sv_log s' = sv_log s"
  using assms by (auto simp: prune_segments_def dest!: do_io_ok split: if_splits)

lemma rotate_ok:
  assumes "rotate_events h len s = (Inr u, s')" "len \<le> so_event_segment_bytes (sv_policy s)"
  shows "length (sv_segments s') \<le> so_event_retained_segments (sv_policy s)"
    "sv_active s' + len \<le> so_event_segment_bytes (sv_policy s)" "sv_policy s' = sv_policy s" "sv_log s' = sv_log s"
proof -
  let ?lim = "so_event_segment_bytes (sv_policy s)"
  obtain s1 where p: "prune_segments h s1 = (Inr u, s')"
    and s1: "sv_policy s1 = sv_policy s" "sv_log s1 = sv_log s"
    "sv_active s1 = (if 0 < sv_active s \<and> ?lim < sat_add (sv_active s) len then 0 else sv_active s)"
    using assms(1) by (auto simp: rotate_events_def dest!: do_io_ok elim!: sbind_InrE split: if_splits)
  have "sv_active s1 + len \<le> ?lim"
  proof (cases "sv_active s1 = 0")
    case False
    then have "sat_add (sv_active s) len \<le> ?lim" "sv_active s1 = sv_active s"
      using s1(3) by (auto split: if_splits simp: not_less word_neq_0_conv)
    moreover have "x \<le> ?lim" if "- 1 \<le> ?lim" for x
      using that word_n1_ge [of x] by (rule order_trans [rotated])
    ultimately show ?thesis by (auto simp: sat_add_def split: if_splits)
  qed (use assms(2) in simp)
  then show "length (sv_segments s') \<le> so_event_retained_segments (sv_policy s)"
    "sv_active s' + len \<le> ?lim" "sv_policy s' = sv_policy s" "sv_log s' = sv_log s"
    using prune_ok [OF p] s1(1,2) by simp_all
qed

text \<open>
  An event that is recorded is appended to the log exactly once and keeps the log within its
  limits: the active segment never exceeds the configured size and at most the configured number
  of old segments is retained.
\<close>

theorem log_bounded:
  assumes "store_event h kind v s = (Inr u, s')"
  shows "sv_log s' = sv_log s @ [(ho_clock h (sv_tick s), kind, v)]
    \<and> sv_active s' \<le> so_event_segment_bytes (sv_policy s)
    \<and> length (sv_segments s') \<le> so_event_retained_segments (sv_policy s)"
proof -
  let ?now = "ho_clock h (sv_tick s)"
  let ?len = "ho_event_len h ?now kind v"
  obtain s1 u1 where r: "rotate_events h ?len (s\<lparr>sv_tick := Suc (sv_tick s)\<rparr>) = (Inr u1, s1)"
    and l: "?len \<le> so_event_segment_bytes (sv_policy s)"
    and a: "do_io h ''event append failed'' (append_event ?now kind v ?len) s1 = (Inr u, s')"
    using assms by (auto simp: store_event_def Let_def elim!: sbind_InrE)
  have l': "?len \<le> so_event_segment_bytes (sv_policy (s\<lparr>sv_tick := Suc (sv_tick s)\<rparr>))" using l by simp
  from rotate_ok [OF r l'] do_io_ok [OF a] show ?thesis by (simp add: append_event_def)
qed

section \<open>Redaction\<close>

fun leaks :: "json \<Rightarrow> bool" where
  "leaks (JObj kvs) = (\<exists>p \<in> set kvs. fst p = ''raw_transaction'' \<or> fst p = ''signature'' \<or> leaks (snd p))"
| "leaks (JArr xs) = (\<exists>x \<in> set xs. leaks x)"
| "leaks v = False"

fun keys_distinct :: "json \<Rightarrow> bool" where
  "keys_distinct (JObj kvs) = (distinct (map fst kvs) \<and> (\<forall>p \<in> set kvs. keys_distinct (snd p)))"
| "keys_distinct (JArr xs) = (\<forall>x \<in> set xs. keys_distinct x)"
| "keys_distinct v = True"

lemma swap_remove_set:
  assumes "distinct (map fst kvs)"
  shows "set (swap_remove k kvs) = {p \<in> set kvs. fst p \<noteq> k}"
  using assms
proof (induction k kvs rule: swap_remove.induct)
  case (2 k k' v r)
  show ?case
  proof (cases "k = k'")
    case True
    have "set (last r # butlast r) = set r" if "r \<noteq> []"
      using that append_butlast_last_id [OF that] by (metis Un_insert_right list.set(1,2) set_append sup_bot_right)
    moreover have "k' \<notin> fst ` set r" using 2(2) by simp
    ultimately show ?thesis using True by (cases "r = []") auto
  qed (use 2 in auto)
qed simp

lemma swap_remove_distinct: "distinct (map fst kvs) \<Longrightarrow> distinct (map fst (swap_remove k kvs))"
proof (induction k kvs rule: swap_remove.induct)
  case (2 k k' v r)
  show ?case
  proof (cases "k = k'")
    case True
    have "distinct (map fst (last r # butlast r))" if "r \<noteq> []"
    proof -
      have "map fst r = map fst (butlast r @ [last r])" using that by simp
      then have "map fst r = map fst (butlast r) @ [fst (last r)]" by (simp only: map_append list.map)
      then have "distinct (map fst (butlast r) @ [fst (last r)])" using 2(2) by (metis distinct.simps(2) list.map(2))
      then show ?thesis by auto
    qed
    then show ?thesis using True by simp
  next
    case False
    then have "fst ` set (swap_remove k r) \<subseteq> fst ` set r" using swap_remove_set [of r k] 2(2) by auto
    then show ?thesis using 2 False by auto
  qed
qed simp

text \<open>
  A redacted document carries no signed transaction and no signature at any depth, and
  everything else of an object at its top level is kept.
\<close>

theorem redaction_complete:
  assumes "keys_distinct v"
  shows "\<not> leaks (redact_signatures v)
    \<and> (\<forall>kvs k w. v = JObj kvs \<longrightarrow> (k, w) \<in> set kvs \<longrightarrow> k \<noteq> ''raw_transaction'' \<longrightarrow> k \<noteq> ''signature''
         \<longrightarrow> (\<exists>rest. redact_signatures v = JObj rest \<and> (k, redact_signatures w) \<in> set rest))"
  using assms
proof (induction v rule: redact_signatures.induct)
  case (1 kvs)
  let ?m = "map (\<lambda>(k, v). (k, redact_signatures v)) kvs"
  have d: "distinct (map fst ?m)" using 1(2) by (simp add: comp_def split_def)
  have s: "set (swap_remove ''signature'' (swap_remove ''raw_transaction'' ?m))
    = {p \<in> set ?m. fst p \<noteq> ''raw_transaction'' \<and> fst p \<noteq> ''signature''}"
    using swap_remove_set [OF d] swap_remove_set [OF swap_remove_distinct [OF d]] by auto
  have "\<not> leaks (redact_signatures w)" if "(k, w) \<in> set kvs" for k w
    using 1(1) [OF that] that 1(2) by fastforce
  then show ?case unfolding redact_signatures.simps leaks.simps s by (auto simp: s simp del: swap_remove.simps)
qed auto

end
