(* ===== verification/Hl_Journal_Props.thy ===== *)
theory Hl_Journal_Props
  imports Hl_Journal Store_Props
begin

text \<open>
  The ledger never forgets a client identifier, an observation never revives a finished order, and
  absence from the exchange is never taken as proof.
\<close>

section \<open>The ledger as a map\<close>

lemma map_of_ob_put [simp]: "map_of (ob_put k v m) = (map_of m)(k \<mapsto> v)"
  by (induction k v m rule: ob_put.induct) auto

definition keys :: "orders \<Rightarrow> string set" where
  "keys m = fst ` set m"

lemma keys_iff: "k \<in> keys m \<longleftrightarrow> map_of m k \<noteq> None"
  by (auto simp: keys_def map_of_eq_None_iff)

lemma keys_ob_put [simp]: "keys (ob_put k v m) = insert k (keys m)"
  by (induction k v m rule: ob_put.induct) (auto simp: keys_def)

lemma keys_ob_remove [simp]: "keys (ob_remove k m) = keys m - {k}"
  by (auto simp: keys_def ob_remove_def)

section \<open>Identifiers that are spent\<close>

definition archived_key :: "string \<Rightarrow> store \<Rightarrow> bool" where
  "archived_key k s \<longleftrightarrow> find_doc (''order_archive/'' @ ascii_lower k @ ''.json'') s \<noteq> None"

definition in_ledger :: "string \<Rightarrow> store \<Rightarrow> bool" where
  "in_ledger i s \<longleftrightarrow> (\<exists>m k. find_doc ''orders.json'' s = Some (Doc_orders m) \<and> k \<in> keys m \<and> eq_ignore_case k i)"

definition spent :: "string \<Rightarrow> store \<Rightarrow> bool" where
  "spent i s \<longleftrightarrow> in_ledger i s \<or> archived_key i s"

definition spent_kept :: "store \<Rightarrow> store \<Rightarrow> bool" where
  "spent_kept s s' \<longleftrightarrow> (\<forall>i. spent i s \<longrightarrow> spent i s')"

lemma spent_files: assumes "sv_files s' = sv_files s" shows "spent i s' = spent i s"
  unfolding spent_def in_ledger_def archived_key_def find_doc_files [OF assms] ..

interpretation spending: store_order spent_kept
proof
  show "spent_kept s s'" if "sv_files s' = sv_files s" for s s'
    unfolding spent_kept_def spent_files [OF that] by simp
qed (simp add: spent_kept_def)

lemma spent_other:
  assumes "n \<noteq> ''orders.json''" "\<And>x. n \<noteq> ''order_archive/'' @ x"
  shows "spent_kept s (put_doc n d s)"
  using assms by (auto simp: spent_kept_def spent_def in_ledger_def archived_key_def)

lemma spent_archive: "keeps spent_kept (archive_order h i v)"
  by (rule spending.keeps_archive)
    (auto simp: spent_kept_def spent_def in_ledger_def archived_key_def archive_name_def)

text \<open>
  A change of the ledger is safe when it writes at most to the archive, never overwriting an entry,
  and every identifier that leaves the ledger is archived first.
\<close>

definition same_orders :: "store \<Rightarrow> store \<Rightarrow> bool" where
  "same_orders s s' \<longleftrightarrow> find_doc ''orders.json'' s' = find_doc ''orders.json'' s
     \<and> (\<forall>k. archived_key k s \<longrightarrow> archived_key k s')"

interpretation same: store_order same_orders
proof
  show "same_orders s s'" if "sv_files s' = sv_files s" for s s'
    unfolding same_orders_def archived_key_def find_doc_files [OF that] by simp
qed (simp add: same_orders_def)

lemma same_archive: "keeps same_orders (archive_order h i v)"
  by (rule same.keeps_archive) (auto simp: same_orders_def archived_key_def archive_name_def)

definition safe_change :: "(orders \<Rightarrow> orders st) \<Rightarrow> bool" where
  "safe_change c \<longleftrightarrow> (\<forall>m s r s1. c m s = (r, s1) \<longrightarrow> same_orders s s1
     \<and> (\<forall>m'. r = Inr m' \<longrightarrow> (\<forall>k \<in> keys m. k \<in> keys m' \<or> archived_key k s1)))"

lemma eq_case_lower: "eq_ignore_case k i \<Longrightarrow> archived_key k s = archived_key i s"
  by (simp add: eq_ignore_case_def archived_key_def)

lemma spent_put_orders:
  assumes "same_orders s s1" "\<forall>k \<in> keys m. k \<in> keys m' \<or> archived_key k s1"
    and "read_orders ''orders.json'' s = Inr v" "m = (case v of None \<Rightarrow> [] | Some x \<Rightarrow> x)"
  shows "spent_kept s (put_doc ''orders.json'' (Doc_orders m') s1)"
  unfolding spent_kept_def
proof (intro allI impI)
  fix i assume "spent i s"
  then consider (ledger) m0 k where "find_doc ''orders.json'' s = Some (Doc_orders m0)" "k \<in> keys m0" "eq_ignore_case k i"
    | (archive) "archived_key i s" by (auto simp: spent_def in_ledger_def)
  then show "spent i (put_doc ''orders.json'' (Doc_orders m') s1)"
  proof cases
    case ledger
    then have "v = Some m0" using assms(3) by simp
    then have "m0 = m" using assms(4) by simp
    then have "k \<in> keys m' \<or> archived_key i s1" using ledger assms(2) eq_case_lower by blast
    then show ?thesis using ledger(3) by (auto simp: spent_def in_ledger_def archived_key_def)
  next
    case archive
    then have "archived_key i s1" using assms(1) by (simp add: same_orders_def)
    then show ?thesis by (simp add: spent_def archived_key_def)
  qed
qed

lemma spent_update:
  assumes "safe_change c" shows "keeps spent_kept (update_orders h c)"
  unfolding keeps_def update_orders_def store_update_def
proof (intro allI impI)
  fix s r s' assume "sbind (sread (read_orders ''orders.json'')) (\<lambda>v.
     sbind (c (case v of None \<Rightarrow> [] | Some x \<Rightarrow> x)) (\<lambda>x. store_write h ''orders.json'' (Doc_orders x))) s = (r, s')"
  then show "spent_kept s s'"
  proof (cases rule: sbind_cases)
    case (err e)
    then show ?thesis by (auto intro: spending.files_only)
  next
    case (ok v s0)
    then have s0: "s0 = s" "read_orders ''orders.json'' s = Inr v" by auto
    from ok(2) show ?thesis unfolding s0(1)
    proof (cases rule: sbind_cases)
      case (err e)
      then have "same_orders s s'" using assms unfolding safe_change_def by blast
      then show ?thesis by (auto simp: same_orders_def spent_kept_def spent_def in_ledger_def)
    next
      case (ok m' s1)
      then have sc: "same_orders s s1" "\<forall>k \<in> keys (case v of None \<Rightarrow> [] | Some x \<Rightarrow> x). k \<in> keys m' \<or> archived_key k s1"
        using assms unfolding safe_change_def by blast+
      show ?thesis
      proof (cases "sv_files s' = sv_files s1")
        case True
        then have "same_orders s s'" using sc(1) same.files_only same.step_trans by blast
        then show ?thesis by (auto simp: same_orders_def spent_kept_def spent_def in_ledger_def)
      next
        case False
        then have f: "sv_files s' = sv_files (put_doc ''orders.json'' (Doc_orders m') s1)"
          using store_write_cases [OF ok(2)] by (auto simp: put_doc_def)
        show ?thesis
          using spending.step_trans [OF spent_put_orders [OF sc s0(2) refl] spending.files_only [OF f]] .
      qed
    qed
  qed
qed

section \<open>Every change of the ledger is safe\<close>

text \<open>Changes that do not touch the files and only add or replace entries.\<close>

lemma safe_growing:
  assumes "\<And>m. keeps (\<lambda>s s'. sv_files s' = sv_files s) (c m)"
    and "\<And>m s m' s1. c m s = (Inr m', s1) \<Longrightarrow> keys m \<subseteq> keys m'"
  shows "safe_change c"
  unfolding safe_change_def using keepsD [OF assms(1)] assms(2) same.files_only by blast

interpretation still: store_order "\<lambda>s s'. sv_files s' = sv_files s"
  by unfold_locales auto

lemma prepare_wire_keys: "prepare_wire hg p u n w m = Inr m' \<Longrightarrow> keys m \<subseteq> keys m' \<and> (\<exists>i. as_str (jget w ''c'') = Some i \<and> i \<in> keys m')"
  by (auto simp: prepare_wire_def keys_iff split: option.splits if_splits)

lemma prepare_wires_keys:
  "prepare_wires hg p u n ws m = Inr m' \<Longrightarrow> keys m \<subseteq> keys m' \<and> (\<forall>w \<in> set ws. \<exists>i. as_str (jget w ''c'') = Some i \<and> i \<in> keys m')"
proof (induction ws arbitrary: m)
  case (Cons w ws)
  then obtain m1 where "prepare_wire hg p u n w m = Inr m1" "prepare_wires hg p u n ws m1 = Inr m'" by auto
  with Cons.IH [OF this(2)] prepare_wire_keys [OF this(1)] show ?case by auto
qed simp

lemma safe_prepare: "safe_change (\<lambda>m. slift (prepare_wires hg p u n ws m))"
  by (rule safe_growing) (auto intro: still.keeps_pure dest: prepare_wires_keys)

lemma safe_legacy: "safe_change (\<lambda>m. slift (Inr (if map_of m i = None then ob_put i x m else m)))"
  by (rule safe_growing) (auto intro: still.keeps_pure)

lemma ack_loop_still: "keeps (\<lambda>s s'. sv_files s' = sv_files s) (ack_loop h r st n ws m)"
  by (induction ws arbitrary: n m) (auto simp: split_def intro!: still.keeps_sbind still.keeps_pure)

lemma ack_loop_keys: "ack_loop h r st n ws m s = (Inr m', s1) \<Longrightarrow> keys m \<subseteq> keys m'"
  by (induction ws arbitrary: n m s) (fastforce simp: split_def elim!: sbind_InrE)+

lemma safe_ack: "safe_change (ack_loop h r st n ws)"
  by (rule safe_growing) (auto intro: ack_loop_still dest: ack_loop_keys)

lemma not_sent_still: "keeps (\<lambda>s s'. sv_files s' = sv_files s) (not_sent_loop h ws m)"
proof (induction ws arbitrary: m)
  case (Cons w ws)
  then show ?case by (auto intro!: still.keeps_sbind still.keeps_pure split: option.splits)
qed (simp add: still.keeps_pure)

lemma not_sent_keys: "not_sent_loop h ws m s = (Inr m', s1) \<Longrightarrow> keys m \<subseteq> keys m'"
  by (induction ws arbitrary: m s) (fastforce elim!: sbind_InrE split: option.splits)+

lemma safe_not_sent: "safe_change (\<lambda>m. sbind (slift (wires_of a msg)) (\<lambda>ws. not_sent_loop h ws m))"
  by (rule safe_growing)
    (auto intro!: still.keeps_sbind still.keeps_pure not_sent_still elim!: sbind_InrE dest: not_sent_keys)

lemma safe_observe: "safe_change (observe_change h i r)"
  by (rule safe_growing)
    (auto simp: observe_change_def intro!: still.keeps_sbind still.keeps_pure elim!: sbind_InrE split: if_splits)

lemma compact_same: "keeps same_orders (compact_loop h cs m)"
  by (induction h cs m rule: compact_loop.induct)
    (auto intro!: same.keeps_sbind same.keeps_pure same_archive)

lemma compact_keys:
  assumes "compact_loop h cs m s = (Inr m', s1)" "k \<in> keys m"
  shows "k \<in> keys m' \<or> archived_key k s1"
  using assms
proof (induction h cs m arbitrary: s rule: compact_loop.induct)
  case (2 h t i rest m)
  from 2(2) obtain o1 u s2 where a: "map_of m i = Some o1" "archive_order h i (order_json o1) s = (Inr u, s2)"
    "compact_loop h rest (ob_remove i m) s2 = (Inr m', s1)"
    by (auto elim!: sbind_InrE)
  show ?case
  proof (cases "k = i")
    case True
    have "archived_key i s2" using archive_order_ok [OF a(2)] by (simp add: order_json_def archived_key_def)
    then show ?thesis using keepsD [OF compact_same a(3)] True by (simp add: same_orders_def)
  next
    case False
    then show ?thesis using 2(1) [OF a(3)] 2(3) by simp
  qed
qed simp

lemma safe_compact: "safe_change (\<lambda>m. let t = f m in compact_loop h (take (g t) t) m)"
  unfolding safe_change_def Let_def using keepsD [OF compact_same] compact_keys by blast

section \<open>Runs of the journal\<close>

datatype journal_op =
    J_prepare json string u64
  | J_legacy string
  | J_ack json json
  | J_not_sent json
  | J_observe string json
  | J_compact
  | J_store store_op

fun journal_step :: "host \<Rightarrow> journal_op \<Rightarrow> store \<Rightarrow> unit res \<times> store" where
  "journal_step h (J_prepare a u n) s = journal_prepare h a u n s"
| "journal_step h (J_legacy u) s = import_legacy h u s"
| "journal_step h (J_ack a r) s = journal_acknowledged h a r s"
| "journal_step h (J_not_sent a) s = journal_not_submitted h a s"
| "journal_step h (J_observe i r) s = journal_observe h i r s"
| "journal_step h J_compact s = journal_compact h s"
| "journal_step h (J_store x) s = map_prod (map_sum id (\<lambda>_. ())) id (store_step h x s)"

lemma write_spent: "n \<in> {''pending.json'', ''nonce.json'', ''hedge_order.json''} \<Longrightarrow> keeps spent_kept (store_write h n d)"
  by (rule spending.keeps_write) (auto intro!: spent_other)

lemma spent_store: "store_step h x s = (r, s') \<Longrightarrow> spent_kept s s'"
proof -
  have k: "keeps spent_kept (store_begin h v)" "keeps spent_kept (store_finish h v)"
    "keeps spent_kept (next_nonce h)" for v
    unfolding store_begin_def store_finish_def next_nonce_def Let_def
    by (intro spending.keeps_sbind spending.keeps_pure spending.keeps_event write_spent; simp)+
  show "store_step h x s = (r, s') \<Longrightarrow> spent_kept s s'"
    using keepsD [OF k(1)] keepsD [OF k(2)] keepsD [OF k(3)] keepsD [OF spent_archive] keepsD [OF spending.keeps_event]
    by (cases x) (auto split: prod.splits)
qed

lemma spent_prepare: "keeps spent_kept (journal_prepare h a u n)"
  unfolding journal_prepare_def
  by (intro spending.keeps_if spending.keeps_sbind spending.keeps_pure spent_update safe_prepare)

lemma spent_legacy: "keeps spent_kept (import_legacy h u)"
  unfolding import_legacy_def
  by (intro spending.keeps_sbind spending.keeps_pure)
    (auto split: option.split intro!: spending.keeps_sbind spending.keeps_pure spent_update safe_legacy)

lemma spent_ack: "keeps spent_kept (journal_acknowledged h a r)"
  unfolding journal_acknowledged_def Let_def
  by (intro spending.keeps_if spending.keeps_sbind spending.keeps_pure spent_update safe_ack)

lemma spent_not_sent: "keeps spent_kept (journal_not_submitted h a)"
  unfolding journal_not_submitted_def
  by (intro spending.keeps_if spending.keeps_sbind spending.keeps_pure spent_update safe_not_sent write_spent) simp

lemma spent_observe: "keeps spent_kept (journal_observe h i r)"
  unfolding journal_observe_def
  by (intro spending.keeps_sbind spending.keeps_pure spent_update safe_observe spending.keeps_event)

lemma spent_compact: "keeps spent_kept (journal_compact h)"
  unfolding journal_compact_def
  by (intro spending.keeps_if spending.keeps_sbind spending.keeps_pure spent_update safe_compact)

lemma spent_step: "journal_step h x s = (r, s') \<Longrightarrow> spent_kept s s'"
  using keepsD [OF spent_prepare] keepsD [OF spent_legacy] keepsD [OF spent_ack] keepsD [OF spent_not_sent]
    keepsD [OF spent_observe] keepsD [OF spent_compact] spent_store
  by (cases x) (auto simp: map_prod_def split: prod.splits)

lemma prepare_spends:
  assumes "journal_prepare h a u n s = (Inr x, s')" "is_order_action a" "as_array (jget a ''orders'') = Some ws"
    "w \<in> set ws" "as_str (jget w ''c'') = Some i"
  shows "spent i s'"
proof -
  obtain hg p v m' s1 where u: "prepare_wires hg p u n ws v = Inr m'"
    "store_write h ''orders.json'' (Doc_orders m') s1 = (Inr x, s')"
    using assms(1-3)
    by (auto simp: journal_prepare_def update_orders_def store_update_def wires_of_def elim!: sbind_InrE)
  have "i \<in> keys m'" using prepare_wires_keys [OF u(1)] assms(4,5) by auto
  then show ?thesis using store_write_ok [OF u(2)] by (auto simp: spent_def in_ledger_def)
qed

lemma spent_refused:
  assumes "spent i s" "w \<in> set ws" "as_str (jget w ''c'') = Some i'" "eq_ignore_case i i'" "ledger_of s = Inr m"
  shows "check_new_ids h s m ws seen \<noteq> Inr ()"
  using assms(2,3)
proof (induction ws arbitrary: seen)
  case (Cons v ws)
  show ?case
  proof (cases "w = v")
    case True
    have "(\<exists>k \<in> set (map fst m). eq_ignore_case k i') \<or> archived_order h i' s \<noteq> Inr None"
    proof (cases "in_ledger i s")
      case True
      then obtain m0 k where k: "find_doc ''orders.json'' s = Some (Doc_orders m0)" "k \<in> keys m0" "eq_ignore_case k i"
        by (auto simp: in_ledger_def)
      then have "m0 = m" using assms(5) by (simp add: ledger_of_def)
      then show ?thesis using k assms(4) eq_ignore_case_trans by (auto simp: keys_def)
    next
      case False
      then have "archived_key i' s" using assms(1,4) eq_case_lower by (auto simp: spent_def)
      then show ?thesis by (auto simp: archived_order_def archive_name_def archived_key_def)
    qed
    then show ?thesis using Cons.prems(2) True by auto
  next
    case False
    then show ?thesis using Cons by auto
  qed
qed simp

text \<open>
  C11: a client identifier is spent for good once an order was prepared under it: after any sequence
  of journal and store operations, compaction into the archive included and whatever file operation
  fails, a new order with that identifier, in any letter case, is refused before it is prepared.
\<close>

theorem client_id_never_reused:
  assumes "journal_prepare h a u n s = (Inr x, s1)" "is_order_action a" "as_array (jget a ''orders'') = Some ws"
    and "w \<in> set ws" "as_str (jget w ''c'') = Some i"
    and "run_ops (journal_step h) xs s1 = (rs, s')"
    and "is_order_action b" "as_array (jget b ''orders'') = Some vs" "v \<in> set vs"
    and "as_str (jget v ''c'') = Some i'" "eq_ignore_case i i'"
  shows "validate_new_ids h b s' \<noteq> Inr ()"
proof -
  have "spent i s1" by (rule prepare_spends [OF assms(1-5)])
  moreover have "spent_kept s1 s'"
    by (rule run_ops_keeps [OF _ _ _ assms(6)]) (auto dest: spent_step simp: spent_kept_def)
  ultimately have "spent i s'" by (simp add: spent_kept_def)
  from spent_refused [OF this assms(9-11)] show ?thesis
    using assms(7,8) by (auto simp: validate_new_ids_def wires_of_def)
qed

section \<open>Observations\<close>

lemma ledger_files: assumes "sv_files s' = sv_files s" shows "ledger_of s' = ledger_of s"
  unfolding ledger_of_def read_orders_def find_doc_files [OF assms] ..

text \<open>A change that leaves the files alone is either recorded as it is or not at all.\<close>

lemma update_outcome:
  assumes "update_orders h c s = (r, s')" "ledger_of s = Inr m" "keeps (\<lambda>s s'. sv_files s' = sv_files s) (c m)"
  shows "sv_files s' = sv_files s \<and> (r = Inr () \<longrightarrow> False) \<or> (\<exists>m' s1. c m s = (Inr m', s1) \<and> ledger_of s' = Inr m')"
proof -
  obtain v where v: "read_orders ''orders.json'' s = Inr v" "m = (case v of None \<Rightarrow> [] | Some x \<Rightarrow> x)"
    using assms(2) by (auto simp: ledger_of_def)
  have "sbind (c m) (\<lambda>x. store_write h ''orders.json'' (Doc_orders x)) s = (r, s')"
    using assms(1) v by (simp add: update_orders_def store_update_def sbind_eq)
  then show ?thesis
  proof (cases rule: sbind_cases)
    case (err e)
    then show ?thesis using keepsD [OF assms(3)] by auto
  next
    case (ok m' s1)
    have f: "sv_files s1 = sv_files s" using keepsD [OF assms(3) ok(1)] .
    show ?thesis
    proof (cases "sv_files s' = sv_files s1 \<and> r \<noteq> Inr ()")
      case True
      then show ?thesis using f by auto
    next
      case False
      then have "s' = put_doc ''orders.json'' (Doc_orders m') (s1\<lparr>sv_tick := Suc (sv_tick s1)\<rparr>)"
        using store_write_cases [OF ok(2)] by auto
      then have "ledger_of s' = Inr m'" by (simp add: ledger_of_def)
      then show ?thesis using ok(1) by blast
    qed
  qed
qed

definition same_identity :: "order \<Rightarrow> order \<Rightarrow> bool" where
  "same_identity a b \<longleftrightarrow> or_cloid a = or_cloid b \<and> or_user a = or_user b \<and> or_wire a = or_wire b
     \<and> or_managed_hedge a = or_managed_hedge b \<and> or_submitted_ms a = or_submitted_ms b
     \<and> (or_oid a \<noteq> None \<longrightarrow> or_oid b = or_oid a)"

definition advances :: "json \<Rightarrow> order \<Rightarrow> order \<Rightarrow> bool" where
  "advances response a b \<longleftrightarrow> same_identity a b
     \<and> (or_terminal a \<and> terminal_status (or_status a) \<longrightarrow> or_terminal b \<and> or_status b = or_status a)
     \<and> (or_terminal b \<longrightarrow> or_terminal a
          \<or> jget response ''status'' = JStr ''order'' \<and> terminal_status (or_status b)
            \<and> jget_path response [''order'', ''status''] = JStr (or_status b))"

lemma as_strD: "as_str v = Some x \<Longrightarrow> v = JStr x"
  by (cases v) auto

lemma observed_advances:
  assumes "observed_order i response a = Inr b" "jget response ''status'' = JStr ''order''"
  shows "advances response a (b\<lparr>or_observed_ms := t, or_exchange := e\<rparr>)"
proof -
  obtain oid status where o1: "case or_oid a of None \<Rightarrow> True | Some old \<Rightarrow> old = oid"
    "as_str (jget_path response [''order'', ''status'']) = Some status" "\<not> or_terminal a \<or> or_status a = status"
    "b = a\<lparr>or_oid := Some oid, or_status := status, or_terminal := terminal_status status\<rparr>"
    using assms(1) unfolding observed_order_def Let_def rbind_eq_Inr ensure_eq context_opt_eq sum.inject by metis
  show ?thesis
    using assms(2) o1(1,3) as_strD [OF o1(2)] unfolding o1(4) advances_def same_identity_def
    by (cases "or_oid a") auto
qed

lemma observe_change_advances:
  assumes "observe_change h i response m s = (Inr m', s')" "map_of m i = Some a"
  shows "(\<exists>b. map_of m' i = Some b \<and> advances response a b) \<and> (\<forall>k. k \<noteq> i \<longrightarrow> map_of m' k = map_of m k)"
proof (cases "jget response ''status'' = JStr ''order''")
  case True
  then obtain b s1 where b: "observed_order i response a = Inr b"
    "m' = ob_put i (b\<lparr>or_observed_ms := ho_clock h (sv_tick s), or_exchange := response\<rparr>) m"
    using assms by (auto simp: observe_change_def elim!: sbind_InrE)
  then show ?thesis using observed_advances [OF b(1) True] by auto
next
  case False
  then show ?thesis using assms
    by (auto simp: observe_change_def advances_def same_identity_def elim!: sbind_InrE split: if_splits)
qed

lemma observe_still: "keeps (\<lambda>s s'. sv_files s' = sv_files s) (observe_change h i r m)"
  by (auto simp: observe_change_def intro!: still.keeps_sbind still.keeps_pure)

text \<open>
  C24: reading an order back never loses evidence: whatever the exchange answers and whatever fails,
  the order keeps its identity and its exchange identifier, no other order changes, a finished
  order stays finished with its status, and an order becomes finished only by an answer that states
  a final status of it; the operation succeeds only on such an answer or on an open order.
\<close>

theorem observation_sound:
  assumes "journal_observe h i response s = (r, s')" "ledger_of s = Inr m" "map_of m i = Some a"
  shows "\<exists>m' b. ledger_of s' = Inr m' \<and> map_of m' i = Some b \<and> advances response a b
    \<and> (\<forall>k. k \<noteq> i \<longrightarrow> map_of m' k = map_of m k)
    \<and> (r = Inr () \<longrightarrow> jget response ''status'' = JStr ''order''
        \<and> (\<exists>status. jget_path response [''order'', ''status''] = JStr status
             \<and> (status = ''open'' \<or> terminal_status status)))"
proof -
  have refl: "advances response a a" by (simp add: advances_def same_identity_def)
  obtain q s1 where u: "update_orders h (observe_change h i response) s = (q, s1)" by fastforce
  have tail: "sv_files s' = sv_files s1 \<and> (r = Inr () \<longrightarrow> q = Inr () \<and> jget response ''status'' = JStr ''order''
        \<and> (\<exists>status. jget_path response [''order'', ''status''] = JStr status \<and> (status = ''open'' \<or> terminal_status status)))"
    using assms(1) unfolding journal_observe_def
  proof (cases rule: sbind_cases)
    case (err e)
    then show ?thesis using u by simp
  next
    case (ok x s2)
    then have e: "s2 = s1" "q = Inr ()" using u by simp_all
    show ?thesis using ok(2) unfolding e(1)
    proof (cases rule: sbind_cases)
      case (err e)
      then show ?thesis using keepsD [OF still.keeps_event err(1)] by simp
    next
      case (ok y s3)
      then show ?thesis using keepsD [OF still.keeps_event ok(1)] e(2)
        by (auto elim!: sbind_cases dest!: as_strD)
    qed
  qed
  from update_outcome [OF u assms(2) observe_still]
  show ?thesis
  proof (elim disjE exE conjE)
    assume f: "sv_files s1 = sv_files s" and n: "q = Inr () \<longrightarrow> False"
    have "ledger_of s' = Inr m" using ledger_files [of s' s] tail f assms(2) by simp
    then show ?thesis using assms(3) refl tail n by blast
  next
    fix m' s2 assume c: "observe_change h i response m s = (Inr m', s2)" and l: "ledger_of s1 = Inr m'"
    have "ledger_of s' = Inr m'" using ledger_files [of s' s1] tail l by simp
    then show ?thesis using observe_change_advances [OF c assms(3)] tail by blast
  qed
qed

section \<open>Open orders\<close>

lemma find_SomeD: "find P xs = Some x \<Longrightarrow> P x \<and> x \<in> set xs"
  by (induction xs) (auto split: if_splits)

lemma open_ids_managed:
  "open_ids m coin rows = Inr is \<Longrightarrow> \<forall>i \<in> set is. \<exists>o1 \<in> set (map snd m). or_cloid o1 = i
     \<and> or_managed_hedge o1 \<and> \<not> or_terminal o1 \<and> (\<exists>row \<in> set rows. as_u64 (jget row ''oid'') = or_oid o1 \<and> jget row ''coin'' = JStr coin)"
proof (induction rows arbitrary: "is")
  case (Cons row rows)
  then obtain oid o1 js where o: "as_u64 (jget row ''oid'') = Some oid"
    "find (\<lambda>o1. or_oid o1 = Some oid) (map snd m) = Some o1" "or_managed_hedge o1" "jget row ''coin'' = JStr coin"
    "\<not> or_terminal o1" "open_ids m coin rows = Inr js" "is = or_cloid o1 # js"
    by (auto split: if_splits)
  from o(2) have "o1 \<in> set (map snd m)" "or_oid o1 = Some oid"
    using find_SomeD by fast+
  with o Cons.IH [OF o(6)] show ?case by fastforce
qed simp

text \<open>
  The orders handed over for cancellation are exactly accounted for: each is an unfinished
  order the strategy itself recorded, in the hedge coin and under the exchange's identifier, and
  every unfinished order of the ledger is among them; a foreign order blocks instead.
\<close>

theorem open_orders_accounted:
  assumes "managed_open_orders rows coin s = Inr is" "ledger_of s = Inr m"
  shows "(\<forall>i \<in> set is. \<exists>o1 \<in> set (map snd m). or_cloid o1 = i \<and> or_managed_hedge o1 \<and> \<not> or_terminal o1)
    \<and> (\<forall>o1 \<in> set (map snd m). \<not> or_terminal o1 \<longrightarrow> or_cloid o1 \<in> set is)
    \<and> (\<forall>row \<in> set (case as_array rows of Some l \<Rightarrow> l | None \<Rightarrow> []).
        \<exists>o1 \<in> set (map snd m). as_u64 (jget row ''oid'') = or_oid o1 \<and> or_managed_hedge o1)"
proof -
  obtain l where l: "as_array rows = Some l" "open_ids m coin l = Inr is"
    "\<forall>o1 \<in> set (map snd m). or_terminal o1 \<or> or_cloid o1 \<in> set is"
    using assms by (auto simp: managed_open_orders_def split: if_splits)
  have "open_ids m coin l = Inr js \<Longrightarrow> \<forall>row \<in> set l. \<exists>o1 \<in> set (map snd m). as_u64 (jget row ''oid'') = or_oid o1 \<and> or_managed_hedge o1" for js
  proof (induction l arbitrary: js)
    case (Cons row rows)
    then obtain oid o1 ks where "as_u64 (jget row ''oid'') = Some oid"
      "find (\<lambda>o1. or_oid o1 = Some oid) (map snd m) = Some o1" "or_managed_hedge o1" "open_ids m coin rows = Inr ks"
      by (auto split: if_splits)
    moreover from this(2) have "or_oid o1 = Some oid" "o1 \<in> set (map snd m)" using find_SomeD by fast+
    ultimately show ?case using Cons.IH by (metis set_ConsD)
  qed simp
  then show ?thesis using l open_ids_managed [OF l(2)] by auto
qed

end
