(* ===== verification/Evm_Fees.thy ===== *)
theory Evm_Fees
  imports Json
begin

text \<open>
  Fee caps of an Ethereum transaction (\<open>src/evm/fees.rs\<close>), the data fee of Base
  (\<open>src/liquidity/chains/base/fees.rs\<close>) and the reading of hexadecimal quantities. Answers of the
  node are arguments.
\<close>

section \<open>Hexadecimal quantities\<close>

fun trim_0x :: "string \<Rightarrow> string" where
  "trim_0x (c # d # r) = (if c = CHR ''0'' \<and> d = CHR ''x'' then trim_0x r else c # d # r)"
| "trim_0x s = s"

definition hex_val :: "char \<Rightarrow> int option" where
  "hex_val c =
     (let n = of_char c :: int in
      if 48 \<le> n \<and> n \<le> 57 then Some (n - 48)
      else if 97 \<le> n \<and> n \<le> 102 then Some (n - 87)
      else if 65 \<le> n \<and> n \<le> 70 then Some (n - 55) else None)"

text \<open>\<open>from_str_radix\<close> of an unsigned integer below \<open>bound\<close>: the first offending character decides.\<close>

fun hex_loop :: "int \<Rightarrow> int \<Rightarrow> string \<Rightarrow> int res" where
  "hex_loop bound acc [] = Inr acc"
| "hex_loop bound acc (c # cs) =
     (case hex_val c of
        None \<Rightarrow> Inl (Bail ''invalid digit found in string'')
      | Some x \<Rightarrow>
          if acc * 16 + x < bound then hex_loop bound (acc * 16 + x) cs
          else Inl (Bail ''number too large to fit in target type''))"

definition parse_hex :: "int \<Rightarrow> string \<Rightarrow> int res" where
  "parse_hex bound s =
     (if s = [] then Inl (Bail ''cannot parse integer from empty string'')
      else if s = ''+'' then Inl (Bail ''invalid digit found in string'')
      else hex_loop bound 0 (if hd s = CHR ''+'' then tl s else s))"

definition hex_u64 :: "json \<Rightarrow> u64 res" where
  "hex_u64 v =
     rbind (context_opt (as_str v) ''expected hex number'') (\<lambda>s.
     rbind (parse_hex (2 ^ 64) (trim_0x s)) (\<lambda>n. Inr (word_of_int n)))"

definition quantity :: "json \<Rightarrow> u128 res" where
  "quantity v =
     rbind (context_opt (as_str v) ''fee must be hex'') (\<lambda>s.
     rbind (parse_hex (2 ^ 128) (trim_0x s)) (\<lambda>n. Inr (word_of_int n)))"

section \<open>Fee caps\<close>

record fees =
  fe_buffer_bps :: u32
  fe_base_fee :: "u128 option"
  fe_max_fee :: u128
  fe_tip :: "u128 option"

definition buffered :: "u128 \<Rightarrow> u32 \<Rightarrow> u128 res" where
  "buffered value extra_bps =
     rbind (ensure (1 \<le> extra_bps \<and> extra_bps \<le> 40000) ''invalid gas buffer'') (\<lambda>_.
     rbind (context_opt
       (Option.bind (checked_mul value (10000 + ucast extra_bps)) (\<lambda>v. checked_add v 9999))
       ''gas buffer overflow'') (\<lambda>v. Inr (v div 10000)))"

definition bump :: "u128 \<Rightarrow> u128 res" where
  "bump value =
     context_opt (Option.bind (checked_add value (value div 4)) (\<lambda>v. checked_add v 1))
       ''replacement fee overflow''"

text \<open>An answer to the priority-fee request: a failure carries the node's error code, if it sent one.\<close>

type_synonym tip_answer = "(err \<times> int option) + json"

definition tip_of :: "u128 \<Rightarrow> u128 \<Rightarrow> tip_answer \<Rightarrow> u128 res" where
  "tip_of gas_price base answer =
     (case answer of
        Inr v \<Rightarrow> quantity v
      | Inl (e, code) \<Rightarrow>
          if code = Some (- 32601) \<or> code = Some (- 32004) then Inr (sat_sub gas_price base) else Inl e)"

definition fees_estimate :: "json res \<Rightarrow> json res \<Rightarrow> tip_answer \<Rightarrow> u32 \<Rightarrow> fees res" where
  "fees_estimate gas_answer block_answer tip_answer bps =
     rbind (ensure (1 \<le> bps \<and> bps \<le> 40000) ''invalid gas fee buffer'') (\<lambda>_.
     rbind gas_answer (\<lambda>g. rbind (quantity g) (\<lambda>gas_price.
     rbind block_answer (\<lambda>block.
     rbind (ensure (is_object block) ''latest block unavailable for fee estimation'') (\<lambda>_.
     case (case jfind block ''baseFeePerGas'' of Some v \<Rightarrow> if is_null v then None else Some v | None \<Rightarrow> None) of
       Some v \<Rightarrow>
         rbind (quantity v) (\<lambda>base.
         rbind (tip_of gas_price base tip_answer) (\<lambda>tip.
         rbind (buffered base bps) (\<lambda>b.
         rbind (context_opt (checked_add b tip) ''fee overflow'') (\<lambda>cap.
         rbind (buffered gas_price bps) (\<lambda>p.
           Inr \<lparr>fe_buffer_bps = bps, fe_base_fee = Some base, fe_max_fee = wmax cap p, fe_tip = Some tip\<rparr>)))))
     | None \<Rightarrow>
         rbind (buffered gas_price bps) (\<lambda>p.
           Inr \<lparr>fe_buffer_bps = bps, fe_base_fee = None, fe_max_fee = p, fe_tip = None\<rparr>))))))"

definition fees_replacement :: "u128 \<Rightarrow> u128 \<Rightarrow> fees \<Rightarrow> fees res" where
  "fees_replacement old_cap old_tip f =
     rbind (bump old_cap) (\<lambda>c.
     let f = f\<lparr>fe_max_fee := wmax (fe_max_fee f) c\<rparr> in
     case fe_tip f of
       None \<Rightarrow> Inr f
     | Some tip \<Rightarrow>
         rbind (bump old_tip) (\<lambda>t.
         let tip = wmax tip t in
         rbind (context_opt (fe_base_fee f) ''missing base fee'') (\<lambda>base.
         rbind (buffered base (fe_buffer_bps f)) (\<lambda>b.
         rbind (context_opt (checked_add b tip) ''fee overflow'') (\<lambda>cap.
           Inr (f\<lparr>fe_tip := Some tip, fe_max_fee := wmax (fe_max_fee f) cap\<rparr>))))))"

text \<open>Base's data fee: the answers of the fee oracle for the padded length and the gas limit.\<close>

definition extra_fee :: "nat \<Rightarrow> u256 list res \<Rightarrow> u256 list res \<Rightarrow> u32 \<Rightarrow> u256 res" where
  "extra_fee calldata_len l1_answer operator_answer buffer_bps =
     rbind (ensure (calldata_len + 256 < 2 ^ 64) ''transaction length overflow'') (\<lambda>_.
     rbind l1_answer (\<lambda>l1. rbind operator_answer (\<lambda>operator.
     rbind (context_opt (checked_add (hd l1) (hd operator)) ''Base fee overflow'') (\<lambda>total.
     rbind (ensure (uint total < 2 ^ 128) ''Base fee exceeds u128'') (\<lambda>_.
     rbind (buffered (ucast total) buffer_bps) (\<lambda>r. Inr (ucast r)))))))"

section \<open>The buffer\<close>

lemma buffered_ceil:
  assumes "buffered v bps = Inr r"
  shows "unat v * (10000 + unat bps) \<le> unat r * 10000" "unat v \<le> unat r"
    "unat r * 10000 < unat v * (10000 + unat bps) + 10000"
proof -
  from assms obtain x y where b: "1 \<le> bps" "bps \<le> 40000" "checked_mul v (10000 + ucast bps) = Some x"
    "checked_add x 9999 = Some y" "r = y div 10000"
    by (auto simp: buffered_def bind_eq_Some_conv)
  have u: "unat bps \<le> 40000" using b(2) by (simp add: word_le_nat_alt)
  have "unat (10000 + ucast bps :: u128) = 10000 + unat bps"
    using u by (simp add: unat_word_ariths unsigned_ucast_eq take_bit_nat_eq_self)
  then have y: "unat y = unat v * (10000 + unat bps) + 9999"
    using checked_mul_Some [OF b(3)] checked_add_Some [OF b(4)] by simp
  have r: "unat r = unat y div 10000" by (simp add: b(5) unat_div)
  have ceil: "n \<le> (n + 9999) div 10000 * 10000" "(n + 9999) div 10000 * 10000 < n + 10000" for n :: nat
  proof -
    have "(n + 9999) div 10000 * 10000 + (n + 9999) mod 10000 = n + 9999" by (rule div_mult_mod_eq)
    moreover have "(n + 9999) mod 10000 < 10000" by simp
    ultimately show "n \<le> (n + 9999) div 10000 * 10000" "(n + 9999) div 10000 * 10000 < n + 10000"
      by linarith+
  qed
  show 1: "unat v * (10000 + unat bps) \<le> unat r * 10000" unfolding r y by (rule ceil)
  show "unat r * 10000 < unat v * (10000 + unat bps) + 10000" unfolding r y by (rule ceil)
  have "unat v * 10000 \<le> unat v * (10000 + unat bps)" by simp
  then show "unat v \<le> unat r" using 1 by linarith
qed

lemma bump_more: "bump v = Inr r \<Longrightarrow> unat r = unat v + unat v div 4 + 1"
  by (auto simp: bump_def bind_eq_Some_conv unat_div dest!: checked_add_Some)

lemma fees_estimateE:
  assumes "fees_estimate g blk t bps = Inr f"
  obtains (legacy) price gas p where "g = Inr price" "quantity price = Inr gas" "buffered gas bps = Inr p"
      "f = \<lparr>fe_buffer_bps = bps, fe_base_fee = None, fe_max_fee = p, fe_tip = None\<rparr>"
  | (dynamic) price gas p base b tip cap where "g = Inr price" "quantity price = Inr gas"
      "buffered gas bps = Inr p" "buffered base bps = Inr b" "checked_add b tip = Some cap"
      "f = \<lparr>fe_buffer_bps = bps, fe_base_fee = Some base, fe_max_fee = wmax cap p, fe_tip = Some tip\<rparr>"
proof -
  from assms obtain price gas block where g: "g = Inr price" "quantity price = Inr gas"
    and r: "(case (case jfind block ''baseFeePerGas'' of Some v \<Rightarrow> if is_null v then None else Some v | None \<Rightarrow> None) of
       Some v \<Rightarrow>
         rbind (quantity v) (\<lambda>base. rbind (tip_of gas base t) (\<lambda>tip. rbind (buffered base bps) (\<lambda>b.
         rbind (context_opt (checked_add b tip) ''fee overflow'') (\<lambda>cap. rbind (buffered gas bps) (\<lambda>p.
           Inr \<lparr>fe_buffer_bps = bps, fe_base_fee = Some base, fe_max_fee = wmax cap p, fe_tip = Some tip\<rparr>)))))
     | None \<Rightarrow> rbind (buffered gas bps) (\<lambda>p.
           Inr \<lparr>fe_buffer_bps = bps, fe_base_fee = None, fe_max_fee = p, fe_tip = None\<rparr>)) = Inr f"
    unfolding fees_estimate_def rbind_eq_Inr by blast
  from r show thesis
  proof (cases rule: option.exhaust [of "case jfind block ''baseFeePerGas'' of Some v \<Rightarrow> if is_null v then None else Some v | None \<Rightarrow> None", case_names None Some])
    case None
    with r show thesis using legacy g by auto
  next
    case (Some v)
    with r show thesis using dynamic g by auto
  qed
qed

text \<open>
  An estimate leaves the configured headroom: the cap covers the buffered base fee plus the
  whole tip and the buffered gas price, so it is at least the base fee, the tip and the gas price
  the node reported; the buffer rounds up and by less than one unit.
\<close>

theorem fee_cap_covers:
  assumes "fees_estimate g blk t bps = Inr f"
  shows "\<exists>price gas. g = Inr price \<and> quantity price = Inr gas
    \<and> unat gas * (10000 + unat bps) \<le> unat (fe_max_fee f) * 10000
    \<and> (\<forall>base. fe_base_fee f = Some base \<longrightarrow> (\<exists>tip. fe_tip f = Some tip
         \<and> unat base * (10000 + unat bps) + unat tip * 10000 \<le> unat (fe_max_fee f) * 10000
         \<and> tip \<le> fe_max_fee f))"
  using assms
proof (cases rule: fees_estimateE)
  case (legacy price gas p)
  then show ?thesis using buffered_ceil(1) [OF legacy(3)] by simp
next
  case (dynamic price gas p base b tip cap)
  have "unat base * (10000 + unat bps) + unat tip * 10000 \<le> unat cap * 10000"
    using buffered_ceil(1) [OF dynamic(4)] checked_add_Some [OF dynamic(5)] by simp
  then have "unat base * (10000 + unat bps) + unat tip * 10000 \<le> max (unat cap) (unat p) * 10000"
    by (rule order_trans) simp
  moreover have "unat gas * (10000 + unat bps) \<le> max (unat cap) (unat p) * 10000"
    using buffered_ceil(1) [OF dynamic(3)] by (rule order_trans) simp
  moreover have "unat tip \<le> max (unat cap) (unat p)" using checked_add_Some [OF dynamic(5)] by simp
  ultimately show ?thesis using dynamic by (simp add: unat_wmax word_le_nat_alt)
qed

text \<open>
  A replacement transaction raises both the cap and the tip of the one it replaces by more than
  a quarter, never lowers its own, and its cap still covers the buffered base fee plus the tip.
\<close>

theorem fee_replacement_raises:
  assumes "fees_replacement old_cap old_tip f = Inr f'"
  shows "unat old_cap + unat old_cap div 4 < unat (fe_max_fee f') \<and> fe_max_fee f \<le> fe_max_fee f'
    \<and> fe_base_fee f' = fe_base_fee f
    \<and> (\<forall>tip. fe_tip f = Some tip \<longrightarrow> (\<exists>tip' base. fe_tip f' = Some tip' \<and> tip \<le> tip'
         \<and> unat old_tip + unat old_tip div 4 < unat tip' \<and> fe_base_fee f = Some base
         \<and> unat base * (10000 + unat (fe_buffer_bps f)) + unat tip' * 10000 \<le> unat (fe_max_fee f') * 10000))"
proof -
  obtain c where c: "bump old_cap = Inr c" using assms by (auto simp: fees_replacement_def)
  show ?thesis
  proof (cases "fe_tip f")
    case None
    then show ?thesis using assms bump_more [OF c] c
      by (auto simp: fees_replacement_def Let_def unat_wmax word_le_nat_alt)
  next
    case (Some tip)
    then obtain t base b cap where a: "bump old_tip = Inr t" "fe_base_fee f = Some base"
      "buffered base (fe_buffer_bps f) = Inr b" "checked_add b (wmax tip t) = Some cap"
      "f' = f\<lparr>fe_max_fee := wmax (wmax (fe_max_fee f) c) cap, fe_tip := Some (wmax tip t)\<rparr>"
      using assms c by (auto simp: fees_replacement_def Let_def)
    have "unat base * (10000 + unat (fe_buffer_bps f)) + unat (wmax tip t) * 10000 \<le> unat cap * 10000"
      using buffered_ceil(1) [OF a(3)] checked_add_Some [OF a(4)] by simp
    moreover have "unat cap \<le> unat (fe_max_fee f')" by (simp add: a(5) unat_wmax)
    ultimately have "unat base * (10000 + unat (fe_buffer_bps f)) + unat (wmax tip t) * 10000
        \<le> unat (fe_max_fee f') * 10000" by linarith
    then show ?thesis using Some a bump_more [OF c] bump_more [OF a(1)]
      by (auto simp: unat_wmax word_le_nat_alt less_max_iff_disj le_max_iff_disj)
  qed
qed

theorem fee_cap_covers_witness: "unat (112 :: u128) * 12500 + unat (8 :: u128) * 10000 \<le> unat (150 :: u128) * 10000"
proof -
  have "fees_estimate (Inr (JStr ''0x78'')) (Inr (JObj [(''baseFeePerGas'', JStr ''0x70'')])) (Inr (JStr ''0x8'')) 2500
    = Inr \<lparr>fe_buffer_bps = 2500, fe_base_fee = Some 112, fe_max_fee = 150, fe_tip = Some 8\<rparr>"
    by code_simp
  from fee_cap_covers [OF this] show ?thesis by simp
qed

theorem fee_replacement_raises_witness: "unat (200 :: u128) + unat (200 :: u128) div 4 < unat (251 :: u128)"
proof -
  have "fees_replacement 200 8 \<lparr>fe_buffer_bps = 2500, fe_base_fee = Some 112, fe_max_fee = 150, fe_tip = Some 8\<rparr>
    = Inr \<lparr>fe_buffer_bps = 2500, fe_base_fee = Some 112, fe_max_fee = 251, fe_tip = Some 11\<rparr>"
    by code_simp
  from fee_replacement_raises [OF this] show ?thesis by simp
qed

end
