(* ===== verification/Evm_Nonce.thy ===== *)
theory Evm_Nonce
  imports Store Evm_Fees
begin

text \<open>
  The serial nonce of the Ethereum wallet (\<open>src/evm/nonce.rs\<close>): the recorded state, its refresh from
  the node, the reservation of a nonce before a transaction is signed and its release after the
  receipt. The manager's lock makes each operation one step; answers of the node are arguments.
\<close>

record nonce_manager =
  nm_owner :: string
  nm_chain_id :: u64
  nm_warn_ms :: u64

section \<open>Transaction hashes\<close>

fun canonical_hashes :: "host \<Rightarrow> string list \<Rightarrow> string list \<Rightarrow> string list res" where
  "canonical_hashes h [] out = Inr out"
| "canonical_hashes h (v # vs) out =
     rbind (ho_hash h v) (\<lambda>x.
     rbind (ensure (x \<notin> set out) ''duplicate transaction hash in pending state'') (\<lambda>_.
     canonical_hashes h vs (out @ [x])))"

fun replacement_hashes :: "json list \<Rightarrow> string list res" where
  "replacement_hashes [] = Inr []"
| "replacement_hashes (t # ts) =
     rbind (context_opt (as_str (jget t ''hash'')) ''replacement hash'') (\<lambda>v.
     rbind (replacement_hashes ts) (\<lambda>vs. Inr (v # vs)))"

definition pending_hashes :: "host \<Rightarrow> json \<Rightarrow> string list res" where
  "pending_hashes h p =
     rbind (context_opt (as_str (jget p ''hash'')) ''pending hash'') (\<lambda>root.
     rbind (case jfind p ''replacements'' of
              None \<Rightarrow> Inr []
            | Some r \<Rightarrow> rbind (context_opt (as_array r) ''invalid replacements'') replacement_hashes) (\<lambda>vs.
     canonical_hashes h (root # vs) []))"

section \<open>The recorded state\<close>

definition nonce_observe :: "u64 \<Rightarrow> u64 \<Rightarrow> u64 \<Rightarrow> nonce_state \<Rightarrow> nonce_state res" where
  "nonce_observe latest pending now st =
     rbind (ensure (latest \<le> pending) ''inconsistent RPC nonce snapshot'') (\<lambda>_.
       Inr (st\<lparr>ns_latest := latest, ns_pending := pending,
               ns_next_floor := wmax (ns_next_floor st) latest, ns_checked_ms := now\<rparr>))"

definition nonce_available :: "nonce_state \<Rightarrow> u64 res" where
  "nonce_available st =
     rbind (ensure (ns_inflight st = None) ''local transaction unresolved; reconcile before sending'') (\<lambda>_.
     rbind (ensure (ns_pending st = ns_latest st) ''external pending transactions; nonce allocation blocked'') (\<lambda>_.
     rbind (ensure (ns_next_floor st \<le> ns_latest st)
       ''RPC nonce regressed or submitted nonce unresolved; do not reuse nonce'') (\<lambda>_.
       Inr (ns_latest st))))"

definition nonce_default :: "nonce_manager \<Rightarrow> nonce_state" where
  "nonce_default m =
     \<lparr>ns_chain_id = nm_chain_id m, ns_owner = nm_owner m, ns_latest = 0, ns_pending = 0,
      ns_next_floor = 0, ns_checked_ms = 0, ns_inflight = None\<rparr>"

definition nonce_load :: "nonce_manager \<Rightarrow> store \<Rightarrow> nonce_state res" where
  "nonce_load m s =
     rbind (read_nonce ''evm_nonce.json'' s) (\<lambda>o1.
     let st = (case o1 of None \<Rightarrow> nonce_default m | Some x \<Rightarrow> x) in
     rbind (ensure (ns_chain_id st = nm_chain_id m \<and> eq_ignore_case (ns_owner st) (nm_owner m))
       ''nonce state belongs to another chain/wallet'') (\<lambda>_. Inr st))"

definition nonce_json :: "nonce_state \<Rightarrow> json" where
  "nonce_json st =
     JObj [(''chain_id'', JNum (PosInt (ns_chain_id st))), (''owner'', JStr (ns_owner st)),
       (''latest'', JNum (PosInt (ns_latest st))), (''pending'', JNum (PosInt (ns_pending st))),
       (''next_floor'', JNum (PosInt (ns_next_floor st))), (''checked_ms'', JNum (PosInt (ns_checked_ms st))),
       (''inflight'', (case ns_inflight st of None \<Rightarrow> JNull | Some v \<Rightarrow> v))]"

section \<open>Refreshing\<close>

record node_answers =
  na_chain :: "json res"
  na_latest :: "json res"
  na_pending :: "json res"
  na_receipt :: "json res"

definition inflight_json :: "u64 \<Rightarrow> json \<Rightarrow> u64 \<Rightarrow> string \<Rightarrow> json" where
  "inflight_json nonce hash prepared status =
     JObj [(''nonce'', JNum (PosInt nonce)), (''hash'', hash), (''prepared_ms'', JNum (PosInt prepared)),
       (''status'', JStr status)]"

definition raise_floor :: "u64 \<Rightarrow> nonce_state \<Rightarrow> nonce_state res" where
  "raise_floor n st =
     rbind (context_opt (checked_add n 1) ''nonce overflow'')
       (\<lambda>m. Inr (st\<lparr>ns_next_floor := wmax (ns_next_floor st) m\<rparr>))"

text \<open>The crash window between the pending operation and the nonce state is closed here.\<close>

definition adopt_pending :: "host \<Rightarrow> nonce_manager \<Rightarrow> json option \<Rightarrow> nonce_state \<Rightarrow> nonce_state st" where
  "adopt_pending h m p st =
     (case p of
        None \<Rightarrow> slift (Inr st)
      | Some op \<Rightarrow>
          if jget op ''venue'' \<noteq> JStr ''evm'' then slift (Inr st)
          else
            sbind (slift (ensure (case as_str (jget op ''owner'') of Some o1 \<Rightarrow> eq_ignore_case o1 (nm_owner m) | None \<Rightarrow> False)
              ''pending signer mismatch'')) (\<lambda>_.
            sbind (slift (context_opt (as_u64 (jget op ''nonce'')) ''pending nonce'')) (\<lambda>n.
            sbind (slift (raise_floor n st)) (\<lambda>st.
            if ns_inflight st \<noteq> None then slift (Inr st)
            else sbind (host_now h) (\<lambda>now. slift (Inr
              (st\<lparr>ns_inflight := Some (inflight_json n (jget op ''hash'')
                 (case as_u64 (jget op ''prepared_ms'') of Some t \<Rightarrow> t | None \<Rightarrow> now) ''unresolved'')\<rparr>)))))))"

text \<open>The receipt of an unresolved transaction is only looked at: its age is logged.\<close>

definition inspect_inflight :: "host \<Rightarrow> json res \<Rightarrow> nonce_state \<Rightarrow> unit st" where
  "inspect_inflight h receipt st =
     (case ns_inflight st of
        None \<Rightarrow> slift (Inr ())
      | Some op \<Rightarrow>
          sbind (slift (context_opt (as_str (jget op ''hash'')) ''inflight hash'')) (\<lambda>_.
          sbind (slift receipt) (\<lambda>_.
          sbind (host_now h) (\<lambda>_. sbind (host_now h) (\<lambda>_. slift (Inr ()))))))"

definition refreshed_state :: "host \<Rightarrow> nonce_manager \<Rightarrow> node_answers \<Rightarrow> nonce_state st" where
  "refreshed_state h m a =
     sbind (slift (rbind (na_chain a) hex_u64)) (\<lambda>chain.
     sbind (slift (ensure (chain = nm_chain_id m) ''nonce refresh chain mismatch'')) (\<lambda>_.
     sbind (slift (rbind (na_latest a) hex_u64)) (\<lambda>latest.
     sbind (slift (rbind (na_pending a) hex_u64)) (\<lambda>pending.
     sbind (sread (nonce_load m)) (\<lambda>st.
     sbind (host_now h) (\<lambda>now.
     sbind (slift (nonce_observe latest pending now st)) (\<lambda>st.
     sbind (sread store_pending) (\<lambda>p.
     sbind (adopt_pending h m p st) (\<lambda>st.
     sbind (inspect_inflight h (na_receipt a) st) (\<lambda>_. slift (Inr st)))))))))))"

definition nonce_refresh :: "host \<Rightarrow> nonce_manager \<Rightarrow> node_answers \<Rightarrow> nonce_state st" where
  "nonce_refresh h m a =
     sbind (refreshed_state h m a) (\<lambda>st.
     sbind (store_write h ''evm_nonce.json'' (Doc_nonce st)) (\<lambda>_. slift (Inr st)))"

section \<open>Allocation, reservation, release\<close>

definition nonce_next :: "host \<Rightarrow> nonce_manager \<Rightarrow> node_answers \<Rightarrow> u64 st" where
  "nonce_next h m a =
     sbind (sread store_pending) (\<lambda>p.
     sbind (slift (ensure (p = None) ''unresolved operation; reconcile before nonce allocation'')) (\<lambda>_.
     sbind (nonce_refresh h m a) (\<lambda>st. slift (nonce_available st))))"

definition reserved_state :: "host \<Rightarrow> nonce_manager \<Rightarrow> u64 \<Rightarrow> string \<Rightarrow> nonce_state st" where
  "reserved_state h m nonce hash =
     sbind (sread (nonce_load m)) (\<lambda>st.
     sbind (slift (ensure (case ns_inflight st of None \<Rightarrow> True | Some p \<Rightarrow> jget p ''hash'' = JStr hash)
       ''another nonce already reserved'')) (\<lambda>_.
     sbind (slift (raise_floor nonce st)) (\<lambda>st.
     sbind (host_now h) (\<lambda>now.
       slift (Inr (st\<lparr>ns_inflight := Some (inflight_json nonce (JStr hash) now ''prepared'')\<rparr>))))))"

definition nonce_prepared :: "host \<Rightarrow> nonce_manager \<Rightarrow> u64 \<Rightarrow> string \<Rightarrow> unit st" where
  "nonce_prepared h m nonce hash =
     sbind (reserved_state h m nonce hash) (\<lambda>st.
     sbind (store_write h ''evm_nonce.json'' (Doc_nonce st)) (\<lambda>_.
     store_event h ''evm_nonce_reserved'' (nonce_json st)))"

definition check_receipt :: "host \<Rightarrow> string \<Rightarrow> json \<Rightarrow> unit st" where
  "check_receipt h hash op =
     sbind (sread store_pending) (\<lambda>p.
     sbind (slift (context_opt p ''missing pending operation'')) (\<lambda>pending.
     sbind (slift (ensure (json_eq (jget pending ''hash'') (jget op ''hash'')
         \<and> json_eq (jget pending ''nonce'') (jget op ''nonce'')) ''reserved operation mismatch'')) (\<lambda>_.
     sbind (slift (pending_hashes h pending)) (\<lambda>hs.
     slift (ensure (\<exists>x \<in> set hs. eq_ignore_case x hash) ''receipt does not match reserved nonce'')))))"

definition nonce_confirmed :: "host \<Rightarrow> nonce_manager \<Rightarrow> string \<Rightarrow> json \<Rightarrow> unit st" where
  "nonce_confirmed h m hash receipt =
     sbind (sread (nonce_load m)) (\<lambda>st.
     sbind (case ns_inflight st of None \<Rightarrow> slift (Inr ()) | Some op \<Rightarrow> check_receipt h hash op) (\<lambda>_.
     let st = st\<lparr>ns_inflight := None\<rparr> in
     sbind (store_write h ''evm_nonce.json'' (Doc_nonce st)) (\<lambda>_.
     sbind (store_event h ''evm_nonce_confirmed''
       (JObj [(''hash'', JStr hash), (''status'', jget receipt ''status''),
              (''block'', jget receipt ''blockNumber''), (''next_floor'', JNum (PosInt (ns_next_floor st)))])) (\<lambda>_.
     store_finish h receipt))))"

end
