(* ===== verification/Evm_Nonce_Props.thy ===== *)
theory Evm_Nonce_Props
  imports Evm_Nonce Nonce_Book
begin

text \<open>
  The nonce of the Ethereum wallet is never used twice, whatever the node answers and whatever the
  file system does, and is granted only when nothing is unresolved.
\<close>

section \<open>Computations that leave the documents alone\<close>

definition pure_files :: "store \<Rightarrow> store \<Rightarrow> bool" where
  "pure_files s s' \<longleftrightarrow> sv_files s' = sv_files s"

interpretation pure: store_order pure_files
  by unfold_locales (auto simp: pure_files_def)

lemma pure_adopt: "keeps pure_files (adopt_pending h m p st)"
  unfolding adopt_pending_def
  by (cases p) (auto intro!: pure.keeps_sbind pure.keeps_pure)

lemma pure_inspect: "keeps pure_files (inspect_inflight h r st)"
  unfolding inspect_inflight_def
  by (cases "ns_inflight st") (auto intro!: pure.keeps_sbind pure.keeps_pure)

lemma pure_refreshed: "keeps pure_files (refreshed_state h m a)"
  unfolding refreshed_state_def by (intro pure.keeps_sbind pure.keeps_pure pure_adopt pure_inspect)

lemma pure_reserved: "keeps pure_files (reserved_state h m n hash)"
  unfolding reserved_state_def by (intro pure.keeps_sbind pure.keeps_pure)

section \<open>The floor\<close>

definition evm_floor :: "store \<Rightarrow> nat" where
  "evm_floor s = (case find_doc ''evm_nonce.json'' s of Some (Doc_nonce st) \<Rightarrow> unat (ns_next_floor st) | _ \<Rightarrow> 0)"

lemma load_floor: "nonce_load m s = Inr st \<Longrightarrow> evm_floor s = unat (ns_next_floor st)"
proof -
  assume "nonce_load m s = Inr st"
  then obtain d where d: "read_nonce ''evm_nonce.json'' s = Inr d"
    "st = (case d of None \<Rightarrow> nonce_default m | Some x \<Rightarrow> x)"
    by (simp add: nonce_load_def Let_def) blast
  then show ?thesis by (cases d) (simp_all add: evm_floor_def nonce_default_def)
qed

lemma raise_floorD: "raise_floor n st = Inr st' \<Longrightarrow> unat (ns_next_floor st') = max (unat (ns_next_floor st)) (Suc (unat n))
    \<and> ns_inflight st' = ns_inflight st \<and> ns_latest st' = ns_latest st \<and> ns_pending st' = ns_pending st"
  by (auto simp: raise_floor_def unat_wmax dest!: checked_add_Some)

lemma observeD:
  "nonce_observe latest pending now st = Inr st' \<Longrightarrow> ns_inflight st' = ns_inflight st
    \<and> unat (ns_next_floor st') = max (unat (ns_next_floor st)) (unat latest)"
  by (auto simp: nonce_observe_def unat_wmax)

lemma adopt_floor:
  assumes "adopt_pending h m p st s = (Inr st', s')"
  shows "unat (ns_next_floor st) \<le> unat (ns_next_floor st')" "ns_latest st' = ns_latest st"
    "ns_pending st' = ns_pending st" "p = None \<Longrightarrow> st' = st"
  using assms unfolding adopt_pending_def
  by (auto split: option.splits if_splits elim!: sbind_InrE dest!: raise_floorD)

lemma refreshed_floor:
  assumes "refreshed_state h m a s = (Inr st, s')"
  shows "evm_floor s \<le> unat (ns_next_floor st)"
    "rbind (na_latest a) hex_u64 = Inr (ns_latest st)" "rbind (na_pending a) hex_u64 = Inr (ns_pending st)"
    "rbind (na_chain a) hex_u64 = Inr (nm_chain_id m)"
    "ns_latest st \<le> ns_next_floor st"
proof -
  obtain latest pending st0 now st1 p s1 s2 where c: "rbind (na_chain a) hex_u64 = Inr (nm_chain_id m)"
    "rbind (na_latest a) hex_u64 = Inr latest" "rbind (na_pending a) hex_u64 = Inr pending"
    "nonce_load m s = Inr st0" "nonce_observe latest pending now st0 = Inr st1"
    "adopt_pending h m p st1 s1 = (Inr st, s2)"
    using assms unfolding refreshed_state_def by (auto elim!: sbind_InrE simp del: rbind_eq_Inr)
  note o1 = c(5) [unfolded nonce_observe_def] and ad = adopt_floor [OF c(6)]
  have st1: "ns_latest st1 = latest" "ns_pending st1 = pending"
    "unat (ns_next_floor st1) = max (unat (ns_next_floor st0)) (unat latest)"
    using o1 by (auto simp: unat_wmax)
  show "evm_floor s \<le> unat (ns_next_floor st)" using load_floor [OF c(4)] st1(3) ad(1) by simp
  show "rbind (na_latest a) hex_u64 = Inr (ns_latest st)" "rbind (na_pending a) hex_u64 = Inr (ns_pending st)"
    "rbind (na_chain a) hex_u64 = Inr (nm_chain_id m)"
    using c st1 ad by simp_all
  show "ns_latest st \<le> ns_next_floor st" using st1 ad by (simp add: word_le_nat_alt)
qed

lemma write_nonce_floor:
  assumes "store_write h ''evm_nonce.json'' (Doc_nonce st) s = (r, s')" "evm_floor s \<le> unat (ns_next_floor st)"
  shows "evm_floor s \<le> evm_floor s'" "r = Inr u \<Longrightarrow> evm_floor s' = unat (ns_next_floor st)"
  using store_write_cases [OF assms(1)] assms(2) store_write_ok [of h "''evm_nonce.json''" "Doc_nonce st" s u s'] assms(1)
  by (auto simp: evm_floor_def find_doc_def put_doc_def)

definition floor_up :: "store \<Rightarrow> store \<Rightarrow> bool" where
  "floor_up s s' \<longleftrightarrow> evm_floor s \<le> evm_floor s'"

interpretation up: store_order floor_up
  by unfold_locales (auto simp: floor_up_def evm_floor_def find_doc_def)

lemma up_other: "n \<noteq> ''evm_nonce.json'' \<Longrightarrow> floor_up s (put_doc n x s)"
  by (simp add: floor_up_def evm_floor_def)

lemma pure_floor: "keeps pure_files m \<Longrightarrow> m s = (r, s') \<Longrightarrow> evm_floor s' = evm_floor s"
  using keepsD [of pure_files m s r s'] by (simp add: pure_files_def evm_floor_def find_doc_def)

lemma up_refresh: "keeps floor_up (nonce_refresh h m a)"
  unfolding keeps_def
proof (intro allI impI)
  fix s r s' assume "nonce_refresh h m a s = (r, s')"
  then show "floor_up s s'" unfolding nonce_refresh_def
  proof (cases rule: sbind_cases)
    case (err e)
    then show ?thesis using pure_floor [OF pure_refreshed err(1)] by (simp add: floor_up_def)
  next
    case (ok st s1)
    have f: "evm_floor s1 = evm_floor s" by (rule pure_floor [OF pure_refreshed ok(1)])
    obtain q where w: "store_write h ''evm_nonce.json'' (Doc_nonce st) s1 = (q, s')"
      using ok(2) by (auto elim: sbind_cases)
    show ?thesis using write_nonce_floor(1) [OF w] refreshed_floor(1) [OF ok(1)] f by (simp add: floor_up_def)
  qed
qed

lemma reserved_floor:
  assumes "reserved_state h m n hash s = (Inr st, s')"
  shows "evm_floor s \<le> unat (ns_next_floor st)" "unat n < unat (ns_next_floor st)"
proof -
  obtain st0 st1 where c: "nonce_load m s = Inr st0" "raise_floor n st0 = Inr st1"
    "ns_next_floor st = ns_next_floor st1"
    using assms unfolding reserved_state_def by (auto elim!: sbind_InrE)
  show "evm_floor s \<le> unat (ns_next_floor st)" "unat n < unat (ns_next_floor st)"
    using load_floor [OF c(1)] raise_floorD [OF c(2)] c(3) by simp_all
qed

lemma prepared_floor:
  assumes "nonce_prepared h m n hash s = (r, s')"
  shows "evm_floor s \<le> evm_floor s'" "r = Inr u \<Longrightarrow> unat n < evm_floor s'"
proof -
  have k: "evm_floor s \<le> evm_floor s' \<and> (r = Inr u \<longrightarrow> unat n < evm_floor s')"
    using assms unfolding nonce_prepared_def
  proof (cases rule: sbind_cases)
    case (err e)
    then show ?thesis using pure_floor [OF pure_reserved err(1)] by simp
  next
    case (ok st s1)
    have f: "evm_floor s1 = evm_floor s" by (rule pure_floor [OF pure_reserved ok(1)])
    note R = reserved_floor [OF ok(1)]
    have R1: "evm_floor s1 \<le> unat (ns_next_floor st)" using R(1) f by simp
    from ok(2) show ?thesis
    proof (cases rule: sbind_cases)
      case (err e)
      then show ?thesis using write_nonce_floor(1) [OF err(1) R1] f by simp
    next
      case (ok v s2)
      have "evm_floor s2 \<le> evm_floor s'"
        using keepsD [OF up.keeps_event ok(2)] by (simp add: floor_up_def)
      moreover have "evm_floor s2 = unat (ns_next_floor st)" using write_nonce_floor(2) [OF ok(1) R1] by simp
      ultimately show ?thesis using R R1 f by simp
    qed
  qed
  then show "evm_floor s \<le> evm_floor s'" "r = Inr u \<Longrightarrow> unat n < evm_floor s'" by auto
qed

lemma up_check: "keeps pure_files (check_receipt h hash op)"
  unfolding check_receipt_def by (intro pure.keeps_sbind pure.keeps_pure)

lemma up_finish: "keeps floor_up (store_finish h v)" and up_begin: "keeps floor_up (store_begin h v)"
  unfolding store_finish_def store_begin_def
  by (intro up.keeps_sbind up.keeps_pure up.keeps_event up.keeps_write up_other; simp)+

lemma up_confirmed: "keeps floor_up (nonce_confirmed h m hash receipt)"
  unfolding keeps_def
proof (intro allI impI)
  fix s r s' assume a: "nonce_confirmed h m hash receipt s = (r, s')"
  show "floor_up s s'"
  proof (cases "nonce_load m s")
    case (Inl e)
    then show ?thesis using a by (simp add: nonce_confirmed_def sbind_eq floor_up_def)
  next
    case (Inr st)
    define chk where "chk = (case ns_inflight st of None \<Rightarrow> slift (Inr ()) | Some op \<Rightarrow> check_receipt h hash op)"
    have pc: "keeps pure_files chk"
      by (cases "ns_inflight st") (auto simp: chk_def intro: pure.keeps_pure up_check)
    let ?st = "st\<lparr>ns_inflight := None\<rparr>"
    let ?rest = "\<lambda>_. sbind (store_event h ''evm_nonce_confirmed''
       (JObj [(''hash'', JStr hash), (''status'', jget receipt ''status''),
              (''block'', jget receipt ''blockNumber''), (''next_floor'', JNum (PosInt (ns_next_floor ?st)))]))
       (\<lambda>_. store_finish h receipt)"
    have b: "sbind chk (\<lambda>_. sbind (store_write h ''evm_nonce.json'' (Doc_nonce ?st)) ?rest) s = (r, s')"
      using a Inr by (simp add: nonce_confirmed_def sbind_eq chk_def Let_def)
    have rest: "keeps floor_up (?rest u)" for u
      by (intro up.keeps_sbind up.keeps_event up_finish)
    from b show ?thesis
    proof (cases rule: sbind_cases)
      case (err e)
      then show ?thesis using pure_floor [OF pc err(1)] by (simp add: floor_up_def)
    next
      case (ok v s1)
      have f: "evm_floor s1 = evm_floor s" by (rule pure_floor [OF pc ok(1)])
      have f1: "evm_floor s1 \<le> unat (ns_next_floor ?st)" using load_floor [OF Inr] f by simp
      from ok(2) show ?thesis
      proof (cases rule: sbind_cases)
        case (err e)
        then show ?thesis using write_nonce_floor(1) [OF err(1) f1] f by (simp add: floor_up_def)
      next
        case (ok w s2)
        then show ?thesis using write_nonce_floor(1) [OF ok(1) f1] f keepsD [OF rest ok(2)] by (simp add: floor_up_def)
      qed
    qed
  qed
qed

section \<open>Runs\<close>

datatype nonce_op =
    N_refresh node_answers
  | N_next node_answers
  | N_prepared u64 string
  | N_confirmed string json
  | N_begin json
  | N_finish json
  | N_event string json

datatype nonce_result = R_state "nonce_state res" | R_nonce "u64 res" | R_unit "unit res"

fun nonce_step :: "host \<Rightarrow> nonce_manager \<Rightarrow> nonce_op \<Rightarrow> store \<Rightarrow> nonce_result \<times> store" where
  "nonce_step h m (N_refresh a) s = map_prod R_state id (nonce_refresh h m a s)"
| "nonce_step h m (N_next a) s = map_prod R_nonce id (nonce_next h m a s)"
| "nonce_step h m (N_prepared n hash) s = map_prod R_unit id (nonce_prepared h m n hash s)"
| "nonce_step h m (N_confirmed hash r) s = map_prod R_unit id (nonce_confirmed h m hash r s)"
| "nonce_step h m (N_begin v) s = map_prod R_unit id (store_begin h v s)"
| "nonce_step h m (N_finish v) s = map_prod R_unit id (store_finish h v s)"
| "nonce_step h m (N_event k v) s = map_prod R_unit id (store_event h k v s)"

fun evm_granted :: "nonce_op \<Rightarrow> nonce_result \<Rightarrow> nat option" where
  "evm_granted (N_next a) (R_nonce (Inr n)) = Some (unat n)"
| "evm_granted _ _ = None"

fun evm_used :: "nonce_op \<Rightarrow> nonce_result \<Rightarrow> nat option" where
  "evm_used (N_prepared n hash) (R_unit (Inr u)) = Some (unat n)"
| "evm_used _ _ = None"

lemma nonce_nextD:
  assumes "nonce_next h m a s = (Inr n, s')"
  obtains st s1 where "store_pending s = Inr None"
    "refreshed_state h m a s = (Inr st, s1)" "nonce_available st = Inr n"
  using assms unfolding nonce_next_def by (auto simp: nonce_refresh_def elim!: sbind_InrE)

lemma availableD:
  "nonce_available st = Inr n \<Longrightarrow> n = ns_latest st \<and> ns_inflight st = None \<and> ns_pending st = ns_latest st
    \<and> ns_next_floor st \<le> ns_latest st"
  by (auto simp: nonce_available_def)

lemma up_next: "keeps floor_up (nonce_next h m a)"
  unfolding nonce_next_def by (intro up.keeps_sbind up.keeps_pure up_refresh)

interpretation evm: nonce_book "nonce_step h m" evm_floor "\<lambda>_. True" evm_granted evm_used for h m
proof
  fix s s' x r n assume st: "nonce_step h m x s = (r, s')"
  show "evm_floor s \<le> evm_floor s'"
    using st keepsD [OF up_refresh] keepsD [OF up_next] keepsD [OF up_confirmed] keepsD [OF up_begin]
      keepsD [OF up_finish] keepsD [OF up.keeps_event] prepared_floor(1)
    by (cases x) (auto simp: floor_up_def map_prod_def split: prod.splits)
  show "evm_floor s \<le> n" if g: "evm_granted x r = Some n"
  proof -
    obtain a k where x: "x = N_next a" "r = R_nonce (Inr k)" "n = unat k"
      using g by (cases "(x, r)" rule: evm_granted.cases) auto
    then have "nonce_next h m a s = (Inr k, s')" using st by (auto simp: map_prod_def split: prod.splits)
    then obtain st1 s1 where "refreshed_state h m a s = (Inr st1, s1)" "nonce_available st1 = Inr k"
      by (rule nonce_nextD)
    then show ?thesis using refreshed_floor(1) availableD x(3) by (fastforce simp: word_le_nat_alt)
  qed
  show "n < evm_floor s'" if g: "evm_used x r = Some n"
  proof -
    obtain k hash u where x: "x = N_prepared k hash" "r = R_unit (Inr u)" "n = unat k"
      using g by (cases "(x, r)" rule: evm_used.cases) auto
    then have "nonce_prepared h m k hash s = (Inr u, s')" using st by (auto simp: map_prod_def split: prod.splits)
    then show ?thesis using prepared_floor(2) x(3) by blast
  qed
qed

text \<open>
  C10: no nonce of the wallet is ever granted again once a transaction was prepared with it, over
  any sequence of refreshes, allocations, reservations, confirmations and store operations,
  whatever the node answers and whichever file operations fail.
\<close>

theorem evm_nonce_never_reused:
  assumes "run_ops (nonce_step h m) xs s = (rs, s')" "i < j" "j < length xs"
    and "xs ! i = N_prepared n hash" "rs ! i = R_unit (Inr u)"
    and "xs ! j = N_next a" "rs ! j = R_nonce (Inr k)"
  shows "n < k"
  using evm.used_then_granted [OF assms(1) along_True assms(2,3)] assms(4-7) by (simp add: word_less_nat_alt)

text \<open>
  A nonce is granted only when nothing is unresolved: no operation is pending, no transaction
  is recorded in flight, and the node, on the configured chain, reports no pending transaction of
  the wallet and exactly the granted number of mined ones.
\<close>

theorem evm_nonce_granted_when_idle:
  assumes "nonce_next h m a s = (Inr n, s')"
  shows "store_pending s = Inr None \<and> rbind (na_chain a) hex_u64 = Inr (nm_chain_id m)
    \<and> rbind (na_latest a) hex_u64 = Inr n \<and> rbind (na_pending a) hex_u64 = Inr n
    \<and> (\<exists>st. nonce_load m s = Inr st \<and> ns_inflight st = None \<and> ns_next_floor st \<le> n)"
proof -
  obtain st s1 where N: "store_pending s = Inr None" "refreshed_state h m a s = (Inr st, s1)"
    "nonce_available st = Inr n"
    by (rule nonce_nextD [OF assms])
  note A = availableD [OF N(3)] and F = refreshed_floor [OF N(2)]
  obtain st0 st1 now sa sb where L: "nonce_load m s = Inr st0"
    "nonce_observe (ns_latest st) (ns_pending st) now st0 = Inr st1" "adopt_pending h m None st1 sa = (Inr st, sb)"
    using N(1,2) F(2,3) unfolding refreshed_state_def by (auto elim!: sbind_InrE)
  have "st = st1" using adopt_floor(4) [OF L(3)] by simp
  then have "ns_inflight st0 = ns_inflight st" "unat (ns_next_floor st0) \<le> unat (ns_next_floor st)"
    using observeD [OF L(2)] by simp_all
  then show ?thesis using N A F L(1) by (auto simp: word_le_nat_alt)
qed

end
