(* ===== verification/Store_Samples.thy ===== *)
theory Store_Samples
  imports Hl_Journal_Props Evm_Nonce_Props
begin

text \<open>The theorems about the store, the nonces and the order ledger at concrete stores and answers.\<close>

definition sample_host :: host where
  "sample_host = \<lparr>ho_clock = (\<lambda>t. 1000), ho_uuid = (\<lambda>t. ''u''), ho_io = (\<lambda>t. Io_ok),
     ho_free = (\<lambda>t. Inr 1000000), ho_doc_len = (\<lambda>d. 10), ho_event_len = (\<lambda>t k v. 60),
     ho_hex = (\<lambda>s. True), ho_hash = (\<lambda>s. Inr s), ho_reload = (\<lambda>d. d)\<rparr>"

definition sample_policy :: storage_config where
  "sample_policy = \<lparr>so_event_segment_bytes = 100, so_event_retained_segments = 1, so_terminal_orders_keep = 1,
     so_order_archive_max_bytes = 1000, so_min_free_bytes = 1000\<rparr>"

definition sample_store :: store where
  "sample_store = \<lparr>sv_writable = True, sv_policy = sample_policy, sv_files = [], sv_log = [], sv_active = 0,
     sv_segments = [], sv_archive_bytes = None, sv_tick = 0, sv_sent = []\<rparr>"

section \<open>The store\<close>

lemma surj_run: "fst (run_ops st xs s) = rs \<Longrightarrow> run_ops st xs s = (rs, snd (run_ops st xs s))"
  by (cases "run_ops st xs s") simp

theorem pending_kept_witness:
  "store_pending (snd (run_ops (store_step sample_host) [Op_nonce, Op_begin (JObj [])]
     (put_doc ''pending.json'' (Doc_json (JObj [])) sample_store))) = Inr (Some (JObj []))"
  by (rule conjunct1 [OF pending_kept [OF surj_run [OF refl]]]) (simp_all add: store_pending_def)

definition sample_archive :: string where
  "sample_archive = ''order_archive/0xaaaaaaaaaaaaaaaaaaaaaaaaaaaaaaaa.json''"

theorem archive_immutable_witness:
  "archived_order sample_host ''0xaaaaaaaaaaaaaaaaaaaaaaaaaaaaaaaa''
     (snd (run_ops (store_step sample_host) [Op_nonce, Op_archive ''0xaaaaaaaaaaaaaaaaaaaaaaaaaaaaaaaa'' JNull]
       (put_doc sample_archive (Doc_json (JBool True)) sample_store))) = Inr (Some (JBool True))"
proof -
  have "archived_order sample_host ''0xaaaaaaaaaaaaaaaaaaaaaaaaaaaaaaaa''
    (put_doc sample_archive (Doc_json (JBool True)) sample_store) = Inr (Some (JBool True))"
    by code_simp
  from archive_immutable [OF surj_run [OF refl] this] show ?thesis by blast
qed

lemma sample_nonces:
  "fst (run_ops (store_step sample_host) [Op_nonce, Op_event ''k'' JNull, Op_nonce] sample_store)
    = [Inr (Some 1000), Inr None, Inr (Some 1001)]"
  "along nonce_good (store_step sample_host) [Op_nonce, Op_event ''k'' JNull, Op_nonce] sample_store"
  by code_simp+

theorem exchange_nonce_increases_witness: "unat (1000 :: u64) < unat (1001 :: u64)"
  by (rule exchange_nonce_increases [OF surj_run [OF sample_nonces(1)] sample_nonces(2), of 0 2]) simp_all

theorem log_bounded_witness:
  "length (sv_log (snd (store_event sample_host ''a'' JNull sample_store))) = 1"
proof -
  have "fst (store_event sample_host ''a'' JNull sample_store) = Inr ()" by code_simp
  then have "store_event sample_host ''a'' JNull sample_store
      = (Inr (), snd (store_event sample_host ''a'' JNull sample_store))"
    by (cases "store_event sample_host ''a'' JNull sample_store") simp
  from log_bounded [OF this] show ?thesis by (simp add: sample_store_def)
qed

theorem redaction_complete_witness:
  "\<not> leaks (redact_signatures (JObj [(''signature'', JNull), (''a'', JArr [JObj [(''raw_transaction'', JNull)]])]))"
  by (rule conjunct1 [OF redaction_complete]) simp

section \<open>The wallet's nonce\<close>

definition sample_manager :: nonce_manager where
  "sample_manager = \<lparr>nm_owner = ''0xab'', nm_chain_id = 1, nm_warn_ms = 1000\<rparr>"

definition sample_answers :: "string \<Rightarrow> node_answers" where
  "sample_answers n = \<lparr>na_chain = Inr (JStr ''0x1''), na_latest = Inr (JStr n), na_pending = Inr (JStr n),
     na_receipt = Inr JNull\<rparr>"

lemma sample_grant: "fst (nonce_next sample_host sample_manager (sample_answers ''0x5'') sample_store) = Inr 5"
  by code_simp

theorem evm_nonce_granted_when_idle_witness:
  "rbind (na_pending (sample_answers ''0x5'')) hex_u64 = Inr 5"
proof -
  have "nonce_next sample_host sample_manager (sample_answers ''0x5'') sample_store
      = (Inr 5, snd (nonce_next sample_host sample_manager (sample_answers ''0x5'') sample_store))"
    using sample_grant by (cases "nonce_next sample_host sample_manager (sample_answers ''0x5'') sample_store") simp
  from evm_nonce_granted_when_idle [OF this] show ?thesis by blast
qed

definition sample_nonce_ops :: "nonce_op list" where
  "sample_nonce_ops =
     [N_begin (JObj [(''hash'', JStr ''0xh''), (''nonce'', JNum (PosInt 5))]), N_prepared 5 ''0xh'',
      N_confirmed ''0xh'' (JObj []), N_next (sample_answers ''0x6'')]"

lemma sample_nonce_run:
  "map (\<lambda>i. fst (run_ops (nonce_step sample_host sample_manager) sample_nonce_ops sample_store) ! i) [1, 3]
     = [R_unit (Inr ()), R_nonce (Inr 6)]"
  by code_simp

theorem evm_nonce_never_reused_witness: "(5 :: u64) < 6"
proof -
  let ?run = "run_ops (nonce_step sample_host sample_manager) sample_nonce_ops sample_store"
  have r: "?run = (fst ?run, snd ?run)" by simp
  show ?thesis
    by (rule evm_nonce_never_reused [OF r, where i = 1 and j = 3 and hash = "''0xh''" and u = "()"
          and a = "sample_answers ''0x6''"])
      (use sample_nonce_run in \<open>simp_all add: sample_nonce_ops_def\<close>)
qed

section \<open>The ledger\<close>

definition sample_action :: "string \<Rightarrow> json" where
  "sample_action i = JObj [(''type'', JStr ''order''), (''orders'', JArr [JObj [(''c'', JStr i)]])]"

lemma sample_prepare:
  "fst (journal_prepare sample_host (sample_action ''0xaaaaaaaaaaaaaaaaaaaaaaaaaaaaaaaa'') ''0xab'' 7 sample_store) = Inr ()"
  by code_simp

lemma case_variant:
  "eq_ignore_case ''0xaaaaaaaaaaaaaaaaaaaaaaaaaaaaaaaa'' ''0xAaaaaaaaaaaaaaaaaaaaaaaaaaaaaaaa''"
  by code_simp

theorem client_id_never_reused_witness:
  "validate_new_ids sample_host (sample_action ''0xAaaaaaaaaaaaaaaaaaaaaaaaaaaaaaaa'')
     (snd (run_ops (journal_step sample_host) [J_compact, J_store Op_nonce]
       (snd (journal_prepare sample_host (sample_action ''0xaaaaaaaaaaaaaaaaaaaaaaaaaaaaaaaa'') ''0xab'' 7 sample_store)))) \<noteq> Inr ()"
  (is "validate_new_ids _ ?b (snd (run_ops _ _ (snd ?p))) \<noteq> _")
proof -
  have p: "?p = (Inr (), snd ?p)" using sample_prepare by (cases ?p) simp
  show ?thesis
    by (rule client_id_never_reused [OF p _ _ _ _ surj_run [OF refl],
          where ws = "[JObj [(''c'', JStr ''0xaaaaaaaaaaaaaaaaaaaaaaaaaaaaaaaa'')]]"
            and w = "JObj [(''c'', JStr ''0xaaaaaaaaaaaaaaaaaaaaaaaaaaaaaaaa'')]"
            and i = "''0xaaaaaaaaaaaaaaaaaaaaaaaaaaaaaaaa''"
            and vs = "[JObj [(''c'', JStr ''0xAaaaaaaaaaaaaaaaaaaaaaaaaaaaaaaa'')]]"
            and v = "JObj [(''c'', JStr ''0xAaaaaaaaaaaaaaaaaaaaaaaaaaaaaaaa'')]"
            and i' = "''0xAaaaaaaaaaaaaaaaaaaaaaaaaaaaaaaa''"])
      (simp_all add: sample_action_def is_order_action_def jget_def case_variant)
qed

definition sample_order :: order where
  "sample_order = (new_order ''0xaa'' ''0xab'' True 7 JNull)\<lparr>or_oid := Some 3, or_status := ''open''\<rparr>"

definition sample_ledger :: store where
  "sample_ledger = put_doc ''orders.json'' (Doc_orders [(''0xaa'', sample_order)]) sample_store"

lemma sample_ledger_of: "ledger_of sample_ledger = Inr [(''0xaa'', sample_order)]"
  by (simp add: ledger_of_def sample_ledger_def)

theorem observation_sound_witness:
  "\<exists>m' b. ledger_of (snd (journal_observe sample_host ''0xaa'' (JObj [(''status'', JStr ''unknownOid'')]) sample_ledger))
      = Inr m' \<and> map_of m' ''0xaa'' = Some b \<and> or_oid b = Some 3"
proof -
  let ?o = "journal_observe sample_host ''0xaa'' (JObj [(''status'', JStr ''unknownOid'')]) sample_ledger"
  have "?o = (fst ?o, snd ?o)" by simp
  from observation_sound [OF this sample_ledger_of, of sample_order] show ?thesis
    by (auto simp: advances_def same_identity_def sample_order_def)
qed

theorem open_orders_accounted_witness:
  "''0xaa'' \<in> set [''0xaa'']"
proof -
  let ?rows = "JArr [JObj [(''oid'', JNum (PosInt 3)), (''coin'', JStr ''ETH'')]]"
  have "managed_open_orders ?rows ''ETH'' sample_ledger = Inr [''0xaa'']" by code_simp
  from open_orders_accounted [OF this sample_ledger_of] show ?thesis
    by (simp add: sample_order_def new_order_def)
qed

end
