(* ===== verification/Hl_Orders.thy ===== *)
theory Hl_Orders
  imports Store Domain
begin

text \<open>
  The text of exchange orders (\<open>src/hyperliquid/orders.rs\<close>): prices, sizes, the wire form of an order
  and its checks. The decimal library (\<open>rust_decimal\<close>) and \<open>log10\<close> are the parameter
  \<open>decimal_lib\<close>; a decimal shows its mantissa and its scale.
\<close>

datatype decimal = Decimal (dec_mantissa: int) (dec_scale: nat)

definition dec_val :: "decimal \<Rightarrow> rat" where
  "dec_val d = of_int (dec_mantissa d) / 10 ^ dec_scale d"

datatype rounding = To_zero | To_positive_infinity | To_negative_infinity

record decimal_lib =
  dl_parse :: "string \<Rightarrow> decimal option"
  dl_of_f64 :: "f64 \<Rightarrow> decimal option"
  dl_round :: "decimal \<Rightarrow> nat \<Rightarrow> rounding \<Rightarrow> decimal"
  dl_normalize :: "decimal \<Rightarrow> decimal"
  dl_mul :: "decimal \<Rightarrow> decimal \<Rightarrow> decimal res"
  dl_text :: "decimal \<Rightarrow> string"
  dl_log10 :: "f64 \<Rightarrow> f64"

record asset =
  ha_name :: string
  ha_sz_decimals :: u32
  ha_max_leverage :: u32
  ha_is_delisted :: bool

definition dec_from_str :: "decimal_lib \<Rightarrow> string \<Rightarrow> decimal res" where
  "dec_from_str l s = context_opt (dl_parse l s) ''invalid decimal''"

definition cloid :: "host \<Rightarrow> string st" where
  "cloid h s = (Inr (''0x'' @ ho_uuid h (sv_tick s)), s\<lparr>sv_tick := Suc (sv_tick s)\<rparr>)"

text \<open>\<open>p * s >= 10\<close>, reached only where the disjunct before it is false.\<close>

definition notional_ok :: "decimal_lib \<Rightarrow> decimal \<Rightarrow> decimal \<Rightarrow> bool res" where
  "notional_ok l p s = rbind (dl_mul l p s) (\<lambda>n. Inr (10 \<le> dec_val n))"

definition tradeable :: "decimal_lib \<Rightarrow> string \<Rightarrow> string \<Rightarrow> bool \<Rightarrow> bool res" where
  "tradeable l price sz reduce_only =
     rbind (dec_from_str l price) (\<lambda>p.
     rbind (dec_from_str l sz) (\<lambda>s.
     rbind (ensure (0 < dec_val p \<and> 0 \<le> dec_val s) ''invalid hedge amount'') (\<lambda>_.
     if 0 < dec_val s then (if reduce_only then Inr True else notional_ok l p s) else Inr False)))"

definition validate_price :: "decimal_lib \<Rightarrow> string \<Rightarrow> u32 \<Rightarrow> decimal res" where
  "validate_price l s sz_decimals =
     rbind (dec_from_str l s) (\<lambda>d0.
     let d = dl_normalize l d0 in
     rbind (ensure (0 < dec_val d \<and> sz_decimals \<le> 6) ''invalid price/asset decimals'') (\<lambda>_.
     rbind (ensure (dec_scale d \<le> unat (6 - sz_decimals)) ''price exceeds tick decimals'') (\<lambda>_.
     let significant = length (show_int \<bar>dec_mantissa d\<bar>) in
     rbind (ensure (dec_scale d = 0 \<or> significant \<le> 5) ''price exceeds five significant figures'') (\<lambda>_.
     Inr d))))"

definition wire ::
    "host \<Rightarrow> decimal_lib \<Rightarrow> u32 \<Rightarrow> asset \<Rightarrow> bool \<Rightarrow> string \<Rightarrow> string \<Rightarrow> string \<Rightarrow> bool \<Rightarrow> string option \<Rightarrow> json res" where
  "wire h l i a buy price sz tif reduce cl =
     rbind (validate_price l price (ha_sz_decimals a)) (\<lambda>p.
     rbind (dec_from_str l sz) (\<lambda>s0.
     let s = dl_normalize l s0 in
     rbind (ensure (0 < dec_val s \<and> dec_scale s \<le> unat (ha_sz_decimals a))
       ''size exceeds lot precision or is zero'') (\<lambda>_.
     rbind (ensure (tif \<in> {''Alo'', ''Ioc'', ''Gtc''}) ''unknown time in force'') (\<lambda>_.
     rbind (if reduce then Inr True else notional_ok l p s) (\<lambda>enough.
     rbind (ensure enough ''order below $10 minimum notional'') (\<lambda>_.
     let v = [(''a'', JNum (PosInt (ucast i))), (''b'', JBool buy), (''p'', JStr (dl_text l p)),
              (''s'', JStr (dl_text l s)), (''r'', JBool reduce),
              (''t'', JObj [(''limit'', JObj [(''tif'', JStr tif)])])] in
     (case cl of
        None \<Rightarrow> Inr (JObj v)
      | Some c \<Rightarrow>
          rbind (ensure (length c = 34 \<and> starts_with ''0x'' c \<and> ho_hex h (drop 2 c)) ''invalid client order id'')
            (\<lambda>_. Inr (JObj (v @ [(''c'', JStr c)]))))))))))"

definition order_quantity :: "decimal_lib \<Rightarrow> f64 \<Rightarrow> u32 \<Rightarrow> string res" where
  "order_quantity l x decimals =
     rbind (ensure (is_finite x \<and> 0 \<le> x) ''invalid quantity'') (\<lambda>_.
     rbind (context_opt (dl_of_f64 l x) ''quantity overflow'') (\<lambda>d.
     Inr (dl_text l (dl_normalize l (dl_round l d (unat decimals) To_zero)))))"

definition order_price :: "decimal_lib \<Rightarrow> f64 \<Rightarrow> u32 \<Rightarrow> bool \<Rightarrow> string res" where
  "order_price l x sz_decimals round_up =
     rbind (ensure (is_finite x \<and> 0 < x \<and> sz_decimals \<le> 6) ''invalid price'') (\<lambda>_.
     let dp = nat (max 0 (i32_wrap (4 - f_to_i32 (f_floor (dl_log10 l x))))) in
     rbind (context_opt (dl_of_f64 l x) ''price overflow'') (\<lambda>d.
     let p = dl_normalize l (dl_round l d (min dp (unat (6 - sz_decimals)))
       (if round_up then To_positive_infinity else To_negative_infinity)) in
     rbind (validate_price l (dl_text l p) sz_decimals) (\<lambda>_. Inr (dl_text l p))))"

section \<open>What an accepted order satisfies\<close>

lemma wire_cloid:
  "wire h l i a buy price sz tif reduce cl = Inr w \<Longrightarrow>
     as_str (jget w ''c'') = cl \<and> jget w ''r'' = JBool reduce \<and> jget w ''b'' = JBool buy"
  by (cases cl) (auto simp: wire_def Let_def jget_def split: if_splits)

lemma wire_notional:
  assumes "wire h l i a buy price sz tif reduce cl = Inr w" "\<not> reduce"
  shows "\<exists>p s n. validate_price l price (ha_sz_decimals a) = Inr p \<and> dl_mul l p s = Inr n \<and> 10 \<le> dec_val n
    \<and> jget w ''p'' = JStr (dl_text l p) \<and> jget w ''s'' = JStr (dl_text l s)"
  using assms by (cases cl) (fastforce simp: wire_def Let_def jget_def notional_ok_def)+

end
