(* ===== verification/Hl_Client.thy ===== *)
theory Hl_Client
  imports Hl_Orders Hl_Journal
begin

text \<open>
  The exchange client (\<open>src/hyperliquid/mod.rs\<close>, \<open>auth.rs\<close>): reads with bounded retries, the
  verification of the signing identity, and the one path on which a signed request leaves the
  process. The exchange is the parameter \<open>venue\<close>: its reply to a request may depend on the moment,
  may be any document and may be lost. Signatures and address parsing are library code.
\<close>

datatype http_reply = Http_lost | Http_reply "16 word" "json option"

record venue =
  vn_info :: "nat \<Rightarrow> json \<Rightarrow> http_reply"
  vn_post :: "nat \<Rightarrow> json \<Rightarrow> http_reply"
  vn_sign :: "json \<Rightarrow> string option \<Rightarrow> u64 \<Rightarrow> u64 \<Rightarrow> bool \<Rightarrow> json res"
  vn_address :: "string \<Rightarrow> string res"
  vn_env :: "string \<Rightarrow> string option"
  vn_signer_key :: "string \<Rightarrow> string res"

record client =
  cl_cfg :: hyperliquid_config
  cl_signer :: "string option"
  cl_http :: venue
  cl_host :: host
  cl_decimal :: decimal_lib

section \<open>Reading\<close>

definition client_user :: "client \<Rightarrow> string res" where
  "client_user c =
     context_opt (case hc_vault (cl_cfg c) of Some v \<Rightarrow> Some v | None \<Rightarrow> hc_account (cl_cfg c))
       ''Hyperliquid account owner is required''"

definition ask :: "client \<Rightarrow> json \<Rightarrow> http_reply st" where
  "ask c req s = (Inr (vn_info (cl_http c) (sv_tick s) req), s\<lparr>sv_tick := Suc (sv_tick s)\<rparr>)"

text \<open>Throttling, server errors, lost replies and unreadable bodies are failures that a read repeats.\<close>

definition info_outcome :: "http_reply \<Rightarrow> string + json res" where
  "info_outcome r =
     (case r of
        Http_lost \<Rightarrow> Inl ''Hyperliquid info transport unavailable''
      | Http_reply status body \<Rightarrow>
          if status = 429 \<or> 500 \<le> status \<and> status \<le> 599 then Inl ''Hyperliquid info HTTP error''
          else if 400 \<le> status \<and> status \<le> 499 then Inr (Inl (Bail ''HTTP status client error''))
          else (case body of None \<Rightarrow> Inl ''Hyperliquid info body unavailable'' | Some v \<Rightarrow> Inr (Inr v)))"

fun info_loop :: "client \<Rightarrow> json \<Rightarrow> nat \<Rightarrow> json st" where
  "info_loop c req 0 = slift (Inl (Panic ''unreachable''))"
| "info_loop c req (Suc n) =
     sbind (ask c req) (\<lambda>reply.
     case info_outcome reply of
       Inr r \<Rightarrow> slift r
     | Inl failure \<Rightarrow> if n = 0 then slift (Inl (ReadUnavailable failure)) else info_loop c req n)"

definition info :: "client \<Rightarrow> json \<Rightarrow> json st" where
  "info c req = info_loop c req 3"

fun parse_asset :: "json \<Rightarrow> asset res" where
  "parse_asset (JObj m) =
     (case (jfind (JObj m) ''name'', jfind (JObj m) ''szDecimals'', jfind (JObj m) ''maxLeverage'', jfind (JObj m) ''isDelisted'') of
        (Some (JStr name), Some (JNum (PosInt d)), Some (JNum (PosInt l)), Some (JBool b)) \<Rightarrow>
          if d < 2 ^ 32 \<and> l < 2 ^ 32 then Inr \<lparr>ha_name = name, ha_sz_decimals = ucast d, ha_max_leverage = ucast l, ha_is_delisted = b\<rparr>
          else Inl (Bail ''invalid value'')
      | (Some (JStr name), Some (JNum (PosInt d)), Some (JNum (PosInt l)), None) \<Rightarrow>
          if d < 2 ^ 32 \<and> l < 2 ^ 32 then Inr \<lparr>ha_name = name, ha_sz_decimals = ucast d, ha_max_leverage = ucast l, ha_is_delisted = False\<rparr>
          else Inl (Bail ''invalid value'')
      | _ \<Rightarrow> Inl (Bail ''invalid type''))"
| "parse_asset _ = Inl (Bail ''invalid type'')"

fun map_res :: "('a \<Rightarrow> 'b res) \<Rightarrow> 'a list \<Rightarrow> 'b list res" where
  "map_res f [] = Inr []"
| "map_res f (x # xs) = rbind (f x) (\<lambda>y. rbind (map_res f xs) (\<lambda>ys. Inr (y # ys)))"

definition client_assets :: "client \<Rightarrow> asset list st" where
  "client_assets c =
     sbind (info c (JObj [(''type'', JStr ''meta'')])) (\<lambda>v.
     slift (rbind (context_opt (as_array (jget v ''universe'')) ''invalid type'') (map_res parse_asset)))"

fun find_asset :: "string \<Rightarrow> nat \<Rightarrow> asset list \<Rightarrow> (u32 \<times> asset) option" where
  "find_asset coin n [] = None"
| "find_asset coin n (a # as) =
     (if ha_name a = coin \<and> \<not> ha_is_delisted a then Some (of_nat n, a) else find_asset coin (Suc n) as)"

definition client_asset :: "client \<Rightarrow> string \<Rightarrow> (u32 \<times> asset) st" where
  "client_asset c coin =
     sbind (client_assets c) (\<lambda>as.
     slift (context_opt (find_asset coin 0 as) ''unknown/delisted native perpetual asset''))"

definition parse_candle :: "json \<Rightarrow> candle res" where
  "parse_candle row =
     rbind (context_opt (as_u64 (jget row ''t'')) ''candle timestamp'') (\<lambda>t.
     rbind (context_opt (as_u64 (jget row ''T'')) ''candle end'') (\<lambda>t2.
     rbind (num (jget row ''o'')) (\<lambda>op.
     rbind (num (jget row ''h'')) (\<lambda>hi.
     rbind (num (jget row ''l'')) (\<lambda>lo.
     rbind (num (jget row ''c'')) (\<lambda>cl.
       Inr \<lparr>ca_open_ms = t, ca_close_ms = t2, ca_open = op, ca_high = hi, ca_low = lo, ca_close = cl\<rparr>))))))"

definition client_candles :: "client \<Rightarrow> string \<Rightarrow> string \<Rightarrow> u64 \<Rightarrow> u64 \<Rightarrow> candle list st" where
  "client_candles c coin interval start stop =
     sbind (info c (JObj [(''type'', JStr ''candleSnapshot''), (''req'', JObj [(''coin'', JStr coin),
       (''interval'', JStr interval), (''startTime'', JNum (PosInt start)), (''endTime'', JNum (PosInt stop))])])) (\<lambda>v.
     slift (rbind (context_opt (as_array v) ''invalid candle response'') (\<lambda>rows.
       rbind (map_res parse_candle rows) (\<lambda>cs. Inr (sort_key ca_open_ms cs)))))"

definition parse_book :: "json \<Rightarrow> (f64 \<times> f64 \<times> u64) res" where
  "parse_book v =
     rbind (num (jget (jidx (jidx (jget v ''levels'') 0) 0) ''px'')) (\<lambda>bid.
     rbind (num (jget (jidx (jidx (jget v ''levels'') 1) 0) ''px'')) (\<lambda>askp.
     rbind (ensure (0 < bid \<and> bid \<le> askp) ''invalid/empty order book'') (\<lambda>_.
     rbind (context_opt (as_u64 (jget v ''time'')) ''book timestamp missing'') (\<lambda>t.
       Inr (bid, askp, t)))))"

definition client_book :: "client \<Rightarrow> string \<Rightarrow> (f64 \<times> f64 \<times> u64) st" where
  "client_book c coin =
     sbind (info c (JObj [(''type'', JStr ''l2Book''), (''coin'', JStr coin)])) (\<lambda>v. slift (parse_book v))"

definition client_market :: "client \<Rightarrow> string \<Rightarrow> (f64 \<times> u64) st" where
  "client_market c coin =
     sbind (client_book c coin) (\<lambda>(b, a, t). slift (Inr ((b + a) / lit 2, t)))"

definition user_request :: "client \<Rightarrow> string \<Rightarrow> (string \<times> json) list \<Rightarrow> json st" where
  "user_request c kind extra =
     sbind (slift (client_user c)) (\<lambda>u. info c (JObj ([(''type'', JStr kind), (''user'', JStr u)] @ extra)))"

definition client_open_orders :: "client \<Rightarrow> json st" where
  "client_open_orders c = user_request c ''openOrders'' []"

definition client_fills :: "client \<Rightarrow> u64 \<Rightarrow> json st" where
  "client_fills c start = user_request c ''userFillsByTime'' [(''startTime'', JNum (PosInt start))]"

definition client_order_status :: "client \<Rightarrow> json \<Rightarrow> json st" where
  "client_order_status c oid = user_request c ''orderStatus'' [(''oid'', oid)]"

definition client_funding_history :: "client \<Rightarrow> string \<Rightarrow> u64 \<Rightarrow> u64 \<Rightarrow> json st" where
  "client_funding_history c coin start stop =
     info c (JObj [(''type'', JStr ''fundingHistory''), (''coin'', JStr coin),
       (''startTime'', JNum (PosInt start)), (''endTime'', JNum (PosInt stop))])"

definition client_active_asset :: "client \<Rightarrow> string \<Rightarrow> json st" where
  "client_active_asset c coin =
     sbind (user_request c ''activeAssetData'' [(''coin'', JStr coin)]) (\<lambda>v.
     sbind (slift (ensure (jget v ''coin'' = JStr coin
         \<and> (case as_str (jget v ''user'') of None \<Rightarrow> False
            | Some u \<Rightarrow> eq_ignore_case u (case client_user c of Inr w \<Rightarrow> w | Inl _ \<Rightarrow> '''')))
       ''active asset response identity mismatch'')) (\<lambda>_.
     sbind (slift (ensure (as_u64 (jget_path v [''leverage'', ''value'']) \<noteq> None
         \<and> jget_path v [''leverage'', ''type''] \<in> {JStr ''cross'', JStr ''isolated''})
       ''invalid asset leverage response'')) (\<lambda>_.
     slift (Inr v))))"

section \<open>The signing identity\<close>

definition json_address :: "client \<Rightarrow> json \<Rightarrow> string res" where
  "json_address c v =
     rbind (context_opt (as_str v) ''authorization address missing'')
       (\<lambda>x. with_context (vn_address (cl_http c) x) ''invalid authorization address'')"

definition role_of :: "client \<Rightarrow> string \<Rightarrow> json st" where
  "role_of c a = info c (JObj [(''type'', JStr ''userRole''), (''user'', JStr a)])"

text \<open>The account traded for must be the configured master, its subaccount, or a vault it leads.\<close>

definition verify_target :: "client \<Rightarrow> string \<Rightarrow> string \<Rightarrow> unit st" where
  "verify_target c master target =
     (if target = master then slift (Inr ())
      else
        sbind (role_of c target) (\<lambda>role.
        case as_str (jget role ''role'') of
          None \<Rightarrow> slift (Inl (Bail ''target is not a verified subaccount/vault''))
        | Some k \<Rightarrow>
            if k = ''subAccount''
            then slift (rbind (json_address c (jget_path role [''data'', ''master'']))
                   (\<lambda>a. ensure (a = master) ''subaccount belongs to another master''))
            else if k = ''vault''
            then sbind (info c (JObj [(''type'', JStr ''vaultDetails''), (''vaultAddress'', JStr target)])) (\<lambda>vault.
                 slift (rbind (json_address c (jget vault ''vaultAddress'')) (\<lambda>a.
                   rbind (ensure (a = target) ''vault response identity mismatch'') (\<lambda>_.
                   rbind (json_address c (jget vault ''leader'')) (\<lambda>b.
                   ensure (b = master) ''vault leader differs from configured master'')))))
            else slift (Inl (Bail ''target is not a verified subaccount/vault''))))"

text \<open>A signer other than the master needs a grant that lasts at least another minute.\<close>

definition verify_agent :: "client \<Rightarrow> string \<Rightarrow> string \<Rightarrow> u64 option st" where
  "verify_agent c master signer =
     (if signer = master then slift (Inr None)
      else
        sbind (role_of c signer) (\<lambda>role.
        sbind (slift (rbind (if jget role ''role'' = JStr ''agent''
              then rbind (json_address c (jget_path role [''data'', ''user''])) (\<lambda>a. Inr (a = master)) else Inr False)
            (\<lambda>ok. ensure ok ''API signer is not an agent of the configured master''))) (\<lambda>_.
        sbind (info c (JObj [(''type'', JStr ''extraAgents''), (''user'', JStr master)])) (\<lambda>agents.
        sbind (slift (context_opt (as_array agents) ''invalid agent grants'')) (\<lambda>rows.
        sbind (slift (context_opt (find (\<lambda>v. json_address c (jget v ''address'') = Inr signer) rows)
          ''agent has no verifiable grant; use an authorized named API wallet'')) (\<lambda>grant.
        sbind (slift (context_opt (as_u64 (jget grant ''validUntil'')) ''agent expiration missing'')) (\<lambda>until.
        sbind (host_now (cl_host c)) (\<lambda>now.
        sbind (slift (ensure (sat_add now 60000 < until) ''API agent expired or expires within one minute'')) (\<lambda>_.
        slift (Inr (Some until)))))))))))"

definition auth_verify :: "client \<Rightarrow> string \<Rightarrow> json st" where
  "auth_verify c signer =
     sbind (slift (rbind (context_opt (hc_account (cl_cfg c)) ''configured master account required'') (vn_address (cl_http c)))) (\<lambda>master.
     sbind (slift (rbind (client_user c) (vn_address (cl_http c)))) (\<lambda>target.
     sbind (slift (ensure (hc_vault (cl_cfg c) = None \<or> target \<noteq> master)
       ''vault/subaccount address must differ from master account'')) (\<lambda>_.
     sbind (role_of c master) (\<lambda>role.
     sbind (slift (ensure (jget role ''role'' = JStr ''user'')
       ''configured account is not a Hyperliquid master user'')) (\<lambda>_.
     sbind (verify_target c master target) (\<lambda>_.
     sbind (verify_agent c master signer) (\<lambda>expires.
     sbind (host_now (cl_host c)) (\<lambda>now.
     slift (Inr (JObj [(''mainnet'', JBool (hc_mainnet (cl_cfg c))), (''master'', JStr master), (''user'', JStr target),
       (''signer'', JStr signer), (''agent_valid_until'', (case expires of None \<Rightarrow> JNull | Some t \<Rightarrow> JNum (PosInt t))),
       (''verified_ms'', JNum (PosInt now))]))))))))))"

definition verify_identity :: "client \<Rightarrow> string \<Rightarrow> unit st" where
  "verify_identity c signer =
     sbind (auth_verify c signer) (\<lambda>identity.
     sbind (sread (read_json ''hl_identity.json'')) (\<lambda>previous.
     sbind (slift (ensure (case previous of None \<Rightarrow> True
         | Some old \<Rightarrow> \<forall>k \<in> set [''mainnet'', ''master'', ''user'']. json_eq (jget old k) (jget identity k))
       ''state directory belongs to another Hyperliquid identity'')) (\<lambda>_.
     sbind (if (case previous of None \<Rightarrow> True | Some old \<Rightarrow> \<not> json_eq (jget old ''signer'') (jget identity ''signer''))
            then store_event (cl_host c) ''hl_signer_verified'' identity else slift (Inr ())) (\<lambda>_.
     store_write (cl_host c) ''hl_identity.json'' (Doc_json identity)))))"

definition enable_signing :: "client \<Rightarrow> client st" where
  "enable_signing c =
     sbind (slift (ensure (hc_mainnet (cl_cfg c) = contains ''api.hyperliquid.xyz'' (hc_http_url (cl_cfg c)))
       ''Hyperliquid network/signature domain mismatch'')) (\<lambda>_.
     sbind (slift (ensure (hc_http_url (cl_cfg c) \<in> {''https://api.hyperliquid.xyz'', ''https://api.hyperliquid-testnet.xyz''})
       ''live exchange URL must be an official Hyperliquid endpoint'')) (\<lambda>_.
     sbind (slift (context_opt (vn_env (cl_http c) (hc_private_key_env (cl_cfg c)))
       ''missing Hyperliquid signing environment variable'')) (\<lambda>key.
     sbind (slift (with_context (vn_signer_key (cl_http c) key) ''invalid Hyperliquid signer'')) (\<lambda>signer.
     sbind (verify_identity c signer) (\<lambda>_.
     slift (Inr (c\<lparr>cl_signer := Some signer\<rparr>)))))))"

section \<open>Signed requests\<close>

text \<open>The one place where a signed request leaves the process.\<close>

definition post :: "client \<Rightarrow> json \<Rightarrow> http_reply st" where
  "post c req s =
     (Inr (vn_post (cl_http c) (sv_tick s) req), s\<lparr>sv_tick := Suc (sv_tick s), sv_sent := sv_sent s @ [req]\<rparr>)"

definition post_result :: "http_reply \<Rightarrow> json res" where
  "post_result r =
     (case r of
        Http_lost \<Rightarrow> Inl (Bail ''uncertain exchange result; reconcile pending operation'')
      | Http_reply status body \<Rightarrow>
          if 400 \<le> status \<and> status \<le> 599 then Inl (Bail ''HTTP status error'')
          else context_opt body ''error decoding response body'')"

definition validate_response :: "json \<Rightarrow> unit res" where
  "validate_response v =
     (if jget v ''status'' = JStr ''err'' then Inl (ExchangeRejected ''exchange rejected'')
      else rbind (ensure (jget v ''status'' = JStr ''ok'') ''unrecognized exchange response'') (\<lambda>_.
        case as_array (jget_path v [''response'', ''data'', ''statuses'']) of
          None \<Rightarrow> Inr ()
        | Some l \<Rightarrow> if \<exists>x \<in> set l. jfind x ''error'' \<noteq> None
                    then Inl (ExchangeRejected ''exchange action rejected'') else Inr ()))"

definition check_quote :: "client \<Rightarrow> json option \<Rightarrow> unit st" where
  "check_quote c hedge =
     (case hedge of
        None \<Rightarrow> slift (Inr ())
      | Some v \<Rightarrow>
          sbind (slift (context_opt (as_u64 (jget v ''quote_ms'')) ''quote time'')) (\<lambda>q.
          sbind (host_now (cl_host c)) (\<lambda>now.
          sbind (slift (context_opt (as_u64 (jget v ''max_age_seconds'')) ''quote lifetime'')) (\<lambda>age.
          slift (fresh q now age)))))"

definition check_envelope :: "json \<Rightarrow> unit res" where
  "check_envelope response =
     rbind (ensure (jget response ''status'' \<in> {JStr ''ok'', JStr ''err''})
       ''unknown exchange envelope; pending operation retained'') (\<lambda>_.
     if jget response ''status'' = JStr ''ok''
     then ensure (jget_path response [''response'', ''type''] \<in> {JStr ''default'', JStr ''order'', JStr ''cancel''})
            ''unknown exchange response type; pending operation retained''
     else Inr ())"

definition opt_str :: "string option \<Rightarrow> json" where
  "opt_str v = (case v of None \<Rightarrow> JNull | Some x \<Rightarrow> JStr x)"

definition signed_request :: "client \<Rightarrow> json \<Rightarrow> u64 \<Rightarrow> json res" where
  "signed_request c action nonce =
     rbind (case hc_vault (cl_cfg c) of None \<Rightarrow> Inr None
            | Some v \<Rightarrow> rbind (vn_address (cl_http c) v) (\<lambda>a. Inr (Some a))) (\<lambda>vault.
     rbind (vn_sign (cl_http c) action vault nonce (nonce + 60000) (hc_mainnet (cl_cfg c))) (\<lambda>signature.
     Inr (JObj [(''action'', action), (''nonce'', JNum (PosInt nonce)), (''signature'', signature),
       (''vaultAddress'', opt_str (hc_vault (cl_cfg c))), (''expiresAfter'', JNum (PosInt (nonce + 60000)))])))"

definition pending_doc :: "json \<Rightarrow> string \<Rightarrow> string \<Rightarrow> json option \<Rightarrow> json" where
  "pending_doc request user state hedge =
     JObj [(''venue'', JStr ''hyperliquid''), (''request'', request), (''user'', JStr user),
       (''dispatch_state'', JStr state), (''hedge_intent'', opt_json hedge)]"

text \<open>Everything that is recorded before the request is sent.\<close>

definition record_intent :: "client \<Rightarrow> json \<Rightarrow> json option \<Rightarrow> json \<Rightarrow> string \<Rightarrow> u64 \<Rightarrow> unit st" where
  "record_intent c action hedge request user nonce =
     sbind (store_begin (cl_host c) (pending_doc request user ''prepared'' hedge)) (\<lambda>_.
     sbind (case hedge of None \<Rightarrow> slift (Inr ()) | Some v \<Rightarrow> store_write (cl_host c) ''hedge_order.json'' (Doc_json v)) (\<lambda>_.
     sbind (journal_prepare (cl_host c) action user nonce) (\<lambda>_.
     sbind (check_quote c hedge) (\<lambda>_.
     store_write (cl_host c) ''pending.json'' (Doc_json (pending_doc request user ''submitting'' hedge))))))"

text \<open>Everything that follows the sending.\<close>

definition dispatch :: "client \<Rightarrow> json \<Rightarrow> json \<Rightarrow> json st" where
  "dispatch c action request =
     sbind (post c request) (\<lambda>reply.
     sbind (slift (post_result reply)) (\<lambda>response.
     sbind (slift (check_envelope response)) (\<lambda>_.
     sbind (journal_acknowledged (cl_host c) action response) (\<lambda>_.
     sbind (store_finish (cl_host c) response) (\<lambda>_.
     sbind (slift (validate_response response)) (\<lambda>_.
     slift (Inr response)))))))"

definition exchange_inner :: "client \<Rightarrow> json \<Rightarrow> json option \<Rightarrow> json st" where
  "exchange_inner c action hedge =
     sbind (sread (validate_new_ids (cl_host c) action)) (\<lambda>_.
     sbind (slift (context_opt (cl_signer c) ''signing disabled; explicit live mode required'')) (\<lambda>signer.
     sbind (verify_identity c signer) (\<lambda>_.
     sbind (check_quote c hedge) (\<lambda>_.
     sbind (next_nonce (cl_host c)) (\<lambda>nonce.
     sbind (slift (signed_request c action nonce)) (\<lambda>request.
     sbind (slift (client_user c)) (\<lambda>user.
     sbind (record_intent c action hedge request user nonce) (\<lambda>_.
     dispatch c action request))))))))"

definition exchange :: "client \<Rightarrow> json \<Rightarrow> json st" where
  "exchange c action = exchange_inner c action None"

definition json_f64 :: "f64 \<Rightarrow> json" where
  "json_f64 x = (if is_finite x then JNum (Float x) else JNull)"

definition order_action :: "json \<Rightarrow> json" where
  "order_action w = JObj [(''type'', JStr ''order''), (''orders'', JArr [w]), (''grouping'', JStr ''na'')]"

definition managed_order ::
    "client \<Rightarrow> string \<Rightarrow> bool \<Rightarrow> string \<Rightarrow> string \<Rightarrow> string \<Rightarrow> string \<Rightarrow> f64 \<Rightarrow> u64 \<Rightarrow> u64 \<Rightarrow> json st" where
  "managed_order c coin buy price sz tif cid target quote_ms max_age_seconds =
     sbind (client_asset c coin) (\<lambda>(i, a).
     sbind (slift (wire (cl_host c) (cl_decimal c) i a buy price sz tif buy (Some cid))) (\<lambda>w.
     exchange_inner c (order_action w) (Some (JObj
       [(''coin'', JStr coin), (''cloid'', JStr cid), (''target'', json_f64 target), (''buy'', JBool buy),
        (''price'', JStr price), (''size'', JStr sz), (''tif'', JStr tif), (''quote_ms'', JNum (PosInt quote_ms)),
        (''max_age_seconds'', JNum (PosInt max_age_seconds))]))))"

section \<open>The other exchange operations\<close>

definition client_leverage :: "client \<Rightarrow> string \<Rightarrow> u32 \<Rightarrow> bool \<Rightarrow> json st" where
  "client_leverage c coin leverage cross =
     sbind (client_asset c coin) (\<lambda>(i, a).
     sbind (slift (ensure (0 < leverage \<and> leverage \<le> ha_max_leverage a \<and> leverage \<le> 3)
       ''invalid leverage (LpMaker cap: 3x)'')) (\<lambda>_.
     exchange c (JObj [(''type'', JStr ''updateLeverage''), (''asset'', JNum (PosInt (ucast i))),
       (''isCross'', JBool cross), (''leverage'', JNum (PosInt (ucast leverage)))])))"

definition json_i64 :: "64 word \<Rightarrow> json" where
  "json_i64 w = (if sint w < 0 then JNum (NegInt (sint w)) else JNum (PosInt w))"

definition client_isolated_margin :: "client \<Rightarrow> string \<Rightarrow> 64 word \<Rightarrow> json st" where
  "client_isolated_margin c coin usdc_micros =
     sbind (client_asset c coin) (\<lambda>(i, a).
     exchange c (JObj [(''type'', JStr ''updateIsolatedMargin''), (''asset'', JNum (PosInt (ucast i))),
       (''isBuy'', JBool True), (''ntli'', json_i64 usdc_micros)]))"

definition client_cancel_oid :: "client \<Rightarrow> string \<Rightarrow> u64 \<Rightarrow> json st" where
  "client_cancel_oid c coin oid =
     sbind (client_asset c coin) (\<lambda>(i, a).
     exchange c (JObj [(''type'', JStr ''cancel''),
       (''cancels'', JArr [JObj [(''a'', JNum (PosInt (ucast i))), (''o'', JNum (PosInt oid))]])]))"

fun cancel_rows :: "client \<Rightarrow> json list \<Rightarrow> json list st" where
  "cancel_rows c [] = slift (Inr [])"
| "cancel_rows c (r # rs) =
     sbind (slift (context_opt (as_str (jget r ''coin'')) ''coin'')) (\<lambda>coin.
     sbind (slift (context_opt (as_u64 (jget r ''oid'')) ''oid'')) (\<lambda>oid.
     sbind (client_cancel_oid c coin oid) (\<lambda>v.
     sbind (cancel_rows c rs) (\<lambda>vs. slift (Inr (v # vs))))))"

definition client_cancel_all :: "client \<Rightarrow> json list st" where
  "client_cancel_all c =
     sbind (client_open_orders c) (\<lambda>v.
     sbind (slift (context_opt (as_array v) ''open orders'')) (cancel_rows c))"

definition client_schedule_cancel :: "client \<Rightarrow> u64 option \<Rightarrow> json st" where
  "client_schedule_cancel c time =
     (case time of
        Some t \<Rightarrow>
          sbind (host_now (cl_host c)) (\<lambda>now.
          sbind (slift (ensure (now + 5000 \<le> t) ''cancel deadline must be at least 5s ahead'')) (\<lambda>_.
          exchange c (JObj [(''type'', JStr ''scheduleCancel''), (''time'', JNum (PosInt t))])))
      | None \<Rightarrow> exchange c (JObj [(''type'', JStr ''scheduleCancel'')]))"

definition client_modify :: "client \<Rightarrow> string \<Rightarrow> u64 \<Rightarrow> bool \<Rightarrow> string \<Rightarrow> string \<Rightarrow> bool \<Rightarrow> json st" where
  "client_modify c coin oid buy price sz reduce =
     sbind (client_asset c coin) (\<lambda>(i, a).
     sbind (slift (wire (cl_host c) (cl_decimal c) i a buy price sz ''Alo'' reduce None)) (\<lambda>w.
     exchange c (JObj [(''type'', JStr ''batchModify''),
       (''modifies'', JArr [JObj [(''oid'', JNum (PosInt oid)), (''order'', w)]])])))"

definition client_trigger :: "client \<Rightarrow> string \<Rightarrow> bool \<Rightarrow> string \<Rightarrow> string \<Rightarrow> string \<Rightarrow> bool \<Rightarrow> json st" where
  "client_trigger c coin buy price sz trigger tp =
     sbind (client_asset c coin) (\<lambda>(i, a).
     sbind (cloid (cl_host c)) (\<lambda>cid.
     sbind (slift (wire (cl_host c) (cl_decimal c) i a buy price sz ''Gtc'' True (Some cid))) (\<lambda>w.
     sbind (slift (validate_price (cl_decimal c) trigger (ha_sz_decimals a))) (\<lambda>_.
     sbind (slift (jset w ''t'' (JObj [(''trigger'', JObj [(''isMarket'', JBool True), (''triggerPx'', JStr trigger),
       (''tpsl'', JStr (if tp then ''tp'' else ''sl''))])]))) (\<lambda>w.
     exchange c (order_action w))))))"

definition client_order :: "client \<Rightarrow> string \<Rightarrow> bool \<Rightarrow> string \<Rightarrow> string \<Rightarrow> string \<Rightarrow> bool \<Rightarrow> string \<Rightarrow> json st" where
  "client_order c coin buy price sz tif reduce_only cid =
     sbind (client_asset c coin) (\<lambda>(i, a).
     sbind (slift (wire (cl_host c) (cl_decimal c) i a buy price sz tif reduce_only (Some cid))) (\<lambda>w.
     exchange c (order_action w)))"

definition client_cancel :: "client \<Rightarrow> string \<Rightarrow> string \<Rightarrow> json st" where
  "client_cancel c coin cid =
     sbind (client_asset c coin) (\<lambda>(i, a).
     exchange c (JObj [(''type'', JStr ''cancelByCloid''),
       (''cancels'', JArr [JObj [(''asset'', JNum (PosInt (ucast i))), (''cloid'', JStr cid)]])]))"

end
