(* ===== verification/Hl_Account.thy ===== *)
theory Hl_Account
  imports Hl_Client F64_Facts
begin

text \<open>
  What the exchange account can spend (\<open>src/hyperliquid/account.rs\<close>): the observation is normalised to
  one collateral record whose meaning depends on the account mode.
\<close>

record collateral =
  co_account_mode :: string
  co_source :: string
  co_coin :: string
  co_equity_usdc :: f64
  co_available_buy_usdc :: f64
  co_available_short_usdc :: f64

definition collateral_json :: "collateral \<Rightarrow> json" where
  "collateral_json x =
     JObj [(''account_mode'', JStr (co_account_mode x)), (''source'', JStr (co_source x)), (''coin'', JStr (co_coin x)),
       (''equity_usdc'', json_f64 (co_equity_usdc x)), (''available_buy_usdc'', json_f64 (co_available_buy_usdc x)),
       (''available_short_usdc'', json_f64 (co_available_short_usdc x))]"

definition collateral_of :: "json \<Rightarrow> collateral res" where
  "collateral_of account =
     (let v = jget account ''lpMakerCollateral''; msg = ''missing mode-aware collateral observation'' in
      rbind (context_opt (as_str (jget v ''account_mode'')) msg) (\<lambda>mode.
      rbind (context_opt (as_str (jget v ''source'')) msg) (\<lambda>source.
      rbind (context_opt (as_str (jget v ''coin'')) msg) (\<lambda>coin.
      rbind (context_opt (as_f64 (jget v ''equity_usdc'')) msg) (\<lambda>equity.
      rbind (context_opt (as_f64 (jget v ''available_buy_usdc'')) msg) (\<lambda>buy.
      rbind (context_opt (as_f64 (jget v ''available_short_usdc'')) msg) (\<lambda>short.
        Inr \<lparr>co_account_mode = mode, co_source = source, co_coin = coin, co_equity_usdc = equity,
             co_available_buy_usdc = buy, co_available_short_usdc = short\<rparr>)))))))"

definition validate_mode :: "string \<Rightarrow> unit res" where
  "validate_mode mode =
     (if mode \<in> {''unifiedAccount'', ''disabled'', ''default'', ''dexAbstraction''} then Inr ()
      else if mode = ''portfolioMargin'' then Inl (Bail
        ''Hyperliquid portfolioMargin borrowing/collateral valuation is unsupported; refusing to treat buying power as cash'')
      else Inl (Bail (''unsupported Hyperliquid account mode: '' @ mode)))"

text \<open>The one USDC balance of a unified account: its total and what is not on hold.\<close>

fun usdc_balance :: "json list \<Rightarrow> (f64 \<times> f64) option \<Rightarrow> (f64 \<times> f64) option res" where
  "usdc_balance [] usdc = Inr usdc"
| "usdc_balance (b # bs) usdc =
     rbind (context_opt (as_u64 (jget b ''token'')) ''invalid spot token id'') (\<lambda>token.
     if token = 0 \<or> jget b ''coin'' = JStr ''USDC''
     then
       rbind (ensure (token = 0 \<and> jget b ''coin'' = JStr ''USDC'' \<and> usdc = None) ''ambiguous USDC collateral balance'') (\<lambda>_.
       rbind (num (jget b ''total'')) (\<lambda>total.
       rbind (num (jget b ''hold'')) (\<lambda>hold.
       rbind (ensure (0 \<le> hold) ''negative collateral hold'') (\<lambda>_.
       usdc_balance bs (Some (total, f_max (total - hold) 0))))))
     else usdc_balance bs usdc)"

definition unified_amounts :: "string \<Rightarrow> json option \<Rightarrow> json option \<Rightarrow> (f64 \<times> f64 \<times> f64 \<times> string) res" where
  "unified_amounts coin spot active =
     rbind (context_opt spot ''unified account requires spot state'') (\<lambda>spot.
     rbind (context_opt (as_array (jget spot ''balances'')) ''missing spot balances'') (\<lambda>balances.
     rbind (usdc_balance balances None) (\<lambda>usdc.
     let (total, free) = (case usdc of None \<Rightarrow> (0, 0) | Some x \<Rightarrow> x) in
     rbind (context_opt active ''unified account requires active asset data'') (\<lambda>active.
     rbind (ensure (jget active ''coin'' = JStr coin) ''collateral observation coin mismatch'') (\<lambda>_.
     rbind (context_opt (as_array (jget active ''availableToTrade'')) ''missing availableToTrade'') (\<lambda>amounts.
     rbind (ensure (length amounts = 2) ''invalid availableToTrade directions'') (\<lambda>_.
     rbind (num (amounts ! 0)) (\<lambda>buy.
     rbind (num (amounts ! 1)) (\<lambda>short.
     rbind (ensure (0 \<le> buy \<and> 0 \<le> short) ''negative available collateral'') (\<lambda>_.
     Inr (total, f_min buy free, f_min short free,
       ''spot USDC total; min(activeAssetData availableToTrade[buy,sell], USDC total-hold)'')))))))))))"

definition native_amounts :: "json \<Rightarrow> (f64 \<times> f64 \<times> f64 \<times> string) res" where
  "native_amounts perp =
     rbind (num (jget_path perp [''marginSummary'', ''accountValue''])) (\<lambda>equity.
     rbind (num (jget perp ''withdrawable'')) (\<lambda>free.
     rbind (ensure (0 \<le> free) ''negative withdrawable collateral'') (\<lambda>_.
     Inr (equity, free, free, ''native clearinghouseState accountValue/withdrawable''))))"

definition set_opt :: "json \<Rightarrow> string \<Rightarrow> json option \<Rightarrow> json res" where
  "set_opt v k x = (case x of None \<Rightarrow> Inr v | Some y \<Rightarrow> jset v k y)"

definition normalize :: "u64 \<Rightarrow> string \<Rightarrow> string \<Rightarrow> json \<Rightarrow> json option \<Rightarrow> json option \<Rightarrow> json res" where
  "normalize now mode coin perp spot active =
     rbind (validate_mode mode) (\<lambda>_.
     rbind (ensure (as_array (jget perp ''assetPositions'') \<noteq> None) ''missing perp positions'') (\<lambda>_.
     rbind (if mode = ''unifiedAccount'' then unified_amounts coin spot active else native_amounts perp) (\<lambda>(equity, buy, short, source).
     rbind (jset perp ''lpMakerCollateral'' (collateral_json
       \<lparr>co_account_mode = mode, co_source = source, co_coin = coin, co_equity_usdc = equity,
        co_available_buy_usdc = buy, co_available_short_usdc = short\<rparr>)) (\<lambda>perp.
     rbind (jset perp ''accountObservedMs'' (JNum (PosInt now))) (\<lambda>perp.
     rbind (set_opt perp ''spotClearinghouseState'' spot) (\<lambda>perp.
     set_opt perp ''activeAssetData'' active))))))"

section \<open>Observing the account\<close>

definition perp_account :: "client \<Rightarrow> json st" where
  "perp_account c = user_request c ''clearinghouseState'' []"

text \<open>The mode is read before and after: a switch in between discards the observation.\<close>

definition collateral_account :: "client \<Rightarrow> json st" where
  "collateral_account c =
     sbind (user_request c ''userAbstraction'' []) (\<lambda>m.
     sbind (slift (context_opt (as_str m) ''invalid Hyperliquid account mode'')) (\<lambda>mode.
     sbind (slift (validate_mode mode)) (\<lambda>_.
     sbind (if mode = ''unifiedAccount''
            then sbind (perp_account c) (\<lambda>perp.
                 sbind (user_request c ''spotClearinghouseState'' []) (\<lambda>spot.
                 sbind (client_active_asset c (hc_hedge_coin (cl_cfg c))) (\<lambda>active.
                 slift (Inr (perp, Some spot, Some active)))))
            else sbind (perp_account c) (\<lambda>perp. slift (Inr (perp, None, None)))) (\<lambda>(perp, spot, active).
     sbind (user_request c ''userAbstraction'' []) (\<lambda>after.
     sbind (slift (ensure (after = JStr mode)
       ''Hyperliquid account mode changed during observation; reconcile again'')) (\<lambda>_.
     sbind (host_now (cl_host c)) (\<lambda>now.
     slift (normalize now mode (hc_hedge_coin (cl_cfg c)) perp spot active))))))))"

section \<open>The collateral record\<close>

lemma as_f64_json [simp]: "is_finite x \<Longrightarrow> as_f64 (json_f64 x) = Some x"
  by (simp add: json_f64_def)

lemma f_min_nonneg: "0 \<le> a \<Longrightarrow> 0 \<le> b \<Longrightarrow> (0::f64) \<le> f_min a b"
  using f_min_cases [of a b] by auto

text \<open>A finite bound makes the smaller of the two finite, whatever the other is.\<close>

lemma f_min_finite: "is_finite a \<Longrightarrow> 0 \<le> a \<Longrightarrow> 0 \<le> b \<Longrightarrow> is_finite (f_min a b)"
  by (cases a; cases b) (auto simp: f_min_def f64_cmp_defs zero_f64_def)

lemma f_max_zero: "0 \<le> f_max x (0::f64)"
  by (rule f_max_ge) (simp add: zero_f64_def)

lemma usdc_fixed: "usdc_balance bs (Some q) = Inr r \<Longrightarrow> r = Some q"
  by (induction bs) (auto split: if_splits)

text \<open>The rows that count: none, or exactly one.\<close>

abbreviation usdc_rows :: "json list \<Rightarrow> json list" where
  "usdc_rows bs \<equiv> filter (\<lambda>row. jget row ''coin'' = JStr ''USDC'') bs"

lemma usdc_rows_fixed: "usdc_balance bs (Some q) = Inr r \<Longrightarrow> usdc_rows bs = []"
  by (induction bs) (auto split: if_splits)

lemma usdc_rows_exact:
  "usdc_balance bs None = Inr r \<Longrightarrow>
     (case r of
        None \<Rightarrow> usdc_rows bs = []
      | Some (equity, free) \<Rightarrow> \<exists>row hold. usdc_rows bs = [row] \<and> num (jget row ''total'') = Inr equity
          \<and> num (jget row ''hold'') = Inr hold \<and> 0 \<le> hold \<and> free = f_max (equity - hold) 0)"
proof (induction bs)
  case (Cons b bs)
  from Cons.prems obtain token where t: "as_u64 (jget b ''token'') = Some token" by auto
  show ?case
  proof (cases "token = 0 \<or> jget b ''coin'' = JStr ''USDC''")
    case True
    with Cons.prems t obtain tt hold where h: "jget b ''coin'' = JStr ''USDC''" "num (jget b ''total'') = Inr tt"
      "num (jget b ''hold'') = Inr hold" "0 \<le> hold" "usdc_balance bs (Some (tt, f_max (tt - hold) 0)) = Inr r"
      by auto
    from usdc_fixed [OF h(5)] usdc_rows_fixed [OF h(5)] h(1-4) show ?thesis by simp
  next
    case False
    with Cons t show ?thesis by (auto split: option.splits)
  qed
qed simp

lemma usdc_known:
  "usdc_balance bs None = Inr (Some (equity, free)) \<Longrightarrow>
     \<exists>b \<in> set bs. \<exists>hold. jget b ''coin'' = JStr ''USDC'' \<and> as_u64 (jget b ''token'') = Some 0
        \<and> num (jget b ''total'') = Inr equity \<and> num (jget b ''hold'') = Inr hold \<and> 0 \<le> hold \<and> free = f_max (equity - hold) 0"
proof (induction bs)
  case (Cons b bs)
  from Cons.prems obtain token where t: "as_u64 (jget b ''token'') = Some token" by auto
  show ?case
  proof (cases "token = 0 \<or> jget b ''coin'' = JStr ''USDC''")
    case True
    with Cons.prems t obtain tt hold where h: "token = 0" "jget b ''coin'' = JStr ''USDC''" "num (jget b ''total'') = Inr tt"
      "num (jget b ''hold'') = Inr hold" "0 \<le> hold" "usdc_balance bs (Some (tt, f_max (tt - hold) 0)) = Inr (Some (equity, free))"
      by auto
    from usdc_fixed [OF h(6)] have "equity = tt" "free = f_max (tt - hold) 0" by simp_all
    then show ?thesis using h t by (intro bexI [of _ b] exI [of _ hold]) simp_all
  next
    case False
    with Cons t show ?thesis by auto
  qed
qed simp

text \<open>What a unified account may spend: the smaller of the exchange's offer and the free balance.\<close>

definition free_usdc :: "json list \<Rightarrow> f64 \<Rightarrow> f64 \<Rightarrow> bool" where
  "free_usdc bs equity free \<longleftrightarrow>
     (usdc_rows bs = [] \<and> equity = 0 \<and> free = 0
      \<or> (\<exists>row hold. usdc_rows bs = [row] \<and> num (jget row ''total'') = Inr equity
           \<and> num (jget row ''hold'') = Inr hold \<and> 0 \<le> hold \<and> free = f_max (equity - hold) 0))"

lemma unified_sound:
  assumes "unified_amounts coin spot active = Inr (equity, buy, short, source)"
  shows "\<exists>sp bs ac b sh free. spot = Some sp \<and> as_array (jget sp ''balances'') = Some bs \<and> active = Some ac
      \<and> jget ac ''coin'' = JStr coin
      \<and> num (jidx (jget ac ''availableToTrade'') 0) = Inr b \<and> num (jidx (jget ac ''availableToTrade'') 1) = Inr sh
      \<and> 0 \<le> b \<and> 0 \<le> sh \<and> free_usdc bs equity free \<and> buy = f_min b free \<and> short = f_min sh free"
    and "is_finite buy" "is_finite short" "is_finite equity" "0 \<le> buy" "0 \<le> short"
proof -
  obtain sp l usdc ac am b sh where o: "spot = Some sp" "as_array (jget sp ''balances'') = Some l" "usdc_balance l None = Inr usdc"
    "active = Some ac" "jget ac ''coin'' = JStr coin" "as_array (jget ac ''availableToTrade'') = Some am" "length am = 2"
    and n0: "num (am ! 0) = Inr b" "num (am ! 1) = Inr sh" "0 \<le> b \<and> 0 \<le> sh"
    "(equity, buy, short, source) = (fst (case usdc of None \<Rightarrow> (0, 0) | Some x \<Rightarrow> x),
       f_min b (snd (case usdc of None \<Rightarrow> (0, 0) | Some x \<Rightarrow> x)), f_min sh (snd (case usdc of None \<Rightarrow> (0, 0) | Some x \<Rightarrow> x)),
       ''spot USDC total; min(activeAssetData availableToTrade[buy,sell], USDC total-hold)'')"
    using assms unfolding unified_amounts_def Let_def split_def rbind_eq_Inr ensure_eq context_opt_eq sum.inject by metis
  obtain e fr where u: "(case usdc of None \<Rightarrow> (0, 0) | Some x \<Rightarrow> x) = (e, fr)" by fastforce
  then have n: "num (am ! 0) = Inr b" "num (am ! 1) = Inr sh" "0 \<le> b" "0 \<le> sh"
    "equity = e" "buy = f_min b fr" "short = f_min sh fr" using n0 by simp_all
  have arr: "jget ac ''availableToTrade'' = JArr am" using o(6) by (cases "jget ac ''availableToTrade''") auto
  have fin: "is_finite b" "is_finite sh" using n(1,2) num_finite by blast+
  have free: "free_usdc l e fr" using usdc_rows_exact [OF o(3)] u by (cases usdc) (auto simp: free_usdc_def)
  then have fr: "0 \<le> fr" "is_finite e" using f_max_zero num_finite by (auto simp: free_usdc_def zero_f64_def)
  show "\<exists>sp bs ac b sh free. spot = Some sp \<and> as_array (jget sp ''balances'') = Some bs \<and> active = Some ac
      \<and> jget ac ''coin'' = JStr coin
      \<and> num (jidx (jget ac ''availableToTrade'') 0) = Inr b \<and> num (jidx (jget ac ''availableToTrade'') 1) = Inr sh
      \<and> 0 \<le> b \<and> 0 \<le> sh \<and> free_usdc bs equity free \<and> buy = f_min b free \<and> short = f_min sh free"
    using o n arr free by auto
  show "is_finite buy" "is_finite short" "is_finite equity" "0 \<le> buy" "0 \<le> short"
    using n fin fr by (simp_all add: f_min_nonneg f_min_finite)
qed

lemma native_sound:
  "native_amounts perp = Inr (equity, buy, short, source) \<Longrightarrow>
     num (jget_path perp [''marginSummary'', ''accountValue'']) = Inr equity \<and> num (jget perp ''withdrawable'') = Inr short
     \<and> buy = short \<and> 0 \<le> short \<and> is_finite short \<and> is_finite equity"
  by (auto simp: native_amounts_def dest: num_finite)

lemma validate_mode_ok:
  "validate_mode mode = Inr u \<Longrightarrow> mode \<in> {''unifiedAccount'', ''disabled'', ''default'', ''dexAbstraction''}"
  by (simp add: validate_mode_def split: if_splits)

lemma set_opt_other: "set_opt v k x = Inr w \<Longrightarrow> k' \<noteq> k \<Longrightarrow> jget w k' = jget v k'"
  by (auto simp: set_opt_def jget_jset split: option.splits)

lemma collateral_roundtrip:
  "is_finite (co_equity_usdc x) \<Longrightarrow> is_finite (co_available_buy_usdc x) \<Longrightarrow> is_finite (co_available_short_usdc x) \<Longrightarrow>
     jget v ''lpMakerCollateral'' = collateral_json x \<Longrightarrow> collateral_of v = Inr x"
  by (simp add: collateral_of_def collateral_json_def Let_def jget_def)

text \<open>
  C39: a normalised account says exactly what may be spent: reading its collateral record back gives, in a
  unified account, for buying and for selling each the smaller of the exchange's offer in that direction
  and the one USDC balance less its hold (nothing when there is none), with that balance as the
  equity; in the other modes the native value and, for both, the withdrawable amount; never a negative
  amount. Borrowing and unknown modes are refused, and the rest of the observation is unchanged.
\<close>

theorem account_normalized:
  assumes "normalize now mode coin perp spot active = Inr v"
  shows "\<exists>x. collateral_of v = Inr x \<and> co_account_mode x = mode \<and> co_coin x = coin
    \<and> mode \<in> {''unifiedAccount'', ''disabled'', ''default'', ''dexAbstraction''}
    \<and> 0 \<le> co_available_buy_usdc x \<and> 0 \<le> co_available_short_usdc x
    \<and> (if mode = ''unifiedAccount'' then
         (\<exists>sp bs ac b sh free. spot = Some sp \<and> as_array (jget sp ''balances'') = Some bs \<and> active = Some ac
           \<and> jget ac ''coin'' = JStr coin
           \<and> num (jidx (jget ac ''availableToTrade'') 0) = Inr b \<and> num (jidx (jget ac ''availableToTrade'') 1) = Inr sh
           \<and> 0 \<le> b \<and> 0 \<le> sh \<and> free_usdc bs (co_equity_usdc x) free
           \<and> co_available_buy_usdc x = f_min b free \<and> co_available_short_usdc x = f_min sh free)
       else num (jget_path perp [''marginSummary'', ''accountValue'']) = Inr (co_equity_usdc x)
         \<and> num (jget perp ''withdrawable'') = Inr (co_available_short_usdc x)
         \<and> co_available_buy_usdc x = co_available_short_usdc x)
    \<and> (\<forall>k. k \<notin> {''lpMakerCollateral'', ''accountObservedMs'', ''spotClearinghouseState'', ''activeAssetData''} \<longrightarrow> jget v k = jget perp k)"
proof -
  obtain equity buy short source p1 p2 p3 where n: "mode \<in> {''unifiedAccount'', ''disabled'', ''default'', ''dexAbstraction''}"
    "(if mode = ''unifiedAccount'' then unified_amounts coin spot active else native_amounts perp) = Inr (equity, buy, short, source)"
    "jset perp ''lpMakerCollateral'' (collateral_json
       \<lparr>co_account_mode = mode, co_source = source, co_coin = coin, co_equity_usdc = equity,
        co_available_buy_usdc = buy, co_available_short_usdc = short\<rparr>) = Inr p1"
    "jset p1 ''accountObservedMs'' (JNum (PosInt now)) = Inr p2" "set_opt p2 ''spotClearinghouseState'' spot = Inr p3"
    "set_opt p3 ''activeAssetData'' active = Inr v"
    using assms validate_mode_ok unfolding normalize_def split_def rbind_eq_Inr ensure_eq by (metis prod.collapse)
  define x where "x = \<lparr>co_account_mode = mode, co_source = source, co_coin = coin, co_equity_usdc = equity,
        co_available_buy_usdc = buy, co_available_short_usdc = short\<rparr>"
  have other: "jget v k = jget perp k" if "k \<notin> {''lpMakerCollateral'', ''accountObservedMs'', ''spotClearinghouseState'', ''activeAssetData''}" for k
    using that set_opt_other [OF n(6)] set_opt_other [OF n(5)] jget_jset [OF n(4)] jget_jset [OF n(3)] by simp
  have "jget v ''lpMakerCollateral'' = collateral_json x"
    using set_opt_other [OF n(6), of "''lpMakerCollateral''"] set_opt_other [OF n(5), of "''lpMakerCollateral''"] jget_jset [OF n(4)] jget_jset [OF n(3)]
    by (simp add: x_def)
  moreover have amounts: "is_finite equity \<and> is_finite buy \<and> is_finite short \<and> 0 \<le> buy \<and> 0 \<le> short"
    using n(2) unified_sound [of coin spot active equity buy short source] native_sound [of perp equity buy short source]
    by (auto split: if_splits)
  ultimately have c: "collateral_of v = Inr x" by (intro collateral_roundtrip) (simp_all add: x_def)
  show ?thesis
  proof (cases "mode = ''unifiedAccount''")
    case True
    with n(2) have "unified_amounts coin spot active = Inr (equity, buy, short, source)" by simp
    from unified_sound(1) [OF this] show ?thesis
      by (intro exI [of _ x] conjI allI impI other) (use n(1) c amounts True in \<open>simp_all add: x_def\<close>)
  next
    case False
    with n(2) have "native_amounts perp = Inr (equity, buy, short, source)" by simp
    from native_sound [OF this] show ?thesis
      by (intro exI [of _ x] conjI allI impI other) (use n(1) c amounts False in \<open>simp_all add: x_def\<close>)
  qed
qed

end
