(* ===== verification/Hl_Hedge.thy ===== *)
theory Hl_Hedge
  imports Hl_Account
begin

text \<open>
  The hedge controller (\<open>src/hyperliquid/hedge.rs\<close>) and the recovery of orders whose fate is unknown
  (\<open>src/hyperliquid/order_recovery.rs\<close>). Recovery only reads: it repeats queries until the exchange
  states the order's fate. Pauses between attempts only let the host's clock advance.
\<close>

section \<open>Recovering an order\<close>

definition durable_answer :: "string \<Rightarrow> order \<Rightarrow> json" where
  "durable_answer i o1 =
     JObj [(''status'', JStr ''order''), (''order'', JObj [(''status'', JStr (or_status o1)),
       (''order'', JObj [(''oid'', (case or_oid o1 of None \<Rightarrow> JNull | Some n \<Rightarrow> JNum (PosInt n))), (''cloid'', JStr i)])]),
       (''source'', JStr ''durable_terminal'')]"

text \<open>An answer (\<open>Inl\<close>), or the last open state seen (\<open>Inr\<close>).\<close>

fun resolve_queries ::
    "client \<Rightarrow> string \<Rightarrow> bool \<Rightarrow> nat \<Rightarrow> json list \<Rightarrow> json option \<Rightarrow> (json + json option) st" where
  "resolve_queries c i terminal_only attempt [] known_open = slift (Inr (Inr known_open))"
| "resolve_queries c i terminal_only attempt (q # qs) known_open =
     sbind (client_order_status c q) (\<lambda>response.
     sbind (store_event (cl_host c) ''order_status_query'' (JObj [(''cloid'', JStr i), (''query'', q),
       (''attempt'', JNum (PosInt (of_nat (attempt + 1)))), (''terminal_only'', JBool terminal_only), (''response'', response)])) (\<lambda>_.
     if jget response ''status'' = JStr ''order''
     then
       sbind (journal_observe (cl_host c) i response) (\<lambda>_.
       if \<not> terminal_only \<or> jget_path response [''order'', ''status''] \<noteq> JStr ''open''
       then slift (Inr (Inl response))
       else resolve_queries c i terminal_only attempt qs (Some response))
     else
       sbind (slift (ensure (jget response ''status'' = JStr ''unknownOid'') ''unexpected order status response; order retained''))
         (\<lambda>_. resolve_queries c i terminal_only attempt qs known_open)))"

text \<open>Only the confirmed identifier or the client identifier proves that an open order is this one.\<close>

definition row_matches :: "string \<Rightarrow> order \<Rightarrow> json \<Rightarrow> bool" where
  "row_matches i o1 row \<longleftrightarrow>
     (case or_oid o1 of None \<Rightarrow> False | Some oid \<Rightarrow> as_u64 (jget row ''oid'') = Some oid)
     \<or> (case as_str (jget row ''cloid'') of None \<Rightarrow> False | Some v \<Rightarrow> eq_ignore_case v i)"

definition record_open_orders :: "client \<Rightarrow> json \<Rightarrow> unit st" where
  "record_open_orders c open1 =
     sbind (host_now (cl_host c)) (\<lambda>now.
     sbind (slift (client_user c)) (\<lambda>u.
     store_write (cl_host c) ''open_orders.json''
       (Doc_json (JObj [(''observed_ms'', JNum (PosInt now)), (''user'', JStr u), (''orders'', open1)]))))"

definition resolve_open :: "client \<Rightarrow> string \<Rightarrow> bool \<Rightarrow> order \<Rightarrow> json option st" where
  "resolve_open c i terminal_only o1 =
     sbind (client_open_orders c) (\<lambda>open1.
     sbind (record_open_orders c open1) (\<lambda>_.
     sbind (slift (context_opt (as_array open1) ''open orders response'')) (\<lambda>rows.
     let matching = filter (row_matches i o1) rows in
     sbind (slift (ensure (length matching \<le> 1) ''multiple open orders match one durable intent'')) (\<lambda>_.
     case matching of
       [] \<Rightarrow> slift (Inr None)
     | row # _ \<Rightarrow>
         let response = JObj [(''status'', JStr ''order''),
               (''order'', JObj [(''status'', JStr ''open''), (''order'', row)]), (''source'', JStr ''openOrders'')] in
         sbind (journal_observe (cl_host c) i response) (\<lambda>_.
         slift (Inr (if terminal_only then None else Some response)))))))"

definition resolve_attempt :: "client \<Rightarrow> string \<Rightarrow> bool \<Rightarrow> nat \<Rightarrow> json option st" where
  "resolve_attempt c i terminal_only attempt =
     sbind (sread ledger_of) (\<lambda>ledger.
     sbind (slift (context_opt (map_of ledger i) ''order recovery requires a durable intent'')) (\<lambda>o1.
     sbind (slift (client_user c)) (\<lambda>u.
     sbind (slift (ensure (eq_ignore_case (or_user o1) u) ''order ledger belongs to another account'')) (\<lambda>_.
     if or_terminal o1
     then sbind (slift (ensure (terminal_status (or_status o1)) ''invalid durable terminal status''))
            (\<lambda>_. slift (Inr (Some (durable_answer i o1))))
     else
       sbind (resolve_queries c i terminal_only attempt
         ((case or_oid o1 of None \<Rightarrow> [] | Some oid \<Rightarrow> [JNum (PosInt oid)]) @ [JStr i]) None) (\<lambda>r.
       case r of
         Inl response \<Rightarrow> slift (Inr (Some response))
       | Inr (Some _) \<Rightarrow> slift (Inr None)
       | Inr None \<Rightarrow> resolve_open c i terminal_only o1)))))"

definition resolve_attempts :: nat where
  "resolve_attempts = 5"

fun resolve_loop :: "client \<Rightarrow> string \<Rightarrow> bool \<Rightarrow> nat \<Rightarrow> json st" where
  "resolve_loop c i terminal_only 0 =
     (let message = ''Hyperliquid order '' @ i @
        '' remains unresolved after 5 read attempts; retained original order, no resubmission; absence is not proof of no fill'' in
      sbind (store_event (cl_host c) ''order_reconciliation_wait''
        (JObj [(''cloid'', JStr i), (''terminal_only'', JBool terminal_only), (''error'', JStr message)])) (\<lambda>_.
      slift (Inl (ReadUnavailable message))))"
| "resolve_loop c i terminal_only (Suc n) =
     sbind (resolve_attempt c i terminal_only (resolve_attempts - Suc n)) (\<lambda>r.
     case r of Some v \<Rightarrow> slift (Inr v) | None \<Rightarrow> resolve_loop c i terminal_only n)"

definition resolve :: "client \<Rightarrow> string \<Rightarrow> bool \<Rightarrow> json st" where
  "resolve c i terminal_only = resolve_loop c i terminal_only resolve_attempts"

section \<open>Cancelling and synchronising\<close>

text \<open>A failed operation whose error the code inspects; an abort is not caught.\<close>

definition attempted :: "'a st \<Rightarrow> 'a res st" where
  "attempted m s =
     (case m s of
        (Inl (Panic p), s') \<Rightarrow> (Inl (Panic p), s')
      | (r, s') \<Rightarrow> (Inr r, s'))"

fun is_rejection :: "err \<Rightarrow> bool" where
  "is_rejection (ExchangeRejected _) = True"
| "is_rejection _ = False"

text \<open>An error is fatal unless the exchange rejected the action and nothing is pending.\<close>

definition tolerate_rejection :: "'a res \<Rightarrow> bool st" where
  "tolerate_rejection r =
     (case r of
        Inr _ \<Rightarrow> slift (Inr False)
      | Inl e \<Rightarrow>
          sbind (sread store_pending) (\<lambda>p.
          if p \<noteq> None \<or> \<not> is_rejection e then slift (Inl e) else slift (Inr True)))"

definition cancel_if_open :: "client \<Rightarrow> string \<Rightarrow> string \<Rightarrow> unit st" where
  "cancel_if_open c coin i =
     sbind (resolve c i False) (\<lambda>status.
     if jget status ''status'' = JStr ''order'' \<and> jget_path status [''order'', ''status''] = JStr ''open''
     then
       sbind (attempted (client_cancel c coin i)) (\<lambda>canceled.
       sbind (tolerate_rejection canceled) (\<lambda>_.
       sbind (resolve c i True) (\<lambda>after.
       slift (ensure (case as_str (jget_path after [''order'', ''status'']) of None \<Rightarrow> False | Some t \<Rightarrow> terminal_status t)
         ''cancel/fill not confirmed''))))
     else slift (Inr ()))"

fun cancel_stale :: "client \<Rightarrow> string list \<Rightarrow> unit st" where
  "cancel_stale c [] = slift (Inr ())"
| "cancel_stale c (i # is) =
     sbind (store_event (cl_host c) ''startup_cancel_stale_hedge'' (JObj [(''cloid'', JStr i)])) (\<lambda>_.
     sbind (cancel_if_open c (hc_hedge_coin (cl_cfg c)) i) (\<lambda>_.
     cancel_stale c is))"

definition resolve_refresh :: "client \<Rightarrow> string \<Rightarrow> unit st" where
  "resolve_refresh c i = sbind (resolve c i False) (\<lambda>_. slift (Inr ()))"

definition observe_open_orders :: "client \<Rightarrow> json st" where
  "observe_open_orders c =
     sbind (client_open_orders c) (\<lambda>open1.
     sbind (record_open_orders c open1) (\<lambda>_. slift (Inr open1)))"

definition sync_orders :: "client \<Rightarrow> bool \<Rightarrow> unit st" where
  "sync_orders c recover_managed =
     sbind (observe_open_orders c) (\<lambda>_.
     sbind (journal_refresh (cl_host c) (client_user c) (resolve_refresh c)) (\<lambda>_.
     sbind (observe_open_orders c) (\<lambda>open1.
     sbind (sread (managed_open_orders open1 (hc_hedge_coin (cl_cfg c)))) (\<lambda>ids.
     sbind (slift (ensure (recover_managed \<or> ids = [])
       ''unexpected outstanding strategy order; restart reconciliation required'')) (\<lambda>_.
     sbind (cancel_stale c ids) (\<lambda>_.
     sbind (observe_open_orders c) (\<lambda>after.
     sbind (slift (context_opt (as_array after) ''open orders response'')) (\<lambda>rows.
     if rows \<noteq> []
     then
       sbind (sread (managed_open_orders after (hc_hedge_coin (cl_cfg c)))) (\<lambda>_.
       slift (Inl (ReadUnavailable ''open orders remain after reconciliation; retry reads before further trading'')))
     else
       sbind (store_write (cl_host c) ''hedge_order.json'' (Doc_json JNull)) (\<lambda>_.
       journal_compact (cl_host c))))))))))"

section \<open>Hedging\<close>

definition hedge_residual :: "client \<Rightarrow> f64 \<Rightarrow> f64 \<Rightarrow> f64 \<Rightarrow> string \<Rightarrow> unit st" where
  "hedge_residual c target actual price reason =
     (if \<bar>target - actual\<bar> * price < lit 0.01
      then store_write (cl_host c) ''hedge_residual.json'' (Doc_json JNull)
      else
        sbind (host_now (cl_host c)) (\<lambda>now.
        let row = JObj [(''observed_ms'', JNum (PosInt now)), (''coin'', JStr (hc_hedge_coin (cl_cfg c))),
              (''target'', json_f64 target), (''actual_short'', json_f64 actual), (''residual_base'', json_f64 (target - actual)),
              (''residual_usd'', json_f64 (\<bar>target - actual\<bar> * price)), (''reason'', JStr reason),
              (''action'', JStr ''recompute from actual inventory next cycle; do not increase size to meet minimum'')] in
        sbind (store_write (cl_host c) ''hedge_residual.json'' (Doc_json row)) (\<lambda>_.
        store_event (cl_host c) ''hedge_residual_deferred'' row)))"

definition hedge_threshold :: "strategy_config \<Rightarrow> f64 \<Rightarrow> bool \<Rightarrow> f64" where
  "hedge_threshold st target emergency =
     (if f_eq target 0 \<or> emergency then lit 0.01 else sc_hedge_deadband_usd st)"

text \<open>A larger short needs room in the margin budget and in the free collateral.\<close>

definition hedge_budget :: "client \<Rightarrow> strategy_config \<Rightarrow> json \<Rightarrow> f64 \<Rightarrow> f64 \<Rightarrow> f64 \<Rightarrow> unit res" where
  "hedge_budget c st account target delta mid =
     (if 0 < delta then
        (if sc_hedge_collateral st * lit 0.9 < target * mid / f_of_word (hc_leverage (cl_cfg c))
         then Inl (HedgeBudgetUnavailable ''hedge margin budget exceeded'')
         else rbind (collateral_of account) (\<lambda>x.
           if co_available_short_usdc x < delta * mid / f_of_word (hc_leverage (cl_cfg c))
           then Inl (HedgeBudgetUnavailable ''insufficient free hedge collateral'') else Inr ()))
      else Inr ())"

definition check_fresh :: "client \<Rightarrow> strategy_config \<Rightarrow> u64 \<Rightarrow> unit st" where
  "check_fresh c st t = sbind (host_now (cl_host c)) (\<lambda>now. slift (fresh t now (sc_max_data_age_seconds st)))"

definition current_short :: "client \<Rightarrow> f64 st" where
  "current_short c =
     sbind (perp_account c) (\<lambda>account.
     slift (rbind (position_size account (hc_hedge_coin (cl_cfg c))) (\<lambda>x. Inr (- x))))"

text \<open>The passive order and its end: rejected, cancelled or filled, as the exchange states it.\<close>

definition maker_phase ::
    "client \<Rightarrow> strategy_config \<Rightarrow> bool \<Rightarrow> string \<Rightarrow> string \<Rightarrow> string \<Rightarrow> f64 \<Rightarrow> u64 \<Rightarrow> unit st" where
  "maker_phase c st buy px sz cid target t =
     sbind (attempted (managed_order c (hc_hedge_coin (cl_cfg c)) buy px sz ''Alo'' cid target t (sc_max_data_age_seconds st))) (\<lambda>result.
     sbind (tolerate_rejection result) (\<lambda>rejected.
     if rejected then store_event (cl_host c) ''maker_rejected'' (JStr ''exchange rejected'')
     else cancel_if_open c (hc_hedge_coin (cl_cfg c)) cid))"

text \<open>The immediate order for what is left in an emergency; nothing when the rest is dust.\<close>

definition emergency_phase ::
    "client \<Rightarrow> strategy_config \<Rightarrow> asset \<Rightarrow> f64 \<Rightarrow> f64 \<Rightarrow> f64 \<Rightarrow> f64 option st" where
  "emergency_phase c st a target current mid =
     (let coin = hc_hedge_coin (cl_cfg c); remaining = target - current in
      sbind (client_book c coin) (\<lambda>(bid, askp, t).
      sbind (check_fresh c st t) (\<lambda>_.
      let buy = remaining < 0; slip = f_of_word (hc_emergency_slippage_bps (cl_cfg c)) / lit 10000 in
      sbind (slift (order_price (cl_decimal c) (if buy then askp * (1 + slip) else bid * (1 - slip)) (ha_sz_decimals a) buy)) (\<lambda>px.
      sbind (slift (order_quantity (cl_decimal c) \<bar>remaining\<bar> (ha_sz_decimals a))) (\<lambda>sz.
      sbind (slift (tradeable (cl_decimal c) px sz buy)) (\<lambda>ok.
      if \<not> ok
      then sbind (hedge_residual c target current ((bid + askp) / lit 2) ''partial_fill_dust_deferred'') (\<lambda>_. slift (Inr None))
      else
        sbind (if sz \<noteq> ''0''
               then sbind (cloid (cl_host c)) (\<lambda>i.
                    sbind (managed_order c coin buy px sz ''Ioc'' i target t (sc_max_data_age_seconds st)) (\<lambda>_. slift (Inr ())))
               else slift (Inr ())) (\<lambda>_.
        sbind (current_short c) (\<lambda>actual.
        sbind (slift (ensure (\<bar>target - actual\<bar> * mid < f_min (sc_hedge_deadband_usd st) (lit 10))
          ''emergency IOC only partially filled; inventory reconciliation required'')) (\<lambda>_.
        slift (Inr (Some actual)))))))))))"

definition hedge_execute ::
    "client \<Rightarrow> strategy_config \<Rightarrow> f64 \<Rightarrow> bool \<Rightarrow> f64 \<Rightarrow> f64 \<Rightarrow> f64 \<Rightarrow> u64 \<Rightarrow> unit st" where
  "hedge_execute c st target emergency current bid askp t =
     (let coin = hc_hedge_coin (cl_cfg c); mid = (bid + askp) / lit 2; delta = target - current in
      sbind (client_asset c coin) (\<lambda>(_, a).
      sbind (slift (order_quantity (cl_decimal c) \<bar>delta\<bar> (ha_sz_decimals a))) (\<lambda>sz.
      let buy = delta < 0 in
      sbind (cloid (cl_host c)) (\<lambda>cid.
      sbind (slift (order_price (cl_decimal c) (if buy then bid else askp) (ha_sz_decimals a) (\<not> buy))) (\<lambda>px.
      sbind (slift (tradeable (cl_decimal c) px sz buy)) (\<lambda>ok.
      if \<not> ok then hedge_residual c target current mid ''below_opening_minimum_or_lot_precision''
      else
        sbind (maker_phase c st buy px sz cid target t) (\<lambda>_.
        sbind (store_write (cl_host c) ''hedge_order.json'' (Doc_json JNull)) (\<lambda>_.
        sbind (current_short c) (\<lambda>current.
        sbind (if emergency \<and> lit 0.01 \<le> \<bar>target - current\<bar> * mid
               then emergency_phase c st a target current mid else slift (Inr (Some current))) (\<lambda>final.
        case final of
          None \<Rightarrow> slift (Inr ())
        | Some actual \<Rightarrow>
            sbind (store_write (cl_host c) ''hedge_order.json'' (Doc_json JNull)) (\<lambda>_.
            hedge_residual c target actual mid ''confirmed_execution_residual'')))))))))))"

text \<open>The decision at one account position and one quoted book.\<close>

definition hedge_decide ::
    "client \<Rightarrow> strategy_config \<Rightarrow> f64 \<Rightarrow> bool \<Rightarrow> json \<Rightarrow> f64 \<Rightarrow> f64 \<times> f64 \<times> u64 \<Rightarrow> unit st" where
  "hedge_decide c st target0 emergency account sg = (\<lambda>(bid, askp, t).
     let current = - sg; mid = (bid + askp) / lit 2;
         target = (if target0 * mid < lit 0.01 then 0 else target0); delta = target - current in
     sbind (check_fresh c st t) (\<lambda>_.
     if \<bar>delta\<bar> * mid < hedge_threshold st target emergency
     then hedge_residual c target current mid ''within_hedge_deadband''
     else
       sbind (slift (hedge_budget c st account target delta mid)) (\<lambda>_.
       hedge_execute c st target emergency current bid askp t)))"

definition hedge :: "client \<Rightarrow> strategy_config \<Rightarrow> f64 \<Rightarrow> bool \<Rightarrow> unit st" where
  "hedge c st target0 emergency =
     sbind (slift (ensure (is_finite target0 \<and> 0 \<le> target0) ''invalid hedge target'')) (\<lambda>_.
     sbind (collateral_account c) (\<lambda>account.
     sbind (slift (position_size account (hc_hedge_coin (cl_cfg c)))) (\<lambda>signed.
     sbind (slift (ensure (signed \<le> 0) ''unexpected long position'')) (\<lambda>_.
     sbind (client_book c (hc_hedge_coin (cl_cfg c))) (hedge_decide c st target0 emergency account signed)))))"

section \<open>Reconciling a pending operation\<close>

fun resolve_orders :: "client \<Rightarrow> json list \<Rightarrow> json list st" where
  "resolve_orders c [] = slift (Inr [])"
| "resolve_orders c (w # ws) =
     sbind (slift (context_opt (as_str (jget w ''c'')) ''pending order has no client ID'')) (\<lambda>i.
     sbind (resolve c i False) (\<lambda>status.
     sbind (resolve_orders c ws) (\<lambda>rest. slift (Inr (status # rest)))))"

definition reconcile_prepared :: "client \<Rightarrow> json \<Rightarrow> json \<Rightarrow> json st" where
  "reconcile_prepared c pending action =
     sbind (slift (client_user c)) (\<lambda>u.
     sbind (slift (context_opt (as_u64 (jget_path pending [''request'', ''nonce''])) ''pending nonce'')) (\<lambda>n.
     sbind (journal_prepare (cl_host c) action u n) (\<lambda>_.
     sbind (journal_not_submitted (cl_host c) action) (\<lambda>_.
     let result = JObj [(''status'', JStr ''not_submitted''),
           (''reason'', JStr ''durable pre-dispatch state; no network write began'')] in
     sbind (store_finish (cl_host c) result) (\<lambda>_. slift (Inr result))))))"

definition reconcile_orders :: "client \<Rightarrow> json \<Rightarrow> json \<Rightarrow> json st" where
  "reconcile_orders c pending action =
     sbind (slift (client_user c)) (\<lambda>u.
     sbind (slift (context_opt (as_u64 (jget_path pending [''request'', ''nonce''])) ''pending request nonce'')) (\<lambda>n.
     sbind (journal_prepare (cl_host c) action u n) (\<lambda>_.
     sbind (slift (context_opt (as_array (jget action ''orders'')) ''pending orders'')) (\<lambda>orders.
     sbind (resolve_orders c orders) (\<lambda>statuses.
     sbind (store_finish (cl_host c) (JArr statuses)) (\<lambda>_.
     slift (Inr (JObj [(''statuses'', JArr statuses),
       (''note'', JStr ''known strategy orders and actual positions are reconciled at startup; no order replay'')]))))))))"

text \<open>Other actions are judged by their observable effect.\<close>

definition reconcile_effect :: "client \<Rightarrow> json \<Rightarrow> json st" where
  "reconcile_effect c action =
     (if jget action ''type'' \<in> {JStr ''cancel'', JStr ''cancelByCloid'', JStr ''scheduleCancel''}
      then
        sbind (client_open_orders c) (\<lambda>open1.
        sbind (slift (ensure (as_array open1 = Some []) ''open orders remain; inspect before clearing cancellation'')) (\<lambda>_.
        sbind (store_finish (cl_host c) open1) (\<lambda>_. slift (Inr open1))))
      else if jget action ''type'' = JStr ''updateLeverage''
      then
        sbind (client_asset c (hc_hedge_coin (cl_cfg c))) (\<lambda>(i, _).
        sbind (slift (ensure (as_u64 (jget action ''asset'') = Some (ucast i)) ''different leverage asset'')) (\<lambda>_.
        sbind (client_active_asset c (hc_hedge_coin (cl_cfg c))) (\<lambda>state.
        sbind (slift (ensure (json_eq (jget_path state [''leverage'', ''value'']) (jget action ''leverage'')
            \<and> jget_path state [''leverage'', ''type''] = JStr (if jget action ''isCross'' = JBool True then ''cross'' else ''isolated''))
          ''cannot verify leverage change; inspect account configuration'')) (\<lambda>_.
        sbind (store_finish (cl_host c) state) (\<lambda>_. slift (Inr state))))))
      else slift (Inl (Bail ''pending non-order action requires checking its effect'')))"

definition reconcile :: "client \<Rightarrow> json st" where
  "reconcile c =
     sbind (sread store_pending) (\<lambda>p.
     case p of
       None \<Rightarrow> slift (Inr (JObj [(''status'', JStr ''no_pending_operation'')]))
     | Some pending \<Rightarrow>
         sbind (slift (ensure (jget pending ''venue'' = JStr ''hyperliquid'') ''unknown pending venue; operation retained'')) (\<lambda>_.
         sbind (slift (ensure (case as_str (jget pending ''user'') of None \<Rightarrow> False
             | Some u \<Rightarrow> (case client_user c of Inr actual \<Rightarrow> eq_ignore_case actual u | Inl _ \<Rightarrow> False))
           ''pending operation belongs to another Hyperliquid account'')) (\<lambda>_.
         let action = jget_path pending [''request'', ''action''] in
         if jget pending ''dispatch_state'' = JStr ''prepared'' then reconcile_prepared c pending action
         else if jget action ''type'' = JStr ''order'' then reconcile_orders c pending action
         else reconcile_effect c action)))"

end
