(* ===== verification/Venue_Order.thy ===== *)
theory Venue_Order
  imports Hl_Hedge Hl_Journal_Props
begin

text \<open>
  Contracts for reasoning about the exchange client and the hedge controller. A relation on stores
  that the bookkeeping of reads respects is kept by every read and by the recovery of orders
  (\<open>reading_order\<close>); one that also survives cancelling is kept by the cancellation of stale orders
  (\<open>cancelling_order\<close>); one that survives every signed request is kept by the whole controller
  (\<open>trading_order\<close>).
\<close>

lemma attempted_Inr: "attempted m s = (Inr r, s') \<Longrightarrow> m s = (r, s')"
  by (auto simp: attempted_def split: prod.splits sum.splits err.splits)

lemma attempted_state: "attempted m s = (q, s') \<Longrightarrow> \<exists>r. m s = (r, s')"
  by (auto simp: attempted_def split: prod.splits sum.splits err.splits)

definition note_docs :: "string set" where
  "note_docs = {''open_orders.json'', ''hl_identity.json'', ''hedge_residual.json'', ''hedge_order.json''}"

context store_steps
begin

lemma keeps_attempted: "keeps R m \<Longrightarrow> keeps R (attempted m)"
  unfolding keeps_def using attempted_state by blast

lemma keeps_sum: "(\<And>x. keeps R (f x)) \<Longrightarrow> (\<And>x. keeps R (g x)) \<Longrightarrow> keeps R (case v of Inl x \<Rightarrow> f x | Inr x \<Rightarrow> g x)"
  by (cases v) auto

lemma keeps_option: "keeps R f \<Longrightarrow> (\<And>x. keeps R (g x)) \<Longrightarrow> keeps R (case v of None \<Rightarrow> f | Some x \<Rightarrow> g x)"
  by (cases v) auto

lemma keeps_list: "keeps R f \<Longrightarrow> (\<And>x xs. keeps R (g x xs)) \<Longrightarrow> keeps R (case v of [] \<Rightarrow> f | x # xs \<Rightarrow> g x xs)"
  by (cases v) auto

lemma keeps_prod: "(\<And>x y. keeps R (f x y)) \<Longrightarrow> keeps R (case v of (x, y) \<Rightarrow> f x y)"
  by (cases v) auto

lemmas keeps_flow = keeps_sbind keeps_pure keeps_if keeps_attempted keeps_event keeps_sum keeps_option keeps_list keeps_prod

lemma keeps_cloid: "keeps R (cloid h)"
  unfolding cloid_def by (rule keeps_pure)

lemma keeps_ask: "keeps R (ask c req)"
  unfolding ask_def by (rule keeps_pure)

lemma keeps_tolerate: "keeps R (tolerate_rejection r)"
  unfolding tolerate_rejection_def by (intro keeps_flow)

lemma keeps_info: "keeps R (info c req)"
proof -
  have "keeps R (info_loop c req n)" for n
    by (induction n) (auto intro!: keeps_flow keeps_ask split: sum.split)
  then show ?thesis by (simp add: info_def)
qed

lemma keeps_user_request: "keeps R (user_request c k x)"
  unfolding user_request_def by (intro keeps_flow keeps_info)

lemma keeps_reads:
  "keeps R (client_asset c coin)" "keeps R (client_book c coin)" "keeps R (client_open_orders c)"
  "keeps R (client_order_status c q)" "keeps R (client_active_asset c coin)" "keeps R (perp_account c)"
  unfolding client_asset_def client_assets_def client_book_def client_open_orders_def client_order_status_def
    client_active_asset_def perp_account_def
  by (intro keeps_flow keeps_info keeps_user_request)+

lemma keeps_account: "keeps R (collateral_account c)"
  unfolding collateral_account_def by (intro keeps_flow keeps_user_request keeps_reads)

lemma keeps_current: "keeps R (current_short c)"
  unfolding current_short_def by (intro keeps_flow keeps_reads)

lemma keeps_check: "keeps R (check_fresh c st t)" "keeps R (check_quote c hg)"
  unfolding check_fresh_def check_quote_def by (intro keeps_flow)+

lemma keeps_verify: "keeps R (auth_verify c signer)"
  unfolding auth_verify_def verify_target_def verify_agent_def role_of_def
  by (intro keeps_flow keeps_info)

end

text \<open>A relation that the three kinds of documents of the ledger respect is kept by every operation of it.\<close>

locale journal_order = store_steps +
  assumes ledger_put: "R s (put_doc ''orders.json'' (Doc_orders m) s)"
    and archive_put: "archive_name h i = Inr name \<Longrightarrow> R s (put_doc name (Doc_json v) s)"
    and pointer_put: "R s (put_doc ''hedge_order.json'' d s)"
begin

lemma keeps_orders: "(\<And>m. keeps R (change m)) \<Longrightarrow> keeps R (update_orders h change)"
  unfolding update_orders_def by (rule keeps_update) (simp_all add: ledger_put)

lemma keeps_archived: "keeps R (archive_order h i v)"
  by (rule keeps_archive) (rule archive_put)

lemma keeps_observe: "keeps R (journal_observe h i v)"
  unfolding journal_observe_def observe_change_def by (intro keeps_flow keeps_orders)

lemma keeps_prepare: "keeps R (journal_prepare h a u n)"
  unfolding journal_prepare_def by (intro keeps_flow keeps_orders)

lemma keeps_legacy: "keeps R (import_legacy h u)"
  unfolding import_legacy_def by (intro keeps_flow keeps_orders)

lemma keeps_ack_loop: "keeps R (ack_loop h r st n ws m)"
  by (induction ws arbitrary: n m) (auto simp: split_def intro!: keeps_flow)

lemma keeps_ack: "keeps R (journal_acknowledged h a r)"
  unfolding journal_acknowledged_def Let_def by (intro keeps_flow keeps_orders keeps_ack_loop)

lemma keeps_not_sent_loop: "keeps R (not_sent_loop h ws m)"
  by (induction ws arbitrary: m) (auto intro!: keeps_flow split: option.split)

lemma keeps_not_submitted: "keeps R (journal_not_submitted h a)"
  unfolding journal_not_submitted_def by (intro keeps_flow keeps_orders keeps_not_sent_loop keeps_write pointer_put)

lemma keeps_compact_loop: "keeps R (compact_loop h cs m)"
  by (induction h cs m rule: compact_loop.induct) (auto intro!: keeps_flow keeps_archived)

lemma keeps_compact: "keeps R (journal_compact h)"
  unfolding journal_compact_def Let_def by (intro keeps_flow keeps_orders keeps_compact_loop)

lemmas keeps_journal = keeps_observe keeps_prepare keeps_legacy keeps_ack keeps_not_submitted keeps_compact

end

locale reading_order = store_steps +
  assumes noted: "n \<in> note_docs \<Longrightarrow> R s (put_doc n d s)"
    and observed: "keeps R (journal_observe h i v)"
begin

lemma keeps_note: "n \<in> note_docs \<Longrightarrow> keeps R (store_write h n d)"
  by (rule keeps_write) (rule noted)

lemma keeps_record: "keeps R (record_open_orders c v)"
  unfolding record_open_orders_def by (intro keeps_flow keeps_note) (simp add: note_docs_def)

lemma keeps_observe_open: "keeps R (observe_open_orders c)"
  unfolding observe_open_orders_def by (intro keeps_flow keeps_reads keeps_record)

lemma keeps_identity: "keeps R (verify_identity c signer)"
  unfolding verify_identity_def by (intro keeps_flow keeps_verify keeps_note) (simp add: note_docs_def)

lemma keeps_residual: "keeps R (hedge_residual c t a p w)"
  unfolding hedge_residual_def Let_def by (intro keeps_flow keeps_note) (simp_all add: note_docs_def)

lemma keeps_queries: "keeps R (resolve_queries c i t n qs k)"
  by (induction qs arbitrary: k) (auto intro!: keeps_flow keeps_reads observed)

lemma keeps_resolve_open: "keeps R (resolve_open c i t o1)"
  unfolding resolve_open_def Let_def by (intro keeps_flow keeps_reads keeps_record observed)

lemma keeps_attempt: "keeps R (resolve_attempt c i t n)"
  unfolding resolve_attempt_def by (intro keeps_flow keeps_queries keeps_resolve_open)

lemma keeps_resolve: "keeps R (resolve c i t)"
proof -
  have "keeps R (resolve_loop c i t n)" for n
    by (induction n) (auto simp: Let_def intro!: keeps_flow keeps_attempt split: option.split)
  then show ?thesis by (simp add: resolve_def)
qed

lemma keeps_refresh_loop: "keeps R (refresh_loop u (resolve_refresh c) os)"
  by (induction os) (auto simp: resolve_refresh_def intro!: keeps_flow keeps_resolve)

lemma keeps_resolve_orders: "keeps R (resolve_orders c ws)"
  by (induction ws) (auto intro!: keeps_flow keeps_resolve)

lemma keeps_reconcile:
  assumes "\<And>h v. keeps R (store_finish h v)" "\<And>h a u n. keeps R (journal_prepare h a u n)"
    and "\<And>h a. keeps R (journal_not_submitted h a)"
  shows "keeps R (reconcile c)"
  unfolding reconcile_def reconcile_prepared_def reconcile_orders_def reconcile_effect_def Let_def
  by (intro keeps_flow keeps_reads keeps_resolve_orders assms)

end

context reading_order
begin

text \<open>A relation that also survives the sending itself is kept by the whole signed request.\<close>

lemma keeps_signed:
  assumes "\<And>h v. keeps R (store_begin h v)" "\<And>h v. keeps R (store_finish h v)" "\<And>h. keeps R (next_nonce h)"
    and "\<And>h d. keeps R (store_write h ''pending.json'' d)" "\<And>c v. keeps R (post c v)"
    and "\<And>h u n. keeps R (journal_prepare h a u n)" "\<And>h r. keeps R (journal_acknowledged h a r)"
  shows "keeps R (exchange_inner c a hg)"
  unfolding exchange_inner_def record_intent_def dispatch_def
  by (intro keeps_flow keeps_identity keeps_check keeps_note assms) (simp add: note_docs_def)

end

locale cancelling_order = reading_order +
  assumes action_kept: "\<not> is_order_action a \<Longrightarrow> keeps R (exchange_inner c a None)"
begin

lemma keeps_action: "\<not> is_order_action a \<Longrightarrow> keeps R (exchange c a)"
  unfolding exchange_def by (rule action_kept)

lemma keeps_cancel_order: "keeps R (client_cancel c coin i)"
  unfolding client_cancel_def
  by (intro keeps_flow keeps_reads keeps_action) (simp add: is_order_action_def jget_def)

lemma keeps_cancel: "keeps R (cancel_if_open c coin i)"
  unfolding cancel_if_open_def by (intro keeps_flow keeps_resolve keeps_cancel_order keeps_tolerate)

lemma keeps_cancel_stale: "keeps R (cancel_stale c is)"
  by (induction "is") (auto intro!: keeps_flow keeps_cancel)

end

locale hedging_order = cancelling_order +
  fixes c :: client
  assumes managed_kept: "keeps R (managed_order c coin buy px sz tif i t q age)"
begin

lemma keeps_maker: "keeps R (maker_phase c st buy px sz i t q)"
  unfolding maker_phase_def by (intro keeps_flow managed_kept keeps_tolerate keeps_cancel)

lemma keeps_emergency: "keeps R (emergency_phase c st a t cur mid)"
  unfolding emergency_phase_def Let_def
  by (intro keeps_flow keeps_reads keeps_check keeps_residual keeps_cloid managed_kept keeps_current)

lemma keeps_execute: "keeps R (hedge_execute c st t e cur bid askp q)"
  unfolding hedge_execute_def Let_def
  by (intro keeps_flow keeps_reads keeps_residual keeps_cloid keeps_maker keeps_current keeps_emergency keeps_note)
    (simp_all add: note_docs_def)

lemma keeps_hedge: "keeps R (hedge c st t e)"
  unfolding hedge_def hedge_decide_def Let_def
  by (intro keeps_flow keeps_reads keeps_account keeps_check keeps_residual keeps_execute)

end

locale trading_order = cancelling_order +
  assumes order_kept: "keeps R (exchange_inner c a hg)"
    and legacy_kept: "keeps R (import_legacy h u)"
    and compact_kept: "keeps R (journal_compact h)"
begin

lemma keeps_sync: "keeps R (sync_orders c b)"
  unfolding sync_orders_def journal_refresh_def
  by (intro keeps_flow keeps_observe_open keeps_cancel_stale legacy_kept compact_kept keeps_refresh_loop keeps_note)
    (simp add: note_docs_def)

lemma keeps_managed: "keeps R (managed_order c coin buy px sz tif i t q age)"
  unfolding managed_order_def by (intro keeps_flow keeps_reads order_kept)

lemma keeps_exchange: "keeps R (exchange c a)"
  unfolding exchange_def by (rule order_kept)

end

sublocale trading_order \<subseteq> hedging_order R c for c
  by unfold_locales (rule keeps_managed)

end
