(* ===== verification/Hl_Client_Props.thy ===== *)
theory Hl_Client_Props
  imports Venue_Order
begin

text \<open>
  What leaves the process: nothing but signed requests, each recorded before it is sent, none while
  another operation is pending, and no client order identifier twice.
\<close>

section \<open>Operations that send nothing\<close>

definition same_sent :: "store \<Rightarrow> store \<Rightarrow> bool" where
  "same_sent s s' \<longleftrightarrow> sv_sent s' = sv_sent s"

interpretation unsent: store_steps same_sent
  by unfold_locales (auto simp: same_sent_def)

lemma sent_write: "keeps same_sent (store_write h n d)"
  by (rule unsent.keeps_write) (simp add: same_sent_def)

interpretation sent_journal: journal_order same_sent
  by unfold_locales (simp_all add: same_sent_def)

lemma sent_begin: "keeps same_sent (store_begin h v)"
  unfolding store_begin_def by (intro unsent.keeps_flow sent_write)

lemma sent_finish: "keeps same_sent (store_finish h v)"
  unfolding store_finish_def by (intro unsent.keeps_flow sent_write)

lemma sent_nonce: "keeps same_sent (next_nonce h)"
  unfolding next_nonce_def Let_def by (intro unsent.keeps_flow sent_write)

lemmas sent_ops = sent_write sent_journal.keeps_journal sent_begin sent_finish sent_nonce

interpretation unsent_reads: reading_order same_sent
  by unfold_locales (simp_all add: same_sent_def sent_ops)

lemma sent_store_step: "store_step h x s = (r, s') \<Longrightarrow> same_sent s s'"
  using keepsD [OF sent_begin] keepsD [OF sent_finish] keepsD [OF sent_nonce] keepsD [OF sent_journal.keeps_archived]
    keepsD [OF unsent.keeps_event]
  by (cases x) (auto split: prod.splits)

lemma sent_journal_step: "journal_step h x s = (r, s') \<Longrightarrow> same_sent s s'"
  using sent_journal.keeps_journal [THEN keepsD] sent_store_step
  by (cases x) (auto simp: map_prod_def split: prod.splits)

lemma sent_record: "keeps same_sent (record_intent c a hg req u n)"
  unfolding record_intent_def by (intro unsent.keeps_flow unsent.keeps_check sent_ops)

section \<open>The one sending step\<close>

text \<open>Either nothing was sent, or one request was, after its intent was recorded.\<close>

lemma exchange_cases:
  assumes "exchange_inner c a hg s = (r, s')"
  obtains (quiet) "sv_sent s' = sv_sent s"
  | (sent) s1 s2 u n user req where
      "validate_new_ids (cl_host c) a s = Inr ()" "same_sent s s1"
      "signed_request c a n = Inr req" "client_user c = Inr user"
      "record_intent c a hg req user n s1 = (Inr u, s2)" "dispatch c a req s2 = (r, s')"
proof -
  have tail: "keeps same_sent (sbind (verify_identity c x) (\<lambda>_. sbind (check_quote c hg) (\<lambda>_. next_nonce (cl_host c))))" for x
    by (intro unsent.keeps_flow unsent_reads.keeps_identity unsent.keeps_check sent_nonce)
  note split = sbind_cases
  from assms show thesis unfolding exchange_inner_def
  proof (cases rule: sbind_cases)
    case (err e)
    then show thesis using quiet by auto
  next
    case (ok x s0)
    then have v: "validate_new_ids (cl_host c) a s = Inr ()" and s0: "s0 = s" by auto
    from ok(2) show thesis unfolding s0
    proof (cases rule: sbind_cases)
      case (err e)
      then show thesis using quiet by auto
    next
      case (ok signer s0)
      then have s0: "s0 = s" by auto
      from ok(2) show thesis unfolding s0
      proof (cases rule: sbind_cases)
        case (err e)
        then show thesis using quiet keepsD [OF unsent_reads.keeps_identity] by (simp add: same_sent_def)
      next
        case (ok x1 t1)
        note i = keepsD [OF unsent_reads.keeps_identity ok(1)]
        from ok(2) show thesis
        proof (cases rule: sbind_cases)
          case (err e)
          then show thesis using quiet i keepsD [OF unsent.keeps_check(2) err(1)] by (simp add: same_sent_def)
        next
          case (ok x2 t2)
          note j = keepsD [OF unsent.keeps_check(2) ok(1)]
          from ok(2) show thesis
          proof (cases rule: sbind_cases)
            case (err e)
            then show thesis using quiet i j keepsD [OF sent_nonce err(1)] by (simp add: same_sent_def)
          next
            case (ok n t3)
            have k: "same_sent s t3" using i j keepsD [OF sent_nonce ok(1)] by (simp add: same_sent_def)
            from ok(2) show thesis
            proof (cases rule: sbind_cases)
              case (err e)
              then show thesis using quiet k by (auto simp: same_sent_def)
            next
              case (ok req t4)
              then have r: "signed_request c a n = Inr req" "t4 = t3" by auto
              from ok(2) show thesis unfolding r(2)
              proof (cases rule: sbind_cases)
                case (err e)
                then show thesis using quiet k by (auto simp: same_sent_def)
              next
                case (ok user t5)
                then have w: "client_user c = Inr user" "t5 = t3" by auto
                from ok(2) show thesis unfolding w(2)
                proof (cases rule: sbind_cases)
                  case (err e)
                  then show thesis using quiet k keepsD [OF sent_record err(1)] by (simp add: same_sent_def)
                next
                  case (ok y t6)
                  show thesis by (rule sent [OF v k r(1) w(1) ok])
                qed
              qed
            qed
          qed
        qed
      qed
    qed
  qed
qed

lemma dispatch_sent:
  assumes "dispatch c a req s = (r, s')" shows "sv_sent s' = sv_sent s @ [req]"
proof -
  let ?rest = "\<lambda>reply. sbind (slift (post_result reply)) (\<lambda>response.
     sbind (slift (check_envelope response)) (\<lambda>_.
     sbind (journal_acknowledged (cl_host c) a response) (\<lambda>_.
     sbind (store_finish (cl_host c) response) (\<lambda>_.
     sbind (slift (validate_response response)) (\<lambda>_. slift (Inr response))))))"
  have k: "keeps same_sent (?rest reply)" for reply
    by (intro unsent.keeps_flow sent_ops)
  obtain reply where "?rest reply (s\<lparr>sv_tick := Suc (sv_tick s), sv_sent := sv_sent s @ [req]\<rparr>) = (r, s')"
    using assms by (auto simp: dispatch_def sbind_eq post_def)
  from keepsD [OF k this] show ?thesis by (simp add: same_sent_def)
qed

section \<open>No identifier is sent twice\<close>

lemma ascii_lower_char_idem: "ascii_lower_char (ascii_lower_char c) = ascii_lower_char c"
proof (cases "65 \<le> (of_char c :: nat) \<and> (of_char c :: nat) \<le> 90")
  case True
  then have "(of_char (char_of ((of_char c :: nat) + 32)) :: nat) = of_char c + 32"
    by (simp add: of_char_of)
  with True show ?thesis by (simp add: ascii_lower_char_def Let_def)
qed (auto simp: ascii_lower_char_def Let_def)

lemma ascii_lower_idem [simp]: "ascii_lower (ascii_lower x) = ascii_lower x"
  by (simp add: ascii_lower_def ascii_lower_char_idem)

lemma spent_lower [simp]: "spent (ascii_lower i) s = spent i s"
  by (simp add: spent_def in_ledger_def archived_key_def eq_ignore_case_def)

definition action_ids :: "json \<Rightarrow> string list" where
  "action_ids a =
     (if is_order_action a
      then concat (map (\<lambda>w. case as_str (jget w ''c'') of None \<Rightarrow> [] | Some i \<Rightarrow> [ascii_lower i])
             (case as_array (jget a ''orders'') of None \<Rightarrow> [] | Some ws \<Rightarrow> ws))
      else [])"

definition sent_ids :: "store \<Rightarrow> string list" where
  "sent_ids s = concat (map (\<lambda>req. action_ids (jget req ''action'')) (sv_sent s))"

lemma fresh_ids:
  assumes "check_new_ids h s m ws seen = Inr ()" "ledger_of s = Inr m"
  shows "distinct (concat (map (\<lambda>w. case as_str (jget w ''c'') of None \<Rightarrow> [] | Some i \<Rightarrow> [ascii_lower i]) ws))
    \<and> (\<forall>w \<in> set ws. \<exists>i. as_str (jget w ''c'') = Some i \<and> ascii_lower i \<notin> set seen \<and> \<not> spent i s)"
  using assms(1)
proof (induction ws arbitrary: seen)
  case (Cons w ws)
  then obtain i where i: "as_str (jget w ''c'') = Some i" "ascii_lower i \<notin> set seen"
    "check_new_ids h s m ws (ascii_lower i # seen) = Inr ()"
    by (auto split: if_splits)
  have "\<not> spent i s"
    using spent_refused [of i s w "w # ws" i m h seen] i(1) assms(2) Cons.prems by auto
  with Cons.IH [OF i(3)] i show ?case by (fastforce split: option.splits)
qed simp

lemma validated_ids:
  assumes "validate_new_ids h a s = Inr ()"
  shows "distinct (action_ids a) \<and> (\<forall>i \<in> set (action_ids a). \<not> spent i s)"
proof (cases "is_order_action a")
  case True
  then obtain m ws where m: "ledger_of s = Inr m" "as_array (jget a ''orders'') = Some ws" "check_new_ids h s m ws [] = Inr ()"
    using assms by (auto simp: validate_new_ids_def wires_of_def)
  show ?thesis using fresh_ids [OF m(3,1)] m(2) True by (fastforce simp: action_ids_def)
qed (simp add: action_ids_def)

lemma prepared_ids:
  assumes "journal_prepare h a u n s = (Inr x, s')" "i \<in> set (action_ids a)" shows "spent i s'"
proof -
  from assms(2) obtain ws w j where "is_order_action a" "as_array (jget a ''orders'') = Some ws" "w \<in> set ws"
    "as_str (jget w ''c'') = Some j" "i = ascii_lower j"
    by (cases "as_array (jget a ''orders'')") (auto simp: action_ids_def split: if_splits option.splits, metis)
  then show ?thesis using prepare_spends [OF assms(1)] by simp
qed

lemma signed_action: "signed_request c a n = Inr req \<Longrightarrow> jget req ''action'' = a"
  by (auto simp: signed_request_def jget_def)

lemma spent_pending: "keeps spent_kept (store_write h ''pending.json'' d)"
  by (rule write_spent) simp

lemma spent_begin: "keeps spent_kept (store_begin h v)"
  unfolding store_begin_def by (intro spending.keeps_flow spent_pending)

lemma spent_finish: "keeps spent_kept (store_finish h v)"
  unfolding store_finish_def by (intro spending.keeps_flow spent_pending)

lemma spent_nonce: "keeps spent_kept (next_nonce h)"
  unfolding next_nonce_def Let_def by (intro spending.keeps_flow write_spent) simp

lemma spent_post: "keeps spent_kept (post c v)"
  unfolding post_def keeps_def by (auto intro: spending.files_only)

lemma spent_note: "n \<in> note_docs \<Longrightarrow> spent_kept s (put_doc n d s)"
  by (rule spent_other) (auto simp: note_docs_def)

interpretation spending_reads: reading_order spent_kept
  by unfold_locales (auto intro: spent_note spent_observe)

interpretation spending_trade: trading_order spent_kept
  by unfold_locales
    (auto intro: spending_reads.keeps_signed spent_begin spent_finish spent_nonce spent_pending spent_post
      spent_prepare spent_ack spent_legacy spent_compact)

text \<open>Every identifier that was sent is spent, and none was sent twice.\<close>

definition sent_once :: "store \<Rightarrow> bool" where
  "sent_once s \<longleftrightarrow> distinct (sent_ids s) \<and> (\<forall>i \<in> set (sent_ids s). spent i s)"

definition once_kept :: "store \<Rightarrow> store \<Rightarrow> bool" where
  "once_kept s s' \<longleftrightarrow> (sent_once s \<longrightarrow> sent_once s')"

lemma once_calm: "same_sent s s' \<Longrightarrow> spent_kept s s' \<Longrightarrow> once_kept s s'"
  by (auto simp: once_kept_def sent_once_def same_sent_def spent_kept_def sent_ids_def)

lemma keeps_once: "keeps same_sent m \<Longrightarrow> keeps spent_kept m \<Longrightarrow> keeps once_kept m"
  unfolding keeps_def by (blast intro: once_calm)

lemma record_spends:
  assumes "record_intent c a hg req user n s = (Inr u, s')" "i \<in> set (action_ids a)" shows "spent i s'"
proof -
  obtain x s1 s2 where p: "journal_prepare (cl_host c) a user n s1 = (Inr x, s2)"
    "sbind (check_quote c hg) (\<lambda>_. store_write (cl_host c) ''pending.json'' (Doc_json (pending_doc req user ''submitting'' hg))) s2
       = (Inr u, s')"
    using assms(1) unfolding record_intent_def by (elim sbind_InrE) (blast intro: that sbind_InrI)
  have "keeps spent_kept (sbind (check_quote c hg) (\<lambda>_. store_write (cl_host c) ''pending.json'' (Doc_json (pending_doc req user ''submitting'' hg))))"
    by (intro spending.keeps_flow spending.keeps_check spent_pending)
  from keepsD [OF this p(2)] prepared_ids [OF p(1) assms(2)] show ?thesis by (simp add: spent_kept_def)
qed

lemma once_exchange: "keeps once_kept (exchange_inner c a hg)"
  unfolding keeps_def
proof (intro allI impI)
  fix s r s' assume e: "exchange_inner c a hg s = (r, s')"
  have sp: "spent_kept s s'" by (rule keepsD [OF spending_trade.order_kept e])
  show "once_kept s s'" using e
  proof (cases rule: exchange_cases)
    case quiet
    then show ?thesis using sp by (intro once_calm) (simp_all add: same_sent_def)
  next
    case (sent s1 s2 u n user req)
    have "sv_sent s2 = sv_sent s" using sent(2) keepsD [OF sent_record sent(5)] by (simp add: same_sent_def)
    then have l: "sent_ids s' = sent_ids s @ action_ids a"
      using dispatch_sent [OF sent(6)] signed_action [OF sent(3)] by (simp add: sent_ids_def)
    have "keeps spent_kept (dispatch c a req)"
      unfolding dispatch_def by (intro spending.keeps_flow spent_post spent_ack spent_finish)
    from keepsD [OF this sent(6)] record_spends [OF sent(5)]
    have "\<forall>i \<in> set (action_ids a). spent i s'" by (simp add: spent_kept_def)
    then show ?thesis using validated_ids [OF sent(1)] sp l
      by (auto simp: once_kept_def sent_once_def spent_kept_def)
  qed
qed

interpretation once_steps: store_steps once_kept
proof
  show "once_kept s s'" if "sv_files s' = sv_files s" "sv_sent s' = sv_sent s" for s s'
    using that by (intro once_calm spending.files_only) (simp_all add: same_sent_def)
qed (simp add: once_kept_def)

interpretation once: trading_order once_kept
proof
  show "once_kept s (put_doc n d s)" if "n \<in> note_docs" for n d s
    using that by (intro once_calm spent_note) (simp_all add: same_sent_def)
qed (auto intro: once_exchange keeps_once sent_ops spent_observe spent_legacy spent_compact)

end
