(* ===== verification/Hl_Trade_Props.thy ===== *)
theory Hl_Trade_Props
  imports Hl_Client_Props
begin

text \<open>
  Runs of the hedge controller: any sequence of hedging, synchronising, cancelling, reconciling and
  other signed requests, interleaved with the operations of the ledger and the store, against an
  exchange that answers anything or nothing and a host whose file operations may fail.
\<close>

datatype trade_op =
    T_hedge f64 bool
  | T_sync bool
  | T_cancel string string
  | T_reconcile
  | T_exchange json
  | T_journal journal_op

fun trade_step :: "client \<Rightarrow> strategy_config \<Rightarrow> trade_op \<Rightarrow> store \<Rightarrow> unit res \<times> store" where
  "trade_step c st (T_hedge t e) s = hedge c st t e s"
| "trade_step c st (T_sync b) s = sync_orders c b s"
| "trade_step c st (T_cancel coin i) s = cancel_if_open c coin i s"
| "trade_step c st T_reconcile s = map_prod (map_sum id (\<lambda>_. ())) id (reconcile c s)"
| "trade_step c st (T_exchange a) s = map_prod (map_sum id (\<lambda>_. ())) id (exchange c a s)"
| "trade_step c st (T_journal x) s = journal_step (cl_host c) x s"

section \<open>No order is sent twice\<close>

lemma once_reconcile: "keeps once_kept (reconcile c)"
  by (rule once.keeps_reconcile) (intro keeps_once sent_ops spent_finish spent_prepare spent_not_sent)+

lemma once_step: "trade_step c st x s = (r, s') \<Longrightarrow> once_kept s s'"
  using keepsD [OF once.keeps_hedge] keepsD [OF once.keeps_sync] keepsD [OF once.keeps_cancel] keepsD [OF once_reconcile]
    keepsD [OF once.keeps_exchange] once_calm [OF sent_journal_step spent_step]
  by (cases x) (auto simp: map_prod_def split: prod.splits)

text \<open>
  C2: over any run of the controller no client order identifier is sent to the exchange twice, in
  any letter case, whatever the exchange answers, whichever replies are lost and whichever file
  operations fail; and an identifier that was sent is refused for any later order.
\<close>

theorem no_order_sent_twice:
  assumes "run_ops (trade_step c st) xs s = (rs, s')" "sv_sent s = []"
  shows "distinct (sent_ids s')
    \<and> (\<forall>a i. i \<in> set (sent_ids s') \<longrightarrow> i \<in> set (action_ids a) \<longrightarrow> validate_new_ids h a s' \<noteq> Inr ())"
proof -
  have "once_kept s s'"
    by (rule run_ops_keeps [OF _ _ _ assms(1)]) (auto dest: once_step simp: once_kept_def)
  moreover have "sent_once s" using assms(2) by (simp add: sent_once_def sent_ids_def)
  ultimately have o: "sent_once s'" by (simp add: once_kept_def)
  then show ?thesis using validated_ids by (auto simp: sent_once_def)
qed

section \<open>Nothing is sent while an operation is pending\<close>

definition blocked_kept :: "store \<Rightarrow> store \<Rightarrow> bool" where
  "blocked_kept s s' \<longleftrightarrow>
     (\<forall>v. find_doc ''pending.json'' s = Some (Doc_json v) \<longrightarrow>
        find_doc ''pending.json'' s' = Some (Doc_json v) \<and> sv_sent s' = sv_sent s)"

lemma find_pending_files: "sv_files s' = sv_files s \<Longrightarrow> find_doc ''pending.json'' s' = find_doc ''pending.json'' s"
  by (rule find_doc_files)

interpretation blocked_steps: store_steps blocked_kept
proof
  show "blocked_kept s s'" if "sv_files s' = sv_files s" "sv_sent s' = sv_sent s" for s s'
    using that find_pending_files [OF that(1)] by (simp add: blocked_kept_def)
qed (simp add: blocked_kept_def)

lemma blocked_put: "n \<noteq> ''pending.json'' \<Longrightarrow> blocked_kept s (put_doc n d s)"
  by (simp add: blocked_kept_def)

interpretation blocked_journal: journal_order blocked_kept
  by unfold_locales (auto intro!: blocked_put dest: archive_name_prefix)

interpretation blocked_reads: reading_order blocked_kept
  by unfold_locales (auto intro!: blocked_put blocked_journal.keeps_observe simp: note_docs_def)

lemma blocked_begin: "keeps blocked_kept (sbind (store_begin h v) k)"
  unfolding keeps_def blocked_kept_def
proof (intro allI impI)
  fix s r s' w assume b: "sbind (store_begin h v) k s = (r, s')" and p: "find_doc ''pending.json'' s = Some (Doc_json w)"
  obtain q t where t: "store_begin h v s = (q, t)" by fastforce
  have "store_pending s = Inr (Some w)" using p by (simp add: store_pending_find)
  from begin_blocked [OF t this] b t p
  show "find_doc ''pending.json'' s' = Some (Doc_json w) \<and> sv_sent s' = sv_sent s"
    by (auto simp: sbind_eq)
qed

lemma sbind_assoc: "sbind (sbind m f) g = sbind m (\<lambda>x. sbind (f x) g)"
  by (auto simp: sbind_def fun_eq_iff split: prod.splits sum.splits)

lemma blocked_nonce: "keeps blocked_kept (next_nonce h)"
  unfolding next_nonce_def Let_def by (intro blocked_steps.keeps_flow blocked_steps.keeps_write blocked_put) simp

lemma blocked_exchange: "keeps blocked_kept (exchange_inner c a hg)"
  unfolding exchange_inner_def record_intent_def sbind_assoc
  by (intro blocked_steps.keeps_flow blocked_reads.keeps_identity blocked_steps.keeps_check blocked_nonce blocked_begin)

interpretation blocked: trading_order blocked_kept
  by unfold_locales (auto intro: blocked_exchange blocked_journal.keeps_journal)

text \<open>Operations that neither settle the pending operation nor write the pending slot themselves.\<close>

fun settles :: "trade_op \<Rightarrow> bool" where
  "settles T_reconcile = True"
| "settles (T_journal (J_store (Op_finish v))) = True"
| "settles _ = False"

lemma blocked_store:
  assumes "store_step h x s = (r, s')" "\<forall>v. x \<noteq> Op_finish v" shows "blocked_kept s s'"
proof (cases x)
  case (Op_begin v)
  have "keeps blocked_kept (sbind (store_begin h v) (\<lambda>_. slift (Inr ())))" by (rule blocked_begin)
  moreover have "sbind (store_begin h v) (\<lambda>_. slift (Inr ())) s = store_begin h v s"
    by (auto simp: sbind_def split: prod.splits sum.splits)
  ultimately show ?thesis using assms(1) Op_begin by (auto dest: keepsD split: prod.splits)
qed (use assms keepsD [OF blocked_nonce] keepsD [OF blocked_steps.keeps_event] keepsD [OF blocked_journal.keeps_archived]
      in \<open>auto split: prod.splits\<close>)

lemma blocked_step:
  assumes "trade_step c st x s = (r, s')" "\<not> settles x" shows "blocked_kept s s'"
proof (cases x)
  case (T_journal y)
  show ?thesis
  proof (cases y)
    case (J_store z)
    then have z: "\<forall>v. z \<noteq> Op_finish v" using assms(2) T_journal by auto
    obtain q where "store_step (cl_host c) z s = (q, s')"
      using assms(1) T_journal J_store by (auto simp: map_prod_def split: prod.splits)
    then show ?thesis by (rule blocked_store [OF _ z])
  qed (use assms T_journal blocked_journal.keeps_journal [THEN keepsD] in auto)
qed (use assms keepsD [OF blocked.keeps_hedge] keepsD [OF blocked.keeps_sync] keepsD [OF blocked.keeps_cancel]
      keepsD [OF blocked.keeps_exchange] in \<open>auto simp: map_prod_def split: prod.splits\<close>)

text \<open>
  C7: while an operation is pending nothing reaches the exchange: over any run that does not settle
  it, the pending record stays as it is and no request is sent, even for hedging in an emergency.
\<close>

theorem pending_blocks_sending:
  assumes "run_ops (trade_step c st) xs s = (rs, s')" "\<forall>x \<in> set xs. \<not> settles x" "store_pending s = Inr (Some v)"
  shows "sv_sent s' = sv_sent s \<and> store_pending s' = Inr (Some v)"
proof -
  have "blocked_kept s s'" using assms(1,2)
  proof (induction xs arbitrary: s rs)
    case (Cons x xs)
    obtain r s1 qs where "trade_step c st x s = (r, s1)" "run_ops (trade_step c st) xs s1 = (qs, s')"
      using Cons.prems(1) by (auto split: prod.splits)
    then show ?case using Cons.IH Cons.prems(2) blocked_step blocked_steps.step_trans by fastforce
  qed (simp add: blocked_kept_def)
  then show ?thesis using assms(3) by (simp add: blocked_kept_def store_pending_find)
qed

section \<open>The record comes first\<close>

text \<open>Either the pending record still names the request, or the exchange's reply to it is in the log.\<close>

definition accounted :: "client \<Rightarrow> json \<Rightarrow> json \<Rightarrow> store \<Rightarrow> bool" where
  "accounted c req p s \<longleftrightarrow> find_doc ''pending.json'' s = Some (Doc_json p)
     \<or> (\<exists>t tick v. (t, ''operation_result'', v) \<in> set (sv_log s) \<and> post_result (vn_post (cl_http c) tick req) = Inr v)"

interpretation pending_journal: journal_order "holds_doc ''pending.json'' d" for d
  by unfold_locales (auto intro!: holds_other dest: archive_name_prefix)

lemma finish_accounted:
  assumes "store_finish h v s = (r, s')" "find_doc ''pending.json'' s = Some (Doc_json p)"
    and "post_result (vn_post (cl_http c) tick req) = Inr v"
  shows "accounted c req p s'"
proof -
  from assms(1) show ?thesis unfolding store_finish_def
  proof (cases rule: sbind_cases)
    case (err e)
    then show ?thesis using keepsD [OF held.keeps_event err(1)] assms(2) by (simp add: accounted_def holds_doc_def)
  next
    case (ok x s1)
    have "\<exists>t. sv_log s1 = sv_log s @ [(t, ''operation_result'', v)]"
      using ok(1) unfolding store_event_def rotate_events_def prune_segments_def
      by (fastforce simp: Let_def split_def append_event_def elim!: sbind_InrE dest!: do_io_ok split: if_splits)
    then obtain t where "sv_log s1 = sv_log s @ [(t, ''operation_result'', v)]" by blast
    then have "(t, ''operation_result'', v) \<in> set (sv_log s1)" by simp
    moreover have "sv_log s' = sv_log s1"
      using store_write_cases [OF ok(2)] by auto
    ultimately have "(t, ''operation_result'', v) \<in> set (sv_log s')" by simp
    then show ?thesis using assms(3) unfolding accounted_def by blast
  qed
qed

lemma dispatch_accounted:
  assumes "dispatch c a req s = (r, s')" "find_doc ''pending.json'' s = Some (Doc_json p)"
  shows "accounted c req p s'"
proof -
  define s0 where "s0 = s\<lparr>sv_tick := Suc (sv_tick s), sv_sent := sv_sent s @ [req]\<rparr>"
  define reply where "reply = vn_post (cl_http c) (sv_tick s) req"
  have p0: "find_doc ''pending.json'' s0 = Some (Doc_json p)" using assms(2) by (simp add: s0_def)
  have same: "accounted c req p s0" using p0 by (simp add: accounted_def)
  have d: "sbind (slift (post_result reply)) (\<lambda>response.
     sbind (slift (check_envelope response)) (\<lambda>_.
     sbind (journal_acknowledged (cl_host c) a response) (\<lambda>_.
     sbind (store_finish (cl_host c) response) (\<lambda>_.
     sbind (slift (validate_response response)) (\<lambda>_. slift (Inr response)))))) s0 = (r, s')"
    using assms(1) by (simp add: dispatch_def sbind_eq [of "post c req"] post_def s0_def reply_def)
  show ?thesis
  proof (cases "post_result reply")
    case (Inl e)
    then show ?thesis using d same by simp
  next
    case (Inr v)
    show ?thesis
    proof (cases "check_envelope v")
      case (Inl e)
      then show ?thesis using d same \<open>post_result reply = Inr v\<close> by simp
    next
      case ok: (Inr u)
      have "sbind (journal_acknowledged (cl_host c) a v) (\<lambda>_.
         sbind (store_finish (cl_host c) v) (\<lambda>_.
         sbind (slift (validate_response v)) (\<lambda>_. slift (Inr v)))) s0 = (r, s')"
        using d Inr ok by simp
      then show ?thesis
      proof (cases rule: sbind_cases)
        case (err e)
        then show ?thesis using keepsD [OF pending_journal.keeps_ack err(1)] p0 by (simp add: accounted_def holds_doc_def)
      next
        case (ok x s1)
        have p1: "find_doc ''pending.json'' s1 = Some (Doc_json p)"
          using keepsD [OF pending_journal.keeps_ack ok(1)] p0 by (simp add: holds_doc_def)
        obtain q s2 where f: "store_finish (cl_host c) v s1 = (q, s2)" by fastforce
        have "s' = s2" using ok(2) f by (auto simp: sbind_eq split: sum.splits)
        then show ?thesis using finish_accounted [OF f p1] Inr unfolding reply_def by blast
      qed
    qed
  qed
qed

text \<open>
  C8: a request reaches the exchange only after its record, and the record outlives it: one call
  sends at most one request, with the given action and the nonce under which it was recorded, only
  when nothing was pending; and however the call ends, the pending record still names the request
  unless the exchange's reply to it is in the log.
\<close>

theorem write_ahead:
  assumes "exchange_inner c a hg s = (r, s')" "sv_sent s' \<noteq> sv_sent s"
  shows "\<exists>req user. sv_sent s' = sv_sent s @ [req] \<and> jget req ''action'' = a \<and> client_user c = Inr user
    \<and> (\<forall>v. store_pending s \<noteq> Inr (Some v)) \<and> accounted c req (pending_doc req user ''submitting'' hg) s'"
  using assms(1)
proof (cases rule: exchange_cases)
  case quiet
  then show ?thesis using assms(2) by simp
next
  case (sent s1 s2 u n user req)
  have "sv_sent s2 = sv_sent s" using sent(2) keepsD [OF sent_record sent(5)] by (simp add: same_sent_def)
  then have l: "sv_sent s' = sv_sent s @ [req]" using dispatch_sent [OF sent(6)] by simp
  obtain s3 where "store_write (cl_host c) ''pending.json'' (Doc_json (pending_doc req user ''submitting'' hg)) s3 = (Inr u, s2)"
    using sent(5) unfolding record_intent_def by (elim sbind_InrE) (rule that)
  from store_write_ok [OF this] have "find_doc ''pending.json'' s2 = Some (Doc_json (pending_doc req user ''submitting'' hg))"
    by (simp add: pending_doc_def)
  from dispatch_accounted [OF sent(6) this] have acc: "accounted c req (pending_doc req user ''submitting'' hg) s'" .
  have "store_pending s \<noteq> Inr (Some v)" for v
  proof
    assume "store_pending s = Inr (Some v)"
    then show False using keepsD [OF blocked_exchange assms(1)] assms(2) by (simp add: blocked_kept_def store_pending_find)
  qed
  then show ?thesis using l acc signed_action [OF sent(3)] sent(4) by blast
qed

end
