(* ===== verification/Hl_Sync_Props.thy ===== *)
theory Hl_Sync_Props
  imports Hl_Trade_Props
begin

text \<open>
  The shape of the order ledger, kept by every operation, and what a successful synchronisation
  establishes: no order of the strategy is left whose fate is open.
\<close>

section \<open>The shape of the ledger\<close>

definition ledger_ok :: "orders \<Rightarrow> bool" where
  "ledger_ok m \<longleftrightarrow> sorted_wrt (<) (map fst m)
     \<and> (\<forall>(k, o1) \<in> set m. or_cloid o1 = k \<and> (or_terminal o1 \<longrightarrow> terminal_status (or_status o1)))"

definition store_ok :: "store \<Rightarrow> bool" where
  "store_ok s \<longleftrightarrow> (\<exists>m. ledger_of s = Inr m \<and> ledger_ok m)"

lemma ob_put_set: "set (ob_put k v m) \<subseteq> insert (k, v) (set m)"
  by (induction k v m rule: ob_put.induct) auto

lemma ob_put_sorted: "sorted_wrt (<) (map fst m) \<Longrightarrow> sorted_wrt (<) (map fst (ob_put k v m))"
proof (induction k v m rule: ob_put.induct)
  case (2 k v k' v' r)
  consider "k = k'" | "k < k'" | "k' < k" by fastforce
  then show ?case
  proof cases
    case 3
    then have "ob_put k v ((k', v') # r) = (k', v') # ob_put k v r" by auto
    moreover have "sorted_wrt (<) (map fst (ob_put k v r))" using 2 3 by auto
    moreover have "\<forall>y \<in> set (map fst (ob_put k v r)). k' < y"
      using ob_put_set [of k v r] 2(2) 3 by fastforce
    ultimately show ?thesis by simp
  qed (use 2(2) in \<open>auto dest: less_trans\<close>)
qed simp

lemma ledger_ok_put:
  "ledger_ok m \<Longrightarrow> or_cloid v = k \<Longrightarrow> or_terminal v \<longrightarrow> terminal_status (or_status v) \<Longrightarrow> ledger_ok (ob_put k v m)"
  using ob_put_set [of k v m] by (auto simp: ledger_ok_def ob_put_sorted)

lemma ledger_at: "ledger_ok m \<Longrightarrow> map_of m k = Some v \<Longrightarrow> or_cloid v = k \<and> (or_terminal v \<longrightarrow> terminal_status (or_status v))"
  by (auto simp: ledger_ok_def dest: map_of_SomeD)

lemma ledger_entry: "ledger_ok m \<Longrightarrow> (k, v) \<in> set m \<Longrightarrow> map_of m k = Some v"
  by (rule map_of_is_SomeI) (auto simp: ledger_ok_def strict_sorted_iff)

lemma ledger_filter: "ledger_ok m \<Longrightarrow> ledger_ok (ob_remove k m)"
  by (auto simp: ledger_ok_def ob_remove_def sorted_wrt_map sorted_wrt_filter)

text \<open>Every change of the ledger keeps its shape.\<close>

lemma ok_prepare_wire: "prepare_wire hg p u n w m = Inr m' \<Longrightarrow> ledger_ok m \<Longrightarrow> ledger_ok m'"
proof -
  assume p: "prepare_wire hg p u n w m = Inr m'" and m: "ledger_ok m"
  obtain i where i: "as_str (jget w ''c'') = Some i" using p by (auto simp: prepare_wire_def)
  show "ledger_ok m'"
  proof (cases "map_of m i")
    case None
    then show ?thesis using p m i by (auto simp: prepare_wire_def new_order_def intro!: ledger_ok_put)
  next
    case (Some old)
    then show ?thesis using p m i ledger_at [OF m Some]
      by (auto simp: prepare_wire_def intro!: ledger_ok_put split: if_splits)
  qed
qed

lemma ok_prepare: "prepare_wires hg p u n ws m = Inr m' \<Longrightarrow> ledger_ok m \<Longrightarrow> ledger_ok m'"
  by (induction ws arbitrary: m) (auto dest: ok_prepare_wire)

lemma ok_ack_outcome: "ack_outcome r a = Inr (status, terminal, oid) \<Longrightarrow> terminal \<longrightarrow> terminal_status status"
  by (auto simp: ack_outcome_def terminal_status_def split: if_splits option.splits)

lemma ok_ack: "ack_loop h r st n ws m s = (Inr m', s') \<Longrightarrow> ledger_ok m \<Longrightarrow> ledger_ok m'"
proof (induction ws arbitrary: n m s)
  case (Cons w ws)
  then obtain i old status terminal oid ack t s1 where a: "map_of m i = Some old" "ack_outcome r ack = Inr (status, terminal, oid)"
    "ack_loop h r st (Suc n) ws (ob_put i (old\<lparr>or_status := status, or_terminal := terminal, or_oid := oid,
         or_observed_ms := t, or_exchange := ack\<rparr>) m) s1 = (Inr m', s')"
    by (fastforce elim!: sbind_InrE)
  show ?case
    by (rule Cons.IH [OF a(3) ledger_ok_put [OF Cons.prems(2)]])
      (use ledger_at [OF Cons.prems(2) a(1)] ok_ack_outcome [OF a(2)] in simp_all)
qed simp

lemma ok_not_sent: "not_sent_loop h ws m s = (Inr m', s') \<Longrightarrow> ledger_ok m \<Longrightarrow> ledger_ok m'"
proof (induction ws arbitrary: m s)
  case (Cons w ws)
  obtain i s1 where i: "(case map_of m i of
       None \<Rightarrow> not_sent_loop h ws m
     | Some o1 \<Rightarrow>
         sbind (slift (ensure (or_oid o1 = None \<and> or_status o1 \<in> {''prepared'', ''not_submitted''})
           ''pre-dispatch order has unexpected exchange evidence'')) (\<lambda>_.
         sbind (host_now h) (\<lambda>now.
         not_sent_loop h ws (ob_put i
           (o1\<lparr>or_status := ''not_submitted'', or_terminal := True, or_observed_ms := now\<rparr>) m)))) s1 = (Inr m', s')"
    using Cons.prems(1) by (auto elim!: sbind_InrE)
  show ?case
  proof (cases "map_of m i")
    case None
    then show ?thesis using i Cons.IH Cons.prems(2) by simp
  next
    case (Some o1)
    then obtain t s2 where n: "not_sent_loop h ws (ob_put i
           (o1\<lparr>or_status := ''not_submitted'', or_terminal := True, or_observed_ms := t\<rparr>) m) s2 = (Inr m', s')"
      using i by (auto elim!: sbind_InrE)
    show ?thesis
      by (rule Cons.IH [OF n ledger_ok_put [OF Cons.prems(2)]])
        (use ledger_at [OF Cons.prems(2) Some] in \<open>simp_all add: terminal_status_def\<close>)
  qed
qed simp

lemma observed_fields:
  assumes "observed_order i response a = Inr b"
  shows "\<exists>status. jget_path response [''order'', ''status''] = JStr status \<and> or_status b = status
    \<and> or_terminal b = terminal_status status \<and> or_cloid b = or_cloid a"
proof -
  obtain oid status where o1: "as_str (jget_path response [''order'', ''status'']) = Some status"
    "b = a\<lparr>or_oid := Some oid, or_status := status, or_terminal := terminal_status status\<rparr>"
    using assms unfolding observed_order_def Let_def rbind_eq_Inr ensure_eq context_opt_eq sum.inject by metis
  then show ?thesis using as_strD [OF o1(1)] by simp
qed

lemma observe_change_order:
  assumes "observe_change h i response m s = (Inr m', s')" "jget response ''status'' = JStr ''order''"
  shows "\<exists>a b t. map_of m i = Some a \<and> observed_order i response a = Inr b
    \<and> m' = ob_put i (b\<lparr>or_observed_ms := t, or_exchange := response\<rparr>) m"
  using assms by (fastforce simp: observe_change_def elim!: sbind_InrE)

lemma ok_observe:
  assumes "observe_change h i response m s = (Inr m', s')" "ledger_ok m" shows "ledger_ok m'"
proof (cases "jget response ''status'' = JStr ''order''")
  case True
  from observe_change_order [OF assms(1) True] obtain a b t where o1: "map_of m i = Some a"
    "observed_order i response a = Inr b" "m' = ob_put i (b\<lparr>or_observed_ms := t, or_exchange := response\<rparr>) m" by blast
  show ?thesis unfolding o1(3)
    by (rule ledger_ok_put [OF assms(2)]) (use observed_fields [OF o1(2)] ledger_at [OF assms(2) o1(1)] in auto)
next
  case False
  then obtain a where a: "map_of m i = Some a" using assms by (auto simp: observe_change_def elim!: sbind_InrE)
  show ?thesis using False assms a ledger_at [OF assms(2) a]
    by (auto simp: observe_change_def intro!: ledger_ok_put elim!: sbind_InrE split: if_splits)
qed

lemma ok_compact: "compact_loop h cs m s = (Inr m', s') \<Longrightarrow> ledger_ok m \<Longrightarrow> ledger_ok m' \<and> set m' \<subseteq> set m"
proof (induction h cs m arbitrary: s rule: compact_loop.induct)
  case (2 h t i rest m)
  from 2(2) obtain s1 where "compact_loop h rest (ob_remove i m) s1 = (Inr m', s')" by (auto elim!: sbind_InrE)
  from 2(1) [OF this ledger_filter [OF 2(3)]] show ?case by (auto simp: ob_remove_def)
qed simp

definition ok_kept :: "store \<Rightarrow> store \<Rightarrow> bool" where
  "ok_kept s s' \<longleftrightarrow> (store_ok s \<longrightarrow> store_ok s')"

interpretation ok: store_order ok_kept
proof
  show "ok_kept s s'" if "sv_files s' = sv_files s" for s s'
    unfolding ok_kept_def store_ok_def ledger_files [OF that] by simp
qed (simp add: ok_kept_def)

lemma same_orders_ledger: "same_orders s s' \<Longrightarrow> ledger_of s' = ledger_of s"
  by (simp add: same_orders_def ledger_of_def read_orders_def)

lemma ok_put: "n \<noteq> ''orders.json'' \<Longrightarrow> ok_kept s (put_doc n d s)"
  by (simp add: ok_kept_def store_ok_def ledger_of_def read_orders_def)

text \<open>What an update of the ledger leaves behind.\<close>

lemma update_cases:
  assumes "update_orders h c s = (r, s')" "ledger_of s = Inr m" "keeps same_orders (c m)"
  obtains (old) "ledger_of s' = Inr m" "r \<noteq> Inr ()"
  | (new) m' s1 where "c m s = (Inr m', s1)" "ledger_of s' = Inr m'"
proof -
  obtain v where v: "read_orders ''orders.json'' s = Inr v" "m = (case v of None \<Rightarrow> [] | Some x \<Rightarrow> x)"
    using assms(2) by (auto simp: ledger_of_def)
  have "sbind (c m) (\<lambda>x. store_write h ''orders.json'' (Doc_orders x)) s = (r, s')"
    using assms(1) v by (simp add: update_orders_def store_update_def sbind_eq)
  then show thesis
  proof (cases rule: sbind_cases)
    case (err e)
    then show thesis using keepsD [OF assms(3) err(1)] assms(2) old by (simp add: same_orders_ledger)
  next
    case (ok m' s1)
    have f: "ledger_of s1 = Inr m" using keepsD [OF assms(3) ok(1)] assms(2) by (simp add: same_orders_ledger)
    show thesis
    proof (cases "sv_files s' = sv_files s1 \<and> r \<noteq> Inr ()")
      case True
      then show thesis using f ledger_files [of s' s1] old by simp
    next
      case False
      then have "s' = put_doc ''orders.json'' (Doc_orders m') (s1\<lparr>sv_tick := Suc (sv_tick s1)\<rparr>)"
        using store_write_cases [OF ok(2)] by auto
      then have "ledger_of s' = Inr m'" by (simp add: ledger_of_def)
      then show thesis using ok(1) new by blast
    qed
  qed
qed

lemma ok_update:
  assumes "\<And>m. keeps same_orders (c m)" "\<And>m s m' s'. c m s = (Inr m', s') \<Longrightarrow> ledger_ok m \<Longrightarrow> ledger_ok m'"
  shows "keeps ok_kept (update_orders h c)"
  unfolding keeps_def ok_kept_def
proof (intro allI impI)
  fix s r s' assume u: "update_orders h c s = (r, s')" and "store_ok s"
  then obtain m where m: "ledger_of s = Inr m" "ledger_ok m" by (auto simp: store_ok_def)
  from u m(1) assms(1) show "store_ok s'"
    by (cases rule: update_cases) (use m assms(2) in \<open>auto simp: store_ok_def\<close>)
qed

lemma still_same: "keeps (\<lambda>s s'. sv_files s' = sv_files s) m \<Longrightarrow> keeps same_orders m"
  unfolding keeps_def using same.files_only by blast

lemma ok_journal:
  "keeps ok_kept (journal_prepare h a u n)" "keeps ok_kept (import_legacy h u)" "keeps ok_kept (journal_acknowledged h a r)"
  "keeps ok_kept (journal_not_submitted h a)" "keeps ok_kept (journal_observe h i r)" "keeps ok_kept (journal_compact h)"
  unfolding journal_prepare_def import_legacy_def journal_acknowledged_def journal_not_submitted_def journal_observe_def
    journal_compact_def Let_def
  by (intro ok.keeps_flow ok_update ok.keeps_write ok_put still_same still.keeps_flow ack_loop_still not_sent_still
      observe_still compact_same;
      (fastforce intro: ok_put elim!: sbind_InrE
        dest: ok_prepare ok_ack ok_not_sent ok_observe ok_compact
        simp: legacy_order_def intro!: ledger_ok_put))+

interpretation ok_reads: reading_order ok_kept
  by unfold_locales (auto intro!: ok_put ok_journal simp: note_docs_def)

lemma ok_pending: "keeps ok_kept (store_write h ''pending.json'' d)" "keeps ok_kept (store_write h ''nonce.json'' d)"
  by (rule ok.keeps_write, rule ok_put, simp)+

lemma ok_store: "keeps ok_kept (store_begin h v)" "keeps ok_kept (store_finish h v)" "keeps ok_kept (next_nonce h)"
  unfolding store_begin_def store_finish_def next_nonce_def Let_def
  by (intro ok.keeps_flow ok_pending)+

lemma ok_post: "keeps ok_kept (post c q)"
  by (auto simp: keeps_def post_def intro: ok.files_only)

lemma ok_archive: "keeps ok_kept (archive_order h i v)"
  by (rule ok.keeps_archive) (auto intro!: ok_put dest!: archive_name_prefix)

interpretation ok_trade: trading_order ok_kept
  by unfold_locales (auto intro: ok_reads.keeps_signed ok_store ok_pending ok_post ok_journal)

lemma ok_step: "trade_step c st x s = (r, s') \<Longrightarrow> ok_kept s s'"
proof -
  have st: "store_step h y s = (q, s') \<Longrightarrow> ok_kept s s'" for h y q
    using ok_store [THEN keepsD] keepsD [OF ok_archive] keepsD [OF ok.keeps_event]
    by (cases y) (auto split: prod.splits)
  have j: "journal_step h y s = (q, s') \<Longrightarrow> ok_kept s s'" for h y q
    using ok_journal [THEN keepsD] st by (cases y) (auto simp: map_prod_def split: prod.splits)
  have rec: "keeps ok_kept (reconcile c)"
    by (rule ok_reads.keeps_reconcile) (rule ok_store ok_journal)+
  show "trade_step c st x s = (r, s') \<Longrightarrow> ok_kept s s'"
    using keepsD [OF ok_trade.keeps_hedge] keepsD [OF ok_trade.keeps_sync] keepsD [OF ok_trade.keeps_cancel]
      keepsD [OF rec] keepsD [OF ok_trade.keeps_exchange] j
    by (cases x) (auto simp: map_prod_def split: prod.splits)
qed

text \<open>
  C30: the order ledger keeps its type over any run of the controller, the ledger and the store: it
  stays readable, its entries stay in the strict order of their keys, each under its own client
  identifier, and an entry is marked finished only with a status that is final.
\<close>

theorem ledger_typed:
  assumes "run_ops (trade_step c st) xs s = (rs, s')" "store_ok s"
  shows "store_ok s'"
proof -
  have "ok_kept s s'"
    by (rule run_ops_keeps [OF _ _ _ assms(1)]) (auto dest: ok_step simp: ok_kept_def)
  then show ?thesis using assms(2) by (simp add: ok_kept_def)
qed

section \<open>A finished order stays finished\<close>

definition settled :: "string \<Rightarrow> store \<Rightarrow> bool" where
  "settled i s \<longleftrightarrow> (\<exists>m o1. ledger_of s = Inr m \<and> map_of m i = Some o1 \<and> or_terminal o1)"

definition known :: "store \<Rightarrow> string set" where
  "known s = (case ledger_of s of Inl _ \<Rightarrow> {} | Inr m \<Rightarrow> keys m)"

definition advances_all :: "store \<Rightarrow> store \<Rightarrow> bool" where
  "advances_all s s' \<longleftrightarrow> (store_ok s \<longrightarrow> store_ok s' \<and> known s' = known s \<and> (\<forall>i. settled i s \<longrightarrow> settled i s'))"

interpretation adv: store_order advances_all
proof
  show "advances_all s s'" if "sv_files s' = sv_files s" for s s'
    unfolding advances_all_def store_ok_def settled_def known_def ledger_files [OF that] by simp
qed (simp add: advances_all_def)

lemma adv_put: "n \<noteq> ''orders.json'' \<Longrightarrow> advances_all s (put_doc n d s)"
  by (simp add: advances_all_def store_ok_def settled_def known_def ledger_of_def read_orders_def)

lemma observe_change_adv:
  assumes "observe_change h i response m s = (Inr m', s')" "ledger_ok m"
  shows "keys m' = keys m \<and> (\<forall>k o1. map_of m k = Some o1 \<and> or_terminal o1 \<longrightarrow> (\<exists>o2. map_of m' k = Some o2 \<and> or_terminal o2))"
proof -
  obtain a where a: "map_of m i = Some a" using assms(1) by (auto simp: observe_change_def elim!: sbind_InrE)
  from observe_change_advances [OF assms(1) a] obtain b where b: "map_of m' i = Some b" "advances response a b"
    "\<forall>k. k \<noteq> i \<longrightarrow> map_of m' k = map_of m k" by blast
  have "map_of m' k \<noteq> None \<longleftrightarrow> map_of m k \<noteq> None" for k using a b(1,3) by (cases "k = i") auto
  then have "keys m' = keys m" by (auto simp: keys_iff)
  moreover have "or_terminal a \<longrightarrow> or_terminal b" using ledger_at [OF assms(2) a] b(2) by (simp add: advances_def)
  moreover have "\<exists>o2. map_of m' k = Some o2 \<and> or_terminal o2" if "map_of m k = Some o1" "or_terminal o1" "or_terminal a \<longrightarrow> or_terminal b" for k o1
    using that a b(1,3) by (cases "k = i") auto
  ultimately show ?thesis by blast
qed

lemma adv_observe: "keeps advances_all (journal_observe h i v)"
  unfolding journal_observe_def
proof (intro adv.keeps_flow)
  show "keeps advances_all (update_orders h (observe_change h i v))"
    unfolding keeps_def advances_all_def
  proof (intro allI impI)
    fix s r s' assume u: "update_orders h (observe_change h i v) s = (r, s')" and "store_ok s"
    then obtain m where m: "ledger_of s = Inr m" "ledger_ok m" by (auto simp: store_ok_def)
    from u m(1) still_same [OF observe_still]
    show "store_ok s' \<and> known s' = known s \<and> (\<forall>i. settled i s \<longrightarrow> settled i s')"
    proof (cases rule: update_cases)
      case old
      then show ?thesis using m by (simp add: store_ok_def known_def settled_def)
    next
      case (new m' s1)
      from observe_change_adv [OF new(1) m(2)] ok_observe [OF new(1) m(2)] new(2) m(1)
      show ?thesis by (auto simp: store_ok_def known_def settled_def)
    qed
  qed
qed

interpretation adv_reads: reading_order advances_all
  by unfold_locales (auto intro!: adv_put adv_observe simp: note_docs_def)

lemma adv_simple:
  "keeps advances_all (store_begin h v)" "keeps advances_all (store_finish h v)" "keeps advances_all (next_nonce h)"
  "keeps advances_all (store_write h ''pending.json'' d)"
proof -
  have w: "keeps advances_all (store_write h n d)" if "n \<noteq> ''orders.json''" for n d
    by (rule adv.keeps_write) (rule adv_put [OF that])
  show "keeps advances_all (store_begin h v)" "keeps advances_all (store_finish h v)" "keeps advances_all (next_nonce h)"
    "keeps advances_all (store_write h ''pending.json'' d)"
    unfolding store_begin_def store_finish_def next_nonce_def Let_def
    by (intro adv.keeps_flow w; simp)+
qed

lemma adv_post: "keeps advances_all (post c q)"
  by (auto simp: keeps_def post_def intro: adv.files_only)

lemma adv_none: "\<not> is_order_action a \<Longrightarrow> keeps advances_all (journal_prepare h a u n)"
    "\<not> is_order_action a \<Longrightarrow> keeps advances_all (journal_acknowledged h a r)"
  unfolding journal_prepare_def journal_acknowledged_def by (simp_all add: adv.keeps_pure)

interpretation adv_cancel: cancelling_order advances_all
  by unfold_locales (intro adv_reads.keeps_signed adv_simple adv_post adv_none)

section \<open>What recovery and synchronisation establish\<close>

text \<open>A recovered answer states open or final, and a final answer is already in the ledger.\<close>

definition answers :: "string \<Rightarrow> json \<Rightarrow> store \<Rightarrow> bool" where
  "answers i v s \<longleftrightarrow> jget v ''status'' = JStr ''order''
     \<and> (\<exists>t. jget_path v [''order'', ''status''] = JStr t \<and> (t = ''open'' \<or> terminal_status t \<and> settled i s))"

lemma open_not_terminal: "\<not> terminal_status ''open''"
  by (simp add: terminal_status_def)

lemma update_reads:
  assumes "update_orders h c s = (Inr u, s')"
  shows "\<exists>m m' s1. ledger_of s = Inr m \<and> c m s = (Inr m', s1) \<and> ledger_of s' = Inr m'"
proof -
  obtain v m' s1 where "read_orders ''orders.json'' s = Inr v" "c (case v of None \<Rightarrow> [] | Some x \<Rightarrow> x) s = (Inr m', s1)"
    "store_write h ''orders.json'' (Doc_orders m') s1 = (Inr u, s')"
    using assms unfolding update_orders_def store_update_def by (elim sbind_InrE) auto
  then show ?thesis using store_write_ok [of h "''orders.json''" "Doc_orders m'" s1 u s']
    by (auto simp: ledger_of_def)
qed

lemma observe_answers:
  assumes "journal_observe h i v s = (Inr u, s')" shows "answers i v s'"
proof -
  obtain x s1 s2 t where o1: "update_orders h (observe_change h i v) s = (Inr x, s1)"
    "store_event h ''order_reconciled'' (JObj [(''cloid'', JStr i), (''response'', v)]) s1 = (Inr (), s')"
    "jget v ''status'' = JStr ''order''" "as_str (jget_path v [''order'', ''status'']) = Some t"
    "t = ''open'' \<or> terminal_status t"
    using assms unfolding journal_observe_def by (elim sbind_InrE) auto
  from update_reads [OF o1(1)] obtain m m' s3 where w: "observe_change h i v m s = (Inr m', s3)" "ledger_of s1 = Inr m'" by blast
  from observe_change_order [OF w(1) o1(3)] obtain a b q where q: "observed_order i v a = Inr b"
    "m' = ob_put i (b\<lparr>or_observed_ms := q, or_exchange := v\<rparr>) m" by blast
  have t: "jget_path v [''order'', ''status''] = JStr t" by (rule as_strD [OF o1(4)])
  have "or_terminal b = terminal_status t" using observed_fields [OF q(1)] t by auto
  moreover have "ledger_of s' = Inr m'" using ledger_files keepsD [OF still.keeps_event o1(2)] w(2) by metis
  ultimately have "terminal_status t \<longrightarrow> settled i s'" using q(2) by (simp add: settled_def)
  then show ?thesis using o1(3,5) t by (auto simp: answers_def)
qed

lemma answers_files: "answers i v s \<Longrightarrow> sv_files s' = sv_files s \<Longrightarrow> answers i v s'"
  unfolding answers_def settled_def ledger_files by simp

lemma queries_answer:
  "resolve_queries c i t n qs k s = (Inr (Inl v), s') \<Longrightarrow> answers i v s'"
proof (induction qs arbitrary: k s)
  case (Cons q qs)
  then obtain r s1 where r: "(if jget r ''status'' = JStr ''order''
     then sbind (journal_observe (cl_host c) i r) (\<lambda>_.
       if \<not> t \<or> jget_path r [''order'', ''status''] \<noteq> JStr ''open'' then slift (Inr (Inl r))
       else resolve_queries c i t n qs (Some r))
     else sbind (slift (ensure (jget r ''status'' = JStr ''unknownOid'') ''unexpected order status response; order retained''))
         (\<lambda>_. resolve_queries c i t n qs k)) s1 = (Inr (Inl v), s')"
    by (auto elim!: sbind_InrE)
  show ?case
  proof (cases "jget r ''status'' = JStr ''order''")
    case True
    then obtain u s2 where o1: "journal_observe (cl_host c) i r s1 = (Inr u, s2)"
      "(if \<not> t \<or> jget_path r [''order'', ''status''] \<noteq> JStr ''open'' then slift (Inr (Inl r))
       else resolve_queries c i t n qs (Some r)) s2 = (Inr (Inl v), s')"
      using r by (auto elim: sbind_InrE)
    show ?thesis
    proof (cases "\<not> t \<or> jget_path r [''order'', ''status''] \<noteq> JStr ''open''")
      case True
      then show ?thesis using o1 observe_answers [OF o1(1)] by simp
    next
      case False
      then have "resolve_queries c i t n qs (Some r) s2 = (Inr (Inl v), s')" using o1(2) by simp
      then show ?thesis by (rule Cons.IH)
    qed
  next
    case False
    then have "resolve_queries c i t n qs k s1 = (Inr (Inl v), s')" using r by (auto elim!: sbind_InrE)
    then show ?thesis by (rule Cons.IH)
  qed
qed simp

lemma open_answers:
  assumes "resolve_open c i t o1 s = (Inr (Some v), s')" shows "answers i v s'"
proof -
  obtain rows s1 where r: "(case filter (row_matches i o1) rows of
       [] \<Rightarrow> slift (Inr None)
     | row # _ \<Rightarrow>
         sbind (journal_observe (cl_host c) i (JObj [(''status'', JStr ''order''),
               (''order'', JObj [(''status'', JStr ''open''), (''order'', row)]), (''source'', JStr ''openOrders'')])) (\<lambda>_.
         slift (Inr (if t then None else Some (JObj [(''status'', JStr ''order''),
               (''order'', JObj [(''status'', JStr ''open''), (''order'', row)]), (''source'', JStr ''openOrders'')]))))) s1
       = (Inr (Some v), s')"
    using assms unfolding resolve_open_def Let_def by (elim sbind_InrE) (rule that)
  then obtain u where "journal_observe (cl_host c) i v s1 = (Inr u, s')"
    by (cases "filter (row_matches i o1) rows") (auto elim!: sbind_InrE split: if_splits)
  then show ?thesis by (rule observe_answers)
qed

lemma attempt_answers:
  assumes "resolve_attempt c i t n s = (Inr (Some v), s')" shows "answers i v s'"
proof -
  obtain m o1 u where m: "ledger_of s = Inr m" "map_of m i = Some o1"
    "(if or_terminal o1
     then sbind (slift (ensure (terminal_status (or_status o1)) ''invalid durable terminal status''))
            (\<lambda>_. slift (Inr (Some (durable_answer i o1))))
     else
       sbind (resolve_queries c i t n
         ((case or_oid o1 of None \<Rightarrow> [] | Some oid \<Rightarrow> [JNum (PosInt oid)]) @ [JStr i]) None) (\<lambda>r.
       case r of
         Inl response \<Rightarrow> slift (Inr (Some response))
       | Inr (Some _) \<Rightarrow> slift (Inr None)
       | Inr None \<Rightarrow> resolve_open c i t o1)) s = (Inr (Some v), s')"
    using assms unfolding resolve_attempt_def by (elim sbind_InrE) (auto intro: that)
  show ?thesis
  proof (cases "or_terminal o1")
    case True
    then have "terminal_status (or_status o1)" "v = durable_answer i o1" "s' = s"
      using m(3) by (auto elim!: sbind_InrE)
    then show ?thesis using m(1,2) True by (auto simp: answers_def settled_def durable_answer_def jget_def)
  next
    case False
    then obtain r s1 where r: "resolve_queries c i t n
         ((case or_oid o1 of None \<Rightarrow> [] | Some oid \<Rightarrow> [JNum (PosInt oid)]) @ [JStr i]) None s = (Inr r, s1)"
      "(case r of Inl response \<Rightarrow> slift (Inr (Some response)) | Inr (Some _) \<Rightarrow> slift (Inr None)
       | Inr None \<Rightarrow> resolve_open c i t o1) s1 = (Inr (Some v), s')"
      using m(3) by (auto elim: sbind_InrE)
    show ?thesis
    proof (cases r)
      case (Inl w)
      then show ?thesis using r queries_answer by simp
    next
      case (Inr k)
      then show ?thesis using r(2) open_answers by (cases k) auto
    qed
  qed
qed

lemma resolve_answers:
  assumes "resolve c i t s = (Inr v, s')" shows "answers i v s'"
proof -
  have "resolve_loop c i t n s = (Inr v, s') \<Longrightarrow> answers i v s'" for n s
  proof (induction n arbitrary: s)
    case (Suc n)
    then obtain r s1 where r: "resolve_attempt c i t (resolve_attempts - Suc n) s = (Inr r, s1)"
      "(case r of Some v \<Rightarrow> slift (Inr v) | None \<Rightarrow> resolve_loop c i t n) s1 = (Inr v, s')"
      by (auto elim: sbind_InrE)
    then show ?case using Suc.IH attempt_answers by (cases r) auto
  qed (auto simp: Let_def elim!: sbind_InrE)
  then show ?thesis using assms by (simp add: resolve_def)
qed

lemma cancel_settles:
  assumes "cancel_if_open c coin i s = (Inr u, s')" shows "settled i s'"
proof -
  obtain v s1 where v: "resolve c i False s = (Inr v, s1)"
    "(if jget v ''status'' = JStr ''order'' \<and> jget_path v [''order'', ''status''] = JStr ''open''
     then
       sbind (attempted (client_cancel c coin i)) (\<lambda>canceled.
       sbind (tolerate_rejection canceled) (\<lambda>_.
       sbind (resolve c i True) (\<lambda>after.
       slift (ensure (case as_str (jget_path after [''order'', ''status'']) of None \<Rightarrow> False | Some t \<Rightarrow> terminal_status t)
         ''cancel/fill not confirmed''))))
     else slift (Inr ())) s1 = (Inr u, s')"
    using assms unfolding cancel_if_open_def by (auto elim: sbind_InrE)
  note a = resolve_answers [OF v(1)]
  show ?thesis
  proof (cases "jget v ''status'' = JStr ''order'' \<and> jget_path v [''order'', ''status''] = JStr ''open''")
    case True
    then obtain after s2 where f: "resolve c i True s2 = (Inr after, s')"
      "case as_str (jget_path after [''order'', ''status'']) of None \<Rightarrow> False | Some t \<Rightarrow> terminal_status t"
      using v(2) by (auto elim!: sbind_InrE)
    show ?thesis using resolve_answers [OF f(1)] f(2) open_not_terminal by (auto simp: answers_def)
  next
    case False
    then have "s' = s1" using v(2) unfolding if_not_P [OF False] by simp
    then show ?thesis using a False by (auto simp: answers_def)
  qed
qed

lemma cancel_stale_settles:
  assumes "cancel_stale c is s = (Inr u, s')" "store_ok s"
  shows "\<forall>i \<in> set is. settled i s'"
  using assms
proof (induction "is" arbitrary: s)
  case (Cons i js)
  obtain x s1 y s2 where st: "store_event (cl_host c) ''startup_cancel_stale_hedge'' (JObj [(''cloid'', JStr i)]) s = (Inr x, s1)"
    "cancel_if_open c (hc_hedge_coin (cl_cfg c)) i s1 = (Inr y, s2)" "cancel_stale c js s2 = (Inr u, s')"
    using Cons.prems(1) by (auto elim!: sbind_InrE)
  have k: "advances_all s s2" using adv.step_trans keepsD [OF adv.keeps_event st(1)] keepsD [OF adv_cancel.keeps_cancel st(2)] by blast
  then have ok: "store_ok s2" using Cons.prems(2) by (simp add: advances_all_def)
  have "settled i s'" using cancel_settles [OF st(2)] keepsD [OF adv_cancel.keeps_cancel_stale st(3)] ok
    by (simp add: advances_all_def)
  then show ?case using Cons.IH [OF st(3) ok] by simp
qed simp

lemma compact_ledger:
  assumes "journal_compact h s = (Inr u, s')" "ledger_of s = Inr m" "ledger_ok m"
  shows "\<exists>m'. ledger_of s' = Inr m' \<and> set m' \<subseteq> set m"
proof -
  obtain q p s1 s2 where k: "sread (read_json ''hedge_order.json'') s = (Inr q, s1)" "sread store_pending s1 = (Inr p, s2)"
    "(if p \<noteq> None then slift (Inr ())
     else
       sbind (sget (\<lambda>s. so_terminal_orders_keep (sv_policy s))) (\<lambda>keep.
       update_orders h (\<lambda>ledger.
         let terminal = compact_candidates (opt_json q) ledger in
         compact_loop h (take (length terminal - keep) terminal) ledger))) s2 = (Inr u, s')"
    using assms(1) unfolding journal_compact_def by (elim sbind_InrE) (rule that)
  have "s2 = s" using k(1,2) by simp
  show ?thesis
  proof (cases "p = None")
    case True
    then obtain keep where "update_orders h (\<lambda>ledger. let terminal = compact_candidates (opt_json q) ledger in
         compact_loop h (take (length terminal - keep) terminal) ledger) s = (Inr u, s')"
      using k(3) unfolding \<open>s2 = s\<close> by (auto simp: sbind_eq)
    from update_reads [OF this] assms(2) obtain m' s1 where
      "compact_loop h (take (length (compact_candidates (opt_json q) m) - keep) (compact_candidates (opt_json q) m)) m s = (Inr m', s1)"
      "ledger_of s' = Inr m'" by (auto simp: Let_def)
    then show ?thesis using ok_compact assms(3) by blast
  next
    case False
    then show ?thesis using k(3) \<open>s2 = s\<close> assms(2) by auto
  qed
qed

text \<open>
  C13: a successful synchronisation leaves no open end: the ledger is well-formed and every order in
  it is finished, each by a final status the exchange stated for it; when even one order's fate
  stays unknown, the synchronisation fails instead.
\<close>

theorem sync_settles:
  assumes "sync_orders c b s = (Inr u, s')" "store_ok s"
  shows "store_ok s' \<and> (\<exists>m. ledger_of s' = Inr m \<and> (\<forall>o1 \<in> set (map snd m). or_terminal o1 \<and> terminal_status (or_status o1)))"
proof -
  have hn: "''hedge_order.json'' \<in> note_docs" by (simp add: note_docs_def)
  have ok: "store_ok s'" using keepsD [OF ok_trade.keeps_sync assms(1)] assms(2) by (simp add: ok_kept_def)
  obtain s1 s2 s3 s4 s5 s6 open1 js x1 x2 x3 after where st:
    "observe_open_orders c s = (Inr x1, s1)"
    "journal_refresh (cl_host c) (client_user c) (resolve_refresh c) s1 = (Inr x2, s2)"
    "observe_open_orders c s2 = (Inr open1, s3)"
    "managed_open_orders open1 (hc_hedge_coin (cl_cfg c)) s3 = Inr js"
    "cancel_stale c js s3 = (Inr x3, s4)"
    "observe_open_orders c s4 = (Inr after, s5)"
    "store_write (cl_host c) ''hedge_order.json'' (Doc_json JNull) s5 = (Inr (), s6)"
    "journal_compact (cl_host c) s6 = (Inr u, s')"
    using assms(1) unfolding sync_orders_def by (elim sbind_InrE) (auto split: if_splits elim!: sbind_InrE)
  have jr: "keeps ok_kept (journal_refresh (cl_host c) (client_user c) (resolve_refresh c))"
    unfolding journal_refresh_def by (intro ok.keeps_flow ok_journal ok_reads.keeps_refresh_loop)
  have ok3: "store_ok s3"
    using keepsD [OF ok_reads.keeps_observe_open st(1)] keepsD [OF jr st(2)] keepsD [OF ok_reads.keeps_observe_open st(3)] assms(2)
    by (auto simp: ok_kept_def)
  then obtain m where m: "ledger_of s3 = Inr m" "ledger_ok m" by (auto simp: store_ok_def)
  have cover: "\<forall>o1 \<in> set (map snd m). or_terminal o1 \<or> or_cloid o1 \<in> set js"
    using st(4) m(1) by (auto simp: managed_open_orders_def split: if_splits)
  have a46: "advances_all s4 s6"
    by (rule adv.step_trans [OF keepsD [OF adv_reads.keeps_observe_open st(6)] keepsD [OF adv_reads.keeps_note [OF hn] st(7)]])
  have a: "advances_all s3 s6"
    by (rule adv.step_trans [OF keepsD [OF adv_cancel.keeps_cancel_stale st(5)] a46])
  have all: "settled k s6" if "k \<in> keys m" for k
  proof -
    from that obtain v where v: "map_of m k = Some v" by (auto simp: keys_iff)
    have "or_terminal v \<or> k \<in> set js" using cover ledger_at [OF m(2) v] map_of_SomeD [OF v] by force
    then have "settled k s3 \<or> settled k s4"
      using cancel_stale_settles [OF st(5) ok3] m(1) v by (auto simp: settled_def)
    moreover have "store_ok s4"
      using keepsD [OF adv_cancel.keeps_cancel_stale st(5)] ok3 by (simp add: advances_all_def)
    ultimately show ?thesis using a a46 ok3 by (auto simp: advances_all_def)
  qed
  obtain m6 where m6: "ledger_of s6 = Inr m6" "ledger_ok m6" "keys m6 = keys m"
    using a ok3 m(1) by (auto simp: advances_all_def store_ok_def known_def)
  have t6: "\<forall>o1 \<in> set (map snd m6). or_terminal o1"
  proof
    fix o1 assume "o1 \<in> set (map snd m6)"
    then obtain k where k: "(k, o1) \<in> set m6" by auto
    then have "map_of m6 k = Some o1" "k \<in> keys m6" using ledger_entry [OF m6(2) k] by (simp_all add: keys_iff)
    then show "or_terminal o1" using all [of k] m6(1,3) by (auto simp: settled_def)
  qed
  have "\<exists>m'. ledger_of s' = Inr m' \<and> set m' \<subseteq> set m6"
    by (rule compact_ledger [OF st(8) m6(1,2)])
  then obtain m' where m': "ledger_of s' = Inr m'" "set m' \<subseteq> set m6" by blast
  have "or_terminal o1 \<and> terminal_status (or_status o1)" if "o1 \<in> set (map snd m')" for o1
  proof -
    from that m'(2) obtain k where k: "(k, o1) \<in> set m6" by auto
    then show ?thesis using t6 ledger_at [OF m6(2) ledger_entry [OF m6(2) k]] by force
  qed
  then show ?thesis using ok m'(1) by blast
qed

end
