(* ===== verification/Hl_Hedge_Props.thy ===== *)
theory Hl_Hedge_Props
  imports Hl_Trade_Props
begin

text \<open>What the hedge controller may send: its guards on data, size, direction and collateral.\<close>

section \<open>The orders of the controller\<close>

text \<open>
  An order of the controller is a single wire that is reduce-only exactly when it buys, so a purchase
  never opens a long position; a sale, which may open a short, is worth at least ten dollars at its
  own price.
\<close>

definition order_guard :: "client \<Rightarrow> json \<Rightarrow> bool" where
  "order_guard c a \<longleftrightarrow> (is_order_action a \<longrightarrow>
     (\<exists>w buy. jget a ''orders'' = JArr [w] \<and> jget w ''b'' = JBool buy \<and> jget w ''r'' = JBool buy
        \<and> (\<not> buy \<longrightarrow> (\<exists>p sz n. dl_mul (cl_decimal c) p sz = Inr n \<and> 10 \<le> dec_val n
              \<and> jget w ''p'' = JStr (dl_text (cl_decimal c) p) \<and> jget w ''s'' = JStr (dl_text (cl_decimal c) sz)))))"

definition sends_guarded :: "client \<Rightarrow> store \<Rightarrow> store \<Rightarrow> bool" where
  "sends_guarded c s s' \<longleftrightarrow> (\<exists>l. sv_sent s' = sv_sent s @ l \<and> (\<forall>req \<in> set l. order_guard c (jget req ''action'')))"

interpretation guarded_steps: store_steps "sends_guarded c" for c
proof
  show "sends_guarded c s s'" if "sv_files s' = sv_files s" "sv_sent s' = sv_sent s" for s s'
    using that by (simp add: sends_guarded_def)
  show "sends_guarded c s s2" if "sends_guarded c s s1" "sends_guarded c s1 s2" for s s1 s2
    using that by (fastforce simp: sends_guarded_def)
qed

lemma guarded_same: "keeps same_sent m \<Longrightarrow> keeps (sends_guarded c) m"
  by (auto simp: keeps_def same_sent_def sends_guarded_def)

interpretation guarded_reads: reading_order "sends_guarded c" for c
  by unfold_locales (auto intro!: guarded_same sent_ops simp: sends_guarded_def)

lemma guarded_exchange:
  assumes "order_guard c a" shows "keeps (sends_guarded c) (exchange_inner c' a hg)"
  unfolding keeps_def
proof (intro allI impI)
  fix s r s' assume "exchange_inner c' a hg s = (r, s')"
  then show "sends_guarded c s s'"
  proof (cases rule: exchange_cases)
    case quiet
    then show ?thesis by (simp add: sends_guarded_def)
  next
    case (sent s1 s2 u n user req)
    have "sv_sent s2 = sv_sent s" using sent(2) keepsD [OF sent_record sent(5)] by (simp add: same_sent_def)
    then show ?thesis using dispatch_sent [OF sent(6)] signed_action [OF sent(3)] assms
      by (auto simp: sends_guarded_def)
  qed
qed

interpretation guarded_cancel: cancelling_order "sends_guarded c" for c
  by unfold_locales (rule guarded_exchange, simp add: order_guard_def)

lemma wire_guard:
  assumes "wire h (cl_decimal c) i a buy px sz tif buy cl = Inr w" shows "order_guard c (order_action w)"
  using wire_cloid [OF assms] wire_notional [OF assms]
  by (cases buy) (auto simp: order_guard_def order_action_def is_order_action_def jget_def)

lemma keeps_slift: "(\<And>x. v = Inr x \<Longrightarrow> keeps (sends_guarded c) (k x)) \<Longrightarrow> keeps (sends_guarded c) (sbind (slift v) k)"
  by (cases v) (auto intro: guarded_steps.keeps_pure)

lemma guarded_managed: "keeps (sends_guarded c) (managed_order c coin buy px sz tif i t q age)"
  unfolding managed_order_def
  by (intro guarded_steps.keeps_sbind guarded_steps.keeps_reads guarded_steps.keeps_prod keeps_slift guarded_exchange)
    (erule wire_guard)

interpretation guarded: hedging_order "sends_guarded c" c for c
  by unfold_locales (rule guarded_managed)

section \<open>When the controller sends\<close>

text \<open>A step that sends nothing came to an end before the sending.\<close>

lemma sent_later:
  assumes "sbind m k s = (r, s')" "sv_sent s' \<noteq> sv_sent s0" "sv_sent s = sv_sent s0" "keeps same_sent m"
  obtains x s1 where "m s = (Inr x, s1)" "sv_sent s1 = sv_sent s0" "k x s1 = (r, s')"
  using assms(1)
proof (cases rule: sbind_cases)
  case (err e)
  then show thesis using assms(2-4) keepsD [OF assms(4) err(1)] by (simp add: same_sent_def)
next
  case (ok x s1)
  then show thesis using that assms(3) keepsD [OF assms(4) ok(1)] by (simp add: same_sent_def)
qed

lemma sent_pure:
  "sbind (slift v) k s = (r, s') \<Longrightarrow> sv_sent s' \<noteq> sv_sent s \<Longrightarrow> \<exists>x. v = Inr x \<and> k x s = (r, s')"
  by (cases v) auto

lemma budget_ok:
  assumes "hedge_budget c st account target delta mid = Inr u" "0 < delta"
  shows "\<not> sc_hedge_collateral st * lit 0.9 < target * mid / f_of_word (hc_leverage (cl_cfg c))
    \<and> (\<exists>x. collateral_of account = Inr x \<and> \<not> co_available_short_usdc x < delta * mid / f_of_word (hc_leverage (cl_cfg c)))"
  using assms unfolding hedge_budget_def by (auto split: if_splits)

text \<open>The guards of one decision, over the collateral of the account and the quote.\<close>

definition decision_guard ::
    "client \<Rightarrow> strategy_config \<Rightarrow> json \<Rightarrow> f64 \<Rightarrow> f64 \<Rightarrow> f64 \<Rightarrow> bool \<Rightarrow> bool" where
  "decision_guard c st account target delta mid e \<longleftrightarrow>
     \<not> \<bar>delta\<bar> * mid < hedge_threshold st target e
     \<and> (0 < delta \<longrightarrow>
          \<not> sc_hedge_collateral st * lit 0.9 < target * mid / f_of_word (hc_leverage (cl_cfg c))
          \<and> (\<exists>x. collateral_of account = Inr x
               \<and> \<not> co_available_short_usdc x < delta * mid / f_of_word (hc_leverage (cl_cfg c))))"

lemma decide_sent:
  assumes "hedge_decide c st t0 e account sg (bid, askp, q) s = (r, s')" "sv_sent s' \<noteq> sv_sent s"
    and "mid = (bid + askp) / lit 2" "target = (if t0 * mid < lit 0.01 then 0 else t0)"
  shows "fresh q (ho_clock (cl_host c) (sv_tick s)) (sc_max_data_age_seconds st) = Inr ()
    \<and> decision_guard c st account target (target - (- sg)) mid e"
proof -
  have d: "sbind (check_fresh c st q) (\<lambda>_.
     if \<bar>target - (- sg)\<bar> * mid < hedge_threshold st target e
     then hedge_residual c target (- sg) mid ''within_hedge_deadband''
     else sbind (slift (hedge_budget c st account target (target - (- sg)) mid))
       (\<lambda>_. hedge_execute c st target e (- sg) bid askp q)) s = (r, s')"
    using assms(1) unfolding hedge_decide_def prod.case Let_def assms(3,4) .
  from sent_later [OF d assms(2) refl unsent.keeps_check(1)] obtain u s1 where
    a: "check_fresh c st q s = (Inr u, s1)" "sv_sent s1 = sv_sent s"
     "(if \<bar>target - (- sg)\<bar> * mid < hedge_threshold st target e
     then hedge_residual c target (- sg) mid ''within_hedge_deadband''
     else sbind (slift (hedge_budget c st account target (target - (- sg)) mid))
       (\<lambda>_. hedge_execute c st target e (- sg) bid askp q)) s1 = (r, s')" .
  have n: "sv_sent s' \<noteq> sv_sent s1" using assms(2) a(2) by simp
  have big: "\<not> \<bar>target - (- sg)\<bar> * mid < hedge_threshold st target e"
  proof
    assume small: "\<bar>target - (- sg)\<bar> * mid < hedge_threshold st target e"
    show False using a(3) [unfolded if_P [OF small]] keepsD [OF unsent_reads.keeps_residual] n by (simp add: same_sent_def)
  qed
  from sent_pure [OF a(3) [unfolded if_not_P [OF big]] n]
  have "hedge_budget c st account target (target - (- sg)) mid = Inr ()" by auto
  moreover have "fresh q (ho_clock (cl_host c) (sv_tick s)) (sc_max_data_age_seconds st) = Inr ()"
    using a(1) by (auto simp: check_fresh_def sbind_eq host_now_def)
  ultimately show ?thesis using budget_ok big by (simp add: decision_guard_def)
qed

text \<open>
  C4: the controller sends only what its guards allow: only for a finite, non-negative target, on an
  account without a long position and a book read right after it that is fresh at the clock's next
  reading, when the change exceeds the dead band,
  and, when the short grows, only within the margin budget and the free collateral the exchange
  reported; and each order it sends is reduce-only exactly when it buys and worth at least ten
  dollars when it sells.
\<close>

theorem hedge_guarded:
  assumes "hedge c st t0 e s = (r, s')" "sv_sent s' \<noteq> sv_sent s"
  shows "\<exists>account sg bid askp q mid target l s0 s1.
      collateral_account c s = (Inr account, s0) \<and> client_book c (hc_hedge_coin (cl_cfg c)) s0 = (Inr (bid, askp, q), s1)
    \<and> is_finite t0 \<and> 0 \<le> t0 \<and> position_size account (hc_hedge_coin (cl_cfg c)) = Inr sg \<and> sg \<le> 0
    \<and> mid = (bid + askp) / lit 2 \<and> target = (if t0 * mid < lit 0.01 then 0 else t0)
    \<and> fresh q (ho_clock (cl_host c) (sv_tick s1)) (sc_max_data_age_seconds st) = Inr ()
    \<and> decision_guard c st account target (target - (- sg)) mid e
    \<and> sv_sent s' = sv_sent s @ l \<and> (\<forall>req \<in> set l. order_guard c (jget req ''action''))"
proof -
  let ?coin = "hc_hedge_coin (cl_cfg c)"
  from keepsD [OF guarded.keeps_hedge assms(1)] obtain l where l: "sv_sent s' = sv_sent s @ l"
    "\<forall>req \<in> set l. order_guard c (jget req ''action'')" by (auto simp: sends_guarded_def)
  from sent_pure [OF assms(1) [unfolded hedge_def] assms(2)] have
    a1: "is_finite t0 \<and> 0 \<le> t0" "sbind (collateral_account c) (\<lambda>account.
     sbind (slift (position_size account ?coin)) (\<lambda>sg.
     sbind (slift (ensure (sg \<le> 0) ''unexpected long position'')) (\<lambda>_.
     sbind (client_book c ?coin) (hedge_decide c st t0 e account sg)))) s = (r, s')"
    by auto
  from sent_later [OF a1(2) assms(2) refl unsent.keeps_account] obtain account s0 where
    a2: "collateral_account c s = (Inr account, s0)" "sv_sent s0 = sv_sent s" "sbind (slift (position_size account ?coin)) (\<lambda>sg.
     sbind (slift (ensure (sg \<le> 0) ''unexpected long position'')) (\<lambda>_.
     sbind (client_book c ?coin) (hedge_decide c st t0 e account sg))) s0 = (r, s')" .
  have n: "sv_sent s' \<noteq> sv_sent s0" using assms(2) a2(2) by simp
  from sent_pure [OF a2(3) n] obtain sg where
    a3: "position_size account ?coin = Inr sg" "sbind (slift (ensure (sg \<le> 0) ''unexpected long position'')) (\<lambda>_.
     sbind (client_book c ?coin) (hedge_decide c st t0 e account sg)) s0 = (r, s')" by blast
  from sent_pure [OF a3(2) n] have
    a4: "sg \<le> 0" "sbind (client_book c ?coin) (hedge_decide c st t0 e account sg) s0 = (r, s')" by auto
  from sent_later [OF a4(2) n refl unsent.keeps_reads(2)] obtain x s1 where
    x: "client_book c ?coin s0 = (Inr x, s1)" "sv_sent s1 = sv_sent s0" "hedge_decide c st t0 e account sg x s1 = (r, s')" .
  obtain bid askp q where xq: "x = (bid, askp, q)" by (cases x)
  have n1: "sv_sent s' \<noteq> sv_sent s1" using n x(2) by simp
  from decide_sent [OF x(3) [unfolded xq] n1 refl refl] show ?thesis
    using a1(1) a2(1) a3(1) a4(1) x(1) l unfolding xq by blast
qed

end
