(* ===== verification/Hl_Samples.thy ===== *)
theory Hl_Samples
  imports Samples Store_Samples Hl_Sync_Props Hl_Hedge_Props
begin

text \<open>
  The theorems about the exchange client and the hedge controller at one concrete exchange, which
  knows the account, quotes a book and accepts what it is sent.
\<close>

fun digits_value :: "string \<Rightarrow> int option" where
  "digits_value s = (if s = ''20'' then Some 20 else if s = ''21'' then Some 21 else if s = ''1'' then Some 1 else None)"

definition sample_decimal :: decimal_lib where
  "sample_decimal = \<lparr>dl_parse = (\<lambda>s. map_option (\<lambda>n. Decimal n 0) (digits_value s)),
     dl_of_f64 = (\<lambda>x. Some (Decimal (f_to_i32 x) 0)), dl_round = (\<lambda>d n r. d), dl_normalize = (\<lambda>d. d),
     dl_mul = (\<lambda>a b. Inr (Decimal (dec_mantissa a * dec_mantissa b) (dec_scale a + dec_scale b))),
     dl_text = (\<lambda>d. show_int (dec_mantissa d)), dl_log10 = (\<lambda>x. lit 3)\<rparr>"

fun sample_info :: "nat \<Rightarrow> json \<Rightarrow> http_reply" where
  "sample_info t req = Http_reply 200 (Some
     (case as_str (jget req ''type'') of
        Some k \<Rightarrow>
          if k = ''userRole'' then JObj [(''role'', JStr ''user'')]
          else if k = ''meta'' then
            JObj [(''universe'', JArr [JObj [(''name'', JStr ''ETH''), (''szDecimals'', JNum (PosInt 4)), (''maxLeverage'', JNum (PosInt 25))]])]
          else if k = ''l2Book'' then
            JObj [(''levels'', JArr [JArr [JObj [(''px'', JNum (Float (Fin 20)))]], JArr [JObj [(''px'', JNum (Float (Fin 21)))]]]), (''time'', JNum (PosInt 1000))]
          else if k = ''userAbstraction'' then JStr ''default''
          else if k = ''clearinghouseState'' then
            JObj [(''assetPositions'', JArr []), (''marginSummary'', JObj [(''accountValue'', JNum (Float (Fin 21)))]), (''withdrawable'', JNum (Float (Fin 20)))]
          else if k = ''openOrders'' then JArr []
          else JObj [(''status'', JStr ''order''), (''order'', JObj [(''status'', JStr ''filled''),
            (''order'', JObj [(''oid'', JNum (PosInt 7)), (''cloid'', JStr ''0xaaaaaaaaaaaaaaaaaaaaaaaaaaaaaaaa'')])])]
      | None \<Rightarrow> JNull))"

definition sample_venue :: venue where
  "sample_venue = \<lparr>vn_info = sample_info,
     vn_post = (\<lambda>t req. Http_reply 200 (Some (JObj [(''status'', JStr ''ok''), (''response'', JObj [(''type'', JStr ''order''),
       (''data'', JObj [(''statuses'', JArr [JObj [(''resting'', JObj [(''oid'', JNum (PosInt 7))])]])])])]))),
     vn_sign = (\<lambda>a v n e m. Inr (JStr ''signature'')), vn_address = Inr, vn_env = (\<lambda>k. None), vn_signer_key = (\<lambda>k. Inr ''0xab'')\<rparr>"

definition sample_exchange_cfg :: hyperliquid_config where
  "sample_exchange_cfg = \<lparr>hc_http_url = ''https://api.hyperliquid.xyz'', hc_ws_url = ''wss://api.hyperliquid.xyz/ws'',
     hc_mainnet = True, hc_coins = [''ETH''], hc_hedge_coin = ''ETH'', hc_private_key_env = ''HL'', hc_account = Some ''0xab'',
     hc_vault = None, hc_leverage = 2, hc_cross_margin = False, hc_maker_wait_seconds = 5, hc_emergency_slippage_bps = 20\<rparr>"

definition sample_client :: client where
  "sample_client = \<lparr>cl_cfg = sample_exchange_cfg, cl_signer = Some ''0xab'', cl_http = sample_venue,
     cl_host = sample_host\<lparr>ho_uuid := (\<lambda>t. ''aaaaaaaaaaaaaaaaaaaaaaaaaaaaaaaa'')\<rparr>, cl_decimal = sample_decimal\<rparr>"

definition sample_id :: string where
  "sample_id = ''0xaaaaaaaaaaaaaaaaaaaaaaaaaaaaaaaa''"

lemma run_of: "f s = (r, snd (f s)) \<longleftrightarrow> fst (f s) = r"
  by (cases "f s") auto

section \<open>Sending\<close>

definition sample_trades :: "trade_op list" where
  "sample_trades = [T_exchange (sample_action sample_id), T_exchange (sample_action sample_id)]"

lemma sample_sent: "sent_ids (snd (run_ops (trade_step sample_client cfg0) sample_trades sample_store)) = [sample_id]"
  by code_simp

theorem no_order_sent_twice_witness:
  "validate_new_ids sample_host (sample_action sample_id)
     (snd (run_ops (trade_step sample_client cfg0) sample_trades sample_store)) \<noteq> Inr ()"
proof -
  let ?s = "snd (run_ops (trade_step sample_client cfg0) sample_trades sample_store)"
  have "sample_id \<in> set (sent_ids ?s)" by (simp add: sample_sent)
  moreover have "sample_id \<in> set (action_ids (sample_action sample_id))" by code_simp
  ultimately show ?thesis
    using no_order_sent_twice [OF surj_run [OF refl], of sample_store sample_client cfg0 sample_trades sample_host]
    by (simp add: sample_store_def)
qed

definition sample_busy :: store where
  "sample_busy = put_doc ''pending.json'' (Doc_json (JObj [])) sample_store"

theorem pending_blocks_sending_witness:
  "sv_sent (snd (run_ops (trade_step sample_client cfg0) (T_hedge 1 True # sample_trades) sample_busy)) = []"
proof -
  have "store_pending sample_busy = Inr (Some (JObj []))" by (simp add: sample_busy_def store_pending_def)
  from pending_blocks_sending [OF surj_run [OF refl] _ this, where c = sample_client and st = cfg0 and xs = "T_hedge 1 True # sample_trades"]
  show ?thesis by (simp add: sample_trades_def sample_busy_def sample_store_def)
qed

theorem write_ahead_witness:
  "\<exists>req. sv_sent (snd (exchange_inner sample_client (sample_action sample_id) None sample_store)) = [req]
     \<and> jget req ''action'' = sample_action sample_id"
proof -
  let ?r = "exchange_inner sample_client (sample_action sample_id) None sample_store"
  have "sv_sent (snd ?r) \<noteq> sv_sent sample_store" by code_simp
  from write_ahead [OF surjective_pairing this] show ?thesis by (auto simp: sample_store_def)
qed

section \<open>The ledger and the hedge\<close>

lemma sample_store_ok: "store_ok sample_store"
proof -
  have "ledger_of sample_store = Inr []" by code_simp
  then show ?thesis by (simp add: store_ok_def ledger_ok_def)
qed

theorem ledger_typed_witness: "store_ok (snd (run_ops (trade_step sample_client cfg0) sample_trades sample_store))"
  by (rule ledger_typed [OF surj_run [OF refl] sample_store_ok])

definition sample_open :: store where
  "sample_open = snd (exchange sample_client (sample_action sample_id) sample_store)"

lemma sample_sync: "fst (sync_orders sample_client True sample_open) = Inr ()"
  by code_simp

theorem sync_settles_witness:
  "\<exists>m. ledger_of (snd (sync_orders sample_client True sample_open)) = Inr m \<and> (\<forall>o1 \<in> set (map snd m). or_terminal o1)"
proof -
  have "store_ok sample_open"
    using keepsD [OF ok_trade.keeps_exchange surjective_pairing] sample_store_ok by (auto simp: sample_open_def exchange_def ok_kept_def)
  moreover have "sync_orders sample_client True sample_open = (Inr (), snd (sync_orders sample_client True sample_open))"
    by (simp add: run_of sample_sync)
  ultimately show ?thesis using sync_settles by blast
qed

text \<open>The same exchange, whose reply to the order is lost.\<close>

definition sample_lossy :: client where
  "sample_lossy = sample_client\<lparr>cl_http := sample_venue\<lparr>vn_post := (\<lambda>t req. Http_lost)\<rparr>\<rparr>"

definition sample_account :: json where
  "sample_account = (case fst (collateral_account sample_lossy sample_store) of Inr v \<Rightarrow> v | Inl _ \<Rightarrow> JNull)"

definition sample_s1 :: store where
  "sample_s1 = snd (collateral_account sample_lossy sample_store)"

definition sample_s2 :: store where
  "sample_s2 = snd (client_book sample_lossy ''ETH'' sample_s1)"

definition sample_s3 :: store where
  "sample_s3 = snd (check_fresh sample_lossy cfg0 1000 sample_s2)"

lemma sbind_go: "m s = (Inr x, s') \<Longrightarrow> sbind m k s = k x s'"
  by (simp add: sbind_eq)

lemma sample_answers_fst:
  "fst (collateral_account sample_lossy sample_store) = Inr sample_account"
  "fst (client_book sample_lossy ''ETH'' sample_s1) = Inr (Fin 20, Fin 21, 1000)"
  "fst (check_fresh sample_lossy cfg0 1000 sample_s2) = Inr ()"
  by code_simp+

lemma sample_reads:
  "collateral_account sample_lossy sample_store = (Inr sample_account, sample_s1)"
  "position_size sample_account ''ETH'' = Inr 0"
  "client_book sample_lossy ''ETH'' sample_s1 = (Inr (Fin 20, Fin 21, 1000), sample_s2)"
  "check_fresh sample_lossy cfg0 1000 sample_s2 = (Inr (), sample_s3)"
  "hedge_budget sample_lossy cfg0 sample_account 1 1 (Fin (41 / 2)) = Inr ()"
  using sample_answers_fst by (simp_all add: prod_eq_iff sample_s1_def sample_s2_def sample_s3_def) (code_simp+)

lemma sample_hedge:
  "hedge sample_lossy cfg0 1 False sample_store
    = hedge_execute sample_lossy cfg0 1 False (- 0) (Fin 20) (Fin 21) 1000 sample_s3"
proof -
  have v: "is_finite (1 :: f64) \<and> 0 \<le> (1 :: f64)" "(0 :: f64) \<le> 0" "(1 :: f64) - (- 0) = 1"
    "(Fin 20 + Fin 21) / lit 2 = Fin (41 / 2)" "\<not> 1 * Fin (41 / 2) < lit 0.01"
    "\<not> \<bar>1\<bar> * Fin (41 / 2) < hedge_threshold cfg0 1 False" "hc_hedge_coin (cl_cfg sample_lossy) = ''ETH''"
    by code_simp+
  show ?thesis
    unfolding hedge_def hedge_decide_def Let_def v(7)
    by (simp only: v(1,2) sample_reads sbind_go sbind_pure ensure_def if_True prod.case v(3,4) if_not_P [OF v(5)] if_not_P [OF v(6)]
        rbind_simps refl simp_thms)
qed

theorem hedge_guarded_witness:
  "\<exists>req. sv_sent (snd (hedge sample_lossy cfg0 1 False sample_store)) = [req] \<and> order_guard sample_lossy (jget req ''action'')"
proof -
  let ?r = "hedge sample_lossy cfg0 1 False sample_store"
  have n: "length (sv_sent (snd ?r)) = 1" unfolding sample_hedge by code_simp
  then have "sv_sent (snd ?r) \<noteq> sv_sent sample_store" by (auto simp: sample_store_def)
  from hedge_guarded [OF surjective_pairing this] obtain l where
    "sv_sent (snd ?r) = l" "\<forall>req \<in> set l. order_guard sample_lossy (jget req ''action'')"
    by (auto simp: sample_store_def)
  with n show ?thesis by (cases l) auto
qed

section \<open>The account\<close>

theorem account_normalized_witness:
  "\<exists>x :: collateral. co_equity_usdc x = Fin 21 \<and> co_available_short_usdc x = Fin 20 \<and> 0 \<le> co_available_buy_usdc x"
proof -
  let ?perp = "JObj [(''assetPositions'', JArr []), (''marginSummary'', JObj [(''accountValue'', JNum (Float (Fin 21)))]), (''withdrawable'', JNum (Float (Fin 20)))]"
  obtain v where v: "normalize 1000 ''default'' ''ETH'' ?perp None None = Inr v"
  proof -
    have "case normalize 1000 ''default'' ''ETH'' ?perp None None of Inr v \<Rightarrow> True | Inl e \<Rightarrow> False" by code_simp
    then show ?thesis using that by (auto split: sum.splits)
  qed
  have n: "num (jget_path ?perp [''marginSummary'', ''accountValue'']) = Inr (Fin 21)" "num (jget ?perp ''withdrawable'') = Inr (Fin 20)"
    by code_simp+
  from account_normalized [OF v] show ?thesis
  proof (elim exE conjE, goal_cases)
    case (1 x)
    from 1(7) 1(5) show ?case unfolding n by (intro exI [of _ x]) simp
  qed
qed

end
