(* ===== verification/Evm_Gate.thy ===== *)
theory Evm_Gate
  imports Json
begin

text \<open>
  The gate through which every request to one node passes (\<open>src/evm/rpc/limit.rs\<close>): a least spacing
  between requests, one request in flight, and a shared back-off after the node limited a request.
  Instants are nanoseconds from an origin before the process; a span is a number of nanoseconds.
\<close>

type_synonym instant = nat
type_synonym span = nat

definition secs :: "nat \<Rightarrow> span" where
  "secs n = n * 10 ^ 9"

definition millis :: "nat \<Rightarrow> span" where
  "millis n = n * 10 ^ 6"

text \<open>An \<open>Instant\<close> holds a signed 64-bit count of seconds; beyond it addition aborts.\<close>

definition instant_limit :: instant where
  "instant_limit = secs (2 ^ 63)"

definition instant_add :: "instant \<Rightarrow> span \<Rightarrow> instant res" where
  "instant_add t d =
     (if t + d < instant_limit then Inr (t + d) else Inl (Panic ''overflow when adding duration to instant''))"

record gate =
  ga_spacing :: span
  ga_next :: instant
  ga_cooldown :: "instant option"
  ga_failures :: u32
  ga_healthy_since :: "instant option"
  ga_started :: u64

definition gate_new :: "span \<Rightarrow> instant \<Rightarrow> gate" where
  "gate_new spacing now = \<lparr>ga_spacing = spacing, ga_next = now, ga_cooldown = None, ga_failures = 0,
     ga_healthy_since = None, ga_started = 0\<rparr>"

definition request_started :: "gate \<Rightarrow> gate" where
  "request_started g = g\<lparr>ga_started := ga_started g + 1\<rparr>"

text \<open>The running back-off, if any: the instant it ends.\<close>

definition gate_cooldown :: "instant \<Rightarrow> gate \<Rightarrow> instant option" where
  "gate_cooldown now g =
     (case ga_cooldown g of None \<Rightarrow> None | Some until \<Rightarrow> if now < until then Some until else None)"

definition gate_remaining :: "instant \<Rightarrow> gate \<Rightarrow> span" where
  "gate_remaining now g = (case gate_cooldown now g of None \<Rightarrow> 0 | Some until \<Rightarrow> until - now)"

definition backoff_secs :: "u32 \<Rightarrow> u64" where
  "backoff_secs failures = wmin (push_bit (unat (wmin failures 4)) 30) 300"

definition gate_limited :: "span option \<Rightarrow> instant \<Rightarrow> gate \<Rightarrow> (instant \<times> gate) res" where
  "gate_limited retry_after now g =
     (let backoff = secs (unat (backoff_secs (ga_failures g)));
          delay = max backoff (case retry_after of None \<Rightarrow> 0 | Some d \<Rightarrow> d) in
      rbind (instant_add now delay) (\<lambda>until.
      Inr (until, g\<lparr>ga_failures := sat_add (ga_failures g) 1, ga_healthy_since := None, ga_cooldown := Some until\<rparr>)))"

definition gate_succeeded :: "instant \<Rightarrow> gate \<Rightarrow> gate" where
  "gate_succeeded now g =
     (let healthy = (case ga_healthy_since g of None \<Rightarrow> now | Some t \<Rightarrow> t) in
      g\<lparr>ga_cooldown := None, ga_healthy_since := Some healthy,
        ga_failures := (if secs 60 \<le> now - healthy then 0 else ga_failures g)\<rparr>)"

section \<open>One gate per endpoint\<close>

text \<open>
  The URL library is a parameter: it splits a text into the scheme and the rest without the fragment.
  The two schemes of one endpoint share a gate.
\<close>

record parsed_url =
  pu_scheme :: string
  pu_rest :: string

definition gate_key :: "(string \<Rightarrow> parsed_url res) \<Rightarrow> string \<Rightarrow> (string \<times> string) res" where
  "gate_key parse url =
     rbind (parse url) (\<lambda>u.
     Inr (if pu_scheme u = ''ws'' then ''http'' else if pu_scheme u = ''wss'' then ''https'' else pu_scheme u, pu_rest u))"

type_synonym gates = "string \<times> string \<Rightarrow> gate option"

definition gate_shared ::
    "(string \<Rightarrow> parsed_url res) \<Rightarrow> string \<Rightarrow> span \<Rightarrow> instant \<Rightarrow> gates \<Rightarrow> ((string \<times> string) \<times> gates) res" where
  "gate_shared parse url spacing now gates =
     rbind (gate_key parse url) (\<lambda>k.
     let g = (case gates k of None \<Rightarrow> gate_new spacing now | Some g \<Rightarrow> g) in
     Inr (k, gates(k \<mapsto> g\<lparr>ga_spacing := max (ga_spacing g) spacing\<rparr>)))"

section \<open>The header that states a wait\<close>

text \<open>
  \<open>date\<close> reads an HTTP date as nanoseconds of the wall clock. \<open>u64::from_str\<close> takes an optional plus
  sign and digits.
\<close>

fun digits_u64 :: "u64 \<Rightarrow> string \<Rightarrow> u64 option" where
  "digits_u64 acc [] = Some acc"
| "digits_u64 acc (c # cs) =
     (case digit_val c of
        None \<Rightarrow> None
      | Some d \<Rightarrow>
          (case checked_mul acc 10 of
             None \<Rightarrow> None
           | Some a \<Rightarrow> (case checked_add a (word_of_int d) of None \<Rightarrow> None | Some b \<Rightarrow> digits_u64 b cs)))"

definition parse_u64 :: "string \<Rightarrow> u64 option" where
  "parse_u64 s =
     (case s of
        [] \<Rightarrow> None
      | c # cs \<Rightarrow> if c = CHR ''+'' then (if cs = [] then None else digits_u64 0 cs) else digits_u64 0 s)"

definition is_space :: "char \<Rightarrow> bool" where
  "is_space c \<longleftrightarrow> (of_char c :: nat) \<in> {9, 10, 11, 12, 13, 32}"

definition trim :: "string \<Rightarrow> string" where
  "trim s = rev (dropWhile is_space (rev (dropWhile is_space s)))"

definition retry_after :: "(string \<Rightarrow> nat option) \<Rightarrow> nat \<Rightarrow> instant \<Rightarrow> string option \<Rightarrow> span option" where
  "retry_after date wall now value =
     (case value of
        None \<Rightarrow> None
      | Some v \<Rightarrow>
          (case (case parse_u64 (trim v) of
                   Some n \<Rightarrow> Some (secs (unat n))
                 | None \<Rightarrow> (case date (trim v) of None \<Rightarrow> None | Some t \<Rightarrow> Some (t - wall))) of
             None \<Rightarrow> None
           | Some delay \<Rightarrow> if now + delay < instant_limit then Some delay else None))"

section \<open>Tasks at the gate\<close>

text \<open>
  What a task does between two points at which it may be suspended is one step. A task waits for the
  permit (\<open>Queued\<close>), sleeps until the gate's next instant with the permit (\<open>Sleeping\<close>), and has its
  request in flight with the permit (\<open>Flying\<close>). The deadline of a request may drop a task that waits
  or sleeps. \<open>gs_sent\<close> is the observer's record of the requests sent: when, and with which spacing;
  \<open>gs_blocked\<close> that of the back-offs: from when until when.
\<close>

datatype task_phase = Idle | Queued | Sleeping instant | Flying

record gate_sys =
  gs_now :: instant
  gs_gate :: gate
  gs_phase :: "nat \<Rightarrow> task_phase"
  gs_permit :: "nat option"
  gs_sent :: "(instant \<times> span) list"
  gs_blocked :: "(instant \<times> instant) list"

definition gate_start :: "span \<Rightarrow> instant \<Rightarrow> gate_sys" where
  "gate_start spacing now = \<lparr>gs_now = now, gs_gate = gate_new spacing now, gs_phase = (\<lambda>i. Idle),
     gs_permit = None, gs_sent = [], gs_blocked = []\<rparr>"

datatype gate_op =
    G_wait span
  | G_widen span
  | G_enter nat
  | G_permit nat
  | G_wake nat
  | G_drop nat
  | G_limited nat "span option"
  | G_succeeded nat
  | G_failed nat

definition release :: "nat \<Rightarrow> gate_sys \<Rightarrow> gate_sys" where
  "release i s = s\<lparr>gs_phase := (gs_phase s)(i := Idle), gs_permit := None\<rparr>"

definition in_phase :: "nat \<Rightarrow> task_phase \<Rightarrow> gate_sys \<Rightarrow> gate_sys" where
  "in_phase i p s = s\<lparr>gs_phase := (gs_phase s)(i := p)\<rparr>"

text \<open>\<open>acquire\<close> up to the wait for the permit, from the permit to the sleep, and from the sleep on.\<close>

definition acquire_enter :: "nat \<Rightarrow> gate_sys \<Rightarrow> gate_sys" where
  "acquire_enter i s =
     (case gate_cooldown (gs_now s) (gs_gate s) of Some until \<Rightarrow> s | None \<Rightarrow> in_phase i Queued s)"

definition acquire_permit :: "nat \<Rightarrow> gate_sys \<Rightarrow> gate_sys" where
  "acquire_permit i s =
     (case gate_cooldown (gs_now s) (gs_gate s) of
        Some until \<Rightarrow> release i s
      | None \<Rightarrow> in_phase i (Sleeping (ga_next (gs_gate s))) (s\<lparr>gs_permit := Some i\<rparr>))"

definition acquire_wake :: "nat \<Rightarrow> gate_sys \<Rightarrow> gate_sys option" where
  "acquire_wake i s =
     (let g = gs_gate s; now = gs_now s in
      case gate_cooldown now g of
        Some until \<Rightarrow> Some (release i s)
      | None \<Rightarrow>
          (case instant_add now (ga_spacing g) of
             Inl e \<Rightarrow> None
           | Inr t \<Rightarrow> Some (in_phase i Flying
               (s\<lparr>gs_gate := request_started (g\<lparr>ga_next := t\<rparr>), gs_sent := gs_sent s @ [(now, ga_spacing g)]\<rparr>))))"

text \<open>
  One step; \<open>None\<close> where the step is not possible or aborts. A request that ends was limited,
  succeeded or failed otherwise; its permit is returned after the gate was told.
\<close>

fun gate_do :: "gate_op \<Rightarrow> gate_sys \<Rightarrow> gate_sys option" where
  "gate_do (G_wait d) s = Some (s\<lparr>gs_now := gs_now s + d\<rparr>)"
| "gate_do (G_widen d) s = Some (s\<lparr>gs_gate := (gs_gate s)\<lparr>ga_spacing := max (ga_spacing (gs_gate s)) d\<rparr>\<rparr>)"
| "gate_do (G_enter i) s = (if gs_phase s i = Idle then Some (acquire_enter i s) else None)"
| "gate_do (G_permit i) s =
     (if gs_phase s i = Queued \<and> gs_permit s = None then Some (acquire_permit i s) else None)"
| "gate_do (G_wake i) s =
     (case gs_phase s i of Sleeping t \<Rightarrow> if t \<le> gs_now s then acquire_wake i s else None | _ \<Rightarrow> None)"
| "gate_do (G_drop i) s =
     (case gs_phase s i of
        Queued \<Rightarrow> Some (in_phase i Idle s)
      | Sleeping t \<Rightarrow> Some (release i s)
      | _ \<Rightarrow> None)"
| "gate_do (G_limited i hint) s =
     (if gs_phase s i = Flying
      then (case gate_limited hint (gs_now s) (gs_gate s) of
              Inl e \<Rightarrow> None
            | Inr (until, g) \<Rightarrow>
                Some (release i (s\<lparr>gs_gate := g, gs_blocked := gs_blocked s @ [(gs_now s, until)]\<rparr>)))
      else None)"
| "gate_do (G_succeeded i) s =
     (if gs_phase s i = Flying then Some (release i (s\<lparr>gs_gate := gate_succeeded (gs_now s) (gs_gate s)\<rparr>)) else None)"
| "gate_do (G_failed i) s = (if gs_phase s i = Flying then Some (release i s) else None)"

fun gate_run :: "gate_op list \<Rightarrow> gate_sys \<Rightarrow> gate_sys option" where
  "gate_run [] s = Some s"
| "gate_run (x # xs) s = (case gate_do x s of None \<Rightarrow> None | Some s' \<Rightarrow> gate_run xs s')"

inductive gate_step :: "gate_sys \<Rightarrow> gate_sys \<Rightarrow> bool" where
  "gate_do x s = Some s' \<Longrightarrow> gate_step s s'"

inductive gate_reachable :: "span \<Rightarrow> instant \<Rightarrow> gate_sys \<Rightarrow> bool" for spacing t0 where
  start: "gate_reachable spacing t0 (gate_start spacing t0)"
| step: "gate_reachable spacing t0 s \<Longrightarrow> gate_step s s' \<Longrightarrow> gate_reachable spacing t0 s'"

end
