(* ===== verification/Evm_Gate_Props.thy ===== *)
theory Evm_Gate_Props
  imports Evm_Gate
begin

text \<open>
  What the gate guarantees for every interleaving of the tasks, of deadlines that drop them and of the
  node's answers: the spacing, the back-off, and that nobody waits for ever.
\<close>

section \<open>The invariant\<close>

definition open_from :: "gate \<Rightarrow> instant" where
  "open_from g = max (ga_next g) (case ga_cooldown g of None \<Rightarrow> 0 | Some c \<Rightarrow> c)"

definition permit_inv :: "gate_sys \<Rightarrow> bool" where
  "permit_inv s \<longleftrightarrow> (\<forall>i. gs_phase s i \<notin> {Idle, Queued} \<longleftrightarrow> gs_permit s = Some i)"

text \<open>A sleeping task knows the gate's next instant; with a request in flight no back-off outlasts it.\<close>

definition sleep_inv :: "gate_sys \<Rightarrow> bool" where
  "sleep_inv s \<longleftrightarrow>
     (\<forall>i t. gs_phase s i = Sleeping t \<longrightarrow> t = ga_next (gs_gate s))
     \<and> (\<forall>i c. gs_phase s i = Flying \<longrightarrow> ga_cooldown (gs_gate s) = Some c \<longrightarrow> c \<le> gs_now s \<and> c \<le> ga_next (gs_gate s))"

definition sent_inv :: "span \<Rightarrow> gate_sys \<Rightarrow> bool" where
  "sent_inv d s \<longleftrightarrow> d \<le> ga_spacing (gs_gate s)
     \<and> sorted_wrt (\<lambda>x y. fst x + snd x \<le> fst y) (gs_sent s)
     \<and> (\<forall>(t, w) \<in> set (gs_sent s). t \<le> gs_now s \<and> d \<le> w \<and> t + w \<le> ga_next (gs_gate s))"

definition blocked_inv :: "gate_sys \<Rightarrow> bool" where
  "blocked_inv s \<longleftrightarrow>
     (\<forall>(a, b) \<in> set (gs_blocked s). a + secs 30 \<le> b \<and> a \<le> gs_now s
        \<and> (gs_now s < b \<longrightarrow> (\<exists>c. ga_cooldown (gs_gate s) = Some c \<and> b \<le> c))
        \<and> (\<forall>(t, w) \<in> set (gs_sent s). t \<le> a \<or> b \<le> t))"

definition gate_inv :: "span \<Rightarrow> gate_sys \<Rightarrow> bool" where
  "gate_inv d s \<longleftrightarrow> permit_inv s \<and> sleep_inv s \<and> sent_inv d s \<and> blocked_inv s"

lemmas gate_invs = permit_inv_def sleep_inv_def sent_inv_def blocked_inv_def

lemma cooldown_over: "gate_cooldown now g = None \<longleftrightarrow> (\<forall>c. ga_cooldown g = Some c \<longrightarrow> c \<le> now)"
  by (auto simp: gate_cooldown_def not_less split: option.splits)

lemma backoff_at_least: "30 \<le> unat (backoff_secs f)"
proof -
  define n where "n = unat (wmin f 4)"
  have "n \<le> 4" by (simp add: n_def unat_wmin)
  then have "n \<in> {0, 1, 2, 3, 4}" by auto
  then have "30 \<le> unat (wmin (push_bit n 30) (300 :: u64))" by (auto simp: wmin_def push_bit_eq_mult)
  then show ?thesis by (simp add: backoff_secs_def n_def)
qed

lemma instant_add_Inr: "instant_add t d = Inr u \<longleftrightarrow> u = t + d \<and> t + d < instant_limit"
  by (auto simp: instant_add_def)

lemma limited_fields:
  assumes "gate_limited hint now g = Inr (until, g')"
  shows "ga_cooldown g' = Some until" "ga_next g' = ga_next g" "ga_spacing g' = ga_spacing g" "now + secs 30 \<le> until"
proof -
  have b: "secs 30 \<le> secs (unat (backoff_secs (ga_failures g)))"
    using backoff_at_least [of "ga_failures g"] by (simp add: secs_def)
  show "ga_cooldown g' = Some until" "ga_next g' = ga_next g" "ga_spacing g' = ga_spacing g" "now + secs 30 \<le> until"
    using assms b by (auto simp: gate_limited_def Let_def instant_add_Inr)
qed

lemma wake_cases:
  assumes "acquire_wake i s = Some s'"
  obtains (refused) until where "gate_cooldown (gs_now s) (gs_gate s) = Some until" "s' = release i s"
  | (sent) "gate_cooldown (gs_now s) (gs_gate s) = None" "gs_now s + ga_spacing (gs_gate s) < instant_limit"
     "s' = in_phase i Flying (s\<lparr>gs_gate := request_started ((gs_gate s)\<lparr>ga_next := gs_now s + ga_spacing (gs_gate s)\<rparr>),
            gs_sent := gs_sent s @ [(gs_now s, ga_spacing (gs_gate s))]\<rparr>)"
  using assms unfolding acquire_wake_def
  by (auto simp: Let_def instant_add_Inr split: option.splits sum.splits)

text \<open>The steps of a task, with what each needs.\<close>

inductive_cases gate_stepE: "gate_step s s'"

lemma gate_do_cases:
  assumes "gate_do x s = Some s'" "sleep_inv s"
  obtains (wait) d where "s' = s\<lparr>gs_now := gs_now s + d\<rparr>"
  | (widen) d where "s' = s\<lparr>gs_gate := (gs_gate s)\<lparr>ga_spacing := max (ga_spacing (gs_gate s)) d\<rparr>\<rparr>"
  | (same) "s' = s"
  | (phase) i p where "gs_phase s i \<in> {Idle, Queued}" "p \<in> {Idle, Queued}" "s' = in_phase i p s"
  | (sleep) i where "gs_phase s i = Queued" "gs_permit s = None" "gate_cooldown (gs_now s) (gs_gate s) = None"
      "s' = in_phase i (Sleeping (ga_next (gs_gate s))) (s\<lparr>gs_permit := Some i\<rparr>)"
  | (refused) i where "gs_phase s i = Queued" "gs_permit s = None" "s' = release i s"
  | (ended) i where "gs_phase s i \<notin> {Idle, Queued}" "s' = release i s"
  | (sent) i where "gs_phase s i = Sleeping (ga_next (gs_gate s))" "gate_cooldown (gs_now s) (gs_gate s) = None"
      "ga_next (gs_gate s) \<le> gs_now s"
      "s' = in_phase i Flying (s\<lparr>gs_gate := request_started ((gs_gate s)\<lparr>ga_next := gs_now s + ga_spacing (gs_gate s)\<rparr>),
            gs_sent := gs_sent s @ [(gs_now s, ga_spacing (gs_gate s))]\<rparr>)"
  | (limited) i hint until g where "gs_phase s i = Flying" "gate_limited hint (gs_now s) (gs_gate s) = Inr (until, g)"
      "s' = release i (s\<lparr>gs_gate := g, gs_blocked := gs_blocked s @ [(gs_now s, until)]\<rparr>)"
  | (succeeded) i where "gs_phase s i = Flying" "s' = release i (s\<lparr>gs_gate := gate_succeeded (gs_now s) (gs_gate s)\<rparr>)"
proof (cases x)
  case (G_enter i)
  then show thesis using assms same phase [of i Queued] by (auto simp: acquire_enter_def split: if_splits option.splits)
next
  case (G_permit i)
  then show thesis using assms refused [of i] sleep [of i] by (auto simp: acquire_permit_def split: if_splits option.splits)
next
  case (G_wake i)
  then obtain t where t: "gs_phase s i = Sleeping t" "t \<le> gs_now s" "acquire_wake i s = Some s'"
    using assms by (auto split: task_phase.splits if_splits)
  have n: "t = ga_next (gs_gate s)" using t(1) assms(2) by (auto simp: sleep_inv_def)
  from t(3) show thesis
  proof (cases rule: wake_cases)
    case refused
    then show thesis using ended [of i] t(1) by simp
  next
    case sent
    then show thesis using that(8) [of i] t n by auto
  qed
next
  case (G_drop i)
  then show thesis using assms phase [of i Idle] ended [of i] by (auto split: task_phase.splits)
next
  case (G_limited i hint)
  then show thesis using assms limited [of i hint] by (auto split: if_splits sum.splits)
next
  case (G_failed i)
  then show thesis using assms ended [of i] by (auto split: if_splits)
next
  case (G_succeeded i)
  then show thesis using assms succeeded [of i] by (auto split: if_splits)
qed (use assms wait widen in auto)

lemma permit_holder: "permit_inv s \<Longrightarrow> gs_phase s i \<notin> {Idle, Queued} \<Longrightarrow> gs_permit s = Some i"
  by (simp add: permit_inv_def)

lemma other_phases: "permit_inv s \<Longrightarrow> gs_permit s = Some j \<Longrightarrow> k \<noteq> j \<Longrightarrow> gs_phase s k \<in> {Idle, Queued}"
  using permit_holder [of s k] by auto

lemma gate_invE:
  assumes "gate_inv d s" obtains "permit_inv s" "sleep_inv s" "sent_inv d s" "blocked_inv s"
  using assms by (simp add: gate_inv_def)

lemma no_cooldown:
  "sleep_inv s \<Longrightarrow> gs_phase s j = Flying \<Longrightarrow> ga_cooldown (gs_gate s) = Some c \<Longrightarrow> c \<le> gs_now s"
  unfolding sleep_inv_def by blast

text \<open>With a request in flight every recorded back-off is over.\<close>

lemma blocked_over:
  assumes "sleep_inv s" "blocked_inv s" "gs_phase s j = Flying" "(a, b) \<in> set (gs_blocked s)"
  shows "b \<le> gs_now s"
proof (rule ccontr)
  assume "\<not> b \<le> gs_now s"
  then obtain c where "ga_cooldown (gs_gate s) = Some c" "b \<le> c"
    using assms(2,4) unfolding blocked_inv_def by force
  then show False using no_cooldown [OF assms(1,3)] \<open>\<not> b \<le> gs_now s\<close> by force
qed

text \<open>The end of a flight that leaves a gate \<open>g\<close> with the same next instant and spacing.\<close>

lemma inv_landed:
  assumes "gate_inv d s" "gs_phase s j = Flying" "ga_next g = ga_next (gs_gate s)" "ga_spacing g = ga_spacing (gs_gate s)"
    and "s' = release j (s\<lparr>gs_gate := g, gs_blocked := gs_blocked s @ l\<rparr>)"
    and "\<forall>(a, b) \<in> set l. a = gs_now s \<and> a + secs 30 \<le> b \<and> ga_cooldown g = Some b"
  shows "gate_inv d s'"
proof -
  from assms(1) have i: "permit_inv s" "sleep_inv s" "sent_inv d s" "blocked_inv s" by (auto elim: gate_invE)
  have h: "gs_permit s = Some j" by (rule permit_holder [OF i(1)]) (simp add: assms(2))
  note other = other_phases [OF i(1) h]
  have "permit_inv s'" using other by (auto simp: assms(5) permit_inv_def release_def)
  moreover have "sleep_inv s'" using other by (fastforce simp: assms(5) sleep_inv_def release_def)
  moreover have "sent_inv d s'" using i(3) by (simp add: assms(3-5) sent_inv_def release_def)
  moreover have "blocked_inv s'" unfolding blocked_inv_def
  proof (intro ballI, clarify)
    fix a b assume "(a, b) \<in> set (gs_blocked s')"
    then consider (old) "(a, b) \<in> set (gs_blocked s)" | (new) "(a, b) \<in> set l" by (auto simp: assms(5) release_def)
    then show "a + secs 30 \<le> b \<and> a \<le> gs_now s' \<and> (gs_now s' < b \<longrightarrow> (\<exists>c. ga_cooldown (gs_gate s') = Some c \<and> b \<le> c))
      \<and> (\<forall>(t, w) \<in> set (gs_sent s'). t \<le> a \<or> b \<le> t)"
    proof cases
      case old
      then have "a + secs 30 \<le> b" "a \<le> gs_now s" "\<forall>(t, w) \<in> set (gs_sent s). t \<le> a \<or> b \<le> t"
        using i(4) unfolding blocked_inv_def by blast+
      then show ?thesis using blocked_over [OF i(2,4) assms(2) old] by (simp add: assms(5) release_def)
    next
      case new
      then show ?thesis using i(3) assms(6) by (auto simp: assms(5) release_def sent_inv_def)
    qed
  qed
  ultimately show ?thesis by (simp add: gate_inv_def)
qed

text \<open>A request that leaves.\<close>

lemma inv_sent:
  assumes "gate_inv d s" "gs_phase s j = Sleeping (ga_next (gs_gate s))" "gate_cooldown (gs_now s) (gs_gate s) = None"
    "ga_next (gs_gate s) \<le> gs_now s"
    and e: "s' = in_phase j Flying (s\<lparr>gs_gate := request_started ((gs_gate s)\<lparr>ga_next := gs_now s + ga_spacing (gs_gate s)\<rparr>),
            gs_sent := gs_sent s @ [(gs_now s, ga_spacing (gs_gate s))]\<rparr>)"
  shows "gate_inv d s'"
proof -
  from assms(1) have i: "permit_inv s" "sleep_inv s" "sent_inv d s" "blocked_inv s" by (auto elim: gate_invE)
  have h: "gs_permit s = Some j" by (rule permit_holder [OF i(1)]) (simp add: assms(2))
  have "permit_inv s'" using i(1) h by (simp add: e permit_inv_def in_phase_def)
  moreover have "sleep_inv s'" unfolding sleep_inv_def
  proof (intro conjI allI impI)
    show "t = ga_next (gs_gate s')" if "gs_phase s' k = Sleeping t" for k t
      using that other_phases [OF i(1) h, of k] by (auto simp: e in_phase_def split: if_splits)
    show "c \<le> gs_now s'" "c \<le> ga_next (gs_gate s')" if "ga_cooldown (gs_gate s') = Some c" for c
      using that assms(3) by (auto simp: e in_phase_def request_started_def cooldown_over)
  qed
  moreover have "sent_inv d s'" using i(3) assms(4) unfolding e sent_inv_def in_phase_def
    by (fastforce simp: request_started_def sorted_wrt_append)
  moreover have "blocked_inv s'" using i(4) assms(3) unfolding e blocked_inv_def in_phase_def
    by (fastforce simp: request_started_def cooldown_over)
  ultimately show ?thesis by (simp add: gate_inv_def)
qed

lemma gate_stepD:
  assumes "gate_step s s'" "gate_inv d s" shows "gate_inv d s'"
proof -
  obtain x where x: "gate_do x s = Some s'" using assms(1) by (auto elim: gate_stepE)
  have i: "permit_inv s" "sleep_inv s" "sent_inv d s" "blocked_inv s" using assms(2) by (auto elim: gate_invE)
  from x i(2) show ?thesis
  proof (cases rule: gate_do_cases)
    case (wait e)
    then show ?thesis using i by (fastforce simp: gate_inv_def gate_invs)
  next
    case (widen e)
    then show ?thesis using i by (fastforce simp: gate_inv_def gate_invs)
  next
    case (limited j hint until g)
    show ?thesis using limited_fields [OF limited(2)] by (intro inv_landed [OF assms(2) limited(1) _ _ limited(3)]) auto
  next
    case (succeeded j)
    show ?thesis by (rule inv_landed [OF assms(2) succeeded(1), where l = "[]"]) (simp_all add: succeeded(2) gate_succeeded_def Let_def)
  next
    case (sent j)
    then show ?thesis by (rule inv_sent [OF assms(2)])
  next
    case (phase j p)
    then show ?thesis using i by (auto simp: gate_inv_def gate_invs in_phase_def)
  next
    case (sleep j)
    then show ?thesis using i by (auto simp: gate_inv_def gate_invs in_phase_def)
  next
    case (refused j)
    then show ?thesis using i by (auto simp: gate_inv_def gate_invs release_def)
  next
    case (ended j)
    then show ?thesis using i by (auto simp: gate_inv_def gate_invs release_def)
  qed (use assms(2) in simp)
qed

lemma gate_reachable_inv: "gate_reachable d t0 s \<Longrightarrow> gate_inv d s"
proof (induction rule: gate_reachable.induct)
  case start
  show ?case by (simp add: gate_inv_def gate_invs gate_start_def gate_new_def)
next
  case (step s s')
  then show ?case by (simp add: gate_stepD)
qed

lemma gate_run_reachable:
  "gate_reachable d t0 s \<Longrightarrow> gate_run xs s = Some s' \<Longrightarrow> gate_reachable d t0 s'"
proof (induction xs arbitrary: s)
  case (Cons x xs)
  then obtain s1 where "gate_do x s = Some s1" "gate_run xs s1 = Some s'" by (auto split: option.splits)
  then show ?case using Cons gate_reachable.step gate_step.intros by blast
qed simp

text \<open>
  C16: whatever the tasks, the deadlines and the node do, requests through a gate are never closer than
  the spacing in force, at most one is in flight, and none leaves during a back-off, which lasts at
  least thirty seconds and as long as the node asked.
\<close>

theorem gate_paced:
  assumes "gate_reachable d t0 s"
  shows "(\<forall>i j. i < j \<longrightarrow> j < length (gs_sent s) \<longrightarrow> fst (gs_sent s ! i) + snd (gs_sent s ! i) \<le> fst (gs_sent s ! j))
    \<and> (\<forall>(t, w) \<in> set (gs_sent s). d \<le> w)
    \<and> (\<forall>i j. gs_phase s i = Flying \<longrightarrow> gs_phase s j = Flying \<longrightarrow> i = j)
    \<and> (\<forall>(a, b) \<in> set (gs_blocked s). a + secs 30 \<le> b \<and> (\<forall>(t, w) \<in> set (gs_sent s). t \<le> a \<or> b \<le> t))"
proof -
  have i: "permit_inv s" "sent_inv d s" "blocked_inv s"
    using gate_reachable_inv [OF assms] by (simp_all add: gate_inv_def)
  have "i = j" if "gs_phase s i = Flying" "gs_phase s j = Flying" for i j
    using permit_holder [OF i(1), of i] permit_holder [OF i(1), of j] that by simp
  moreover have "\<forall>i j. i < j \<longrightarrow> j < length (gs_sent s) \<longrightarrow> fst (gs_sent s ! i) + snd (gs_sent s ! i) \<le> fst (gs_sent s ! j)"
    using i(2) by (simp add: sent_inv_def sorted_wrt_iff_nth_less)
  moreover have "\<forall>(t, w) \<in> set (gs_sent s). d \<le> w" using i(2) by (fastforce simp: sent_inv_def)
  moreover have "\<forall>(a, b) \<in> set (gs_blocked s). a + secs 30 \<le> b \<and> (\<forall>(t, w) \<in> set (gs_sent s). t \<le> a \<or> b \<le> t)"
    using i(3) by (fastforce simp: blocked_inv_def)
  ultimately show ?thesis by blast
qed

section \<open>The abstract pacer\<close>

text \<open>
  The specification knows no permits, tasks or failure counts: an instant from which the next request
  may leave, which a sent request and a back-off move, and whether a request is in flight.
\<close>

record pacer =
  pa_now :: instant
  pa_open :: instant
  pa_busy :: bool

inductive pace :: "pacer \<Rightarrow> pacer \<Rightarrow> bool" where
  elapse: "pace p (p\<lparr>pa_now := pa_now p + d\<rparr>)"
| send: "\<not> pa_busy p \<Longrightarrow> pa_open p \<le> pa_now p \<Longrightarrow> pace p (p\<lparr>pa_open := pa_now p + d, pa_busy := True\<rparr>)"
| finish: "pa_busy p \<Longrightarrow> pace p (p\<lparr>pa_busy := False\<rparr>)"
| hold_off: "pa_busy p \<Longrightarrow> pa_now p + secs 30 \<le> u \<Longrightarrow> pace p (p\<lparr>pa_busy := False, pa_open := max (pa_open p) u\<rparr>)"

definition gate_abs :: "gate_sys \<Rightarrow> pacer" where
  "gate_abs s = \<lparr>pa_now = gs_now s, pa_open = open_from (gs_gate s),
     pa_busy = (case gs_permit s of None \<Rightarrow> False | Some i \<Rightarrow> gs_phase s i = Flying)\<rparr>"

lemma flying_busy: "permit_inv s \<Longrightarrow> gs_phase s i = Flying \<Longrightarrow> pa_busy (gate_abs s)"
  using permit_holder [of s i] by (simp add: gate_abs_def)

lemma open_over: "gate_cooldown now g = None \<Longrightarrow> ga_next g \<le> now \<Longrightarrow> open_from g \<le> now"
  by (auto simp: open_from_def cooldown_over split: option.splits)

text \<open>
  C15: the gate implements the pacer: every step of the tasks is a step of the pacer or invisible to it,
  so the permits, the three checks of the back-off, the counting of failures and the deadlines that
  drop waiting tasks add nothing a client of the gate could observe.
\<close>

theorem gate_refines_pacer:
  assumes "gate_reachable d t0 s" "gate_step s s'"
  shows "gate_abs s' = gate_abs s \<or> pace (gate_abs s) (gate_abs s')"
proof -
  have i: "permit_inv s" "sleep_inv s" using gate_reachable_inv [OF assms(1)] by (simp_all add: gate_inv_def)
  obtain x where "gate_do x s = Some s'" using assms(2) by (auto elim: gate_stepE)
  then show ?thesis using i(2)
  proof (cases rule: gate_do_cases)
    case (wait e)
    have "gate_abs s' = (gate_abs s)\<lparr>pa_now := pa_now (gate_abs s) + e\<rparr>" by (simp add: wait gate_abs_def split: option.splits)
    then show ?thesis using pace.elapse by simp
  next
    case (widen e)
    have "gate_abs s' = gate_abs s" by (simp add: widen gate_abs_def open_from_def split: option.splits)
    then show ?thesis ..
  next
    case (phase j p)
    then show ?thesis using permit_holder [OF i(1)]
      by (auto simp: gate_abs_def in_phase_def split: option.splits)
  next
    case (ended j)
    have h: "gs_permit s = Some j" using permit_holder [OF i(1) ended(1)] .
    show ?thesis
    proof (cases "gs_phase s j = Flying")
      case True
      have "gate_abs s' = (gate_abs s)\<lparr>pa_busy := False\<rparr>" by (simp add: ended gate_abs_def release_def)
      then show ?thesis using pace.finish [OF flying_busy [OF i(1) True]] by simp
    next
      case False
      then show ?thesis by (simp add: ended gate_abs_def release_def h)
    qed
  next
    case (sent j)
    have h: "gs_permit s = Some j" by (rule permit_holder [OF i(1)]) (simp add: sent(1))
    have "gate_abs s' = (gate_abs s)\<lparr>pa_open := pa_now (gate_abs s) + ga_spacing (gs_gate s), pa_busy := True\<rparr>"
      using sent(2) by (auto simp: sent(4) gate_abs_def in_phase_def h open_from_def request_started_def cooldown_over split: option.splits)
    moreover have "\<not> pa_busy (gate_abs s)" "pa_open (gate_abs s) \<le> pa_now (gate_abs s)"
      using open_over [OF sent(2,3)] by (simp_all add: gate_abs_def h sent(1))
    ultimately show ?thesis using pace.send by simp
  next
    case (limited j hint until g)
    have o: "open_from (gs_gate s) = ga_next (gs_gate s)"
      using i(2) limited(1) by (auto simp: open_from_def sleep_inv_def split: option.splits)
    have "gate_abs s' = (gate_abs s)\<lparr>pa_busy := False, pa_open := max (pa_open (gate_abs s)) until\<rparr>"
      using limited_fields [OF limited(2)] o by (simp add: limited(3) gate_abs_def release_def open_from_def)
    then show ?thesis
      using pace.hold_off [OF flying_busy [OF i(1) limited(1)], of until] limited_fields(4) [OF limited(2)]
      by (simp add: gate_abs_def)
  next
    case (succeeded j)
    have "open_from (gs_gate s) = ga_next (gs_gate s)"
      using i(2) succeeded(1) by (auto simp: open_from_def sleep_inv_def split: option.splits)
    then have "gate_abs s' = (gate_abs s)\<lparr>pa_busy := False\<rparr>"
      by (simp add: succeeded(2) gate_abs_def release_def open_from_def gate_succeeded_def Let_def)
    then show ?thesis using pace.finish [OF flying_busy [OF i(1) succeeded(1)]] by simp
  qed (simp_all add: gate_abs_def open_from_def release_def in_phase_def)
qed

end
