(* ===== verification/Evm_Gate_Live.thy ===== *)
theory Evm_Gate_Live
  imports Evm_Gate_Props
begin

text \<open>
  Progress of the tasks at the gate over infinite schedules: under fair scheduling no request waits
  for ever, whatever the other tasks do and however often the node limits them.
\<close>

section \<open>Fair schedules\<close>

text \<open>
  A schedule is one operation after another, for ever. It is fair when a timer that was set fires
  or its task is dropped, a request in flight ends (each attempt has a deadline), and no task waits for
  ever for a permit that keeps becoming free (the permits are granted in the order of the requests).
\<close>

definition schedule :: "span \<Rightarrow> instant \<Rightarrow> (nat \<Rightarrow> gate_op) \<Rightarrow> (nat \<Rightarrow> gate_sys) \<Rightarrow> bool" where
  "schedule d t0 ops tr \<longleftrightarrow> tr 0 = gate_start d t0 \<and> (\<forall>n. gate_do (ops n) (tr n) = Some (tr (Suc n)))"

fun ends_request :: "nat \<Rightarrow> gate_op \<Rightarrow> bool" where
  "ends_request i (G_limited j h) = (i = j)"
| "ends_request i (G_succeeded j) = (i = j)"
| "ends_request i (G_failed j) = (i = j)"
| "ends_request i _ = False"

definition fair_schedule :: "(nat \<Rightarrow> gate_op) \<Rightarrow> (nat \<Rightarrow> gate_sys) \<Rightarrow> bool" where
  "fair_schedule ops tr \<longleftrightarrow>
     (\<forall>n i t. gs_phase (tr n) i = Sleeping t \<longrightarrow> (\<exists>m \<ge> n. ops m = G_wake i \<or> ops m = G_drop i))
     \<and> (\<forall>n i. gs_phase (tr n) i = Flying \<longrightarrow> (\<exists>m \<ge> n. ends_request i (ops m)))
     \<and> (\<forall>n i. (\<forall>m \<ge> n. gs_phase (tr m) i = Queued) \<longrightarrow> (\<exists>k. \<forall>m \<ge> k. gs_permit (tr m) \<noteq> None))"

lemma schedule_step: "schedule d t0 ops tr \<Longrightarrow> gate_do (ops n) (tr n) = Some (tr (Suc n))"
  by (simp add: schedule_def)

lemma schedule_reachable:
  assumes "schedule d t0 ops tr" shows "gate_reachable d t0 (tr n)"
proof (induction n)
  case 0
  then show ?case using assms gate_reachable.start by (simp add: schedule_def)
next
  case (Suc n)
  from gate_reachable.step [OF Suc gate_step.intros [OF schedule_step [OF assms]]] show ?case .
qed

section \<open>What one step does to a waiting task\<close>

lemma queued_step:
  assumes "gate_do x s = Some s'" "gs_phase s i = Queued" "gs_phase s' i \<noteq> Queued"
  shows "x = G_permit i \<or> x = G_drop i"
  using assms
  by (cases x)
    (auto simp: acquire_enter_def acquire_permit_def acquire_wake_def in_phase_def release_def Let_def
      split: if_splits option.splits task_phase.splits sum.splits prod.splits)

lemma sleeping_step:
  assumes "gate_do x s = Some s'" "gs_phase s i = Sleeping t" "x \<noteq> G_wake i" "x \<noteq> G_drop i"
  shows "gs_phase s' i = Sleeping t"
  using assms
  by (cases x)
    (auto simp: acquire_enter_def acquire_permit_def acquire_wake_def in_phase_def release_def Let_def
      split: if_splits option.splits task_phase.splits sum.splits prod.splits)

lemma ends_frees: "gate_do x s = Some s' \<Longrightarrow> ends_request i x \<Longrightarrow> gs_permit s' = None"
  by (cases x) (auto simp: release_def split: if_splits sum.splits prod.splits)

text \<open>A task that gives up the gate does so because its deadline dropped it or a back-off is running.\<close>

definition gives_up :: "nat \<Rightarrow> gate_op \<Rightarrow> gate_sys \<Rightarrow> bool" where
  "gives_up i x s \<longleftrightarrow> x = G_drop i \<or> gate_cooldown (gs_now s) (gs_gate s) \<noteq> None"

lemma woken:
  assumes "gate_do x s = Some s'" "gs_phase s i = Sleeping t" "x = G_wake i \<or> x = G_drop i"
  shows "gs_phase s' i = Flying \<or> gs_phase s' i = Idle \<and> gives_up i x s \<and> gs_permit s' = None"
  using assms
  by (auto simp: acquire_wake_def in_phase_def release_def gives_up_def Let_def
      split: if_splits option.splits sum.splits)

lemma granted:
  assumes "gate_do x s = Some s'" "gs_phase s i = Queued" "x = G_permit i \<or> x = G_drop i"
  shows "(\<exists>t. gs_phase s' i = Sleeping t) \<or> gs_phase s' i = Idle \<and> gives_up i x s"
  using assms
  by (auto simp: acquire_permit_def in_phase_def release_def gives_up_def split: if_splits option.splits)

section \<open>Progress\<close>

text \<open>The first moment at which a property holds, with its failure before.\<close>

lemma first_moment:
  assumes "(n::nat) \<le> m" "P m" obtains k where "n \<le> k" "P k" "\<And>j. n \<le> j \<Longrightarrow> j < k \<Longrightarrow> \<not> P j"
proof -
  let ?k = "LEAST k. n \<le> k \<and> P k"
  have "n \<le> ?k \<and> P ?k" by (rule LeastI [of "\<lambda>k. n \<le> k \<and> P k" m]) (use assms in simp)
  moreover have "\<not> P j" if "n \<le> j" "j < ?k" for j using not_less_Least [OF that(2)] that(1) by simp
  ultimately show thesis using that by blast
qed

lemma sleeper_wakes:
  assumes s: "schedule d t0 ops tr" and f: "fair_schedule ops tr" and p: "gs_phase (tr n) i = Sleeping t"
  obtains m where "n \<le> m" "gs_phase (tr m) i = Sleeping t" "ops m = G_wake i \<or> ops m = G_drop i"
proof -
  obtain m where "n \<le> m" "ops m = G_wake i \<or> ops m = G_drop i" using f p unfolding fair_schedule_def by blast
  then obtain k where k: "n \<le> k" "ops k = G_wake i \<or> ops k = G_drop i"
    "\<And>j. n \<le> j \<Longrightarrow> j < k \<Longrightarrow> \<not> (ops j = G_wake i \<or> ops j = G_drop i)"
    by (rule first_moment [of n m "\<lambda>m. ops m = G_wake i \<or> ops m = G_drop i"]) blast
  have "gs_phase (tr j) i = Sleeping t" if "n \<le> j" "j \<le> k" for j
    using that
  proof (induction j rule: dec_induct)
    case (step j)
    then show ?case using sleeping_step [OF schedule_step [OF s]] k(3) [of j] by simp
  qed (rule p)
  then show thesis using that k(1,2) by blast
qed

lemma permit_frees:
  assumes s: "schedule d t0 ops tr" and f: "fair_schedule ops tr"
  shows "\<exists>m \<ge> n. gs_permit (tr m) = None"
proof (cases "gs_permit (tr n)")
  case None
  then show ?thesis by blast
next
  case (Some j)
  have land: "\<exists>m \<ge> k. gs_permit (tr m) = None" if fly: "gs_phase (tr k) j = Flying" for k
  proof -
    obtain m where "k \<le> m" "ends_request j (ops m)" using f fly unfolding fair_schedule_def by blast
    then show ?thesis using ends_frees [OF schedule_step [OF s]] by (intro exI [of _ "Suc m"]) auto
  qed
  have "permit_inv (tr n)" using gate_reachable_inv [OF schedule_reachable [OF s]] by (simp add: gate_inv_def)
  then have "gs_phase (tr n) j \<notin> {Idle, Queued}" using Some by (simp add: permit_inv_def)
  then consider "gs_phase (tr n) j = Flying" | t where "gs_phase (tr n) j = Sleeping t"
    by (cases "gs_phase (tr n) j") auto
  then show ?thesis
  proof cases
    case 1
    then show ?thesis by (rule land)
  next
    case 2
    then obtain m where m: "n \<le> m" "gs_phase (tr m) j = Sleeping t" "ops m = G_wake j \<or> ops m = G_drop j"
      by (rule sleeper_wakes [OF s f])
    from woken [OF schedule_step [OF s] m(2,3)] land [of "Suc m"] m(1) show ?thesis
      by (meson Suc_leD le_trans le_Suc_eq)
  qed
qed

text \<open>
  C31: under a fair schedule no request waits for ever: a task that waits for the permit is sent, or gives
  up because its own deadline dropped it or a back-off is running at that very step.
\<close>

theorem gate_live:
  assumes "schedule d t0 ops tr" "fair_schedule ops tr" "gs_phase (tr n) i = Queued"
  shows "\<exists>m \<ge> n. gs_phase (tr (Suc m)) i = Flying \<or> gs_phase (tr (Suc m)) i = Idle \<and> gives_up i (ops m) (tr m)"
proof -
  note step = schedule_step [OF assms(1)]
  have "\<exists>m \<ge> n. gs_phase (tr m) i \<noteq> Queued"
  proof (rule ccontr)
    assume "\<not> (\<exists>m \<ge> n. gs_phase (tr m) i \<noteq> Queued)"
    then obtain k where "\<forall>m \<ge> k. gs_permit (tr m) \<noteq> None" using assms(2) unfolding fair_schedule_def by metis
    then show False using permit_frees [OF assms(1,2), of k] by blast
  qed
  then obtain m0 where "n \<le> m0" "gs_phase (tr m0) i \<noteq> Queued" by blast
  then obtain k where k: "n \<le> k" "gs_phase (tr k) i \<noteq> Queued" "\<And>j. n \<le> j \<Longrightarrow> j < k \<Longrightarrow> \<not> gs_phase (tr j) i \<noteq> Queued"
    by (rule first_moment [of n m0 "\<lambda>m. gs_phase (tr m) i \<noteq> Queued"]) blast
  then obtain m where m: "k = Suc m" "n \<le> m" "gs_phase (tr m) i = Queued"
    using assms(3) by (cases k) (auto simp: le_Suc_eq)
  have "gs_phase (tr (Suc m)) i \<noteq> Queued" using k(2) m(1) by simp
  from granted [OF step m(3) queued_step [OF step m(3) this]] show ?thesis
  proof
    assume "\<exists>t. gs_phase (tr (Suc m)) i = Sleeping t"
    then obtain t where "gs_phase (tr (Suc m)) i = Sleeping t" by blast
    then obtain q where q: "Suc m \<le> q" "gs_phase (tr q) i = Sleeping t" "ops q = G_wake i \<or> ops q = G_drop i"
      by (rule sleeper_wakes [OF assms(1,2)])
    from woken [OF step q(2,3)] q(1) m(2) show ?thesis by (intro exI [of _ q]) auto
  next
    assume "gs_phase (tr (Suc m)) i = Idle \<and> gives_up i (ops m) (tr m)"
    then show ?thesis using m(2) by blast
  qed
qed

end
