(* ===== verification/Evm_Rpc.thy ===== *)
theory Evm_Rpc
  imports Evm_Gate Evm_Fees
begin

text \<open>
  One request to a node (\<open>src/evm/rpc.rs\<close>): its attempts through the gate, the classification of
  errors, and the words of a contract call. The transport is a parameter: what becomes of each
  attempt is its answer, with the clock and the shared gate at that moment.
\<close>

section \<open>Errors\<close>

text \<open>The classes of error the program distinguishes by downcasts.\<close>

datatype rpc_fail =
    Rpc_error string int string
  | Rpc_limited string instant
  | Rpc_unavailable string
  | Rpc_other string
  | Rpc_panic string

definition broadcast :: string where
  "broadcast = ''eth_sendRawTransaction''"

text \<open>Throttling of a read is \<open>ReadUnavailable\<close> as well; throttling of a broadcast is not.\<close>

fun rpc_retryable :: "rpc_fail \<Rightarrow> bool" where
  "rpc_retryable (Rpc_limited meth hint) = (meth \<noteq> broadcast)"
| "rpc_retryable (Rpc_unavailable m) = True"
| "rpc_retryable _ = False"

fun rpc_hint :: "rpc_fail \<Rightarrow> instant option" where
  "rpc_hint (Rpc_limited meth hint) = Some hint"
| "rpc_hint _ = None"

definition rpc_rate_limit :: "int \<Rightarrow> string \<Rightarrow> bool" where
  "rpc_rate_limit code message \<longleftrightarrow>
     (let m = ascii_lower message in
      code = 429
      \<or> (-32099 \<le> code \<and> code \<le> -32000 \<or> code = -32603)
        \<and> (\<exists>needle \<in> set [''rate limit'', ''too many requests'', ''request limit exceeded'', ''requests per second'', ''rps limit''].
             contains needle m))"

fun as_i64 :: "json \<Rightarrow> int option" where
  "as_i64 (JNum (PosInt n)) = (if uint n < 2 ^ 63 then Some (uint n) else None)"
| "as_i64 (JNum (NegInt i)) = Some i"
| "as_i64 _ = None"

section \<open>A request\<close>

datatype answer =
    An_refused instant
  | An_queue_deadline
  | An_limited "span option"
  | An_lost string
  | An_reply json

record attempt =
  at_now :: instant
  at_gate :: gate
  at_answer :: answer

text \<open>What an attempt does at the gate and outside, for the observer.\<close>

datatype rpc_event = Ev_sent | Ev_limited "span option" | Ev_succeeded | Ev_pause span

definition rpc_attempts :: "string \<Rightarrow> nat" where
  "rpc_attempts meth = (if meth = broadcast then 1 else 3)"

definition on_rate_limit :: "string \<Rightarrow> span option \<Rightarrow> attempt \<Rightarrow> rpc_fail" where
  "on_rate_limit meth hint a =
     (case gate_limited hint (at_now a) (at_gate a) of
        Inl e \<Rightarrow> Rpc_panic ''overflow when adding duration to instant''
      | Inr (until, g) \<Rightarrow> Rpc_limited meth until)"

definition give_up :: "string \<Rightarrow> string \<Rightarrow> rpc_fail" where
  "give_up meth e = (if meth = broadcast then Rpc_other e else Rpc_unavailable e)"

text \<open>The reading of a reply: the result and the events after it arrived.\<close>

definition rpc_reply :: "string \<Rightarrow> u64 \<Rightarrow> attempt \<Rightarrow> json \<Rightarrow> (rpc_fail + json) \<times> rpc_event list" where
  "rpc_reply meth i a v =
     (if jget v ''id'' \<noteq> JNum (PosInt i) then (Inl (Rpc_other ''RPC response id mismatch''), [])
      else
        (case jfind v ''error'' of
           Some e \<Rightarrow>
             if e \<noteq> JNull then
               (case as_i64 (jget e ''code'') of
                  None \<Rightarrow> (Inl (Rpc_other ''invalid RPC error code''), [])
                | Some code \<Rightarrow>
                    (case as_str (jget e ''message'') of
                       None \<Rightarrow> (Inl (Rpc_other ''invalid RPC error message''), [])
                     | Some message \<Rightarrow>
                         if rpc_rate_limit code message
                         then (Inl (on_rate_limit meth None a), [Ev_limited None])
                         else (Inl (Rpc_error meth code message), [])))
             else (case jfind v ''result'' of
                     None \<Rightarrow> (Inl (Rpc_other ''missing RPC result''), [])
                   | Some r \<Rightarrow> (Inr r, [Ev_succeeded]))
         | None \<Rightarrow> (case jfind v ''result'' of
                     None \<Rightarrow> (Inl (Rpc_other ''missing RPC result''), [])
                   | Some r \<Rightarrow> (Inr r, [Ev_succeeded]))))"

fun request_loop :: "string \<Rightarrow> u64 \<Rightarrow> (nat \<Rightarrow> attempt) \<Rightarrow> nat \<Rightarrow> nat \<Rightarrow> (rpc_fail + json) \<times> rpc_event list" where
  "request_loop meth i env n 0 = (Inl (Rpc_panic ''unreachable''), [])"
| "request_loop meth i env n (Suc left) =
     (case at_answer (env n) of
        An_refused hint \<Rightarrow> (Inl (Rpc_limited meth hint), [])
      | An_queue_deadline \<Rightarrow> (Inl (give_up meth ''queue deadline exceeded before dispatch''), [])
      | An_limited hint \<Rightarrow> (Inl (on_rate_limit meth hint (env n)), [Ev_sent, Ev_limited hint])
      | An_lost e \<Rightarrow>
          if left = 0 then (Inl (give_up meth e), [Ev_sent])
          else (case request_loop meth i env (Suc n) left of (r, evs) \<Rightarrow> (r, Ev_sent # Ev_pause (secs (2 ^ n)) # evs))
      | An_reply v \<Rightarrow> (case rpc_reply meth i (env n) v of (r, evs) \<Rightarrow> (r, Ev_sent # evs)))"

definition request :: "string \<Rightarrow> u64 \<Rightarrow> (nat \<Rightarrow> attempt) \<Rightarrow> (rpc_fail + json) \<times> rpc_event list" where
  "request meth i env = request_loop meth i env 0 (rpc_attempts meth)"

text \<open>A client of an endpoint: the interval is checked and the endpoint's gate is found or made.\<close>

definition rpc_new ::
    "(string \<Rightarrow> unit res) \<Rightarrow> (string \<Rightarrow> parsed_url res) \<Rightarrow> string \<Rightarrow> u64 \<Rightarrow> instant \<Rightarrow> gates \<Rightarrow> ((string \<times> string) \<times> gates) res" where
  "rpc_new validate_url parse url min_interval_ms now gates =
     rbind (validate_url url) (\<lambda>_.
     rbind (ensure (1 \<le> min_interval_ms \<and> min_interval_ms \<le> 5000) ''invalid RPC request interval'') (\<lambda>_.
     gate_shared parse url (millis (unat min_interval_ms)) now gates))"

section \<open>Replies of the transport\<close>

text \<open>
  Over HTTP: nothing came back, or a status, the wait its header states and the body if it can be read.
  Over a websocket: the messages of the connection; a text that is no document ends it.
\<close>

definition http_answer :: "(16 word \<times> span option \<times> json option) option \<Rightarrow> answer" where
  "http_answer r =
     (case r of
        None \<Rightarrow> An_lost ''transport''
      | Some (code, hint, body) \<Rightarrow>
          if code = 429 then An_limited hint
          else if 400 \<le> code \<and> code \<le> 599 then An_lost ''HTTP status error''
          else (case body of None \<Rightarrow> An_lost ''body'' | Some v \<Rightarrow> An_reply v))"

datatype ws_message = Ws_text "json option" | Ws_ping bool | Ws_close | Ws_other | Ws_error

fun ws_answer :: "u64 \<Rightarrow> ws_message list \<Rightarrow> answer" where
  "ws_answer i [] = An_lost ''websocket RPC closed before response''"
| "ws_answer i (Ws_text None # ms) = An_lost ''invalid document''"
| "ws_answer i (Ws_text (Some v) # ms) = (if jget v ''id'' = JNum (PosInt i) then An_reply v else ws_answer i ms)"
| "ws_answer i (Ws_ping answered # ms) = (if answered then ws_answer i ms else An_lost ''send'')"
| "ws_answer i (Ws_close # ms) = An_lost ''websocket RPC closed before response''"
| "ws_answer i (Ws_other # ms) = ws_answer i ms"
| "ws_answer i (Ws_error # ms) = An_lost ''receive''"

section \<open>Calls of a contract\<close>

type_synonym address = "160 word"

definition be_bytes :: "u256 \<Rightarrow> u8 list" where
  "be_bytes w = map (\<lambda>i. ucast (drop_bit (8 * (31 - i)) w)) [0..<32]"

definition be_word :: "u8 list \<Rightarrow> u256" where
  "be_word bs = foldl (\<lambda>a b. push_bit 8 a OR ucast b) 0 bs"

text \<open>The call data: the first four bytes of the hash of the signature and the words.\<close>

definition call_data :: "(string \<Rightarrow> u8 list) \<Rightarrow> string \<Rightarrow> u256 list \<Rightarrow> u8 list" where
  "call_data keccak signature args = take 4 (keccak signature) @ concat (map be_bytes args)"

fun chunks32 :: "nat \<Rightarrow> u8 list \<Rightarrow> u8 list list" where
  "chunks32 0 bs = []"
| "chunks32 (Suc n) bs = take 32 bs # chunks32 n (drop 32 bs)"

definition response_words :: "string \<Rightarrow> u8 list \<Rightarrow> u256 list res" where
  "response_words signature bs =
     rbind (ensure (length bs mod 32 = 0 \<and> bs \<noteq> []) (''invalid ABI response for '' @ signature)) (\<lambda>_.
     Inr (map be_word (chunks32 (length bs div 32) bs)))"

text \<open>The bytes of a call's result; the hexadecimal decoder is a parameter.\<close>

definition call_bytes :: "(string \<Rightarrow> u8 list option) \<Rightarrow> json \<Rightarrow> u8 list res" where
  "call_bytes decode v =
     rbind (context_opt (as_str v) ''call result'') (\<lambda>t. context_opt (decode (trim_0x t)) ''invalid hex'')"

definition call_words :: "(string \<Rightarrow> u8 list option) \<Rightarrow> string \<Rightarrow> json res \<Rightarrow> u256 list res" where
  "call_words decode signature reply =
     rbind (with_context (rbind reply (call_bytes decode)) (''eth_call '' @ signature)) (response_words signature)"

definition block_number :: "json res \<Rightarrow> u64 res" where
  "block_number reply = rbind reply hex_u64"

definition address_word :: "address \<Rightarrow> u256" where
  "address_word a = ucast a"

definition word_address :: "u256 \<Rightarrow> address" where
  "word_address w = ucast w"

section \<open>What a request guarantees\<close>

definition sends :: "rpc_event list \<Rightarrow> nat" where
  "sends evs = length (filter (\<lambda>e. e = Ev_sent) evs)"

lemma reply_events: "rpc_reply meth i a v = (r, evs) \<Longrightarrow> sends evs = 0"
  by (auto simp: rpc_reply_def sends_def split: option.splits if_splits)

lemma reply_result:
  "rpc_reply meth i a v = (Inr x, evs) \<Longrightarrow>
     jget v ''id'' = JNum (PosInt i) \<and> jfind v ''error'' \<in> {None, Some JNull} \<and> jfind v ''result'' = Some x \<and> evs = [Ev_succeeded]"
  by (auto simp: rpc_reply_def split: option.splits if_splits)

lemma reply_fail:
  "rpc_reply meth i a v = (Inl e, evs) \<Longrightarrow> rpc_retryable e \<Longrightarrow> (\<exists>u. e = Rpc_limited meth u) \<and> meth \<noteq> broadcast"
  by (auto simp: rpc_reply_def on_rate_limit_def split: option.splits if_splits sum.splits)

lemma loop_sends: "request_loop meth i env n left = (r, evs) \<Longrightarrow> sends evs \<le> left"
proof (induction left arbitrary: n r evs)
  case (Suc left)
  obtain r' evs' where l: "request_loop meth i env (Suc n) left = (r', evs')" by fastforce
  show ?case using Suc.prems Suc.IH [OF l] reply_events [of meth i "env n"]
    by (fastforce simp: sends_def l split: answer.splits if_splits prod.splits)
qed (simp add: sends_def)

lemma loop_result:
  assumes "request_loop meth i env n left = (Inr x, evs)"
  shows "\<exists>m v. n \<le> m \<and> m < n + left \<and> at_answer (env m) = An_reply v \<and> jget v ''id'' = JNum (PosInt i)
    \<and> jfind v ''error'' \<in> {None, Some JNull} \<and> jfind v ''result'' = Some x
    \<and> (\<forall>k. n \<le> k \<longrightarrow> k < m \<longrightarrow> (\<exists>e. at_answer (env k) = An_lost e))"
  using assms
proof (induction left arbitrary: n evs)
  case (Suc left)
  show ?case
  proof (cases "at_answer (env n)")
    case (An_lost e)
    then obtain evs' where "request_loop meth i env (Suc n) left = (Inr x, evs')"
      using Suc.prems by (auto split: if_splits prod.splits)
    from Suc.IH [OF this] obtain m v where m: "Suc n \<le> m" "m < Suc n + left" "at_answer (env m) = An_reply v"
      "jget v ''id'' = JNum (PosInt i)" "jfind v ''error'' \<in> {None, Some JNull}" "jfind v ''result'' = Some x"
      "\<forall>k. Suc n \<le> k \<longrightarrow> k < m \<longrightarrow> (\<exists>e. at_answer (env k) = An_lost e)" by blast
    have "\<exists>e. at_answer (env k) = An_lost e" if "n \<le> k" "k < m" for k
      using that m(7) An_lost by (cases "k = n") auto
    then show ?thesis using m by (intro exI [of _ m] exI [of _ v]) auto
  next
    case (An_reply v)
    then have "\<exists>evs. rpc_reply meth i (env n) v = (Inr x, evs)" using Suc.prems by (auto split: prod.splits)
    then show ?thesis using reply_result An_reply by (intro exI [of _ n] exI [of _ v]) fastforce
  qed (use Suc.prems in auto)
qed simp

lemma loop_fail:
  "request_loop meth i env n left = (Inl e, evs) \<Longrightarrow> rpc_retryable e \<Longrightarrow> meth \<noteq> broadcast"
proof (induction left arbitrary: n evs)
  case (Suc left)
  show ?case
  proof (cases "at_answer (env n)")
    case (An_reply v)
    then show ?thesis using Suc.prems reply_fail by (auto split: prod.splits)
  qed (use Suc in \<open>auto simp: give_up_def on_rate_limit_def split: if_splits prod.splits sum.splits\<close>)
qed auto

text \<open>
  C28: a signed transaction is handed to the node at most once per request and no failure of it, be it
  lost, refused or throttled, is of the kind that is repeated; other requests are sent at most three
  times; and a result is always that of the last reply, under the request's own identifier and
  without an error, every attempt before having been lost.
\<close>

theorem request_sound:
  assumes "request meth i env = (r, evs)"
  shows "sends evs \<le> (if meth = broadcast then 1 else 3)
    \<and> (case r of
         Inl e \<Rightarrow> meth = broadcast \<longrightarrow> \<not> rpc_retryable e
       | Inr x \<Rightarrow> (\<exists>m v. m < rpc_attempts meth \<and> at_answer (env m) = An_reply v \<and> jget v ''id'' = JNum (PosInt i)
            \<and> jfind v ''error'' \<in> {None, Some JNull} \<and> jfind v ''result'' = Some x
            \<and> (\<forall>k < m. \<exists>e. at_answer (env k) = An_lost e)))"
proof -
  have l: "request_loop meth i env 0 (rpc_attempts meth) = (r, evs)" using assms by (simp add: request_def)
  have "sends evs \<le> (if meth = broadcast then 1 else 3)" using loop_sends [OF l] by (simp add: rpc_attempts_def)
  then show ?thesis using l loop_result [of meth i env 0 "rpc_attempts meth"] loop_fail [of meth i env 0]
    by (cases r) fastforce+
qed

lemma chunks_concat:
  "(\<And>x. x \<in> set xs \<Longrightarrow> length x = 32) \<Longrightarrow> chunks32 (length xs) (concat xs) = xs"
  by (induction xs) auto

lemma be_word_append: "be_word (bs @ [b]) = push_bit 8 (be_word bs) OR ucast b"
  by (simp add: be_word_def)

lemma be_word_take:
  assumes "n \<le> 32" shows "be_word (take n (be_bytes w)) = drop_bit (8 * (32 - n)) w"
  using assms
proof (induction n)
  case 0
  show ?case by (rule bit_word_eqI) (simp add: be_word_def bit_drop_bit_eq)
next
  case (Suc n)
  have "take (Suc n) (be_bytes w) = take n (be_bytes w) @ [ucast (drop_bit (8 * (31 - n)) w)]"
    using Suc.prems by (simp add: take_Suc_conv_app_nth be_bytes_def)
  then have "be_word (take (Suc n) (be_bytes w))
      = push_bit 8 (drop_bit (8 * (32 - n)) w) OR ucast (ucast (drop_bit (8 * (31 - n)) w) :: u8)"
    using Suc by (simp add: be_word_append)
  also have "\<dots> = drop_bit (8 * (32 - Suc n)) w"
  proof (rule bit_word_eqI)
    fix k assume k: "k < LENGTH(256)"
    show "bit (push_bit 8 (drop_bit (8 * (32 - n)) w) OR ucast (ucast (drop_bit (8 * (31 - n)) w) :: u8)) k
        \<longleftrightarrow> bit (drop_bit (8 * (32 - Suc n)) w) k"
      using k Suc.prems by (auto simp: bit_simps algebra_simps)
  qed
  finally show ?case .
qed

text \<open>
  The words of a call survive the encoding: what a contract returns as the big-endian words of a
  list is read back as that list, an address fits a word, and nothing else is accepted than a
  non-empty whole number of words.
\<close>

theorem words_roundtrip:
  "response_words sg (concat (map be_bytes args))
      = (if args = [] then Inl (Bail (''invalid ABI response for '' @ sg)) else Inr args)
   \<and> word_address (address_word a) = a
   \<and> (response_words sg bs = Inr ws \<longleftrightarrow> length bs = 32 * length ws \<and> bs \<noteq> [] \<and> ws = map be_word (chunks32 (length ws) bs))"
proof (intro conjI)
  have len: "length (concat (map be_bytes args)) = 32 * length args"
    by (induction args) (simp_all add: be_bytes_def)
  have "chunks32 (length args) (concat (map be_bytes args)) = map be_bytes args"
    using chunks_concat [of "map be_bytes args"] by (force simp: be_bytes_def)
  moreover have "be_word (be_bytes w) = w" for w
    using be_word_take [of 32 w] by (simp add: be_bytes_def)
  moreover have "concat (map be_bytes args) \<noteq> []" if "args \<noteq> []"
    using len that by (metis length_0_conv mult_eq_0_iff zero_neq_numeral)
  ultimately show "response_words sg (concat (map be_bytes args))
      = (if args = [] then Inl (Bail (''invalid ABI response for '' @ sg)) else Inr args)"
    using len by (simp add: response_words_def ensure_def o_def)
  show "word_address (address_word a) = a"
    by (rule bit_word_eqI) (simp add: word_address_def address_word_def bit_simps)
  have c: "length (chunks32 n xs) = n" for n xs by (induction n arbitrary: xs) simp_all
  show "response_words sg bs = Inr ws \<longleftrightarrow> length bs = 32 * length ws \<and> bs \<noteq> [] \<and> ws = map be_word (chunks32 (length ws) bs)"
    using c by (auto simp: response_words_def ensure_def)
qed

end
