(* ===== verification/Runtime.thy ===== *)
theory Runtime
  imports Store_Props Domain Evm_Gate Hl_Client
begin

text \<open>
  Supervision of the observations (\<open>src/runtime.rs\<close>): which failures are repeated, how long the
  process waits, what it records meanwhile, and the health record another process reads. A task is a
  function of the number of its call and of the store; it may leave the store changed.
\<close>

type_synonym failure = "err \<times> instant option"
type_synonym 'a task = "nat \<Rightarrow> store \<Rightarrow> (failure + 'a) \<times> store"

fun retryable :: "err \<Rightarrow> bool" where
  "retryable (ReadUnavailable _) = True"
| "retryable _ = False"

fun err_text :: "err \<Rightarrow> string" where
  "err_text (Bail m) = m"
| "err_text (ReadUnavailable m) = m"
| "err_text (ExchangeRejected m) = m"
| "err_text (HedgeBudgetUnavailable m) = m"
| "err_text BandEntryRisk = ''band entry risk''"
| "err_text (Panic m) = m"

definition retry_delay :: "instant option \<Rightarrow> instant \<Rightarrow> span \<Rightarrow> span" where
  "retry_delay hint now minimum = (case hint of None \<Rightarrow> minimum | Some until \<Rightarrow> max minimum (until - now))"

text \<open>\<open>timed_out\<close>: the batch did not end within its seconds, and what it was doing is abandoned.\<close>

definition observe :: "bool \<Rightarrow> 'a res \<Rightarrow> 'a res" where
  "observe timed_out r = (if timed_out then Inl (ReadUnavailable ''observation batch deadline exceeded'') else r)"

section \<open>The health record\<close>

definition put_health :: "string \<Rightarrow> json \<Rightarrow> u64 \<Rightarrow> u64 \<Rightarrow> json \<Rightarrow> json res" where
  "put_health state details now now2 v =
     rbind (jset (if is_object v then v else JObj []) ''status'' (JStr state)) (\<lambda>v.
     rbind (jset v ''updated_ms'' (JNum (PosInt now))) (\<lambda>v.
     rbind (jset v ''details'' details) (\<lambda>v.
     if state = ''running'' then jset v ''last_decision_ms'' (JNum (PosInt now2)) else Inr v)))"

definition status :: "host \<Rightarrow> string \<Rightarrow> json \<Rightarrow> unit st" where
  "status h state details =
     store_update h read_json Doc_json JNull ''runtime_health.json'' (\<lambda>v.
       sbind (host_now h) (\<lambda>now.
       sbind (if state = ''running'' then host_now h else slift (Inr now)) (\<lambda>now2.
       slift (put_health state details now now2 v))))"

definition check_health :: "host \<Rightarrow> u64 \<Rightarrow> json st" where
  "check_health h max_age_seconds =
     sbind (sread (read_json ''runtime_health.json'')) (\<lambda>d.
     sbind (slift (context_opt d ''no runtime health record'')) (\<lambda>v.
     sbind (slift (ensure (jget v ''status'' = JStr ''running'') ''runtime is not healthy'')) (\<lambda>_.
     sbind (host_now h) (\<lambda>now.
     sbind (slift (fresh (case as_u64 (jget v ''last_decision_ms'') of None \<Rightarrow> 0 | Some t \<Rightarrow> t) now max_age_seconds)) (\<lambda>_.
     slift (Inr v))))))"

section \<open>Repeating reads\<close>

definition span_f64 :: "span \<Rightarrow> f64" where
  "span_f64 d = f_of_nat (d div 10 ^ 9) + f_of_nat (d mod 10 ^ 9) / lit (10 ^ 9)"

definition whole_seconds :: "span \<Rightarrow> u64" where
  "whole_seconds d = (case f_ceil (span_f64 d) of Fin q \<Rightarrow> word_of_int (max 0 (min (2 ^ 64 - 1) \<lfloor>q\<rfloor>)) | NegZero \<Rightarrow> 0
     | Infinite s \<Rightarrow> if s then 0 else - 1 | NaN \<Rightarrow> 0)"

definition whole_millis :: "span \<Rightarrow> u64" where
  "whole_millis d = of_nat (min (d div 10 ^ 6) (2 ^ 64 - 1))"

text \<open>What is recorded before a pause.\<close>

definition record_pause :: "host \<Rightarrow> err \<Rightarrow> span \<Rightarrow> unit st" where
  "record_pause h e wait =
     sbind (host_now h) (\<lambda>now.
     let details = JObj [(''error'', JStr (err_text e)), (''retry_seconds'', JNum (PosInt (whole_seconds wait))),
           (''retry_at_ms'', JNum (PosInt (sat_add now (whole_millis wait)))),
           (''action'', JStr ''pause new operations; reload checkpoint and reconcile before resuming'')] in
     sbind (status h ''degraded'' details) (\<lambda>_.
     store_event h ''read_recovery_wait'' details))"

text \<open>
  The loop has no bound: \<open>None\<close> is a task that fails for ever in the way that is repeated. \<open>clock n\<close> is
  the instant at which the failure of call \<open>n\<close> is looked at.
\<close>

partial_function (option) retry_reads ::
    "host \<Rightarrow> span \<Rightarrow> bool \<Rightarrow> (nat \<Rightarrow> instant) \<Rightarrow> 'a task \<Rightarrow> nat \<Rightarrow> store \<Rightarrow> ((failure + 'a) \<times> store) option" where
  "retry_reads h delay once clock task n s =
     (case task n s of
        (Inr x, s1) \<Rightarrow> Some (Inr x, s1)
      | (Inl (e, hint), s1) \<Rightarrow>
          if \<not> once \<and> retryable e then
            (case record_pause h e (retry_delay hint (clock n) delay) s1 of
               (Inl e2, s2) \<Rightarrow> Some (Inl (e2, None), s2)
             | (Inr u, s2) \<Rightarrow> retry_reads h delay once clock task (Suc n) s2)
          else Some (Inl (e, hint), s1))"

text \<open>The result is final: a value, or a failure that is not to be repeated.\<close>

definition final_result :: "failure + 'a \<Rightarrow> bool" where
  "final_result r = (case r of Inr x \<Rightarrow> True | Inl (e, hint) \<Rightarrow> \<not> retryable e)"

text \<open>Nothing the store does fails in a way that is repeated.\<close>

definition stops :: "'a st \<Rightarrow> bool" where
  "stops m \<longleftrightarrow> (\<forall>s e s'. m s = (Inl e, s') \<longrightarrow> \<not> retryable e)"

lemma stopsD: "stops m \<Longrightarrow> m s = (Inl e, s') \<Longrightarrow> \<not> retryable e"
  unfolding stops_def by blast

lemma stops_sbind: "stops m \<Longrightarrow> (\<And>x. stops (k x)) \<Longrightarrow> stops (sbind m k)"
  unfolding stops_def by (blast elim: sbind_cases)

lemma stops_basic:
  "stops (host_now h)" "stops (do_io h msg f)" "stops (slift (Inr x))" "stops (slift (ensure b msg))" "stops (sget g)"
  "stops (sread (\<lambda>s. ensure (p s) msg))" "stops (\<lambda>s. (Inr (q s), t s))"
  by (auto simp: stops_def st_simps host_now_def do_io_def Let_def ensure_def split: io.splits if_splits)

lemma stops_if: "stops a \<Longrightarrow> stops b \<Longrightarrow> stops (if c then a else b)"
  by simp

lemma stops_read: "stops (sread (read_json name))"
  by (auto simp: stops_def sread_def read_json_def split: option.splits doc.splits)

lemma stops_write: "stops (store_write h name d)"
  unfolding store_write_def by (intro stops_sbind stops_basic)

lemma stops_event: "stops (store_event h kind v)"
  unfolding store_event_def rotate_events_def prune_segments_def Let_def split_def
  by (intro stops_sbind stops_basic stops_if)

lemma put_health_ok: "\<exists>w. put_health state details now now2 v = Inr w"
  by (cases v) (auto simp: put_health_def)

lemma stops_status: "stops (status h state details)"
  unfolding status_def store_update_def
proof (intro stops_sbind stops_read stops_write stops_if stops_basic)
  show "stops (slift (put_health state details now now2 v))" for now now2 v
    using put_health_ok [of state details now now2 v] by (auto simp: stops_def slift_def)
qed

lemma stops_pause: "stops (record_pause h e wait)"
  unfolding record_pause_def Let_def by (intro stops_sbind stops_basic stops_status stops_event)

lemma retry_reads_step:
  "retry_reads h delay once clock task n s = Some (r, s') \<Longrightarrow>
     (\<exists>s1. task n s = (r, s1)) \<or>
     (\<exists>e hint s1 s2. task n s = (Inl (e, hint), s1) \<and> \<not> once \<and> retryable e
        \<and> (\<exists>e2. record_pause h e (retry_delay hint (clock n) delay) s1 = (Inl e2, s2) \<and> r = Inl (e2, None))) \<or>
     (\<exists>e hint s1 s2. task n s = (Inl (e, hint), s1) \<and> \<not> once \<and> retryable e
        \<and> record_pause h e (retry_delay hint (clock n) delay) s1 = (Inr (), s2)
        \<and> retry_reads h delay once clock task (Suc n) s2 = Some (r, s'))"
  by (subst (asm) retry_reads.simps) (auto split: prod.splits sum.splits if_splits)

lemma final_iff: "final_result r \<longleftrightarrow> (\<forall>e hint. r = Inl (e, hint) \<longrightarrow> \<not> retryable e)"
  by (auto simp: final_result_def split: sum.splits)

lemma final_partial:
  "retry_reads h delay once clock task n s = Some y \<Longrightarrow> \<not> once \<longrightarrow> final_result (fst y)"
  by (rule retry_reads.raw_induct [where P = "\<lambda>h delay once clock task n s y. \<not> once \<longrightarrow> final_result (fst y)"])
    (fastforce simp: final_iff split: prod.splits sum.splits if_splits dest: stopsD [OF stops_pause])+

text \<open>
  C40: repeating never hides a failure that must stop the process: without the option to run once, the
  loop comes back only with a value or with a failure that is not to be repeated, so an exchange
  write of unknown outcome is never tried again; and it does come back when some call, however the
  store then looks, no longer fails in the way that is repeated.
\<close>

theorem retry_reads_final:
  "(retry_reads h delay False clock task n s = Some (r, s') \<longrightarrow> final_result r)
   \<and> (\<forall>m. n \<le> m \<longrightarrow> (\<forall>t. final_result (fst (task m t))) \<longrightarrow> (\<exists>y. retry_reads h delay once clock task n s = Some y))"
proof (intro conjI impI allI)
  show "final_result r" if "retry_reads h delay False clock task n s = Some (r, s')"
    using final_partial [OF that] by simp
  show "\<exists>y. retry_reads h delay once clock task n s = Some y" if "n \<le> m" "\<forall>t. final_result (fst (task m t))" for m
    using that(1)
  proof (induction "m - n" arbitrary: n s)
    case 0
    then have "n = m" by simp
    then show ?case using that(2) [rule_format, of s]
      by (subst retry_reads.simps) (auto simp: final_iff split: prod.splits sum.splits)
  next
    case (Suc k)
    then have "k = m - Suc n" "Suc n \<le> m" by simp_all
    from Suc.hyps(1) [OF this] show ?case
      by (subst retry_reads.simps) (auto split: prod.splits sum.splits)
  qed
qed

section \<open>The health another process sees\<close>

lemma put_health_running:
  assumes "put_health ''running'' details now now2 v = Inr w"
  shows "jget w ''status'' = JStr ''running'' \<and> jget w ''last_decision_ms'' = JNum (PosInt now2)"
  using assms by (cases v) (auto simp: put_health_def jget_def)

text \<open>
  The health check tells the truth: it passes exactly on a record that says running and whose last
  decision is fresh; and a process that recorded running is found healthy for as long as its last
  decision stays fresh.
\<close>

theorem health_told:
  "(check_health h age s = (Inr v, s') \<longrightarrow>
      find_doc ''runtime_health.json'' s = Some (Doc_json v) \<and> jget v ''status'' = JStr ''running''
      \<and> (\<exists>t. t = (case as_u64 (jget v ''last_decision_ms'') of None \<Rightarrow> 0 | Some t \<Rightarrow> t)
           \<and> fresh t (ho_clock h (sv_tick s)) age = Inr ()))
   \<and> (status h ''running'' details s = (Inr u, s1) \<longrightarrow>
        (\<exists>w t. find_doc ''runtime_health.json'' s1 = Some (Doc_json w) \<and> jget w ''last_decision_ms'' = JNum (PosInt t)
           \<and> (fresh t (ho_clock h (sv_tick s1)) age = Inr () \<longrightarrow> fst (check_health h age s1) = Inr w)))"
proof (intro conjI impI)
  let ?at = "\<lambda>v. case as_u64 (jget v ''last_decision_ms'') of None \<Rightarrow> 0 | Some t \<Rightarrow> t"
  assume "check_health h age s = (Inr v, s')"
  then have "read_json ''runtime_health.json'' s = Inr (Some v)" "jget v ''status'' = JStr ''running''"
    "fresh (?at v) (ho_clock h (sv_tick s)) age = Inr ()"
    unfolding check_health_def by (auto elim!: sbind_InrE)
  then show "find_doc ''runtime_health.json'' s = Some (Doc_json v)" "jget v ''status'' = JStr ''running''"
    "\<exists>t. t = ?at v \<and> fresh t (ho_clock h (sv_tick s)) age = Inr ()"
    by (auto simp: read_json_def split: option.splits doc.splits)
next
  assume "status h ''running'' details s = (Inr u, s1)"
  then obtain v now now2 w s2 where w: "put_health ''running'' details now now2 v = Inr w"
    "store_write h ''runtime_health.json'' (Doc_json w) s2 = (Inr u, s1)"
    unfolding status_def store_update_def by (auto elim!: sbind_InrE)
  note r = put_health_running [OF w(1)]
  then have "w \<noteq> JNull" by (auto simp: jget_def)
  then have f: "find_doc ''runtime_health.json'' s1 = Some (Doc_json w)" using store_write_ok [OF w(2)] by simp
  have "fst (check_health h age s1) = Inr w" if "fresh now2 (ho_clock h (sv_tick s1)) age = Inr ()"
    using that r f by (simp add: check_health_def read_json_def sbind_eq)
  then show "\<exists>w t. find_doc ''runtime_health.json'' s1 = Some (Doc_json w) \<and> jget w ''last_decision_ms'' = JNum (PosInt t)
      \<and> (fresh t (ho_clock h (sv_tick s1)) age = Inr () \<longrightarrow> fst (check_health h age s1) = Inr w)"
    using f r by blast
qed

end
