(* ===== verification/Evm_Samples.thy ===== *)
theory Evm_Samples
  imports Evm_Gate_Live Evm_Gate_Props Evm_Rpc Runtime Store_Samples
begin

text \<open>The theorems about the gate, a request and the supervision of reads at concrete runs.\<close>

section \<open>The gate\<close>

text \<open>The first request is throttled; the second waits, passes and succeeds.\<close>

definition sample_gate_ops :: "gate_op list" where
  "sample_gate_ops = [G_enter 0, G_enter 1, G_permit 0, G_wake 0, G_limited 0 None, G_wait (secs 30), G_permit 1]"

definition sample_gate :: gate_sys where
  "sample_gate = (case gate_run sample_gate_ops (gate_start (millis 250) 0) of Some s \<Rightarrow> s | None \<Rightarrow> gate_start 0 0)"

lemma backoff_first: "unat (backoff_secs 0) = 30"
  by code_simp

lemmas gate_eval = gate_start_def gate_new_def acquire_enter_def acquire_permit_def acquire_wake_def gate_cooldown_def
  in_phase_def release_def gate_limited_def Let_def instant_add_def request_started_def backoff_first secs_def millis_def
  instant_limit_def sat_add_def

lemma sample_gate_run: "gate_run sample_gate_ops (gate_start (millis 250) 0) = Some sample_gate"
  and sample_gate_state: "gs_sent sample_gate = [(0, millis 250)]" "gs_blocked sample_gate = [(0, secs 30)]"
    "gs_phase sample_gate 1 = Sleeping (millis 250)" "gs_now sample_gate = secs 30"
  by (simp_all add: sample_gate_def sample_gate_ops_def gate_eval)

lemma sample_gate_reachable: "gate_reachable (millis 250) 0 sample_gate"
  by (rule gate_run_reachable [OF gate_reachable.start sample_gate_run])

theorem gate_paced_witness: "fst (gs_sent sample_gate ! 0) \<le> 0 \<and> secs 30 \<le> gs_now sample_gate"
  using gate_paced [OF sample_gate_reachable] by (simp add: sample_gate_state)

theorem gate_refines_pacer_witness:
  "\<exists>s'. gate_step sample_gate s' \<and> (gate_abs s' = gate_abs sample_gate \<or> pace (gate_abs sample_gate) (gate_abs s'))"
proof -
  have "gate_step sample_gate (sample_gate\<lparr>gs_now := gs_now sample_gate + 1\<rparr>)"
    by (rule gate_step.intros [of "G_wait 1"]) simp
  with gate_refines_pacer [OF sample_gate_reachable this] show ?thesis by blast
qed

text \<open>One request that enters, is granted the permit, is sent and succeeds; then time passes.\<close>

definition sample_ops :: "nat \<Rightarrow> gate_op" where
  "sample_ops n = (if n = 0 then G_enter 0 else if n = 1 then G_permit 0 else if n = 2 then G_wake 0
     else if n = 3 then G_succeeded 0 else G_wait 1)"

definition gate0 :: gate_sys where "gate0 = gate_start (millis 250) 0"
definition gate1 :: gate_sys where "gate1 = the (gate_do (G_enter 0) gate0)"
definition gate2 :: gate_sys where "gate2 = the (gate_do (G_permit 0) gate1)"
definition gate3 :: gate_sys where "gate3 = the (gate_do (G_wake 0) gate2)"
definition gate4 :: gate_sys where "gate4 = the (gate_do (G_succeeded 0) gate3)"

lemmas gate_states = gate0_def gate1_def gate2_def gate3_def gate4_def

definition sample_trace :: "nat \<Rightarrow> gate_sys" where
  "sample_trace n = (if n = 0 then gate0 else if n = 1 then gate1 else if n = 2 then gate2 else if n = 3 then gate3
     else gate4\<lparr>gs_now := gs_now gate4 + (n - 4)\<rparr>)"

lemma gate_phases:
  "gs_phase gate0 = (\<lambda>i. Idle)" "gs_phase gate1 = (\<lambda>i. Idle)(0 := Queued)" "gs_phase gate2 = (\<lambda>i. Idle)(0 := Sleeping 0)"
  "gs_phase gate3 = (\<lambda>i. Idle)(0 := Flying)" "gs_phase gate4 = (\<lambda>i. Idle)"
  by (simp_all add: gate_states gate_eval release_def fun_eq_iff)

lemma gate_steps:
  "gate_do (G_enter 0) gate0 = Some gate1" "gate_do (G_permit 0) gate1 = Some gate2" "gate_do (G_wake 0) gate2 = Some gate3"
  "gate_do (G_succeeded 0) gate3 = Some gate4"
  by (simp_all add: gate_states gate_eval release_def)

lemma small_or_late: "(n::nat) = 0 \<or> n = 1 \<or> n = 2 \<or> n = 3 \<or> (\<exists>k. n = k + 4)"
  by presburger

lemma sample_schedule: "schedule (millis 250) 0 sample_ops sample_trace"
proof -
  have "gate_do (sample_ops n) (sample_trace n) = Some (sample_trace (Suc n))" for n
    using small_or_late [of n] gate_steps
    by (auto simp: sample_ops_def sample_trace_def simp del: gate_do.simps(3-9))
  then show ?thesis by (simp add: schedule_def sample_trace_def gate0_def)
qed

lemma sample_phase:
  "gs_phase (sample_trace n) i = Sleeping t \<Longrightarrow> n = 2 \<and> i = 0"
  "gs_phase (sample_trace n) i = Flying \<Longrightarrow> n = 3 \<and> i = 0"
  "4 \<le> n \<Longrightarrow> gs_phase (sample_trace n) i = Idle"
  using gate_phases by (auto simp: sample_trace_def split: if_splits)

lemma sample_fair: "fair_schedule sample_ops sample_trace"
proof -
  have "\<exists>m \<ge> n. sample_ops m = G_wake i \<or> sample_ops m = G_drop i" if "gs_phase (sample_trace n) i = Sleeping t" for n i t
    using sample_phase(1) [OF that] by (intro exI [of _ 2]) (simp add: sample_ops_def)
  moreover have "\<exists>m \<ge> n. ends_request i (sample_ops m)" if "gs_phase (sample_trace n) i = Flying" for n i
    using sample_phase(2) [OF that] by (intro exI [of _ 3]) (simp add: sample_ops_def)
  moreover have "\<exists>m \<ge> n. gs_phase (sample_trace m) i \<noteq> Queued" for n i
    by (rule exI [of _ "n + 4"]) (simp add: sample_phase(3))
  ultimately show ?thesis unfolding fair_schedule_def by metis
qed

theorem gate_live_witness:
  "\<exists>m \<ge> 1. gs_phase (sample_trace (Suc m)) 0 = Flying \<or> gs_phase (sample_trace (Suc m)) 0 = Idle \<and> gives_up 0 (sample_ops m) (sample_trace m)"
  by (rule gate_live [OF sample_schedule sample_fair]) (simp add: sample_trace_def gate_phases)

section \<open>A request\<close>

definition sample_attempts :: "nat \<Rightarrow> attempt" where
  "sample_attempts n = \<lparr>at_now = 0, at_gate = gate_new 1 0,
     at_answer = (if n = 0 then An_lost ''reset'' else An_reply (JObj [(''id'', JNum (PosInt 7)), (''result'', JStr ''0x1'')]))\<rparr>"

lemma sample_request:
  "request ''eth_blockNumber'' 7 sample_attempts = (Inr (JStr ''0x1''), [Ev_sent, Ev_pause (secs 1), Ev_sent, Ev_succeeded])"
  "request broadcast 7 sample_attempts = (Inl (Rpc_other ''reset''), [Ev_sent])"
  by (simp_all add: request_def rpc_attempts_def broadcast_def numeral_eq_Suc sample_attempts_def rpc_reply_def jget_def give_up_def)

theorem request_sound_witness:
  "sends [Ev_sent, Ev_pause (secs 1), Ev_sent, Ev_succeeded] \<le> 3 \<and> \<not> rpc_retryable (Rpc_other ''reset'')"
proof -
  have "''eth_blockNumber'' \<noteq> broadcast" by (simp add: broadcast_def)
  then show ?thesis using request_sound [OF sample_request(1)] request_sound [OF sample_request(2)] by simp
qed

theorem words_roundtrip_witness: "response_words ''f()'' (concat (map be_bytes [5, 2 ^ 255])) = Inr [5, 2 ^ 255]"
  using words_roundtrip [of "''f()''" "[5, 2 ^ 255]" 0 "[]" "[]"] by simp

section \<open>Supervision\<close>

text \<open>The first call fails to read; the second one returns.\<close>

definition sample_task :: "nat task" where
  "sample_task n s = (if n = 0 then Inl (ReadUnavailable ''node'', None) else Inr n, s)"

theorem retry_reads_final_witness:
  "\<exists>y. retry_reads sample_host (secs 5) False (\<lambda>n. 0) sample_task 0 sample_store = Some y"
proof -
  have "\<forall>t. final_result (fst (sample_task 1 t))" by (simp add: sample_task_def final_result_def)
  then show ?thesis using retry_reads_final by blast
qed

theorem health_told_witness:
  "\<exists>v. fst (check_health sample_host 60 (snd (status sample_host ''running'' JNull sample_store))) = Inr v"
proof -
  let ?s = "snd (status sample_host ''running'' JNull sample_store)"
  have "fst (status sample_host ''running'' JNull sample_store) = Inr ()" by code_simp
  then have "status sample_host ''running'' JNull sample_store = (Inr (), ?s)"
    by (cases "status sample_host ''running'' JNull sample_store") simp
  with health_told obtain w t where "find_doc ''runtime_health.json'' ?s = Some (Doc_json w)"
    "jget w ''last_decision_ms'' = JNum (PosInt t)"
    "fresh t (ho_clock sample_host (sv_tick ?s)) 60 = Inr () \<longrightarrow> fst (check_health sample_host 60 ?s) = Inr w" by blast
  moreover have "case find_doc ''runtime_health.json'' ?s of Some (Doc_json w) \<Rightarrow> jget w ''last_decision_ms'' = JNum (PosInt 1000) | _ \<Rightarrow> False"
    by code_simp
  moreover have "fresh 1000 1000 60 = Inr ()" by code_simp
  ultimately show ?thesis by (auto simp: sample_host_def)
qed

end
