(* ===== verification/Paper_Ledger.thy ===== *)
theory Paper_Ledger
  imports Eth_Profile State_Docs
begin

text \<open>
  The simulated ledger (\<open>src/engine/paper.rs\<close>) and the hedge target of an inventory
  (\<open>src/engine/live.rs\<close>): nothing is signed or sent. A failing operation ends the cycle, which then
  starts again from the last checkpoint, so the ledger it leaves is not modelled.
\<close>

definition inventory_hedge_target :: "strategy_config \<Rightarrow> portfolio \<Rightarrow> f64 \<Rightarrow> f64 res" where
  "inventory_hedge_target c pf price =
     (case band_config_of c of
        Some b \<Rightarrow> band_target b pf price
      | None \<Rightarrow>
          if sc_eth_persistent c \<noteq> None then Inr (pf_base pf * sc_inside_hedge_ratio c)
          else Inr (pf_wallet_base pf + f_sum (map (\<lambda>pos.
            lp_base pos * (if price \<le> lp_lower pos * (1 + sc_hedge_release_buffer c) then 1 else sc_inside_hedge_ratio c))
            (pf_positions pf))))"

definition paper_new :: "config \<Rightarrow> u64 \<Rightarrow> paper" where
  "paper_new c now = \<lparr>pp_portfolio = \<lparr>pf_positions = [], pf_wallet_base = 0, pf_wallet_quote = sc_lp_budget (cf_strategy c),
     pf_short_base = 0, pf_hedge_equity = sc_hedge_collateral (cf_strategy c), pf_reserve = sc_reserve (cf_strategy c)\<rparr>,
     pp_last_hedge_price = 0, pp_pending = None, pp_hedge_fees = 0, pp_swap_costs = 0, pp_funding_pnl = 0,
     pp_last_funding_ms = now\<rparr>"

definition upd_portfolio :: "(portfolio \<Rightarrow> portfolio) \<Rightarrow> paper \<Rightarrow> paper" where
  "upd_portfolio f pp = pp\<lparr>pp_portfolio := f (pp_portfolio pp)\<rparr>"

definition maker_fee :: f64 where
  "maker_fee = lit 0.00015"

definition taker_fee :: f64 where
  "taker_fee = lit 0.00045"

definition paper_fill :: "f64 \<Rightarrow> f64 \<Rightarrow> f64 \<Rightarrow> paper \<Rightarrow> paper" where
  "paper_fill target execution fee_rate pp =
     (let pf = pp_portfolio pp; delta = target - pf_short_base pf; fee = \<bar>delta\<bar> * execution * fee_rate in
      pp\<lparr>pp_portfolio := pf\<lparr>pf_hedge_equity := pf_hedge_equity pf + (delta * (execution - pp_last_hedge_price pp) - fee),
           pf_short_base := target\<rparr>,
         pp_hedge_fees := pp_hedge_fees pp + fee\<rparr>)"

definition slipped :: "config \<Rightarrow> bool \<Rightarrow> f64 \<Rightarrow> f64" where
  "slipped c buy hedge =
     hedge * (1 + (if buy then 1 else - 1) * f_of_word (hc_emergency_slippage_bps (cf_hyperliquid c)) / lit 10000)"

text \<open>The pending order fills when the price crosses it; it ends when its time is over.\<close>

definition paper_pending :: "config \<Rightarrow> f64 \<Rightarrow> u64 \<Rightarrow> paper \<Rightarrow> paper" where
  "paper_pending c hedge now pp =
     (case pp_pending pp of
        None \<Rightarrow> pp
      | Some x \<Rightarrow>
          let crossed = (po_submitted x < now \<and> (if po_buy x then hedge < po_price x else po_price x < hedge));
              expired = (hc_maker_wait_seconds (cf_hyperliquid c) * 1000 \<le> sat_sub now (po_submitted x)) in
          if crossed then (paper_fill (po_target x) (po_price x) maker_fee pp)\<lparr>pp_pending := None\<rparr>
          else if expired then
            (if po_emergency x then paper_fill (po_target x) (slipped c (po_buy x) hedge) taker_fee pp else pp)\<lparr>pp_pending := None\<rparr>
          else pp)"

fun mark_positions :: "f64 \<Rightarrow> lp_position list \<Rightarrow> lp_position list res" where
  "mark_positions p [] = Inr []"
| "mark_positions p (pos # r) =
     rbind (amounts (lp_liquidity pos) (lp_lower pos) (lp_upper pos) p) (\<lambda>(b, q).
     rbind (mark_positions p r) (\<lambda>r'. Inr (pos\<lparr>lp_base := b, lp_quote := q\<rparr> # r')))"

definition paper_mark :: "f64 \<Rightarrow> f64 \<Rightarrow> u64 \<Rightarrow> config \<Rightarrow> paper \<Rightarrow> paper res" where
  "paper_mark p hedge now c pp =
     (let pf = pp_portfolio pp;
          pf = (if 0 < pp_last_hedge_price pp
                then pf\<lparr>pf_hedge_equity := pf_hedge_equity pf + pf_short_base pf * (pp_last_hedge_price pp - hedge)\<rparr> else pf) in
      rbind (mark_positions p (pf_positions pf)) (\<lambda>ps.
      Inr (paper_pending c hedge now (pp\<lparr>pp_portfolio := pf\<lparr>pf_positions := ps\<rparr>, pp_last_hedge_price := hedge\<rparr>))))"

definition swap_to_base :: "f64 \<Rightarrow> f64 \<Rightarrow> config \<Rightarrow> paper \<Rightarrow> paper" where
  "swap_to_base target p c pp =
     (let pf = pp_portfolio pp; delta = target - pf_wallet_base pf;
          cost = \<bar>delta\<bar> * p * (f_of_word (lq_fee (cf_liquidity c)) / lit 1000000
            + f_of_word (lq_slippage_bps (cf_liquidity c)) / lit 10000) in
      pp\<lparr>pp_portfolio := pf\<lparr>pf_wallet_quote := pf_wallet_quote pf - (delta * p + cost), pf_wallet_base := target\<rparr>,
         pp_swap_costs := pp_swap_costs pp + cost\<rparr>)"

fun take_out :: "string list \<Rightarrow> lp_position list \<Rightarrow> f64 \<Rightarrow> f64 \<Rightarrow> lp_position list \<times> f64 \<times> f64" where
  "take_out layers [] b q = ([], b, q)"
| "take_out layers (pos # r) b q =
     (if lp_layer pos \<in> set layers then take_out layers r (b + lp_base pos) (q + lp_quote pos)
      else (case take_out layers r b q of (r', b', q') \<Rightarrow> (pos # r', b', q')))"

definition paper_remove :: "string list \<Rightarrow> paper \<Rightarrow> paper" where
  "paper_remove layers pp =
     (let pf = pp_portfolio pp in
      case take_out layers (pf_positions pf) (pf_wallet_base pf) (pf_wallet_quote pf) of (r, b, q) \<Rightarrow>
      pp\<lparr>pp_portfolio := pf\<lparr>pf_positions := r, pf_wallet_base := b, pf_wallet_quote := q\<rparr>\<rparr>)"

definition paper_exit :: "config \<Rightarrow> f64 \<Rightarrow> f64 \<Rightarrow> paper \<Rightarrow> paper" where
  "paper_exit c p hedge pp =
     (let pp = pp\<lparr>pp_pending := None\<rparr>;
          pp = paper_remove (map lp_layer (pf_positions (pp_portfolio pp))) pp;
          pp = swap_to_base 0 p c pp in
      if 0 < pf_short_base (pp_portfolio pp) then paper_fill 0 (slipped c True hedge) taker_fee pp else pp)"

text \<open>Taking tokens for a position: the swap, then the two amounts.\<close>

definition spend :: "f64 \<Rightarrow> f64 \<Rightarrow> paper \<Rightarrow> paper" where
  "spend b q = upd_portfolio (\<lambda>pf. pf\<lparr>pf_wallet_base := pf_wallet_base pf - b, pf_wallet_quote := pf_wallet_quote pf - q\<rparr>)"

text \<open>Scaling positions up, one after the other out of what the ones before left.\<close>

fun scale_up :: "config \<Rightarrow> f64 \<Rightarrow> f64 \<Rightarrow> lp_position list \<Rightarrow> paper \<Rightarrow> (lp_position list \<times> paper) res" where
  "scale_up c fraction p [] pp = Inr ([], pp)"
| "scale_up c fraction p (pos # r) pp =
     rbind (context_opt (find (\<lambda>l. lc_name l = lp_layer pos) (sc_layers (cf_strategy c))) ''unknown paper layer'') (\<lambda>l.
     let desired = sc_lp_budget (cf_strategy c) * fraction * lc_weight l - (lp_base pos * p + lp_quote pos);
         available = pf_wallet_base (pp_portfolio pp) * p + pf_wallet_quote (pp_portfolio pp);
         value = f_min desired available * lit 0.995 in
     if value < lit 10
     then rbind (scale_up c fraction p r pp) (\<lambda>(r', pp'). Inr (pos # r', pp'))
     else
       rbind (ensure (lp_lower pos < p \<and> p < lp_upper pos) ''cannot scale an out-of-range paper position'') (\<lambda>_.
       rbind (liquidity_for_value value (lp_lower pos) (lp_upper pos) p) (\<lambda>added.
       rbind (amounts added (lp_lower pos) (lp_upper pos) p) (\<lambda>(b, q).
       let pp1 = swap_to_base b p c pp in
       rbind (ensure (q \<le> pf_wallet_quote (pp_portfolio pp1)) ''insufficient paper scaling quote'') (\<lambda>_.
       let liq = lp_liquidity pos + added in
       rbind (amounts liq (lp_lower pos) (lp_upper pos) p) (\<lambda>(b2, q2).
       rbind (scale_up c fraction p r (spend b q pp1)) (\<lambda>(r', pp').
       Inr (pos\<lparr>lp_liquidity := liq, lp_base := b2, lp_quote := q2\<rparr> # r', pp'))))))))"

fun open_layers :: "config \<Rightarrow> f64 \<Rightarrow> (f64 \<times> f64) option \<Rightarrow> f64 \<Rightarrow> f64 \<Rightarrow> layer_config list \<Rightarrow> paper \<Rightarrow> paper res" where
  "open_layers c p widths budget weight_sum [] pp = Inr pp"
| "open_layers c p widths budget weight_sum (l # ls) pp =
     (let value = budget * lc_weight l / weight_sum;
          (lo, hi) = (case widths of Some (w0, w1) \<Rightarrow> (p * (1 - w0), p * (1 + w1)) | None \<Rightarrow> range_of p (lc_half_width l)) in
      rbind (liquidity_for_value value lo hi p) (\<lambda>liquidity.
      rbind (amounts liquidity lo hi p) (\<lambda>(b, q).
      let pp1 = swap_to_base b p c pp in
      rbind (ensure (q \<le> pf_wallet_quote (pp_portfolio pp1) + lit 0.000001) ''paper insufficient quote'') (\<lambda>_.
      let pos = \<lparr>lp_layer = lc_name l, lp_token_id = None, lp_lower = lo, lp_upper = hi, lp_liquidity = liquidity,
            lp_raw_liquidity = ''paper'', lp_unclaimed_base = 0, lp_unclaimed_quote = 0, lp_base = b, lp_quote = q\<rparr> in
      open_layers c p widths budget weight_sum ls
        (upd_portfolio (\<lambda>pf. pf\<lparr>pf_positions := pf_positions pf @ [pos]\<rparr>) (spend b q pp1))))))"

definition paper_open :: "config \<Rightarrow> f64 \<Rightarrow> (f64 \<times> f64) option \<Rightarrow> lp_intent \<Rightarrow> paper \<Rightarrow> paper res" where
  "paper_open c p widths intent pp =
     (let layers = (case intent of Recenter ls \<Rightarrow> ls | _ \<Rightarrow> map lc_name (sc_layers (cf_strategy c)));
          pp = paper_remove layers pp;
          available = pf_wallet_base (pp_portfolio pp) * p + pf_wallet_quote (pp_portfolio pp);
          chosen = filter (\<lambda>l. lc_name l \<in> set layers) (sc_layers (cf_strategy c));
          weight_sum = f_sum (map lc_weight chosen);
          wanted = (case intent of Deploy fraction \<Rightarrow> sc_lp_budget (cf_strategy c) * fraction
            | _ \<Rightarrow> if widths \<noteq> None then sc_lp_budget (cf_strategy c) else available);
          budget = f_min wanted available * lit 0.995 in
      open_layers c p widths budget weight_sum chosen pp)"

fun is_entry :: "lp_intent \<Rightarrow> bool" where
  "is_entry (Deploy x) = True"
| "is_entry (Recenter ls) = True"
| "is_entry _ = False"

definition paper_lp :: "config \<Rightarrow> f64 \<Rightarrow> (f64 \<times> f64) option \<Rightarrow> lp_intent \<Rightarrow> paper \<Rightarrow> paper res" where
  "paper_lp c p widths intent pp =
     (case intent of
        Deploy fraction \<Rightarrow>
          if pf_positions (pp_portfolio pp) \<noteq> []
          then rbind (scale_up c fraction p (pf_positions (pp_portfolio pp)) pp) (\<lambda>(ps, pp').
               Inr (upd_portfolio (\<lambda>pf. pf\<lparr>pf_positions := ps\<rparr>) pp'))
          else paper_open c p widths intent pp
      | Recenter ls \<Rightarrow> paper_open c p widths intent pp
      | _ \<Rightarrow> Inr pp)"

text \<open>The hedge after the liquidity moved: a stale order is dropped, a due change becomes an order.\<close>

definition paper_hedge :: "decision \<Rightarrow> config \<Rightarrow> f64 \<Rightarrow> f64 \<Rightarrow> u64 \<Rightarrow> (f64 \<times> f64) option \<Rightarrow> f64 \<Rightarrow> paper \<Rightarrow> paper" where
  "paper_hedge d c p hedge now widths target pp =
     (let deadband = sc_hedge_deadband_usd (cf_strategy c);
          pp = (case pp_pending pp of
                  None \<Rightarrow> pp
                | Some x \<Rightarrow> if deadband \<le> \<bar>po_target x - target\<bar> * hedge then pp\<lparr>pp_pending := None\<rparr> else pp);
          diff = target - pf_short_base (pp_portfolio pp);
          entry_band = (widths \<noteq> None \<and> is_entry (d_lp d));
          minimum = (if entry_band then lit 10 else deadband) in
      if minimum \<le> \<bar>diff\<bar> * hedge \<and> pp_pending pp = None
      then
        let buy = diff < 0 in
        pp\<lparr>pp_pending := Some \<lparr>po_target = target, po_buy = buy, po_price = hedge * (if buy then lit 0.9999 else lit 1.0001),
          po_submitted = now,
          po_emergency = (d_emergency d \<or> entry_band \<or> list_ex (\<lambda>pos. p < lp_lower pos) (pf_positions (pp_portfolio pp)))\<rparr>\<rparr>
      else pp)"

definition paper_apply_with_widths ::
    "decision \<Rightarrow> config \<Rightarrow> f64 \<Rightarrow> f64 \<Rightarrow> u64 \<Rightarrow> (f64 \<times> f64) option \<Rightarrow> paper \<Rightarrow> paper res" where
  "paper_apply_with_widths d c p hedge now widths pp =
     rbind (ensure (band_config_of (cf_strategy c) \<noteq> None \<and> is_entry (d_lp d) \<longrightarrow> widths \<noteq> None)
       ''band paper entry requires observed hourly feature'') (\<lambda>_.
     if d_lp d = ExitToQuote then Inr (paper_exit c p hedge pp)
     else
       rbind (paper_lp c p widths (d_lp d) pp) (\<lambda>pp.
       rbind (if is_entry (d_lp d) then inventory_hedge_target (cf_strategy c) (pp_portfolio pp) p
              else Inr (d_target_short_base d)) (\<lambda>target.
       Inr (paper_hedge d c p hedge now widths target pp))))"

definition paper_apply :: "decision \<Rightarrow> config \<Rightarrow> f64 \<Rightarrow> f64 \<Rightarrow> u64 \<Rightarrow> paper \<Rightarrow> paper res" where
  "paper_apply d c p hedge now pp = paper_apply_with_widths d c p hedge now None pp"

fun funding_rows :: "json list \<Rightarrow> paper \<Rightarrow> paper res" where
  "funding_rows [] pp = Inr pp"
| "funding_rows (r # rs) pp =
     rbind (context_opt (as_u64 (jget r ''time'')) ''funding timestamp'') (\<lambda>t.
     if pp_last_funding_ms pp < t
     then
       rbind (num (jget r ''fundingRate'')) (\<lambda>rate.
       let pf = pp_portfolio pp; pnl = pf_short_base pf * pp_last_hedge_price pp * rate in
       funding_rows rs (pp\<lparr>pp_portfolio := pf\<lparr>pf_hedge_equity := pf_hedge_equity pf + pnl\<rparr>,
         pp_funding_pnl := pp_funding_pnl pp + pnl, pp_last_funding_ms := t\<rparr>))
     else funding_rows rs pp)"

definition paper_funding :: "json \<Rightarrow> paper \<Rightarrow> paper res" where
  "paper_funding rows pp = rbind (context_opt (as_array rows) ''funding history'') (\<lambda>l. funding_rows l pp)"

section \<open>What the ledger guarantees\<close>

lemma take_out_all: "(\<forall>pos \<in> set ps. lp_layer pos \<in> set ls) \<Longrightarrow> fst (take_out ls ps b q) = []"
  by (induction ps arbitrary: b q) auto

lemma fill_frame [simp]:
  "pp_pending (paper_fill t e r pp) = pp_pending pp" "pf_short_base (pp_portfolio (paper_fill t e r pp)) = t"
  "pf_positions (pp_portfolio (paper_fill t e r pp)) = pf_positions (pp_portfolio pp)"
  "pf_wallet_base (pp_portfolio (paper_fill t e r pp)) = pf_wallet_base (pp_portfolio pp)"
  "pp_last_hedge_price (paper_fill t e r pp) = pp_last_hedge_price pp"
  by (simp_all add: paper_fill_def Let_def)

lemma swap_frame [simp]:
  "pp_pending (swap_to_base t p c pp) = pp_pending pp" "pf_wallet_base (pp_portfolio (swap_to_base t p c pp)) = t"
  "pf_positions (pp_portfolio (swap_to_base t p c pp)) = pf_positions (pp_portfolio pp)"
  "pf_short_base (pp_portfolio (swap_to_base t p c pp)) = pf_short_base (pp_portfolio pp)"
  by (simp_all add: swap_to_base_def Let_def)

lemma remove_frame [simp]:
  "pp_pending (paper_remove ls pp) = pp_pending pp"
  "pf_short_base (pp_portfolio (paper_remove ls pp)) = pf_short_base (pp_portfolio pp)"
  "pf_positions (pp_portfolio (paper_remove ls pp))
    = fst (take_out ls (pf_positions (pp_portfolio pp)) (pf_wallet_base (pp_portfolio pp)) (pf_wallet_quote (pp_portfolio pp)))"
  by (simp_all add: paper_remove_def Let_def split: prod.splits)

lemma pending_settles:
  assumes "pp_pending pp = Some x" "hc_maker_wait_seconds (cf_hyperliquid c) * 1000 \<le> sat_sub now (po_submitted x)"
  shows "pp_pending (paper_pending c hedge now pp) = None"
  using assms by (simp add: paper_pending_def Let_def)

text \<open>
  A simulated exit leaves nothing open, from any ledger: no position, no base token, no pending
  order and no short; and a pending order never outlives its waiting time: the next mark after it
  removes it, filled at its own price when the market crossed it, at the slipped price in an
  emergency, and otherwise not at all.
\<close>

theorem paper_settles:
  "(paper_apply_with_widths d c p hedge now widths pp = Inr pp1 \<longrightarrow> d_lp d = ExitToQuote \<longrightarrow>
      pf_positions (pp_portfolio pp1) = [] \<and> pf_wallet_base (pp_portfolio pp1) = 0 \<and> pp_pending pp1 = None
      \<and> \<not> 0 < pf_short_base (pp_portfolio pp1))
   \<and> (paper_mark p hedge now c pp = Inr pp2 \<longrightarrow> (\<forall>x. pp_pending pp = Some x \<longrightarrow>
      hc_maker_wait_seconds (cf_hyperliquid c) * 1000 \<le> sat_sub now (po_submitted x) \<longrightarrow>
        pp_pending pp2 = None \<and> pf_short_base (pp_portfolio pp2) \<in> {po_target x, pf_short_base (pp_portfolio pp)}
        \<and> (pf_short_base (pp_portfolio pp2) \<noteq> pf_short_base (pp_portfolio pp) \<longrightarrow>
             po_emergency x \<or> (if po_buy x then hedge < po_price x else po_price x < hedge))))"
proof (intro conjI impI allI)
  assume "paper_apply_with_widths d c p hedge now widths pp = Inr pp1" "d_lp d = ExitToQuote"
  then have e: "pp1 = paper_exit c p hedge pp" by (auto simp: paper_apply_with_widths_def)
  show "pf_positions (pp_portfolio pp1) = []" "pf_wallet_base (pp_portfolio pp1) = 0" "pp_pending pp1 = None"
    "\<not> 0 < pf_short_base (pp_portfolio pp1)"
    by (simp_all add: e paper_exit_def Let_def take_out_all)
next
  fix x assume m: "paper_mark p hedge now c pp = Inr pp2" "pp_pending pp = Some x"
    and w: "hc_maker_wait_seconds (cf_hyperliquid c) * 1000 \<le> sat_sub now (po_submitted x)"
  obtain pp0 where "pp2 = paper_pending c hedge now pp0" "pp_pending pp0 = Some x"
    "pf_short_base (pp_portfolio pp0) = pf_short_base (pp_portfolio pp)"
    using m by (auto simp: paper_mark_def Let_def split: if_splits)
  note pp0 = this
  show "pp_pending pp2 = None" using pending_settles [OF pp0(2) w] pp0(1) by simp
  show "pf_short_base (pp_portfolio pp2) \<in> {po_target x, pf_short_base (pp_portfolio pp)}"
    "pf_short_base (pp_portfolio pp2) \<noteq> pf_short_base (pp_portfolio pp) \<Longrightarrow>
       po_emergency x \<or> (if po_buy x then hedge < po_price x else po_price x < hedge)"
    using pp0 w by (simp_all add: paper_pending_def Let_def split: if_splits)
qed

lemma funding_time: "funding_rows rs pp = Inr pp1 \<Longrightarrow> pp_last_funding_ms pp \<le> pp_last_funding_ms pp1
    \<and> (\<forall>r \<in> set rs. \<exists>t. as_u64 (jget r ''time'') = Some t \<and> t \<le> pp_last_funding_ms pp1)"
proof (induction rs arbitrary: pp)
  case (Cons r rs)
  then obtain t where t: "as_u64 (jget r ''time'') = Some t" by (auto split: option.splits)
  show ?case
  proof (cases "pp_last_funding_ms pp < t")
    case True
    then obtain pp0 where "funding_rows rs pp0 = Inr pp1" "pp_last_funding_ms pp0 = t"
      using Cons.prems t by (auto simp: Let_def)
    then show ?thesis using Cons.IH [of pp0] True t by auto
  next
    case False
    then have "funding_rows rs pp = Inr pp1" using Cons.prems t by auto
    then show ?thesis using Cons.IH [of pp] False t by auto
  qed
qed simp

lemma funding_old: "(\<forall>r \<in> set rs. \<exists>t. as_u64 (jget r ''time'') = Some t \<and> t \<le> pp_last_funding_ms pp) \<Longrightarrow> funding_rows rs pp = Inr pp"
  by (induction rs) (auto simp: not_less)

text \<open>
  Funding is credited once: reading the same history again, or any part of it, changes nothing.
\<close>

theorem funding_once:
  assumes "paper_funding (JArr rows) pp = Inr pp1" "set part \<subseteq> set rows"
  shows "paper_funding (JArr part) pp1 = Inr pp1"
proof -
  have "funding_rows rows pp = Inr pp1" using assms(1) by (simp add: paper_funding_def)
  from funding_time [OF this] assms(2) have "funding_rows part pp1 = Inr pp1" by (intro funding_old) blast
  then show ?thesis by (simp add: paper_funding_def)
qed

end
