(* ===== verification/Recovery.thy ===== *)
theory Recovery
  imports Paper_Ledger Store_Facts
begin

text \<open>
  Restart (\<open>src/recovery.rs\<close>): the baseline of the account, the checkpoint of a cycle and the files
  derived from it, the durable evidence that liquidity was ever provided, and what a restart does to
  the state of the strategy. The stages of a start are recorded in a report.
\<close>

section \<open>The baseline\<close>

definition equity_baseline :: "host \<Rightarrow> f64 \<Rightarrow> string \<Rightarrow> (f64 \<times> bool) st" where
  "equity_baseline h current basis =
     sbind (slift (ensure (is_finite current) ''invalid equity baseline'')) (\<lambda>_.
     sbind (sread (read_f64 ''equity_baseline.json'')) (\<lambda>old.
     case old of
       Some x \<Rightarrow>
         sbind (sread (read_text ''equity_baseline_basis.json'')) (\<lambda>old_basis.
         slift (Inr (x, (case old_basis of Some b \<Rightarrow> b = basis | None \<Rightarrow> basis \<in> {''native_perps_v1'', ''paper_v1''}))))
     | None \<Rightarrow>
         sbind (store_save h ''equity_baseline_basis.json'' (Doc_text basis)) (\<lambda>_.
         sbind (store_save h ''equity_baseline.json'' (Doc_f64 current)) (\<lambda>_.
         slift (Inr (current, True))))))"

section \<open>The checkpoint\<close>

definition export :: "host \<Rightarrow> checkpoint \<Rightarrow> unit st" where
  "export h cp =
     sbind (store_save h ''strategy.json'' (Doc_strategy (cp_strategy cp))) (\<lambda>_.
     case cp_paper cp of
       None \<Rightarrow> slift (Inr ())
     | Some p \<Rightarrow> store_save h ''paper.json'' (Doc_paper p))"

definition new_checkpoint :: "config \<Rightarrow> strategy \<Rightarrow> paper \<Rightarrow> u64 \<Rightarrow> checkpoint" where
  "new_checkpoint c st pp now = \<lparr>cp_schema = 1, cp_saved_ms = now, cp_mode = cf_mode c, cp_strategy = st,
     cp_paper = (if cf_mode c = Paper then Some pp else None)\<rparr>"

definition save :: "host \<Rightarrow> config \<Rightarrow> strategy \<Rightarrow> paper \<Rightarrow> unit st" where
  "save h c st pp =
     sbind (host_now h) (\<lambda>now.
     let cp = new_checkpoint c st pp now in
     sbind (store_save h ''checkpoint.json'' (Doc_checkpoint cp)) (\<lambda>_.
     export h cp))"

section \<open>The history of entries\<close>

definition lp_opened :: "json \<Rightarrow> unit res" where
  "lp_opened v = ensure (jget v ''ever_opened'' = JBool True) ''invalid LP history marker''"

definition record_lp_history :: "host \<Rightarrow> json \<Rightarrow> unit st" where
  "record_lp_history h evidence =
     sbind (sread (read_json ''lp_history.json'')) (\<lambda>d.
     case d of
       Some v \<Rightarrow> slift (lp_opened v)
     | None \<Rightarrow>
         sbind (host_now h) (\<lambda>now.
         store_write h ''lp_history.json'' (Doc_json (JObj [(''ever_opened'', JBool True), (''observed_ms'', JNum (PosInt now)),
           (''evidence'', evidence)]))))"

definition restore_entry_history :: "host \<Rightarrow> strategy \<Rightarrow> strategy st" where
  "restore_entry_history h st =
     sbind (sread (read_ids ''nfts.json'')) (\<lambda>ids.
     sbind (if (case ids of None \<Rightarrow> False | Some l \<Rightarrow> l \<noteq> []) \<or> st_entry_history st = Established
            then record_lp_history h (JObj [(''source'', JStr ''saved_lp_history_or_nft_registry'')])
            else slift (Inr ())) (\<lambda>_.
     sbind (sread (read_json ''lp_history.json'')) (\<lambda>d.
     case d of
       Some v \<Rightarrow> sbind (slift (lp_opened v)) (\<lambda>_. slift (Inr (st\<lparr>st_entry_history := Established\<rparr>)))
     | None \<Rightarrow>
         slift (Inr (if st_entry_history st = LegacyUnknown \<and> st_phase st = Warmup
                     then st\<lparr>st_entry_history := Initial\<rparr> else st)))))"

definition flat_inventory :: "portfolio \<Rightarrow> bool" where
  "flat_inventory pf \<longleftrightarrow> pf_positions pf = [] \<and> \<bar>pf_wallet_base pf\<bar> \<le> lit 0.00000001 \<and> \<bar>pf_short_base pf\<bar> \<le> lit 0.00000001"

definition confirm_first_entry :: "host \<Rightarrow> strategy \<Rightarrow> portfolio \<Rightarrow> (bool \<times> strategy) st" where
  "confirm_first_entry h st0 pf =
     sbind (restore_entry_history h (observe_lp (pf_positions pf \<noteq> []) st0)) (\<lambda>st.
     if st_entry_history st \<noteq> LegacyUnknown \<or> st_phase st = Halted then slift (Inr (False, st))
     else
       sbind (sread store_pending) (\<lambda>p.
       sbind (sread (if p = None then doc_present ''workflow.json'' else (\<lambda>s. Inr True))) (\<lambda>w.
       sbind (slift (ensure (p = None \<and> \<not> w) ''first entry requires completed transaction/workflow reconciliation'')) (\<lambda>_.
       sbind (slift (ensure (flat_inventory pf) ''first entry confirmation requires flat reconciled inventory'')) (\<lambda>_.
       sbind (store_event h ''first_entry_confirmed''
         (JObj [(''note'', JStr ''operator confirmed no prior LP deployment for legacy state; current inventory reconciled flat'')])) (\<lambda>_.
       slift (Inr (True, st\<lparr>st_entry_history := Initial\<rparr>))))))))"

section \<open>The report of a start\<close>

definition start_report :: "u64 \<Rightarrow> json" where
  "start_report now = JObj [(''started_ms'', JNum (PosInt now)), (''status'', JStr ''checking''), (''stages'', JArr [])]"

definition put_stage :: "string \<Rightarrow> json \<Rightarrow> u64 \<Rightarrow> u64 \<Rightarrow> json \<Rightarrow> json res" where
  "put_stage name details now now2 report =
     rbind (jset report ''updated_ms'' (JNum (PosInt now))) (\<lambda>report.
     rbind (context_opt (as_array (jget report ''stages'')) ''invalid startup report'') (\<lambda>stages.
     rbind (jset report ''stages'' (JArr (stages @ [JObj [(''time_ms'', JNum (PosInt now2)), (''stage'', JStr name), (''details'', details)]]))) (\<lambda>report.
     if name \<in> {''ready'', ''blocked''} then jset report ''status'' (JStr name) else Inr report)))"

definition stage :: "host \<Rightarrow> string \<Rightarrow> json \<Rightarrow> unit st" where
  "stage h name details =
     sbind (store_update h read_json Doc_json JNull ''startup_reconciliation.json'' (\<lambda>report.
       sbind (if is_object report then slift (Inr report) else sbind (host_now h) (\<lambda>now. slift (Inr (start_report now)))) (\<lambda>report.
       sbind (host_now h) (\<lambda>now.
       sbind (host_now h) (\<lambda>now2.
       slift (put_stage name details now now2 report)))))) (\<lambda>_.
     store_event h ''startup_reconciliation'' (JObj [(''stage'', JStr name), (''details'', details)]))"

definition start :: "host \<Rightarrow> unit st" where
  "start h = sbind (host_now h) (\<lambda>now. store_write h ''startup_reconciliation.json'' (Doc_json (start_report now)))"

section \<open>Loading\<close>

definition load_checkpoint :: "host \<Rightarrow> config \<Rightarrow> checkpoint \<Rightarrow> (strategy \<times> paper) st" where
  "load_checkpoint h c cp =
     sbind (slift (ensure (cp_schema cp = 1 \<and> cp_mode cp = cf_mode c) ''checkpoint schema/mode mismatch; refusing to reset state'')) (\<lambda>_.
     sbind (slift (ensure (cf_mode c \<noteq> Paper \<or> cp_paper cp \<noteq> None) ''paper checkpoint has no ledger'')) (\<lambda>_.
     sbind (restore_entry_history h (cp_strategy cp)) (\<lambda>st.
     sbind (export h (cp\<lparr>cp_strategy := st\<rparr>)) (\<lambda>_.
     case cp_paper cp of
       Some pp \<Rightarrow> slift (Inr (st, pp))
     | None \<Rightarrow> sbind (host_now h) (\<lambda>now. slift (Inr (st, paper_new c now)))))))"

definition load_legacy :: "host \<Rightarrow> config \<Rightarrow> (strategy \<times> paper) st" where
  "load_legacy h c =
     sbind (sread (read_strategy ''strategy.json'')) (\<lambda>st0.
     sbind (sread (read_paper ''paper.json'')) (\<lambda>pp0.
     sbind (sread (if st0 = None then doc_present ''equity_baseline.json'' else (\<lambda>s. Inr False))) (\<lambda>b.
     sbind (slift (ensure (st0 \<noteq> None \<or> \<not> b) ''risk state/checkpoint missing from an existing account; refusing to reset drawdown history'')) (\<lambda>_.
     sbind (slift (ensure (cf_mode c \<noteq> Paper \<or> (st0 \<noteq> None) = (pp0 \<noteq> None))
       ''incomplete legacy paper files; refusing to reset balances or risk phase'')) (\<lambda>_.
     sbind (restore_entry_history h (case st0 of None \<Rightarrow> strategy_default | Some st \<Rightarrow> st)) (\<lambda>st.
     sbind (case pp0 of Some pp \<Rightarrow> slift (Inr pp) | None \<Rightarrow> sbind (host_now h) (\<lambda>now. slift (Inr (paper_new c now)))) (\<lambda>pp.
     sbind (save h c st pp) (\<lambda>_.
     sbind (stage h ''checkpoint_migrated'' (JObj [(''schema'', JNum (PosInt 1))])) (\<lambda>_.
     slift (Inr (st, pp)))))))))))"

definition load :: "host \<Rightarrow> config \<Rightarrow> (strategy \<times> paper) st" where
  "load h c =
     sbind (sread (read_checkpoint ''checkpoint.json'')) (\<lambda>d.
     case d of Some cp \<Rightarrow> load_checkpoint h c cp | None \<Rightarrow> load_legacy h c)"

section \<open>What a restart does to the strategy\<close>

definition clear_breakout_streaks :: "strategy \<Rightarrow> strategy" where
  "clear_breakout_streaks st = st\<lparr>st_layers := clear_streaks (st_layers st)\<rparr>"

definition invalidate_observation_streaks :: "u64 \<Rightarrow> strategy \<Rightarrow> strategy" where
  "invalidate_observation_streaks now st =
     (let st = reset_healthy_progress now ''workflow_or_inventory_changed'' st in
      clear_breakout_streaks (st\<lparr>st_recovery_progress := (st_recovery_progress st)\<lparr>pr_anchor := None, pr_observed_ms := 0\<rparr>\<rparr>))"

definition prepare_observation_revalidation :: "strategy \<Rightarrow> strategy" where
  "prepare_observation_revalidation st = clear_breakout_streaks (freeze_recovery_progress st)"

definition finish_workflow_recovery :: "u64 \<Rightarrow> u64 \<Rightarrow> strategy \<Rightarrow> strategy" where
  "finish_workflow_recovery now now2 st =
     (let st = (if st_phase st \<noteq> Halted then st\<lparr>st_phase := Paused, st_pause_since := now\<rparr> else st) in
      invalidate_observation_streaks now2 (st\<lparr>st_fraction := 0\<rparr>))"

definition pause_incomplete_inventory :: "u64 \<Rightarrow> u64 \<Rightarrow> string list \<Rightarrow> config \<Rightarrow> strategy \<Rightarrow> bool \<times> strategy" where
  "pause_incomplete_inventory now now2 actual c st =
     (if st_phase st \<in> {Active, Recovering} \<and> (\<exists>l \<in> set (sc_layers (cf_strategy c)). lc_name l \<notin> set actual)
      then (True, invalidate_observation_streaks now2 (st\<lparr>st_phase := Paused, st_pause_since := now, st_fraction := 0\<rparr>))
      else (False, st))"

end
