(* ===== verification/Entry_Rearm.thy ===== *)
theory Entry_Rearm
  imports Recovery
begin

text \<open>
  The operator's permit to treat one entry as the first (\<open>src/engine/entry_rearm.rs\<close>) and the
  fingerprint of a configuration (\<open>src/engine/mod.rs\<close>). Rendering a configuration or a strategy as
  JSON and hashing are the parameter \<open>text_lib\<close>.
\<close>

record text_lib =
  tl_config :: "config \<Rightarrow> json res"
  tl_strategy :: "strategy \<Rightarrow> json"
  tl_hash :: "json \<Rightarrow> string"

section \<open>The fingerprint\<close>

text \<open>What may change between runs of one state directory is removed; an absent section becomes null.\<close>

definition transport_keys :: "(string \<times> string list) list" where
  "transport_keys =
     [(''liquidity'', [''rpc_url'', ''archive_rpc_url'', ''rpc_min_interval_ms'', ''ws_url'', ''nonce_refresh_seconds'',
        ''pending_warn_seconds'', ''owner'', ''max_quote_age_seconds'', ''gas_fee_buffer_bps'', ''gas_limit_buffer_bps'']),
      (''hyperliquid'', [''http_url'', ''ws_url''])]"

definition drop_keys :: "string list \<Rightarrow> json \<Rightarrow> json" where
  "drop_keys ks v = (case v of JObj m \<Rightarrow> JObj (foldl (\<lambda>m k. swap_remove k m) m ks) | _ \<Rightarrow> v)"

fun drop_sections :: "(string \<times> string list) list \<Rightarrow> json \<Rightarrow> json res" where
  "drop_sections [] v = Inr v"
| "drop_sections ((sec, ks) # r) v =
     (case v of
        JObj m \<Rightarrow> drop_sections r (JObj (assoc_put sec (drop_keys ks (jget v sec)) m))
      | JNull \<Rightarrow> drop_sections r (JObj [(sec, JNull)])
      | _ \<Rightarrow> Inl (Panic ''cannot access key in JSON value''))"

definition transport_independent_fingerprint :: "json \<Rightarrow> json res" where
  "transport_independent_fingerprint v = drop_sections transport_keys v"

definition binding :: "text_lib \<Rightarrow> config \<Rightarrow> string res" where
  "binding L c =
     rbind (tl_config L c) (\<lambda>v. rbind (transport_independent_fingerprint v) (\<lambda>w. Inr (tl_hash L w)))"

section \<open>The permit\<close>

definition rearm_file :: string where
  "rearm_file = ''entry_rearm.json''"

definition rearm_reason :: string where
  "rearm_reason = ''manual_entry_rearm:''"

fun permit_status_name :: "permit_status \<Rightarrow> string" where
  "permit_status_name Armed = ''armed''"
| "permit_status_name Consumed = ''consumed''"
| "permit_status_name Canceled = ''canceled''"

definition permit_json :: "permit \<Rightarrow> json" where
  "permit_json p = JObj [(''schema'', JNum (PosInt (ucast (pm_schema p)))), (''id'', JStr (pm_id p)), (''binding'', JStr (pm_binding p)),
     (''requested_ms'', JNum (PosInt (pm_requested_ms p))), (''status'', JStr (permit_status_name (pm_status p))),
     (''updated_ms'', JNum (PosInt (pm_updated_ms p)))]"

definition rearm_read :: "text_lib \<Rightarrow> config \<Rightarrow> store \<Rightarrow> permit option res" where
  "rearm_read L c s =
     rbind (read_permit rearm_file s) (\<lambda>d.
     case d of
       None \<Rightarrow> Inr None
     | Some p \<Rightarrow>
         rbind (if pm_schema p = 1 then rbind (binding L c) (\<lambda>b. Inr (pm_binding p = b)) else Inr False) (\<lambda>ok.
         rbind (ensure ok ''entry rearm belongs to another configuration or schema'') (\<lambda>_. Inr (Some p))))"

definition rearm_flat :: "portfolio \<Rightarrow> bool" where
  "rearm_flat pf \<longleftrightarrow> pf_positions pf = [] \<and> is_finite (pf_wallet_base pf) \<and> is_finite (pf_short_base pf)
     \<and> \<bar>pf_wallet_base pf\<bar> \<le> lit 0.00000001 \<and> \<bar>pf_short_base pf\<bar> \<le> lit 0.00000001"

text \<open>No transaction, order or workflow is open.\<close>

definition settled_now :: "store \<Rightarrow> unit res" where
  "settled_now s =
     rbind (store_pending s) (\<lambda>p.
     rbind (if p = None then doc_present ''workflow.json'' s else Inr True) (\<lambda>w.
     rbind (if p = None \<and> \<not> w then doc_present ''hedge_order.json'' s else Inr True) (\<lambda>o1.
     rbind (ensure (p = None \<and> \<not> w \<and> \<not> o1) ''re-entry needs every open transaction, order and workflow to be finished'') (\<lambda>_.
     rbind (read_orders ''orders.json'' s) (\<lambda>m.
     ensure (\<forall>x \<in> set (case m of None \<Rightarrow> [] | Some l \<Rightarrow> l). or_terminal (snd x)) ''the order ledger has unfinished orders'')))))"

definition rearm_issue :: "host \<Rightarrow> text_lib \<Rightarrow> config \<Rightarrow> strategy \<Rightarrow> checkpoint \<Rightarrow> string \<Rightarrow> permit st" where
  "rearm_issue h L c st cp i =
     sbind (slift (binding L c)) (\<lambda>b.
     sbind (host_now h) (\<lambda>now.
     sbind (host_now h) (\<lambda>now2.
     let p = \<lparr>pm_schema = 1, pm_id = i, pm_binding = b, pm_requested_ms = now, pm_status = Armed, pm_updated_ms = now2\<rparr> in
     sbind (store_save h (''entry_rearm_backup_'' @ i @ ''.json'') (Doc_checkpoint cp)) (\<lambda>_.
     sbind (store_write h rearm_file (Doc_permit p)) (\<lambda>_.
     sbind (store_event h ''entry_rearm_armed'' (JObj [(''permit'', permit_json p), (''strategy'', tl_strategy L st),
       (''note'', JStr ''explicit operator request; waive waiting for one entry only; preserve history, peak equity and all market checks'')])) (\<lambda>_.
     slift (Inr p)))))))"

definition rearm_new :: "host \<Rightarrow> text_lib \<Rightarrow> config \<Rightarrow> strategy \<Rightarrow> checkpoint \<Rightarrow> permit st" where
  "rearm_new h L c st cp s = rearm_issue h L c st cp (ho_uuid h (sv_tick s)) (s\<lparr>sv_tick := Suc (sv_tick s)\<rparr>)"

definition rearm_arm :: "host \<Rightarrow> text_lib \<Rightarrow> config \<Rightarrow> strategy \<Rightarrow> portfolio \<Rightarrow> permit st" where
  "rearm_arm h L c st actual =
     sbind (slift (ensure (cf_mode c = Live) ''entry rearm is an EVM live operator action'')) (\<lambda>_.
     sbind (slift (ensure (st_phase st = Paused) ''entry rearm requires Paused; Halted is never reset'')) (\<lambda>_.
     sbind (slift (ensure (rearm_flat actual) ''re-entry needs a flat inventory'')) (\<lambda>_.
     sbind (sread settled_now) (\<lambda>_.
     sbind (sread (rearm_read L c)) (\<lambda>old.
     case (case old of Some p \<Rightarrow> if pm_status p = Armed then Some p else None | None \<Rightarrow> None) of
       Some p \<Rightarrow> slift (Inr p)
     | None \<Rightarrow>
         sbind (sread (\<lambda>s. rbind (read_checkpoint ''checkpoint.json'' s) (\<lambda>d. context_opt d ''missing checkpoint''))) (\<lambda>cp.
         sbind (slift (ensure (cp_mode cp = Live \<and> cp_schema cp = 1) ''invalid live checkpoint'')) (\<lambda>_.
         rearm_new h L c st cp)))))))"

definition rearm_close :: "host \<Rightarrow> string \<Rightarrow> permit_status \<Rightarrow> permit \<Rightarrow> json \<Rightarrow> unit st" where
  "rearm_close h kind status p extra =
     sbind (host_now h) (\<lambda>now.
     let p1 = p\<lparr>pm_status := status, pm_updated_ms := now\<rparr> in
     sbind (store_write h rearm_file (Doc_permit p1)) (\<lambda>_.
     store_event h kind (JObj [(''permit'', permit_json p1), (''reason'', extra)])))"

definition rearm_cancel :: "host \<Rightarrow> string \<Rightarrow> permit \<Rightarrow> unit st" where
  "rearm_cancel h why p = rearm_close h ''entry_rearm_canceled'' Canceled p (JStr why)"

text \<open>
  The evaluation of a cycle. With an armed permit a trial copy is evaluated as if no liquidity had
  ever been provided; its history is put back at once.
\<close>

definition rearm_trial :: "libm \<Rightarrow> config \<Rightarrow> market_frame \<Rightarrow> string \<Rightarrow> strategy \<Rightarrow> (strategy \<times> decision) res" where
  "rearm_trial lib c f i st =
     rbind (evaluate_with_continuity lib (cf_strategy c) f (st\<lparr>st_entry_history := Initial\<rparr>)) (\<lambda>(st1, d).
     let d1 = (case d_lp d of
           Deploy x \<Rightarrow> d\<lparr>d_reasons := filter (\<lambda>r. \<not> starts_with ''initial_entry:'' r) (d_reasons d) @ [rearm_reason @ i]\<rparr>
         | _ \<Rightarrow> d) in
     Inr (st1\<lparr>st_entry_history := st_entry_history st\<rparr>, d1))"

definition rearm_evaluate :: "host \<Rightarrow> text_lib \<Rightarrow> libm \<Rightarrow> config \<Rightarrow> market_frame \<Rightarrow> strategy \<Rightarrow> (strategy \<times> decision) st" where
  "rearm_evaluate h L lib c f st =
     sbind (sread (rearm_read L c)) (\<lambda>d.
     case (case d of Some p \<Rightarrow> if pm_status p = Armed then Some p else None | None \<Rightarrow> None) of
       None \<Rightarrow> slift (evaluate_with_continuity lib (cf_strategy c) f st)
     | Some p \<Rightarrow>
         sbind (slift (ensure (cf_mode c = Live) ''entry rearm cannot be used in paper mode'')) (\<lambda>_.
         if st_phase st \<noteq> Paused \<or> \<not> rearm_flat (mf_portfolio f)
         then
           sbind (rearm_cancel h ''phase changed or inventory no longer flat'' p) (\<lambda>_.
           slift (evaluate_with_continuity lib (cf_strategy c) f st))
         else
           sbind (sread settled_now) (\<lambda>_.
           sbind (slift (rearm_trial lib c f (pm_id p) st)) (\<lambda>(st1, d1).
           sbind (if st_phase st1 = Halted then rearm_cancel h ''drawdown halt'' p else slift (Inr ())) (\<lambda>_.
           slift (Inr (st1, d1)))))))"

definition strip_prefix :: "string \<Rightarrow> string \<Rightarrow> string option" where
  "strip_prefix p s = (if starts_with p s then Some (drop (length p) s) else None)"

fun permit_of :: "string list \<Rightarrow> string option" where
  "permit_of [] = None"
| "permit_of (r # rs) = (case strip_prefix rearm_reason r of Some i \<Rightarrow> Some i | None \<Rightarrow> permit_of rs)"

definition rearm_consume :: "host \<Rightarrow> text_lib \<Rightarrow> config \<Rightarrow> decision \<Rightarrow> unit st" where
  "rearm_consume h L c d =
     (case d_lp d of
        Deploy x \<Rightarrow>
          (case permit_of (d_reasons d) of
             None \<Rightarrow> slift (Inr ())
           | Some i \<Rightarrow>
               sbind (sread (\<lambda>s. rbind (rearm_read L c s) (\<lambda>p. context_opt p ''missing entry rearm permit''))) (\<lambda>p.
               sbind (slift (ensure (pm_id p = i \<and> pm_status p = Armed) ''entry rearm already consumed or replaced'')) (\<lambda>_.
               sbind (host_now h) (\<lambda>now.
               let p1 = p\<lparr>pm_status := Consumed, pm_updated_ms := now\<rparr> in
               sbind (store_write h rearm_file (Doc_permit p1)) (\<lambda>_.
               store_event h ''entry_rearm_consumed'' (permit_json p1))))))
      | _ \<Rightarrow> slift (Inr ()))"

end
