(* ===== verification/Recovery_Props.thy ===== *)
theory Recovery_Props
  imports Recovery Store_Props
begin

text \<open>
  What a restart may change: after any number of crashes the strategy comes back as it was saved, a
  halt and the peak of the account survive, and the evidence of earlier entries is never lost.
\<close>

section \<open>The restored state\<close>

text \<open>Only the history of entries may differ, and an established one stays.\<close>

definition risk_kept :: "strategy \<Rightarrow> strategy \<Rightarrow> bool" where
  "risk_kept a b \<longleftrightarrow> b = a\<lparr>st_entry_history := st_entry_history b\<rparr>
     \<and> (st_entry_history a = Established \<longrightarrow> st_entry_history b = Established)"

lemma risk_kept_fields:
  "risk_kept a b \<Longrightarrow> st_phase b = st_phase a \<and> st_peak_equity b = st_peak_equity a \<and> st_pause_since b = st_pause_since a
     \<and> st_fraction b = st_fraction a \<and> st_healthy_hours b = st_healthy_hours a"
  unfolding risk_kept_def by (metis strategy.select_convs strategy.surjective strategy.update_convs(2))

definition opened :: "store \<Rightarrow> bool" where
  "opened s \<longleftrightarrow> (\<exists>v. find_doc ''lp_history.json'' s = Some (Doc_json v) \<and> jget v ''ever_opened'' = JBool True)"

lemma read_json_find: "read_json n s = Inr (Some v) \<longleftrightarrow> find_doc n s = Some (Doc_json v)"
  "read_json n s = Inr None \<longleftrightarrow> find_doc n s = None"
  by (auto simp: read_json_def split: option.splits doc.splits)

lemma lp_opened_Inr: "lp_opened v = Inr u \<longleftrightarrow> jget v ''ever_opened'' = JBool True"
  by (simp add: lp_opened_def)

lemma opened_put [simp]:
  "opened (put_doc ''lp_history.json'' (Doc_json (JObj ((''ever_opened'', JBool True) # r))) s)"
  by (simp add: opened_def jget_def)

lemma record_opens:
  assumes "record_lp_history h e s = (Inr u, s')" shows "opened s'"
proof -
  obtain d where d: "read_json ''lp_history.json'' s = Inr d"
    "(case d of Some v \<Rightarrow> slift (lp_opened v)
      | None \<Rightarrow> sbind (host_now h) (\<lambda>now. store_write h ''lp_history.json'' (Doc_json (JObj [(''ever_opened'', JBool True),
           (''observed_ms'', JNum (PosInt now)), (''evidence'', e)])))) s = (Inr u, s')"
    using assms unfolding record_lp_history_def by (elim sbind_InrE) auto
  show ?thesis
  proof (cases d)
    case None
    then show ?thesis using d(2) by (auto simp: sbind_eq dest!: store_write_ok)
  next
    case (Some v)
    then have "s' = s" "jget v ''ever_opened'' = JBool True" using d(2) by (simp_all add: lp_opened_Inr)
    then show ?thesis using d(1) Some by (auto simp: opened_def read_json_find)
  qed
qed

lemma record_frame: "opened s \<Longrightarrow> record_lp_history h e s = (r, s') \<Longrightarrow> s' = s"
  by (auto simp: record_lp_history_def opened_def sbind_eq read_json_def)

definition registered :: "store \<Rightarrow> bool" where
  "registered s \<longleftrightarrow> (\<exists>l. find_doc ''nfts.json'' s = Some (Doc_ids l) \<and> l \<noteq> [])"

lemma restore_kept:
  assumes "restore_entry_history h st s = (Inr st', s')"
  shows "risk_kept st st' \<and> (opened s \<or> registered s \<longrightarrow> st_entry_history st' = Established)
    \<and> (st_entry_history st' = Established \<longrightarrow> opened s')"
proof -
  obtain ids s1 d where st: "sread (read_ids ''nfts.json'') s = (Inr ids, s)"
    "(if (case ids of None \<Rightarrow> False | Some l \<Rightarrow> l \<noteq> []) \<or> st_entry_history st = Established
      then record_lp_history h (JObj [(''source'', JStr ''saved_lp_history_or_nft_registry'')]) else slift (Inr ())) s = (Inr (), s1)"
    "read_json ''lp_history.json'' s1 = Inr d"
    "(case d of Some v \<Rightarrow> sbind (slift (lp_opened v)) (\<lambda>_. slift (Inr (st\<lparr>st_entry_history := Established\<rparr>)))
      | None \<Rightarrow> slift (Inr (if st_entry_history st = LegacyUnknown \<and> st_phase st = Warmup
                     then st\<lparr>st_entry_history := Initial\<rparr> else st))) s1 = (Inr st', s')"
    using assms unfolding restore_entry_history_def by (elim sbind_InrE) auto
  have o1: "opened s1" if "opened s \<or> registered s"
  proof (cases "opened s")
    case True
    then show ?thesis using st(2) by (auto dest: record_frame [OF True] split: if_splits)
  next
    case False
    then have "case ids of None \<Rightarrow> False | Some l \<Rightarrow> l \<noteq> []"
      using st(1) that by (auto simp: registered_def read_ids_def)
    then show ?thesis using st(2) record_opens by simp
  qed
  show ?thesis
  proof (cases d)
    case None
    then have n: "\<not> opened s1" using st(3) by (simp add: opened_def read_json_find)
    have "st_entry_history st \<noteq> Established"
    proof
      assume "st_entry_history st = Established"
      then have "opened s1" using st(2) record_opens by simp
      then show False using n by simp
    qed
    then show ?thesis using st(4) None n o1 by (auto simp: risk_kept_def split: if_splits)
  next
    case (Some v)
    then have "opened s1" "st' = st\<lparr>st_entry_history := Established\<rparr>" "s' = s1"
      using st(3,4) by (auto simp: opened_def read_json_find lp_opened_Inr elim!: sbind_InrE)
    then show ?thesis by (simp add: risk_kept_def)
  qed
qed

text \<open>What each operation leaves alone.\<close>

definition same_docs :: "string set \<Rightarrow> store \<Rightarrow> store \<Rightarrow> bool" where
  "same_docs N s s' \<longleftrightarrow> (\<forall>n. n \<notin> N \<longrightarrow> find_doc n s' = find_doc n s)"

interpretation docs: store_steps "same_docs N" for N
proof
  show "same_docs N s s'" if "sv_files s' = sv_files s" "sv_sent s' = sv_sent s" for s s'
    using find_doc_files [OF that(1)] by (simp add: same_docs_def)
  show "same_docs N s s2" if "same_docs N s s1" "same_docs N s1 s2" for s s1 s2
    using that by (simp add: same_docs_def)
qed

lemma docs_save: "n \<in> N \<Longrightarrow> keeps (same_docs N) (store_save h n d)"
  unfolding store_save_def by (rule docs.keeps_write) (auto simp: same_docs_def)

lemma docs_write: "n \<in> N \<Longrightarrow> keeps (same_docs N) (store_write h n d)"
  by (rule docs.keeps_write) (auto simp: same_docs_def)

lemma docs_opt: "(\<And>x. keeps R (f x)) \<Longrightarrow> keeps R g \<Longrightarrow> keeps R (case d of None \<Rightarrow> g | Some x \<Rightarrow> f x)"
  by (cases d) auto

lemmas docs_flow = docs.keeps_sbind docs.keeps_pure docs.keeps_if docs_opt docs.keeps_event

lemma docs_history: "''lp_history.json'' \<in> N \<Longrightarrow> keeps (same_docs N) (record_lp_history h e)"
  unfolding record_lp_history_def by (intro docs_flow docs_write)

lemma docs_restore: "''lp_history.json'' \<in> N \<Longrightarrow> keeps (same_docs N) (restore_entry_history h st)"
  unfolding restore_entry_history_def by (intro docs_flow docs_history)

lemma docs_export: "{''strategy.json'', ''paper.json''} \<subseteq> N \<Longrightarrow> keeps (same_docs N) (export h cp)"
  unfolding export_def by (intro docs_flow docs_save) auto

lemma docs_checkpoint_save:
  "{''checkpoint.json'', ''strategy.json'', ''paper.json''} \<subseteq> N \<Longrightarrow> keeps (same_docs N) (save h c st pp)"
  unfolding save_def Let_def by (intro docs_flow docs_save docs_export) auto

lemma docs_stage: "''startup_reconciliation.json'' \<in> N \<Longrightarrow> keeps (same_docs N) (stage h n d)"
  unfolding stage_def store_update_def by (intro docs_flow docs_write)

section \<open>Saving is atomic\<close>

lemma save_outcome:
  assumes "store_save h n d s = (r, s')"
  shows "(r = Inr () \<longrightarrow> s' = put_doc n (ho_reload h d) (s\<lparr>sv_tick := Suc (sv_tick s)\<rparr>))
    \<and> (find_doc n s' = find_doc n s \<or> find_doc n s' = find_doc n (put_doc n (ho_reload h d) s))"
proof -
  have w: "store_write h n (ho_reload h d) s = (r, s')" using assms by (simp add: store_save_def)
  from store_write_cases [OF w] have "find_doc n s' = find_doc n s \<or> find_doc n s' = find_doc n (put_doc n (ho_reload h d) s)"
    using find_doc_files [of s' s n] by auto
  then show ?thesis using store_write_ok w by (cases r) auto
qed

text \<open>The checkpoint after a save, whatever failed: the one before or the new one.\<close>

lemma save_checkpoint:
  assumes "save h c st pp s = (r, s')"
  obtains now where "now = ho_clock h (sv_tick s)"
    "find_doc ''checkpoint.json'' s' = find_doc ''checkpoint.json'' s \<and> r \<noteq> Inr ()
      \<or> find_doc ''checkpoint.json'' s' = find_doc ''checkpoint.json'' (put_doc ''checkpoint.json'' (ho_reload h (Doc_checkpoint (new_checkpoint c st pp now))) s)"
proof -
  define now where "now = ho_clock h (sv_tick s)"
  let ?cp = "new_checkpoint c st pp now" and ?s0 = "s\<lparr>sv_tick := Suc (sv_tick s)\<rparr>"
  have r: "sbind (store_save h ''checkpoint.json'' (Doc_checkpoint ?cp)) (\<lambda>_. export h ?cp) ?s0 = (r, s')"
    using assms by (simp add: save_def sbind_eq now_def Let_def)
  obtain q s1 where q: "store_save h ''checkpoint.json'' (Doc_checkpoint ?cp) ?s0 = (q, s1)" by fastforce
  have e: "find_doc ''checkpoint.json'' s' = find_doc ''checkpoint.json'' s1"
  proof (cases q)
    case (Inr u)
    then have "export h ?cp s1 = (r, s')" using r q by (simp add: sbind_eq)
    from keepsD [OF docs_export [of "{''strategy.json'', ''paper.json''}"] this] show ?thesis by (simp add: same_docs_def)
  qed (use r q in \<open>simp add: sbind_eq\<close>)
  have "r \<noteq> Inr ()" if "q \<noteq> Inr ()" using that r q by (cases q) (auto simp: sbind_eq)
  then show thesis using that [OF now_def] e save_outcome [OF q] by (cases "q = Inr ()") auto
qed

section \<open>Loading keeps the risk state\<close>

lemma load_checkpointD:
  assumes "load_checkpoint h c cp s = (Inr (st, pp), s')"
  shows "cp_schema cp = 1 \<and> cp_mode cp = cf_mode c \<and> (cf_mode c = Paper \<longrightarrow> cp_paper cp \<noteq> None) \<and> risk_kept (cp_strategy cp) st
    \<and> (\<forall>q. cp_paper cp = Some q \<longrightarrow> pp = q) \<and> (opened s \<or> registered s \<longrightarrow> st_entry_history st = Established)"
proof -
  obtain st1 s1 s2 where st: "cp_schema cp = 1 \<and> cp_mode cp = cf_mode c" "cf_mode c \<noteq> Paper \<or> cp_paper cp \<noteq> None"
    "restore_entry_history h (cp_strategy cp) s = (Inr st1, s1)" "export h (cp\<lparr>cp_strategy := st1\<rparr>) s1 = (Inr (), s2)"
    "(case cp_paper cp of Some pp \<Rightarrow> slift (Inr (st1, pp))
      | None \<Rightarrow> sbind (host_now h) (\<lambda>now. slift (Inr (st1, paper_new c now)))) s2 = (Inr (st, pp), s')"
    using assms unfolding load_checkpoint_def by (elim sbind_InrE) auto
  have "st = st1 \<and> (\<forall>q. cp_paper cp = Some q \<longrightarrow> pp = q)" using st(5) by (auto simp: sbind_eq split: option.splits)
  then show ?thesis using st(1,2) restore_kept [OF st(3)] by auto
qed

lemma load_legacyD:
  assumes "load_legacy h c s = (Inr (st, pp), s')"
  shows "(case find_doc ''strategy.json'' s of
       None \<Rightarrow> risk_kept strategy_default st \<and> find_doc ''equity_baseline.json'' s = None
     | Some (Doc_strategy x) \<Rightarrow> risk_kept x st
     | Some d \<Rightarrow> False) \<and> (opened s \<or> registered s \<longrightarrow> st_entry_history st = Established)"
proof -
  obtain st0 b s1 where st: "read_strategy ''strategy.json'' s = Inr st0"
    "(if st0 = None then doc_present ''equity_baseline.json'' else (\<lambda>s. Inr False)) s = Inr b" "st0 \<noteq> None \<or> \<not> b"
    "restore_entry_history h (case st0 of None \<Rightarrow> strategy_default | Some st \<Rightarrow> st) s = (Inr st, s1)"
    using assms unfolding load_legacy_def by (elim sbind_InrE) auto
  note k = restore_kept [OF st(4)]
  show ?thesis
  proof (cases st0)
    case None
    then have "find_doc ''strategy.json'' s = None" "find_doc ''equity_baseline.json'' s = None"
      using st(1-3) by (auto simp: read_strategy_def doc_present_def split: option.splits doc.splits)
    then show ?thesis using k None by simp
  next
    case (Some x)
    then have "find_doc ''strategy.json'' s = Some (Doc_strategy x)"
      using st(1) by (auto simp: read_strategy_def split: option.splits doc.splits)
    then show ?thesis using k Some by simp
  qed
qed

text \<open>
  C19: a restart never forgets risk: what loading returns agrees with the saved state in everything but
  the history of entries, so a halt, the peak of the account, a pause and its progress survive; the
  history becomes established when liquidity was ever recorded; another mode or schema is refused,
  and so is an account whose risk state is missing.
\<close>

theorem load_keeps_risk:
  assumes "load h c s = (Inr (st, pp), s')"
  shows "(case find_doc ''checkpoint.json'' s of
       Some (Doc_checkpoint cp) \<Rightarrow> risk_kept (cp_strategy cp) st \<and> cp_schema cp = 1 \<and> cp_mode cp = cf_mode c
         \<and> (\<forall>q. cp_paper cp = Some q \<longrightarrow> pp = q)
     | None \<Rightarrow> (case find_doc ''strategy.json'' s of
           None \<Rightarrow> risk_kept strategy_default st \<and> find_doc ''equity_baseline.json'' s = None
         | Some (Doc_strategy x) \<Rightarrow> risk_kept x st
         | Some d \<Rightarrow> False)
     | Some d \<Rightarrow> False) \<and> (opened s \<or> registered s \<longrightarrow> st_entry_history st = Established)"
proof -
  obtain d where d: "read_checkpoint ''checkpoint.json'' s = Inr d"
    "(case d of Some cp \<Rightarrow> load_checkpoint h c cp | None \<Rightarrow> load_legacy h c) s = (Inr (st, pp), s')"
    using assms unfolding load_def by (elim sbind_InrE) auto
  show ?thesis
  proof (cases d)
    case None
    then have "find_doc ''checkpoint.json'' s = None"
      using d(1) by (auto simp: read_checkpoint_def split: option.splits doc.splits)
    then show ?thesis using load_legacyD [of h c s st pp s'] d(2) None by simp
  next
    case (Some cp)
    then have "find_doc ''checkpoint.json'' s = Some (Doc_checkpoint cp)"
      using d(1) by (auto simp: read_checkpoint_def split: option.splits doc.splits)
    then show ?thesis using load_checkpointD [of h c cp s st pp s'] d(2) Some by simp
  qed
qed

text \<open>
  C20: a cycle is committed as a whole: however the saving of a checkpoint ends, a start that comes back
  does so either from the one saved checkpoint, with the strategy and the simulated ledger its text reads
  back as, or the checkpoint before is still in place, and the latter only when the saving reported a
  failure. Reading back need not give the same numbers; only that the text of a checkpoint is not
  the null text is relied on.
\<close>

theorem checkpoint_atomic:
  assumes "save h c st pp s = (r, s1)" "load h c s1 = (Inr (st2, pp2), s2)"
    and "\<forall>cp. ho_reload h (Doc_checkpoint cp) \<noteq> Doc_json JNull"
  shows "(\<exists>cp. ho_reload h (Doc_checkpoint (new_checkpoint c st pp (ho_clock h (sv_tick s)))) = Doc_checkpoint cp
      \<and> find_doc ''checkpoint.json'' s1 = Some (Doc_checkpoint cp)
      \<and> risk_kept (cp_strategy cp) st2 \<and> (cf_mode c = Paper \<longrightarrow> cp_paper cp = Some pp2))
    \<or> r \<noteq> Inr () \<and> find_doc ''checkpoint.json'' s1 = find_doc ''checkpoint.json'' s"
  using assms(1)
proof (cases rule: save_checkpoint)
  case (1 now)
  show ?thesis
  proof (cases "r \<noteq> Inr () \<and> find_doc ''checkpoint.json'' s1 = find_doc ''checkpoint.json'' s")
    case False
    let ?d = "ho_reload h (Doc_checkpoint (new_checkpoint c st pp now))"
    have d: "find_doc ''checkpoint.json'' s1 = Some ?d" using 1(2) False assms(3) by auto
    obtain cp where cp: "?d = Doc_checkpoint cp" "load_checkpoint h c cp s1 = (Inr (st2, pp2), s2)"
      using assms(2) d by (cases ?d) (auto simp: load_def sbind_eq read_checkpoint_def)
    from load_checkpointD [OF cp(2)] d cp(1) 1(1) show ?thesis by auto
  qed simp
qed

end
