(* ===== verification/Entry_Rearm_Props.thy ===== *)
theory Entry_Rearm_Props
  imports Entry_Rearm Recovery_Props
begin

text \<open>
  A permit waives the waiting for one entry and nothing else: it is spent before the entry is sent, a
  spent permit never comes back, and the history of the strategy is not rewritten.
\<close>

section \<open>A permit is spent once\<close>

definition permit_spent :: "string \<Rightarrow> store \<Rightarrow> bool" where
  "permit_spent i s \<longleftrightarrow> (\<forall>p. find_doc rearm_file s = Some (Doc_permit p) \<longrightarrow> pm_id p = i \<longrightarrow> pm_status p \<noteq> Armed)"

definition spent_kept :: "string \<Rightarrow> store \<Rightarrow> store \<Rightarrow> bool" where
  "spent_kept i s s' \<longleftrightarrow> (permit_spent i s \<longrightarrow> permit_spent i s')"

interpretation permits: store_steps "spent_kept i" for i
proof
  show "spent_kept i s s'" if "sv_files s' = sv_files s" "sv_sent s' = sv_sent s" for s s'
    using find_doc_files [OF that(1)] by (simp add: spent_kept_def permit_spent_def)
qed (simp add: spent_kept_def)

lemmas permit_flow = permits.keeps_sbind permits.keeps_pure permits.keeps_if docs_opt permits.keeps_event

lemma permit_other: "n \<noteq> rearm_file \<Longrightarrow> spent_kept i s (put_doc n d s)"
  by (simp add: spent_kept_def permit_spent_def)

lemma permit_mine: "pm_status p \<noteq> Armed \<or> pm_id p \<noteq> i \<Longrightarrow> spent_kept i s (put_doc rearm_file (Doc_permit p) s)"
  by (auto simp: spent_kept_def permit_spent_def)

lemma permit_save: "n \<noteq> rearm_file \<Longrightarrow> keeps (spent_kept i) (store_save h n d)"
  unfolding store_save_def by (intro permits.keeps_write permit_other)

lemma permit_write: "n \<noteq> rearm_file \<Longrightarrow> keeps (spent_kept i) (store_write h n d)"
  by (intro permits.keeps_write permit_other)

text \<open>An operation that leaves the permit file alone keeps a permit spent.\<close>

lemma permit_docs: "keeps (same_docs N) m \<Longrightarrow> rearm_file \<notin> N \<Longrightarrow> keeps (spent_kept i) m"
  by (auto simp: keeps_def same_docs_def spent_kept_def permit_spent_def)

lemma permit_close: "status \<noteq> Armed \<Longrightarrow> keeps (spent_kept i) (rearm_close h kind status p extra)"
  unfolding rearm_close_def Let_def
  by (intro permit_flow permits.keeps_write permit_mine) simp

lemma permit_issue: "j \<noteq> i \<Longrightarrow> keeps (spent_kept i) (rearm_issue h L c st cp j)"
  unfolding rearm_issue_def Let_def
  by (intro permit_flow permit_save permits.keeps_write permit_mine) (simp_all add: rearm_file_def)

lemma permit_new:
  assumes "\<forall>t. ho_uuid h t \<noteq> i" shows "keeps (spent_kept i) (rearm_new h L c st cp)"
  unfolding keeps_def
proof (intro allI impI)
  fix s r s' assume run: "rearm_new h L c st cp s = (r, s')"
  have ne: "ho_uuid h (sv_tick s) \<noteq> i" using assms by blast
  define s1 where "s1 = s\<lparr>sv_tick := Suc (sv_tick s)\<rparr>"
  have "rearm_issue h L c st cp (ho_uuid h (sv_tick s)) s1 = (r, s')"
    using run unfolding rearm_new_def s1_def .
  with permit_issue [OF ne] have "spent_kept i s1 s'" by (rule keepsD)
  moreover have "sv_files s1 = sv_files s" by (simp add: s1_def)
  ultimately show "spent_kept i s s'" using find_doc_files [of s1 s] unfolding spent_kept_def permit_spent_def by metis
qed

lemma permit_arm:
  assumes "\<forall>t. ho_uuid h t \<noteq> i" shows "keeps (spent_kept i) (rearm_arm h L c st actual)"
  unfolding rearm_arm_def by (intro permit_flow permit_new assms)

lemma permit_evaluate: "keeps (spent_kept i) (rearm_evaluate h L lib c f st)"
  unfolding rearm_evaluate_def rearm_cancel_def split_def
  by (intro permit_flow permit_close) simp_all

lemma permit_consume: "keeps (spent_kept i) (rearm_consume h L c d)"
  unfolding rearm_consume_def Let_def
  by (cases "d_lp d") (simp, intro permit_flow permits.keeps_write permit_mine; simp)+

datatype restart_op =
    E_arm strategy portfolio
  | E_evaluate market_frame strategy
  | E_consume decision
  | E_save strategy paper
  | E_load
  | E_stage string json
  | E_store store_op

text \<open>One operation of a process with the configuration \<open>c\<close>; only success or failure matters here.\<close>

fun restart_step :: "host \<Rightarrow> text_lib \<Rightarrow> libm \<Rightarrow> config \<Rightarrow> restart_op \<Rightarrow> store \<Rightarrow> unit res \<times> store" where
  "restart_step h L lib c (E_arm st pf) s = map_prod (map_sum id (\<lambda>_. ())) id (rearm_arm h L c st pf s)"
| "restart_step h L lib c (E_evaluate f st) s = map_prod (map_sum id (\<lambda>_. ())) id (rearm_evaluate h L lib c f st s)"
| "restart_step h L lib c (E_consume d) s = rearm_consume h L c d s"
| "restart_step h L lib c (E_save st pp) s = save h c st pp s"
| "restart_step h L lib c E_load s = map_prod (map_sum id (\<lambda>_. ())) id (load h c s)"
| "restart_step h L lib c (E_stage n d) s = stage h n d s"
| "restart_step h L lib c (E_store x) s = map_prod (map_sum id (\<lambda>_. ())) id (store_step h x s)"

definition restart_docs :: "string set" where
  "restart_docs = {''checkpoint.json'', ''strategy.json'', ''paper.json'', ''lp_history.json'', ''startup_reconciliation.json''}"

lemma docs_load: "keeps (same_docs restart_docs) (load h c)"
  unfolding load_def load_checkpoint_def load_legacy_def
  by (intro docs_flow docs_restore docs_export docs_checkpoint_save docs_stage) (simp_all add: restart_docs_def)

lemma permit_store: "keeps (spent_kept i) (store_step h x)"
proof -
  have a: "archive_name h k = Inr n \<Longrightarrow> n \<noteq> rearm_file" for k n
    using archive_name_prefix by (fastforce simp: rearm_file_def)
  have "keeps (spent_kept i) (store_begin h v)" "keeps (spent_kept i) (store_finish h v)" "keeps (spent_kept i) (next_nonce h)" for v
    unfolding store_begin_def store_finish_def next_nonce_def Let_def
    by (intro permit_flow permit_write; simp add: rearm_file_def)+
  moreover have "keeps (spent_kept i) (archive_order h k v)" for k v
    by (rule permits.keeps_archive) (auto intro: permit_other dest: a)
  ultimately show ?thesis using permits.keeps_event [of i h]
    by (cases x) (auto simp: keeps_def split: prod.splits)
qed

lemma permit_step:
  assumes "\<forall>t. ho_uuid h t \<noteq> i" "restart_step h L lib c x s = (r, s')" shows "spent_kept i s s'"
proof -
  have k: "keeps (spent_kept i) (save h c st pp)" "keeps (spent_kept i) (load h c)" "keeps (spent_kept i) (stage h n d)" for st pp n d
    using permit_docs [OF docs_checkpoint_save [of restart_docs]] permit_docs [OF docs_load] permit_docs [OF docs_stage [of restart_docs]]
    by (auto simp: restart_docs_def rearm_file_def)
  show ?thesis
    using assms(2) keepsD [OF k(1)] keepsD [OF k(2)] keepsD [OF k(3)] keepsD [OF permit_arm [OF assms(1)]] keepsD [OF permit_evaluate] keepsD [OF permit_consume] keepsD [OF permit_store]
    by (cases x) (auto simp: map_prod_def split: prod.splits)
qed

lemma rearm_readD: "rearm_read L c s = Inr (Some p) \<Longrightarrow> find_doc rearm_file s = Some (Doc_permit p)"
  by (auto simp: rearm_read_def read_permit_def split: option.splits doc.splits)

lemma consume_spends:
  assumes "rearm_consume h L c d s = (Inr u, s')" "d_lp d = Deploy x" "permit_of (d_reasons d) = Some i"
  shows "permit_spent i s'"
proof -
  obtain p now s1 s2 where "pm_id p = i" "store_write h rearm_file (Doc_permit (p\<lparr>pm_status := Consumed, pm_updated_ms := now\<rparr>)) s1 = (Inr (), s2)"
    "store_event h ''entry_rearm_consumed'' (permit_json (p\<lparr>pm_status := Consumed, pm_updated_ms := now\<rparr>)) s2 = (Inr u, s')"
    using assms unfolding rearm_consume_def by (auto simp: Let_def elim!: sbind_InrE)
  moreover have "permit_spent i s2" using store_write_ok [OF calculation(2)] by (simp add: permit_spent_def)
  ultimately show ?thesis using keepsD [OF permits.keeps_event] by (fastforce simp: spent_kept_def)
qed

text \<open>
  C18: a permit waives the waiting once: after it was consumed for one entry, no later decision that
  rests on it can be consumed again, over any run of arming, evaluating, consuming, saving, loading
  and other operations of the store, whichever of them fail, as long as permits issued later draw
  other identifiers.
\<close>

theorem permit_once:
  assumes "rearm_consume h0 L0 c0 d s = (Inr u, s1)" "d_lp d = Deploy x" "permit_of (d_reasons d) = Some i"
    and "run_ops (restart_step h L lib c) xs s1 = (rs, s2)" "\<forall>t. ho_uuid h t \<noteq> i"
    and "d_lp d2 = Deploy y" "permit_of (d_reasons d2) = Some i"
  shows "fst (rearm_consume h L c d2 s2) \<noteq> Inr ()"
proof
  assume "fst (rearm_consume h L c d2 s2) = Inr ()"
  then obtain s3 where c: "rearm_consume h L c d2 s2 = (Inr (), s3)" by (cases "rearm_consume h L c d2 s2") auto
  have "spent_kept i s1 s2"
    by (rule run_ops_keeps [OF _ _ _ assms(4)]) (auto dest: permit_step [OF assms(5)] simp: spent_kept_def)
  then have sp: "permit_spent i s2" using consume_spends [OF assms(1-3)] by (simp add: spent_kept_def)
  obtain p where "rearm_read L c s2 = Inr (Some p)" "pm_id p = i" "pm_status p = Armed"
    using c assms(6,7) unfolding rearm_consume_def by (auto simp: Let_def elim!: sbind_InrE)
  then show False using sp rearm_readD by (auto simp: permit_spent_def)
qed

section \<open>What the permit changes\<close>

lemma cancel_spends:
  assumes "rearm_cancel h w p s = (Inr u, t)" shows "permit_spent (pm_id p) t"
proof -
  obtain now s1 s2 where c: "store_write h rearm_file (Doc_permit (p\<lparr>pm_status := Canceled, pm_updated_ms := now\<rparr>)) s1 = (Inr (), s2)"
    "store_event h ''entry_rearm_canceled'' (JObj [(''permit'', permit_json (p\<lparr>pm_status := Canceled, pm_updated_ms := now\<rparr>)),
       (''reason'', JStr w)]) s2 = (Inr u, t)"
    using assms unfolding rearm_cancel_def rearm_close_def Let_def by (elim sbind_InrE) (auto intro: that)
  have "permit_spent (pm_id p) s2" using store_write_ok [OF c(1)] by (simp add: permit_spent_def)
  then show ?thesis using keepsD [OF permits.keeps_event c(2)] by (simp add: spent_kept_def)
qed

lemma trial_same:
  assumes "rearm_trial lib c f i st = Inr (st1, d)"
  shows "\<exists>st2 d2. evaluate_with_continuity lib (cf_strategy c) f (st\<lparr>st_entry_history := Initial\<rparr>) = Inr (st2, d2)
    \<and> st1 = st2\<lparr>st_entry_history := st_entry_history st\<rparr> \<and> d_lp d = d_lp d2"
proof -
  obtain st2 d2 where e: "evaluate_with_continuity lib (cf_strategy c) f (st\<lparr>st_entry_history := Initial\<rparr>) = Inr (st2, d2)"
    using assms by (auto simp: rearm_trial_def)
  then show ?thesis using assms by (cases "d_lp d2") (auto simp: rearm_trial_def)
qed

text \<open>
  C32: only an armed permit, for a paused strategy with a flat inventory and nothing open, changes the
  evaluation, and then only by showing it an empty history of entries, which is put back at once; a
  permit that no longer fits is cancelled, and the drawdown halt cancels it as well. In every other
  case the decision is that of the ordinary evaluation.
\<close>

theorem rearm_waives_only_waiting:
  assumes "rearm_evaluate h L lib c f st s = (Inr (st1, d), s1)"
  shows "evaluate_with_continuity lib (cf_strategy c) f st = Inr (st1, d)
        \<and> (\<forall>p. rearm_read L c s = Inr (Some p) \<and> pm_status p = Armed \<longrightarrow> permit_spent (pm_id p) s1)
    \<or> (\<exists>p st2 d2. rearm_read L c s = Inr (Some p) \<and> pm_status p = Armed \<and> cf_mode c = Live \<and> st_phase st = Paused
        \<and> rearm_flat (mf_portfolio f) \<and> settled_now s = Inr ()
        \<and> evaluate_with_continuity lib (cf_strategy c) f (st\<lparr>st_entry_history := Initial\<rparr>) = Inr (st2, d2)
        \<and> st1 = st2\<lparr>st_entry_history := st_entry_history st\<rparr> \<and> d_lp d = d_lp d2
        \<and> (st_phase st1 = Halted \<longrightarrow> permit_spent (pm_id p) s1))"
proof -
  obtain dd where r: "rearm_read L c s = Inr dd" using assms by (auto simp: rearm_evaluate_def elim!: sbind_InrE)
  note close = cancel_spends
  show ?thesis
  proof (cases "\<exists>p. dd = Some p \<and> pm_status p = Armed")
    case False
    then have "evaluate_with_continuity lib (cf_strategy c) f st = Inr (st1, d)"
      using assms r by (auto simp: rearm_evaluate_def sbind_eq split: option.splits if_splits)
    then show ?thesis using False r by auto
  next
    case True
    then obtain p where p: "dd = Some p" "pm_status p = Armed" by blast
    show ?thesis
    proof (cases "st_phase st \<noteq> Paused \<or> \<not> rearm_flat (mf_portfolio f)")
      case True
      then obtain u where "rearm_cancel h ''phase changed or inventory no longer flat'' p s = (Inr u, s1)"
        "evaluate_with_continuity lib (cf_strategy c) f st = Inr (st1, d)"
        using assms r p by (auto simp: rearm_evaluate_def elim!: sbind_InrE)
      then show ?thesis using close r p by auto
    next
      case False
      then obtain st2 d2 u where t: "cf_mode c = Live" "settled_now s = Inr ()"
        "rearm_trial lib c f (pm_id p) st = Inr (st1, d)"
        "(if st_phase st1 = Halted then rearm_cancel h ''drawdown halt'' p else slift (Inr ())) s = (Inr u, s1)"
        using assms r p by (auto simp: rearm_evaluate_def elim!: sbind_InrE)
      from trial_same [OF t(3)] obtain st2 d2 where "evaluate_with_continuity lib (cf_strategy c) f (st\<lparr>st_entry_history := Initial\<rparr>) = Inr (st2, d2)"
        "st1 = st2\<lparr>st_entry_history := st_entry_history st\<rparr>" "d_lp d = d_lp d2"
        by blast
      then show ?thesis using t(1,2,4) close r p False by auto
    qed
  qed
qed

end
