(* ===== verification/Restart_Samples.thy ===== *)
theory Restart_Samples
  imports Samples V3_Samples Hl_Samples Entry_Rearm_Props
begin

text \<open>The theorems about the simulated ledger, restarts and the re-entry permit at concrete inputs.\<close>

definition sample_config :: "mode \<Rightarrow> config" where
  "sample_config m = \<lparr>cf_mode = m, cf_state_dir = ''data'', cf_poll_seconds = 15, cf_hyperliquid = sample_exchange_cfg,
     cf_liquidity = sample_liquidity, cf_strategy = cfg0, cf_websocket = websocket_config_default,
     cf_monitoring = monitoring_config_default, cf_logging = logging_config_default,
     cf_runtime = runtime_config_default, cf_storage = sample_policy\<rparr>"

section \<open>The simulated ledger\<close>

definition sample_paper :: paper where
  "sample_paper = \<lparr>pp_portfolio = (flat0 (Fin 500))\<lparr>pf_short_base := Fin 2\<rparr>, pp_last_hedge_price = Fin 1,
     pp_pending = Some \<lparr>po_target = Fin 3, po_buy = False, po_price = Fin 2, po_submitted = 1000, po_emergency = False\<rparr>,
     pp_hedge_fees = 0, pp_swap_costs = 0, pp_funding_pnl = 0, pp_last_funding_ms = 0\<rparr>"

definition sample_exit :: decision where
  "sample_exit = \<lparr>d_state = ''Halted'', d_reasons = [], d_lp = ExitToQuote, d_target_short_base = 0, d_emergency = True\<rparr>"

text \<open>An exit closes the short of the ledger; five seconds later its order is gone without a fill.\<close>

theorem paper_settles_witness:
  "pp_pending (projr (paper_apply_with_widths sample_exit (sample_config Paper) 1 1 9000 None sample_paper)) = None
   \<and> pp_pending (projr (paper_mark 1 1 9000 (sample_config Paper) sample_paper)) = None"
proof -
  have a: "paper_apply_with_widths sample_exit (sample_config Paper) 1 1 9000 None sample_paper
      = Inr (projr (paper_apply_with_widths sample_exit (sample_config Paper) 1 1 9000 None sample_paper))"
    by (simp add: paper_apply_with_widths_def sample_exit_def)
  have m: "paper_mark 1 1 9000 (sample_config Paper) sample_paper
      = Inr (projr (paper_mark 1 1 9000 (sample_config Paper) sample_paper))"
    by (simp add: paper_mark_def sample_paper_def flat0_def Let_def)
  have p: "\<exists>x. pp_pending sample_paper = Some x
      \<and> hc_maker_wait_seconds (cf_hyperliquid (sample_config Paper)) * 1000 \<le> sat_sub 9000 (po_submitted x)"
    by (simp add: sample_paper_def sample_config_def sample_exchange_cfg_def sat_sub_def)
  have e: "d_lp sample_exit = ExitToQuote" by (simp add: sample_exit_def)
  show ?thesis using paper_settles [THEN conjunct1, rule_format, OF a e] paper_settles [THEN conjunct2, rule_format, OF m] p
    by blast
qed

definition sample_funding :: "json list" where
  "sample_funding = [JObj [(''time'', JNum (PosInt 5)), (''fundingRate'', JNum (Float (Fin (1/8))))]]"

theorem funding_once_witness:
  "paper_funding (JArr sample_funding) (projr (paper_funding (JArr sample_funding) sample_paper))
    = Inr (projr (paper_funding (JArr sample_funding) sample_paper))"
proof -
  have "paper_funding (JArr sample_funding) sample_paper = Inr (projr (paper_funding (JArr sample_funding) sample_paper))"
    by (simp add: paper_funding_def sample_funding_def sample_paper_def Let_def jget_def num_def)
  from funding_once [OF this subset_refl] show ?thesis .
qed

section \<open>Restarts\<close>

definition halted0 :: strategy where
  "halted0 = strategy_default\<lparr>st_entry_history := Established, st_phase := Halted, st_peak_equity := Fin 900\<rparr>"

definition sample_saved :: store where
  "sample_saved = snd (save sample_host (sample_config Paper) halted0 sample_paper sample_store)"

lemma sample_saved_ok: "case fst (load sample_host (sample_config Paper) sample_saved) of Inl e \<Rightarrow> False | Inr y \<Rightarrow> True"
  by code_simp

lemma sample_loaded:
  "\<exists>st pp s. load sample_host (sample_config Paper) sample_saved = (Inr (st, pp), s)"
  using sample_saved_ok by (cases "load sample_host (sample_config Paper) sample_saved") (auto split: sum.splits)

text \<open>A halted strategy is halted after a restart.\<close>

theorem load_keeps_risk_witness:
  "\<exists>st pp s. load sample_host (sample_config Paper) sample_saved = (Inr (st, pp), s) \<and> st_phase st = Halted"
proof -
  obtain st pp s where l: "load sample_host (sample_config Paper) sample_saved = (Inr (st, pp), s)"
    using sample_loaded by blast
  have "case find_doc ''checkpoint.json'' sample_saved of Some (Doc_checkpoint cp) \<Rightarrow> st_phase (cp_strategy cp) = Halted
      | _ \<Rightarrow> False" by code_simp
  with load_keeps_risk [OF l] have "st_phase st = Halted"
    by (auto dest: risk_kept_fields split: option.splits doc.splits)
  with l show ?thesis by blast
qed

theorem checkpoint_atomic_witness:
  "\<exists>st pp s. load sample_host (sample_config Paper) sample_saved = (Inr (st, pp), s) \<and> st_peak_equity st = Fin 900 \<and> pp = sample_paper"
proof -
  let ?run = "save sample_host (sample_config Paper) halted0 sample_paper sample_store"
  obtain st pp s where l: "load sample_host (sample_config Paper) sample_saved = (Inr (st, pp), s)"
    using sample_loaded by blast
  have "fst ?run = Inr ()" by code_simp
  then have r: "?run = (Inr (), sample_saved)" unfolding sample_saved_def by (cases ?run) simp
  have "risk_kept halted0 st \<and> (cf_mode (sample_config Paper) = Paper \<longrightarrow> pp = sample_paper)"
    using checkpoint_atomic [OF r l] by (auto simp: sample_host_def new_checkpoint_def sample_config_def)
  then have "st_peak_equity st = Fin 900 \<and> pp = sample_paper"
    by (auto dest: risk_kept_fields simp: halted0_def sample_config_def)
  with l show ?thesis by blast
qed

section \<open>The permit\<close>

definition sample_texts :: text_lib where
  "sample_texts = \<lparr>tl_config = (\<lambda>c. Inr JNull), tl_strategy = (\<lambda>s. JNull), tl_hash = (\<lambda>v. ''hash'')\<rparr>"

definition sample_permit :: permit where
  "sample_permit = \<lparr>pm_schema = 1, pm_id = ''p1'', pm_binding = ''hash'', pm_requested_ms = 5, pm_status = Armed, pm_updated_ms = 5\<rparr>"

definition armed_store :: store where
  "armed_store = put_doc rearm_file (Doc_permit sample_permit) sample_store"

definition sample_entry :: decision where
  "sample_entry = \<lparr>d_state = ''Recovering'', d_reasons = [''manual_entry_rearm:p1''], d_lp = Deploy 1, d_target_short_base = 0,
     d_emergency = False\<rparr>"

abbreviation "sample_consume \<equiv> rearm_consume sample_host sample_texts (sample_config Live) sample_entry"

text \<open>A second entry on the same permit fails, also after the operator armed another one.\<close>

theorem permit_once_witness:
  "fst (sample_consume (snd (run_ops (restart_step sample_host sample_texts lib0 (sample_config Live))
     [E_arm paused0 (flat0 1), E_load, E_consume sample_entry] (snd (sample_consume armed_store))))) \<noteq> Inr ()"
proof -
  have "fst (sample_consume armed_store) = Inr ()" by code_simp
  then have c: "sample_consume armed_store = (Inr (), snd (sample_consume armed_store))"
    by (cases "sample_consume armed_store") simp
  have p: "permit_of (d_reasons sample_entry) = Some ''p1''" "d_lp sample_entry = Deploy 1"
    by (simp_all add: sample_entry_def rearm_reason_def strip_prefix_def starts_with_def)
  have u: "\<forall>t. ho_uuid sample_host t \<noteq> ''p1''" by (simp add: sample_host_def)
  show ?thesis by (rule permit_once [OF c p(2,1) surj_run [OF refl] u p(2,1)])
qed

lemma gapped_trial:
  "\<exists>st1 d. rearm_trial lib0 (sample_config Live) flat_frame ''p1'' gapped0 = Inr (st1, d) \<and> st_phase st1 \<noteq> Halted"
proof -
  have "case with_metrics cfg0 flat_frame True metrics0 (gapped0\<lparr>st_entry_history := Initial\<rparr>) of
      Inl e \<Rightarrow> False | Inr (s, d) \<Rightarrow> st_phase s \<noteq> Halted" by code_simp
  then obtain s d where "evaluate_inner lib0 cfg0 flat_frame True (gapped0\<lparr>st_entry_history := Initial\<rparr>) = Inr (s, d)"
    "st_phase s \<noteq> Halted"
    unfolding evaluate0 [OF usable0(1), symmetric] by (auto split: sum.splits prod.splits)
  moreover have "cf_strategy (sample_config Live) = cfg0" "sc_eth_persistent cfg0 = None"
    by (simp_all add: sample_config_def cfg0_def)
  ultimately show ?thesis by (simp add: rearm_trial_def evaluate_with_continuity_def)
qed

lemma armed_now:
  "rearm_read sample_texts (sample_config Live) armed_store = Inr (Some sample_permit)" "settled_now armed_store = Inr ()"
  "rearm_flat (flat0 (Fin 650))"
  by code_simp+

text \<open>With the permit armed the history of entries is back in place after the evaluation.\<close>

theorem rearm_waives_only_waiting_witness:
  "\<exists>st1 d s1. rearm_evaluate sample_host sample_texts lib0 (sample_config Live) flat_frame gapped0 armed_store = (Inr (st1, d), s1)
     \<and> st_entry_history st1 = Established"
proof -
  obtain st1 d where t: "rearm_trial lib0 (sample_config Live) flat_frame ''p1'' gapped0 = Inr (st1, d)" "st_phase st1 \<noteq> Halted"
    using gapped_trial by blast
  have f: "pm_status sample_permit = Armed" "pm_id sample_permit = ''p1''" "st_phase gapped0 = Paused"
    "st_entry_history gapped0 = Established" "cf_mode (sample_config Live) = Live" "mf_portfolio flat_frame = flat0 (Fin 650)"
    by (simp_all add: sample_permit_def gapped0_def paused0_def sample_config_def frame0_def)
  have e: "rearm_evaluate sample_host sample_texts lib0 (sample_config Live) flat_frame gapped0 armed_store = (Inr (st1, d), armed_store)"
    using armed_now t by (simp add: rearm_evaluate_def sbind_eq sread_def slift_def f)
  have "\<not> permit_spent ''p1'' armed_store"
    using f(1,2) by (auto simp: permit_spent_def armed_store_def)
  then have "st_entry_history st1 = st_entry_history gapped0"
    using rearm_waives_only_waiting [OF e] armed_now(1) f(1,2) by auto
  then show ?thesis using e f(4) by auto
qed

end
