(* ===== verification/V3_Adapter.thy ===== *)
theory V3_Adapter
  imports Evm_Rpc V3_Exec Store
begin

text \<open>
  The Uniswap V3 adapter (\<open>src/liquidity/uniswap_v3/mod.rs\<close>): reading pool, wallet and positions from
  the node. The parameters are the node (what \<open>Rpc::request\<close> comes back with at each moment, see
  \<open>Evm_Rpc\<close>), the cache other tasks share, and the libraries for hashing, encoding and text.
\<close>

section \<open>The node\<close>

record node =
  nd_request :: "nat \<Rightarrow> string \<Rightarrow> json \<Rightarrow> rpc_fail + json"

text \<open>What the shared cache of observations holds at a moment.\<close>

record cached_header =
  hd_number :: u64
  hd_hash :: string
  hd_time_ms :: u64

record cache_view =
  cv_spacing :: "nat \<Rightarrow> int option"
  cv_snapshot :: "nat \<Rightarrow> pool_snapshot option"
  cv_header :: "nat \<Rightarrow> (cached_header \<times> bool) option"
  cv_words :: "nat \<Rightarrow> u64 \<times> string \<times> address \<times> string \<times> u256 list \<Rightarrow> u256 list option"
  cv_hash :: "nat \<Rightarrow> u64 \<Rightarrow> string option"
  cv_unchanged :: "nat \<Rightarrow> bool"

record evm_lib =
  el_keccak :: "string \<Rightarrow> u8 list"
  el_unhex :: "string \<Rightarrow> u8 list option"
  el_hex :: "u8 list \<Rightarrow> string"
  el_address :: "address \<Rightarrow> string"
  el_parse_address :: "string \<Rightarrow> address res"
  el_text :: u256_text
  el_decimal :: "f64 \<Rightarrow> u8 \<Rightarrow> string option"
  el_libm :: libm
  el_powf :: "f64 \<Rightarrow> f64 \<Rightarrow> f64"

record v3 =
  v3_cfg :: liquidity_config
  v3_pool :: address
  v3_manager :: address
  v3_router :: address
  v3_base :: address
  v3_quote :: address
  v3_node :: node
  v3_archive :: node
  v3_cache :: cache_view
  v3_lib :: evm_lib

definition v3_new :: "node \<Rightarrow> node \<Rightarrow> cache_view \<Rightarrow> evm_lib \<Rightarrow> liquidity_config \<Rightarrow> v3 res" where
  "v3_new nd archive cache L cfg =
     rbind (el_parse_address L (lq_pool cfg)) (\<lambda>pool.
     rbind (el_parse_address L (lq_position_manager cfg)) (\<lambda>manager.
     rbind (el_parse_address L (lq_swap_router cfg)) (\<lambda>router.
     rbind (el_parse_address L (lq_base_token cfg)) (\<lambda>base.
     rbind (el_parse_address L (lq_quote_token cfg)) (\<lambda>quote.
     Inr \<lparr>v3_cfg = cfg, v3_pool = pool, v3_manager = manager, v3_router = router, v3_base = base, v3_quote = quote,
       v3_node = nd, v3_archive = archive, v3_cache = cache, v3_lib = L\<rparr>)))))"

text \<open>A failure of a request as the error the caller sees.\<close>

fun fail_err :: "rpc_fail \<Rightarrow> err" where
  "fail_err (Rpc_error meth code m) = Bail m"
| "fail_err (Rpc_limited meth until) = (if meth = broadcast then Bail ''rate limited'' else ReadUnavailable ''rate limited'')"
| "fail_err (Rpc_unavailable m) = ReadUnavailable m"
| "fail_err (Rpc_other m) = Bail m"
| "fail_err (Rpc_panic m) = Panic m"

definition node_res :: "rpc_fail + json \<Rightarrow> json res" where
  "node_res r = map_sum fail_err id r"

definition node_raw :: "node \<Rightarrow> string \<Rightarrow> json \<Rightarrow> (rpc_fail + json) st" where
  "node_raw nd meth params s = (Inr (nd_request nd (sv_tick s) meth params), s\<lparr>sv_tick := Suc (sv_tick s)\<rparr>)"

definition node_ask :: "node \<Rightarrow> string \<Rightarrow> json \<Rightarrow> json st" where
  "node_ask nd meth params = sbind (node_raw nd meth params) (\<lambda>r. slift (node_res r))"

text \<open>A look at the cache; it takes no time of its own.\<close>

definition cached :: "v3 \<Rightarrow> (cache_view \<Rightarrow> nat \<Rightarrow> 'a) \<Rightarrow> 'a st" where
  "cached v f s = (Inr (f (v3_cache v) (sv_tick s)), s)"

definition ensure_epoch :: "v3 \<Rightarrow> unit st" where
  "ensure_epoch v =
     sbind (cached v cv_unchanged) (\<lambda>ok. slift (if ok then Inr ()
       else Inl (ReadUnavailable ''WSS connection/chain/inventory changed during observation; refresh before acting'')))"

section \<open>Contract reads\<close>

fun hex_digit :: "nat \<Rightarrow> char" where
  "hex_digit n = (if n < 10 then char_of (48 + n) else char_of (87 + n))"

fun show_hex_nat :: "nat \<Rightarrow> string" where
  "show_hex_nat n = (if n < 16 then [hex_digit n] else show_hex_nat (n div 16) @ [hex_digit (n mod 16)])"

declare show_hex_nat.simps [simp del]

definition block_tag :: "u64 \<Rightarrow> string" where
  "block_tag n = ''0x'' @ show_hex_nat (unat n)"

definition node_words :: "node \<Rightarrow> evm_lib \<Rightarrow> address \<Rightarrow> string \<Rightarrow> u256 list \<Rightarrow> string \<Rightarrow> u256 list st" where
  "node_words nd L to sig args tag =
     sbind (node_raw nd ''eth_call'' (JArr [JObj [(''to'', JStr (el_address L to)),
       (''data'', JStr (''0x'' @ el_hex L (call_data (el_keccak L) sig args)))], JStr tag])) (\<lambda>r.
     slift (call_words (el_unhex L) sig (node_res r)))"

definition words :: "v3 \<Rightarrow> address \<Rightarrow> string \<Rightarrow> u256 list \<Rightarrow> string \<Rightarrow> u256 list st" where
  "words v = node_words (v3_node v) (v3_lib v)"

definition ask_number :: "v3 \<Rightarrow> u64 st" where
  "ask_number v = sbind (node_raw (v3_node v) ''eth_blockNumber'' (JArr [])) (\<lambda>r. slift (block_number (node_res r)))"

definition words_at :: "v3 \<Rightarrow> pool_snapshot \<Rightarrow> address \<Rightarrow> string \<Rightarrow> u256 list \<Rightarrow> u256 list st" where
  "words_at v snap to sig args =
     sbind (cached v (\<lambda>c t. cv_words c t (ps_block snap, ps_block_hash snap, to, sig, args))) (\<lambda>hit.
     case hit of
       Some ws \<Rightarrow> slift (Inr ws)
     | None \<Rightarrow>
         sbind (words v to sig args (block_tag (ps_block snap))) (\<lambda>ws.
         sbind (ensure_epoch v) (\<lambda>_. slift (Inr ws))))"

definition canonical_hash :: "v3 \<Rightarrow> u64 \<Rightarrow> string st" where
  "canonical_hash v n =
     sbind (cached v (\<lambda>c t. cv_hash c t n)) (\<lambda>hit.
     case hit of
       Some x \<Rightarrow> slift (Inr x)
     | None \<Rightarrow>
         sbind (node_ask (v3_node v) ''eth_getBlockByNumber'' (JArr [JStr (block_tag n), JBool False])) (\<lambda>b.
         slift (context_opt (as_str (jget b ''hash'')) ''block hash'')))"

section \<open>The pool\<close>

definition tick_spacing :: "v3 \<Rightarrow> int st" where
  "tick_spacing v =
     sbind (cached v cv_spacing) (\<lambda>hit.
     case hit of
       Some n \<Rightarrow> slift (Inr n)
     | None \<Rightarrow>
         sbind (words v (v3_pool v) ''tickSpacing()'' [] ''latest'') (\<lambda>ws.
         sbind (slift (ensure (0 < signed_tick (ws ! 0)) ''invalid pool tick spacing'')) (\<lambda>_.
         slift (Inr (signed_tick (ws ! 0))))))"

definition pool_price :: "v3 \<Rightarrow> u256 \<Rightarrow> f64" where
  "pool_price v sq =
     (let m = el_libm (v3_lib v); x = f_of_word sq / powi_fn m (lit 2) 96; raw = x * x in
      (if v3_base v < v3_quote v then raw else 1 / raw)
        * powi_fn m (lit 10) (uint (lq_base_decimals (v3_cfg v)) - uint (lq_quote_decimals (v3_cfg v))))"

definition snapshot_with_header :: "v3 \<Rightarrow> u64 \<Rightarrow> json \<Rightarrow> pool_snapshot st" where
  "snapshot_with_header v number header =
     sbind (words v (v3_pool v) ''slot0()'' [] (block_tag number)) (\<lambda>slot.
     sbind (slift (ensure (length slot = 7 \<and> slot ! 6 \<noteq> 0) ''uninitialized/locked pool'')) (\<lambda>_.
     sbind (words v (v3_pool v) ''liquidity()'' [] (block_tag number)) (\<lambda>l.
     sbind (tick_spacing v) (\<lambda>spacing.
     let price = pool_price v (slot ! 0) in
     sbind (slift (ensure (is_finite price \<and> 0 < price \<and> 0 < spacing \<and> 0 < l ! 0) ''invalid pool state'')) (\<lambda>_.
     sbind (slift (context_opt (as_str (jget header ''hash'')) ''block hash'')) (\<lambda>hash.
     sbind (slift (hex_u64 (jget header ''timestamp''))) (\<lambda>t.
     slift (Inr \<lparr>ps_block = number, ps_block_hash = hash, ps_time_ms = t * 1000, ps_price = price,
       ps_tick = signed_tick (slot ! 1), ps_tick_spacing = spacing, ps_liquidity = ut_show (el_text (v3_lib v)) (l ! 0),
       ps_sqrt_price_x96 = ut_show (el_text (v3_lib v)) (slot ! 0), ps_base_is_token0 = (v3_base v < v3_quote v)\<rparr>))))))))"

definition snapshot_at :: "v3 \<Rightarrow> u64 \<Rightarrow> pool_snapshot st" where
  "snapshot_at v number =
     sbind (node_ask (v3_node v) ''eth_getBlockByNumber'' (JArr [JStr (block_tag number), JBool False]))
       (snapshot_with_header v number)"

definition execution_snapshot :: "v3 \<Rightarrow> pool_snapshot st" where
  "execution_snapshot v = sbind (ask_number v) (snapshot_at v)"

definition fresh_snapshot :: "v3 \<Rightarrow> pool_snapshot st" where
  "fresh_snapshot v = sbind (ask_number v) (\<lambda>n. snapshot_at v (sat_sub n (lq_confirmations (v3_cfg v))))"

text \<open>A header of the stream must be anchored to the node's block before it is used.\<close>

definition check_anchor :: "v3 \<Rightarrow> cached_header \<Rightarrow> bool \<Rightarrow> unit st" where
  "check_anchor v head needed =
     (if \<not> needed then slift (Inr ())
      else
        sbind (node_ask (v3_node v) ''eth_getBlockByNumber'' (JArr [JStr (block_tag (hd_number head)), JBool False])) (\<lambda>b.
        slift (if (case as_str (jget b ''hash'') of Some x \<Rightarrow> eq_ignore_case x (hd_hash head) | None \<Rightarrow> False)
              \<and> (case hex_u64 (jget b ''timestamp'') of Inr t \<Rightarrow> checked_mul t 1000 = Some (hd_time_ms head) | Inl _ \<Rightarrow> False)
            then Inr ()
            else Inl (ReadUnavailable ''WSS/RPC block mismatch or RPC behind; discard stream anchor and reconcile before acting''))))"

definition header_json :: "cached_header \<Rightarrow> json" where
  "header_json h = JObj [(''hash'', JStr (hd_hash h)), (''timestamp'', JStr (block_tag (hd_time_ms h div 1000)))]"

definition snapshot :: "v3 \<Rightarrow> pool_snapshot st" where
  "snapshot v =
     sbind (cached v cv_snapshot) (\<lambda>hit.
     case hit of
       Some p \<Rightarrow> slift (Inr p)
     | None \<Rightarrow>
         sbind (cached v cv_header) (\<lambda>hit2.
         sbind (case hit2 of
             Some (head, needed) \<Rightarrow>
               sbind (check_anchor v head needed) (\<lambda>_. snapshot_with_header v (hd_number head) (header_json head))
           | None \<Rightarrow> fresh_snapshot v) (\<lambda>p.
         sbind (ensure_epoch v) (\<lambda>_. slift (Inr p)))))"

section \<open>The wallet\<close>

definition balance :: "v3 \<Rightarrow> address \<Rightarrow> address \<Rightarrow> u256 st" where
  "balance v token owner =
     sbind (words v token ''balanceOf(address)'' [address_word owner] ''latest'') (\<lambda>ws. slift (Inr (ws ! 0)))"

definition wallet :: "v3 \<Rightarrow> address \<Rightarrow> (f64 \<times> f64) st" where
  "wallet v owner =
     sbind (balance v (v3_base v) owner) (\<lambda>b.
     sbind (balance v (v3_quote v) owner) (\<lambda>q.
     slift (Inr (units (el_libm (v3_lib v)) b (lq_base_decimals (v3_cfg v)),
       units (el_libm (v3_lib v)) q (lq_quote_decimals (v3_cfg v))))))"

definition position_words :: "v3 \<Rightarrow> u256 \<Rightarrow> string \<Rightarrow> u256 list st" where
  "position_words v i tag =
     sbind (words v (v3_manager v) ''positions(uint256)'' [i] tag) (\<lambda>p.
     sbind (slift (ensure (length p = 12) ''invalid NFPM position'')) (\<lambda>_. slift (Inr p)))"

definition tokens_match :: "v3 \<Rightarrow> address \<Rightarrow> address \<Rightarrow> bool" where
  "tokens_match v t0 t1 \<longleftrightarrow> t0 = v3_base v \<and> t1 = v3_quote v \<or> t0 = v3_quote v \<and> t1 = v3_base v"

definition matching_position :: "v3 \<Rightarrow> bool \<Rightarrow> u256 list \<Rightarrow> bool" where
  "matching_position v include_empty p \<longleftrightarrow>
     tokens_match v (word_address (p ! 2)) (word_address (p ! 3)) \<and> p ! 4 = ucast (lq_fee (v3_cfg v))
     \<and> (include_empty \<or> 0 < p ! 7)"

fun owned_ids :: "v3 \<Rightarrow> address \<Rightarrow> string \<Rightarrow> bool \<Rightarrow> nat list \<Rightarrow> string list st" where
  "owned_ids v owner tag include_empty [] = slift (Inr [])"
| "owned_ids v owner tag include_empty (i # is) =
     sbind (words v (v3_manager v) ''tokenOfOwnerByIndex(address,uint256)'' [address_word owner, of_nat i] tag) (\<lambda>ws.
     sbind (position_words v (ws ! 0) tag) (\<lambda>p.
     sbind (owned_ids v owner tag include_empty is) (\<lambda>ids.
     slift (Inr (if matching_position v include_empty p then ut_show (el_text (v3_lib v)) (ws ! 0) # ids else ids)))))"

definition matching_token_ids_at :: "v3 \<Rightarrow> address \<Rightarrow> string \<Rightarrow> bool \<Rightarrow> string list st" where
  "matching_token_ids_at v owner tag include_empty =
     sbind (words v (v3_manager v) ''balanceOf(address)'' [address_word owner] tag) (\<lambda>ws.
     sbind (slift (if uint (ws ! 0) < 2 ^ 64 then Inr () else Inl (Panic ''Uint conversion error''))) (\<lambda>_.
     sbind (slift (ensure (ws ! 0 \<le> 1000) ''use a dedicated wallet with at most 1000 positions'')) (\<lambda>_.
     sbind (owned_ids v owner tag include_empty [0..<unat (ws ! 0)]) (\<lambda>ids.
     sbind (ensure_epoch v) (\<lambda>_. slift (Inr ids))))))"

definition token_ids :: "v3 \<Rightarrow> address \<Rightarrow> string list st" where
  "token_ids v owner = matching_token_ids_at v owner ''latest'' False"

definition exit_token_ids :: "v3 \<Rightarrow> address \<Rightarrow> string list st" where
  "exit_token_ids v owner = sbind (ask_number v) (\<lambda>n. matching_token_ids_at v owner (block_tag n) True)"

definition v3_logs :: "v3 \<Rightarrow> u64 \<Rightarrow> u64 \<Rightarrow> json st" where
  "v3_logs v lo hi =
     sbind (slift (ensure (lo \<le> hi \<and> hi - lo \<le> 1999) ''log request limited to 2000 blocks'')) (\<lambda>_.
     node_ask (v3_archive v) ''eth_getLogs'' (JArr [JObj [(''address'', JStr (el_address (v3_lib v) (v3_pool v))),
       (''fromBlock'', JStr (block_tag lo)), (''toBlock'', JStr (block_tag hi))]]))"

section \<open>Positions\<close>

definition unclaimed_at :: "v3 \<Rightarrow> u256 list \<Rightarrow> pool_snapshot \<Rightarrow> (u256 \<times> u256) st" where
  "unclaimed_at v p snap =
     sbind (words_at v snap (v3_pool v) ''ticks(int24)'' [tick_word (signed_tick (p ! 5))]) (\<lambda>lower.
     sbind (words_at v snap (v3_pool v) ''ticks(int24)'' [tick_word (signed_tick (p ! 6))]) (\<lambda>upper.
     sbind (slift (ensure (4 \<le> length lower \<and> 4 \<le> length upper) ''tick ABI mismatch'')) (\<lambda>_.
     sbind (words_at v snap (v3_pool v) ''feeGrowthGlobal0X128()'' []) (\<lambda>g0.
     sbind (slift (unclaimed_one p (ps_tick snap) lower upper (g0 ! 0) 0)) (\<lambda>f0.
     sbind (words_at v snap (v3_pool v) ''feeGrowthGlobal1X128()'' []) (\<lambda>g1.
     sbind (slift (unclaimed_one p (ps_tick snap) lower upper (g1 ! 0) 1)) (\<lambda>f1.
     slift (Inr (f0, f1)))))))))"

definition sorted_tokens :: "v3 \<Rightarrow> address \<times> address" where
  "sorted_tokens v = (if v3_base v < v3_quote v then (v3_base v, v3_quote v) else (v3_quote v, v3_base v))"

definition same_pool :: "v3 \<Rightarrow> u256 list \<Rightarrow> bool" where
  "same_pool v p \<longleftrightarrow> (word_address (p ! 2), word_address (p ! 3)) = sorted_tokens v \<and> p ! 4 = ucast (lq_fee (v3_cfg v))"

definition position_of :: "v3 \<Rightarrow> pool_snapshot \<Rightarrow> string \<Rightarrow> u256 \<Rightarrow> u256 list \<Rightarrow> u256 \<times> u256 \<Rightarrow> lp_position res" where
  "position_of v snap layer i p fs =
     (let m = el_libm (v3_lib v); tx = el_text (v3_lib v); bd = lq_base_decimals (v3_cfg v); qd = lq_quote_decimals (v3_cfg v);
          a = tick_to_price m (signed_tick (p ! 5)) bd qd (ps_base_is_token0 snap);
          b = tick_to_price m (signed_tick (p ! 6)) bd qd (ps_base_is_token0 snap);
          lower = f_min a b; upper = f_max a b;
          liquidity = f_of_word (p ! 7) / el_powf (v3_lib v) (lit 10) ((f_of_word bd + f_of_word qd) / lit 2);
          (fb, fq) = (if ps_base_is_token0 snap then fs else (snd fs, fst fs)) in
      rbind (amounts liquidity lower upper (ps_price snap)) (\<lambda>(base, quote).
      Inr \<lparr>lp_layer = layer, lp_token_id = Some (ut_show tx i), lp_lower = lower, lp_upper = upper, lp_liquidity = liquidity,
        lp_raw_liquidity = ut_show tx (p ! 7), lp_unclaimed_base = units m fb bd, lp_unclaimed_quote = units m fq qd,
        lp_base = base + units m fb bd, lp_quote = quote + units m fq qd\<rparr>))"

definition revision_of :: "v3 \<Rightarrow> u256 list \<Rightarrow> string" where
  "revision_of v p =
     (let t = (\<lambda>i. ut_show (el_text (v3_lib v)) (p ! i)) in
      t 7 @ '':'' @ t 8 @ '':'' @ t 9 @ '':'' @ t 5 @ '':'' @ t 6 @ '':'' @ t 10 @ '':'' @ t 11)"

fun position_rows :: "v3 \<Rightarrow> address \<Rightarrow> pool_snapshot \<Rightarrow> (string \<times> string) list \<Rightarrow> (lp_position \<times> string) list st" where
  "position_rows v owner snap [] = slift (Inr [])"
| "position_rows v owner snap ((layer, raw_id) # r) =
     sbind (slift (ut_parse (el_text (v3_lib v)) raw_id)) (\<lambda>i.
     sbind (words_at v snap (v3_manager v) ''ownerOf(uint256)'' [i]) (\<lambda>o1.
     sbind (slift (ensure (word_address (o1 ! 0) = owner) ''NFT not owned by configured wallet'')) (\<lambda>_.
     sbind (words_at v snap (v3_manager v) ''positions(uint256)'' [i]) (\<lambda>p.
     sbind (slift (ensure (length p = 12) ''invalid NFPM position'')) (\<lambda>_.
     sbind (slift (ensure (same_pool v p) ''NFT belongs to another pool'')) (\<lambda>_.
     sbind (unclaimed_at v p snap) (\<lambda>fs.
     sbind (slift (position_of v snap layer i p fs)) (\<lambda>pos.
     sbind (position_rows v owner snap r) (\<lambda>rows.
     slift (Inr ((pos, revision_of v p) # rows)))))))))))"

definition position_observations ::
    "v3 \<Rightarrow> address \<Rightarrow> (string \<times> string) list \<Rightarrow> pool_snapshot \<Rightarrow> (lp_position \<times> string) list st" where
  "position_observations v owner ids snap =
     sbind (position_rows v owner snap ids) (\<lambda>rows. sbind (ensure_epoch v) (\<lambda>_. slift (Inr rows)))"

definition positions :: "v3 \<Rightarrow> address \<Rightarrow> (string \<times> string) list \<Rightarrow> lp_position list st" where
  "positions v owner ids =
     sbind (snapshot v) (\<lambda>snap. sbind (position_observations v owner ids snap) (\<lambda>rows. slift (Inr (map fst rows))))"

section \<open>Quotes\<close>

definition v3_quoter :: "v3 \<Rightarrow> address option res" where
  "v3_quoter v =
     (case quoter (v3_cfg v) of
        None \<Rightarrow> Inr None
      | Some q \<Rightarrow> rbind (with_context (el_parse_address (v3_lib v) q) ''invalid quoter address'') (\<lambda>a. Inr (Some a)))"

definition ask_quote :: "v3 \<Rightarrow> address \<Rightarrow> address \<Rightarrow> u256 \<Rightarrow> u64 \<Rightarrow> u256 st" where
  "ask_quote v token_in token_out input block =
     sbind (slift (ensure (0 < input \<and> tokens_match v token_in token_out) ''invalid pool quote request'')) (\<lambda>_.
     sbind (slift (rbind (v3_quoter v) (\<lambda>q. context_opt q ''no QuoterV2 configured for chain''))) (\<lambda>quoter.
     sbind (words v quoter ''quoteExactInputSingle((address,address,uint256,uint24,uint160))''
       [address_word token_in, address_word token_out, input, ucast (lq_fee (v3_cfg v)), 0] (block_tag block)) (\<lambda>values.
     sbind (slift (ensure (length values = 4 \<and> 0 < values ! 0) ''invalid QuoterV2 response'')) (\<lambda>_.
     slift (Inr (values ! 0))))))"

definition ask_minimum_output :: "v3 \<Rightarrow> address \<Rightarrow> address \<Rightarrow> u256 \<Rightarrow> u64 \<Rightarrow> f64 \<Rightarrow> u8 \<Rightarrow> u256 st" where
  "ask_minimum_output v token_in token_out input block expected decimals =
     sbind (slift (v3_quoter v)) (\<lambda>q.
     sbind (if q \<noteq> None then sbind (ask_quote v token_in token_out input block) (\<lambda>x. slift (Inr (Some (Inr x)))) else slift (Inr None)) (\<lambda>quoted.
     slift (minimum_swap_output (el_text (v3_lib v)) (el_decimal (v3_lib v)) (v3_cfg v) quoted expected decimals)))"

section \<open>Validation of the deployment\<close>

fun contracts_exist :: "v3 \<Rightarrow> address list \<Rightarrow> unit st" where
  "contracts_exist v [] = slift (Inr ())"
| "contracts_exist v (a # as) =
     sbind (node_ask (v3_node v) ''eth_getCode'' (JArr [JStr (el_address (v3_lib v) a), JStr ''latest''])) (\<lambda>code.
     sbind (slift (ensure (case as_str code of Some x \<Rightarrow> 2 < length x | None \<Rightarrow> False) ''contract missing'')) (\<lambda>_.
     contracts_exist v as))"

definition word_is :: "v3 \<Rightarrow> address \<Rightarrow> string \<Rightarrow> u256 list \<Rightarrow> (u256 \<Rightarrow> bool) \<Rightarrow> string \<Rightarrow> unit st" where
  "word_is v to sig args ok msg =
     sbind (words v to sig args ''latest'') (\<lambda>ws. slift (ensure (ok (ws ! 0)) msg))"

definition validate_quoter :: "v3 \<Rightarrow> address \<Rightarrow> unit st" where
  "validate_quoter v expected =
     sbind (slift (v3_quoter v)) (\<lambda>q.
     case q of
       None \<Rightarrow> slift (Inr ())
     | Some a \<Rightarrow>
         sbind (word_is v a ''factory()'' [] (\<lambda>w. word_address w = expected) ''quoter factory mismatch'') (\<lambda>_.
         case find_pool (v3_cfg v) of
           None \<Rightarrow> slift (Inr ())
         | Some p \<Rightarrow> word_is v (v3_pool v) ''tickSpacing()'' [] (\<lambda>w. w = word_of_int (uint (word_of_int (po_tick_spacing p) :: u32)))
             ''registered pool tick spacing mismatch''))"

definition validate :: "v3 \<Rightarrow> unit st" where
  "validate v =
     sbind (node_raw (v3_node v) ''eth_chainId'' (JArr [])) (\<lambda>r.
     sbind (slift (rbind (node_res r) hex_u64)) (\<lambda>chain.
     sbind (slift (ensure (chain = lq_chain_id (v3_cfg v)) ''wrong RPC chain ID'')) (\<lambda>_.
     sbind (slift (el_parse_address (v3_lib v) (lq_factory (v3_cfg v)))) (\<lambda>expected.
     sbind (contracts_exist v [v3_pool v, v3_manager v, v3_router v, v3_base v, v3_quote v, expected]) (\<lambda>_.
     sbind (words v (v3_pool v) ''token0()'' [] ''latest'') (\<lambda>w0.
     sbind (words v (v3_pool v) ''token1()'' [] ''latest'') (\<lambda>w1.
     sbind (slift (ensure (tokens_match v (word_address (w0 ! 0)) (word_address (w1 ! 0))) ''unexpected pool tokens'')) (\<lambda>_.
     sbind (word_is v (v3_pool v) ''fee()'' [] (\<lambda>w. w = ucast (lq_fee (v3_cfg v))) ''wrong fee tier'') (\<lambda>_.
     sbind (word_is v (v3_pool v) ''factory()'' [] (\<lambda>w. word_address w = expected) ''factory mismatch'') (\<lambda>_.
     sbind (word_is v (v3_manager v) ''factory()'' [] (\<lambda>w. word_address w = expected) ''factory mismatch'') (\<lambda>_.
     sbind (word_is v (v3_router v) ''factory()'' [] (\<lambda>w. word_address w = expected) ''router factory mismatch'') (\<lambda>_.
     sbind (word_is v expected ''getPool(address,address,uint24)'' [address_word (word_address (w0 ! 0)), address_word (word_address (w1 ! 0)),
         ucast (lq_fee (v3_cfg v))] (\<lambda>w. word_address w = v3_pool v) ''factory pool registration mismatch'') (\<lambda>_.
     sbind (word_is v (v3_base v) ''decimals()'' [] (\<lambda>w. w = ucast (lq_base_decimals (v3_cfg v))) ''base decimals mismatch'') (\<lambda>_.
     sbind (word_is v (v3_quote v) ''decimals()'' [] (\<lambda>w. w = ucast (lq_quote_decimals (v3_cfg v))) ''quote decimals mismatch'') (\<lambda>_.
     validate_quoter v expected)))))))))))))))"

end
