(* ===== verification/V3_Tx.thy ===== *)
theory V3_Tx
  imports V3_Adapter Evm_Nonce Recovery
begin

text \<open>
  Sending a transaction (\<open>src/liquidity/uniswap_v3/tx.rs\<close>) and the replacement of a stuck approval
  (\<open>approval_recovery.rs\<close>): simulation, gas budget, signature, the record before the broadcast, the
  broadcast, and the wait for a confirmed receipt. Signing, transaction decoding and the encoding of
  contract calls are library code; the node answers as in \<open>V3_Adapter\<close>.
\<close>

section \<open>Transactions\<close>

datatype tx_kind = Legacy | Eip1559 | Other_kind

record tx =
  tx_kind :: tx_kind
  tx_chain :: "u64 option"
  tx_nonce :: u64
  tx_gas :: u64
  tx_max_fee :: u128
  tx_tip :: "u128 option"
  tx_to :: "address option"
  tx_value :: u256
  tx_input :: "u8 list"

datatype v3_call =
    Approve address u256
  | Mint address address u32 int int u256 u256 u256 u256 address u256
  | Increase_liquidity u256 u256 u256 u256 u256 u256
  | Decrease_liquidity u256 u128 u256 u256 u256
  | Collect u256 address u128 u128
  | Burn u256
  | Multicall "u8 list list"
  | Exact_input_single address address u32 address u256 u256
  | Router_multicall u256 "u8 list list"

text \<open>\<open>xl_decode\<close> also tells the recovered signer and the bytes left over.\<close>

record tx_lib =
  xl_abi :: "v3_call \<Rightarrow> u8 list"
  xl_sign :: "tx \<Rightarrow> u8 list res"
  xl_decode :: "u8 list \<Rightarrow> (tx \<times> address res \<times> u8 list) res"
  xl_hash :: "u8 list \<Rightarrow> string"

record executor =
  ex_v3 :: v3
  ex_owner :: address
  ex_host :: host
  ex_txs :: tx_lib
  ex_mono :: "nat \<Rightarrow> instant"

abbreviation ex_cfg :: "executor \<Rightarrow> liquidity_config" where
  "ex_cfg x \<equiv> v3_cfg (ex_v3 x)"

abbreviation ex_lib :: "executor \<Rightarrow> evm_lib" where
  "ex_lib x \<equiv> v3_lib (ex_v3 x)"

abbreviation ex_node :: "executor \<Rightarrow> node" where
  "ex_node x \<equiv> v3_node (ex_v3 x)"

definition owner_text :: "executor \<Rightarrow> string" where
  "owner_text x = el_address (ex_lib x) (ex_owner x)"

definition hex0x :: "executor \<Rightarrow> u8 list \<Rightarrow> string" where
  "hex0x x bs = ''0x'' @ el_hex (ex_lib x) bs"

definition mono_now :: "executor \<Rightarrow> instant st" where
  "mono_now x s = (Inr (ex_mono x (sv_tick s)), s\<lparr>sv_tick := Suc (sv_tick s)\<rparr>)"

section \<open>The wallet's nonce\<close>

definition ex_nonce :: "executor \<Rightarrow> nonce_manager" where
  "ex_nonce x = \<lparr>nm_owner = owner_text x, nm_chain_id = lq_chain_id (ex_cfg x), nm_warn_ms = lq_pending_warn_seconds (ex_cfg x) * 1000\<rparr>"

text \<open>The answers to the four requests of a refresh; the receipt asked for is that of the unresolved transaction.\<close>

definition inflight_hash :: "executor \<Rightarrow> store \<Rightarrow> json" where
  "inflight_hash x s =
     (case nonce_load (ex_nonce x) s of
        Inr st \<Rightarrow> (case ns_inflight st of Some op \<Rightarrow> jget op ''hash''
          | None \<Rightarrow> (case store_pending s of Inr (Some p) \<Rightarrow> jget p ''hash'' | _ \<Rightarrow> JNull))
      | Inl e \<Rightarrow> JNull)"

definition nonce_answers :: "executor \<Rightarrow> store \<Rightarrow> node_answers" where
  "nonce_answers x s =
     (let reply = (\<lambda>k meth params. node_res (nd_request (ex_node x) (sv_tick s + k) meth params));
          count = (\<lambda>k t. reply k ''eth_getTransactionCount'' (JArr [JStr (owner_text x), JStr t])) in
      \<lparr>na_chain = reply 0 ''eth_chainId'' (JArr []), na_latest = count 1 ''latest'', na_pending = count 2 ''pending'',
       na_receipt = reply 3 ''eth_getTransactionReceipt'' (JArr [inflight_hash x s])\<rparr>)"

definition ex_refresh :: "executor \<Rightarrow> nonce_state st" where
  "ex_refresh x s = nonce_refresh (ex_host x) (ex_nonce x) (nonce_answers x s) (s\<lparr>sv_tick := sv_tick s + 4\<rparr>)"

definition ex_next_nonce :: "executor \<Rightarrow> u64 st" where
  "ex_next_nonce x s = nonce_next (ex_host x) (ex_nonce x) (nonce_answers x s) (s\<lparr>sv_tick := sv_tick s + 4\<rparr>)"

section \<open>Fees\<close>

text \<open>\<open>U256::from_str_radix\<close> in base 16: no digits read as zero, underscores are skipped.\<close>

definition parse_u256_hex :: "string \<Rightarrow> u256 res" where
  "parse_u256_hex t = rbind (hex_loop (2 ^ 256) 0 (filter (\<lambda>ch. ch \<noteq> CHR ''_'') t)) (\<lambda>n. Inr (word_of_int n))"

definition tip_reply :: "rpc_fail + json \<Rightarrow> tip_answer" where
  "tip_reply r = (case r of
       Inr v \<Rightarrow> Inr v
     | Inl e \<Rightarrow> Inl (fail_err e, (case e of Rpc_error meth code m \<Rightarrow> Some code | _ \<Rightarrow> None)))"

definition base_fee_field :: "json \<Rightarrow> json option" where
  "base_fee_field block = (case jfind block ''baseFeePerGas'' of Some v \<Rightarrow> if is_null v then None else Some v | None \<Rightarrow> None)"

definition ask_fees :: "executor \<Rightarrow> fees st" where
  "ask_fees x =
     (let bps = lq_gas_fee_buffer_bps (ex_cfg x) in
      sbind (slift (ensure (1 \<le> bps \<and> bps \<le> 40000) ''invalid gas fee buffer'')) (\<lambda>_.
      sbind (node_ask (ex_node x) ''eth_gasPrice'' (JArr [])) (\<lambda>g.
      sbind (slift (quantity g)) (\<lambda>_.
      sbind (node_ask (ex_node x) ''eth_getBlockByNumber'' (JArr [JStr ''latest'', JBool False])) (\<lambda>block.
      sbind (slift (ensure (is_object block) ''latest block unavailable for fee estimation'')) (\<lambda>_.
      sbind (case base_fee_field block of
               None \<Rightarrow> slift (Inr (Inr JNull))
             | Some v \<Rightarrow> sbind (slift (quantity v)) (\<lambda>_.
                 sbind (node_raw (ex_node x) ''eth_maxPriorityFeePerGas'' (JArr [])) (\<lambda>r. slift (Inr (tip_reply r))))) (\<lambda>tip.
      slift (fees_estimate (Inr g) (Inr block) tip bps))))))))"

text \<open>A fee above 64 bits cannot be written as a JSON number.\<close>

definition json_u128 :: "u128 \<Rightarrow> json res" where
  "json_u128 w = (if uint w < 2 ^ 64 then Inr (JNum (PosInt (ucast w))) else Inl (Panic ''number out of range''))"

definition json_opt_u128 :: "u128 option \<Rightarrow> json res" where
  "json_opt_u128 w = (case w of None \<Rightarrow> Inr JNull | Some n \<Rightarrow> json_u128 n)"

definition fees_json :: "fees \<Rightarrow> json res" where
  "fees_json f =
     rbind (json_opt_u128 (fe_base_fee f)) (\<lambda>b. rbind (json_u128 (fe_max_fee f)) (\<lambda>m. rbind (json_opt_u128 (fe_tip f)) (\<lambda>t.
     Inr (JObj [(''fee_buffer_bps'', JNum (PosInt (ucast (fe_buffer_bps f)))), (''base_fee_per_gas'', b),
       (''max_fee_per_gas'', m), (''max_priority_fee_per_gas'', t)]))))"

definition fee_oracle :: string where
  "fee_oracle = ''0x420000000000000000000000000000000000000F''"

definition ask_extra_fee :: "executor \<Rightarrow> nat \<Rightarrow> u64 \<Rightarrow> u256 st" where
  "ask_extra_fee x len gas =
     sbind (slift (el_parse_address (ex_lib x) fee_oracle)) (\<lambda>oracle.
     sbind (slift (ensure (len + 256 < 2 ^ 64) ''transaction length overflow'')) (\<lambda>_.
     sbind (words (ex_v3 x) oracle ''getL1FeeUpperBound(uint256)'' [of_nat (len + 256)] ''latest'') (\<lambda>l1.
     sbind (words (ex_v3 x) oracle ''getOperatorFee(uint256)'' [ucast gas] ''latest'') (\<lambda>operator.
     slift (extra_fee len (Inr l1) (Inr operator) (lq_gas_fee_buffer_bps (ex_cfg x)))))))"

definition native_cost :: "executor \<Rightarrow> u64 \<Rightarrow> fees \<Rightarrow> u256 \<Rightarrow> f64" where
  "native_cost x gas f extra =
     f_of_word gas * f_of_word (fe_max_fee f) / lit 1000000000000000000 + units (el_libm (ex_lib x)) extra 18"

definition check_gas_budget :: "executor \<Rightarrow> u64 \<Rightarrow> fees \<Rightarrow> nat \<Rightarrow> unit st" where
  "check_gas_budget x gas f len =
     sbind (if lq_chain_id (ex_cfg x) = ch_id base_chain then ask_extra_fee x len gas else slift (Inr 0)) (\<lambda>extra.
     sbind (slift (context_opt (checked_add (ucast gas * ucast (fe_max_fee f)) extra) ''total gas fee overflow'')) (\<lambda>required.
     sbind (slift (ensure (native_cost x gas f extra \<le> lq_max_gas_native (ex_cfg x)) ''transaction gas budget exceeded'')) (\<lambda>_.
     sbind (node_ask (ex_node x) ''eth_getBalance'' (JArr [JStr (owner_text x), JStr ''latest''])) (\<lambda>b.
     sbind (slift (rbind (context_opt (as_str b) ''ETH balance'') (\<lambda>t. parse_u256_hex (trim_0x t)))) (\<lambda>available.
     slift (ensure (required \<le> available) ''insufficient native ETH for gas''))))))"

section \<open>Signing and broadcasting\<close>

definition build_tx :: "executor \<Rightarrow> u64 \<Rightarrow> u64 \<Rightarrow> address \<Rightarrow> u8 list \<Rightarrow> fees \<Rightarrow> tx" where
  "build_tx x nonce gas to data f =
     \<lparr>tx_kind = (if fe_tip f = None then Legacy else Eip1559), tx_chain = Some (lq_chain_id (ex_cfg x)), tx_nonce = nonce,
      tx_gas = gas, tx_max_fee = fe_max_fee f, tx_tip = fe_tip f, tx_to = Some to, tx_value = 0, tx_input = data\<rparr>"

definition sign_transaction :: "executor \<Rightarrow> u64 \<Rightarrow> u64 \<Rightarrow> address \<Rightarrow> u8 list \<Rightarrow> fees \<Rightarrow> u8 list res" where
  "sign_transaction x nonce gas to data f = xl_sign (ex_txs x) (build_tx x nonce gas to data f)"

text \<open>The one place where a signed transaction leaves the process; the observer's record keeps its text.\<close>

definition cast_entry :: "string \<Rightarrow> json" where
  "cast_entry raw = JObj [(''eth_sendRawTransaction'', JStr raw)]"

definition node_cast :: "executor \<Rightarrow> string \<Rightarrow> (rpc_fail + json) st" where
  "node_cast x raw s =
     (Inr (nd_request (ex_node x) (sv_tick s) broadcast (JArr [JStr raw])),
      s\<lparr>sv_tick := Suc (sv_tick s), sv_sent := sv_sent s @ [cast_entry raw]\<rparr>)"

fun is_rpc_error :: "rpc_fail \<Rightarrow> bool" where
  "is_rpc_error (Rpc_error meth code m) = True"
| "is_rpc_error _ = False"

fun fail_text :: "rpc_fail \<Rightarrow> string" where
  "fail_text (Rpc_error meth code m) = m"
| "fail_text (Rpc_limited meth until) = ''rate limited''"
| "fail_text (Rpc_unavailable m) = m"
| "fail_text (Rpc_other m) = m"
| "fail_text (Rpc_panic m) = m"

definition record_broadcast_error :: "executor \<Rightarrow> string \<Rightarrow> u64 \<Rightarrow> rpc_fail \<Rightarrow> unit st" where
  "record_broadcast_error x hash nonce e =
     sbind (sread (\<lambda>s. rbind (store_pending s) (\<lambda>p. context_opt p ''missing broadcast intent''))) (\<lambda>p.
     sbind (host_now (ex_host x)) (\<lambda>now.
     let details = JObj [(''hash'', JStr hash), (''nonce'', JNum (PosInt nonce)), (''time_ms'', JNum (PosInt now)),
       (''rpc_rejection'', JBool (is_rpc_error e)), (''error'', JStr (fail_text e))] in
     sbind (slift (jset p ''last_broadcast_error'' details)) (\<lambda>p1.
     sbind (store_write (ex_host x) ''pending.json'' (Doc_json p1)) (\<lambda>_.
     store_event (ex_host x) ''evm_broadcast_error'' details))))"

definition after_cast :: "executor \<Rightarrow> string \<Rightarrow> u64 \<Rightarrow> rpc_fail + json \<Rightarrow> unit st" where
  "after_cast x hash nonce r =
     (case r of
       Inl (Rpc_panic m) \<Rightarrow> slift (Inl (Panic m))
     | Inl e \<Rightarrow>
         sbind (record_broadcast_error x hash nonce e) (\<lambda>_.
         slift (Inl (Bail ''broadcast not confirmed; pending retained, reconcile before retrying; never resend with a new nonce'')))
     | Inr sent \<Rightarrow>
         sbind (slift (ensure (case as_str sent of Some h \<Rightarrow> eq_ignore_case h hash | None \<Rightarrow> False)
           ''RPC returned unexpected transaction hash'')) (\<lambda>_.
         store_event (ex_host x) ''evm_broadcast'' (JObj [(''hash'', JStr hash), (''nonce'', JNum (PosInt nonce))])))"

definition ex_broadcast :: "executor \<Rightarrow> string \<Rightarrow> u8 list \<Rightarrow> u64 \<Rightarrow> unit st" where
  "ex_broadcast x hash raw nonce = sbind (node_cast x (hex0x x raw)) (after_cast x hash nonce)"

section \<open>The recorded transaction\<close>

definition decode_candidate :: "executor \<Rightarrow> json \<Rightarrow> (tx \<times> address res) res" where
  "decode_candidate x v =
     rbind (context_opt (as_str (jget v ''raw_transaction'')) ''missing signed transaction'') (\<lambda>t.
     rbind (context_opt (el_unhex (ex_lib x) (trim_0x t)) ''invalid hex'') (\<lambda>raw.
     rbind (ensure (case as_str (jget v ''hash'') of Some h \<Rightarrow> eq_ignore_case h (xl_hash (ex_txs x) raw) | None \<Rightarrow> False)
       ''stored signed transaction hash mismatch'') (\<lambda>_.
     rbind (xl_decode (ex_txs x) raw) (\<lambda>(tx, signer, rest).
     rbind (ensure (rest = []) ''trailing signed transaction bytes'') (\<lambda>_. Inr (tx, signer))))))"

definition owned_by :: "executor \<Rightarrow> json \<Rightarrow> bool" where
  "owned_by x p \<longleftrightarrow> (case as_str (jget p ''owner'') of Some o1 \<Rightarrow> eq_ignore_case o1 (owner_text x) | None \<Rightarrow> False)"

definition signed_by_owner :: "executor \<Rightarrow> bool \<Rightarrow> address res \<Rightarrow> bool res" where
  "signed_by_owner x ok signer = (if ok then rbind signer (\<lambda>a. Inr (a = ex_owner x)) else Inr False)"

fun check_replacements :: "executor \<Rightarrow> tx \<Rightarrow> u64 \<Rightarrow> json list \<Rightarrow> unit res" where
  "check_replacements x first nonce [] = Inr ()"
| "check_replacements x first nonce (c # cs) =
     rbind (decode_candidate x c) (\<lambda>(t, signer).
     rbind (signed_by_owner x (tx_chain t = tx_chain first \<and> tx_nonce t = nonce) signer) (\<lambda>ok.
     rbind (ensure ok ''replacement chain/nonce/signer mismatch'') (\<lambda>_.
     rbind (ensure (tx_to t = tx_to first \<and> tx_input t = tx_input first \<and> tx_value t = tx_value first \<and> tx_gas t = tx_gas first)
       ''replacement call differs from original'') (\<lambda>_.
     check_replacements x first nonce cs))))"

definition replacement_list :: "json \<Rightarrow> json list res" where
  "replacement_list p = (case jfind p ''replacements'' of None \<Rightarrow> Inr [] | Some r \<Rightarrow> context_opt (as_array r) ''invalid replacements'')"

definition validated_pending_hashes :: "executor \<Rightarrow> json \<Rightarrow> string list res" where
  "validated_pending_hashes x p =
     rbind (ensure (jget p ''venue'' = JStr ''evm'') ''pending operation is not EVM'') (\<lambda>_.
     rbind (ensure (owned_by x p) ''pending owner mismatch'') (\<lambda>_.
     rbind (decode_candidate x p) (\<lambda>(first, signer).
     rbind (context_opt (as_u64 (jget p ''nonce'')) ''pending nonce'') (\<lambda>nonce.
     rbind (signed_by_owner x (tx_chain first = Some (lq_chain_id (ex_cfg x)) \<and> tx_nonce first = nonce) signer) (\<lambda>ok.
     rbind (ensure ok ''signed pending chain/nonce/signer mismatch'') (\<lambda>_.
     rbind (pending_hashes (ex_host x) p) (\<lambda>hs.
     rbind (replacement_list p) (\<lambda>rs.
     rbind (check_replacements x first nonce rs) (\<lambda>_. Inr hs)))))))))"

section \<open>Receipts\<close>

definition text_bytes :: "string \<Rightarrow> u8 list" where
  "text_bytes t = map of_char t"

definition owner_topic :: "executor \<Rightarrow> string" where
  "owner_topic x = ''0x'' @ replicate 24 (CHR ''0'') @ el_hex (ex_lib x) (drop 12 (be_bytes (address_word (ex_owner x))))"

definition is_mint_log :: "executor \<Rightarrow> json \<Rightarrow> bool" where
  "is_mint_log x l \<longleftrightarrow>
     (case as_str (jget l ''address'') of Some a \<Rightarrow> eq_ignore_case a (lq_position_manager (ex_cfg x)) | None \<Rightarrow> False)
     \<and> jidx (jget l ''topics'') 0 = JStr (xl_hash (ex_txs x) (text_bytes ''Transfer(address,address,uint256)''))
     \<and> jidx (jget l ''topics'') 1 = JStr (''0x'' @ replicate 64 (CHR ''0''))
     \<and> jidx (jget l ''topics'') 2 = JStr (owner_topic x)"

definition minted_id :: "executor \<Rightarrow> json \<Rightarrow> string res" where
  "minted_id x r =
     rbind (context_opt (as_array (jget r ''logs'')) ''receipt logs'') (\<lambda>logs.
     rbind (context_opt (find (is_mint_log x) logs) ''mint receipt missing NFT Transfer'') (\<lambda>l.
     rbind (context_opt (as_str (jidx (jget l ''topics'') 3)) ''NFT id'') (\<lambda>t.
     rbind (parse_u256_hex (trim_0x t)) (\<lambda>n. Inr (ut_show (el_text (ex_lib x)) n)))))"

text \<open>The registry of positions is ordered by the layer's name.\<close>

fun ids_put :: "string \<Rightarrow> string \<Rightarrow> (string \<times> string) list \<Rightarrow> (string \<times> string) list" where
  "ids_put k v [] = [(k, v)]"
| "ids_put k v ((k', v') # r) = (if k = k' then (k, v) # r else if k < k' then (k, v) # (k', v') # r else (k', v') # ids_put k v r)"

definition record_receipt :: "executor \<Rightarrow> json \<Rightarrow> json \<Rightarrow> unit st" where
  "record_receipt x r op =
     sbind (sread (read_ids ''nfts.json'')) (\<lambda>d.
     let ids = (case d of None \<Rightarrow> [] | Some l \<Rightarrow> l) in
     sbind (if jget op ''kind'' = JStr ''mint''
            then
              sbind (slift (minted_id x r)) (\<lambda>i.
              sbind (slift (context_opt (as_str (jget op ''layer'')) ''mint layer'')) (\<lambda>layer.
              sbind (record_lp_history (ex_host x) (JObj [(''source'', JStr ''confirmed_mint''), (''token_id'', JStr i),
                (''hash'', jget r ''transactionHash'')])) (\<lambda>_.
              slift (Inr (ids_put layer i ids)))))
            else if jget op ''kind'' = JStr ''burn''
            then sbind (slift (context_opt (as_str (jget op ''layer'')) ''burn layer'')) (\<lambda>layer.
                 slift (Inr (filter (\<lambda>p. fst p \<noteq> layer) ids)))
            else slift (Inr ids)) (\<lambda>ids'.
     store_write (ex_host x) ''nfts.json'' (Doc_ids ids')))"

text \<open>A receipt counts once enough blocks are on top of it and its block is still part of the chain.\<close>

definition receipt_status :: "executor \<Rightarrow> string \<Rightarrow> json \<Rightarrow> u64 option st" where
  "receipt_status x hash r =
     sbind (slift (ensure (case as_str (jget r ''transactionHash'') of Some h \<Rightarrow> eq_ignore_case h hash | None \<Rightarrow> False)
       ''receipt hash mismatch; nonce remains unresolved'')) (\<lambda>_.
     sbind (slift (hex_u64 (jget r ''blockNumber''))) (\<lambda>block.
     sbind (ask_number (ex_v3 x)) (\<lambda>n.
     if n < block + lq_confirmations (ex_cfg x) then slift (Inr None)
     else
       sbind (node_ask (ex_node x) ''eth_getBlockByNumber'' (JArr [jget r ''blockNumber'', JBool False])) (\<lambda>canonical.
       sbind (slift (ensure (json_eq (jget canonical ''hash'') (jget r ''blockHash'')) ''receipt reorged; reconcile required'')) (\<lambda>_.
       sbind (slift (hex_u64 (jget r ''status''))) (\<lambda>status. slift (Inr (Some status))))))))"

definition settle_receipt :: "executor \<Rightarrow> json \<Rightarrow> string \<Rightarrow> json \<Rightarrow> json option st" where
  "settle_receipt x op hash r =
     sbind (receipt_status x hash r) (\<lambda>y.
     case y of
       None \<Rightarrow> slift (Inr None)
     | Some status \<Rightarrow>
         if status \<noteq> 1
         then sbind (nonce_confirmed (ex_host x) (ex_nonce x) hash r) (\<lambda>_. slift (Inl (Bail ''on-chain transaction reverted'')))
         else
           sbind (record_receipt x r op) (\<lambda>_.
           sbind (nonce_confirmed (ex_host x) (ex_nonce x) hash r) (\<lambda>_.
           slift (Inr (Some r)))))"

fun wait_hashes :: "executor \<Rightarrow> json \<Rightarrow> string list \<Rightarrow> json option st" where
  "wait_hashes x op [] = slift (Inr None)"
| "wait_hashes x op (h # hs) =
     sbind (node_ask (ex_node x) ''eth_getTransactionReceipt'' (JArr [JStr h])) (\<lambda>r.
     if is_null r then wait_hashes x op hs
     else
       sbind (settle_receipt x op h r) (\<lambda>y.
       case y of Some v \<Rightarrow> slift (Inr (Some v)) | None \<Rightarrow> wait_hashes x op hs))"

definition wait_rounds :: nat where "wait_rounds = 90"

fun wait_loop :: "executor \<Rightarrow> json \<Rightarrow> string list \<Rightarrow> nat \<Rightarrow> instant \<Rightarrow> json st" where
  "wait_loop x op hs 0 refreshed = slift (Inl (Bail ''transaction still unresolved; run reconcile''))"
| "wait_loop x op hs (Suc n) refreshed =
     sbind (mono_now x) (\<lambda>now.
     sbind (if secs (unat (lq_nonce_refresh_seconds (ex_cfg x))) \<le> now - refreshed
            then sbind (ex_refresh x) (\<lambda>_. mono_now x) else slift (Inr refreshed)) (\<lambda>refreshed.
     sbind (wait_hashes x op hs) (\<lambda>y.
     case y of Some r \<Rightarrow> slift (Inr r) | None \<Rightarrow> wait_loop x op hs n refreshed)))"

definition wait_candidates :: "executor \<Rightarrow> string \<Rightarrow> store \<Rightarrow> string list res" where
  "wait_candidates x hash s =
     rbind (store_pending s) (\<lambda>p.
     case p of
       None \<Rightarrow> Inr [hash]
     | Some v \<Rightarrow>
         rbind (validated_pending_hashes x v) (\<lambda>hs.
         rbind (ensure (\<exists>h \<in> set hs. eq_ignore_case h hash) ''pending hash mismatch'') (\<lambda>_. Inr hs)))"

definition wait_receipt :: "executor \<Rightarrow> string \<Rightarrow> json \<Rightarrow> json st" where
  "wait_receipt x hash op =
     sbind (sread (wait_candidates x hash)) (\<lambda>hs.
     sbind (mono_now x) (wait_loop x op hs wait_rounds))"

section \<open>Sending\<close>

definition quote_fresh :: "executor \<Rightarrow> json \<Rightarrow> unit st" where
  "quote_fresh x op =
     (case jfind op ''quote_time_ms'' of
        None \<Rightarrow> slift (Inr ())
      | Some v \<Rightarrow>
          sbind (slift (context_opt (as_u64 v) ''invalid quote time'')) (\<lambda>t.
          sbind (host_now (ex_host x)) (\<lambda>now.
          slift (fresh t now (lq_max_quote_age_seconds (ex_cfg x))))))"

definition allowed_targets :: "executor \<Rightarrow> address list" where
  "allowed_targets x = [v3_manager (ex_v3 x), v3_router (ex_v3 x), v3_base (ex_v3 x), v3_quote (ex_v3 x)]"

definition call_json :: "executor \<Rightarrow> address \<Rightarrow> u8 list \<Rightarrow> json" where
  "call_json x to data = JObj [(''from'', JStr (owner_text x)), (''to'', JStr (el_address (ex_lib x) to)),
     (''data'', JStr (hex0x x data)), (''value'', JStr ''0x0'')]"

definition check_chain :: "executor \<Rightarrow> string \<Rightarrow> unit st" where
  "check_chain x msg =
     sbind (node_ask (ex_node x) ''eth_chainId'' (JArr [])) (\<lambda>v.
     sbind (slift (hex_u64 v)) (\<lambda>c. slift (ensure (c = lq_chain_id (ex_cfg x)) msg)))"

definition simulate :: "executor \<Rightarrow> json \<Rightarrow> string \<Rightarrow> unit st" where
  "simulate x call msg =
     sbind (node_raw (ex_node x) ''eth_call'' (JArr [call, JStr ''latest''])) (\<lambda>r.
     slift (rbind (with_context (node_res r) msg) (\<lambda>_. Inr ())))"

definition estimate_gas :: "executor \<Rightarrow> json \<Rightarrow> u64 st" where
  "estimate_gas x call = sbind (node_ask (ex_node x) ''eth_estimateGas'' (JArr [call])) (\<lambda>v. slift (hex_u64 v))"

definition buffered_gas :: "executor \<Rightarrow> u64 \<Rightarrow> u64 res" where
  "buffered_gas x estimated =
     rbind (buffered (ucast estimated) (lq_gas_limit_buffer_bps (ex_cfg x))) (\<lambda>g.
     rbind (ensure (uint g < 2 ^ 64) ''buffered gas limit overflow'') (\<lambda>_. Inr (ucast g)))"

text \<open>Everything up to the signature: the nonce, the gas limit and the fees.\<close>

definition prepare_send :: "executor \<Rightarrow> address \<Rightarrow> u8 list \<Rightarrow> json \<Rightarrow> (u64 \<times> u64 \<times> fees) st" where
  "prepare_send x to data op =
     sbind (quote_fresh x op) (\<lambda>_.
     sbind (slift (ensure (to \<in> set (allowed_targets x)) ''transaction target not allowlisted'')) (\<lambda>_.
     sbind (check_chain x ''chain changed'') (\<lambda>_.
     sbind (ex_next_nonce x) (\<lambda>nonce.
     sbind (simulate x (call_json x to data)
       ''transaction simulation failed before signing/broadcast; earlier workflow operations may have completed'') (\<lambda>_.
     sbind (estimate_gas x (call_json x to data)) (\<lambda>estimated.
     sbind (slift (buffered_gas x estimated)) (\<lambda>gas.
     sbind (ask_fees x) (\<lambda>f.
     sbind (check_gas_budget x gas f (length data)) (\<lambda>_.
     sbind (quote_fresh x op) (\<lambda>_.
     slift (Inr (nonce, gas, f))))))))))))"

definition pending_tx :: "executor \<Rightarrow> string \<Rightarrow> u64 \<Rightarrow> u64 \<Rightarrow> json \<Rightarrow> json \<Rightarrow> u8 list \<Rightarrow> json" where
  "pending_tx x hash nonce now op fs raw =
     JObj [(''venue'', JStr ''evm''), (''hash'', JStr hash), (''nonce'', JNum (PosInt nonce)), (''owner'', JStr (owner_text x)),
       (''prepared_ms'', JNum (PosInt now)), (''operation'', op), (''fees'', fs), (''raw_transaction'', JStr (hex0x x raw))]"

text \<open>The signature is recorded and its nonce reserved before the broadcast.\<close>

definition record_and_cast :: "executor \<Rightarrow> json \<Rightarrow> u64 \<Rightarrow> fees \<Rightarrow> u8 list \<Rightarrow> string st" where
  "record_and_cast x op nonce f raw =
     (let hash = xl_hash (ex_txs x) raw in
      sbind (host_now (ex_host x)) (\<lambda>now.
      sbind (slift (fees_json f)) (\<lambda>fs.
      sbind (store_begin (ex_host x) (pending_tx x hash nonce now op fs raw)) (\<lambda>_.
      sbind (nonce_prepared (ex_host x) (ex_nonce x) nonce hash) (\<lambda>_.
      sbind (ex_broadcast x hash raw nonce) (\<lambda>_.
      slift (Inr hash)))))))"

definition send :: "executor \<Rightarrow> address \<Rightarrow> u8 list \<Rightarrow> json \<Rightarrow> json st" where
  "send x to data op =
     sbind (prepare_send x to data op) (\<lambda>(nonce, gas, f).
     sbind (slift (sign_transaction x nonce gas to data f)) (\<lambda>raw.
     sbind (record_and_cast x op nonce f raw) (\<lambda>hash.
     wait_receipt x hash op)))"

section \<open>Replacing a stuck approval\<close>

record approval =
  ap_pending :: json
  ap_op :: json
  ap_token :: address
  ap_data :: "u8 list"
  ap_nonce :: u64
  ap_original :: tx
  ap_latest :: tx
  ap_hashes :: "string list"

definition valid_approval :: "executor \<Rightarrow> u64 \<Rightarrow> tx \<Rightarrow> address \<Rightarrow> u8 list \<Rightarrow> tx \<times> address res \<Rightarrow> unit res" where
  "valid_approval x nonce original token data c =
     (case c of (t, signer) \<Rightarrow>
      rbind (ensure (tx_kind t \<in> {Legacy, Eip1559}) ''unsupported recovery transaction type'') (\<lambda>_.
      rbind (ensure (tx_chain t = Some (lq_chain_id (ex_cfg x)) \<and> tx_nonce t = nonce) ''signed approval chain/nonce mismatch'') (\<lambda>_.
      rbind signer (\<lambda>a.
      rbind (ensure (a = ex_owner x) ''signed approval signer mismatch'') (\<lambda>_.
      rbind (ensure (tx_to t = Some token \<and> tx_value t = 0 \<and> tx_input t = data) ''signed approval differs from recorded operation'') (\<lambda>_.
      ensure (tx_gas t = tx_gas original) ''replacement gas limit mismatch''))))))"

fun latest_approval :: "executor \<Rightarrow> u64 \<Rightarrow> tx \<Rightarrow> address \<Rightarrow> u8 list \<Rightarrow> json list \<Rightarrow> tx \<Rightarrow> tx res" where
  "latest_approval x nonce original token data [] latest = Inr latest"
| "latest_approval x nonce original token data (c # cs) latest =
     rbind (decode_candidate x c) (\<lambda>(t, signer).
     rbind (valid_approval x nonce original token data (t, signer)) (\<lambda>_.
     latest_approval x nonce original token data cs t))"

definition is_approval :: "json \<Rightarrow> bool" where
  "is_approval op \<longleftrightarrow> jget op ''kind'' \<in> {JStr ''approve'', JStr ''approve_zero''}"

definition stuck_approval :: "executor \<Rightarrow> string \<Rightarrow> store \<Rightarrow> approval res" where
  "stuck_approval x expected s =
     rbind (store_pending s) (\<lambda>d.
     rbind (context_opt d ''no pending EVM approval'') (\<lambda>p.
     rbind (ensure (jget p ''venue'' = JStr ''evm'') ''pending operation is not EVM'') (\<lambda>_.
     rbind (ensure (case as_str (jget p ''hash'') of Some h \<Rightarrow> eq_ignore_case h expected | None \<Rightarrow> False)
       ''expected original hash differs from pending operation'') (\<lambda>_.
     rbind (ensure (owned_by x p) ''pending owner mismatch'') (\<lambda>_.
     let op = jget p ''operation'' in
     rbind (ensure (is_approval op) ''fee recovery only supports ERC20 approve; retain other operations for reconciliation'') (\<lambda>_.
     rbind (rbind (context_opt (as_str (jget op ''token'')) ''approval token'') (el_parse_address (ex_lib x))) (\<lambda>token.
     rbind (rbind (context_opt (as_str (jget op ''spender'')) ''approval spender'') (el_parse_address (ex_lib x))) (\<lambda>spender.
     rbind (rbind (context_opt (as_str (jget op ''raw_amount'')) ''approval amount'') (ut_parse (el_text (ex_lib x)))) (\<lambda>amount.
     rbind (ensure (token \<in> {v3_base (ex_v3 x), v3_quote (ex_v3 x)}) ''approval token not allowlisted'') (\<lambda>_.
     rbind (ensure (spender \<in> {v3_manager (ex_v3 x), v3_router (ex_v3 x)}) ''approval spender not allowlisted'') (\<lambda>_.
     rbind (ensure (jget op ''kind'' \<noteq> JStr ''approve_zero'' \<or> amount = 0) ''approve_zero amount mismatch'') (\<lambda>_.
     let data = xl_abi (ex_txs x) (Approve spender amount) in
     rbind (decode_candidate x p) (\<lambda>(original, signer).
     rbind (context_opt (as_u64 (jget p ''nonce'')) ''pending nonce'') (\<lambda>nonce.
     rbind (valid_approval x nonce original token data (original, signer)) (\<lambda>_.
     rbind (pending_hashes (ex_host x) p) (\<lambda>hs.
     rbind (rbind (replacement_list p) (\<lambda>rs. latest_approval x nonce original token data rs original)) (\<lambda>latest.
     Inr \<lparr>ap_pending = p, ap_op = op, ap_token = token, ap_data = data, ap_nonce = nonce, ap_original = original,
       ap_latest = latest, ap_hashes = hs\<rparr>)))))))))))))))))"

text \<open>Every recorded hash is looked up first: one that has a receipt ends the recovery, \<open>Some known\<close> does not.\<close>

fun lookup_hashes :: "executor \<Rightarrow> string list \<Rightarrow> bool \<Rightarrow> bool option st" where
  "lookup_hashes x [] known = slift (Inr (Some known))"
| "lookup_hashes x (h # hs) known =
     sbind (node_ask (ex_node x) ''eth_getTransactionReceipt'' (JArr [JStr h])) (\<lambda>r.
     if \<not> is_null r then slift (Inr None)
     else
       sbind (node_ask (ex_node x) ''eth_getTransactionByHash'' (JArr [JStr h])) (\<lambda>t.
       if is_null t then lookup_hashes x hs known
       else
         sbind (slift (ensure (case as_str (jget t ''hash'') of Some y \<Rightarrow> eq_ignore_case y h | None \<Rightarrow> False)
           ''transaction lookup hash mismatch'')) (\<lambda>_.
         lookup_hashes x hs True)))"

definition check_reservation :: "approval \<Rightarrow> bool \<Rightarrow> nonce_state \<Rightarrow> unit res" where
  "check_reservation a known st =
     rbind (ensure (ns_latest st = ap_nonce a) ''approval nonce already consumed or RPC behind; retain pending and reconcile receipts'') (\<lambda>_.
     rbind (context_opt (checked_add (ap_nonce a) 1) ''nonce overflow'') (\<lambda>next1.
     rbind (ensure (ns_next_floor st = next1 \<and> (case ns_inflight st of
         Some p \<Rightarrow> json_eq (jget p ''hash'') (jget (ap_pending a) ''hash'') \<and> jget p ''nonce'' = JNum (PosInt (ap_nonce a))
       | None \<Rightarrow> False)) ''nonce reservation mismatch'') (\<lambda>_.
     rbind (ensure (ns_pending st = ap_nonce a \<or> known \<and> ns_pending st = next1)
       ''unknown external pending transaction; no fee replacement'') (\<lambda>_.
     ensure (length (ap_hashes a) \<le> 8) ''approval fee replacement limit reached; retain state for manual review''))))"

definition replacement_fees :: "executor \<Rightarrow> approval \<Rightarrow> fees st" where
  "replacement_fees x a =
     (let call = call_json x (ap_token a) (ap_data a) in
      sbind (simulate x call ''approval recovery simulation failed'') (\<lambda>_.
      sbind (estimate_gas x call) (\<lambda>estimated.
      sbind (slift (ensure (estimated \<le> tx_gas (ap_original a)) ''original approval gas limit no longer sufficient'')) (\<lambda>_.
      sbind (ask_fees x) (\<lambda>f0.
      sbind (slift (fees_replacement (tx_max_fee (ap_latest a))
        (case tx_tip (ap_latest a) of Some t \<Rightarrow> t | None \<Rightarrow> tx_max_fee (ap_latest a)) f0)) (\<lambda>f.
      sbind (check_gas_budget x (tx_gas (ap_original a)) f (length (tx_input (ap_original a)))) (\<lambda>_.
      slift (Inr f))))))))"

definition add_replacement :: "json \<Rightarrow> json \<Rightarrow> json res" where
  "add_replacement p r =
     rbind (replacement_list p) (\<lambda>rs. jset p ''replacements'' (JArr (rs @ [r])))"

definition record_replacement :: "executor \<Rightarrow> string \<Rightarrow> approval \<Rightarrow> fees \<Rightarrow> u8 list \<Rightarrow> unit st" where
  "record_replacement x expected a f raw =
     (let hash = xl_hash (ex_txs x) raw in
      sbind (slift (ensure (hash \<notin> set (ap_hashes a)) ''replacement did not change transaction hash'')) (\<lambda>_.
      sbind (host_now (ex_host x)) (\<lambda>now.
      sbind (slift (fees_json f)) (\<lambda>fs.
      sbind (slift (add_replacement (ap_pending a) (JObj [(''hash'', JStr hash), (''raw_transaction'', JStr (hex0x x raw)),
        (''prepared_ms'', JNum (PosInt now)), (''fees'', fs)]))) (\<lambda>p.
      sbind (store_write (ex_host x) ''pending.json'' (Doc_json p)) (\<lambda>_.
      store_event (ex_host x) ''evm_approval_fee_replacement'' (JObj [(''original_hash'', JStr expected), (''hash'', JStr hash),
        (''nonce'', JNum (PosInt (ap_nonce a))), (''fees'', fs), (''operation'', ap_op a)])))))))"

definition cast_replacement :: "executor \<Rightarrow> string \<Rightarrow> approval \<Rightarrow> fees \<Rightarrow> u8 list \<Rightarrow> unit st" where
  "cast_replacement x expected a f raw =
     sbind (record_replacement x expected a f raw) (\<lambda>_. ex_broadcast x (xl_hash (ex_txs x) raw) raw (ap_nonce a))"

definition replace_approval :: "executor \<Rightarrow> string \<Rightarrow> approval \<Rightarrow> bool \<Rightarrow> json st" where
  "replace_approval x expected a known =
     sbind (ex_refresh x) (\<lambda>st.
     sbind (slift (check_reservation a known st)) (\<lambda>_.
     sbind (replacement_fees x a) (\<lambda>f.
     sbind (slift (sign_transaction x (ap_nonce a) (tx_gas (ap_original a)) (ap_token a) (ap_data a) f)) (\<lambda>raw.
     sbind (cast_replacement x expected a f raw) (\<lambda>_.
     wait_receipt x expected (ap_op a))))))"

definition retry_approval :: "executor \<Rightarrow> string \<Rightarrow> json st" where
  "retry_approval x expected =
     sbind (sread (stuck_approval x expected)) (\<lambda>a.
     sbind (check_chain x ''recovery chain mismatch'') (\<lambda>_.
     sbind (lookup_hashes x (ap_hashes a) False) (\<lambda>found.
     case found of
       None \<Rightarrow> wait_receipt x expected (ap_op a)
     | Some known \<Rightarrow> replace_approval x expected a known)))"

end
