(* ===== verification/V3_Executor.thy ===== *)
theory V3_Executor
  imports V3_Tx Hl_Client
begin

text \<open>
  The operations of the Uniswap V3 executor (\<open>src/liquidity/uniswap_v3/tx.rs\<close>): approvals, opening,
  enlarging and removing a position, swapping, and the check of the wallet's positions. Each ends in
  \<open>send\<close> of \<open>V3_Tx\<close>.
\<close>

definition json_int :: "int \<Rightarrow> json" where
  "json_int i = (if i < 0 then JNum (NegInt i) else JNum (PosInt (word_of_int i)))"

definition json_u64 :: "u64 \<Rightarrow> json" where
  "json_u64 w = JNum (PosInt w)"

definition json_u32 :: "u32 \<Rightarrow> json" where
  "json_u32 w = JNum (PosInt (ucast w))"

definition json_word :: "executor \<Rightarrow> u256 \<Rightarrow> json" where
  "json_word x w = JStr (ut_show (el_text (ex_lib x)) w)"

section \<open>The executor\<close>

text \<open>A state directory belongs to one wallet on one chain.\<close>

definition with_signer :: "executor \<Rightarrow> executor st" where
  "with_signer x =
     sbind (sread (read_json ''execution_identity.json'')) (\<lambda>d.
     sbind (slift (ensure (case d of None \<Rightarrow> True
         | Some v \<Rightarrow> jget v ''chain_id'' = json_u64 (lq_chain_id (ex_cfg x)) \<and> owned_by x v)
       ''execution state belongs to another LP wallet/chain'')) (\<lambda>_.
     sbind (slift (case lq_owner (ex_cfg x) of None \<Rightarrow> Inr ()
         | Some o1 \<Rightarrow> rbind (el_parse_address (ex_lib x) o1) (\<lambda>a. ensure (a = ex_owner x) ''configured LP owner differs from signing wallet''))) (\<lambda>_.
     sbind (store_write (ex_host x) ''execution_identity.json'' (Doc_json (JObj [(''owner'', JStr (owner_text x)),
       (''chain_id'', json_u64 (lq_chain_id (ex_cfg x)))]))) (\<lambda>_.
     slift (Inr x)))))"

definition ex_ids :: "store \<Rightarrow> (string \<times> string) list res" where
  "ex_ids s = rbind (read_ids ''nfts.json'' s) (\<lambda>d. Inr (case d of None \<Rightarrow> [] | Some l \<Rightarrow> l))"

definition verify_inventory :: "executor \<Rightarrow> unit st" where
  "verify_inventory x =
     sbind (sread ex_ids) (\<lambda>ids.
     let expected = sort (remdups (map snd ids)) in
     sbind (token_ids (ex_v3 x) (ex_owner x)) (\<lambda>found.
     let actual = sort (remdups found) in
     sbind (host_now (ex_host x)) (\<lambda>now.
     sbind (store_write (ex_host x) ''lp_inventory.json'' (Doc_json (JObj [(''observed_ms'', json_u64 now),
       (''owner'', JStr (owner_text x)), (''expected'', JArr (map JStr expected)),
       (''actual_active_nfts'', JArr (map JStr actual)), (''consistent'', JBool (actual = expected))]))) (\<lambda>_.
     slift (ensure (actual = expected) ''untracked/missing LP NFTs: import existing positions before strategy startup'')))))"

definition current_positions :: "executor \<Rightarrow> lp_position list st" where
  "current_positions x = sbind (sread ex_ids) (\<lambda>ids. positions (ex_v3 x) (ex_owner x) ids)"

definition ex_balance :: "executor \<Rightarrow> address \<Rightarrow> u256 st" where
  "ex_balance x token = balance (ex_v3 x) token (ex_owner x)"

section \<open>Approvals\<close>

definition approval_op :: "executor \<Rightarrow> string \<Rightarrow> address \<Rightarrow> address \<Rightarrow> u256 \<Rightarrow> json" where
  "approval_op x kind token spender amount =
     JObj [(''kind'', JStr kind), (''token'', JStr (el_address (ex_lib x) token)),
       (''spender'', JStr (el_address (ex_lib x) spender)), (''raw_amount'', json_word x amount)]"

definition send_approval :: "executor \<Rightarrow> string \<Rightarrow> address \<Rightarrow> address \<Rightarrow> u256 \<Rightarrow> unit st" where
  "send_approval x kind token spender amount =
     sbind (send x token (xl_abi (ex_txs x) (Approve spender amount)) (approval_op x kind token spender amount)) (\<lambda>_. slift (Inr ()))"

definition approve :: "executor \<Rightarrow> address \<Rightarrow> address \<Rightarrow> u256 \<Rightarrow> unit st" where
  "approve x token spender amount =
     sbind (words (ex_v3 x) token ''allowance(address,address)'' [address_word (ex_owner x), address_word spender] ''latest'') (\<lambda>ws.
     if amount \<le> ws ! 0 then slift (Inr ())
     else
       sbind (if 0 < ws ! 0 then send_approval x ''approve_zero'' token spender 0 else slift (Inr ())) (\<lambda>_.
       send_approval x ''approve'' token spender amount))"

section \<open>Amounts of an entry\<close>

definition position_range :: "executor \<Rightarrow> u256 \<Rightarrow> u64 \<Rightarrow> (vrange \<times> u256) st" where
  "position_range x i block =
     sbind (position_words (ex_v3 x) i (block_tag block)) (\<lambda>p.
     sbind (slift (ensure (same_pool (ex_v3 x) p) ''LP NFT pool mismatch'')) (\<lambda>_.
     sbind (slift (range_new (signed_tick (p ! 5)) (signed_tick (p ! 6)))) (\<lambda>r.
     slift (Inr (r, p ! 7)))))"

definition snap_sqrt :: "executor \<Rightarrow> pool_snapshot \<Rightarrow> u256 res" where
  "snap_sqrt x snap = parse_sqrt (el_text (ex_lib x)) (ps_sqrt_price_x96 snap)"

text \<open>After the approvals only the price and the minimum amounts are renewed, within the slippage.\<close>

definition refreshed_entry_snapshot :: "executor \<Rightarrow> pool_snapshot \<Rightarrow> pool_snapshot st" where
  "refreshed_entry_snapshot x earlier =
     sbind (execution_snapshot (ex_v3 x)) (\<lambda>after.
     sbind (slift (snap_sqrt x earlier)) (\<lambda>a. sbind (slift (snap_sqrt x after)) (\<lambda>b.
     sbind (slift (check_price_move a b (lq_slippage_bps (ex_cfg x)))) (\<lambda>_. slift (Inr after)))))"

definition on_base :: "executor \<Rightarrow> bool" where
  "on_base x \<longleftrightarrow> lq_chain_id (ex_cfg x) = ch_id base_chain"

definition fit_to_wallet :: "executor \<Rightarrow> u256 \<Rightarrow> u256 \<Rightarrow> (u256 \<times> u256) st" where
  "fit_to_wallet x rb rq =
     sbind (ex_balance x (v3_base (ex_v3 x))) (\<lambda>b.
     sbind (ex_balance x (v3_quote (ex_v3 x))) (\<lambda>q. slift (fit_balances rb rq b q)))"

definition funded_liquidity_amounts :: "executor \<Rightarrow> u256 \<Rightarrow> u256 \<Rightarrow> (u256 \<times> u256) st" where
  "funded_liquidity_amounts x rb rq = (if on_base x then fit_to_wallet x rb rq else slift (Inr (rb, rq)))"

definition approve_both :: "executor \<Rightarrow> u256 \<Rightarrow> u256 \<Rightarrow> unit st" where
  "approve_both x rb rq =
     sbind (approve x (v3_base (ex_v3 x)) (v3_manager (ex_v3 x)) rb) (\<lambda>_.
     approve x (v3_quote (ex_v3 x)) (v3_manager (ex_v3 x)) rq)"

definition raw_amounts :: "executor \<Rightarrow> f64 \<times> f64 \<Rightarrow> (u256 \<times> u256) res" where
  "raw_amounts x bq =
     rbind (raw_units (el_text (ex_lib x)) (el_decimal (ex_lib x)) (fst bq) (lq_base_decimals (ex_cfg x))) (\<lambda>rb.
     rbind (raw_units (el_text (ex_lib x)) (el_decimal (ex_lib x)) (snd bq) (lq_quote_decimals (ex_cfg x))) (\<lambda>rq. Inr (rb, rq)))"

definition tx_deadline :: "executor \<Rightarrow> u256 st" where
  "tx_deadline x = sbind (host_now (ex_host x)) (\<lambda>now. slift (Inr (ucast (now div 1000 + lq_deadline_seconds (ex_cfg x)))))"

definition quote_fields :: "executor \<Rightarrow> pool_snapshot \<Rightarrow> u256 \<times> u256 \<Rightarrow> (string \<times> json) list" where
  "quote_fields x snap mins =
     [(''price'', json_f64 (ps_price snap)), (''quote_time_ms'', json_u64 (ps_time_ms snap)),
      (''quote_block'', json_u64 (ps_block snap)), (''amount0_min'', json_word x (fst mins)),
      (''amount1_min'', json_word x (snd mins)), (''slippage_bps'', json_u32 (lq_slippage_bps (ex_cfg x)))]"

definition opt_text :: "string option \<Rightarrow> json" where
  "opt_text t = (case t of None \<Rightarrow> JNull | Some v \<Rightarrow> JStr v)"

definition position_id :: "executor \<Rightarrow> lp_position \<Rightarrow> string \<Rightarrow> u256 res" where
  "position_id x pos msg = rbind (context_opt (lp_token_id pos) msg) (ut_parse (el_text (ex_lib x)))"

section \<open>Enlarging a position\<close>

definition increase_amounts :: "executor \<Rightarrow> lp_position \<Rightarrow> f64 \<Rightarrow> pool_snapshot \<Rightarrow> (u256 \<times> u256) res" where
  "increase_amounts x pos value snap =
     rbind (ensure (lp_lower pos < ps_price snap \<and> ps_price snap < lp_upper pos) ''cannot scale an out-of-range position'') (\<lambda>_.
     rbind (liquidity_for_value value (lp_lower pos) (lp_upper pos) (ps_price snap)) (\<lambda>l.
     rbind (amounts l (lp_lower pos) (lp_upper pos) (ps_price snap)) (raw_amounts x)))"

text \<open>The transaction: the amounts in the order of the tokens and their minimums at the renewed price.\<close>

definition entry_minimums :: "executor \<Rightarrow> vrange \<Rightarrow> pool_snapshot \<Rightarrow> u256 \<Rightarrow> u256 \<Rightarrow> ((u256 \<times> u256) \<times> (u256 \<times> u256)) res" where
  "entry_minimums x r snap rb rq =
     (let am = (if ps_base_is_token0 snap then (rb, rq) else (rq, rb)) in
      rbind (snap_sqrt x snap) (\<lambda>sq.
      rbind (mint_minimums r sq (fst am) (snd am) (lq_slippage_bps (ex_cfg x))) (\<lambda>mins. Inr (am, mins))))"

definition increase :: "executor \<Rightarrow> lp_position \<Rightarrow> f64 \<Rightarrow> json st" where
  "increase x pos value =
     sbind (execution_snapshot (ex_v3 x)) (\<lambda>snap0.
     sbind (slift (position_id x pos ''NFT id'')) (\<lambda>i.
     sbind (position_range x i (ps_block snap0)) (\<lambda>(r, l).
     sbind (slift (increase_amounts x pos value snap0)) (\<lambda>(rb0, rq0).
     sbind (funded_liquidity_amounts x rb0 rq0) (\<lambda>(rb, rq).
     sbind (approve_both x rb rq) (\<lambda>_.
     sbind (refreshed_entry_snapshot x snap0) (\<lambda>snap.
     sbind (slift (entry_minimums x r snap rb rq)) (\<lambda>(am, mins).
     sbind (tx_deadline x) (\<lambda>deadline.
     send x (v3_manager (ex_v3 x))
       (xl_abi (ex_txs x) (Increase_liquidity i (fst am) (snd am) (fst mins) (snd mins) deadline))
       (JObj ([(''kind'', JStr ''increase''), (''layer'', JStr (lp_layer pos)), (''token_id'', opt_text (lp_token_id pos)),
         (''value_usdg'', json_f64 value), (''lower'', json_f64 (lp_lower pos)), (''upper'', json_f64 (lp_upper pos))]
         @ quote_fields x snap mins)))))))))))"

section \<open>Opening a position\<close>

definition mint_ticks :: "executor \<Rightarrow> pool_snapshot \<Rightarrow> f64 \<Rightarrow> (f64 \<times> f64) option \<Rightarrow> (int \<times> int) res" where
  "mint_ticks x snap width bounded =
     (case bounded of
        Some ws \<Rightarrow> bounded_ticks (el_libm (ex_lib x)) (ex_cfg x) snap ws
      | None \<Rightarrow> (case range_of (ps_price snap) width of (lo, hi) \<Rightarrow>
          aligned_ticks (el_libm (ex_lib x)) lo hi (ps_tick_spacing snap) (lq_base_decimals (ex_cfg x))
            (lq_quote_decimals (ex_cfg x)) (ps_base_is_token0 snap)))"

definition mint_amounts :: "executor \<Rightarrow> pool_snapshot \<Rightarrow> f64 \<Rightarrow> int \<times> int \<Rightarrow> (u256 \<times> u256) res" where
  "mint_amounts x snap value ts =
     rbind (range_amounts_f64 (el_libm (ex_lib x)) (ex_cfg x) snap value (fst ts) (snd ts)) (raw_amounts x)"

definition wallet_covers :: "executor \<Rightarrow> u256 \<Rightarrow> u256 \<Rightarrow> unit st" where
  "wallet_covers x rb rq =
     sbind (ex_balance x (v3_base (ex_v3 x))) (\<lambda>b.
     sbind (if rb \<le> b then sbind (ex_balance x (v3_quote (ex_v3 x))) (\<lambda>q. slift (Inr (rq \<le> q))) else slift (Inr False)) (\<lambda>ok.
     slift (ensure ok ''insufficient token balances for mint'')))"

definition i24 :: "int \<Rightarrow> unit res" where
  "i24 t = ensure (- 8388608 \<le> t \<and> t \<le> 8388607) ''out of range integral type conversion attempted''"

definition mint_call :: "executor \<Rightarrow> pool_snapshot \<Rightarrow> int \<times> int \<Rightarrow> u256 \<times> u256 \<Rightarrow> u256 \<times> u256 \<Rightarrow> u256 \<Rightarrow> v3_call" where
  "mint_call x snap ts am mins deadline =
     (case (if ps_base_is_token0 snap then (v3_base (ex_v3 x), v3_quote (ex_v3 x)) else (v3_quote (ex_v3 x), v3_base (ex_v3 x))) of
        (t0, t1) \<Rightarrow> Mint t0 t1 (lq_fee (ex_cfg x)) (fst ts) (snd ts) (fst am) (snd am) (fst mins) (snd mins) (ex_owner x) deadline)"

definition json_widths :: "(f64 \<times> f64) option \<Rightarrow> json" where
  "json_widths w = (case w of None \<Rightarrow> JNull | Some (a, b) \<Rightarrow> JArr [json_f64 a, json_f64 b])"

definition mint_plan :: "executor \<Rightarrow> string \<Rightarrow> f64 \<Rightarrow> f64 \<Rightarrow> (f64 \<times> f64) option \<Rightarrow> json st" where
  "mint_plan x layer value width bounded =
     sbind (sread ex_ids) (\<lambda>ids.
     sbind (slift (ensure (layer \<notin> set (map fst ids)) ''layer already has an NFT'')) (\<lambda>_.
     sbind (execution_snapshot (ex_v3 x)) (\<lambda>snap0.
     sbind (slift (mint_ticks x snap0 width bounded)) (\<lambda>ts.
     sbind (slift (mint_amounts x snap0 value ts)) (\<lambda>(rb0, rq0).
     sbind (if bounded \<noteq> None then fit_to_wallet x rb0 rq0 else funded_liquidity_amounts x rb0 rq0) (\<lambda>(rb, rq).
     sbind (wallet_covers x rb rq) (\<lambda>_.
     sbind (approve_both x rb rq) (\<lambda>_.
     sbind (refreshed_entry_snapshot x snap0) (\<lambda>snap.
     sbind (slift (range_new (fst ts) (snd ts))) (\<lambda>r.
     sbind (slift (entry_minimums x r snap rb rq)) (\<lambda>(am, mins).
     sbind (slift (rbind (i24 (fst ts)) (\<lambda>_. i24 (snd ts)))) (\<lambda>_.
     sbind (tx_deadline x) (\<lambda>deadline.
     send x (v3_manager (ex_v3 x)) (xl_abi (ex_txs x) (mint_call x snap ts am mins deadline))
       (JObj ([(''kind'', JStr ''mint''), (''layer'', JStr layer), (''value_usdg'', json_f64 value), (''half_width'', json_f64 width),
         (''bounded_widths'', json_widths bounded), (''tick_lower'', json_int (fst ts)), (''tick_upper'', json_int (snd ts)),
         (''raw_base'', json_word x rb), (''raw_quote'', json_word x rq)] @ quote_fields x snap mins)))))))))))))))"

definition mint :: "executor \<Rightarrow> string \<Rightarrow> f64 \<Rightarrow> f64 \<Rightarrow> json st" where
  "mint x layer value width = mint_plan x layer value width None"

section \<open>Removing a position\<close>

definition collect_call :: "executor \<Rightarrow> u256 \<Rightarrow> v3_call" where
  "collect_call x i = Collect i (ex_owner x) (- 1) (- 1)"

definition collect :: "executor \<Rightarrow> string \<Rightarrow> json st" where
  "collect x raw_id =
     sbind (slift (ut_parse (el_text (ex_lib x)) raw_id)) (\<lambda>i.
     send x (v3_manager (ex_v3 x)) (xl_abi (ex_txs x) (collect_call x i))
       (JObj [(''kind'', JStr ''collect''), (''token_id'', JStr raw_id)]))"

text \<open>Withdraw all liquidity, collect, burn: one transaction. The deadline is read only for the first.\<close>

definition removal_calls :: "executor \<Rightarrow> u256 \<Rightarrow> u256 \<Rightarrow> u256 \<times> u256 \<Rightarrow> u8 list list st" where
  "removal_calls x i liquidity mins =
     sbind (slift (if liquidity \<le> u128_max then Inr () else Inl (Panic ''Uint conversion error''))) (\<lambda>_.
     sbind (if 0 < liquidity
            then sbind (tx_deadline x) (\<lambda>d. slift (Inr [Decrease_liquidity i (ucast liquidity) (fst mins) (snd mins) d]))
            else slift (Inr [])) (\<lambda>calls.
     slift (Inr (map (xl_abi (ex_txs x)) (calls @ [collect_call x i, Burn i])))))"

definition remove_lp :: "executor \<Rightarrow> lp_position \<Rightarrow> json st" where
  "remove_lp x pos =
     sbind (slift (position_id x pos ''live position needs token id'')) (\<lambda>i.
     sbind (execution_snapshot (ex_v3 x)) (\<lambda>snap.
     sbind (position_range x i (ps_block snap)) (\<lambda>(r, current).
     sbind (slift (ut_parse (el_text (ex_lib x)) (lp_raw_liquidity pos))) (\<lambda>liquidity.
     sbind (slift (ensure (liquidity = current) ''LP liquidity changed since observation; reconcile before removal'')) (\<lambda>_.
     sbind (slift (rbind (snap_sqrt x snap) (\<lambda>sq. burn_minimums r sq liquidity (lq_slippage_bps (ex_cfg x))))) (\<lambda>mins.
     sbind (removal_calls x i liquidity mins) (\<lambda>calls.
     send x (v3_manager (ex_v3 x)) (xl_abi (ex_txs x) (Multicall calls))
       (JObj ([(''kind'', JStr ''burn''), (''layer'', JStr (lp_layer pos)), (''token_id'', opt_text (lp_token_id pos)),
         (''raw_liquidity'', JStr (lp_raw_liquidity pos)), (''lower'', json_f64 (lp_lower pos)), (''upper'', json_f64 (lp_upper pos))]
         @ quote_fields x snap mins)))))))))"

section \<open>Swapping\<close>

record swap_side =
  sw_in :: address
  sw_out :: address
  sw_in_decimals :: u8
  sw_out_decimals :: u8
  sw_rate :: f64

definition swap_of :: "executor \<Rightarrow> bool \<Rightarrow> f64 \<Rightarrow> swap_side" where
  "swap_of x sell_base price =
     (let v = ex_v3 x; c = ex_cfg x in
      if sell_base
      then \<lparr>sw_in = v3_base v, sw_out = v3_quote v, sw_in_decimals = lq_base_decimals c, sw_out_decimals = lq_quote_decimals c, sw_rate = price\<rparr>
      else \<lparr>sw_in = v3_quote v, sw_out = v3_base v, sw_in_decimals = lq_quote_decimals c, sw_out_decimals = lq_base_decimals c, sw_rate = 1 / price\<rparr>)"

definition dust_json :: "base_dust \<Rightarrow> json" where
  "dust_json d = JObj [(''raw_base'', JStr (bd_raw_base d)), (''raw_quote_ceiling'', JStr (bd_raw_quote_ceiling d)),
     (''base_decimals'', json_u64 (ucast (bd_base_decimals d))), (''quote_decimals'', json_u64 (ucast (bd_quote_decimals d))),
     (''sqrt_price_x96'', JStr (bd_sqrt_price_x96 d)), (''base_is_token0'', JBool (bd_base_is_token0 d)),
     (''block'', json_u64 (bd_block d)), (''block_hash'', JStr (bd_block_hash d)), (''time_ms'', json_u64 (bd_time_ms d))]"

text \<open>The exit of everything: nothing left, or dust that stays in the wallet, with its proof.\<close>

definition exit_remainder :: "executor \<Rightarrow> pool_snapshot \<Rightarrow> u256 \<Rightarrow> json option st" where
  "exit_remainder x snap input =
     (if input = 0 then slift (Inr (Some (JObj [(''status'', JStr ''base_already_empty'')])))
      else
        sbind (slift (dust_assess (el_text (ex_lib x)) (ex_cfg x) snap input)) (\<lambda>d.
        case d of
          None \<Rightarrow> slift (Inr None)
        | Some dust \<Rightarrow>
            sbind (host_now (ex_host x)) (\<lambda>now.
            sbind (slift (fresh (ps_time_ms snap) now 60)) (\<lambda>_.
            sbind (store_event (ex_host x) ''manual_exit_base_dust_retained'' (dust_json dust)) (\<lambda>_.
            slift (Inr (Some (JObj [(''status'', JStr ''base_dust_retained''), (''dust'', dust_json dust)]))))))))"

definition swap_call :: "executor \<Rightarrow> swap_side \<Rightarrow> u256 \<Rightarrow> u256 \<Rightarrow> u256 \<Rightarrow> u8 list" where
  "swap_call x w input least deadline =
     (let a = xl_abi (ex_txs x) in
      a (Router_multicall deadline [a (Exact_input_single (sw_in w) (sw_out w) (lq_fee (ex_cfg x)) (ex_owner x) input least)]))"

definition swap_exact :: "executor \<Rightarrow> bool \<Rightarrow> pool_snapshot \<Rightarrow> swap_side \<Rightarrow> u256 \<Rightarrow> json st" where
  "swap_exact x sell_base snap w input =
     sbind (slift (ensure (0 < input) ''zero swap'')) (\<lambda>_.
     sbind (ask_minimum_output (ex_v3 x) (sw_in w) (sw_out w) input (ps_block snap)
       (units (el_libm (ex_lib x)) input (sw_in_decimals w) * sw_rate w) (sw_out_decimals w)) (\<lambda>least.
     sbind (slift (ensure (0 < least) ''zero minimum output; no swap broadcast'')) (\<lambda>_.
     sbind (approve x (sw_in w) (v3_router (ex_v3 x)) input) (\<lambda>_.
     sbind (tx_deadline x) (\<lambda>deadline.
     send x (v3_router (ex_v3 x)) (swap_call x w input least deadline)
       (JObj [(''kind'', JStr ''swap''), (''sell_base'', JBool sell_base), (''input_token'', JStr (el_address (ex_lib x) (sw_in w))),
         (''output_token'', JStr (el_address (ex_lib x) (sw_out w))), (''raw_input'', json_word x input),
         (''raw_min_output'', json_word x least), (''price'', json_f64 (ps_price snap)),
         (''quote_time_ms'', json_u64 (ps_time_ms snap)), (''slippage_bps'', json_u32 (lq_slippage_bps (ex_cfg x)))]))))))"

definition swap_amount :: "executor \<Rightarrow> bool \<Rightarrow> f64 option \<Rightarrow> json st" where
  "swap_amount x sell_base amount =
     sbind (fresh_snapshot (ex_v3 x)) (\<lambda>snap.
     let w = swap_of x sell_base (ps_price snap) in
     sbind (ex_balance x (sw_in w)) (\<lambda>have.
     sbind (slift (case amount of Some a \<Rightarrow> bounded_amount (el_text (ex_lib x)) (el_decimal (ex_lib x)) a (sw_in_decimals w) have
       | None \<Rightarrow> Inr have)) (\<lambda>input.
     sbind (if sell_base \<and> amount = None then exit_remainder x snap input else slift (Inr None)) (\<lambda>done1.
     case done1 of Some v \<Rightarrow> slift (Inr v) | None \<Rightarrow> swap_exact x sell_base snap w input))))"

definition swap :: "executor \<Rightarrow> bool \<Rightarrow> f64 \<Rightarrow> json st" where
  "swap x sell_base amount = swap_amount x sell_base (Some amount)"

definition sell_all_base :: "executor \<Rightarrow> json st" where
  "sell_all_base x = swap_amount x True None"

section \<open>The base token an entry needs\<close>

definition mint_base_requirement :: "executor \<Rightarrow> f64 \<Rightarrow> f64 \<Rightarrow> pool_snapshot \<Rightarrow> f64 res" where
  "mint_base_requirement x value width snap =
     (if on_base x then rbind (aligned_amounts (el_libm (ex_lib x)) (ex_cfg x) snap value width) (\<lambda>p. Inr (fst p))
      else Inr (value / lit 2 / ps_price snap))"

definition bounded_base_requirement :: "executor \<Rightarrow> f64 \<Rightarrow> f64 \<times> f64 \<Rightarrow> pool_snapshot \<Rightarrow> f64 res" where
  "bounded_base_requirement x value ws snap =
     rbind (bounded_amounts (el_libm (ex_lib x)) (ex_cfg x) snap value ws) (\<lambda>p. Inr (fst p))"

end
