(* ===== verification/V3_Reads.thy ===== *)
theory V3_Reads
  imports V3_Tx Evm_Nonce_Props Hl_Client_Props Recovery_Props
begin

text \<open>
  What reading from the node and waiting for a receipt leave alone: a relation on stores that
  \<open>store_steps\<close> accepts is kept by every reading operation of the Uniswap V3 adapter.
\<close>

context store_steps
begin

lemma keeps_at_tick: "(\<And>s0. keeps R (m s0)) \<Longrightarrow> keeps R (\<lambda>s. m s (s\<lparr>sv_tick := t s\<rparr>))"
  unfolding keeps_def by (metis (no_types, lifting) quiet step_trans store.select_convs store.surjective
      store.update_convs(8))

lemma keeps_same: "(\<And>s. snd (m s) = s) \<Longrightarrow> keeps R m"
  unfolding keeps_def by (metis quiet snd_conv)

lemma keeps_cached: "keeps R (cached v f)"
  by (rule keeps_same) (simp add: cached_def)

lemma keeps_raw: "keeps R (node_raw nd meth params)"
  by (auto simp: keeps_def node_raw_def intro: quiet)

lemma keeps_node_ask: "keeps R (node_ask nd meth params)"
  unfolding node_ask_def by (intro keeps_sbind keeps_raw keeps_pure)

lemma keeps_mono: "keeps R (mono_now x)"
  by (auto simp: keeps_def mono_now_def intro: quiet)

lemma keeps_words: "keeps R (words v to sig args tag)"
  unfolding words_def node_words_def by (intro keeps_sbind keeps_raw keeps_pure)

lemma keeps_number: "keeps R (ask_number v)"
  unfolding ask_number_def by (intro keeps_sbind keeps_raw keeps_pure)

lemma keeps_epoch: "keeps R (ensure_epoch v)"
  unfolding ensure_epoch_def by (intro keeps_sbind keeps_cached keeps_pure)

lemma keeps_words_at: "keeps R (words_at v snap to sig args)"
  unfolding words_at_def by (intro keeps_sbind keeps_cached keeps_option keeps_words keeps_epoch keeps_pure)

lemmas basic = keeps_flow keeps_cached keeps_raw keeps_node_ask keeps_mono keeps_words keeps_number
  keeps_epoch keeps_words_at

lemma keeps_spacing: "keeps R (tick_spacing v)"
  unfolding tick_spacing_def by (intro basic)

lemma keeps_with_header: "keeps R (snapshot_with_header v n hdr)"
  unfolding snapshot_with_header_def Let_def by (intro basic keeps_spacing)

lemma keeps_snapshot_at: "keeps R (snapshot_at v n)"
  unfolding snapshot_at_def by (intro basic keeps_with_header)

lemma keeps_execution_snapshot: "keeps R (execution_snapshot v)"
  unfolding execution_snapshot_def by (intro basic keeps_snapshot_at)

lemma keeps_fresh_snapshot: "keeps R (fresh_snapshot v)"
  unfolding fresh_snapshot_def by (intro basic keeps_snapshot_at)

lemma keeps_anchor: "keeps R (check_anchor v h n)"
  unfolding check_anchor_def by (intro basic)

lemma keeps_snapshot: "keeps R (snapshot v)"
  unfolding snapshot_def by (intro basic keeps_with_header keeps_anchor keeps_fresh_snapshot)

lemma keeps_balance: "keeps R (balance v token owner)"
  unfolding balance_def by (intro basic)

lemma keeps_wallet: "keeps R (wallet v owner)"
  unfolding wallet_def by (intro basic keeps_balance)

lemma keeps_position_words: "keeps R (position_words v i tag)"
  unfolding position_words_def by (intro basic)

lemma keeps_owned_ids: "keeps R (owned_ids v owner tag e is)"
  by (induction "is") (auto intro!: basic keeps_position_words)

lemma keeps_token_ids: "keeps R (token_ids v owner)" "keeps R (exit_token_ids v owner)"
  unfolding token_ids_def exit_token_ids_def matching_token_ids_at_def by (intro basic keeps_owned_ids)+

lemma keeps_unclaimed: "keeps R (unclaimed_at v p snap)"
  unfolding unclaimed_at_def by (intro basic)

lemma keeps_rows: "keeps R (position_rows v owner snap ids)"
  by (induction ids) (auto intro!: basic keeps_unclaimed)

lemma keeps_positions: "keeps R (positions v owner ids)" "keeps R (position_observations v owner ids snap)"
  unfolding positions_def position_observations_def by (intro basic keeps_snapshot keeps_rows)+

lemma keeps_minimum_output: "keeps R (ask_minimum_output v a b i blk e d)"
  unfolding ask_minimum_output_def ask_quote_def by (intro basic)

lemma keeps_contracts: "keeps R (contracts_exist v as)"
  by (induction as) (auto intro!: basic)

lemma keeps_word_is: "keeps R (word_is v to sig args ok msg)"
  unfolding word_is_def by (intro basic)

lemma keeps_validate: "keeps R (validate v)"
  unfolding validate_def validate_quoter_def by (intro basic keeps_contracts keeps_word_is)

lemma keeps_quote_fresh: "keeps R (quote_fresh x op)"
  unfolding quote_fresh_def by (intro basic)

lemma keeps_chain: "keeps R (check_chain x msg)"
  unfolding check_chain_def by (intro basic)

lemma keeps_simulate: "keeps R (simulate x call msg)"
  unfolding simulate_def by (intro basic)

lemma keeps_estimate: "keeps R (estimate_gas x call)"
  unfolding estimate_gas_def by (intro basic)

lemma keeps_fees: "keeps R (ask_fees x)"
  unfolding ask_fees_def Let_def by (intro basic)

lemma keeps_budget: "keeps R (check_gas_budget x gas f len)"
  unfolding check_gas_budget_def ask_extra_fee_def by (intro basic)

lemma keeps_lookup: "keeps R (lookup_hashes x hs known)"
  by (induction hs arbitrary: known) (auto intro!: basic)

lemma keeps_replacement_fees: "keeps R (replacement_fees x a)"
  unfolding replacement_fees_def Let_def by (intro basic keeps_simulate keeps_estimate keeps_fees keeps_budget)

lemmas asks = keeps_quote_fresh keeps_chain keeps_simulate keeps_estimate keeps_fees keeps_budget
  keeps_lookup keeps_replacement_fees

end

end
