(* ===== verification/V3_Tx_Props.thy ===== *)
theory V3_Tx_Props
  imports V3_Reads
begin

text \<open>
  What the executor of the Uniswap V3 venue broadcasts: at most one transaction a send, within the
  budget, to an allowed contract, recorded and its nonce reserved first; and over any run no two
  transactions with one nonce make different calls.
\<close>

section \<open>The broadcasts of a run\<close>

definition cast_tx :: "executor \<Rightarrow> json \<Rightarrow> tx option" where
  "cast_tx x e =
     (case as_str (jget e ''eth_sendRawTransaction'') of
        None \<Rightarrow> None
      | Some t \<Rightarrow> (case el_unhex (ex_lib x) (trim_0x t) of
          None \<Rightarrow> None
        | Some raw \<Rightarrow> (case xl_decode (ex_txs x) raw of Inr (tx, sg, rest) \<Rightarrow> Some tx | Inl err \<Rightarrow> None)))"

definition casts :: "executor \<Rightarrow> store \<Rightarrow> tx set" where
  "casts x s = {t. \<exists>e \<in> set (sv_sent s). cast_tx x e = Some t}"

definition call_of :: "tx \<Rightarrow> address option \<times> u256 \<times> u8 list \<times> u64" where
  "call_of t = (tx_to t, tx_value t, tx_input t, tx_gas t)"

text \<open>
  What is relied on of the libraries: hexadecimal text reads back and holds no x, and a signed
  transaction decodes to itself with nothing left over.
\<close>

definition lib_ok :: "executor \<Rightarrow> bool" where
  "lib_ok x \<longleftrightarrow> (\<forall>bs. el_unhex (ex_lib x) (el_hex (ex_lib x) bs) = Some bs \<and> CHR ''x'' \<notin> set (el_hex (ex_lib x) bs))
     \<and> (\<forall>t raw. tx_kind t = (if tx_tip t = None then Legacy else Eip1559) \<longrightarrow> xl_sign (ex_txs x) t = Inr raw
          \<longrightarrow> (\<exists>sg. xl_decode (ex_txs x) raw = Inr (t, sg, [])))"

lemma trim_no_x: "CHR ''x'' \<notin> set t \<Longrightarrow> trim_0x t = t"
  by (cases t rule: trim_0x.cases) auto

lemma trim_hex0x: "lib_ok x \<Longrightarrow> el_unhex (ex_lib x) (trim_0x (hex0x x raw)) = Some raw"
  by (simp add: hex0x_def lib_ok_def trim_no_x)

lemma sign_decode:
  assumes "lib_ok x" "sign_transaction x n g to data f = Inr raw"
  obtains sg where "xl_decode (ex_txs x) raw = Inr (build_tx x n g to data f, sg, [])"
proof -
  let ?t = "build_tx x n g to data f"
  have "tx_kind ?t = (if tx_tip ?t = None then Legacy else Eip1559)" by (simp add: build_tx_def)
  then show ?thesis using assms that unfolding lib_ok_def sign_transaction_def by metis
qed

lemma cast_signed:
  assumes "lib_ok x" "sign_transaction x n g to data f = Inr raw"
  shows "cast_tx x (cast_entry (hex0x x raw)) = Some (build_tx x n g to data f)"
proof -
  obtain sg where "xl_decode (ex_txs x) raw = Inr (build_tx x n g to data f, sg, [])" by (rule sign_decode [OF assms])
  then show ?thesis by (simp add: cast_tx_def cast_entry_def jget_def trim_hex0x [OF assms(1)])
qed

section \<open>The pending transaction\<close>

definition evm_pending :: "store \<Rightarrow> json option" where
  "evm_pending s = (case find_doc ''pending.json'' s of
     Some (Doc_json p) \<Rightarrow> if jget p ''venue'' = JStr ''evm'' then Some p else None | _ \<Rightarrow> None)"

text \<open>The recorded transaction stays as it is or is gone.\<close>

definition pend_ok :: "executor \<Rightarrow> store \<Rightarrow> store \<Rightarrow> bool" where
  "pend_ok x s s' \<longleftrightarrow> (\<forall>p'. evm_pending s' = Some p' \<longrightarrow>
     (\<exists>p. evm_pending s = Some p \<and> decode_candidate x p' = decode_candidate x p))"

interpretation pend: store_order "pend_ok x" for x
proof
  show "pend_ok x s s'" if "sv_files s' = sv_files s" for s s'
    using find_doc_files [OF that] by (simp add: pend_ok_def evm_pending_def)
  show "pend_ok x s s2" if "pend_ok x s s1" "pend_ok x s1 s2" for s s1 s2
    using that unfolding pend_ok_def by metis
qed

lemma pend_put: "n \<noteq> ''pending.json'' \<Longrightarrow> pend_ok x s (put_doc n d s)"
  by (simp add: pend_ok_def evm_pending_def)

lemma pend_clear: "pend_ok x s (put_doc ''pending.json'' (Doc_json JNull) s)"
  by (simp add: pend_ok_def evm_pending_def)

lemma pend_foreign: "jget v ''venue'' \<noteq> JStr ''evm'' \<Longrightarrow> pend_ok x s (put_doc ''pending.json'' (Doc_json v) s)"
  by (simp add: pend_ok_def evm_pending_def)

lemma pend_write: "n \<noteq> ''pending.json'' \<Longrightarrow> keeps (pend_ok x) (store_write h n d)"
  by (intro pend.keeps_write pend_put)

lemma pend_finish: "keeps (pend_ok x) (store_finish h v)"
  unfolding store_finish_def by (intro pend.basic pend.keeps_event pend.keeps_write pend_clear)

lemma pend_refresh: "keeps (pend_ok x) (nonce_refresh h m a)"
  unfolding nonce_refresh_def refreshed_state_def adopt_pending_def inspect_inflight_def
  by (intro pend.basic pend_write) simp_all

lemma pend_confirmed: "keeps (pend_ok x) (nonce_confirmed h m hash r)"
  unfolding nonce_confirmed_def check_receipt_def Let_def
  by (intro pend.basic pend_write pend.keeps_event pend_finish) simp_all

lemma pend_prepared: "keeps (pend_ok x) (nonce_prepared h m n hash)"
  unfolding nonce_prepared_def reserved_state_def
  by (intro pend.basic pend_write pend.keeps_event) simp_all

section \<open>Operations that broadcast nothing\<close>

definition calm :: "executor \<Rightarrow> store \<Rightarrow> store \<Rightarrow> bool" where
  "calm x s s' \<longleftrightarrow> same_sent s s' \<and> floor_up s s' \<and> pend_ok x s s'"

interpretation calms: store_steps "calm x" for x
proof
  show "calm x s s'" if "sv_files s' = sv_files s" "sv_sent s' = sv_sent s" for s s'
    using that by (simp add: calm_def same_sent_def up.files_only pend.files_only)
  show "calm x s s2" if "calm x s s1" "calm x s1 s2" for s s1 s2
    using that unfolding calm_def same_sent_def by (metis up.order_trans pend.order_trans)
qed

lemma calmI: "keeps same_sent m \<Longrightarrow> keeps floor_up m \<Longrightarrow> keeps (pend_ok x) m \<Longrightarrow> keeps (calm x) m"
  by (simp add: keeps_def calm_def)

lemma sent_nonces: "keeps same_sent (nonce_refresh h m a)" "keeps same_sent (nonce_confirmed h m hash r)"
    "keeps same_sent (nonce_prepared h m n hash)"
  unfolding nonce_refresh_def refreshed_state_def adopt_pending_def inspect_inflight_def nonce_confirmed_def
    check_receipt_def Let_def nonce_prepared_def reserved_state_def
  by (intro unsent.basic sent_write unsent.keeps_event sent_finish)+

lemma up_prepared: "keeps floor_up (nonce_prepared h m n hash)"
  using prepared_floor(1) by (auto simp: keeps_def floor_up_def)

lemma calm_write: "n \<noteq> ''pending.json'' \<Longrightarrow> n \<noteq> ''evm_nonce.json'' \<Longrightarrow> keeps (calm x) (store_write h n d)"
  by (intro calmI sent_write pend_write up.keeps_write up_other)

lemma calm_refresh: "keeps (calm x) (ex_refresh y)"
  unfolding ex_refresh_def [abs_def]
  by (rule calms.keeps_at_tick) (intro calmI sent_nonces up_refresh pend_refresh)

lemma calm_next: "keeps (calm x) (ex_next_nonce y)"
  unfolding ex_next_nonce_def [abs_def] nonce_next_def
  by (rule calms.keeps_at_tick) (intro calms.basic calmI sent_nonces up_refresh pend_refresh)

lemma calm_confirmed: "keeps (calm x) (nonce_confirmed h m hash r)"
  by (intro calmI sent_nonces up_confirmed pend_confirmed)

lemma calm_finish: "keeps (calm x) (store_finish h v)"
  by (intro calmI sent_finish up_finish pend_finish)

lemma calm_history: "keeps (calm x) (record_lp_history h e)"
  unfolding record_lp_history_def by (intro calms.basic calm_write) simp_all

lemma calm_record: "keeps (calm x) (record_receipt y r op)"
  unfolding record_receipt_def Let_def by (intro calms.basic calm_write calm_history) simp_all

lemma calm_settle: "keeps (calm x) (settle_receipt y op hash r)"
  unfolding settle_receipt_def receipt_status_def by (intro calms.basic calm_record calm_confirmed)

lemma calm_hashes: "keeps (calm x) (wait_hashes y op hs)"
  by (induction hs) (auto intro!: calms.basic calm_settle)

lemma calm_loop: "keeps (calm x) (wait_loop y op hs n t)"
proof (induction n arbitrary: t)
  case 0
  show ?case unfolding wait_loop.simps by (rule calms.keeps_pure)
next
  case (Suc n)
  show ?case unfolding wait_loop.simps by (intro calms.basic calm_refresh calm_hashes Suc)
qed

lemma calm_wait: "keeps (calm x) (wait_receipt y hash op)"
  unfolding wait_receipt_def by (intro calms.basic calm_loop)

lemma calm_prepare: "keeps (calm x) (prepare_send y to data op)"
  unfolding prepare_send_def by (intro calms.basic calms.asks calm_next)

section \<open>Broadcasting\<close>

lemma decode_jset:
  "jset p k v = Inr p1 \<Longrightarrow> k \<noteq> ''hash'' \<Longrightarrow> k \<noteq> ''raw_transaction'' \<Longrightarrow> decode_candidate x p1 = decode_candidate x p"
  by (simp add: decode_candidate_def jget_jset)

definition same_slot :: "store \<Rightarrow> store \<Rightarrow> bool" where
  "same_slot s s' \<longleftrightarrow> find_doc ''pending.json'' s' = find_doc ''pending.json'' s"

interpretation slots: store_order same_slot
proof
  show "same_slot s s'" if "sv_files s' = sv_files s" for s s'
    using find_doc_files [OF that] by (simp only: same_slot_def)
qed (simp add: same_slot_def)

text \<open>A failed broadcast is noted beside the recorded transaction.\<close>

definition noted :: "store \<Rightarrow> store \<Rightarrow> bool" where
  "noted s s' \<longleftrightarrow> same_slot s s' \<or> (\<exists>p v p1. find_doc ''pending.json'' s = Some (Doc_json p)
     \<and> jset p ''last_broadcast_error'' v = Inr p1 \<and> find_doc ''pending.json'' s' = Some (Doc_json p1))"

lemma noted_pend: "noted s s' \<Longrightarrow> pend_ok x s s'"
  unfolding noted_def
proof (elim disjE exE conjE)
  assume "same_slot s s'" then show ?thesis by (simp add: same_slot_def pend_ok_def evm_pending_def)
next
  fix p v p1 assume a: "find_doc ''pending.json'' s = Some (Doc_json p)" "jset p ''last_broadcast_error'' v = Inr p1"
    "find_doc ''pending.json'' s' = Some (Doc_json p1)"
  have "decode_candidate x p1 = decode_candidate x p" "jget p1 ''venue'' = jget p ''venue''"
    using decode_jset [OF a(2)] jget_jset [OF a(2), of "''venue''"] by auto
  then show ?thesis using a(1,3) by (simp add: pend_ok_def evm_pending_def)
qed

lemma record_error_noted:
  assumes run: "record_broadcast_error y hash n e s = (r, s')" shows "noted s s'"
proof (cases "rbind (store_pending s) (\<lambda>p. context_opt p ''missing broadcast intent'')")
  case (Inl err)
  then show ?thesis using run by (simp add: record_broadcast_error_def sbind_eq noted_def same_slot_def)
next
  case (Inr p)
  then have f: "find_doc ''pending.json'' s = Some (Doc_json p)" by (auto simp: store_pending_def)
  define now where "now = ho_clock (ex_host y) (sv_tick s)"
  define det where "det = JObj [(''hash'', JStr hash), (''nonce'', JNum (PosInt n)), (''time_ms'', JNum (PosInt now)),
     (''rpc_rejection'', JBool (is_rpc_error e)), (''error'', JStr (fail_text e))]"
  let ?s = "s\<lparr>sv_tick := Suc (sv_tick s)\<rparr>"
  have same: "find_doc ''pending.json'' ?s = find_doc ''pending.json'' s" by simp
  show ?thesis
  proof (cases "jset p ''last_broadcast_error'' det")
    case (Inl err)
    then have "s' = ?s" using run Inr by (auto simp: record_broadcast_error_def sbind_eq Let_def det_def now_def)
    then show ?thesis using same by (simp only: noted_def same_slot_def) blast
  next
    case j: (Inr p1)
    have w: "sbind (store_write (ex_host y) ''pending.json'' (Doc_json p1))
        (\<lambda>_. store_event (ex_host y) ''evm_broadcast_error'' det) ?s = (r, s')"
      using run Inr j by (simp add: record_broadcast_error_def sbind_eq Let_def det_def now_def)
    obtain q s1 where s1: "store_write (ex_host y) ''pending.json'' (Doc_json p1) ?s = (q, s1)" by fastforce
    have e: "same_slot s1 s'"
      using w s1 keepsD [OF slots.keeps_event] by (cases q) (auto simp: sbind_eq same_slot_def)
    have v: "p1 \<noteq> JNull" using j by (cases p) auto
    from store_write_cases [OF s1] show ?thesis
    proof
      assume "s1 = put_doc ''pending.json'' (Doc_json p1) (?s\<lparr>sv_tick := Suc (sv_tick ?s)\<rparr>)"
      then have "find_doc ''pending.json'' s1 = Some (Doc_json p1)" using v by simp
      then show ?thesis using e f j by (auto simp: noted_def same_slot_def)
    next
      assume "(\<exists>e. q = Inl e) \<and> sv_files s1 = sv_files ?s \<and> sv_log s1 = sv_log ?s"
      then have "find_doc ''pending.json'' s1 = find_doc ''pending.json'' ?s" using find_doc_files by blast
      then show ?thesis using e same by (simp add: noted_def same_slot_def)
    qed
  qed
qed

lemma pend_record_error: "keeps (pend_ok x) (record_broadcast_error y hash n e)"
  using record_error_noted noted_pend by (auto simp: keeps_def)

lemma up_record_error: "keeps floor_up (record_broadcast_error y hash n e)"
  unfolding record_broadcast_error_def Let_def
  by (intro up.basic up.keeps_write up.keeps_event up_other) simp

lemma sent_record_error: "keeps same_sent (record_broadcast_error y hash n e)"
  unfolding record_broadcast_error_def Let_def by (intro unsent.basic sent_write unsent.keeps_event)

lemmas calm_error = calmI [OF sent_record_error up_record_error pend_record_error]

text \<open>Everything after the request itself is calm.\<close>

lemma broadcastD:
  assumes "ex_broadcast y hash raw n s = (r, s')"
  shows "\<exists>s1. calm x s1 s' \<and> sv_files s1 = sv_files s \<and> sv_sent s1 = sv_sent s @ [cast_entry (hex0x y raw)]"
proof -
  let ?s1 = "s\<lparr>sv_tick := Suc (sv_tick s), sv_sent := sv_sent s @ [cast_entry (hex0x y raw)]\<rparr>"
  have run: "after_cast y hash n (nd_request (ex_node y) (sv_tick s) broadcast (JArr [JStr (hex0x y raw)])) ?s1 = (r, s')"
    using assms by (simp add: ex_broadcast_def node_cast_def sbind_eq)
  have "keeps (calm x) (after_cast y hash n v)" for v
  proof (cases v)
    case (Inl e)
    then show ?thesis by (cases e) (auto simp: after_cast_def intro!: calms.basic calm_error)
  next
    case (Inr sent)
    then show ?thesis by (auto simp: after_cast_def intro!: calms.basic)
  qed
  from keepsD [OF this run] have "calm x ?s1 s'" .
  then show ?thesis by (intro exI [of _ ?s1]) simp
qed

section \<open>The book of the broadcasts\<close>

definition sound_tx :: "executor \<Rightarrow> tx \<Rightarrow> bool" where
  "sound_tx x t \<longleftrightarrow> (\<exists>a \<in> set (allowed_targets x). tx_to t = Some a) \<and> tx_value t = 0 \<and> tx_chain t = Some (lq_chain_id (ex_cfg x))
     \<and> (\<exists>extra. f_of_word (tx_gas t) * f_of_word (tx_max_fee t) / lit 1000000000000000000 + units (el_libm (ex_lib x)) extra 18
          \<le> lq_max_gas_native (ex_cfg x) \<and> (lq_chain_id (ex_cfg x) \<noteq> ch_id base_chain \<longrightarrow> extra = 0))"

text \<open>
  Every transaction broadcast is sound, every nonce broadcast is below the floor of the wallet, broadcasts with one nonce make one call, and
  so does the recorded transaction.
\<close>

definition book :: "executor \<Rightarrow> store \<Rightarrow> bool" where
  "book x s \<longleftrightarrow> (\<forall>t \<in> casts x s. sound_tx x t) \<and> (\<forall>t \<in> casts x s. unat (tx_nonce t) < evm_floor s)
     \<and> (\<forall>t \<in> casts x s. \<forall>u \<in> casts x s. tx_nonce t = tx_nonce u \<longrightarrow> call_of t = call_of u)
     \<and> (\<forall>p o1 sg. evm_pending s = Some p \<longrightarrow> decode_candidate x p = Inr (o1, sg)
          \<longrightarrow> (\<forall>t \<in> casts x s. tx_nonce t = tx_nonce o1 \<longrightarrow> call_of t = call_of o1))"

lemma book_sound: "book x s \<Longrightarrow> t \<in> casts x s \<Longrightarrow> sound_tx x t"
  and book_below: "book x s \<Longrightarrow> t \<in> casts x s \<Longrightarrow> unat (tx_nonce t) < evm_floor s"
  and book_same: "book x s \<Longrightarrow> t \<in> casts x s \<Longrightarrow> u \<in> casts x s \<Longrightarrow> tx_nonce t = tx_nonce u \<Longrightarrow> call_of t = call_of u"
  and book_pending: "book x s \<Longrightarrow> evm_pending s = Some p \<Longrightarrow> decode_candidate x p = Inr (o1, sg) \<Longrightarrow> t \<in> casts x s
    \<Longrightarrow> tx_nonce t = tx_nonce o1 \<Longrightarrow> call_of t = call_of o1"
  unfolding book_def by metis+

lemma casts_same: "same_sent s s' \<Longrightarrow> casts x s' = casts x s"
  by (simp add: casts_def same_sent_def)

text \<open>The invariant after operations that broadcast nothing, whatever they record as pending.\<close>

lemma book_kept:
  assumes "book x s" "same_sent s s'" "floor_up s s'"
    and "\<And>p o1 sg t. evm_pending s' = Some p \<Longrightarrow> decode_candidate x p = Inr (o1, sg) \<Longrightarrow> t \<in> casts x s
      \<Longrightarrow> tx_nonce t = tx_nonce o1 \<Longrightarrow> call_of t = call_of o1"
  shows "book x s'"
  unfolding book_def casts_same [OF assms(2)]
proof (intro conjI ballI allI impI)
  show "unat (tx_nonce t) < evm_floor s'" if "t \<in> casts x s" for t
    using book_below [OF assms(1) that] assms(3) by (simp add: floor_up_def)
qed (use assms(4) book_same [OF assms(1)] book_sound [OF assms(1)] in blast)+

lemma book_calm:
  assumes "book x s" "calm x s s'" shows "book x s'"
proof (rule book_kept [OF assms(1)])
  fix p o1 sg t assume a: "evm_pending s' = Some p" "decode_candidate x p = Inr (o1, sg)" "t \<in> casts x s" "tx_nonce t = tx_nonce o1"
  obtain q where "evm_pending s = Some q" "decode_candidate x p = decode_candidate x q"
    using assms(2) a(1) unfolding calm_def pend_ok_def by blast
  then show "call_of t = call_of o1" using book_pending [OF assms(1)] a by metis
qed (use assms(2) in \<open>simp_all add: calm_def\<close>)

lemma book_cast:
  assumes "book x s" "sv_files s1 = sv_files s" "sv_sent s1 = sv_sent s @ [e]" "cast_tx x e = Some t" "sound_tx x t"
    and "unat (tx_nonce t) < evm_floor s" "\<And>u. u \<in> casts x s \<Longrightarrow> tx_nonce u = tx_nonce t \<Longrightarrow> call_of u = call_of t"
    and "\<And>p o1 sg. evm_pending s = Some p \<Longrightarrow> decode_candidate x p = Inr (o1, sg) \<Longrightarrow> tx_nonce t = tx_nonce o1 \<Longrightarrow> call_of t = call_of o1"
  shows "book x s1"
proof -
  have c: "casts x s1 = insert t (casts x s)" using assms(3,4) by (auto simp: casts_def)
  have f: "evm_floor s1 = evm_floor s" "evm_pending s1 = evm_pending s"
    using find_doc_files [OF assms(2)] by (simp_all add: evm_floor_def evm_pending_def)
  show ?thesis unfolding book_def c f
  proof (intro conjI ballI allI impI)
    fix u assume "u \<in> insert t (casts x s)"
    then show "sound_tx x u" using assms(5) book_sound [OF assms(1)] by blast
  next
    fix u assume "u \<in> insert t (casts x s)"
    then show "unat (tx_nonce u) < evm_floor s" using assms(6) book_below [OF assms(1)] by blast
  next
    fix u v assume "u \<in> insert t (casts x s)" "v \<in> insert t (casts x s)" "tx_nonce u = tx_nonce v"
    then show "call_of u = call_of v" using assms(7) book_same [OF assms(1)] by (metis insertE)
  next
    fix p o1 sg u assume "evm_pending s = Some p" "decode_candidate x p = Inr (o1, sg)" "u \<in> insert t (casts x s)" "tx_nonce u = tx_nonce o1"
    then show "call_of u = call_of o1" using assms(8) book_pending [OF assms(1)] by blast
  qed
qed

definition booked :: "executor \<Rightarrow> store \<Rightarrow> store \<Rightarrow> bool" where
  "booked x s s' \<longleftrightarrow> (book x s \<longrightarrow> book x s')"

interpretation bookings: store_steps "booked x" for x
proof
  show "booked x s s'" if "sv_files s' = sv_files s" "sv_sent s' = sv_sent s" for s s'
    using book_calm [OF _ calms.quiet [OF that]] by (simp add: booked_def)
  show "booked x s s2" if "booked x s s1" "booked x s1 s2" for s s1 s2
    using that by (simp add: booked_def)
qed

lemma booked_calm: "keeps (calm x) m \<Longrightarrow> keeps (booked x) m"
  using book_calm by (auto simp: keeps_def booked_def)

section \<open>A send\<close>

text \<open>A transaction that was prepared: its target, its cost and its nonce.\<close>

definition within_budget :: "executor \<Rightarrow> u64 \<Rightarrow> fees \<Rightarrow> bool" where
  "within_budget x gas f \<longleftrightarrow> (\<exists>extra. native_cost x gas f extra \<le> lq_max_gas_native (ex_cfg x)
     \<and> (lq_chain_id (ex_cfg x) \<noteq> ch_id base_chain \<longrightarrow> extra = 0))"

lemma sound_built: "to \<in> set (allowed_targets x) \<Longrightarrow> within_budget x g f \<Longrightarrow> sound_tx x (build_tx x n g to data f)"
  by (auto simp: sound_tx_def build_tx_def within_budget_def native_cost_def)

lemma budgetD:
  assumes "check_gas_budget x gas f len s = (Inr u, s')" shows "within_budget x gas f"
  using assms unfolding check_gas_budget_def within_budget_def
  by (elim sbind_InrE) (auto simp: slift_def split: if_splits)

lemma next_nonceD:
  assumes "ex_next_nonce x s = (Inr n, s')"
  shows "store_pending s = Inr None" "evm_floor s \<le> unat n"
proof -
  obtain st s1 where N: "store_pending (s\<lparr>sv_tick := sv_tick s + 4\<rparr>) = Inr None"
    "refreshed_state (ex_host x) (ex_nonce x) (nonce_answers x s) (s\<lparr>sv_tick := sv_tick s + 4\<rparr>) = (Inr st, s1)"
    "nonce_available st = Inr n"
    using assms unfolding ex_next_nonce_def by (rule nonce_nextD)
  show "store_pending s = Inr None" using N(1) by simp
  show "evm_floor s \<le> unat n"
    using refreshed_floor(1) [OF N(2)] availableD [OF N(3)] by (simp add: evm_floor_def word_le_nat_alt)
qed

lemma prepareD:
  assumes "prepare_send x to data op s = (Inr (n, g, f), s1)"
  shows "calm x s s1" "to \<in> set (allowed_targets x)" "within_budget x g f" "evm_floor s \<le> unat n"
proof -
  show "calm x s s1" by (rule keepsD [OF calm_prepare assms])
  obtain sc sd g1 f1 sh si where n: "ex_next_nonce x sc = (Inr n, sd)" and c: "calm x s sc" and t: "to \<in> set (allowed_targets x)"
    and b: "check_gas_budget x g f (length data) sh = (Inr (), si)"
    using assms unfolding prepare_send_def
  proof (elim sbind_InrE, goal_cases)
    case (1 u1 sa u2 sb u3 sc nn sd u4 se e sf gg sg ff sh u5 si u6 sj)
    have eq: "nn = n" "gg = g" "ff = f" "sb = sa" "to \<in> set (allowed_targets x)" using 1(3,12) by (auto simp: slift_def)
    have "calm x s sa" "calm x sb sc" using keepsD [OF calms.keeps_quote_fresh 1(2)] keepsD [OF calms.keeps_chain 1(4)] .
    then have "calm x s sc" using eq(4) calms.step_trans by blast
    with 1 eq show ?case by (intro 1(1)) auto
  qed
  show "to \<in> set (allowed_targets x)" "within_budget x g f" using t budgetD [OF b] by simp_all
  show "evm_floor s \<le> unat n" using next_nonceD(2) [OF n] c by (simp add: calm_def floor_up_def)
qed

text \<open>What the pending slot may hold after a begin.\<close>

definition slot_of :: "json \<Rightarrow> json option" where
  "slot_of v = (if jget v ''venue'' = JStr ''evm'' then Some v else None)"

definition slot_begun :: "json \<Rightarrow> store \<Rightarrow> store \<Rightarrow> bool" where
  "slot_begun v s s' \<longleftrightarrow> evm_pending s' = evm_pending s \<or> evm_pending s' = slot_of v"

interpretation begun: store_steps "slot_begun v" for v
proof
  show "slot_begun v s s'" if "sv_files s' = sv_files s" "sv_sent s' = sv_sent s" for s s'
    using find_doc_files [OF that(1)] by (simp add: slot_begun_def evm_pending_def)
qed (auto simp: slot_begun_def)

lemma slot_put: "slot_begun v s (put_doc ''pending.json'' (Doc_json v) s)"
  by (simp add: slot_begun_def evm_pending_def slot_of_def jget_def)

lemma begun_begin: "keeps (slot_begun v) (store_begin h v)"
  unfolding store_begin_def by (intro begun.basic begun.keeps_write slot_put)

lemma begin_slot: "store_begin h v s = (Inr u, s') \<Longrightarrow> jget v ''venue'' = JStr ''evm'' \<Longrightarrow> evm_pending s' = Some v"
proof -
  assume a: "store_begin h v s = (Inr u, s')" and v: "jget v ''venue'' = JStr ''evm''"
  obtain s1 s2 where w: "store_write h ''pending.json'' (Doc_json v) s1 = (Inr (), s2)"
    and e: "store_event h ''operation_begin'' (begin_event v) s2 = (Inr u, s')"
    using a unfolding store_begin_def by (elim sbind_InrE) auto
  have "v \<noteq> JNull" using v by (auto simp: jget_def)
  then have "evm_pending s2 = Some v" using store_write_ok [OF w] v by (simp add: evm_pending_def)
  moreover have "slot_begun v s2 s'" by (rule keepsD [OF begun.keeps_event e])
  ultimately show ?thesis using v by (auto simp: slot_begun_def slot_of_def)
qed

lemma pending_tx_decodes:
  assumes "lib_ok x" "sign_transaction x n g to data f = Inr raw"
    and "decode_candidate x (pending_tx x hash n now op fs raw) = Inr (o1, sg)"
  shows "o1 = build_tx x n g to data f"
proof -
  obtain sg' where "xl_decode (ex_txs x) raw = Inr (build_tx x n g to data f, sg', [])" by (rule sign_decode [OF assms(1,2)])
  then show ?thesis using assms(3)
    by (simp add: decode_candidate_def pending_tx_def jget_def trim_hex0x [OF assms(1)] split: if_splits)
qed

lemma book_begin:
  assumes B: "book x s" and b: "store_begin h v s = (r, s1)"
    and new: "\<And>o1 q u. slot_of v = Some v \<Longrightarrow> decode_candidate x v = Inr (o1, q) \<Longrightarrow> u \<in> casts x s
      \<Longrightarrow> tx_nonce u = tx_nonce o1 \<Longrightarrow> call_of u = call_of o1"
  shows "book x s1"
proof (rule book_kept [OF B keepsD [OF sent_begin b] keepsD [OF up_begin b]])
  fix p o1 q u assume a: "evm_pending s1 = Some p" "decode_candidate x p = Inr (o1, q)" "u \<in> casts x s" "tx_nonce u = tx_nonce o1"
  show "call_of u = call_of o1"
  proof (cases "evm_pending s1 = evm_pending s")
    case True
    then show ?thesis using book_pending [OF B] a by metis
  next
    case False
    then have "slot_of v = Some p" using keepsD [OF begun_begin b] a(1) by (simp add: slot_begun_def)
    then show ?thesis using new a by (auto simp: slot_of_def split: if_splits)
  qed
qed

text \<open>A record of the observer: the entry of the broadcast of a signed transaction.\<close>

abbreviation cast_of :: "executor \<Rightarrow> u8 list \<Rightarrow> json" where
  "cast_of x raw \<equiv> cast_entry (hex0x x raw)"

lemma record_and_castD:
  assumes run: "record_and_cast x op n f raw s = (r, s')"
    and L: "lib_ok x" and sg: "sign_transaction x n g to data f = Inr raw"
    and ok: "sound_tx x (build_tx x n g to data f)" and B: "book x s" and below: "\<And>u. u \<in> casts x s \<Longrightarrow> unat (tx_nonce u) < unat n"
  shows "book x s'" "sv_sent s' = sv_sent s \<or> sv_sent s' = sv_sent s @ [cast_of x raw]"
proof -
  let ?t = "build_tx x n g to data f" and ?h = "xl_hash (ex_txs x) raw"
  define now where "now = ho_clock (ex_host x) (sv_tick s)"
  let ?s0 = "s\<lparr>sv_tick := Suc (sv_tick s)\<rparr>"
  have B0: "book x ?s0" by (rule book_calm [OF B calms.quiet]) simp_all
  have "book x s' \<and> (sv_sent s' = sv_sent s \<or> sv_sent s' = sv_sent s @ [cast_of x raw])"
  proof (cases "fees_json f")
    case (Inl e)
    then have "s' = ?s0" using run by (simp add: record_and_cast_def Let_def sbind_eq)
    then show ?thesis using B0 by simp
  next
    case (Inr fs)
    define p where "p = pending_tx x ?h n now op fs raw"
    obtain b s1 where b: "store_begin (ex_host x) p ?s0 = (b, s1)" by fastforce
    have k: "same_sent ?s0 s1" using keepsD [OF sent_begin b] .
    have dp: "o1 = ?t" if "decode_candidate x p = Inr (o1, q)" for o1 q
      using pending_tx_decodes [OF L sg that [unfolded p_def]] .
    have B1: "book x s1"
    proof (rule book_begin [OF B0 b])
      fix o1 q u assume a: "decode_candidate x p = Inr (o1, q)" "u \<in> casts x ?s0" "tx_nonce u = tx_nonce o1"
      then show "call_of u = call_of o1" using below [of u] dp [OF a(1)] by (simp add: casts_def build_tx_def)
    qed
    show ?thesis
    proof (cases b)
      case (Inl e)
      then have "s' = s1" using run Inr b by (simp add: record_and_cast_def Let_def sbind_eq p_def now_def)
      then show ?thesis using B1 k by (simp add: same_sent_def)
    next
      case okb: (Inr v)
      have sl: "evm_pending s1 = Some p" by (rule begin_slot [OF b [unfolded okb]]) (simp add: p_def pending_tx_def jget_def)
      obtain c s2 where c: "nonce_prepared (ex_host x) (ex_nonce x) n ?h s1 = (c, s2)" by fastforce
      have k2: "calm x s1 s2" using keepsD [OF calmI [OF sent_nonces(3) up_prepared pend_prepared] c] .
      have B2: "book x s2" by (rule book_calm [OF B1 k2])
      have sent: "sv_sent s2 = sv_sent s" using k k2 by (simp add: calm_def same_sent_def)
      show ?thesis
      proof (cases c)
        case (Inl e)
        then have "s' = s2" using run Inr b okb c by (simp add: record_and_cast_def Let_def sbind_eq p_def now_def)
        then show ?thesis using B2 sent by simp
      next
        case okc: (Inr w)
        have fl: "unat n < evm_floor s2" by (rule prepared_floor(2) [OF c okc])
        obtain d s3 where d: "ex_broadcast x ?h raw n s2 = (d, s3)" by fastforce
        have s3: "s' = s3" using run Inr b okb c okc d
          by (cases d) (auto simp: record_and_cast_def Let_def sbind_eq p_def now_def)
        obtain s4 where s4: "calm x s4 s3" "sv_files s4 = sv_files s2" "sv_sent s4 = sv_sent s2 @ [cast_of x raw]"
          using broadcastD [OF d] by blast
        have "book x s4"
        proof (rule book_cast [OF B2 s4(2,3) cast_signed [OF L sg] ok])
          show "unat (tx_nonce ?t) < evm_floor s2" using fl by (simp add: build_tx_def)
          show "call_of u = call_of ?t" if "u \<in> casts x s2" "tx_nonce u = tx_nonce ?t" for u
            using below [of u] that by (simp add: casts_def sent build_tx_def)
          show "call_of ?t = call_of o1" if "evm_pending s2 = Some p'" "decode_candidate x p' = Inr (o1, q)" for p' o1 q
            using k2 sl dp that unfolding calm_def pend_ok_def by (metis option.inject)
        qed
        then have "book x s3" using s4(1) by (rule book_calm)
        then show ?thesis using s3 s4(1,3) sent by (simp add: calm_def same_sent_def)
      qed
    qed
  qed
  then show "book x s'" "sv_sent s' = sv_sent s \<or> sv_sent s' = sv_sent s @ [cast_of x raw]" by simp_all
qed

lemma sendD:
  assumes run: "send x to data op s = (r, s')" and L: "lib_ok x" and B: "book x s"
  shows "book x s'" "sv_sent s' = sv_sent s \<or> (\<exists>n g f raw. sv_sent s' = sv_sent s @ [cast_of x raw]
      \<and> sign_transaction x n g to data f = Inr raw \<and> to \<in> set (allowed_targets x) \<and> within_budget x g f \<and> evm_floor s \<le> unat n)"
proof -
  let ?P = "\<lambda>s'. sv_sent s' = sv_sent s \<or> (\<exists>n g f raw. sv_sent s' = sv_sent s @ [cast_of x raw]
      \<and> sign_transaction x n g to data f = Inr raw \<and> to \<in> set (allowed_targets x) \<and> within_budget x g f \<and> evm_floor s \<le> unat n)"
  obtain a s1 where a: "prepare_send x to data op s = (a, s1)" by fastforce
  have k1: "calm x s s1" by (rule keepsD [OF calm_prepare a])
  have B1: "book x s1" by (rule book_calm [OF B k1])
  have still: "?P s1" using k1 by (simp add: calm_def same_sent_def)
  have "book x s' \<and> ?P s'"
  proof (cases a)
    case (Inl e)
    then show ?thesis using run a B1 still by (simp add: send_def sbind_eq)
  next
    case (Inr ngf)
    then obtain n g f where ngf: "a = Inr (n, g, f)" by (cases ngf) auto
    note P = prepareD [OF a [unfolded ngf]]
    show ?thesis
    proof (cases "sign_transaction x n g to data f")
      case (Inl e)
      then show ?thesis using run a ngf B1 still by (simp add: send_def sbind_eq)
    next
      case sg: (Inr raw)
      obtain c s2 where c: "record_and_cast x op n f raw s1 = (c, s2)" by fastforce
      have below: "unat (tx_nonce u) < unat n" if "u \<in> casts x s1" for u
        using book_below [OF B, of u] P(4) that casts_same [of s s1 x] k1 by (simp add: calm_def)
      note R = record_and_castD [OF c L sg sound_built [OF P(2,3)] B1 below]
      have s2: "?P s2" using R(2) k1 P(2-4) sg by (auto simp: calm_def same_sent_def)
      have "calm x s2 s'" if "c = Inr h" for h
        using run a ngf sg c that keepsD [OF calm_wait] by (simp add: send_def sbind_eq)
      moreover have "s' = s2" if "c = Inl e" for e using run a ngf sg c that by (simp add: send_def sbind_eq)
      ultimately show ?thesis using R(1) s2 book_calm by (cases c) (auto simp: calm_def same_sent_def)
    qed
  qed
  then show "book x s'" "?P s'" by simp_all
qed

section \<open>A retried approval\<close>

text \<open>The recorded approval and the transaction it decodes to.\<close>

lemma stuck_approvalD:
  assumes "stuck_approval x expected s = Inr a"
  shows "evm_pending s = Some (ap_pending a)" "tx_nonce (ap_original a) = ap_nonce a"
    "call_of (ap_original a) = (Some (ap_token a), 0, ap_data a, tx_gas (ap_original a))"
    "\<exists>sg. decode_candidate x (ap_pending a) = Inr (ap_original a, sg)"
    "ap_token a \<in> {v3_base (ex_v3 x), v3_quote (ex_v3 x)}"
    "\<exists>spender \<in> {v3_manager (ex_v3 x), v3_router (ex_v3 x)}. \<exists>amount. ap_data a = xl_abi (ex_txs x) (Approve spender amount)"
proof -
  obtain p token spender amount first nonce signer hs latest where P: "store_pending s = Inr (Some p)" "jget p ''venue'' = JStr ''evm''"
    "token \<in> {v3_base (ex_v3 x), v3_quote (ex_v3 x)}" "spender \<in> {v3_manager (ex_v3 x), v3_router (ex_v3 x)}"
    "decode_candidate x p = Inr (first, signer)"
    "valid_approval x nonce first token (xl_abi (ex_txs x) (Approve spender amount)) (first, signer) = Inr ()"
    "a = \<lparr>ap_pending = p, ap_op = jget p ''operation'', ap_token = token, ap_data = xl_abi (ex_txs x) (Approve spender amount),
       ap_nonce = nonce, ap_original = first, ap_latest = latest, ap_hashes = hs\<rparr>"
    using assms unfolding stuck_approval_def Let_def
    by (clarsimp simp del: insert_iff)
  have f: "find_doc ''pending.json'' s = Some (Doc_json p)" using P(1) by (simp add: store_pending_def)
  show "evm_pending s = Some (ap_pending a)" using f P(2,7) by (simp add: evm_pending_def)
  show "tx_nonce (ap_original a) = ap_nonce a"
    "call_of (ap_original a) = (Some (ap_token a), 0, ap_data a, tx_gas (ap_original a))"
    using P(6,7) by (simp_all add: valid_approval_def call_of_def)
  show "\<exists>sg. decode_candidate x (ap_pending a) = Inr (ap_original a, sg)" using P(5,7) by simp
  show "ap_token a \<in> {v3_base (ex_v3 x), v3_quote (ex_v3 x)}" using P(3,7) by simp
  show "\<exists>spender \<in> {v3_manager (ex_v3 x), v3_router (ex_v3 x)}. \<exists>amount. ap_data a = xl_abi (ex_txs x) (Approve spender amount)"
    using P(4,7) by auto
qed

lemma check_reservationD: "check_reservation a known st = Inr u \<Longrightarrow> unat (ns_next_floor st) = Suc (unat (ap_nonce a))"
  by (auto simp: check_reservation_def dest!: checked_add_Some)

lemma ex_refresh_floor:
  assumes "ex_refresh x s = (Inr st, s')" shows "evm_floor s' = unat (ns_next_floor st)"
proof -
  let ?s = "s\<lparr>sv_tick := sv_tick s + 4\<rparr>"
  obtain s1 where r: "refreshed_state (ex_host x) (ex_nonce x) (nonce_answers x s) ?s = (Inr st, s1)"
    and w: "store_write (ex_host x) ''evm_nonce.json'' (Doc_nonce st) s1 = (Inr (), s')"
    using assms unfolding ex_refresh_def nonce_refresh_def by (elim sbind_InrE) auto
  have "evm_floor s1 = evm_floor ?s" by (rule pure_floor [OF pure_refreshed r])
  then show ?thesis using write_nonce_floor(2) [OF w] refreshed_floor(1) [OF r] by simp
qed

lemma replacement_budget:
  "replacement_fees x a s = (Inr f, s') \<Longrightarrow> within_budget x (tx_gas (ap_original a)) f"
  unfolding replacement_fees_def Let_def by (elim sbind_InrE) (auto simp: slift_def dest: budgetD)

text \<open>The replacement is recorded beside the first transaction before it is sent.\<close>

lemma add_replacementD:
  assumes "add_replacement p v = Inr p1"
  shows "decode_candidate x p1 = decode_candidate x p" "jget p1 ''venue'' = jget p ''venue''"
  using assms by (auto simp: add_replacement_def dest: decode_jset simp: jget_jset)

lemma pend_replaced:
  assumes "store_write h ''pending.json'' (Doc_json p1) s = (r, s')" "jget p1 ''venue'' = JStr ''evm''"
    and "evm_pending s = Some q" "decode_candidate x p1 = decode_candidate x q"
  shows "pend_ok x s s'"
proof -
  have v: "p1 \<noteq> JNull" using assms(2) by (auto simp: jget_def)
  from store_write_cases [OF assms(1)] show ?thesis
  proof
    assume "s' = put_doc ''pending.json'' (Doc_json p1) (s\<lparr>sv_tick := Suc (sv_tick s)\<rparr>)"
    then have "evm_pending s' = Some p1" using v assms(2) by (simp add: evm_pending_def)
    then show ?thesis using assms(3,4) by (simp add: pend_ok_def)
  qed (simp add: pend.files_only)
qed

lemma record_replacement_calm:
  assumes p: "evm_pending s = Some q" "decode_candidate x q = decode_candidate x (ap_pending a)" "jget (ap_pending a) ''venue'' = JStr ''evm''"
    and run: "record_replacement x expected a f raw s = (r, s')"
  shows "calm x s s'"
proof -
  have R: "keeps floor_up (record_replacement x expected a f raw)" "keeps same_sent (record_replacement x expected a f raw)"
    unfolding record_replacement_def Let_def
    by (intro up.basic up.keeps_write up_other unsent.basic sent_write; simp)+
  have "pend_ok x s s'"
    using run unfolding record_replacement_def Let_def
  proof (elim sbind_cases, goal_cases)
    case (5 u s1 now s2 fs s3 p1 s4 e)
    have eq: "s4 = s\<lparr>sv_tick := Suc (sv_tick s)\<rparr>" using 5 by (auto simp: slift_def)
    then have "evm_pending s4 = Some q" using p(1) by (simp add: evm_pending_def)
    then have "pend_ok x s4 s'" using pend_replaced [OF 5(5)] add_replacementD 5 p by (auto simp: slift_def)
    then show ?case using eq by (metis pend.files_only pend.order_trans store.select_convs(3) store.surjective store.update_convs(8))
  next
    case (6 u s1 now s2 fs s3 p1 s4 v s5)
    have eq: "s4 = s\<lparr>sv_tick := Suc (sv_tick s)\<rparr>" using 6 by (auto simp: slift_def)
    then have "evm_pending s4 = Some q" using p(1) by (simp add: evm_pending_def)
    then have "pend_ok x s4 s5" using pend_replaced [OF 6(5)] add_replacementD 6 p by (auto simp: slift_def)
    moreover have "pend_ok x s5 s'" by (rule keepsD [OF pend.keeps_event 6(6)])
    moreover have "pend_ok x s s4" using eq by (intro pend.files_only) simp
    ultimately show ?case using pend.order_trans by metis
  qed (auto simp: slift_def intro!: pend.files_only)
  then show ?thesis using keepsD [OF R(1) run] keepsD [OF R(2) run] by (simp add: calm_def)
qed

lemma cast_replacementD:
  assumes run: "cast_replacement x expected a f raw s = (r, s')"
    and L: "lib_ok x" and sg: "sign_transaction x n g to data f = Inr raw" and ok: "sound_tx x (build_tx x n g to data f)" and B: "book x s"
    and p: "evm_pending s = Some q" "decode_candidate x q = decode_candidate x (ap_pending a)" "jget (ap_pending a) ''venue'' = JStr ''evm''"
    and o: "decode_candidate x (ap_pending a) = Inr (o1, w)" "tx_nonce o1 = n" "call_of o1 = call_of (build_tx x n g to data f)"
    and fl: "unat n < evm_floor s"
  shows "book x s'" "sv_sent s' = sv_sent s \<or> sv_sent s' = sv_sent s @ [cast_of x raw]"
proof -
  let ?t = "build_tx x n g to data f"
  obtain b s1 where b: "record_replacement x expected a f raw s = (b, s1)" by fastforce
  have k: "calm x s s1" by (rule record_replacement_calm [OF p b])
  have B1: "book x s1" by (rule book_calm [OF B k])
  have fl1: "unat n < evm_floor s1" using fl k by (simp add: calm_def floor_up_def)
  have "book x s' \<and> (sv_sent s' = sv_sent s \<or> sv_sent s' = sv_sent s @ [cast_of x raw])"
  proof (cases b)
    case (Inl e)
    then show ?thesis using run b B1 k by (simp add: cast_replacement_def sbind_eq calm_def same_sent_def)
  next
    case (Inr u)
    then have "ex_broadcast x (xl_hash (ex_txs x) raw) raw (ap_nonce a) s1 = (r, s')"
      using run b by (simp add: cast_replacement_def sbind_eq)
    then obtain s4 where s4: "calm x s4 s'" "sv_files s4 = sv_files s1" "sv_sent s4 = sv_sent s1 @ [cast_of x raw]"
      using broadcastD by blast
    have "book x s4"
    proof (rule book_cast [OF B1 s4(2,3) cast_signed [OF L sg] ok])
      show "unat (tx_nonce ?t) < evm_floor s1" using fl1 by (simp add: build_tx_def)
      show "call_of u = call_of ?t" if "u \<in> casts x s1" "tx_nonce u = tx_nonce ?t" for u
        using book_pending [OF B p(1)] that o p(2) casts_same [of s s1 x] k by (simp add: calm_def build_tx_def)
      show "call_of ?t = call_of o2" if "evm_pending s1 = Some p'" "decode_candidate x p' = Inr (o2, w')" for p' o2 w'
        using k p(1,2) o(1,3) that unfolding calm_def pend_ok_def by (metis Inr_inject option.inject prod.inject)
    qed
    then show ?thesis using book_calm [OF _ s4(1)] s4(1,3) k by (simp add: calm_def same_sent_def)
  qed
  then show "book x s'" "sv_sent s' = sv_sent s \<or> sv_sent s' = sv_sent s @ [cast_of x raw]" by simp_all
qed

text \<open>What a step may broadcast: nothing, or one transaction of the owner to an allowed contract within the budget.\<close>

definition sound_cast :: "executor \<Rightarrow> u8 list \<Rightarrow> bool" where
  "sound_cast x raw \<longleftrightarrow> (\<exists>n g to data f. sign_transaction x n g to data f = Inr raw \<and> to \<in> set (allowed_targets x) \<and> within_budget x g f)"

definition one_cast :: "executor \<Rightarrow> store \<Rightarrow> store \<Rightarrow> bool" where
  "one_cast x s s' \<longleftrightarrow> sv_sent s' = sv_sent s \<or> (\<exists>raw. sound_cast x raw \<and> sv_sent s' = sv_sent s @ [cast_of x raw])"

lemma docs_refresh: "keeps (same_docs {''evm_nonce.json''}) (ex_refresh x)"
  unfolding ex_refresh_def [abs_def] nonce_refresh_def refreshed_state_def adopt_pending_def inspect_inflight_def
  by (rule docs.keeps_at_tick) (intro docs.basic docs_write; simp)

lemma docs_pending: "same_docs {''evm_nonce.json''} s s' \<Longrightarrow> evm_pending s' = evm_pending s"
  by (simp add: same_docs_def evm_pending_def)

lemma retry_core:
  assumes L: "lib_ok x" and B: "book x s" and k: "calm x s s1" and d: "same_docs {''evm_nonce.json''} s s1"
    and a: "stuck_approval x expected s = Inr a"
    and st: "ex_refresh x s1 = (Inr st, s2)" "check_reservation a known st = Inr v"
    and f: "replacement_fees x a s2 = (Inr f, s3)"
    and sg: "sign_transaction x (ap_nonce a) (tx_gas (ap_original a)) (ap_token a) (ap_data a) f = Inr raw"
    and c: "cast_replacement x expected a f raw s3 = (r, s')"
  shows "book x s'" "one_cast x s s'"
proof -
  note A = stuck_approvalD [OF a]
  have k3: "calm x s s3" using k keepsD [OF calm_refresh st(1)] keepsD [OF calms.keeps_replacement_fees f]
    calms.step_trans by blast
  have tgt: "ap_token a \<in> set (allowed_targets x)" using A(5) by (auto simp: allowed_targets_def)
  have d3: "evm_pending s3 = Some (ap_pending a)"
    using docs_pending [OF d] docs_pending [OF keepsD [OF docs_refresh st(1)]]
      docs_pending [OF keepsD [OF docs.keeps_replacement_fees f]] A(1) by simp
  have fl: "unat (ap_nonce a) < evm_floor s3"
    using ex_refresh_floor [OF st(1)] check_reservationD [OF st(2)] keepsD [OF up.keeps_replacement_fees f]
    by (simp add: floor_up_def)
  obtain w where w: "decode_candidate x (ap_pending a) = Inr (ap_original a, w)" using A(4) by blast
  have v: "jget (ap_pending a) ''venue'' = JStr ''evm''" using A(1) by (auto simp: evm_pending_def split: option.splits doc.splits if_splits)
  have eq: "call_of (ap_original a) = call_of (build_tx x (ap_nonce a) (tx_gas (ap_original a)) (ap_token a) (ap_data a) f)"
    by (subst A(3)) (simp add: call_of_def build_tx_def)
  note R = cast_replacementD [OF c L sg sound_built [OF tgt replacement_budget [OF f]] book_calm [OF B k3] d3 refl v w A(2) eq fl]
  show "book x s'" by (rule R(1))
  have "sound_cast x raw" unfolding sound_cast_def
    using sg tgt replacement_budget [OF f] by blast
  then show "one_cast x s s'" using R(2) k3 by (auto simp: one_cast_def calm_def same_sent_def)
qed

lemma one_cast_calm: "one_cast x s s1 \<Longrightarrow> calm x s1 s2 \<Longrightarrow> one_cast x s s2"
  "calm x s s1 \<Longrightarrow> one_cast x s s1"
  by (auto simp: one_cast_def calm_def same_sent_def)

lemma replaceD:
  assumes run: "replace_approval x expected a known s1 = (r, s')" and L: "lib_ok x" and B: "book x s"
    and k: "calm x s s1" and d: "same_docs {''evm_nonce.json''} s s1" and a: "stuck_approval x expected s = Inr a"
  shows "book x s' \<and> one_cast x s s'"
proof -
  have calm: "book x s' \<and> one_cast x s s'" if "calm x s s'" using book_calm [OF B that] one_cast_calm(2) [OF that] by simp
  show ?thesis
    using run unfolding replace_approval_def
  proof (cases rule: sbind_cases)
    case (err e)
    then show ?thesis using calm calms.step_trans [OF k keepsD [OF calm_refresh]] by blast
  next
    case r: (ok st s2)
    have k2: "calm x s s2" by (rule calms.step_trans [OF k keepsD [OF calm_refresh r(1)]])
    from r(2) show ?thesis
    proof (cases rule: sbind_cases)
      case (err e)
      then show ?thesis using calm k2 by simp
    next
      case cr: (ok v s2')
      then have c2: "s2' = s2" "check_reservation a known st = Inr v" by simp_all
      from cr(2) show ?thesis
      proof (cases rule: sbind_cases)
        case (err e)
        then show ?thesis using calm calms.step_trans [OF k2 keepsD [OF calms.keeps_replacement_fees]] c2(1) by blast
      next
        case f: (ok f s3)
        have k3: "calm x s s3" using calms.step_trans [OF k2 keepsD [OF calms.keeps_replacement_fees]] f(1) c2(1) by blast
        from f(2) show ?thesis
        proof (cases rule: sbind_cases)
          case (err e)
          then show ?thesis using calm k3 by simp
        next
          case sg: (ok raw s3')
          then have s3: "s3' = s3" "sign_transaction x (ap_nonce a) (tx_gas (ap_original a)) (ap_token a) (ap_data a) f = Inr raw"
            by simp_all
          note core = retry_core [OF L B k d a r(1) c2(2) f(1) [unfolded c2(1)] s3(2)]
          from sg(2) show ?thesis
          proof (cases rule: sbind_cases)
            case (err e)
            then show ?thesis using core s3(1) by simp
          next
            case (ok u s4)
            then show ?thesis using core s3(1) keepsD [OF calm_wait] book_calm one_cast_calm(1) by metis
          qed
        qed
      qed
    qed
  qed
qed

lemma retryD:
  assumes run: "retry_approval x expected s = (r, s')" and L: "lib_ok x" and B: "book x s"
  shows "book x s' \<and> one_cast x s s'"
proof -
  have calm: "book x s' \<and> one_cast x s s'" if "calm x s s'" using book_calm [OF B that] one_cast_calm(2) [OF that] by simp
  show ?thesis
    using run unfolding retry_approval_def
  proof (cases rule: sbind_cases)
    case (err e)
    then show ?thesis using calm calms.quiet [of s s] by simp
  next
    case a: (ok a s0)
    then have a1: "s0 = s" "stuck_approval x expected s = Inr a" by auto
    define ask where "ask = sbind (check_chain x ''recovery chain mismatch'') (\<lambda>_. lookup_hashes x (ap_hashes a) False)"
    have ks: "keeps (calm x) ask" "keeps (same_docs {''evm_nonce.json''}) ask"
      unfolding ask_def by (intro calms.basic calms.keeps_chain calms.keeps_lookup docs.basic docs.keeps_chain docs.keeps_lookup)+
    have "sbind ask (\<lambda>found. case found of None \<Rightarrow> wait_receipt x expected (ap_op a)
        | Some known \<Rightarrow> replace_approval x expected a known) s = (r, s')"
      using a(2) a1(1) by (auto simp: ask_def sbind_def split: prod.splits sum.splits)
    then show ?thesis
    proof (cases rule: sbind_cases)
      case (err e)
      then show ?thesis using calm keepsD [OF ks(1)] by blast
    next
      case (ok found s1)
      note k = keepsD [OF ks(1) ok(1)] keepsD [OF ks(2) ok(1)]
      show ?thesis
      proof (cases found)
        case None
        then show ?thesis using ok(2) calm calms.step_trans [OF k(1) keepsD [OF calm_wait]] by simp
      next
        case (Some kn)
        then show ?thesis using replaceD [OF _ L B k a1(2)] ok(2) by simp
      qed
    qed
  qed
qed

section \<open>Every operation keeps the book\<close>

lemma booked_send: "lib_ok x \<Longrightarrow> keeps (booked x) (send x to data op)"
  using sendD(1) by (auto simp: keeps_def booked_def)

lemma booked_retry: "lib_ok x \<Longrightarrow> keeps (booked x) (retry_approval x expected)"
  using retryD by (auto simp: keeps_def booked_def)

lemma booked_begin: "slot_of v = None \<Longrightarrow> keeps (booked x) (store_begin h v)"
  using book_begin by (fastforce simp: keeps_def booked_def)

text \<open>What one send may broadcast.\<close>

lemma send_one_cast:
  assumes "send x to data op s = (r, s')" "lib_ok x" "book x s" shows "one_cast x s s'"
  using sendD(2) [OF assms] unfolding one_cast_def sound_cast_def by blast

end
