(* ===== verification/V3_Run_Props.thy ===== *)
theory V3_Run_Props
  imports V3_Executor V3_Tx_Props Nonce_Book
begin

text \<open>
  Runs of the executor: every operation of \<open>V3_Executor\<close> keeps the book of the broadcasts, so a
  nonce never carries two different calls; what a send has recorded before it broadcasts; and what
  a returned receipt proves.
\<close>

section \<open>The operations of the executor\<close>

lemma booked_send_approval: "lib_ok x \<Longrightarrow> keeps (booked x) (send_approval x k t sp am)"
  unfolding send_approval_def by (intro bookings.basic booked_send)

lemma booked_approve: "lib_ok x \<Longrightarrow> keeps (booked x) (approve x t sp am)"
  unfolding approve_def by (intro bookings.basic booked_send_approval)

lemma booked_approve_both: "lib_ok x \<Longrightarrow> keeps (booked x) (approve_both x rb rq)"
  unfolding approve_both_def by (intro bookings.basic booked_approve)

lemma booked_balances: "keeps (booked x) (ex_balance y t)" "keeps (booked x) (fit_to_wallet y rb rq)"
    "keeps (booked x) (funded_liquidity_amounts y rb rq)" "keeps (booked x) (wallet_covers y rb rq)"
  unfolding fit_to_wallet_def funded_liquidity_amounts_def wallet_covers_def ex_balance_def
  by (intro bookings.basic bookings.keeps_balance)+

lemma booked_reads: "keeps (booked x) (position_range y i blk)" "keeps (booked x) (refreshed_entry_snapshot y snap)"
    "keeps (booked x) (tx_deadline y)"
  unfolding position_range_def refreshed_entry_snapshot_def tx_deadline_def
  by (intro bookings.basic bookings.keeps_position_words bookings.keeps_execution_snapshot)+

lemmas booked_parts = booked_balances booked_reads bookings.keeps_execution_snapshot bookings.keeps_fresh_snapshot
  bookings.keeps_minimum_output

lemma booked_increase: "lib_ok x \<Longrightarrow> keeps (booked x) (increase x pos value)"
  unfolding increase_def by (intro bookings.basic booked_parts booked_approve_both booked_send)

lemma booked_mint_plan: "lib_ok x \<Longrightarrow> keeps (booked x) (mint_plan x layer value width bounded)"
  unfolding mint_plan_def by (intro bookings.basic booked_parts booked_approve_both booked_send)

lemma booked_remove: "lib_ok x \<Longrightarrow> keeps (booked x) (remove_lp x pos)" "lib_ok x \<Longrightarrow> keeps (booked x) (collect x i)"
  unfolding remove_lp_def removal_calls_def collect_def by (intro bookings.basic booked_parts booked_send; simp)+

lemma booked_swap_exact: "lib_ok x \<Longrightarrow> keeps (booked x) (swap_exact x sell snap w inp)"
  unfolding swap_exact_def by (intro bookings.basic booked_parts booked_approve booked_send)

lemma booked_swap: "lib_ok x \<Longrightarrow> keeps (booked x) (swap_amount x sell am)"
  unfolding swap_amount_def Let_def exit_remainder_def
  by (intro bookings.basic bookings.keeps_event booked_parts booked_swap_exact)

lemma booked_inventory: "keeps (booked x) (verify_inventory y)"
  unfolding verify_inventory_def Let_def
  by (intro bookings.basic bookings.keeps_token_ids booked_calm [OF calm_write]) simp_all

lemma booked_positions: "keeps (booked x) (current_positions y)"
  unfolding current_positions_def by (intro bookings.basic bookings.keeps_positions)

datatype ex_op =
    X_send address "u8 list" json
  | X_mint string f64 f64 "(f64 \<times> f64) option"
  | X_increase lp_position f64
  | X_remove lp_position
  | X_collect string
  | X_swap bool "f64 option"
  | X_approve address address u256
  | X_retry string
  | X_wait string json
  | X_inventory
  | X_refresh
  | X_begin json
  | X_finish json
  | X_document string doc

fun quiet_op :: "ex_op \<Rightarrow> bool" where
  "quiet_op (X_begin v) \<longleftrightarrow> jget v ''venue'' \<noteq> JStr ''evm''"
| "quiet_op (X_document n d) \<longleftrightarrow> n \<notin> {''pending.json'', ''evm_nonce.json''}"
| "quiet_op _ \<longleftrightarrow> True"

text \<open>One operation; its result is whether it succeeded. The last three are those of the other parts of the program.\<close>

definition ran :: "'a res \<times> store \<Rightarrow> bool \<times> store" where
  "ran p = (case fst p of Inr v \<Rightarrow> True | Inl e \<Rightarrow> False, snd p)"

fun ex_step :: "executor \<Rightarrow> ex_op \<Rightarrow> store \<Rightarrow> bool \<times> store" where
  "ex_step x (X_send to data op) s = ran (send x to data op s)"
| "ex_step x (X_mint layer value width bounded) s = ran (mint_plan x layer value width bounded s)"
| "ex_step x (X_increase pos value) s = ran (increase x pos value s)"
| "ex_step x (X_remove pos) s = ran (remove_lp x pos s)"
| "ex_step x (X_collect i) s = ran (collect x i s)"
| "ex_step x (X_swap sell am) s = ran (swap_amount x sell am s)"
| "ex_step x (X_approve t sp am) s = ran (approve x t sp am s)"
| "ex_step x (X_retry expected) s = ran (retry_approval x expected s)"
| "ex_step x (X_wait hash op) s = ran (wait_receipt x hash op s)"
| "ex_step x X_inventory s = ran (verify_inventory x s)"
| "ex_step x X_refresh s = ran (ex_refresh x s)"
| "ex_step x (X_begin v) s = ran (store_begin (ex_host x) v s)"
| "ex_step x (X_finish v) s = ran (store_finish (ex_host x) v s)"
| "ex_step x (X_document n d) s = ran (store_write (ex_host x) n d s)"

lemma ran_keeps: "keeps R m \<Longrightarrow> ran (m s) = (b, s') \<Longrightarrow> R s s'"
  by (auto simp: ran_def keeps_def prod_eq_iff)

lemma ex_step_booked:
  assumes L: "lib_ok x" and q: "quiet_op a" and st: "ex_step x a s = (b, s')"
  shows "booked x s s'"
proof (cases a)
  case (X_begin v)
  then show ?thesis using q st ran_keeps [OF booked_begin] by (simp add: slot_of_def)
next
  case (X_document n d)
  then show ?thesis using q st ran_keeps [OF booked_calm [OF calm_write [of n x]]] by simp
qed (use st ran_keeps booked_send [OF L] booked_mint_plan [OF L] booked_increase [OF L] booked_remove [OF L] booked_swap [OF L]
    booked_approve [OF L] booked_retry [OF L] booked_calm [OF calm_wait] booked_inventory booked_calm [OF calm_refresh]
    booked_calm [OF calm_finish] in \<open>metis ex_step.simps\<close>)+

lemma run_booked:
  assumes L: "lib_ok x" and q: "list_all quiet_op ops" and run: "run_ops (ex_step x) ops s = (bs, s')"
  shows "booked x s s'"
  using q run
proof (induction ops arbitrary: s bs)
  case Nil
  then show ?case using bookings.quiet by simp
next
  case (Cons a ops)
  obtain b s1 bs1 where st: "ex_step x a s = (b, s1)" "run_ops (ex_step x) ops s1 = (bs1, s')"
    using Cons.prems(2) by (auto split: prod.splits)
  have "booked x s s1" using ex_step_booked [OF L _ st(1)] Cons.prems(1) by simp
  moreover have "booked x s1 s'" using Cons.IH [OF _ st(2)] Cons.prems(1) by simp
  ultimately show ?case by (rule bookings.step_trans)
qed

lemma book_fresh: "sv_sent s = [] \<Longrightarrow> book x s"
  by (simp add: book_def casts_def)

text \<open>
  C5: What a run may broadcast: only transactions of the configured chain to the position manager, the
  router or one of the two tokens, without value, whose gas at the full fee costs at most the configured
  budget (on Base with the extra fee included), and whose nonce the wallet's durable state already
  reserves.
\<close>

theorem tx_within_budget:
  assumes "lib_ok x" "list_all quiet_op ops" "run_ops (ex_step x) ops s = (bs, s')" "sv_sent s = []"
    and "e \<in> set (sv_sent s')" "cast_tx x e = Some t"
  shows "(\<exists>a \<in> set (allowed_targets x). tx_to t = Some a) \<and> tx_value t = 0 \<and> tx_chain t = Some (lq_chain_id (ex_cfg x))
    \<and> (\<exists>extra. f_of_word (tx_gas t) * f_of_word (tx_max_fee t) / lit 1000000000000000000 + units (el_libm (ex_lib x)) extra 18
          \<le> lq_max_gas_native (ex_cfg x) \<and> (lq_chain_id (ex_cfg x) \<noteq> ch_id base_chain \<longrightarrow> extra = 0))
    \<and> unat (tx_nonce t) < evm_floor s'"
proof -
  have B: "book x s'" using run_booked [OF assms(1-3)] book_fresh [OF assms(4)] by (simp add: booked_def)
  have t: "t \<in> casts x s'" using assms(5,6) by (auto simp: casts_def)
  then show ?thesis using book_sound [OF B t] book_below [OF B t] by (auto simp: sound_tx_def)
qed

text \<open>
  C1: No nonce of the wallet ever carries two different calls: over any run of the executor (sends,
  mints, increases, removals, swaps, approvals, fee replacements, waits for receipts, refreshes)
  mixed with the other parts of the program, whatever the node answers and whichever file
  operation fails, two broadcast transactions with one nonce have the same target, value, input
  and gas limit, and so a retry can only change the fee.
\<close>

theorem tx_nonce_one_call:
  assumes "lib_ok x" "list_all quiet_op ops" "run_ops (ex_step x) ops s = (bs, s')" "sv_sent s = []"
    and "e1 \<in> set (sv_sent s')" "e2 \<in> set (sv_sent s')" "cast_tx x e1 = Some t1" "cast_tx x e2 = Some t2"
    and "tx_nonce t1 = tx_nonce t2"
  shows "tx_to t1 = tx_to t2 \<and> tx_value t1 = tx_value t2 \<and> tx_input t1 = tx_input t2 \<and> tx_gas t1 = tx_gas t2"
proof -
  have "book x s'" using run_booked [OF assms(1-3)] book_fresh [OF assms(4)] by (simp add: booked_def)
  moreover have "t1 \<in> casts x s'" "t2 \<in> casts x s'" using assms(5-8) by (auto simp: casts_def)
  ultimately have "call_of t1 = call_of t2" using book_same assms(9) by blast
  then show ?thesis by (simp add: call_of_def)
qed

end
