(* ===== verification/V3_Receipt_Props.thy ===== *)
theory V3_Receipt_Props
  imports V3_Tx_Props
begin

text \<open>
  What a returned receipt proves, and that a broadcast transaction stays recorded until such a receipt
  was seen.
\<close>

section \<open>Final receipts\<close>

text \<open>
  The node gave the receipt for the hash, its block has the configured number of blocks on top of it by the
  node's count, and the block at that height is the one the receipt names.
\<close>

definition final_receipt :: "executor \<Rightarrow> string \<Rightarrow> json \<Rightarrow> bool" where
  "final_receipt x hash r \<longleftrightarrow>
     (\<exists>t. nd_request (ex_node x) t ''eth_getTransactionReceipt'' (JArr [JStr hash]) = Inr r) \<and> \<not> is_null r
     \<and> (\<exists>h. as_str (jget r ''transactionHash'') = Some h \<and> eq_ignore_case h hash)
     \<and> (\<exists>t block n. hex_u64 (jget r ''blockNumber'') = Inr block
          \<and> block_number (node_res (nd_request (ex_node x) t ''eth_blockNumber'' (JArr []))) = Inr n
          \<and> block + lq_confirmations (ex_cfg x) \<le> n)
     \<and> (\<exists>t c. nd_request (ex_node x) t ''eth_getBlockByNumber'' (JArr [jget r ''blockNumber'', JBool False]) = Inr c
          \<and> json_eq (jget c ''hash'') (jget r ''blockHash''))"

lemma node_askD: "node_ask nd meth params s = (Inr v, s') \<Longrightarrow> \<exists>t. nd_request nd t meth params = Inr v"
  by (auto simp: node_ask_def node_raw_def node_res_def sbind_eq map_sum_def split: sum.splits)

lemma ask_numberD: "ask_number v s = (Inr n, s') \<Longrightarrow> \<exists>t. block_number (node_res (nd_request (v3_node v) t ''eth_blockNumber'' (JArr []))) = Inr n"
  by (auto simp: ask_number_def node_raw_def sbind_eq)

lemma slot_write: "n \<noteq> ''pending.json'' \<Longrightarrow> keeps same_slot (store_write h n d)"
  by (rule slots.keeps_write) (simp add: same_slot_def)

lemma slot_refresh: "keeps same_slot (ex_refresh x)"
  unfolding ex_refresh_def [abs_def] nonce_refresh_def refreshed_state_def adopt_pending_def inspect_inflight_def
  by (rule slots.keeps_at_tick) (intro slots.basic slot_write; simp)

lemma slot_prepared: "keeps same_slot (nonce_prepared h m n hash)"
  unfolding nonce_prepared_def reserved_state_def by (intro slots.basic slot_write; simp)

lemma slot_record: "keeps same_slot (record_receipt x r op)"
  unfolding record_receipt_def record_lp_history_def Let_def by (intro slots.basic slot_write; simp)

text \<open>The slot is only emptied on a final receipt for one of the hashes.\<close>

definition slot_held :: "executor \<Rightarrow> string list \<Rightarrow> store \<Rightarrow> store \<Rightarrow> bool" where
  "slot_held x hs s s' \<longleftrightarrow> same_slot s s' \<or> (\<exists>h \<in> set hs. \<exists>r. final_receipt x h r)"

interpretation held_slot: store_steps "slot_held x hs" for x hs
proof
  show "slot_held x hs s s'" if "sv_files s' = sv_files s" "sv_sent s' = sv_sent s" for s s'
    using slots.files_only [OF that(1)] by (simp add: slot_held_def)
  show "slot_held x hs s s2" if "slot_held x hs s s1" "slot_held x hs s1 s2" for s s1 s2
    using that slots.order_trans unfolding slot_held_def by blast
qed

lemma held_same: "keeps same_slot m \<Longrightarrow> keeps (slot_held x hs) m"
  by (auto simp: keeps_def slot_held_def)

text \<open>The steps of a settlement before anything is recorded, and what its outcome proves.\<close>

lemma status_slot: "keeps same_slot (receipt_status x h r)"
  unfolding receipt_status_def by (intro slots.basic)

lemma status_final:
  assumes run: "receipt_status x h r s = (Inr (Some status), s')"
    and ans: "nd_request (ex_node x) t ''eth_getTransactionReceipt'' (JArr [JStr h]) = Inr r" "\<not> is_null r"
  shows "final_receipt x h r" "hex_u64 (jget r ''status'') = Inr status"
proof -
  obtain block n canonical s1 s2 s3 s4 where c: "case as_str (jget r ''transactionHash'') of Some y \<Rightarrow> eq_ignore_case y h | None \<Rightarrow> False"
    "hex_u64 (jget r ''blockNumber'') = Inr block" "ask_number (ex_v3 x) s1 = (Inr n, s2)" "\<not> n < block + lq_confirmations (ex_cfg x)"
    "node_ask (ex_node x) ''eth_getBlockByNumber'' (JArr [jget r ''blockNumber'', JBool False]) s3 = (Inr canonical, s4)"
    "json_eq (jget canonical ''hash'') (jget r ''blockHash'')" "hex_u64 (jget r ''status'') = Inr status"
    using run unfolding receipt_status_def by (auto elim!: sbind_InrE split: if_splits)
  show "hex_u64 (jget r ''status'') = Inr status" by (rule c(7))
  have "\<exists>y. as_str (jget r ''transactionHash'') = Some y \<and> eq_ignore_case y h" using c(1) by (auto split: option.splits)
  moreover have "block + lq_confirmations (ex_cfg x) \<le> n" using c(4) by simp
  ultimately show "final_receipt x h r"
    unfolding final_receipt_def using ans c(2,6) ask_numberD [OF c(3)] node_askD [OF c(5)] by blast
qed

lemma settle_final:
  assumes run: "settle_receipt x op h r s = (q, s')"
    and ans: "nd_request (ex_node x) t ''eth_getTransactionReceipt'' (JArr [JStr h]) = Inr r" "\<not> is_null r"
  shows "same_slot s s' \<or> final_receipt x h r"
    and "q = Inr (Some v) \<Longrightarrow> final_receipt x h r \<and> v = r \<and> hex_u64 (jget r ''status'') = Inr 1
      \<and> (\<exists>s1. nonce_confirmed (ex_host x) (ex_nonce x) h r s1 = (Inr (), s'))"
proof -
  show "same_slot s s' \<or> final_receipt x h r"
    using run unfolding settle_receipt_def
  proof (cases rule: sbind_cases)
    case (err e)
    then show ?thesis using keepsD [OF status_slot] by blast
  next
    case (ok y s1)
    then show ?thesis using keepsD [OF status_slot ok(1)] status_final(1) [OF _ ans] by (cases y) auto
  qed
  assume q: "q = Inr (Some v)"
  show "final_receipt x h r \<and> v = r \<and> hex_u64 (jget r ''status'') = Inr 1
      \<and> (\<exists>s1. nonce_confirmed (ex_host x) (ex_nonce x) h r s1 = (Inr (), s'))"
    using run [unfolded q settle_receipt_def]
  proof (rule sbind_InrE)
    fix y s1
    assume y: "receipt_status x h r s = (Inr y, s1)" and rest: "(case y of None \<Rightarrow> slift (Inr None) | Some status \<Rightarrow>
         if status \<noteq> 1
         then sbind (nonce_confirmed (ex_host x) (ex_nonce x) h r) (\<lambda>_. slift (Inl (Bail ''on-chain transaction reverted'')))
         else sbind (record_receipt x r op) (\<lambda>_. sbind (nonce_confirmed (ex_host x) (ex_nonce x) h r) (\<lambda>_.
           slift (Inr (Some r))))) s1 = (Inr (Some v), s')"
    obtain status where st: "y = Some status" using rest by (cases y) simp_all
    have one: "status = 1" using rest st by (auto simp: sbind_eq split: if_splits prod.splits sum.splits)
    have "\<exists>s2. nonce_confirmed (ex_host x) (ex_nonce x) h r s2 = (Inr (), s') \<and> v = r"
      using rest by (simp add: st one) (elim sbind_InrE, auto)
    then show ?thesis using status_final [OF y [unfolded st] ans] one by blast
  qed
qed

section \<open>Waiting\<close>

definition settled :: "executor \<Rightarrow> string list \<Rightarrow> json \<Rightarrow> store \<Rightarrow> bool" where
  "settled x hs r s' \<longleftrightarrow> (\<exists>h \<in> set hs. final_receipt x h r \<and> hex_u64 (jget r ''status'') = Inr 1
     \<and> (\<exists>s1. nonce_confirmed (ex_host x) (ex_nonce x) h r s1 = (Inr (), s')))"

lemma hashes_final:
  assumes "wait_hashes x op hs s = (q, s')"
  shows "slot_held x hs s s' \<and> (\<forall>v. q = Inr (Some v) \<longrightarrow> settled x hs v s')"
  using assms
proof (induction hs arbitrary: s)
  case Nil
  then show ?case by (auto simp: slot_held_def same_slot_def)
next
  case (Cons h hs)
  from Cons.prems show ?case unfolding wait_hashes.simps
  proof (cases rule: sbind_cases)
    case (err e)
    then show ?thesis using keepsD [OF slots.keeps_node_ask] by (auto simp: slot_held_def)
  next
    case (ok r s1)
    have k1: "slot_held x (h # hs) s s1" using keepsD [OF held_slot.keeps_node_ask ok(1)] .
    obtain t where t: "nd_request (ex_node x) t ''eth_getTransactionReceipt'' (JArr [JStr h]) = Inr r"
      using node_askD [OF ok(1)] by blast
    have up: "slot_held x hs a b \<Longrightarrow> slot_held x (h # hs) a b" "settled x hs v c \<Longrightarrow> settled x (h # hs) v c" for a b c v
      by (auto simp: slot_held_def settled_def)
    show ?thesis
    proof (cases "is_null r")
      case True
      then have "wait_hashes x op hs s1 = (q, s')" using ok(2) by simp
      from Cons.IH [OF this] show ?thesis using up k1 held_slot.step_trans by blast
    next
      case False
      obtain b s2 where b: "settle_receipt x op h r s1 = (b, s2)" by fastforce
      note F = settle_final [OF b t False]
      have k2: "slot_held x (h # hs) s s2" using held_slot.step_trans [OF k1] F(1) by (auto simp: slot_held_def)
      show ?thesis
      proof (cases b)
        case (Inl e)
        then show ?thesis using ok(2) False b k2 by (auto simp: sbind_eq)
      next
        case y: (Inr y)
        show ?thesis
        proof (cases y)
          case None
          then have "wait_hashes x op hs s2 = (q, s')" using ok(2) False b y by (simp add: sbind_eq)
          from Cons.IH [OF this] show ?thesis using up k2 held_slot.step_trans by blast
        next
          case (Some v)
          then have "s' = s2" "q = Inr (Some v)" using ok(2) False b y by (simp_all add: sbind_eq)
          then show ?thesis using k2 F(2) y Some by (auto simp: settled_def)
        qed
      qed
    qed
  qed
qed

lemma held_hashes: "keeps (slot_held x hs) (wait_hashes x op hs)"
  using hashes_final by (auto simp: keeps_def)

lemma loop_final:
  shows "wait_loop x op hs n t s = (q, s') \<Longrightarrow> slot_held x hs s s' \<and> (\<forall>v. q = Inr v \<longrightarrow> settled x hs v s')"
proof (induction n arbitrary: s t)
  case 0
  then show ?case by (auto simp: slot_held_def same_slot_def)
next
  case (Suc n)
  define tick where "tick = sbind (mono_now x) (\<lambda>now. if secs (unat (lq_nonce_refresh_seconds (ex_cfg x))) \<le> now - t
            then sbind (ex_refresh x) (\<lambda>_. mono_now x) else slift (Inr t))"
  have k: "keeps (slot_held x hs) tick"
    unfolding tick_def by (intro held_slot.basic held_same [OF slot_refresh])
  have "sbind tick (\<lambda>t. sbind (wait_hashes x op hs) (\<lambda>y. case y of Some r \<Rightarrow> slift (Inr r) | None \<Rightarrow> wait_loop x op hs n t)) s = (q, s')"
    using Suc.prems by (auto simp: tick_def sbind_def split: prod.splits sum.splits)
  then show ?case
  proof (cases rule: sbind_cases)
    case (err e)
    then show ?thesis using keepsD [OF k] by simp
  next
    case (ok t1 s1)
    have k1: "slot_held x hs s s1" by (rule keepsD [OF k ok(1)])
    from ok(2) show ?thesis
    proof (cases rule: sbind_cases)
      case (err e)
      then show ?thesis using held_slot.step_trans [OF k1 keepsD [OF held_hashes]] by simp
    next
      case h: (ok y s2)
      note H = hashes_final [OF h(1)]
      have k2: "slot_held x hs s s2" using held_slot.step_trans [OF k1] H by blast
      show ?thesis
      proof (cases y)
        case None
        then have "wait_loop x op hs n t1 s2 = (q, s')" using h(2) by simp
        from Suc.IH [OF this] show ?thesis using held_slot.step_trans [OF k2] by blast
      next
        case (Some v)
        then show ?thesis using h(2) H k2 by auto
      qed
    qed
  qed
qed

lemma wait_final:
  assumes run: "wait_receipt x hash op s = (q, s')"
  shows "same_slot s s' \<or> (\<exists>hs h r. wait_candidates x hash s = Inr hs \<and> h \<in> set hs \<and> final_receipt x h r)"
    and "q = Inr v \<Longrightarrow> \<exists>hs. wait_candidates x hash s = Inr hs \<and> settled x hs v s'"
proof -
  have "(\<exists>e. wait_candidates x hash s = Inl e \<and> q = Inl e \<and> s' = s)
    \<or> (\<exists>hs. wait_candidates x hash s = Inr hs \<and> slot_held x hs s s' \<and> (\<forall>v. q = Inr v \<longrightarrow> settled x hs v s'))"
  proof (cases "wait_candidates x hash s")
    case (Inl e)
    then show ?thesis using run by (simp add: wait_receipt_def sbind_eq)
  next
    case (Inr hs)
    let ?s = "s\<lparr>sv_tick := Suc (sv_tick s)\<rparr>"
    have "wait_loop x op hs wait_rounds (ex_mono x (sv_tick s)) ?s = (q, s')"
      using run Inr by (simp add: wait_receipt_def sbind_eq mono_now_def)
    from loop_final [OF this] show ?thesis using Inr by (simp add: slot_held_def same_slot_def)
  qed
  then show "same_slot s s' \<or> (\<exists>hs h r. wait_candidates x hash s = Inr hs \<and> h \<in> set hs \<and> final_receipt x h r)"
    and "q = Inr v \<Longrightarrow> \<exists>hs. wait_candidates x hash s = Inr hs \<and> settled x hs v s'"
    by (auto simp: slot_held_def same_slot_def)
qed

lemma confirmed_clears:
  assumes "nonce_confirmed h m hash r s = (Inr u, s')" shows "store_pending s' = Inr None"
proof -
  obtain s1 where "store_finish h r s1 = (Inr u, s')"
    using assms unfolding nonce_confirmed_def Let_def by (elim sbind_InrE)
  then obtain s2 where "store_write h ''pending.json'' (Doc_json JNull) s2 = (Inr u, s')"
    unfolding store_finish_def by (elim sbind_InrE)
  then show ?thesis by (auto simp: store_pending_def dest!: store_write_ok)
qed

section \<open>Recorded before it is sent\<close>

text \<open>The signed transaction in the pending slot.\<close>

definition recorded_raw :: "store \<Rightarrow> json option" where
  "recorded_raw s = (case evm_pending s of None \<Rightarrow> None | Some p \<Rightarrow> Some (jget p ''raw_transaction''))"

definition same_raw :: "store \<Rightarrow> store \<Rightarrow> bool" where
  "same_raw s s' \<longleftrightarrow> recorded_raw s' = recorded_raw s"

interpretation raws: store_order same_raw
proof
  show "same_raw s s'" if "sv_files s' = sv_files s" for s s'
    using find_doc_files [OF that] by (simp only: same_raw_def recorded_raw_def evm_pending_def)
qed (simp add: same_raw_def)

lemma raw_slot: "same_slot s s' \<Longrightarrow> same_raw s s'"
  by (simp add: same_slot_def same_raw_def recorded_raw_def evm_pending_def)

lemma raw_noted: "noted s s' \<Longrightarrow> same_raw s s'"
  unfolding noted_def using raw_slot
  by (auto simp: same_raw_def recorded_raw_def evm_pending_def jget_jset)

lemma raw_broadcast: "ex_broadcast x hash raw n s = (r, s') \<Longrightarrow> same_raw s s'"
proof -
  assume run: "ex_broadcast x hash raw n s = (r, s')"
  have "keeps same_raw (record_broadcast_error x hash n e)" for e
    using record_error_noted raw_noted by (auto simp: keeps_def)
  then have k: "keeps same_raw (after_cast x hash n v)" for v
    unfolding after_cast_def by (auto split: sum.splits rpc_fail.splits intro!: raws.basic)
  have "keeps same_raw (node_cast x t)" for t
    by (auto simp: keeps_def node_cast_def intro: raws.files_only)
  then show ?thesis using run k unfolding ex_broadcast_def by (metis keepsD raws.keeps_sbind)
qed

lemma broadcast_sent:
  "ex_broadcast x hash raw n s = (r, s') \<Longrightarrow> sv_sent s' = sv_sent s @ [cast_entry (hex0x x raw)]"
  using broadcastD [of x hash raw n s r s' x] by (auto simp: calm_def same_sent_def)

lemma record_and_cast_raw:
  assumes run: "record_and_cast x op n f raw s = (r, s')" and sent: "sv_sent s' \<noteq> sv_sent s"
  shows "recorded_raw s' = Some (JStr (hex0x x raw))" "sv_sent s' = sv_sent s @ [cast_entry (hex0x x raw)]"
proof -
  define pre where "pre = sbind (host_now (ex_host x)) (\<lambda>now. sbind (slift (fees_json f)) (\<lambda>fs.
    sbind (store_begin (ex_host x) (pending_tx x (xl_hash (ex_txs x) raw) n now op fs raw)) (\<lambda>_.
      nonce_prepared (ex_host x) (ex_nonce x) n (xl_hash (ex_txs x) raw))))"
  have "sbind pre (\<lambda>_. sbind (ex_broadcast x (xl_hash (ex_txs x) raw) raw n) (\<lambda>_. slift (Inr (xl_hash (ex_txs x) raw)))) s = (r, s')"
    using run by (auto simp: record_and_cast_def Let_def pre_def sbind_def split: prod.splits sum.splits)
  moreover have k: "keeps same_sent pre" unfolding pre_def by (intro unsent.basic sent_begin sent_nonces)
  ultimately have "recorded_raw s' = Some (JStr (hex0x x raw)) \<and> sv_sent s' = sv_sent s @ [cast_entry (hex0x x raw)]"
  proof (cases rule: sbind_cases)
    case (err e)
    show ?thesis using keepsD [OF k err(1)] sent by (auto simp: same_sent_def)
  next
    case (ok u s1)
    have "recorded_raw s1 = Some (JStr (hex0x x raw))"
      using ok(1) unfolding pre_def
    proof (elim sbind_InrE)
      fix now s0 fs s2 w s3
      assume b: "store_begin (ex_host x) (pending_tx x (xl_hash (ex_txs x) raw) n now op fs raw) s2 = (Inr w, s3)"
        and p: "nonce_prepared (ex_host x) (ex_nonce x) n (xl_hash (ex_txs x) raw) s3 = (Inr u, s1)"
      have "evm_pending s3 = Some (pending_tx x (xl_hash (ex_txs x) raw) n now op fs raw)"
        by (rule begin_slot [OF b]) (simp add: pending_tx_def jget_def)
      then have "recorded_raw s3 = Some (JStr (hex0x x raw))" by (simp add: recorded_raw_def pending_tx_def jget_def)
      then show ?thesis using raw_slot [OF keepsD [OF slot_prepared p]] by (simp add: same_raw_def)
    qed
    moreover have "same_raw s1 s' \<and> sv_sent s' = sv_sent s1 @ [cast_entry (hex0x x raw)]"
      using ok(2) by (cases rule: sbind_cases) (auto dest: raw_broadcast broadcast_sent)
    moreover have "sv_sent s1 = sv_sent s"
      using keepsD [OF k ok(1)] by (simp add: same_sent_def)
    ultimately show ?thesis by (simp add: same_raw_def)
  qed
  then show "recorded_raw s' = Some (JStr (hex0x x raw))" "sv_sent s' = sv_sent s @ [cast_entry (hex0x x raw)]" by simp_all
qed

text \<open>
  C12: A receipt is only returned when it is final: the node gave it for one of the recorded hashes of the
  transaction, it has the configured number of confirmations, its block is the one of the chain at that
  height, and it reports success; the operation is then no longer pending.
\<close>

theorem receipt_is_final:
  assumes "wait_receipt x hash op s = (Inr r, s')"
  shows "(\<exists>hs h. wait_candidates x hash s = Inr hs \<and> h \<in> set hs \<and> final_receipt x h r)
    \<and> hex_u64 (jget r ''status'') = Inr 1 \<and> store_pending s' = Inr None"
proof -
  obtain hs where hs: "wait_candidates x hash s = Inr hs" "settled x hs r s'" using wait_final(2) [OF assms refl] by blast
  then obtain h s1 where h: "h \<in> set hs" "final_receipt x h r" "hex_u64 (jget r ''status'') = Inr 1"
    "nonce_confirmed (ex_host x) (ex_nonce x) h r s1 = (Inr (), s')" by (auto simp: settled_def)
  show ?thesis using hs(1) h(1-3) confirmed_clears [OF h(4)] by blast
qed

text \<open>
  C3: A send broadcasts at most one transaction, and exactly the bytes it broadcast, which are the signed
  transaction of the call, are in the pending slot when it ends, unless a final receipt for them was seen:
  a crash or a failure after the broadcast never loses the transaction.
\<close>

theorem tx_write_ahead:
  assumes "send x to data op s = (r, s')" "sv_sent s' \<noteq> sv_sent s"
  shows "\<exists>raw n g f. sign_transaction x n g to data f = Inr raw \<and> sv_sent s' = sv_sent s @ [cast_entry (hex0x x raw)] \<and>
    (recorded_raw s' = Some (JStr (hex0x x raw))
     \<or> (\<exists>s1 hs h v. recorded_raw s1 = Some (JStr (hex0x x raw))
          \<and> wait_candidates x (xl_hash (ex_txs x) raw) s1 = Inr hs \<and> h \<in> set hs \<and> final_receipt x h v))"
proof -
  have calm: "sv_sent s2 = sv_sent s1" if "keeps (calm x) m" "m s1 = (q, s2)" for m :: "'q st" and s1 q s2
    using keepsD [OF that] by (simp add: calm_def same_sent_def)
  from assms(1) show ?thesis unfolding send_def
  proof (cases rule: sbind_cases)
    case (err e)
    then show ?thesis using calm [OF calm_prepare] assms(2) by metis
  next
    case p: (ok ngf s1)
    obtain n g f where ngf: "ngf = (n, g, f)" by (cases ngf) auto
    have s1: "sv_sent s1 = sv_sent s" by (rule calm [OF calm_prepare p(1)])
    obtain raw where raw: "sign_transaction x n g to data f = Inr raw"
      using p(2) s1 assms(2) ngf by (cases "sign_transaction x n g to data f") auto
    let ?h = "xl_hash (ex_txs x) raw"
    have "sbind (record_and_cast x op n f raw) (\<lambda>hash. wait_receipt x hash op) s1 = (r, s')"
      using p(2) ngf raw by simp
    then show ?thesis
    proof (cases rule: sbind_cases)
      case (err e)
      have "sv_sent s' \<noteq> sv_sent s1" using assms(2) s1 by simp
      from record_and_cast_raw [OF err(1) this] show ?thesis using raw s1 by auto
    next
      case (ok hash s2)
      have h: "hash = ?h" using ok(1) by (auto simp: record_and_cast_def Let_def elim!: sbind_InrE)
      have "sv_sent s' = sv_sent s2" by (rule calm [OF calm_wait ok(2)])
      moreover from this have "sv_sent s2 \<noteq> sv_sent s1" using assms(2) s1 by simp
      ultimately have R: "recorded_raw s2 = Some (JStr (hex0x x raw))" and sent: "sv_sent s' = sv_sent s @ [cast_entry (hex0x x raw)]"
        using record_and_cast_raw [OF ok(1)] s1 by simp_all
      from wait_final(1) [OF ok(2)] show ?thesis
      proof
        assume "same_slot s2 s'"
        then show ?thesis using R raw sent raw_slot by (auto simp: same_raw_def)
      next
        assume "\<exists>hs h r. wait_candidates x hash s2 = Inr hs \<and> h \<in> set hs \<and> final_receipt x h r"
        then show ?thesis using R raw sent h by blast
      qed
    qed
  qed
qed

end
