(* ===== verification/V3_Tx_Samples.thy ===== *)
theory V3_Tx_Samples
  imports V3_Run_Props V3_Receipt_Props V3_Samples Store_Samples
begin

text \<open>
  The theorems about transactions at one concrete wallet: an approval whose broadcast fails and which is
  retried with a higher fee, and a mined transaction.
\<close>

definition sample_hex :: "u8 list \<Rightarrow> string" where
  "sample_hex bs = concat (map (\<lambda>b. [hex_digit (unat b div 16), hex_digit (unat b mod 16)]) bs)"

fun sample_unhex :: "string \<Rightarrow> u8 list option" where
  "sample_unhex [] = Some []"
| "sample_unhex [c] = None"
| "sample_unhex (c # d # r) =
     (case (hex_val c, hex_val d, sample_unhex r) of
        (Some a, Some b, Some bs) \<Rightarrow> Some (word_of_int (16 * a + b) # bs)
      | _ \<Rightarrow> None)"

lemma hex_digit_ok:
  assumes "n < 16" shows "hex_val (hex_digit n) = Some (int n) \<and> hex_digit n \<noteq> CHR ''x''"
proof -
  have "hex_digit n \<noteq> char_of (120 :: nat)" using assms by (auto simp: char_of_eq_iff take_bit_eq_mod)
  moreover have "char_of (120 :: nat) = CHR ''x''" by code_simp
  moreover have "hex_val (hex_digit n) = Some (int n)"
  proof (cases "n < 10")
    case True
    then have "(of_char (hex_digit n) :: int) = 48 + int n" by (simp flip: of_nat_of_char [where 'a = int])
    then show ?thesis using True by (simp add: hex_val_def)
  next
    case False
    then have "(of_char (hex_digit n) :: int) = 87 + int n" using assms by (simp flip: of_nat_of_char [where 'a = int])
    then show ?thesis using False assms by (simp add: hex_val_def)
  qed
  ultimately show ?thesis by simp
qed

lemma sample_hex_ok: "sample_unhex (sample_hex bs) = Some bs \<and> CHR ''x'' \<notin> set (sample_hex bs)"
proof (induction bs)
  case (Cons b bs)
  have "unat b < 256" using unsigned_less [of b, where ?'a = nat] by simp
  then have lt: "unat b div 16 < 16" "unat b mod 16 < 16" by auto
  have "16 * int (unat b div 16) + int (unat b mod 16) = uint b"
    by (simp add: zdiv_int zmod_int)
  then have eq: "word_of_int (16 * int (unat b div 16) + int (unat b mod 16)) = b" by simp
  show ?case using Cons hex_digit_ok [OF lt(1)] hex_digit_ok [OF lt(2)] eq by (auto simp: sample_hex_def)
qed (simp add: sample_hex_def)

definition sample_lib :: evm_lib where
  "sample_lib = \<lparr>el_keccak = (\<lambda>s. [1, 2, 3, 4]), el_unhex = sample_unhex, el_hex = sample_hex, el_address = show_word,
     el_parse_address = (\<lambda>t. rbind (read_decimal t) (\<lambda>w. Inr (ucast w))), el_text = decimal_text, el_decimal = (\<lambda>x d. None),
     el_libm = \<lparr>ln_fn = (\<lambda>x. 0), ln_1p_fn = (\<lambda>x. 0), powi_fn = (\<lambda>x n. 1)\<rparr>, el_powf = (\<lambda>x y. 1)\<rparr>"

definition sample_lq :: liquidity_config where
  "sample_lq = \<lparr>lq_kind = ''uniswap_v3'', lq_chain_id = 4663, lq_rpc_url = ''https://node'', lq_archive_rpc_url = None,
     lq_rpc_min_interval_ms = 250, lq_ws_url = ''wss://node'', lq_owner = None, lq_nonce_refresh_seconds = 15,
     lq_pending_warn_seconds = 60, lq_pool = ''1'', lq_factory = ''2'', lq_position_manager = ''3'', lq_swap_router = ''4'',
     lq_base_token = ''5'', lq_quote_token = ''6'', lq_base_decimals = 18, lq_quote_decimals = 6, lq_fee = 3000,
     lq_private_key_env = ''KEY'', lq_confirmations = 2, lq_slippage_bps = 100, lq_deadline_seconds = 60,
     lq_max_gas_native = 1, lq_gas_fee_buffer_bps = 1000, lq_gas_limit_buffer_bps = 1000, lq_max_quote_age_seconds = 60\<rparr>"

definition sample_receipt :: json where
  "sample_receipt = JObj [(''transactionHash'', JStr ''0x01''), (''blockNumber'', JStr ''0x1''), (''blockHash'', JStr ''0xb''),
     (''status'', JStr ''0x1''), (''logs'', JArr [])]"

text \<open>The node loses every broadcast; \<open>mined\<close> tells whether it knows the receipt.\<close>

definition sample_node :: "bool \<Rightarrow> node" where
  "sample_node mined = \<lparr>nd_request = (\<lambda>t meth params.
     if meth = ''eth_chainId'' then Inr (JStr ''0x1237'')
     else if meth = ''eth_getTransactionCount'' then Inr (JStr ''0x5'')
     else if meth = ''eth_call'' then Inr (JStr ''0x'')
     else if meth = ''eth_estimateGas'' then Inr (JStr ''0x64'')
     else if meth = ''eth_gasPrice'' then Inr (JStr ''0xa'')
     else if meth = ''eth_blockNumber'' then Inr (JStr ''0x3'')
     else if meth = ''eth_getBlockByNumber'' then Inr (JObj [(''hash'', JStr ''0xb'')])
     else if meth = ''eth_getBalance'' then Inr (JStr ''0xffffff'')
     else if meth = ''eth_getTransactionReceipt'' then Inr (if mined then sample_receipt else JNull)
     else if meth = ''eth_getTransactionByHash'' then Inr JNull
     else Inl (Rpc_other ''reset''))\<rparr>"

definition sample_cache :: cache_view where
  "sample_cache = \<lparr>cv_spacing = (\<lambda>t. None), cv_snapshot = (\<lambda>t. None), cv_header = (\<lambda>t. None), cv_words = (\<lambda>t k. None),
     cv_hash = (\<lambda>t n. None), cv_unchanged = (\<lambda>t. True)\<rparr>"

definition sample_v3 :: "bool \<Rightarrow> v3" where
  "sample_v3 mined = \<lparr>v3_cfg = sample_lq, v3_pool = 1, v3_manager = 3, v3_router = 4, v3_base = 5, v3_quote = 6,
     v3_node = sample_node mined, v3_archive = sample_node mined, v3_cache = sample_cache, v3_lib = sample_lib\<rparr>"

definition sample_abi :: "v3_call \<Rightarrow> u8 list" where
  "sample_abi c = (case c of Approve sp am \<Rightarrow> [9, ucast sp, ucast am] | _ \<Rightarrow> [])"

definition sample_tx :: "u128 \<Rightarrow> tx" where
  "sample_tx fee = \<lparr>tx_kind = Legacy, tx_chain = Some 4663, tx_nonce = 5, tx_gas = 110, tx_max_fee = fee, tx_tip = None,
     tx_to = Some 6, tx_value = 0, tx_input = [9, 3, 77]\<rparr>"

definition sample_txs :: tx_lib where
  "sample_txs = \<lparr>xl_abi = sample_abi,
     xl_sign = (\<lambda>t. if t = sample_tx 11 then Inr [1] else if t = sample_tx 14 then Inr [2] else Inl (Bail ''unknown transaction'')),
     xl_decode = (\<lambda>raw. if raw = [1] then Inr (sample_tx 11, Inr 42, []) else if raw = [2] then Inr (sample_tx 14, Inr 42, [])
       else Inl (Bail ''unknown transaction'')),
     xl_hash = (\<lambda>raw. ''0x'' @ sample_hex raw)\<rparr>"

definition sample_executor :: "bool \<Rightarrow> executor" where
  "sample_executor mined = \<lparr>ex_v3 = sample_v3 mined, ex_owner = 42, ex_host = sample_host, ex_txs = sample_txs, ex_mono = secs\<rparr>"

lemma sample_lib_ok: "lib_ok (sample_executor m)"
  by (auto simp: lib_ok_def sample_executor_def sample_v3_def sample_lib_def sample_txs_def sample_hex_ok split: if_splits)

definition sample_op :: json where
  "sample_op = JObj [(''kind'', JStr ''approve''), (''token'', JStr ''6''), (''spender'', JStr ''3''), (''raw_amount'', JStr ''77'')]"

definition sample_run :: "ex_op list" where
  "sample_run = [X_send 6 [9, 3, 77] sample_op, X_retry ''0x01'']"

definition sample_tx_store :: store where
  "sample_tx_store = sample_store\<lparr>sv_policy := storage_config_default\<lparr>so_min_free_bytes := 0\<rparr>\<rparr>"

text \<open>The run of an operation step by step: each step's result, and the state it leaves by name.\<close>

lemma named: "fst p = r \<Longrightarrow> p = (r, snd p)"
  by (cases p) simp

definition smp :: executor where "smp = sample_executor False"

definition sample_fees :: "u128 \<Rightarrow> fees" where
  "sample_fees fee = \<lparr>fe_buffer_bps = 1000, fe_base_fee = None, fe_max_fee = fee, fe_tip = None\<rparr>"

lemma every_test:
  assumes "\<And>P :: 'a \<Rightarrow> bool. P x = P y" shows "x = y"
  using assms [of "\<lambda>z. z = y"] by simp

text \<open>The states of the run: only the node is asked, but for the refreshed nonce.\<close>

definition asked :: "nat \<Rightarrow> store" where
  "asked n = sample_tx_store\<lparr>sv_files := [(''evm_nonce.json'', Doc_nonce \<lparr>ns_chain_id = 4663, ns_owner = ''42'', ns_latest = 5,
     ns_pending = 5, ns_next_floor = 5, ns_checked_ms = 1000, ns_inflight = None\<rparr>)], sv_tick := n\<rparr>"

abbreviation "sample_call \<equiv> call_json smp 6 [9, 3, 77]"

abbreviation "sim_failed \<equiv> ''transaction simulation failed before signing/broadcast; earlier workflow operations may have completed''"

lemma first_quote: "quote_fresh smp sample_op s = (Inr (), s)"
  by (simp add: quote_fresh_def sample_op_def)

lemma first_chain: "check_chain smp ''chain changed'' sample_tx_store = (Inr (), sample_tx_store\<lparr>sv_tick := Suc 0\<rparr>)"
  by (rule every_test, code_simp, simp?)

lemma first_nonce: "ex_next_nonce smp (sample_tx_store\<lparr>sv_tick := Suc 0\<rparr>) = (Inr 5, asked 7)"
  by (rule every_test, code_simp, simp?)

lemma first_simulate: "simulate smp sample_call sim_failed (asked 7) = (Inr (), asked 8)"
  by (rule every_test, code_simp, simp?)

lemma first_estimate: "estimate_gas smp sample_call (asked 8) = (Inr 100, asked 9)"
  by (rule every_test, code_simp, simp?)

lemma first_gas: "buffered_gas smp 100 = Inr 110"
  by code_simp

lemma first_fees: "ask_fees smp (asked 9) = (Inr (sample_fees 11), asked 11)"
  by (rule every_test, code_simp, simp?)

lemma first_budget: "check_gas_budget smp 110 (sample_fees 11) (Suc (Suc (Suc 0))) (asked 11) = (Inr (), asked 12)"
  by (rule every_test, code_simp, simp?)

lemma first_sign: "sign_transaction smp 5 110 6 [9, 3, 77] (sample_fees 11) = Inr [1]"
  by code_simp

lemma allowed_quote: "(6 :: address) \<in> set (allowed_targets smp)"
  by (simp add: allowed_targets_def smp_def sample_executor_def sample_v3_def)

definition sample_pending :: json where
  "sample_pending = JObj
            [(''venue'', JStr ''evm''), (''hash'', JStr ''0x01''),
             (''nonce'', JNum (PosInt 5)), (''owner'', JStr ''42''),
             (''prepared_ms'', JNum (PosInt 1000)),
             (''operation'', sample_op),
             (''fees'', JObj [(''fee_buffer_bps'', JNum (PosInt 1000)), (''base_fee_per_gas'', JNull),
                (''max_fee_per_gas'', JNum (PosInt 11)), (''max_priority_fee_per_gas'', JNull)]),
             (''raw_transaction'', JStr ''0x01''),
             (''last_broadcast_error'', JObj [(''hash'', JStr ''0x01''), (''nonce'', JNum (PosInt 5)),
                (''time_ms'', JNum (PosInt 1000)), (''rpc_rejection'', JBool False), (''error'', JStr ''reset'')])]"

definition sample_nonce_state :: nonce_state where
  "sample_nonce_state = \<lparr>ns_chain_id = 4663, ns_owner = ''42'', ns_latest = 5,
             ns_pending = 5, ns_next_floor = 6, ns_checked_ms = 1000,
             ns_inflight = Some (inflight_json 5 (JStr ''0x01'') 1000 ''prepared'')\<rparr>"

definition T9 :: store where
  "T9 = sample_tx_store\<lparr>
     sv_files := [(''evm_nonce.json'', Doc_nonce sample_nonce_state), (''pending.json'', Doc_json sample_pending)],
     sv_log := [(1000, ''operation_begin'', begin_event sample_pending), (1000, ''evm_nonce_reserved'', nonce_json sample_nonce_state),
       (1000, ''evm_broadcast_error'', jget sample_pending ''last_broadcast_error'')],
     sv_active := 180, sv_tick := 25, sv_sent := [cast_entry ''0x01'']\<rparr>"

abbreviation "unconfirmed \<equiv> Bail ''broadcast not confirmed; pending retained, reconcile before retrying; never resend with a new nonce''"

lemma first_cast: "record_and_cast smp sample_op 5 (sample_fees 11) [1] (asked 12) = (Inl unconfirmed, T9)"
  by (rule every_test, code_simp, simp?)

lemma first_send: "send smp 6 [9, 3, 77] sample_op sample_tx_store = (Inl unconfirmed, T9)"
  by (simp add: send_def prepare_send_def sbind_eq first_quote first_chain first_nonce first_simulate first_estimate first_gas
    first_fees first_budget first_sign allowed_quote first_cast)

section \<open>The approval again\<close>

definition sample_approval :: approval where
  "sample_approval = \<lparr>ap_pending = sample_pending, ap_op = sample_op, ap_token = 6, ap_data = [9, 3, 77], ap_nonce = 5,
     ap_original = sample_tx 11, ap_latest = sample_tx 11, ap_hashes = [''0x01'']\<rparr>"

lemma again_found: "stuck_approval smp ''0x01'' T9 = Inr sample_approval"
  by (rule every_test, code_simp, simp?)

lemma again_chain: "check_chain smp ''recovery chain mismatch'' T9 = (Inr (), T9\<lparr>sv_tick := 26\<rparr>)"
  by (rule every_test, code_simp, simp?)

lemma again_lookup: "lookup_hashes smp [''0x01''] False (T9\<lparr>sv_tick := 26\<rparr>) = (Inr (Some False), T9\<lparr>sv_tick := 28\<rparr>)"
  by (rule every_test, code_simp, simp?)

lemma again_refresh: "ex_refresh smp (T9\<lparr>sv_tick := 28\<rparr>) = (Inr sample_nonce_state, T9\<lparr>sv_tick := 36\<rparr>)"
  by (rule every_test, code_simp, simp?)

lemma again_pure: "check_reservation sample_approval False sample_nonce_state = Inr ()"
    "sign_transaction smp 5 110 6 [9, 3, 77] (sample_fees 14) = Inr [2]"
  by code_simp+

lemma again_asks:
  "simulate smp sample_call ''approval recovery simulation failed'' (T9\<lparr>sv_tick := 36\<rparr>) = (Inr (), T9\<lparr>sv_tick := 37\<rparr>)"
  "estimate_gas smp sample_call (T9\<lparr>sv_tick := 37\<rparr>) = (Inr 100, T9\<lparr>sv_tick := 38\<rparr>)"
  "ask_fees smp (T9\<lparr>sv_tick := 38\<rparr>) = (Inr (sample_fees 11), T9\<lparr>sv_tick := 40\<rparr>)"
  "fees_replacement 11 11 (sample_fees 11) = Inr (sample_fees 14)"
  "check_gas_budget smp 110 (sample_fees 14) (Suc (Suc (Suc 0))) (T9\<lparr>sv_tick := 40\<rparr>) = (Inr (), T9\<lparr>sv_tick := 41\<rparr>)"
  by (rule every_test, code_simp, simp?)+

lemma again_fees: "replacement_fees smp sample_approval (T9\<lparr>sv_tick := 36\<rparr>) = (Inr (sample_fees 14), T9\<lparr>sv_tick := 41\<rparr>)"
  by (simp add: replacement_fees_def Let_def sbind_eq sample_approval_def sample_tx_def again_asks)

definition "R5 = snd (cast_replacement smp ''0x01'' sample_approval (sample_fees 14) [2] (T9\<lparr>sv_tick := 41\<rparr>))"

lemma again_cast: "fst (cast_replacement smp ''0x01'' sample_approval (sample_fees 14) [2] (T9\<lparr>sv_tick := 41\<rparr>)) = Inl unconfirmed"
  by code_simp

lemma again_sent: "sv_sent R5 = [cast_entry ''0x01'', cast_entry ''0x02'']"
  by code_simp

lemma approval_fields: "ap_hashes sample_approval = [''0x01'']" "ap_nonce sample_approval = 5" "tx_gas (ap_original sample_approval) = 110"
    "ap_token sample_approval = 6" "ap_data sample_approval = [9, 3, 77]"
  by (simp_all add: sample_approval_def sample_tx_def)

lemma again_retry: "snd (retry_approval smp ''0x01'' T9) = R5"
  by (simp add: retry_approval_def replace_approval_def sbind_eq del: lookup_hashes.simps add: again_found again_chain again_lookup again_refresh again_pure
    approval_fields again_fees again_cast [THEN named, folded R5_def])

lemma sample_both: "sv_sent (snd (run_ops (ex_step smp) sample_run sample_tx_store)) = [cast_entry ''0x01'', cast_entry ''0x02'']"
  by (simp add: sample_run_def ran_def split_def first_send again_retry again_sent)

section \<open>Witnesses\<close>

lemma smp_lib: "lib_ok smp"
  by (simp add: smp_def sample_lib_ok)

lemma sample_casts: "cast_tx smp (cast_entry ''0x01'') = Some (sample_tx 11)" "cast_tx smp (cast_entry ''0x02'') = Some (sample_tx 14)"
  by code_simp+

lemma sample_tx_clean: "sv_sent sample_tx_store = []"
  by (simp add: sample_tx_store_def sample_store_def)

theorem tx_nonce_one_call_witness: "tx_input (sample_tx 11) = tx_input (sample_tx 14) \<and> tx_gas (sample_tx 11) = tx_gas (sample_tx 14)"
  using tx_nonce_one_call [OF smp_lib _ surj_run [OF refl] sample_tx_clean _ _ sample_casts, of sample_run]
  by (simp add: sample_both) (simp add: sample_run_def sample_tx_def)

theorem tx_within_budget_witness: "\<exists>a \<in> set (allowed_targets smp). tx_to (sample_tx 14) = Some a"
  using tx_within_budget [OF smp_lib _ surj_run [OF refl] sample_tx_clean _ sample_casts(2), of sample_run]
  by (simp add: sample_both) (simp add: sample_run_def)

theorem tx_write_ahead_witness:
  "\<exists>raw. sv_sent T9 = [cast_entry (hex0x smp raw)]
     \<and> (recorded_raw T9 = Some (JStr (hex0x smp raw)) \<or> (\<exists>h v. final_receipt smp h v))"
proof -
  have "sv_sent T9 \<noteq> sv_sent sample_tx_store" by (simp add: T9_def sample_tx_clean)
  from tx_write_ahead [OF first_send this] show ?thesis by (auto simp: sample_tx_clean)
qed

definition smm :: executor where "smm = sample_executor True"

definition "M1 = sample_tx_store\<lparr>sv_tick := 3\<rparr>"

lemma mined_status: "receipt_status smm ''0x01'' sample_receipt M1 = (Inr (Some 1), M1\<lparr>sv_tick := 5\<rparr>)"
  by (rule every_test, code_simp, simp?)

definition "M2 = put_doc ''nfts.json'' (Doc_ids []) (M1\<lparr>sv_tick := 6\<rparr>)"

lemma mined_record: "record_receipt smm sample_receipt JNull (M1\<lparr>sv_tick := 5\<rparr>) = (Inr (), M2)"
  by (rule every_test, code_simp, simp?)

definition "mined_nonce = nonce_default (ex_nonce smm)"
definition "M3 = snd (store_write (ex_host smm) ''evm_nonce.json'' (Doc_nonce mined_nonce) M2)"
definition "mined_event = JObj [(''hash'', JStr ''0x01''), (''status'', jget sample_receipt ''status''),
  (''block'', jget sample_receipt ''blockNumber''), (''next_floor'', JNum (PosInt 0))]"
definition "M4 = snd (store_event (ex_host smm) ''evm_nonce_confirmed'' mined_event M3)"

lemma mined_steps:
  "fst (store_write (ex_host smm) ''evm_nonce.json'' (Doc_nonce mined_nonce) M2) = Inr ()"
  "fst (store_event (ex_host smm) ''evm_nonce_confirmed'' mined_event M3) = Inr ()"
  "fst (store_finish (ex_host smm) sample_receipt M4) = Inr ()"
  by code_simp+

lemma mined_load: "nonce_load (ex_nonce smm) M2 = Inr mined_nonce"
  by (rule every_test, code_simp, simp?)

lemma mined_inflight: "ns_inflight mined_nonce = None" "ns_next_floor mined_nonce = 0" "mined_nonce\<lparr>ns_inflight := None\<rparr> = mined_nonce"
  by (simp_all add: mined_nonce_def nonce_default_def)

lemma mined_confirmed: "fst (nonce_confirmed (ex_host smm) (ex_nonce smm) ''0x01'' sample_receipt M2) = Inr ()"
  by (simp add: nonce_confirmed_def sbind_eq Let_def mined_load mined_inflight mined_steps(1) [THEN named, folded M3_def]
    mined_steps(2) [THEN named, folded M4_def] mined_steps(3) flip: mined_event_def)

definition "M5 = snd (nonce_confirmed (ex_host smm) (ex_nonce smm) ''0x01'' sample_receipt M2)"

lemma mined_settle: "fst (settle_receipt smm JNull ''0x01'' sample_receipt M1) = Inr (Some sample_receipt)"
  by (simp add: settle_receipt_def sbind_eq mined_status mined_record mined_confirmed [THEN named, folded M5_def])

definition "M6 = snd (settle_receipt smm JNull ''0x01'' sample_receipt M1)"

lemma mined_ask: "node_ask (ex_node smm) ''eth_getTransactionReceipt'' (JArr [JStr ''0x01'']) (sample_tx_store\<lparr>sv_tick := 2\<rparr>)
    = (Inr sample_receipt, M1)"
  by (simp add: node_ask_def node_raw_def sbind_eq smm_def sample_executor_def sample_v3_def sample_node_def node_res_def M1_def)

lemma sample_mined: "fst (wait_receipt smm ''0x01'' JNull sample_tx_store) = Inr sample_receipt"
proof -
  have c: "wait_candidates smm ''0x01'' sample_tx_store = Inr [''0x01'']" by code_simp
  have t: "\<not> secs (unat (lq_nonce_refresh_seconds (ex_cfg smm))) \<le> secs (Suc 0) - secs 0"
    by (simp add: smm_def sample_executor_def sample_v3_def sample_lq_def secs_def)
  have m: "ex_mono smm = secs" by (simp add: smm_def sample_executor_def)
  have z: "sv_tick sample_tx_store = 0" by (simp add: sample_tx_store_def sample_store_def)
  have n: "\<not> is_null sample_receipt" by (simp add: sample_receipt_def)
  have two: "sample_tx_store\<lparr>sv_tick := Suc (Suc 0)\<rparr> = sample_tx_store\<lparr>sv_tick := 2\<rparr>" by (simp add: numeral_2_eq_2)
  have w: "wait_rounds = Suc 89" by (simp add: wait_rounds_def)
  show ?thesis
    unfolding wait_receipt_def w wait_loop.simps
    by (simp add: sbind_eq c mono_now_def m z t two mined_ask n mined_settle [THEN named, folded M6_def] del: wait_loop.simps)
qed

theorem receipt_is_final_witness: "final_receipt smm ''0x01'' sample_receipt"
proof -
  have c: "wait_candidates smm ''0x01'' sample_tx_store = Inr [''0x01'']" by code_simp
  show ?thesis using receipt_is_final [OF sample_mined [THEN named]] c by auto
qed

end
