(* ===== verification/Lp_Live.thy ===== *)
theory Lp_Live
  imports V3_Executor Hl_Hedge Runtime Recovery
begin

text \<open>
  The live runner (\<open>src/engine/live.rs\<close>): reading the actual inventory, the checks before and during
  an entry, and the execution of a decision as a sequence of actions on the pool and on the hedge.
  The platform is a record of operations, which the Uniswap V3 executor provides
  (\<open>LiquidityExecutor\<close> in \<open>src/domain.rs\<close> and its implementation in \<open>tx.rs\<close>).
\<close>

section \<open>The platform\<close>

record liquidity =
  lx_refresh :: "unit st"
  lx_snapshot :: "pool_snapshot st"
  lx_positions :: "lp_position list st"
  lx_balances :: "(f64 \<times> f64) st"
  lx_base_requirement :: "f64 \<Rightarrow> f64 \<Rightarrow> pool_snapshot \<Rightarrow> f64 res"
  lx_mint :: "string \<Rightarrow> f64 \<Rightarrow> f64 \<Rightarrow> unit st"
  lx_bounded_requirement :: "f64 \<Rightarrow> f64 \<times> f64 \<Rightarrow> pool_snapshot \<Rightarrow> f64 res"
  lx_mint_bounded :: "string \<Rightarrow> f64 \<Rightarrow> f64 \<times> f64 \<Rightarrow> unit st"
  lx_increase :: "lp_position \<Rightarrow> f64 \<Rightarrow> unit st"
  lx_remove :: "lp_position \<Rightarrow> unit st"
  lx_swap :: "bool \<Rightarrow> f64 \<Rightarrow> unit st"

definition finished :: "'a st \<Rightarrow> unit st" where
  "finished m = sbind m (\<lambda>_. slift (Inr ()))"

definition executor_liquidity :: "executor \<Rightarrow> liquidity" where
  "executor_liquidity x =
     \<lparr>lx_refresh = finished (ex_refresh x),
      lx_snapshot = fresh_snapshot (ex_v3 x),
      lx_positions = current_positions x,
      lx_balances = wallet (ex_v3 x) (ex_owner x),
      lx_base_requirement = mint_base_requirement x,
      lx_mint = (\<lambda>layer value width. finished (mint x layer value width)),
      lx_bounded_requirement = bounded_base_requirement x,
      lx_mint_bounded = (\<lambda>layer value ws. finished (mint_plan x layer value (fst ws) (Some ws))),
      lx_increase = (\<lambda>pos value. finished (increase x pos value)),
      lx_remove = (\<lambda>pos. finished (remove_lp x pos)),
      lx_swap = (\<lambda>sell amount. finished (swap x sell amount))\<rparr>"

text \<open>
  \<open>lv_expired n\<close>: the seconds of an observation batch have run out when the operation that starts at
  effect \<open>n\<close> is awaited.
\<close>

record live =
  lv_liquidity :: liquidity
  lv_hl :: client
  lv_cfg :: config
  lv_libm :: libm
  lv_expired :: "nat \<Rightarrow> bool"

abbreviation lv_host :: "live \<Rightarrow> host" where
  "lv_host l \<equiv> cl_host (lv_hl l)"

abbreviation lv_strategy :: "live \<Rightarrow> strategy_config" where
  "lv_strategy l \<equiv> cf_strategy (lv_cfg l)"

abbreviation lv_coin :: "live \<Rightarrow> string" where
  "lv_coin l \<equiv> hc_hedge_coin (cf_hyperliquid (lv_cfg l))"

text \<open>An expired batch is abandoned where it waits; what it did before remains.\<close>

definition awaited :: "live \<Rightarrow> bool \<Rightarrow> 'a st \<Rightarrow> 'a st" where
  "awaited l batch m s =
     (if batch \<and> lv_expired l (sv_tick s) then (observe True (fst (m s)), s) else m s)"

section \<open>Records of what was seen\<close>

definition json_position :: "lp_position \<Rightarrow> json" where
  "json_position p = JObj [(''layer'', JStr (lp_layer p)), (''token_id'', opt_text (lp_token_id p)),
     (''lower'', json_f64 (lp_lower p)), (''upper'', json_f64 (lp_upper p)), (''liquidity'', json_f64 (lp_liquidity p)),
     (''raw_liquidity'', JStr (lp_raw_liquidity p)), (''unclaimed_base'', json_f64 (lp_unclaimed_base p)),
     (''unclaimed_quote'', json_f64 (lp_unclaimed_quote p)), (''base'', json_f64 (lp_base p)), (''quote'', json_f64 (lp_quote p))]"

definition json_portfolio :: "portfolio \<Rightarrow> json" where
  "json_portfolio pf = JObj [(''positions'', JArr (map json_position (pf_positions pf))),
     (''wallet_base'', json_f64 (pf_wallet_base pf)), (''wallet_quote'', json_f64 (pf_wallet_quote pf)),
     (''short_base'', json_f64 (pf_short_base pf)), (''hedge_equity'', json_f64 (pf_hedge_equity pf)),
     (''reserve'', json_f64 (pf_reserve pf))]"

fun json_intent :: "lp_intent \<Rightarrow> json" where
  "json_intent Hold = JStr ''Hold''"
| "json_intent ExitToQuote = JStr ''ExitToQuote''"
| "json_intent (Deploy x) = JObj [(''Deploy'', JObj [(''fraction'', json_f64 x)])]"
| "json_intent (Recenter ls) = JObj [(''Recenter'', JObj [(''layers'', JArr (map JStr ls))])]"

definition json_decision :: "decision \<Rightarrow> json" where
  "json_decision d = JObj [(''state'', JStr (d_state d)), (''reasons'', JArr (map JStr (d_reasons d))),
     (''lp'', json_intent (d_lp d)), (''target_short_base'', json_f64 (d_target_short_base d)),
     (''emergency'', JBool (d_emergency d))]"

section \<open>The actual inventory\<close>

fun only_coin :: "string \<Rightarrow> json list \<Rightarrow> unit res" where
  "only_coin coin [] = Inr ()"
| "only_coin coin (ap # aps) =
     rbind (if jget_path ap [''position'', ''coin''] = JStr coin then Inr True
            else rbind (num (jget_path ap [''position'', ''szi''])) (\<lambda>n. Inr (f_eq n 0))) (\<lambda>ok.
     rbind (ensure ok ''other live positions in hedge account are not part of this strategy'') (\<lambda>_. only_coin coin aps))"

definition inventory_row :: "live \<Rightarrow> json \<Rightarrow> portfolio \<Rightarrow> json st" where
  "inventory_row l account pf =
     sbind (host_now (lv_host l)) (\<lambda>now.
     sbind (slift (client_user (lv_hl l))) (\<lambda>u.
     slift (Inr (JObj [(''observed_ms'', json_u64 now), (''user'', JStr u), (''account'', account), (''portfolio'', json_portfolio pf)]))))"

definition account_row :: "live \<Rightarrow> json \<Rightarrow> json st" where
  "account_row l account =
     sbind (host_now (lv_host l)) (\<lambda>now.
     sbind (slift (client_user (lv_hl l))) (\<lambda>u.
     slift (Inr (JObj [(''observed_ms'', json_u64 now), (''user'', JStr u), (''account'', account)]))))"

definition portfolio_of :: "live \<Rightarrow> lp_position list \<Rightarrow> f64 \<times> f64 \<Rightarrow> json \<Rightarrow> portfolio res" where
  "portfolio_of l ps bq account =
     rbind (position_size account (lv_coin l)) (\<lambda>signed.
     rbind (ensure (signed \<le> 0) ''unexpected long perpetual position; use a dedicated hedge account'') (\<lambda>_.
     rbind (context_opt (as_array (jget account ''assetPositions'')) ''asset positions'') (\<lambda>aps.
     rbind (only_coin (lv_coin l) aps) (\<lambda>_.
     rbind (collateral_of account) (\<lambda>co.
     Inr \<lparr>pf_positions = ps, pf_wallet_base = fst bq, pf_wallet_quote = snd bq, pf_short_base = - signed,
       pf_hedge_equity = co_equity_usdc co, pf_reserve = sc_reserve (lv_strategy l)\<rparr>)))))"

definition record_inventory :: "live \<Rightarrow> json \<Rightarrow> portfolio \<Rightarrow> unit st" where
  "record_inventory l account pf =
     sbind (sread (read_json ''live_inventory.json'')) (\<lambda>previous.
     sbind (inventory_row l account pf) (\<lambda>row.
     sbind (case previous of
         Some old \<Rightarrow>
           if \<not> json_eq (jget old ''portfolio'') (jget row ''portfolio'')
           then store_event (lv_host l) ''inventory_corrected'' (JObj [(''previous'', old), (''actual'', row)])
           else slift (Inr ())
       | None \<Rightarrow> slift (Inr ())) (\<lambda>_.
     store_save (lv_host l) ''live_inventory.json'' (Doc_json row))))"

definition live_portfolio :: "live \<Rightarrow> bool \<Rightarrow> portfolio st" where
  "live_portfolio l batch =
     sbind (awaited l batch (lx_positions (lv_liquidity l))) (\<lambda>ps.
     sbind (if ps \<noteq> [] then record_lp_history (lv_host l) (JObj [(''source'', JStr ''reconciled_inventory'')])
            else slift (Inr ())) (\<lambda>_.
     sbind (awaited l batch (lx_balances (lv_liquidity l))) (\<lambda>bq.
     sbind (awaited l batch (collateral_account (lv_hl l))) (\<lambda>account.
     sbind (account_row l account) (\<lambda>row.
     sbind (store_save (lv_host l) ''account_snapshot.json'' (Doc_json row)) (\<lambda>_.
     sbind (slift (portfolio_of l ps bq account)) (\<lambda>pf.
     sbind (record_inventory l account pf) (\<lambda>_.
     slift (Inr pf)))))))))"

section \<open>Checks during an entry\<close>

definition entry_rows :: "strategy_config \<Rightarrow> nat" where
  "entry_rows c = max (max (sc_vol_long_hours c + sc_vol_short_hours c + 2) (sc_ema_slow_hours c * 3 + 2))
     (if sc_eth_persistent c \<noteq> None then 74 else 0)"

definition candle_start :: "strategy_config \<Rightarrow> u64 \<Rightarrow> u64" where
  "candle_start c now = sat_sub now (of_nat (entry_rows c) * 3600000)"

text \<open>The band profile compares the account with the persisted risk state.\<close>

definition band_guard :: "live \<Rightarrow> persistent_config \<Rightarrow> feature \<Rightarrow> f64 \<Rightarrow> u64 \<Rightarrow> unit st" where
  "band_guard l pc f price started =
     (if pc_band pc = None then slift (Inr ())
      else
        sbind (sread (\<lambda>s. rbind (read_checkpoint ''checkpoint.json'' s) (\<lambda>d.
          context_opt d ''band entry requires persisted risk basis''))) (\<lambda>cp.
        sbind (live_portfolio l True) (\<lambda>actual.
        sbind (host_now (lv_host l)) (\<lambda>now.
        sbind (slift (fresh started now (rt_observation_timeout_seconds (cf_runtime (lv_cfg l))))) (\<lambda>_.
        if guard_danger (guard_of pc (lv_strategy l)) f price \<noteq> None
            \<or> \<not> entry_equity_safe (lv_strategy l) (cp_strategy cp) (pf_equity actual price)
        then slift (Inl BandEntryRisk) else slift (Inr ()))))))"

definition persistent_guard :: "live \<Rightarrow> persistent_config \<Rightarrow> candle list \<Rightarrow> f64 \<Rightarrow> u64 \<Rightarrow> u64 \<Rightarrow> feature option st" where
  "persistent_guard l pc bars price started now =
     sbind (slift (latest_feature (lv_libm l) bars now)) (\<lambda>f.
     sbind (band_guard l pc f price started) (\<lambda>_.
     sbind (slift (ensure (guard_danger (guard_of pc (lv_strategy l)) f price = None)
       ''persistent LP market became unsafe during workflow; preserve hedge and reconcile'')) (\<lambda>_.
     slift (Inr (Some f)))))"

definition market_safe :: "strategy_config \<Rightarrow> metrics \<Rightarrow> f64 \<Rightarrow> bool" where
  "market_safe c m price \<longleftrightarrow> \<not> me_downtrend m \<and> me_vol_ratio m < sc_vol_pause_ratio c
     \<and> - sc_fast_drop_1h c \<le> me_return_1h m \<and> - sc_fast_drop_1h c \<le> price / me_last_close m - 1"

definition entry_guard_market :: "live \<Rightarrow> candle list \<Rightarrow> f64 \<Rightarrow> u64 \<Rightarrow> u64 \<Rightarrow> feature option st" where
  "entry_guard_market l bars price started now =
     (case sc_eth_persistent (lv_strategy l) of
        Some pc \<Rightarrow> persistent_guard l pc bars price started now
      | None \<Rightarrow>
          sbind (slift (calculate (lv_libm l) bars (lv_strategy l) now)) (\<lambda>m.
          sbind (slift (ensure (market_safe (lv_strategy l) m price)
            ''market became unsafe during LP workflow; hold hedge and reconcile workflow'')) (\<lambda>_.
          slift (Inr None))))"

definition within_basis :: "strategy_config \<Rightarrow> f64 \<Rightarrow> f64 \<Rightarrow> bool" where
  "within_basis c pool perp \<longleftrightarrow> \<bar>pool / perp - 1\<bar> * lit 10000 \<le> sc_max_basis_bps c"

text \<open>One batch of observations: the pool, the hedge market and the candles, all recent.\<close>

definition entry_guard :: "live \<Rightarrow> feature option st" where
  "entry_guard l =
     (let c = lv_strategy l; seconds = rt_observation_timeout_seconds (cf_runtime (lv_cfg l)) in
      sbind (host_now (lv_host l)) (\<lambda>started.
      sbind (awaited l True (lx_snapshot (lv_liquidity l))) (\<lambda>snap.
      sbind (awaited l True (client_market (lv_hl l) (lv_coin l))) (\<lambda>(p, t).
      sbind (slift (ensure (within_basis c (ps_price snap) p) ''entry basis limit'')) (\<lambda>_.
      sbind (awaited l True (client_candles (lv_hl l) (lv_coin l) ''1h'' (candle_start c started) started)) (\<lambda>bars.
      sbind (host_now (lv_host l)) (\<lambda>now.
      sbind (slift (rbind (fresh started now seconds) (\<lambda>_. rbind (fresh (ps_time_ms snap) now (sc_max_data_age_seconds c)) (\<lambda>_.
        fresh t now (sc_max_data_age_seconds c))))) (\<lambda>_.
      entry_guard_market l bars (ps_price snap) started now))))))))"

section \<open>Actions\<close>

definition live_hedge :: "live \<Rightarrow> f64 \<Rightarrow> bool \<Rightarrow> unit st" where
  "live_hedge l target emergency = hedge (lv_hl l) (lv_strategy l) target emergency"

definition live_sync :: "live \<Rightarrow> bool \<Rightarrow> unit st" where
  "live_sync l recover_managed = sync_orders (lv_hl l) recover_managed"

text \<open>Swap what the wallet lacks or has too much of, when it is worth it.\<close>

definition rebalance :: "live \<Rightarrow> f64 \<Rightarrow> f64 \<Rightarrow> unit st" where
  "rebalance l delta price =
     (if 1 < \<bar>delta\<bar> * price
      then lx_swap (lv_liquidity l) (delta < 0) (if delta < 0 then - delta else delta * price)
      else slift (Inr ()))"

definition scale_value :: "strategy_config \<Rightarrow> f64 \<Rightarrow> layer_config \<Rightarrow> lp_position \<Rightarrow> f64 \<Rightarrow> f64 \<times> f64 \<Rightarrow> f64" where
  "scale_value c fraction layer pos price bq =
     f_min (sc_lp_budget c * fraction * lc_weight layer - (lp_base pos * price + lp_quote pos)) (fst bq * price + snd bq) * lit 0.995"

definition scale_need :: "f64 \<Rightarrow> lp_position \<Rightarrow> f64 \<Rightarrow> f64 res" where
  "scale_need value pos price =
     rbind (ensure (lp_lower pos < price \<and> price < lp_upper pos) ''cannot scale an out-of-range layer'') (\<lambda>_.
     rbind (liquidity_for_value value (lp_lower pos) (lp_upper pos) price) (\<lambda>q.
     rbind (amounts q (lp_lower pos) (lp_upper pos) price) (\<lambda>am. Inr (fst am))))"

definition scale_position :: "live \<Rightarrow> f64 \<Rightarrow> lp_position \<Rightarrow> unit st" where
  "scale_position l fraction pos =
     sbind (entry_guard l) (\<lambda>_.
     sbind (lx_snapshot (lv_liquidity l)) (\<lambda>snap.
     sbind (slift (context_opt (find (\<lambda>y. lc_name y = lp_layer pos) (sc_layers (lv_strategy l))) ''unknown layer'')) (\<lambda>layer.
     sbind (lx_balances (lv_liquidity l)) (\<lambda>bq.
     let value = scale_value (lv_strategy l) fraction layer pos (ps_price snap) bq in
     if value < lit 10 then slift (Inr ())
     else
       sbind (slift (scale_need value pos (ps_price snap))) (\<lambda>needed.
       sbind (rebalance l (needed - fst bq) (ps_price snap)) (\<lambda>_.
       sbind (live_portfolio l False) (\<lambda>pf.
       sbind (live_hedge l (pf_base pf) True) (\<lambda>_.
       sbind (entry_guard l) (\<lambda>_.
       lx_increase (lv_liquidity l) pos (value * lit 0.998))))))))))"

fun scale_positions :: "live \<Rightarrow> f64 \<Rightarrow> lp_position list \<Rightarrow> unit st" where
  "scale_positions l fraction [] = slift (Inr ())"
| "scale_positions l fraction (p # ps) =
     sbind (scale_position l fraction p) (\<lambda>_. scale_positions l fraction ps)"

fun remove_positions :: "live \<Rightarrow> lp_position list \<Rightarrow> unit st" where
  "remove_positions l [] = slift (Inr ())"
| "remove_positions l (p # ps) = sbind (lx_remove (lv_liquidity l) p) (\<lambda>_. remove_positions l ps)"

section \<open>Before an entry\<close>

text \<open>Capacity to hedge the whole budget, checked before anything is bought.\<close>

definition entry_collateral :: "live \<Rightarrow> f64 \<Rightarrow> f64" where
  "entry_collateral l fraction =
     sc_lp_budget (lv_strategy l) * fraction / f_of_word (hc_leverage (cf_hyperliquid (lv_cfg l))) / lit 0.9"

definition preflight_funds :: "live \<Rightarrow> f64 \<Rightarrow> json \<Rightarrow> unit res" where
  "preflight_funds l fraction account =
     rbind (collateral_of account) (\<lambda>co.
     rbind (ensure (is_finite (co_equity_usdc co) \<and> is_finite (co_available_short_usdc co)) ''invalid hedge collateral observation'') (\<lambda>_.
     let required = entry_collateral l fraction in
     if sc_hedge_collateral (lv_strategy l) < required \<or> co_equity_usdc co < required \<or> co_available_short_usdc co < required
     then Inl (HedgeBudgetUnavailable ''entry_waiting_hedge_collateral'') else Inr ()))"

definition preflight_entry :: "live \<Rightarrow> decision \<Rightarrow> portfolio \<Rightarrow> unit st" where
  "preflight_entry l d pf =
     (case d_lp d of
        Deploy fraction \<Rightarrow>
          if pf_positions pf \<noteq> [] then slift (Inr ())
          else
            sbind (slift (ensure (is_finite fraction \<and> 0 < fraction \<and> fraction \<le> 1) ''invalid deployment fraction'')) (\<lambda>_.
            sbind (collateral_account (lv_hl l)) (\<lambda>account.
            slift (preflight_funds l fraction account)))
      | _ \<Rightarrow> slift (Inr ()))"

section \<open>Executing a decision\<close>

definition workflow_file :: string where
  "workflow_file = ''workflow.json''"

definition begin_workflow :: "live \<Rightarrow> decision \<Rightarrow> unit st" where
  "begin_workflow l d =
     sbind (host_now (lv_host l)) (\<lambda>now.
     store_save (lv_host l) workflow_file (Doc_json (JObj [(''decision'', json_decision d), (''started_ms'', json_u64 now)])))"

definition end_workflow :: "live \<Rightarrow> unit st" where
  "end_workflow l = store_write (lv_host l) workflow_file (Doc_json JNull)"

definition is_budget_error :: "err \<Rightarrow> bool" where
  "is_budget_error e = (case e of HedgeBudgetUnavailable _ \<Rightarrow> True | _ \<Rightarrow> False)"

text \<open>A hedge that was definitely refused does not stop the sale of the risk itself.\<close>

definition protect_first :: "live \<Rightarrow> decision \<Rightarrow> portfolio \<Rightarrow> unit st" where
  "protect_first l d pf =
     sbind (attempted (live_hedge l (pf_base pf) True)) (\<lambda>r.
     case r of
       Inr _ \<Rightarrow> slift (Inr ())
     | Inl e \<Rightarrow>
         if d_lp d \<noteq> ExitToQuote then slift (Inl e)
         else
           sbind (sread store_pending) (\<lambda>p.
           if p \<noteq> None \<or> \<not> (is_rejection e \<or> is_budget_error e) then slift (Inl e)
           else store_event (lv_host l) ''exit_without_full_hedge'' (JStr (err_text e))))"

definition prepare_workflow :: "live \<Rightarrow> decision \<Rightarrow> portfolio \<Rightarrow> unit st" where
  "prepare_workflow l d pf =
     (if band_config_of (lv_strategy l) \<noteq> None then live_sync l True else protect_first l d pf)"

definition final_hedge :: "live \<Rightarrow> unit st" where
  "final_hedge l =
     sbind (live_portfolio l False) (\<lambda>pf.
     sbind (lx_snapshot (lv_liquidity l)) (\<lambda>snap.
     sbind (slift (inventory_hedge_target (lv_strategy l) pf (ps_price snap))) (\<lambda>target.
     live_hedge l target True)))"

definition enlarge :: "live \<Rightarrow> f64 \<Rightarrow> lp_position list \<Rightarrow> unit st" where
  "enlarge l fraction ps = sbind (scale_positions l fraction ps) (\<lambda>_. final_hedge l)"

text \<open>The sale comes first, then the reduction of the short position.\<close>

definition exit_inventory :: "live \<Rightarrow> unit st" where
  "exit_inventory l =
     sbind (lx_balances (lv_liquidity l)) (\<lambda>bq.
     sbind (if lit 0.00000001 < fst bq then lx_swap (lv_liquidity l) True (fst bq) else slift (Inr ())) (\<lambda>_.
     sbind (lx_balances (lv_liquidity l)) (\<lambda>rest.
     live_hedge l (fst rest) True)))"

definition layer_widths :: "live \<Rightarrow> feature option \<Rightarrow> (f64 \<times> f64) option res" where
  "layer_widths l f =
     (case band_config_of (lv_strategy l) of
        None \<Rightarrow> Inr None
      | Some b \<Rightarrow> (case f of None \<Rightarrow> Inl (Panic ''validated ETH feature'') | Some x \<Rightarrow> Inr (Some (band_widths b x))))"

definition layer_need :: "live \<Rightarrow> f64 \<Rightarrow> layer_config \<Rightarrow> (f64 \<times> f64) option \<Rightarrow> pool_snapshot \<Rightarrow> f64 res" where
  "layer_need l value layer widths snap =
     (case widths of
        Some ws \<Rightarrow> lx_bounded_requirement (lv_liquidity l) value ws snap
      | None \<Rightarrow> lx_base_requirement (lv_liquidity l) value (lc_half_width layer) snap)"

definition mint_one :: "live \<Rightarrow> layer_config \<Rightarrow> f64 \<Rightarrow> (f64 \<times> f64) option \<Rightarrow> unit st" where
  "mint_one l layer value widths =
     (case widths of
        Some ws \<Rightarrow> lx_mint_bounded (lv_liquidity l) (lc_name layer) value ws
      | None \<Rightarrow> lx_mint (lv_liquidity l) (lc_name layer) value (lc_half_width layer))"

definition open_layer :: "live \<Rightarrow> f64 \<Rightarrow> f64 \<Rightarrow> layer_config \<Rightarrow> unit st" where
  "open_layer l budget weights layer =
     sbind (entry_guard l) (\<lambda>f.
     sbind (slift (layer_widths l f)) (\<lambda>widths.
     sbind (lx_snapshot (lv_liquidity l)) (\<lambda>snap.
     let value = budget * lc_weight layer / weights in
     sbind (slift (layer_need l value layer widths snap)) (\<lambda>needed.
     sbind (lx_balances (lv_liquidity l)) (\<lambda>bq.
     sbind (rebalance l (needed - fst bq) (ps_price snap)) (\<lambda>_.
     sbind (if band_config_of (lv_strategy l) = None
            then sbind (live_portfolio l False) (\<lambda>pf. live_hedge l (pf_base pf) True)
            else slift (Inr ())) (\<lambda>_.
     sbind (entry_guard l) (\<lambda>_.
     mint_one l layer (value * lit 0.998) widths))))))))"

fun live_open_layers :: "live \<Rightarrow> f64 \<Rightarrow> f64 \<Rightarrow> layer_config list \<Rightarrow> unit st" where
  "live_open_layers l budget weights [] = slift (Inr ())"
| "live_open_layers l budget weights (y # ys) =
     sbind (open_layer l budget weights y) (\<lambda>_. live_open_layers l budget weights ys)"

text \<open>The layers an intent opens, and the share of the budget it may use.\<close>

definition wanted_layers :: "strategy_config \<Rightarrow> lp_intent \<Rightarrow> layer_config list" where
  "wanted_layers c lp =
     (case lp of Recenter names \<Rightarrow> filter (\<lambda>y. lc_name y \<in> set names) (sc_layers c)
      | _ \<Rightarrow> filter (\<lambda>y. lc_name y \<in> set (map lc_name (sc_layers c))) (sc_layers c))"

definition intent_fraction :: "lp_intent \<Rightarrow> f64" where
  "intent_fraction lp = (case lp of Deploy x \<Rightarrow> x | _ \<Rightarrow> 1)"

definition entry_budget :: "strategy_config \<Rightarrow> f64 \<Rightarrow> f64 \<Rightarrow> f64 \<Rightarrow> f64" where
  "entry_budget c fraction weights available =
     f_min (sc_lp_budget c * fraction * weights) available * lit 0.995"

definition enter :: "live \<Rightarrow> lp_intent \<Rightarrow> unit st" where
  "enter l lp =
     sbind (lx_snapshot (lv_liquidity l)) (\<lambda>snap.
     sbind (lx_balances (lv_liquidity l)) (\<lambda>bq.
     let layers = wanted_layers (lv_strategy l) lp; weights = f_sum (map lc_weight layers);
         budget = entry_budget (lv_strategy l) (intent_fraction lp) weights (fst bq * ps_price snap + snd bq) in
     sbind (live_open_layers l budget weights layers) (\<lambda>_. final_hedge l)))"

definition leaving :: "lp_intent \<Rightarrow> lp_position list \<Rightarrow> lp_position list" where
  "leaving lp ps =
     (let names = (case lp of Recenter ls \<Rightarrow> ls | _ \<Rightarrow> map lp_layer ps) in
      filter (\<lambda>p. lp_layer p \<in> set names) ps)"

text \<open>Moving a band waits between leaving and entering; the seconds only let the clock advance.\<close>

definition roll_wait :: "live \<Rightarrow> lp_intent \<Rightarrow> unit st" where
  "roll_wait l lp =
     (case band_config_of (lv_strategy l) of
        None \<Rightarrow> slift (Inr ())
      | Some b \<Rightarrow>
          (case lp of
             Recenter _ \<Rightarrow> store_event (lv_host l) ''band_roll_wait'' 
               (JObj [(''seconds'', json_u64 (bc_roll_delay_seconds b)),
                 (''note'', JStr ''old LP left; inventory and short position kept; a restart reconciles by the workflow and mints nothing again'')])
           | _ \<Rightarrow> slift (Inr ())))"

definition workflow_body :: "live \<Rightarrow> decision \<Rightarrow> portfolio \<Rightarrow> unit st" where
  "workflow_body l d pf =
     sbind (prepare_workflow l d pf) (\<lambda>_.
     case d_lp d of
       Deploy fraction \<Rightarrow>
         if pf_positions pf \<noteq> [] then enlarge l fraction (pf_positions pf)
         else
           sbind (remove_positions l (leaving (d_lp d) (pf_positions pf))) (\<lambda>_.
           enter l (d_lp d))
     | lp \<Rightarrow>
         sbind (remove_positions l (leaving lp (pf_positions pf))) (\<lambda>_.
         sbind (roll_wait l lp) (\<lambda>_.
         if lp = ExitToQuote then exit_inventory l else enter l lp)))"

definition run_workflow :: "live \<Rightarrow> decision \<Rightarrow> portfolio \<Rightarrow> unit st" where
  "run_workflow l d pf =
     sbind (begin_workflow l d) (\<lambda>_.
     sbind (workflow_body l d pf) (\<lambda>_.
     end_workflow l))"

definition hold :: "live \<Rightarrow> decision \<Rightarrow> unit st" where
  "hold l d =
     sbind (if d_emergency d then slift (Inr True)
            else if 0 < d_target_short_base d
            then sbind (live_portfolio l False) (\<lambda>pf. slift (Inr (pf_base pf * lit 0.99 \<le> d_target_short_base d)))
            else slift (Inr False)) (\<lambda>emergency.
     live_hedge l (d_target_short_base d) emergency)"

definition live_apply :: "live \<Rightarrow> decision \<Rightarrow> unit st" where
  "live_apply l d =
     (if d_lp d = Hold then hold l d
      else
        sbind (live_portfolio l False) (\<lambda>pf.
        sbind (preflight_entry l d pf) (\<lambda>_.
        run_workflow l d pf)))"

text \<open>A cycle that only holds reuses the inventory it has just read.\<close>

definition hold_observed :: "live \<Rightarrow> decision \<Rightarrow> portfolio \<Rightarrow> u64 \<Rightarrow> unit st" where
  "hold_observed l d pf observed_ms =
     sbind (slift (ensure (d_lp d = Hold) ''observed hold cannot execute LP mutations'')) (\<lambda>_.
     sbind (host_now (lv_host l)) (\<lambda>now.
     sbind (slift (fresh observed_ms now (sc_max_data_age_seconds (lv_strategy l)))) (\<lambda>_.
     live_hedge l (d_target_short_base d)
       (d_emergency d \<or> 0 < d_target_short_base d \<and> pf_base pf * lit 0.99 \<le> d_target_short_base d))))"

end
