(* ===== verification/Lp_Order.thy ===== *)
theory Lp_Order
  imports Lp_Live V3_Reads V3_Run_Props Hl_Hedge_Props
begin

text \<open>
  What the operations of the executor and of the live runner leave alone. A relation on stores that
  the wallet's documents and a broadcast respect is kept by every operation of the executor; with
  the exchange's part, by every operation of the live runner.
\<close>

section \<open>The executor\<close>

definition tx_docs :: "string set" where
  "tx_docs = {''pending.json'', ''evm_nonce.json'', ''nfts.json'', ''lp_history.json'', ''lp_inventory.json'', ''execution_identity.json''}"

locale tx_order = store_steps +
  assumes tx_put: "n \<in> tx_docs \<Longrightarrow> R s (put_doc n d s)"
    and tx_cast: "R s (s\<lparr>sv_tick := t, sv_sent := sv_sent s @ [cast_entry raw]\<rparr>)"
begin

lemma keeps_doc: "n \<in> tx_docs \<Longrightarrow> keeps R (store_write h n d)"
  by (rule keeps_write) (rule tx_put)

lemma keeps_tx_finish: "keeps R (store_finish h v)"
  unfolding store_finish_def by (intro basic keeps_event keeps_doc) (simp add: tx_docs_def)

lemma keeps_tx_begin: "keeps R (store_begin h v)"
  unfolding store_begin_def by (intro basic keeps_event keeps_doc) (simp add: tx_docs_def)

lemma keeps_nonce_refresh: "keeps R (nonce_refresh h m a)"
  unfolding nonce_refresh_def refreshed_state_def adopt_pending_def inspect_inflight_def
  by (intro basic keeps_doc) (simp_all add: tx_docs_def)

lemma keeps_confirmed: "keeps R (nonce_confirmed h m hash r)"
  unfolding nonce_confirmed_def check_receipt_def Let_def
  by (intro basic keeps_doc keeps_event keeps_tx_finish) (simp_all add: tx_docs_def)

lemma keeps_prepared: "keeps R (nonce_prepared h m n hash)"
  unfolding nonce_prepared_def reserved_state_def
  by (intro basic keeps_doc keeps_event) (simp_all add: tx_docs_def)

lemma keeps_refresh: "keeps R (ex_refresh x)"
  unfolding ex_refresh_def [abs_def] by (rule keeps_at_tick) (rule keeps_nonce_refresh)

lemma keeps_next: "keeps R (ex_next_nonce x)"
  unfolding ex_next_nonce_def [abs_def] nonce_next_def
  by (rule keeps_at_tick) (intro basic keeps_nonce_refresh)

lemma keeps_history: "keeps R (record_lp_history h e)"
  unfolding record_lp_history_def by (intro basic keeps_doc) (simp_all add: tx_docs_def)

lemma keeps_record_receipt: "keeps R (record_receipt x r op)"
  unfolding record_receipt_def Let_def by (intro basic keeps_doc keeps_history) (simp_all add: tx_docs_def)

lemma keeps_settle: "keeps R (settle_receipt x op hash r)"
  unfolding settle_receipt_def receipt_status_def by (intro basic keeps_record_receipt keeps_confirmed)

lemma keeps_wait_hashes: "keeps R (wait_hashes x op hs)"
  by (induction hs) (auto intro!: basic keeps_settle)

lemma keeps_wait_loop: "keeps R (wait_loop x op hs n t)"
proof (induction n arbitrary: t)
  case 0
  show ?case unfolding wait_loop.simps by (rule keeps_pure)
next
  case (Suc n)
  show ?case unfolding wait_loop.simps by (intro basic keeps_refresh keeps_wait_hashes Suc)
qed

lemma keeps_wait: "keeps R (wait_receipt x hash op)"
  unfolding wait_receipt_def by (intro basic keeps_wait_loop)

lemma keeps_prepare_send: "keeps R (prepare_send x to data op)"
  unfolding prepare_send_def by (intro basic asks keeps_next)

lemma keeps_cast: "keeps R (node_cast x raw)"
  by (auto simp: keeps_def node_cast_def intro: tx_cast)

lemma keeps_record_error: "keeps R (record_broadcast_error x hash n e)"
  unfolding record_broadcast_error_def Let_def by (intro basic keeps_doc keeps_event) (simp add: tx_docs_def)

lemma keeps_after_cast: "keeps R (after_cast x hash n v)"
proof (cases v)
  case (Inl e)
  then show ?thesis by (cases e) (auto simp: after_cast_def intro!: basic keeps_record_error)
next
  case (Inr sent)
  then show ?thesis by (auto simp: after_cast_def intro!: basic keeps_event)
qed

lemma keeps_broadcast: "keeps R (ex_broadcast x hash raw n)"
  unfolding ex_broadcast_def by (intro basic keeps_cast keeps_after_cast)

lemma keeps_record_cast: "keeps R (record_and_cast x op n f raw)"
  unfolding record_and_cast_def Let_def by (intro basic keeps_tx_begin keeps_prepared keeps_broadcast)

lemma keeps_send: "keeps R (send x to data op)"
  unfolding send_def by (intro basic keeps_prepare_send keeps_record_cast keeps_wait)

lemma keeps_approve: "keeps R (approve x t sp am)"
  unfolding approve_def send_approval_def by (intro basic keeps_send)

lemma keeps_approve_both: "keeps R (approve_both x rb rq)"
  unfolding approve_both_def by (intro basic keeps_approve)

lemma keeps_balances: "keeps R (ex_balance x t)" "keeps R (fit_to_wallet x rb rq)"
    "keeps R (funded_liquidity_amounts x rb rq)" "keeps R (wallet_covers x rb rq)"
  unfolding fit_to_wallet_def funded_liquidity_amounts_def wallet_covers_def ex_balance_def
  by (intro basic keeps_balance)+

lemma keeps_entry_reads: "keeps R (position_range x i blk)" "keeps R (refreshed_entry_snapshot x snap)"
    "keeps R (tx_deadline x)"
  unfolding position_range_def refreshed_entry_snapshot_def tx_deadline_def
  by (intro basic keeps_position_words keeps_execution_snapshot)+

lemmas parts = keeps_balances keeps_entry_reads keeps_execution_snapshot keeps_fresh_snapshot keeps_minimum_output

lemma keeps_increase: "keeps R (increase x pos value)"
  unfolding increase_def by (intro basic parts keeps_approve_both keeps_send)

lemma keeps_mint_plan: "keeps R (mint_plan x layer value width bounded)"
  unfolding mint_plan_def by (intro basic parts keeps_approve_both keeps_send)

lemma keeps_remove: "keeps R (remove_lp x pos)"
  unfolding remove_lp_def removal_calls_def by (intro basic parts keeps_send)

lemma keeps_swap_exact: "keeps R (swap_exact x sell snap w inp)"
  unfolding swap_exact_def by (intro basic parts keeps_approve keeps_send)

lemma keeps_swap: "keeps R (swap_amount x sell am)"
  unfolding swap_amount_def Let_def exit_remainder_def
  by (intro basic keeps_event parts keeps_swap_exact)

lemma keeps_retry: "keeps R (retry_approval x expected)"
  unfolding retry_approval_def replace_approval_def cast_replacement_def record_replacement_def Let_def
  by (intro basic asks keeps_refresh keeps_wait keeps_doc keeps_event keeps_broadcast) (simp_all add: tx_docs_def)

lemma keeps_verify_inventory: "keeps R (verify_inventory x)"
  unfolding verify_inventory_def Let_def
  by (intro basic keeps_token_ids keeps_doc) (simp add: tx_docs_def)

lemma keeps_finished: "keeps R m \<Longrightarrow> keeps R (finished m)"
  unfolding finished_def by (intro basic)

end

context store_steps
begin

lemma keeps_current_positions: "keeps R (current_positions x)"
  unfolding current_positions_def by (intro basic keeps_positions)

end

section \<open>The platform and the live runner\<close>

definition inventory_docs :: "string set" where
  "inventory_docs = {''lp_history.json'', ''account_snapshot.json'', ''live_inventory.json''}"

text \<open>What the runner only looks at.\<close>

locale platform_reads = reading_order +
  fixes l :: live
  assumes snapshot_kept: "keeps R (lx_snapshot (lv_liquidity l))"
    and positions_kept: "keeps R (lx_positions (lv_liquidity l))"
    and balances_kept: "keeps R (lx_balances (lv_liquidity l))"
    and inventory_put: "n \<in> inventory_docs \<Longrightarrow> R s (put_doc n d s)"
begin

lemma keeps_awaited: "keeps R m \<Longrightarrow> keeps R (awaited l b m)"
  by (auto simp: keeps_def awaited_def intro: quiet split: if_splits)

lemma keeps_inventory:
  "n \<in> inventory_docs \<Longrightarrow> keeps R (store_write h n d)" "n \<in> inventory_docs \<Longrightarrow> keeps R (store_save h n d)"
  unfolding store_save_def by (rule keeps_write, erule inventory_put)+

lemma keeps_lp_history: "keeps R (record_lp_history h e)"
  unfolding record_lp_history_def by (intro basic keeps_inventory) (simp_all add: inventory_docs_def)

lemma keeps_record_inventory: "keeps R (record_inventory l a pf)"
  unfolding record_inventory_def inventory_row_def
  by (intro basic keeps_event keeps_inventory) (simp_all add: inventory_docs_def)

lemma keeps_portfolio: "keeps R (live_portfolio l b)"
  unfolding live_portfolio_def account_row_def
  by (intro basic keeps_awaited positions_kept balances_kept keeps_account keeps_lp_history keeps_inventory
      keeps_record_inventory) (simp_all add: inventory_docs_def)

lemma keeps_market: "keeps R (client_market c coin)" "keeps R (client_candles c coin iv a b)"
  unfolding client_market_def client_candles_def by (intro basic keeps_reads keeps_info)+

lemma keeps_guard_market: "keeps R (entry_guard_market l bars p a b)"
  unfolding entry_guard_market_def persistent_guard_def band_guard_def by (intro basic keeps_portfolio)

lemma keeps_guard: "keeps R (entry_guard l)"
  unfolding entry_guard_def Let_def
  by (intro basic keeps_awaited snapshot_kept keeps_market keeps_guard_market)

lemma keeps_preflight: "keeps R (preflight_entry l d pf)"
  unfolding preflight_entry_def by (cases "d_lp d") (auto intro!: basic keeps_account)

end

text \<open>What changes the pool's side.\<close>

locale platform_order = platform_reads + trading_order +
  assumes mint_kept: "keeps R (lx_mint (lv_liquidity l) y v w)"
    and bounded_kept: "keeps R (lx_mint_bounded (lv_liquidity l) y v ws)"
    and increase_kept: "keeps R (lx_increase (lv_liquidity l) p v)"
    and remove_kept: "keeps R (lx_remove (lv_liquidity l) p)"
    and swap_kept: "keeps R (lx_swap (lv_liquidity l) b a)"
begin

lemma keeps_live_hedge: "keeps R (live_hedge l t e)"
  unfolding live_hedge_def by (rule keeps_hedge)

lemma keeps_live_sync: "keeps R (live_sync l b)"
  unfolding live_sync_def by (rule keeps_sync)

lemma keeps_rebalance: "keeps R (rebalance l d p)"
  unfolding rebalance_def by (intro basic swap_kept)

lemmas acts = snapshot_kept balances_kept keeps_portfolio keeps_guard keeps_live_hedge keeps_live_sync keeps_rebalance
  mint_kept bounded_kept increase_kept remove_kept swap_kept

lemma keeps_scale_position: "keeps R (scale_position l x p)"
  unfolding scale_position_def Let_def by (intro basic acts)

lemma keeps_scale: "keeps R (scale_positions l x ps)"
  by (induction ps) (auto intro!: basic keeps_scale_position)

lemma keeps_removals: "keeps R (remove_positions l ps)"
  by (induction ps) (auto intro!: basic acts)

lemma keeps_final: "keeps R (final_hedge l)"
  unfolding final_hedge_def by (intro basic acts)

lemma keeps_enlarge: "keeps R (enlarge l x ps)"
  unfolding enlarge_def by (intro basic keeps_scale keeps_final)

lemma keeps_exit: "keeps R (exit_inventory l)"
  unfolding exit_inventory_def by (intro basic acts)

lemma keeps_mint_one: "keeps R (mint_one l y v ws)"
  unfolding mint_one_def by (intro basic acts)

lemma keeps_open_layer: "keeps R (open_layer l b w y)"
  unfolding open_layer_def Let_def by (intro basic acts keeps_mint_one)

lemma keeps_layers: "keeps R (live_open_layers l b w ys)"
  by (induction ys) (auto intro!: basic keeps_open_layer)

lemma keeps_enter: "keeps R (enter l lp)"
  unfolding enter_def Let_def by (intro basic acts keeps_layers keeps_final)

lemma keeps_protect: "keeps R (protect_first l d pf)"
  unfolding protect_first_def by (intro basic keeps_event keeps_attempted acts)

lemma keeps_prepare_workflow: "keeps R (prepare_workflow l d pf)"
  unfolding prepare_workflow_def by (intro basic keeps_protect acts)

lemma keeps_roll: "keeps R (roll_wait l lp)"
  unfolding roll_wait_def by (cases lp) (auto intro!: basic keeps_event split: option.splits)

lemma keeps_body: "keeps R (workflow_body l d pf)"
  unfolding workflow_body_def
  by (cases "d_lp d") (auto intro!: basic keeps_prepare_workflow keeps_enlarge keeps_removals keeps_enter keeps_roll keeps_exit)

lemma keeps_hold: "keeps R (hold l d)"
  unfolding hold_def by (intro basic acts)

lemma keeps_hold_observed: "keeps R (hold_observed l d pf t)"
  unfolding hold_observed_def by (intro basic acts)

end

text \<open>With both markers of a workflow a relation is kept by every decision.\<close>

context platform_order
begin

lemma keeps_run_workflow:
  assumes "\<And>s d. R s (put_doc workflow_file d s)" shows "keeps R (run_workflow l d pf)"
  unfolding run_workflow_def begin_workflow_def end_workflow_def store_save_def
  by (intro basic keeps_body keeps_write assms)

lemma keeps_apply:
  assumes "\<And>s d. R s (put_doc workflow_file d s)" shows "keeps R (live_apply l d)"
  unfolding live_apply_def by (intro basic keeps_hold keeps_portfolio keeps_preflight keeps_run_workflow assms)

end

end
