(* ===== verification/Lp_Live_Props.thy ===== *)
theory Lp_Live_Props
  imports Lp_Order
begin

text \<open>
  The live runner on the Uniswap V3 executor: the marker of a running workflow, what an exit and an
  entry may do, and the rules of the exchange and of the wallet kept by both together.
\<close>

definition v3_live :: "executor \<Rightarrow> client \<Rightarrow> config \<Rightarrow> libm \<Rightarrow> (nat \<Rightarrow> bool) \<Rightarrow> live" where
  "v3_live x c cfg lib e = \<lparr>lv_liquidity = executor_liquidity x, lv_hl = c, lv_cfg = cfg, lv_libm = lib, lv_expired = e\<rparr>"

lemma v3_live_sel [simp]:
  "lv_liquidity (v3_live x c cfg lib e) = executor_liquidity x" "lv_hl (v3_live x c cfg lib e) = c"
  "lv_cfg (v3_live x c cfg lib e) = cfg" "lv_libm (v3_live x c cfg lib e) = lib" "lv_expired (v3_live x c cfg lib e) = e"
  by (simp_all add: v3_live_def)

lemma executor_sel [simp]:
  "lx_refresh (executor_liquidity x) = finished (ex_refresh x)"
  "lx_snapshot (executor_liquidity x) = fresh_snapshot (ex_v3 x)"
  "lx_positions (executor_liquidity x) = current_positions x"
  "lx_balances (executor_liquidity x) = wallet (ex_v3 x) (ex_owner x)"
  "lx_mint (executor_liquidity x) y v w = finished (mint x y v w)"
  "lx_mint_bounded (executor_liquidity x) y v ws = finished (mint_plan x y v (fst ws) (Some ws))"
  "lx_increase (executor_liquidity x) p v = finished (increase x p v)"
  "lx_remove (executor_liquidity x) p = finished (remove_lp x p)"
  "lx_swap (executor_liquidity x) b a = finished (swap x b a)"
  by (simp_all add: executor_liquidity_def)

section \<open>Reading sends nothing\<close>

interpretation unsent_live: platform_reads same_sent "v3_live x c cfg lib e" for x c cfg lib e
  by unfold_locales
    (simp_all add: same_sent_def unsent.keeps_fresh_snapshot unsent.keeps_current_positions unsent.keeps_wallet)

section \<open>The marker of a workflow\<close>

lemma marker_put: "n \<noteq> ''workflow.json'' \<Longrightarrow> holds_doc ''workflow.json'' d s (put_doc n v s)"
  by (rule holds_other)

interpretation marker_tx: tx_order "holds_doc ''workflow.json'' d" for d
proof
  show "holds_doc ''workflow.json'' d s (put_doc n v s)" if "n \<in> tx_docs" for n v s
    using that by (intro marker_put) (auto simp: tx_docs_def)
qed (rule held.files_only, simp)

interpretation marker_journal: journal_order "holds_doc ''workflow.json'' d" for d
  by unfold_locales (auto intro!: marker_put dest: archive_name_prefix)

interpretation marker_reads: reading_order "holds_doc ''workflow.json'' d" for d
  by unfold_locales (auto intro!: marker_put marker_journal.keeps_observe simp: note_docs_def)

lemma marker_nonce: "keeps (holds_doc ''workflow.json'' d) (next_nonce h)"
  unfolding next_nonce_def Let_def by (intro held.keeps_flow held.keeps_write marker_put) simp

lemma marker_post: "keeps (holds_doc ''workflow.json'' d) (post c v)"
  unfolding post_def keeps_def by (auto intro: held.files_only)

lemma marker_exchange: "keeps (holds_doc ''workflow.json'' d) (exchange_inner c a hg)"
  by (intro marker_reads.keeps_signed marker_tx.keeps_tx_begin marker_tx.keeps_tx_finish marker_nonce marker_post
      marker_tx.keeps_doc marker_journal.keeps_journal) (simp add: tx_docs_def)

interpretation marker_trade: trading_order "holds_doc ''workflow.json'' d" for d
  by unfold_locales (auto intro: marker_exchange marker_journal.keeps_journal)






section \<open>An exit never enters\<close>

definition no_entry :: "live \<Rightarrow> (string \<Rightarrow> f64 \<Rightarrow> f64 \<Rightarrow> unit st) \<Rightarrow> (string \<Rightarrow> f64 \<Rightarrow> f64 \<times> f64 \<Rightarrow> unit st)
    \<Rightarrow> (lp_position \<Rightarrow> f64 \<Rightarrow> unit st) \<Rightarrow> live" where
  "no_entry l m b i = l\<lparr>lv_liquidity := (lv_liquidity l)\<lparr>lx_mint := m, lx_mint_bounded := b, lx_increase := i\<rparr>\<rparr>"

lemma no_entry_sel [simp]:
  "lx_snapshot (lv_liquidity (no_entry l m b i)) = lx_snapshot (lv_liquidity l)"
  "lx_positions (lv_liquidity (no_entry l m b i)) = lx_positions (lv_liquidity l)"
  "lx_balances (lv_liquidity (no_entry l m b i)) = lx_balances (lv_liquidity l)"
  "lx_remove (lv_liquidity (no_entry l m b i)) = lx_remove (lv_liquidity l)"
  "lx_swap (lv_liquidity (no_entry l m b i)) = lx_swap (lv_liquidity l)"
  "lv_hl (no_entry l m b i) = lv_hl l" "lv_cfg (no_entry l m b i) = lv_cfg l" "lv_expired (no_entry l m b i) = lv_expired l"
  by (simp_all add: no_entry_def)

lemma no_entry_awaited: "awaited (no_entry l m b i) bt q = awaited l bt q"
  by (simp add: awaited_def fun_eq_iff)

lemma no_entry_portfolio: "live_portfolio (no_entry l m b i) bt = live_portfolio l bt"
  by (simp add: live_portfolio_def no_entry_awaited account_row_def portfolio_of_def record_inventory_def inventory_row_def
      cong: if_cong option.case_cong)

lemma no_entry_removals: "remove_positions (no_entry l m b i) ps = remove_positions l ps"
  by (induction ps) simp_all

lemma no_entry_prepare: "prepare_workflow (no_entry l m b i) d pf = prepare_workflow l d pf"
  by (simp add: prepare_workflow_def protect_first_def live_hedge_def live_sync_def cong: if_cong sum.case_cong)

lemma no_entry_exit: "exit_inventory (no_entry l m b i) = exit_inventory l"
  by (simp add: exit_inventory_def live_hedge_def cong: if_cong)

lemma no_entry_roll: "roll_wait (no_entry l m b i) lp = roll_wait l lp"
  by (cases lp) (simp_all add: roll_wait_def cong: option.case_cong split: option.split)

text \<open>
  C33: An exit opens and enlarges nothing: what it does is the same whatever the three operations that
  put liquidity into the pool would do, for any platform, exchange and store.
\<close>

theorem exit_never_enters:
  "live_apply (no_entry l m b i) (d\<lparr>d_lp := ExitToQuote\<rparr>) s = live_apply l (d\<lparr>d_lp := ExitToQuote\<rparr>) s"
  by (simp add: live_apply_def preflight_entry_def run_workflow_def workflow_body_def begin_workflow_def end_workflow_def
      no_entry_portfolio no_entry_removals no_entry_prepare no_entry_exit no_entry_roll
      cong: if_cong)

section \<open>Before anything is bought\<close>

lemma preflightD:
  assumes "preflight_entry l d pf s = (Inr u, s')" "d_lp d = Deploy x" "pf_positions pf = []"
  shows "is_finite x \<and> 0 < x \<and> x \<le> 1 \<and> (\<exists>account. collateral_account (lv_hl l) s = (Inr account, s')
    \<and> preflight_funds l x account = Inr ())"
  using assms unfolding preflight_entry_def
  by (auto elim!: sbind_InrE simp: ensure_eq split: if_splits)

lemma fundsD:
  assumes "preflight_funds l x account = Inr u"
  shows "\<exists>co. collateral_of account = Inr co \<and> \<not> sc_hedge_collateral (lv_strategy l) < entry_collateral l x
    \<and> \<not> co_equity_usdc co < entry_collateral l x \<and> \<not> co_available_short_usdc co < entry_collateral l x"
  using assms by (auto simp: preflight_funds_def Let_def split: if_splits)

text \<open>
  C9: A first deployment that sends anything to the pool or to the exchange was sized within the budget
  and found the collateral for hedging all of it, free and unspent, before its first action.
\<close>

theorem entry_is_collateralised:
  assumes run: "live_apply (v3_live x c cfg lib e) d s = (r, s')" and lp: "d_lp d = Deploy a" and sent: "sv_sent s' \<noteq> sv_sent s"
  shows "\<exists>pf s1. live_portfolio (v3_live x c cfg lib e) False s = (Inr pf, s1) \<and> (pf_positions pf \<noteq> []
    \<or> (0 < a \<and> a \<le> 1 \<and> (\<exists>account s2 co. collateral_account c s1 = (Inr account, s2) \<and> sv_sent s2 = sv_sent s
        \<and> collateral_of account = Inr co
        \<and> \<not> sc_hedge_collateral (cf_strategy cfg) < entry_collateral (v3_live x c cfg lib e) a
        \<and> \<not> co_equity_usdc co < entry_collateral (v3_live x c cfg lib e) a
        \<and> \<not> co_available_short_usdc co < entry_collateral (v3_live x c cfg lib e) a)))"
proof -
  let ?l = "v3_live x c cfg lib e"
  from run lp have run: "sbind (live_portfolio ?l False) (\<lambda>pf. sbind (preflight_entry ?l d pf) (\<lambda>_. run_workflow ?l d pf)) s = (r, s')"
    by (simp add: live_apply_def)
  then show ?thesis
  proof (cases rule: sbind_cases)
    case (err e)
    then show ?thesis using keepsD [OF unsent_live.keeps_portfolio err(1)] sent by (simp add: same_sent_def)
  next
    case (ok pf s1)
    note a = keepsD [OF unsent_live.keeps_portfolio ok(1)]
    have p: "live_portfolio ?l False s = (Inr pf, s1)" by (rule ok(1))
    from ok(2) show ?thesis
    proof (cases rule: sbind_cases)
      case (err e)
      then show ?thesis using a keepsD [OF unsent_live.keeps_preflight err(1)] sent by (simp add: same_sent_def)
    next
      case (ok u s2)
      note b = keepsD [OF unsent_live.keeps_preflight ok(1)]
      show ?thesis
      proof (cases "pf_positions pf = []")
        case True
        from preflightD [OF ok(1) lp True] obtain account where
          q: "0 < a" "a \<le> 1" "collateral_account c s1 = (Inr account, s2)" "preflight_funds ?l a account = Inr ()" by auto
        show ?thesis using p q fundsD [OF q(4)] a b by (fastforce simp: same_sent_def)
      next
        case False
        then show ?thesis using p by blast
      qed
    qed
  qed
qed

end
