(* ===== verification/Lp_Run_Props.thy ===== *)
theory Lp_Run_Props
  imports Lp_Live_Props
begin

text \<open>
  Runs of the live runner: any sequence of decisions, holds, synchronisations, reads and
  reconciliations keeps at once the rule of the exchange (no order identifier twice) and the rules
  of the wallet (one call to a nonce, every transaction within its budget).
\<close>

section \<open>The exchange's rule\<close>

lemma spent_tx_docs: "n \<in> tx_docs \<Longrightarrow> spent_kept s (put_doc n d s)"
  by (rule spent_other) (auto simp: tx_docs_def)

lemma spent_inventory: "n \<in> inventory_docs \<Longrightarrow> spent_kept s (put_doc n d s)"
  by (rule spent_other) (auto simp: inventory_docs_def)

lemma cast_ids [simp]: "action_ids (jget (cast_entry raw) ''action'') = []"
  by (simp add: cast_entry_def jget_def action_ids_def is_order_action_def)

interpretation once_tx: tx_order once_kept
proof
  show "once_kept s (put_doc n d s)" if "n \<in> tx_docs" for n d s
    using that by (intro once_calm spent_tx_docs) (simp_all add: same_sent_def)
  show "once_kept s (s\<lparr>sv_tick := t, sv_sent := sv_sent s @ [cast_entry raw]\<rparr>)" for s t raw
  proof -
    let ?t = "s\<lparr>sv_tick := t, sv_sent := sv_sent s @ [cast_entry raw]\<rparr>"
    have "sent_ids ?t = sent_ids s" by (simp add: sent_ids_def)
    moreover have "spent_kept s ?t" by (rule spending.files_only) simp
    ultimately show ?thesis by (auto simp: once_kept_def sent_once_def spent_kept_def)
  qed
qed

interpretation once_live: platform_order once_kept "v3_live x c cfg lib e" for x c cfg lib e
proof
  show "once_kept s (put_doc n d s)" if "n \<in> inventory_docs" for n d s
    using that by (intro once_calm spent_inventory) (simp_all add: same_sent_def)
qed (simp_all add: once_steps.keeps_fresh_snapshot once_steps.keeps_current_positions once_steps.keeps_wallet mint_def swap_def
      once_tx.keeps_finished once_tx.keeps_increase once_tx.keeps_mint_plan once_tx.keeps_remove once_tx.keeps_swap)

lemma once_workflow: "once_kept s (put_doc workflow_file d s)"
  by (intro once_calm spent_other) (simp_all add: same_sent_def workflow_file_def)

section \<open>The wallet's rules\<close>

text \<open>Operations of the exchange broadcast nothing and record nothing as the wallet's.\<close>

definition uncast :: "executor \<Rightarrow> store \<Rightarrow> store \<Rightarrow> bool" where
  "uncast x s s' \<longleftrightarrow> casts x s' = casts x s \<and> floor_up s s' \<and> pend_ok x s s'"

interpretation uncasts: store_steps "uncast x" for x
proof
  show "uncast x s s'" if "sv_files s' = sv_files s" "sv_sent s' = sv_sent s" for s s'
    using that by (simp add: uncast_def casts_def up.files_only pend.files_only)
  show "uncast x s s2" if "uncast x s s1" "uncast x s1 s2" for s s1 s2
    using that unfolding uncast_def by (metis up.order_trans pend.order_trans)
qed

lemma uncast_put: "n \<noteq> ''pending.json'' \<Longrightarrow> n \<noteq> ''evm_nonce.json'' \<Longrightarrow> uncast x s (put_doc n d s)"
  by (simp add: uncast_def casts_def up_other pend_put)

lemma uncast_write: "n \<noteq> ''pending.json'' \<Longrightarrow> n \<noteq> ''evm_nonce.json'' \<Longrightarrow> keeps (uncast x) (store_write h n d)"
  by (intro uncasts.keeps_write uncast_put)

interpretation uncast_journal: journal_order "uncast x" for x
  by unfold_locales (auto intro!: uncast_put dest: archive_name_prefix)

interpretation uncast_reads: reading_order "uncast x" for x
  by unfold_locales (auto intro!: uncast_put uncast_journal.keeps_observe simp: note_docs_def)

lemma uncast_calm: "keeps (calm x) m \<Longrightarrow> keeps (uncast x) m"
  by (auto simp: keeps_def calm_def uncast_def casts_same)

lemma uncast_pending:
  "jget v ''venue'' \<noteq> JStr ''evm'' \<Longrightarrow> keeps (uncast x) (store_write h ''pending.json'' (Doc_json v))"
  by (intro uncasts.keeps_write) (simp add: uncast_def casts_def up_other pend_foreign)

lemma uncast_nonce: "keeps (uncast x) (next_nonce h)"
  unfolding next_nonce_def Let_def by (intro uncasts.basic uncast_write) simp_all

lemma uncast_slift: "(\<And>y. v = Inr y \<Longrightarrow> keeps (uncast x) (k y)) \<Longrightarrow> keeps (uncast x) (sbind (slift v) k)"
  by (cases v) (auto intro: uncasts.keeps_pure)

lemma request_no_cast: "signed_request c a n = Inr req \<Longrightarrow> cast_tx x req = None"
  by (auto simp: signed_request_def cast_tx_def jget_def)

lemma uncast_post: "cast_tx x req = None \<Longrightarrow> keeps (uncast x) (post c req)"
  by (auto simp: keeps_def post_def uncast_def casts_def up.files_only pend.files_only)

lemma uncast_begin: "jget v ''venue'' \<noteq> JStr ''evm'' \<Longrightarrow> keeps (uncast x) (store_begin h v)"
  unfolding store_begin_def by (intro uncasts.basic uncasts.keeps_event uncast_pending)

lemma pending_foreign: "jget (pending_doc req u st hg) ''venue'' \<noteq> JStr ''evm''"
  by (simp add: pending_doc_def jget_def)

lemma uncast_exchange: "keeps (uncast x) (exchange_inner c a hg)"
  unfolding exchange_inner_def record_intent_def dispatch_def
  by (intro uncasts.basic uncasts.keeps_check uncast_reads.keeps_identity uncast_nonce uncast_begin uncast_journal.keeps_journal uncast_pending
      pending_foreign uncast_calm [OF calm_finish] uncast_write uncast_slift uncast_post request_no_cast) (simp_all add: note_docs_def)

definition booked_if :: "executor \<Rightarrow> store \<Rightarrow> store \<Rightarrow> bool" where
  "booked_if x s s' \<longleftrightarrow> (lib_ok x \<longrightarrow> booked x s s')"

interpretation booked_ifs: store_steps "booked_if x" for x
  by unfold_locales (auto simp: booked_if_def intro: bookings.quiet bookings.step_trans)

lemma booked_ifI: "(lib_ok x \<Longrightarrow> keeps (booked x) m) \<Longrightarrow> keeps (booked_if x) m"
  by (auto simp: keeps_def booked_if_def)

lemma uncast_booked: "uncast x s s' \<Longrightarrow> booked x s s'"
  unfolding booked_def
proof
  assume u: "uncast x s s'" and B: "book x s"
  have c: "casts x s' = casts x s" and f: "evm_floor s \<le> evm_floor s'" and p: "pend_ok x s s'"
    using u by (simp_all add: uncast_def floor_up_def)
  show "book x s'" unfolding book_def c
  proof (intro conjI ballI allI impI)
    show "unat (tx_nonce t) < evm_floor s'" if "t \<in> casts x s" for t
      using book_below [OF B that] f by simp
    fix q o1 sg t assume q: "evm_pending s' = Some q" "decode_candidate x q = Inr (o1, sg)" "t \<in> casts x s" "tx_nonce t = tx_nonce o1"
    obtain q0 where "evm_pending s = Some q0" "decode_candidate x q = decode_candidate x q0"
      using p q(1) unfolding pend_ok_def by blast
    then show "call_of t = call_of o1" using book_pending [OF B] q by metis
  qed (use book_same [OF B] book_sound [OF B] in blast)+
qed

lemma booked_if_uncast: "keeps (uncast x) m \<Longrightarrow> keeps (booked_if x) m"
  using uncast_booked by (auto simp: keeps_def booked_if_def)

interpretation booked_if_reads: reading_order "booked_if x" for x
proof
  show "keeps (booked_if x) (journal_observe h i v)" for h i v
    by (intro booked_if_uncast uncast_journal.keeps_observe)
  show "booked_if x s (put_doc n d s)" if "n \<in> note_docs" for n d s
    using uncast_booked [OF uncast_put] that by (auto simp: booked_if_def note_docs_def)
qed

interpretation booked_if_trade: trading_order "booked_if x" for x
  by unfold_locales (intro booked_if_uncast uncast_exchange uncast_journal.keeps_journal)+

lemma booked_finished: "keeps (booked x) m \<Longrightarrow> keeps (booked x) (finished m)"
  unfolding finished_def by (intro bookings.basic)

lemma booked_if_platform: "keeps (booked_if x) (finished (increase x p v))"
    "keeps (booked_if x) (finished (mint_plan x y v w ws))"
    "keeps (booked_if x) (finished (remove_lp x p))" "keeps (booked_if x) (finished (swap_amount x b am))"
  by (intro booked_ifI booked_finished booked_increase booked_mint_plan booked_remove booked_swap; assumption)+

interpretation booked_live: platform_order "booked_if x" "v3_live x c cfg lib e" for x c cfg lib e
proof
  show "booked_if x s (put_doc n d s)" if "n \<in> inventory_docs" for n d s
    using uncast_booked [OF uncast_put] that by (auto simp: booked_if_def inventory_docs_def)
qed (simp_all add: booked_ifs.keeps_fresh_snapshot booked_ifs.keeps_current_positions booked_ifs.keeps_wallet mint_def swap_def
      booked_if_platform)

lemma booked_workflow: "booked_if x s (put_doc workflow_file d s)"
  using uncast_booked [OF uncast_put] by (simp add: booked_if_def workflow_file_def)

section \<open>Runs\<close>

datatype live_op =
    L_apply decision
  | L_hold decision portfolio u64
  | L_sync bool
  | L_portfolio bool
  | L_preflight decision portfolio
  | L_reconcile
  | L_wait string json
  | L_retry string
  | L_refresh
  | L_verify

definition unit_res :: "'a res \<times> store \<Rightarrow> unit res \<times> store" where
  "unit_res p = map_prod (map_sum id (\<lambda>_. ())) id p"

fun live_step :: "executor \<Rightarrow> live \<Rightarrow> live_op \<Rightarrow> store \<Rightarrow> unit res \<times> store" where
  "live_step x l (L_apply d) s = live_apply l d s"
| "live_step x l (L_hold d pf t) s = hold_observed l d pf t s"
| "live_step x l (L_sync b) s = live_sync l b s"
| "live_step x l (L_portfolio b) s = unit_res (live_portfolio l b s)"
| "live_step x l (L_preflight d pf) s = preflight_entry l d pf s"
| "live_step x l L_reconcile s = unit_res (reconcile (lv_hl l) s)"
| "live_step x l (L_wait hash op) s = unit_res (wait_receipt x hash op s)"
| "live_step x l (L_retry hash) s = unit_res (retry_approval x hash s)"
| "live_step x l L_refresh s = unit_res (ex_refresh x s)"
| "live_step x l L_verify s = verify_inventory x s"

lemma unit_resD: "unit_res (m s) = (r, s') \<Longrightarrow> keeps R m \<Longrightarrow> R s s'"
  by (cases "m s") (auto simp: unit_res_def dest: keepsD)

lemma once_live_step:
  assumes "live_step x (v3_live x c cfg lib e) a s = (r, s')" shows "once_kept s s'"
proof -
  note ks = keepsD [OF once_live.keeps_apply [OF once_workflow]] keepsD [OF once_live.keeps_hold_observed]
    keepsD [OF once_live.keeps_live_sync] unit_resD [OF _ once_live.keeps_portfolio] keepsD [OF once_live.keeps_preflight]
    unit_resD [OF _ once_reconcile] unit_resD [OF _ once_tx.keeps_wait] unit_resD [OF _ once_tx.keeps_refresh]
    unit_resD [OF _ once_tx.keeps_retry] keepsD [OF once_tx.keeps_verify_inventory]
  show ?thesis using assms by (cases a) (auto intro: ks)
qed

lemma booked_reconcile: "keeps (booked_if x) (reconcile c)"
  by (rule booked_if_reads.keeps_reconcile)
    (intro booked_if_uncast uncast_calm calm_finish uncast_journal.keeps_journal)+

lemma booked_live_step:
  assumes "live_step x (v3_live x c cfg lib e) a s = (r, s')" shows "booked_if x s s'"
proof -
  have w: "keeps (booked_if x) (wait_receipt x h op)" "keeps (booked_if x) (ex_refresh x)" "keeps (booked_if x) (verify_inventory x)"
    "keeps (booked_if x) (retry_approval x h)" for h op
    by (intro booked_ifI booked_calm calm_wait calm_refresh booked_inventory booked_retry; assumption)+
  note ks = keepsD [OF booked_live.keeps_apply [OF booked_workflow]] keepsD [OF booked_live.keeps_hold_observed]
    keepsD [OF booked_live.keeps_live_sync] unit_resD [OF _ booked_live.keeps_portfolio] keepsD [OF booked_live.keeps_preflight]
    unit_resD [OF _ booked_reconcile] unit_resD [OF _ w(1)] unit_resD [OF _ w(2)] unit_resD [OF _ w(4)] keepsD [OF w(3)]
  show ?thesis using assms by (cases a) (auto intro: ks)
qed

lemma live_run:
  assumes "run_ops (live_step x (v3_live x c cfg lib e)) ops s = (rs, s')"
  shows "once_kept s s'" "booked_if x s s'"
proof -
  show "once_kept s s'"
    by (rule run_ops_keeps [OF _ _ _ assms]) (auto dest: once_live_step simp: once_kept_def)
  show "booked_if x s s'"
    by (rule run_ops_keeps [OF _ _ _ assms]) (auto dest: booked_live_step intro: booked_ifs.quiet booked_ifs.step_trans)
qed

text \<open>
  C14: Over any run of the live runner on one store, mixing decisions, holds, synchronisations, reads and
  reconciliations after any failure: no order identifier reaches the exchange twice, no nonce of the
  wallet ever carries two different calls, and every transaction broadcast is one of the configured
  contracts', without value and within the gas budget.
\<close>

theorem live_run_safe:
  assumes "run_ops (live_step x (v3_live x c cfg lib e)) ops s = (rs, s')" "lib_ok x" "sv_sent s = []"
  shows "distinct (sent_ids s') \<and> (\<forall>t \<in> casts x s'. sound_tx x t)
    \<and> (\<forall>t \<in> casts x s'. \<forall>u \<in> casts x s'. tx_nonce t = tx_nonce u \<longrightarrow> call_of t = call_of u)"
proof -
  have "sent_once s" using assms(3) by (simp add: sent_once_def sent_ids_def)
  then have "distinct (sent_ids s')" using live_run(1) [OF assms(1)] by (simp add: once_kept_def sent_once_def)
  moreover have "book x s'"
    using live_run(2) [OF assms(1)] book_fresh [OF assms(3)] assms(2) by (simp add: booked_if_def booked_def)
  ultimately show ?thesis using book_sound book_same by blast
qed

end
