(* ===== verification/Lp_Samples.thy ===== *)
theory Lp_Samples
  imports Lp_Run_Props V3_Tx_Samples Hl_Samples Restart_Samples
begin

text \<open>
  The theorems about the live runner at one concrete wallet and exchange: an entry with one unit of
  the base token in the wallet, whose first hedging order is sent and never answered.
\<close>

definition lp_snap :: pool_snapshot where
  "lp_snap = \<lparr>ps_block = 1, ps_block_hash = ''0xb'', ps_time_ms = 1000, ps_price = Fin 20, ps_tick = 0, ps_tick_spacing = 60,
     ps_liquidity = ''1'', ps_sqrt_price_x96 = ''1'', ps_base_is_token0 = True\<rparr>"

definition one_word :: string where
  "one_word = ''0x0000000000000000000000000000000000000000000000000000000000000001''"

definition lp_node :: node where
  "lp_node = \<lparr>nd_request = (\<lambda>t meth params. if meth = ''eth_call'' then Inr (JStr one_word) else nd_request (sample_node False) t meth params)\<rparr>"

definition lp_executor :: executor where
  "lp_executor = \<lparr>ex_v3 = (sample_v3 False)\<lparr>v3_node := lp_node,
     v3_cache := sample_cache\<lparr>cv_snapshot := (\<lambda>t. Some lp_snap)\<rparr>\<rparr>, ex_owner = 42, ex_host = sample_host, ex_txs = sample_txs, ex_mono = (\<lambda>t. 0)\<rparr>"

abbreviation lp_live :: live where
  "lp_live \<equiv> v3_live lp_executor sample_lossy (sample_config Live) (el_libm sample_lib) (\<lambda>n. False)"

definition lp_entry :: decision where
  "lp_entry = \<lparr>d_state = ''Active'', d_reasons = [], d_lp = Deploy (Fin (1 / 32)), d_target_short_base = 0, d_emergency = False\<rparr>"

definition L0 :: store where
  "L0 = sample_tx_store"

definition lp_account :: json where
  "lp_account = JObj [(''assetPositions'', JArr []), (''marginSummary'', JObj [(''accountValue'', JNum (Float (Fin 21)))]),
     (''withdrawable'', JNum (Float (Fin 20))),
     (''lpMakerCollateral'', JObj [(''account_mode'', JStr ''default''), (''source'', JStr ''native clearinghouseState accountValue/withdrawable''),
        (''coin'', JStr ''ETH''), (''equity_usdc'', JNum (Float (Fin 21))), (''available_buy_usdc'', JNum (Float (Fin 20))),
        (''available_short_usdc'', JNum (Float (Fin 20)))]),
     (''accountObservedMs'', JNum (PosInt 1000))]"

definition lp_pf :: portfolio where
  "lp_pf = \<lparr>pf_positions = [], pf_wallet_base = 1, pf_wallet_quote = 1, pf_short_base = - 0, pf_hedge_equity = Fin 21,
     pf_reserve = sc_reserve cfg0\<rparr>"

lemma lp_s1: "current_positions lp_executor L0 = (Inr [], L0)"
  by (rule every_test, code_simp, simp?)

lemma lp_s2: "wallet (ex_v3 lp_executor) (ex_owner lp_executor) L0 = (Inr (1, 1), L0\<lparr>sv_tick := 2\<rparr>)"
  by (rule every_test, code_simp, simp?)

lemma lp_s3: "fst (collateral_account sample_lossy (L0\<lparr>sv_tick := 2\<rparr>)) = Inr lp_account"
  by code_simp

lemma lp_s4: "snd (collateral_account sample_lossy (L0\<lparr>sv_tick := 2\<rparr>)) = L0\<lparr>sv_tick := 6\<rparr>"
  by (rule every_test, code_simp, simp?)

lemma lp_p: "position_size lp_account ''ETH'' = Inr 0"
  by code_simp

lemma lp_co: "collateral_of lp_account = Inr \<lparr>co_account_mode = ''default'',
    co_source = ''native clearinghouseState accountValue/withdrawable'', co_coin = ''ETH'', co_equity_usdc = Fin 21,
    co_available_buy_usdc = Fin 20, co_available_short_usdc = Fin 20\<rparr>"
  by (simp add: collateral_of_def lp_account_def jget_def)

lemma lp_cfg: "lv_coin lp_live = ''ETH''" "lv_strategy lp_live = cfg0"
  by (simp_all add: sample_config_def sample_lossy_def sample_client_def sample_exchange_cfg_def)

lemma lp_neg: "(0 :: f64) \<le> 0"
  by code_simp

lemma lp_pf1: "portfolio_of lp_live [] (1, 1) lp_account = Inr lp_pf"
  unfolding portfolio_of_def lp_cfg lp_p lp_co lp_neg
  by (simp add: ensure_eq lp_neg lp_pf_def lp_account_def jget_def)

definition lp_docs :: "nat \<Rightarrow> (string \<times> doc) list \<Rightarrow> store" where
  "lp_docs n fs = L0\<lparr>sv_tick := n, sv_files := fs\<rparr>"

lemma lp_write: "store_write (cl_host sample_lossy) name d (lp_docs n fs) = (Inr (), lp_docs (Suc n) (assoc_put name d fs))"
  by (simp add: store_write_def sbind_eq sread_def do_io_def put_doc_def lp_docs_def L0_def sample_tx_store_def sample_store_def
      sample_lossy_def sample_client_def sample_host_def ensure_def)

lemma lp_save: "store_save (cl_host sample_lossy) name d (lp_docs n fs) = (Inr (), lp_docs (Suc n) (assoc_put name d fs))"
  by (simp add: store_save_def lp_write) (simp add: sample_lossy_def sample_client_def sample_host_def)

lemma lp_now: "host_now (cl_host sample_lossy) (lp_docs n fs) = (Inr 1000, lp_docs (Suc n) fs)"
  by (simp add: host_now_def lp_docs_def sample_lossy_def sample_client_def sample_host_def)

lemma lp_read: "sread (read_json n) s = (read_json n s, s)"
  by (simp add: sread_def)

lemma lp_find: "find_doc n (lp_docs k fs) = (case map_of fs n of None \<Rightarrow> None | Some d \<Rightarrow> if is_null_doc d then None else Some d)"
  "sv_tick (lp_docs k fs) = k"
  by (simp_all add: find_doc_def lp_docs_def)

lemma lp_user: "client_user sample_lossy = Inr ''0xab''"
  by code_simp

lemma lp_L: "L0 = lp_docs 0 []" "(lp_docs n fs)\<lparr>sv_tick := m\<rparr> = lp_docs m fs"
  by (simp_all add: lp_docs_def L0_def sample_tx_store_def sample_store_def)

lemma lp_acc: "collateral_account sample_lossy (lp_docs 2 []) = (Inr lp_account, lp_docs 6 [])"
  using lp_s3 lp_s4 by (simp add: prod_eq_iff lp_L)

lemma lp_portfolio:
  "\<exists>a b. live_portfolio lp_live False L0 = (Inr lp_pf, lp_docs 10 [(''account_snapshot.json'', Doc_json a), (''live_inventory.json'', Doc_json b)])"
  unfolding live_portfolio_def record_inventory_def account_row_def inventory_row_def awaited_def
  using lp_s1 lp_s2 
  by (simp add: lp_L sbind_eq [abs_def] lp_acc lp_now lp_save lp_user lp_pf1 lp_read read_json_def lp_find, blast)

text \<open>The answers of the exchange do not depend on what the store holds.\<close>

lemma lp_hedge_reads:
  "fst (collateral_account sample_lossy (lp_docs n fs)) = Inr lp_account"
  by code_simp

lemma lp_hedge_reads2:
  "snd (collateral_account sample_lossy (lp_docs n fs)) = lp_docs (Suc (Suc (Suc (Suc n)))) fs"
  by (rule every_test, code_simp, simp?)

lemma lp_hedge_reads3:
  "fst (client_book sample_lossy ''ETH'' (lp_docs n fs)) = Inr (Fin 20, Fin 21, 1000)"
  by code_simp

lemma lp_hedge_reads4:
  "snd (client_book sample_lossy ''ETH'' (lp_docs n fs)) = lp_docs (Suc n) fs"
  by (rule every_test, code_simp, simp?)

lemma lp_hedge_reads5:
  "check_fresh sample_lossy cfg0 1000 (lp_docs n fs) = (Inr (), lp_docs (Suc n) fs)"
  by (rule every_test, code_simp, simp?)

lemma lp_again: "collateral_account sample_lossy (lp_docs n fs) = (Inr lp_account, lp_docs (Suc (Suc (Suc (Suc n)))) fs)"
  by (simp add: prod_eq_iff lp_hedge_reads lp_hedge_reads2)

lemma lp_book: "client_book sample_lossy ''ETH'' (lp_docs n fs) = (Inr (Fin 20, Fin 21, 1000), lp_docs (Suc n) fs)"
  by (simp add: prod_eq_iff lp_hedge_reads3 lp_hedge_reads4)

lemma lp_required:
  "entry_collateral lp_live x = sc_lp_budget cfg0 * x / f_of_word (2 :: 32 word) / lit 0.9"
  by (simp add: entry_collateral_def sample_config_def sample_exchange_cfg_def)

lemma lp_enough:
  "\<not> sc_hedge_collateral cfg0 < sc_lp_budget cfg0 * Fin (1 / 32) / f_of_word (2 :: 32 word) / lit 0.9"
  "\<not> Fin 21 < sc_lp_budget cfg0 * Fin (1 / 32) / f_of_word (2 :: 32 word) / lit 0.9"
  "\<not> Fin 20 < sc_lp_budget cfg0 * Fin (1 / 32) / f_of_word (2 :: 32 word) / lit 0.9"
  "is_finite (Fin 21)" "is_finite (Fin 20)"
  by code_simp+

lemma lp_funds: "preflight_funds lp_live (Fin (1 / 32)) lp_account = Inr ()"
  unfolding preflight_funds_def lp_co lp_required Let_def lp_cfg by (simp add: ensure_eq lp_enough)

lemma lp_budget: "hedge_budget sample_lossy cfg0 lp_account 1 1 (Fin (41 / 2)) = Inr ()"
  by code_simp

lemma lp_hedge:
  "hedge sample_lossy cfg0 1 True (lp_docs n fs)
    = hedge_execute sample_lossy cfg0 1 True (- 0) (Fin 20) (Fin 21) 1000 (lp_docs (Suc (Suc (Suc (Suc (Suc (Suc n)))))) fs)"
proof -
  have v: "is_finite (1 :: f64) \<and> 0 \<le> (1 :: f64)" "(0 :: f64) \<le> 0" "(1 :: f64) - (- 0) = 1"
    "(Fin 20 + Fin 21) / lit 2 = Fin (41 / 2)" "\<not> 1 * Fin (41 / 2) < lit 0.01"
    "\<not> \<bar>1\<bar> * Fin (41 / 2) < hedge_threshold cfg0 1 True" "hc_hedge_coin (cl_cfg sample_lossy) = ''ETH''"
    by code_simp+
  show ?thesis
    unfolding hedge_def hedge_decide_def Let_def v(7)
    by (simp only: v(1,2) lp_again lp_book lp_hedge_reads5 lp_p lp_budget sbind_go sbind_pure ensure_def if_True prod.case v(3,4) if_not_P [OF v(5)] if_not_P [OF v(6)]
        rbind_simps refl simp_thms)
qed

definition lp_begun :: "json \<Rightarrow> json \<Rightarrow> json \<Rightarrow> store" where
  "lp_begun a b w = lp_docs 22 [(''account_snapshot.json'', Doc_json a), (''live_inventory.json'', Doc_json b), (''workflow.json'', Doc_json w)]"

lemma lp_sends: "length (sv_sent (snd (hedge_execute sample_lossy cfg0 1 True (- 0) (Fin 20) (Fin 21) 1000 (lp_begun a b w)))) = 1"
  by code_simp

lemma lp_fails: "isl (fst (hedge_execute sample_lossy cfg0 1 True (- 0) (Fin 20) (Fin 21) 1000 (lp_begun a b w)))"
  by code_simp

lemma lp_begins:
  "\<exists>w. begin_workflow lp_live d (lp_docs 14 [(''account_snapshot.json'', a), (''live_inventory.json'', b)])
    = (Inr (), lp_docs 16 [(''account_snapshot.json'', a), (''live_inventory.json'', b), (''workflow.json'', Doc_json w)])"
  by (simp add: begin_workflow_def sbind_eq workflow_file_def lp_save lp_find lp_L, blast?)

lemma lp_preflight: "preflight_entry lp_live lp_entry lp_pf (lp_docs n fs) = (Inr (), lp_docs (Suc (Suc (Suc (Suc n)))) fs)"
proof -
  have "is_finite (Fin (1 / 32)) \<and> 0 < Fin (1 / 32) \<and> Fin (1 / 32) \<le> 1" by code_simp
  then show ?thesis by (simp add: preflight_entry_def lp_entry_def lp_pf_def sbind_eq ensure_eq lp_again lp_funds)
qed

lemma lp_plain: "band_config_of cfg0 = None" "pf_base lp_pf = 1"
  by code_simp+

lemma lp_hedged:
  "\<exists>e s'. hedge sample_lossy cfg0 1 True (lp_docs 16 [(''account_snapshot.json'', Doc_json a), (''live_inventory.json'', Doc_json b),
      (''workflow.json'', Doc_json w)]) = (Inl e, s') \<and> length (sv_sent s') = 1"
proof -
  let ?r = "hedge_execute sample_lossy cfg0 1 True (- 0) (Fin 20) (Fin 21) 1000 (lp_begun a b w)"
  from lp_fails [of a b w] obtain e where "fst ?r = Inl e" by (auto simp: isl_def)
  then have "?r = (Inl e, snd ?r)" by (simp add: prod_eq_iff)
  then show ?thesis using lp_sends [of a b w] by (auto simp: lp_hedge lp_begun_def)
qed

lemma lp_entered: "\<exists>e s'. live_apply lp_live lp_entry L0 = (Inl e, s') \<and> length (sv_sent s') = 1"
proof -
  obtain a b where p: "live_portfolio lp_live False L0 = (Inr lp_pf, lp_docs 10 [(''account_snapshot.json'', Doc_json a), (''live_inventory.json'', Doc_json b)])"
    using lp_portfolio by blast
  obtain w where w: "begin_workflow lp_live lp_entry (lp_docs 14 [(''account_snapshot.json'', Doc_json a), (''live_inventory.json'', Doc_json b)])
    = (Inr (), lp_docs 16 [(''account_snapshot.json'', Doc_json a), (''live_inventory.json'', Doc_json b), (''workflow.json'', Doc_json w)])"
    using lp_begins by blast
  obtain e s' where h: "hedge sample_lossy cfg0 1 True (lp_docs 16 [(''account_snapshot.json'', Doc_json a), (''live_inventory.json'', Doc_json b),
      (''workflow.json'', Doc_json w)]) = (Inl e, s')" "length (sv_sent s') = 1"
    using lp_hedged by blast
  have d: "d_lp lp_entry \<noteq> Hold" "d_lp lp_entry \<noteq> ExitToQuote" by (simp_all add: lp_entry_def)
  have "live_apply lp_live lp_entry L0 = (Inl e, s')"
    by (cases e) (simp_all add: live_apply_def d run_workflow_def workflow_body_def prepare_workflow_def protect_first_def attempted_def live_hedge_def
        sbind_eq p lp_preflight w h lp_cfg [simplified] lp_plain)
  then show ?thesis using h(2) by blast
qed


theorem entry_is_collateralised_witness:
  "\<exists>account co. collateral_of account = Inr co \<and> \<not> co_available_short_usdc co < entry_collateral lp_live (Fin (1 / 32))
     \<and> sv_sent (snd (live_apply lp_live lp_entry L0)) \<noteq> []"
proof -
  obtain e s' where r: "live_apply lp_live lp_entry L0 = (Inl e, s')" "length (sv_sent s') = 1" using lp_entered by blast
  then have n: "sv_sent s' \<noteq> sv_sent L0" "sv_sent s' \<noteq> []" by (auto simp: L0_def sample_tx_store_def sample_store_def)
  obtain s1 where p: "live_portfolio lp_live False L0 = (Inr lp_pf, s1)" using lp_portfolio by blast
  have "d_lp lp_entry = Deploy (Fin (1 / 32))" by (simp add: lp_entry_def)
  from entry_is_collateralised [OF r(1) this n(1)] p show ?thesis using r(1) n(2) by (auto simp: lp_pf_def)
qed

lemma lp_lib_ok: "lib_ok lp_executor"
  by (auto simp: lib_ok_def lp_executor_def sample_v3_def sample_lib_def sample_txs_def sample_hex_ok split: if_splits)

theorem live_run_safe_witness:
  "distinct (sent_ids (snd (run_ops (live_step lp_executor lp_live) [L_apply lp_entry, L_apply lp_entry, L_reconcile] L0)))"
proof -
  have "sv_sent L0 = []" by (simp add: L0_def sample_tx_store_def sample_store_def)
  from live_run_safe [OF surj_run [OF refl] lp_lib_ok this] show ?thesis by blast
qed

end
