(* ===== verification/Spec2Isabelle.thy ===== *)
theory Spec2Isabelle
  imports Eth_Samples V3_Samples Hl_Samples Evm_Samples Restart_Samples V3_Tx_Samples Lp_Samples
begin

text \<open>
  A verification library for LpMaker, a bot that provides liquidity in one Uniswap V3 pool and
  hedges the price risk with a short position on an exchange. All paths below are under \<open>src/src/\<close>.

  \<^bold>\<open>The program.\<close> A cycle of the engine reads a market frame (pool, hedge price, hourly candles,
  portfolio), asks the strategy for a decision (hold, exit, deploy a fraction, recenter ranges; a
  hedge target), and the live runner carries it out: transactions against the V3 position manager
  with exact integer minimum amounts, and orders on the exchange. Everything that must survive a
  crash is in a store directory: the checkpoint of the strategy, the one pending operation, the marker
  of a running workflow, the wallet's nonce, the ledger of orders with its archive, an event log.

  \<^bold>\<open>One state, many steps.\<close> An operation with effects is a function of type \<open>'a st\<close>: it takes the store and
  gives a result (\<open>Inl\<close> an error, \<open>Inr\<close> a value) and the store it leaves, also when it fails. The field
  \<open>sv_sent\<close> lists everything that left the process, signed requests to the exchange and raw transactions
  alike, in order; \<open>sv_tick\<close> counts the effects, so that clocks, answers and failures, which are functions of it,
  may change at every step. A theorem over a run (\<open>run_ops\<close>) is thus about every interleaving
  of the operations one process can execute, with a crash or failure at any step.

  \<^bold>\<open>Foundations.\<close>
  \<^item> \<open>Prelude\<close>: machine integers as words with Rust's wrapping, checked and saturating operations;
    errors as values (\<open>err\<close>), among them \<open>Panic\<close>, which aborts; decimal text; integer roots.
  \<^item> \<open>F64\<close>, \<open>F64_Facts\<close>: IEEE double arithmetic on rationals with rounding to nearest even,
    infinities, signed zero and NaN. \<open>Json\<close>: JSON values and their accessors.
  \<^item> \<open>Config\<close>, \<open>Config_Validate\<close> (\<open>config.rs\<close>, \<open>liquidity/chains\<close>): every configuration record, its
    defaults, the registered chains and pools and the whole validation.
  \<^item> \<open>Store\<close>, \<open>Store_Facts\<close>, \<open>Store_Props\<close>, \<open>State_Docs\<close> (\<open>store.rs\<close> and the documents of other files): the
    durable store: documents, event log with rotation, archive, pending slot, exchange nonce. A file
    operation is done, fails without effect, or fails after its effect, as the host decides. The locale
    \<open>store_steps\<close> turns a relation respected by each step into one kept by every operation; \<open>store_order\<close> is
    the stronger contract of relations on the files alone.

  \<^bold>\<open>Decisions.\<close>
  \<^item> \<open>Domain\<close>, \<open>Indicators\<close> (\<open>domain.rs\<close>, \<open>math.rs\<close>, \<open>strategy/indicators.rs\<close>).
  \<^item> \<open>Strategy_State\<close>, \<open>Strategy\<close>, \<open>Strategy_Facts\<close>, \<open>Strategy_Props\<close>, \<open>Samples\<close> (\<open>strategy/mod.rs\<close>,
    \<open>strategy/progress.rs\<close>): one evaluation of the range strategy, every branch, and its theorems.
  \<^item> \<open>Eth_Profile\<close>, \<open>Eth_Facts\<close>, \<open>Eth_Samples\<close> (\<open>strategy/eth/mod.rs\<close>, \<open>strategy/eth/band.rs\<close>): the two
    Ethereum profiles.
  \<^item> \<open>Risk_Machine\<close>: the contract both strategies share, as locales: a tripped risk limit halts for
    good, a peak never falls, a history is never lost. It is interpreted on both evaluations.
  \<^item> \<open>Paper_Ledger\<close> (\<open>engine/paper.rs\<close>): the simulated ledger.

  \<^bold>\<open>Restarts.\<close>
  \<^item> \<open>Recovery\<close>, \<open>Recovery_Props\<close> (\<open>recovery.rs\<close>): checkpoint, loading, baseline and history of entries.
  \<^item> \<open>Entry_Rearm\<close>, \<open>Entry_Rearm_Props\<close> (\<open>engine/entry_rearm.rs\<close>): the operator's permit for one entry.
  \<^item> \<open>Runtime\<close> (\<open>runtime.rs\<close>): which reads are repeated, how long the pauses are, the health record. The
    loop is a \<open>partial_function\<close>, so that returning is a theorem. \<open>Restart_Samples\<close> has the witnesses.

  \<^bold>\<open>The exchange.\<close>
  \<^item> \<open>Hl_Orders\<close>, \<open>Hl_Client\<close>, \<open>Hl_Account\<close> (\<open>hyperliquid/orders.rs\<close>, \<open>mod.rs\<close>, \<open>auth.rs\<close>, \<open>account.rs\<close>): the text
    of orders, reads with bounded retries, signed requests with what is recorded around them, collateral.
  \<^item> \<open>Hl_Journal\<close>, \<open>Hl_Journal_Props\<close> (\<open>hyperliquid/journal.rs\<close>): the ledger of orders.
  \<^item> \<open>Hl_Hedge\<close> (\<open>hyperliquid/hedge.rs\<close>, \<open>order_recovery.rs\<close>): the controller, the recovery of orders of unknown
    fate, synchronisation, reconciliation.
  \<^item> \<open>Venue_Order\<close>: a hierarchy of locales, one per level of trading (ledger, reads, cancelling, hedging,
    everything): a relation on stores that the steps below respect is kept by every operation of the level.
    It is interpreted with each invariant of \<open>Hl_Client_Props\<close>, \<open>Hl_Trade_Props\<close> (nothing sent twice, write-ahead),
    \<open>Hl_Sync_Props\<close> (type of the ledger, synchronisation) and \<open>Hl_Hedge_Props\<close> (the guards of an order).
  \<^item> \<open>Hl_Samples\<close>, \<open>Store_Samples\<close>: a concrete exchange and store.

  \<^bold>\<open>The node and the wallet.\<close>
  \<^item> \<open>Evm_Gate\<close> (\<open>evm/rpc/limit.rs\<close>): the shared rate limit, as interleaved steps of tasks. \<open>Evm_Gate_Props\<close>
    proves the spacing and the refinement of an abstract pacer; \<open>Evm_Gate_Live\<close> that under fair
    schedules no request waits for ever.
  \<^item> \<open>Evm_Rpc\<close> (\<open>evm/rpc.rs\<close>): attempts, classification of errors, words. \<open>Evm_Fees\<close> (\<open>evm/fees.rs\<close>,
    \<open>liquidity/chains/base/fees.rs\<close>): fee caps and replacements. \<open>Evm_Samples\<close>: witnesses.
  \<^item> \<open>Nonce_Book\<close>: the contract of a nonce source, interpreted on the exchange nonce in \<open>Store_Props\<close>
    and on the wallet's nonce manager in \<open>Evm_Nonce_Props\<close> (\<open>evm/nonce.rs\<close>, modelled in \<open>Evm_Nonce\<close>).

  \<^bold>\<open>The pool.\<close>
  \<^item> \<open>V3_Math\<close>, \<open>V3_Facts\<close>, \<open>V3_Ticks\<close>, \<open>V3_Props\<close> (\<open>liquidity/uniswap_v3/slippage.rs\<close>): TickMath, price
    bounds, liquidity and amounts in 256 and 512 bits. \<open>V3_Ticks\<close> proves TickMath strictly increasing
    on all its ticks by comparing the bit loops of neighbouring ticks.
  \<^item> \<open>V3_Exec\<close>, \<open>V3_Exec_Facts\<close>, \<open>V3_Samples\<close> (\<open>dust.rs\<close>, \<open>mint.rs\<close>, \<open>quote.rs\<close> and the units and fee
    accounting of \<open>mod.rs\<close> there): what is computed around a transaction.
  \<^item> \<open>V3_Adapter\<close> (\<open>liquidity/uniswap_v3/mod.rs\<close>): every read of the pool, the wallet and the positions.
  \<^item> \<open>V3_Tx\<close>, \<open>V3_Executor\<close> (\<open>tx.rs\<close>, \<open>approval_recovery.rs\<close> there): quoting, signing, recording and broadcasting
    a transaction, the wait for its receipt, the replacement of a stuck approval, and on top of them
    approvals, mint, increase, removal and swaps.
  \<^item> \<open>V3_Reads\<close>, \<open>V3_Tx_Props\<close>, \<open>V3_Run_Props\<close>, \<open>V3_Receipt_Props\<close>: what they keep. The invariant \<open>book\<close> relates the
    durable nonce, the pending record and all broadcasts of a run: one call to a nonce, every transaction
    sound. A receipt that is returned is final. \<open>V3_Tx_Samples\<close>: a concrete wallet.

  \<^bold>\<open>The live runner.\<close>
  \<^item> \<open>Lp_Live\<close> (\<open>engine/live.rs\<close>): the inventory, the guards of an entry, the execution of a decision. The
    platform is the record \<open>liquidity\<close> (the trait in \<open>domain.rs\<close>), provided by \<open>executor_liquidity\<close>.
  \<^item> \<open>Lp_Order\<close>: the locales \<open>tx_order\<close> (executor), \<open>platform_reads\<close> and \<open>platform_order\<close> (runner), built on those of
    \<open>Venue_Order\<close>, interpreted on the executor with the marker of a workflow and with the invariants of the exchange
    and of the wallet.
  \<^item> \<open>Lp_Live_Props\<close>: marked effects, collateral before an entry, exits that enter nothing. \<open>Lp_Run_Props\<close>: any
    run of the runner keeps the rules of the exchange and of the wallet at once. \<open>Lp_Samples\<close>: witnesses.

  \<^bold>\<open>Parameters.\<close> Code outside the repository is an argument: \<open>libm\<close> (logarithms, powers), \<open>decimal_lib\<close>
  and \<open>u256_text\<close> (decimal numbers and integers as text), \<open>venue\<close> (transport, signatures and addresses of
  the exchange), \<open>node\<close> (the answers of a node to the executor), \<open>evm_lib\<close> and \<open>tx_lib\<close> (hashing, hexadecimal text,
  encoding, signing and decoding of transactions), \<open>host\<close> (clock, identifiers, file operations, and \<open>ho_reload\<close>,
  what a written value with numbers reads back as). What is relied on is a named hypothesis of the
  theorems, such as \<open>lib_ok\<close>, and has a concrete instance in the samples. \<open>cache_view\<close> is what the observation
  cache shared with the stream holds at a moment.

  \<^bold>\<open>Conventions and bounds.\<close> Integers keep their width and wrap as in the release profile. An instant of
  the gate counts nanoseconds. Locks are not modelled: an operation under a lock is one step. Log lines are
  left out and messages outside ASCII are translated. Recursions are structural or have proved measures; the
  two counted loops have the bounds of the code itself, not a fuel: ninety rounds of waiting for a receipt
  (\<open>wait_rounds\<close>) and five attempts to learn the fate of an order (\<open>resolve_attempts\<close>).

  \<^bold>\<open>Limits of the model.\<close> A sleep does nothing but let the clock advance, also the wait for a passive order
  and between leaving and entering a range. That a broadcast invalidates the observation cache is not stated, since
  the cache is arbitrary. An observation batch whose time is up is abandoned where it waits. One text
  stands for an address in both of its letter cases. The pending record and the pointer to the hedge order
  are read back as written, while checkpoints, workflow markers and inventories are read back through \<open>ho_reload\<close>.
  A receipt, an account or a quoted book is what the node or the exchange says; their truth is not claimed.

  \<^bold>\<open>Not modelled.\<close> Network transport, the streams with their observation cache and the import of pool events,
  the engine's cycle around the strategy and the runner, reset and migration commands, the Solana research
  programs, monitoring, display, logging and the command lines.
\<close>

end
